(* ===== verification/Gateway_Prelude.thy ===== *)
theory Gateway_Prelude
  imports Complex_Main "HOL-Library.AList" "HOL-Library.List_Lexorder" "HOL-Library.Char_ord"
    "HOL-Library.Sublist" "HOL-Library.Product_Lexorder"
begin

text \<open>
  Prelude of the development: the collections the component theories add their
  equations to, Python's conventions on strings, options, slices and dictionaries,
  the error-as-value combinators the validators and handlers are composed with, and the
  contract of a string enumeration (Python's \<open>StrEnum\<close>).

  Python strings are \<open>string\<close> (lists of 8-bit characters); a \<open>dict\<close> that the code
  iterates over is an association list in insertion order whose look-up is
  \<open>map_of\<close> and whose store is \<open>AList.update\<close>, which replaces in place or appends,
  as Python's does; sorting uses the lexicographic order on characters.
\<close>

named_theorems model_defs \<open>unfolding equations of the operations of the model\<close>

section \<open>Error values\<close>

text \<open>
  A computation that may raise returns \<open>Inl\<close> of the exception or \<open>Inr\<close> of the
  result. \<open>guard_that\<close> is the early exit \<open>if not c: raise e\<close>; \<open>seq_checks\<close> runs a
  list of checks and stops at the first that fails, as consecutive raises do.
\<close>

definition guard_that :: "bool \<Rightarrow> 'e \<Rightarrow> 'e + unit" where
  "guard_that c e = (if c then Inr () else Inl e)"

fun seq_checks :: "('e + unit) list \<Rightarrow> 'e + unit" where
  "seq_checks [] = Inr ()"
| "seq_checks (Inl e # cs) = Inl e"
| "seq_checks (Inr u # cs) = seq_checks cs"

fun bind_res :: "'e + 'a \<Rightarrow> ('a \<Rightarrow> 'e + 'b) \<Rightarrow> 'e + 'b" where
  "bind_res (Inl e) f = Inl e"
| "bind_res (Inr x) f = f x"

fun traverse :: "('a \<Rightarrow> 'e + 'b) \<Rightarrow> 'a list \<Rightarrow> 'e + 'b list" where
  "traverse f [] = Inr []"
| "traverse f (x # xs) =
     bind_res (f x) (\<lambda>y. bind_res (traverse f xs) (\<lambda>ys. Inr (y # ys)))"

lemma guard_that_Inr [simp]: "guard_that c e = Inr u \<longleftrightarrow> c"
  by (simp add: guard_that_def)

lemma guard_that_Inl [simp]: "guard_that c e = Inl e' \<longleftrightarrow> \<not> c \<and> e' = e"
  by (auto simp: guard_that_def)

lemma seq_checks_Inr: "seq_checks cs = Inr u \<longleftrightarrow> (\<forall>c \<in> set cs. \<exists>v. c = Inr v)"
  by (induction cs rule: seq_checks.induct) auto

lemma seq_checks_Cons_Inr [simp]:
  "seq_checks (c # cs) = Inr () \<longleftrightarrow> c = Inr () \<and> seq_checks cs = Inr ()"
  by (cases c) simp_all

lemma seq_checks_append_Inr [simp]:
  "seq_checks (cs @ ds) = Inr () \<longleftrightarrow> seq_checks cs = Inr () \<and> seq_checks ds = Inr ()"
  by (induction cs) auto

lemma seq_checks_map_Inr [simp]:
  "seq_checks (map f xs) = Inr () \<longleftrightarrow> (\<forall>x \<in> set xs. f x = Inr ())"
  by (induction xs) auto

lemma seq_checks_Inl: "seq_checks cs = Inl e \<Longrightarrow> Inl e \<in> set cs"
  by (induction cs rule: seq_checks.induct) auto

lemma bind_res_Inr: "bind_res m f = Inr y \<longleftrightarrow> (\<exists>x. m = Inr x \<and> f x = Inr y)"
  by (cases m) auto

lemma bind_res_Inl: "bind_res m f = Inl e \<longleftrightarrow> m = Inl e \<or> (\<exists>x. m = Inr x \<and> f x = Inl e)"
  by (cases m) auto

lemma traverse_length: "traverse f xs = Inr ys \<Longrightarrow> length ys = length xs"
  by (induction xs arbitrary: ys) (auto simp: bind_res_Inr)

lemma traverse_nth: "traverse f xs = Inr ys \<Longrightarrow> i < length xs \<Longrightarrow> f (xs ! i) = Inr (ys ! i)"
proof (induction xs arbitrary: ys i)
  case Nil
  then show ?case by simp
next
  case (Cons x xs)
  then show ?case by (cases i) (auto simp: bind_res_Inr)
qed

lemma traverse_member:
  "traverse f xs = Inr ys \<Longrightarrow> y \<in> set ys \<Longrightarrow> \<exists>x \<in> set xs. f x = Inr y"
  by (induction xs arbitrary: ys) (auto simp: bind_res_Inr)

lemma traverse_Inr_iff: "(\<exists>ys. traverse f xs = Inr ys) \<longleftrightarrow> (\<forall>x \<in> set xs. \<exists>y. f x = Inr y)"
  by (induction xs) (auto simp: bind_res_Inr)

section \<open>Strings, options, slices\<close>

text \<open>\<open>x or d\<close> on an optional string: both \<open>None\<close> and the empty string are falsy.\<close>

definition or_str :: "string option \<Rightarrow> string \<Rightarrow> string" where
  "or_str x d = (case x of None \<Rightarrow> d | Some s \<Rightarrow> if s = '''' then d else s)"

definition truthy_str :: "string option \<Rightarrow> bool" where
  "truthy_str x = (case x of None \<Rightarrow> False | Some s \<Rightarrow> s \<noteq> '''')"

definition starts_with :: "string \<Rightarrow> string \<Rightarrow> bool" where
  "starts_with s p = prefix p s"

text \<open>\<open>sep.join(xs)\<close>\<close>

definition joined_by :: "string \<Rightarrow> string list \<Rightarrow> string" where
  "joined_by sep xs = (case xs of [] \<Rightarrow> '''' | x # rest \<Rightarrow> x @ concat (map ((@) sep) rest))"

text \<open>\<open>xs[:n]\<close>: a negative bound counts from the end.\<close>

definition slice_to :: "int \<Rightarrow> 'a list \<Rightarrow> 'a list" where
  "slice_to n xs = (if 0 \<le> n then take (nat n) xs else take (length xs - nat (- n)) xs)"

text \<open>\<open>sorted(set(xs))\<close> and \<open>sorted(set(xs) - set(ys))\<close>.\<close>

definition sorted_set :: "'a::linorder list \<Rightarrow> 'a list" where
  "sorted_set xs = remdups (sort xs)"

definition set_difference :: "'a::linorder list \<Rightarrow> 'a list \<Rightarrow> 'a list" where
  "set_difference xs ys = sorted_set (filter (\<lambda>x. x \<notin> set ys) xs)"

lemma starts_with_code [code]: "starts_with s p \<longleftrightarrow> take (length p) s = p"
  by (metis starts_with_def append_eq_conv_conj prefix_def take_is_prefix)

lemma or_str_nonempty: "d \<noteq> '''' \<Longrightarrow> or_str x d \<noteq> ''''"
  by (auto simp: or_str_def split: option.splits)

lemma set_slice_to: "set (slice_to n xs) \<subseteq> set xs"
  by (auto simp: slice_to_def dest: in_set_takeD)

lemma length_slice_to: "0 \<le> n \<Longrightarrow> length (slice_to n xs) = min (nat n) (length xs)"
  by (simp add: slice_to_def)

lemma set_sorted_set [simp]: "set (sorted_set xs) = set xs"
  by (simp add: sorted_set_def)

lemma sorted_sorted_set [simp]: "sorted (sorted_set xs)"
  by (simp add: sorted_set_def)

lemma distinct_sorted_set [simp]: "distinct (sorted_set xs)"
  by (simp add: sorted_set_def)

lemma set_difference_Nil [simp]: "set_difference xs ys = [] \<longleftrightarrow> set xs \<subseteq> set ys"
proof -
  have "set_difference xs ys = [] \<longleftrightarrow> set (set_difference xs ys) = {}"
    by (simp only: set_empty)
  then show ?thesis by (auto simp: set_difference_def)
qed

section \<open>Dictionaries\<close>

definition dict_keys :: "('k \<times> 'v) list \<Rightarrow> 'k list" where
  "dict_keys d = map fst d"

definition well_keyed :: "('k \<times> 'v) list \<Rightarrow> bool" where
  "well_keyed d = distinct (map fst d)"

lemma map_of_dict_keys: "map_of d k \<noteq> None \<longleftrightarrow> k \<in> set (dict_keys d)"
  by (simp add: dict_keys_def map_of_eq_None_iff)

lemma map_of_dict_keysD: "map_of d k = Some v \<Longrightarrow> k \<in> set (dict_keys d)"
  by (metis map_of_dict_keys option.distinct(1))

lemma in_dict_keysE: "k \<in> set (dict_keys d) \<Longrightarrow> \<exists>v. map_of d k = Some v"
  by (metis map_of_dict_keys not_None_eq)

section \<open>String enumerations\<close>

text \<open>
  Python's \<open>StrEnum\<close>: the members in declaration order, the value of each, and the
  constructor \<open>E(s)\<close>, which finds the member of that value or raises \<open>ValueError\<close>.
  Every enumeration of the code promises that members have distinct values and that the
  list of members is complete; from that the constructor inverts the value.
\<close>

definition enum_parse :: "'e list \<Rightarrow> ('e \<Rightarrow> string) \<Rightarrow> string \<Rightarrow> 'e option" where
  "enum_parse ms val s = find (\<lambda>m. val m = s) ms"

locale str_enum =
  fixes ms :: "'e list" and val :: "'e \<Rightarrow> string"
  assumes complete: "m \<in> set ms"
    and distinct_values: "val m = val m' \<Longrightarrow> m = m'"
begin

lemma parse_value: "enum_parse ms val (val m) = Some m"
proof -
  have "enum_parse ms val (val m) \<noteq> None"
    using complete [of m] by (auto simp: enum_parse_def find_None_iff)
  then obtain m' where "enum_parse ms val (val m) = Some m'" by auto
  moreover from this have "val m' = val m"
    by (auto simp: enum_parse_def find_Some_iff)
  ultimately show ?thesis by (auto dest: distinct_values)
qed

lemma parse_iff: "enum_parse ms val s = Some m \<longleftrightarrow> val m = s"
proof
  assume "enum_parse ms val s = Some m"
  then show "val m = s" by (auto simp: enum_parse_def find_Some_iff)
next
  assume "val m = s"
  then show "enum_parse ms val s = Some m" using parse_value [of m] by simp
qed

lemma parse_None: "enum_parse ms val s = None \<longleftrightarrow> (\<forall>m. val m \<noteq> s)"
proof
  assume none: "enum_parse ms val s = None"
  show "\<forall>m. val m \<noteq> s"
  proof
    fix m
    show "val m \<noteq> s" using none parse_iff [of s m] by auto
  qed
next
  assume "\<forall>m. val m \<noteq> s"
  then show "enum_parse ms val s = None" by (auto simp: enum_parse_def find_None_iff)
qed

end

end
