(* ===== verification/Rounding.thy ===== *)
theory Rounding
  imports Gateway_Prelude "HOL-Library.Log_Nat"
begin

text \<open>
  Python's two inexact number types, by value. A \<open>Decimal\<close> is a rational number and its
  arithmetic rounds the exact result to 28 significant decimal digits, ties to even (the
  default context); a \<open>float\<close> is a rational number and its arithmetic rounds the exact
  result to 53 significant bits, ties to even (IEEE binary64). Both are the one function
  \<open>round_to\<close> of a base and a precision. The exponent is unbounded: overflow, underflow
  and the special values (infinities, not-a-number) are outside the model.

  The lemmas show that rounding is monotone, odd, fixes zero and its own results, and has a
  relative error bound; \<open>Py_Numbers\<close> states them as the contract \<open>rounding\<close> and
  interprets it on both number types.
\<close>

section \<open>Round half to even\<close>

definition round_half_even :: "rat \<Rightarrow> int" where
  "round_half_even x =
     (let f = \<lfloor>x\<rfloor>; d = x - of_int f
      in if d < 1 / 2 then f
         else if d > 1 / 2 then f + 1
         else if even f then f else f + 1)"

lemma round_half_even_of_int [simp]: "round_half_even (of_int n) = n"
  by (simp add: round_half_even_def)

lemma round_half_even_0 [simp]: "round_half_even 0 = 0"
  using round_half_even_of_int [of 0] by simp

lemma round_half_even_bounds:
  "of_int (round_half_even x) - x \<le> 1 / 2 \<and> x - of_int (round_half_even x) \<le> 1 / 2"
proof -
  have "of_int \<lfloor>x\<rfloor> \<le> x" and "x < of_int \<lfloor>x\<rfloor> + 1" by linarith+
  then show ?thesis
    unfolding round_half_even_def Let_def by (simp split: if_split) linarith
qed

lemma round_half_even_error: "\<bar>of_int (round_half_even x) - x\<bar> \<le> 1 / 2"
  using round_half_even_bounds [of x] by linarith

lemma round_half_even_range: "round_half_even x = \<lfloor>x\<rfloor> \<or> round_half_even x = \<lfloor>x\<rfloor> + 1"
  by (simp add: round_half_even_def Let_def)

lemma round_half_even_mono: "x \<le> y \<Longrightarrow> round_half_even x \<le> round_half_even y"
proof (cases "\<lfloor>x\<rfloor> = \<lfloor>y\<rfloor>")
  case True
  moreover assume "x \<le> y"
  ultimately show ?thesis by (auto simp: round_half_even_def Let_def)
next
  case False
  assume "x \<le> y"
  then have "\<lfloor>x\<rfloor> \<le> \<lfloor>y\<rfloor>" by (rule floor_mono)
  with False have "\<lfloor>x\<rfloor> + 1 \<le> \<lfloor>y\<rfloor>" by linarith
  then show ?thesis
    using round_half_even_range [of x] round_half_even_range [of y] by linarith
qed

lemma round_half_even_minus: "round_half_even (- x) = - round_half_even x"
proof (cases "x = of_int \<lfloor>x\<rfloor>")
  case True
  then have "- x = of_int (- \<lfloor>x\<rfloor>)" by simp
  then show ?thesis
    using True by (metis round_half_even_of_int)
next
  case False
  define f where "f = \<lfloor>x\<rfloor>"
  have f: "of_int f < x" "x < of_int f + 1"
    using False of_int_floor_le [of x] floor_correct [of x] unfolding f_def by linarith+
  then have "\<lfloor>- x\<rfloor> = - f - 1"
    by (auto intro!: floor_unique)
  with f show ?thesis
    unfolding round_half_even_def Let_def f_def [symmetric]
    by (auto simp: not_less)
qed

lemma round_half_even_ge: "of_int n \<le> x \<Longrightarrow> n \<le> round_half_even x"
  using round_half_even_mono [of "of_int n" x] by simp

lemma round_half_even_le: "x \<le> of_int n \<Longrightarrow> round_half_even x \<le> n"
  using round_half_even_mono [of x "of_int n"] by simp

section \<open>The exponent of a positive rational\<close>

definition exponent_of :: "nat \<Rightarrow> rat \<Rightarrow> int" where
  "exponent_of b x =
     (if 1 \<le> x then int (floorlog b (nat \<lfloor>x\<rfloor>)) - 1
      else - int (floorlog b (nat (\<lceil>1 / x\<rceil> - 1))))"

lemma powi_of_nat: "(x::rat) powi (int n) = x ^ n"
  by simp

lemma powi_base_pos: "2 \<le> b \<Longrightarrow> (0::rat) < of_nat b powi k"
  by (simp add: zero_less_power_int)

lemma powi_base_mono: "2 \<le> b \<Longrightarrow> j \<le> k \<Longrightarrow> (of_nat b :: rat) powi j \<le> of_nat b powi k"
  by (intro power_int_increasing) simp_all

lemma powi_base_less_cancel:
  "2 \<le> b \<Longrightarrow> (of_nat b :: rat) powi j < of_nat b powi k \<Longrightarrow> j < k"
  by (metis linorder_not_less powi_base_mono)

lemma powi_base_add:
  "2 \<le> b \<Longrightarrow> (of_nat b :: rat) powi (j + k) = of_nat b powi j * of_nat b powi k"
  by (rule power_int_add) simp

lemma exponent_of_bounds_ge1:
  assumes "2 \<le> b" and "1 \<le> x"
  shows "of_nat b powi exponent_of b x \<le> x \<and> x < of_nat b powi (exponent_of b x + 1)"
proof -
  define n where "n = nat \<lfloor>x\<rfloor>"
  have n: "0 < n" "of_nat n \<le> x" "x < of_nat n + 1"
    using assms(2) unfolding n_def by linarith+
  define l where "l = floorlog b n"
  have l: "b ^ (l - 1) \<le> n" "n < b ^ l"
    using floorlog_bounds [of n b] assms(1) n(1) by (auto simp: l_def)
  then have "l \<noteq> 0" using n(1) by (cases l) auto
  then have e: "exponent_of b x = int (l - 1)"
    using assms(2) by (auto simp: exponent_of_def l_def n_def)
  from l(1) have "(of_nat b :: rat) ^ (l - 1) \<le> of_nat n"
    by (metis of_nat_le_iff of_nat_power)
  then have lower: "(of_nat b :: rat) ^ (l - 1) \<le> x" using n(2) by linarith
  from l(2) have "n + 1 \<le> b ^ l" by simp
  then have "(of_nat (n + 1) :: rat) \<le> of_nat b ^ l"
    by (metis of_nat_le_iff of_nat_power)
  then have upper: "x < (of_nat b :: rat) ^ l" using n(3) by simp
  have "exponent_of b x + 1 = int l" using e \<open>l \<noteq> 0\<close> by simp
  then show ?thesis using lower upper e by (simp only: powi_of_nat)
qed

lemma exponent_of_bounds_lt1:
  assumes "2 \<le> b" and "0 < x" and "x < 1"
  shows "of_nat b powi exponent_of b x \<le> x \<and> x < of_nat b powi (exponent_of b x + 1)"
proof -
  define n where "n = nat (\<lceil>1 / x\<rceil> - 1)"
  have "1 < 1 / x" using assms by simp
  then have n: "0 < n" "of_nat n < 1 / x" "1 / x \<le> of_nat n + 1"
    unfolding n_def by linarith+
  define l where "l = floorlog b n"
  have l: "b ^ (l - 1) \<le> n" "n < b ^ l"
    using floorlog_bounds [of n b] assms(1) n(1) by (auto simp: l_def)
  then have "l \<noteq> 0" using n(1) by (cases l) auto
  have e: "exponent_of b x = - int l"
    using assms(3) by (auto simp: exponent_of_def l_def n_def)
  have B: "(0::rat) < of_nat b ^ k" for k using assms(1) by simp
  from l(1) have "(of_nat b :: rat) ^ (l - 1) \<le> of_nat n"
    by (metis of_nat_le_iff of_nat_power)
  then have "(of_nat b :: rat) ^ (l - 1) < 1 / x" using n(2) by linarith
  then have "x < inverse (of_nat b ^ (l - 1))"
    using assms(2) B [of "l - 1"] by (simp add: field_simps)
  moreover from l(2) have "n + 1 \<le> b ^ l" by simp
  then have "(of_nat (n + 1) :: rat) \<le> of_nat b ^ l"
    by (metis of_nat_le_iff of_nat_power)
  then have "1 / x \<le> of_nat b ^ l" using n(3) by simp
  then have "inverse (of_nat b ^ l) \<le> x"
    using assms(2) B [of l] by (simp add: field_simps)
  moreover have "exponent_of b x + 1 = - int (l - 1)" using e \<open>l \<noteq> 0\<close> by simp
  ultimately show ?thesis using e by (simp only: power_int_minus powi_of_nat)
qed

lemma exponent_of_bounds:
  assumes "2 \<le> b" and "0 < x"
  shows "of_nat b powi exponent_of b x \<le> x" and "x < of_nat b powi (exponent_of b x + 1)"
  using exponent_of_bounds_ge1 [of b x] exponent_of_bounds_lt1 [of b x] assms
  by (metis linorder_not_less)+

lemma exponent_of_unique:
  assumes "2 \<le> b" and "of_nat b powi k \<le> x" and "x < of_nat b powi (k + 1)"
  shows "exponent_of b x = k"
proof -
  have "0 < x" using assms(2) powi_base_pos [OF assms(1), of k] by linarith
  note ex = exponent_of_bounds [OF assms(1) this]
  from assms(2) ex(2) have "k < exponent_of b x + 1"
    by (intro powi_base_less_cancel [OF assms(1)]) (rule le_less_trans)
  moreover from ex(1) assms(3) have "exponent_of b x < k + 1"
    by (intro powi_base_less_cancel [OF assms(1)]) (rule le_less_trans)
  ultimately show ?thesis by linarith
qed

lemma exponent_of_mono:
  assumes "2 \<le> b" and "0 < x" and "x \<le> y"
  shows "exponent_of b x \<le> exponent_of b y"
proof -
  have "of_nat b powi exponent_of b x \<le> y"
    using exponent_of_bounds(1) [OF assms(1,2)] assms(3) by (rule order_trans)
  moreover have "y < of_nat b powi (exponent_of b y + 1)"
    using exponent_of_bounds(2) [OF assms(1), of y] assms(2,3) by simp
  ultimately have "(of_nat b :: rat) powi exponent_of b x < of_nat b powi (exponent_of b y + 1)"
    by (rule le_less_trans)
  then show ?thesis using powi_base_less_cancel [OF assms(1)] by fastforce
qed

section \<open>Rounding to a number of significant digits\<close>

definition unit_of :: "nat \<Rightarrow> nat \<Rightarrow> rat \<Rightarrow> rat" where
  "unit_of b p x = of_nat b powi (exponent_of b \<bar>x\<bar> - int p + 1)"

definition round_to :: "nat \<Rightarrow> nat \<Rightarrow> rat \<Rightarrow> rat" where
  "round_to b p x =
     (if x = 0 then 0
      else of_int (round_half_even (x / unit_of b p x)) * unit_of b p x)"

lemma unit_of_pos: "2 \<le> b \<Longrightarrow> 0 < unit_of b p x"
  by (simp add: unit_of_def powi_base_pos)

lemma unit_of_minus [simp]: "unit_of b p (- x) = unit_of b p x"
  by (simp add: unit_of_def)

lemma round_to_0 [simp]: "round_to b p 0 = 0"
  by (simp add: round_to_def)

lemma round_to_minus: "round_to b p (- x) = - round_to b p x"
  using round_half_even_minus [of "x / unit_of b p x"] by (simp add: round_to_def)

lemma unit_of_bound:
  assumes "2 \<le> b" and "x \<noteq> 0"
  shows "unit_of b p x * of_nat b powi (int p - 1) \<le> \<bar>x\<bar>"
    and "\<bar>x\<bar> < unit_of b p x * of_nat b powi (int p)"
proof -
  have "unit_of b p x * of_nat b powi (int p - 1) = of_nat b powi exponent_of b \<bar>x\<bar>"
    and "unit_of b p x * of_nat b powi (int p) = of_nat b powi (exponent_of b \<bar>x\<bar> + 1)"
    using powi_base_add [OF assms(1), of "exponent_of b \<bar>x\<bar> - int p + 1" "int p - 1"]
      powi_base_add [OF assms(1), of "exponent_of b \<bar>x\<bar> - int p + 1" "int p"]
    by (simp_all add: unit_of_def)
  then show "unit_of b p x * of_nat b powi (int p - 1) \<le> \<bar>x\<bar>"
    and "\<bar>x\<bar> < unit_of b p x * of_nat b powi (int p)"
    using exponent_of_bounds [OF assms(1), of "\<bar>x\<bar>"] assms(2) by simp_all
qed

lemma round_to_error:
  assumes "2 \<le> b"
  shows "\<bar>round_to b p x - x\<bar> \<le> of_nat b powi (1 - int p) / 2 * \<bar>x\<bar>"
proof (cases "x = 0")
  case False
  let ?u = "unit_of b p x"
  have u: "0 < ?u" by (rule unit_of_pos [OF assms])
  have "round_to b p x - x = (of_int (round_half_even (x / ?u)) - x / ?u) * ?u"
    using u False by (simp add: round_to_def algebra_simps)
  then have "\<bar>round_to b p x - x\<bar> \<le> 1 / 2 * ?u"
    using u round_half_even_error [of "x / ?u"] by (simp add: abs_mult)
  moreover have "of_nat b powi (int p - 1) * of_nat b powi (1 - int p) = (1::rat)"
    using powi_base_add [OF assms, of "int p - 1" "1 - int p"] by simp
  then have "?u = ?u * of_nat b powi (int p - 1) * of_nat b powi (1 - int p)"
    by (simp only: mult.assoc mult_1_right)
  then have "?u \<le> \<bar>x\<bar> * of_nat b powi (1 - int p)"
    using mult_right_mono [OF unit_of_bound(1) [OF assms False, of p],
        of "of_nat b powi (1 - int p)"] powi_base_pos [OF assms, of "1 - int p"]
    by linarith
  ultimately show ?thesis by (simp add: mult.commute)
qed simp

lemma round_to_pos_bounds:
  assumes "2 \<le> b" and "1 \<le> p" and "0 < x"
  shows "of_nat b powi exponent_of b x \<le> round_to b p x"
    and "round_to b p x \<le> of_nat b powi (exponent_of b x + 1)"
proof -
  let ?u = "unit_of b p x" and ?n = "round_half_even (x / unit_of b p x)"
  have u: "0 < ?u" by (rule unit_of_pos [OF assms(1)])
  have "of_nat b powi (int p - 1) = (of_int (int b ^ (p - 1)) :: rat)"
    using assms(2) powi_of_nat [of "of_nat b" "p - 1"] by (simp add: of_nat_diff)
  then have "of_int (int b ^ (p - 1)) \<le> x / ?u"
    using unit_of_bound(1) [OF assms(1), of x p] u assms(3) by (simp add: field_simps)
  then have n1: "int b ^ (p - 1) \<le> ?n" by (rule round_half_even_ge)
  have "x / ?u \<le> of_int (int b ^ p)"
    using unit_of_bound(2) [OF assms(1), of x p] u assms(3) by (simp add: field_simps)
  then have n2: "?n \<le> int b ^ p" by (rule round_half_even_le)
  have e1: "of_int (int b ^ (p - 1)) * ?u = of_nat b powi exponent_of b x"
    using assms powi_base_add [OF assms(1), of "int (p - 1)" "exponent_of b x - int p + 1"]
      powi_of_nat [of "of_nat b" "p - 1"]
    by (simp add: unit_of_def of_nat_diff del: powi_of_nat)
  have e2: "of_int (int b ^ p) * ?u = of_nat b powi (exponent_of b x + 1)"
    using assms powi_base_add [OF assms(1), of "int p" "exponent_of b x - int p + 1"]
    by (simp add: unit_of_def)
  have r: "round_to b p x = of_int ?n * ?u" using assms(3) by (simp add: round_to_def)
  show "of_nat b powi exponent_of b x \<le> round_to b p x"
    unfolding r e1 [symmetric] using n1 u by (intro mult_right_mono of_int_le_iff [THEN iffD2]) auto
  show "round_to b p x \<le> of_nat b powi (exponent_of b x + 1)"
    unfolding r e2 [symmetric] using n2 u by (intro mult_right_mono of_int_le_iff [THEN iffD2]) auto
qed

lemma round_to_mono_pos:
  assumes "2 \<le> b" and "1 \<le> p" and "0 < x" and "x \<le> y"
  shows "round_to b p x \<le> round_to b p y"
proof (cases "exponent_of b x = exponent_of b y")
  case True
  then have u: "unit_of b p x = unit_of b p y" using assms(3,4) by (simp add: unit_of_def)
  have "round_half_even (x / unit_of b p y) \<le> round_half_even (y / unit_of b p y)"
    using assms(4) unit_of_pos [OF assms(1)]
    by (intro round_half_even_mono divide_right_mono) (simp_all add: less_imp_le)
  then show ?thesis
    using assms u unit_of_pos [OF assms(1), of p y] by (simp add: round_to_def)
next
  case False
  with exponent_of_mono [OF assms(1,3,4)] have "exponent_of b x + 1 \<le> exponent_of b y" by simp
  then have "(of_nat b :: rat) powi (exponent_of b x + 1) \<le> of_nat b powi exponent_of b y"
    by (rule powi_base_mono [OF assms(1)])
  then show ?thesis
    using round_to_pos_bounds(2) [OF assms(1,2,3)] round_to_pos_bounds(1) [OF assms(1,2), of y]
      assms(3,4) by linarith
qed

lemma round_to_pos: "2 \<le> b \<Longrightarrow> 1 \<le> p \<Longrightarrow> 0 < x \<Longrightarrow> 0 < round_to b p x"
  using round_to_pos_bounds(1) [of b p x] powi_base_pos [of b "exponent_of b x"] by linarith

lemma round_to_mono:
  assumes "2 \<le> b" and "1 \<le> p" and "x \<le> y"
  shows "round_to b p x \<le> round_to b p y"
proof -
  consider "0 < x" | "x \<le> 0" "0 \<le> y" | "y < 0" using assms(3) by linarith
  then show ?thesis
  proof cases
    case 1
    then show ?thesis using round_to_mono_pos assms by blast
  next
    case 2
    have "round_to b p x \<le> 0"
      using round_to_pos [OF assms(1,2), of "- x"] 2(1)
      by (cases "x = 0") (auto simp: round_to_minus)
    moreover have "0 \<le> round_to b p y"
      using round_to_pos [OF assms(1,2), of y] 2(2) by (cases "y = 0") auto
    ultimately show ?thesis by linarith
  next
    case 3
    then have "round_to b p (- y) \<le> round_to b p (- x)"
      using round_to_mono_pos [OF assms(1,2), of "- y" "- x"] assms(3) by simp
    then show ?thesis by (simp add: round_to_minus)
  qed
qed

lemma round_to_exact_pos:
  assumes b: "2 \<le> b" and c: "0 < c" "c < int b ^ p"
  shows "round_to b p (of_int c * of_nat b powi k) = of_int c * of_nat b powi k"
proof -
  define x :: rat where "x = of_int c * of_nat b powi k"
  define j where "j = exponent_of b x - int p + 1"
  have x: "0 < x" using c(1) powi_base_pos [OF b, of k] by (simp add: x_def)
  have "of_int c < (of_nat b :: rat) ^ p"
    using c(2) by (metis of_int_less_iff of_int_of_nat_eq of_int_power)
  then have "x < of_nat b powi int p * of_nat b powi k"
    using powi_base_pos [OF b, of k] by (simp add: x_def)
  also have "\<dots> = of_nat b powi (int p + k)" by (rule powi_base_add [OF b, symmetric])
  finally have "exponent_of b x < int p + k"
    using exponent_of_bounds(1) [OF b x] by (intro powi_base_less_cancel [OF b]) (rule le_less_trans)
  then have "j \<le> k" by (simp add: j_def)
  define d where "d = c * int b ^ nat (k - j)"
  have "(of_nat b :: rat) powi k = of_nat b ^ nat (k - j) * of_nat b powi j"
    using \<open>j \<le> k\<close> powi_base_add [OF b, of "k - j" j] powi_of_nat [of "of_nat b" "nat (k - j)"] by simp
  then have "x = of_int d * of_nat b powi j" by (simp add: x_def d_def)
  moreover have "unit_of b p x = of_nat b powi j" using x by (simp add: unit_of_def j_def)
  ultimately have "round_to b p x = x"
    using x powi_base_pos [OF b, of j] by (simp add: round_to_def)
  then show ?thesis by (simp add: x_def)
qed

lemma round_to_exact:
  assumes "2 \<le> b" and "1 \<le> p" and "\<bar>c\<bar> \<le> int b ^ p"
  shows "round_to b p (of_int c * of_nat b powi k) = of_int c * of_nat b powi k"
proof -
  have pos: "round_to b p (of_int d * of_nat b powi k) = of_int d * of_nat b powi k"
    if d: "0 < d" "d \<le> int b ^ p" for d
  proof (cases "d = int b ^ p")
    case True
    have "(1::int) < int b ^ p" using assms(1,2) by (intro one_less_power) auto
    then have "round_to b p (of_int 1 * of_nat b powi (int p + k)) = of_int 1 * of_nat b powi (int p + k)"
      using round_to_exact_pos [OF assms(1), of 1] by simp
    then show ?thesis using True powi_base_add [OF assms(1), of "int p" k] by simp
  next
    case False
    with d show ?thesis using round_to_exact_pos [OF assms(1), of d] by simp
  qed
  consider "c = 0" | "0 < c" | "c < 0" by linarith
  then show ?thesis
  proof cases
    case 3
    then show ?thesis
      using pos [of "- c"] assms(3) round_to_minus [of b p "of_int (- c) * of_nat b powi k"] by simp
  qed (use pos assms(3) in auto)
qed

lemma round_to_representable:
  assumes "2 \<le> b" and "1 \<le> p"
  shows "\<exists>c k. \<bar>c\<bar> \<le> int b ^ p \<and> round_to b p x = of_int c * of_nat b powi k"
proof (cases "x = 0")
  case True
  then show ?thesis by (intro exI [of _ 0]) simp
next
  case False
  let ?u = "unit_of b p x"
  have "\<bar>x / ?u\<bar> \<le> of_int (int b ^ p)"
    using unit_of_bound(2) [OF assms(1) False, of p] unit_of_pos [OF assms(1), of p x]
    by (simp add: field_simps)
  then have "x / ?u \<le> of_int (int b ^ p)" and "of_int (- (int b ^ p)) \<le> x / ?u"
    by (simp_all add: abs_le_iff del: abs_divide)
  then have "\<bar>round_half_even (x / ?u)\<bar> \<le> int b ^ p"
    using round_half_even_le [of "x / ?u"] round_half_even_ge [of "- (int b ^ p)" "x / ?u"]
    by (simp add: abs_le_iff)
  then show ?thesis using False unfolding round_to_def unit_of_def by auto
qed

lemma round_to_idem: "2 \<le> b \<Longrightarrow> 1 \<le> p \<Longrightarrow> round_to b p (round_to b p x) = round_to b p x"
  using round_to_representable [of b p x] round_to_exact [of b p] by metis

lemma round_to_int:
  "2 \<le> b \<Longrightarrow> 1 \<le> p \<Longrightarrow> \<bar>c\<bar> \<le> int b ^ p \<Longrightarrow> round_to b p (of_int c) = of_int c"
  using round_to_exact [of b p c 0] by simp

end
