(* ===== verification/Py_Numbers.thy ===== *)
theory Py_Numbers
  imports Rounding
begin

text \<open>
  The arithmetic the cost, pricing and statistics code computes with: every operation is
  the exact rational operation followed by the rounding of its type. \<open>sum(xs, Decimal(0))\<close>
  is the left fold of the rounded addition. Comparisons are exact, as Python's are.
\<close>

type_synonym decimal = rat
type_synonym pyfloat = rat

definition dec_round :: "rat \<Rightarrow> decimal" where
  "dec_round x = round_to 10 28 x"

definition flt_round :: "rat \<Rightarrow> pyfloat" where
  "flt_round x = round_to 2 53 x"

definition dadd :: "decimal \<Rightarrow> decimal \<Rightarrow> decimal" where
  "dadd x y = dec_round (x + y)"

definition dsub :: "decimal \<Rightarrow> decimal \<Rightarrow> decimal" where
  "dsub x y = dec_round (x - y)"

definition dmul :: "decimal \<Rightarrow> decimal \<Rightarrow> decimal" where
  "dmul x y = dec_round (x * y)"

definition ddiv :: "decimal \<Rightarrow> decimal \<Rightarrow> decimal" where
  "ddiv x y = dec_round (x / y)"

definition dsum :: "decimal list \<Rightarrow> decimal" where
  "dsum xs = foldl dadd 0 xs"

definition fadd :: "pyfloat \<Rightarrow> pyfloat \<Rightarrow> pyfloat" where
  "fadd x y = flt_round (x + y)"

definition fsub :: "pyfloat \<Rightarrow> pyfloat \<Rightarrow> pyfloat" where
  "fsub x y = flt_round (x - y)"

definition fmul :: "pyfloat \<Rightarrow> pyfloat \<Rightarrow> pyfloat" where
  "fmul x y = flt_round (x * y)"

definition fdiv :: "pyfloat \<Rightarrow> pyfloat \<Rightarrow> pyfloat" where
  "fdiv x y = flt_round (x / y)"

text \<open>\<open>a / b\<close> on integers is correctly rounded; \<open>float(d)\<close> rounds the value of \<open>d\<close>.\<close>

definition int_truediv :: "int \<Rightarrow> int \<Rightarrow> pyfloat" where
  "int_truediv a b = flt_round (of_int a / of_int b)"

definition float_of_decimal :: "decimal \<Rightarrow> pyfloat" where
  "float_of_decimal d = flt_round d"

text \<open>\<open>int(x)\<close> of a float drops the fraction.\<close>

definition int_of_float :: "pyfloat \<Rightarrow> int" where
  "int_of_float x = (if 0 \<le> x then \<lfloor>x\<rfloor> else \<lceil>x\<rceil>)"

lemmas dec_ops = dadd_def dsub_def dmul_def ddiv_def
lemmas flt_ops = fadd_def fsub_def fmul_def fdiv_def int_truediv_def float_of_decimal_def

section \<open>The contract of a rounding\<close>

locale rounding =
  fixes rnd :: "rat \<Rightarrow> rat" and eps :: rat
  assumes rnd_mono: "x \<le> y \<Longrightarrow> rnd x \<le> rnd y"
    and rnd_minus: "rnd (- x) = - rnd x"
    and rnd_idem: "rnd (rnd x) = rnd x"
    and rnd_error: "\<bar>rnd x - x\<bar> \<le> eps * \<bar>x\<bar>"
    and eps_range: "0 \<le> eps \<and> eps < 1"
begin

lemma rnd_0: "rnd 0 = 0"
  using rnd_minus [of 0] by simp

lemma rnd_nonneg: "0 \<le> x \<Longrightarrow> 0 \<le> rnd x"
  using rnd_mono [of 0 x] by (simp add: rnd_0)

lemma rnd_bounds: "0 \<le> x \<Longrightarrow> (1 - eps) * x \<le> rnd x \<and> rnd x \<le> (1 + eps) * x"
  using rnd_error [of x] by (simp add: abs_le_iff algebra_simps)

lemma rnd_pos: "0 < x \<Longrightarrow> 0 < rnd x"
  using rnd_bounds [of x] eps_range mult_pos_pos [of "1 - eps" x] by linarith

lemma rnd_below: "rnd y = y \<Longrightarrow> x \<le> y \<Longrightarrow> rnd x \<le> y"
  by (metis rnd_mono)

lemma rnd_above: "rnd y = y \<Longrightarrow> y \<le> x \<Longrightarrow> y \<le> rnd x"
  by (metis rnd_mono)

lemma rnd_add_grows: "rnd x = x \<Longrightarrow> 0 \<le> y \<Longrightarrow> x \<le> rnd (x + y)"
  by (rule rnd_above) simp_all

lemma rnd_add_mono: "x \<le> x' \<Longrightarrow> y \<le> y' \<Longrightarrow> rnd (x + y) \<le> rnd (x' + y')"
  by (intro rnd_mono add_mono)

lemma rnd_mult_mono: "0 \<le> x \<Longrightarrow> 0 \<le> y \<Longrightarrow> x \<le> x' \<Longrightarrow> y \<le> y' \<Longrightarrow> rnd (x * y) \<le> rnd (x' * y')"
  by (intro rnd_mono mult_mono) simp_all

lemma rnd_div_mono: "0 < z \<Longrightarrow> x \<le> y \<Longrightarrow> rnd (x / z) \<le> rnd (y / z)"
  by (intro rnd_mono divide_right_mono) simp_all

lemma fold_nonneg: "0 \<le> a \<Longrightarrow> (\<forall>x \<in> set xs. 0 \<le> x) \<Longrightarrow> 0 \<le> foldl (\<lambda>s x. rnd (s + x)) a xs"
  by (induction xs arbitrary: a) (simp_all add: rnd_nonneg)

lemma fold_rnd: "rnd a = a \<Longrightarrow> rnd (foldl (\<lambda>s x. rnd (s + x)) a xs) = foldl (\<lambda>s x. rnd (s + x)) a xs"
  by (induction xs arbitrary: a) (simp_all add: rnd_idem)

lemma fold_grows:
  "rnd a = a \<Longrightarrow> (\<forall>x \<in> set xs. 0 \<le> x) \<Longrightarrow> a \<le> foldl (\<lambda>s x. rnd (s + x)) a xs"
proof (induction xs arbitrary: a)
  case (Cons x xs)
  have "a \<le> rnd (a + x)" using Cons.prems by (intro rnd_add_grows) simp_all
  also have "\<dots> \<le> foldl (\<lambda>s x. rnd (s + x)) (rnd (a + x)) xs"
    using Cons.prems by (intro Cons.IH) (simp_all add: rnd_idem)
  finally show ?case by simp
qed simp

lemma fold_mono:
  "list_all2 (\<le>) xs ys \<Longrightarrow> a \<le> b \<Longrightarrow>
   foldl (\<lambda>s x. rnd (s + x)) a xs \<le> foldl (\<lambda>s x. rnd (s + x)) b ys"
  by (induction arbitrary: a b rule: list_all2_induct) (simp_all add: rnd_add_mono)

end

interpretation dec: rounding dec_round "1 / (2 * 10 ^ 27)"
proof
  fix x y :: rat
  show "x \<le> y \<Longrightarrow> dec_round x \<le> dec_round y"
    unfolding dec_round_def by (rule round_to_mono) simp_all
  show "dec_round (- x) = - dec_round x"
    unfolding dec_round_def by (rule round_to_minus)
  show "dec_round (dec_round x) = dec_round x"
    unfolding dec_round_def by (rule round_to_idem) simp_all
  show "\<bar>dec_round x - x\<bar> \<le> 1 / (2 * 10 ^ 27) * \<bar>x\<bar>"
    using round_to_error [of 10 28 x] by (simp add: dec_round_def power_int_minus inverse_eq_divide)
qed simp

interpretation flt: rounding flt_round "1 / 2 ^ 53"
proof
  fix x y :: rat
  show "x \<le> y \<Longrightarrow> flt_round x \<le> flt_round y"
    unfolding flt_round_def by (rule round_to_mono) simp_all
  show "flt_round (- x) = - flt_round x"
    unfolding flt_round_def by (rule round_to_minus)
  show "flt_round (flt_round x) = flt_round x"
    unfolding flt_round_def by (rule round_to_idem) simp_all
  show "\<bar>flt_round x - x\<bar> \<le> 1 / 2 ^ 53 * \<bar>x\<bar>"
    using round_to_error [of 2 53 x] by (simp add: flt_round_def power_int_minus inverse_eq_divide)
qed simp

lemma dec_round_int [simp]: "\<bar>c\<bar> \<le> 10 ^ 28 \<Longrightarrow> dec_round (of_int c) = of_int c"
  unfolding dec_round_def by (rule round_to_int) simp_all

lemma flt_round_int [simp]: "\<bar>c\<bar> \<le> 2 ^ 53 \<Longrightarrow> flt_round (of_int c) = of_int c"
  unfolding flt_round_def by (rule round_to_int) simp_all

lemma dec_round_exact: "\<bar>c\<bar> \<le> 10 ^ 28 \<Longrightarrow> dec_round (of_int c / 10 ^ k) = of_int c / 10 ^ k"
  using round_to_exact [of 10 28 c "- int k"]
  by (simp add: dec_round_def power_int_minus divide_inverse)

lemma dsum_eq_fold: "dsum xs = foldl (\<lambda>s x. dec_round (s + x)) 0 xs"
  unfolding dsum_def by (rule arg_cong [where f = "\<lambda>f. foldl f 0 xs"]) (simp add: fun_eq_iff dadd_def)

lemma dsum_nonneg: "(\<forall>x \<in> set xs. 0 \<le> x) \<Longrightarrow> 0 \<le> dsum xs"
  unfolding dsum_eq_fold by (rule dec.fold_nonneg) simp_all

lemma dsum_rounded [simp]: "dec_round (dsum xs) = dsum xs"
  unfolding dsum_eq_fold by (rule dec.fold_rnd) (rule dec.rnd_0)

lemma dsum_mono: "list_all2 (\<le>) xs ys \<Longrightarrow> dsum xs \<le> dsum ys"
  unfolding dsum_eq_fold by (rule dec.fold_mono) simp_all

lemma dadd_rounded [simp]: "dec_round (dadd x y) = dadd x y"
  by (simp add: dadd_def dec.rnd_idem)

lemma dmul_rounded [simp]: "dec_round (dmul x y) = dmul x y"
  by (simp add: dmul_def dec.rnd_idem)

lemma ddiv_rounded [simp]: "dec_round (ddiv x y) = ddiv x y"
  by (simp add: ddiv_def dec.rnd_idem)

lemma dadd_nonneg: "0 \<le> x \<Longrightarrow> 0 \<le> y \<Longrightarrow> 0 \<le> dadd x y"
  by (simp add: dadd_def dec.rnd_nonneg)

lemma dmul_nonneg: "0 \<le> x \<Longrightarrow> 0 \<le> y \<Longrightarrow> 0 \<le> dmul x y"
  by (simp add: dmul_def dec.rnd_nonneg)

lemma ddiv_nonneg: "0 \<le> x \<Longrightarrow> 0 \<le> y \<Longrightarrow> 0 \<le> ddiv x y"
  by (simp add: ddiv_def dec.rnd_nonneg)

lemma dadd_mono: "x \<le> x' \<Longrightarrow> y \<le> y' \<Longrightarrow> dadd x y \<le> dadd x' y'"
  by (simp add: dadd_def dec.rnd_add_mono)

lemma dmul_mono: "0 \<le> x \<Longrightarrow> 0 \<le> y \<Longrightarrow> x \<le> x' \<Longrightarrow> y \<le> y' \<Longrightarrow> dmul x y \<le> dmul x' y'"
  by (simp add: dmul_def dec.rnd_mult_mono)

lemma ddiv_mono: "0 < z \<Longrightarrow> x \<le> y \<Longrightarrow> ddiv x z \<le> ddiv y z"
  by (simp add: ddiv_def dec.rnd_div_mono)

lemmas dec_nonneg = dadd_nonneg dmul_nonneg ddiv_nonneg dsum_nonneg
lemmas dec_mono = dadd_mono dmul_mono ddiv_mono dsum_mono

end
