(* ===== verification/Enums_Errors.thy ===== *)
theory Enums_Errors
  imports Py_Numbers
begin

text \<open>
  The provider-neutral vocabulary (\<open>models/enums.py\<close>) and the error normalisation every
  adapter goes through (\<open>models/errors.py\<close>): the enumerations with their wire values, the
  eligibility table, the mapping of HTTP statuses to error classes, and the record of one
  provider attempt. Each enumeration is an interpretation of \<open>str_enum\<close>.
\<close>

section \<open>Enumerations\<close>

datatype data_class = Public | Internal | Confidential | Restricted

datatype quality_tier = Economy | Balanced | Premium

datatype error_class =
    InvalidRequest | AuthError | RateLimited | TimeoutClass | Provider5xx
  | PolicyDeniedClass | StreamStartedFailure | MalformedResponse

datatype usage_source = ProviderReported | TokenizerEstimated | Unavailable

datatype message_role = SystemRole | DeveloperRole | UserRole | ModelRole | ToolRole

definition data_classes :: "data_class list" where
  "data_classes = [Public, Internal, Confidential, Restricted]"

definition quality_tiers :: "quality_tier list" where
  "quality_tiers = [Economy, Balanced, Premium]"

definition error_classes :: "error_class list" where
  "error_classes =
     [InvalidRequest, AuthError, RateLimited, TimeoutClass, Provider5xx,
      PolicyDeniedClass, StreamStartedFailure, MalformedResponse]"

definition usage_sources :: "usage_source list" where
  "usage_sources = [ProviderReported, TokenizerEstimated, Unavailable]"

definition message_roles :: "message_role list" where
  "message_roles = [SystemRole, DeveloperRole, UserRole, ModelRole, ToolRole]"

fun data_class_value :: "data_class \<Rightarrow> string" where
  "data_class_value Public = ''public''"
| "data_class_value Internal = ''internal''"
| "data_class_value Confidential = ''confidential''"
| "data_class_value Restricted = ''restricted''"

fun quality_tier_value :: "quality_tier \<Rightarrow> string" where
  "quality_tier_value Economy = ''economy''"
| "quality_tier_value Balanced = ''balanced''"
| "quality_tier_value Premium = ''premium''"

fun error_class_value :: "error_class \<Rightarrow> string" where
  "error_class_value InvalidRequest = ''invalid_request''"
| "error_class_value AuthError = ''auth''"
| "error_class_value RateLimited = ''rate_limited''"
| "error_class_value TimeoutClass = ''timeout''"
| "error_class_value Provider5xx = ''provider_5xx''"
| "error_class_value PolicyDeniedClass = ''policy_denied''"
| "error_class_value StreamStartedFailure = ''stream_started_failure''"
| "error_class_value MalformedResponse = ''malformed_response''"

fun usage_source_value :: "usage_source \<Rightarrow> string" where
  "usage_source_value ProviderReported = ''provider_reported''"
| "usage_source_value TokenizerEstimated = ''tokenizer_estimated''"
| "usage_source_value Unavailable = ''unavailable''"

fun message_role_value :: "message_role \<Rightarrow> string" where
  "message_role_value SystemRole = ''system''"
| "message_role_value DeveloperRole = ''developer''"
| "message_role_value UserRole = ''user''"
| "message_role_value ModelRole = ''model''"
| "message_role_value ToolRole = ''tool''"

interpretation data_class_enum: str_enum data_classes data_class_value
proof
  show "m \<in> set data_classes" for m by (cases m) (simp_all add: data_classes_def)
  show "data_class_value m = data_class_value m' \<Longrightarrow> m = m'" for m m'
    by (cases m; cases m') simp_all
qed

interpretation quality_tier_enum: str_enum quality_tiers quality_tier_value
proof
  show "m \<in> set quality_tiers" for m by (cases m) (simp_all add: quality_tiers_def)
  show "quality_tier_value m = quality_tier_value m' \<Longrightarrow> m = m'" for m m'
    by (cases m; cases m') simp_all
qed

interpretation error_class_enum: str_enum error_classes error_class_value
proof
  show "m \<in> set error_classes" for m by (cases m) (simp_all add: error_classes_def)
  show "error_class_value m = error_class_value m' \<Longrightarrow> m = m'" for m m'
    by (cases m; cases m') simp_all
qed

interpretation usage_source_enum: str_enum usage_sources usage_source_value
proof
  show "m \<in> set usage_sources" for m by (cases m) (simp_all add: usage_sources_def)
  show "usage_source_value m = usage_source_value m' \<Longrightarrow> m = m'" for m m'
    by (cases m; cases m') simp_all
qed

interpretation message_role_enum: str_enum message_roles message_role_value
proof
  show "m \<in> set message_roles" for m by (cases m) (simp_all add: message_roles_def)
  show "message_role_value m = message_role_value m' \<Longrightarrow> m = m'" for m m'
    by (cases m; cases m') simp_all
qed

definition parse_data_class :: "string \<Rightarrow> data_class option" where
  "parse_data_class s = enum_parse data_classes data_class_value s"

definition parse_quality_tier :: "string \<Rightarrow> quality_tier option" where
  "parse_quality_tier s = enum_parse quality_tiers quality_tier_value s"

definition parse_error_class :: "string \<Rightarrow> error_class option" where
  "parse_error_class s = enum_parse error_classes error_class_value s"

text \<open>
  \<open>StrEnum\<close> members are strings, so a \<open>sorted\<close> of quality tiers orders them by value:
  balanced, economy, premium.
\<close>

instantiation quality_tier :: linorder
begin

definition less_eq_quality_tier :: "quality_tier \<Rightarrow> quality_tier \<Rightarrow> bool" where
  "less_eq_quality_tier a b = (quality_tier_value a \<le> quality_tier_value b)"

definition less_quality_tier :: "quality_tier \<Rightarrow> quality_tier \<Rightarrow> bool" where
  "less_quality_tier a b = (quality_tier_value a < quality_tier_value b)"

instance
proof
  fix x y z :: quality_tier
  show "x < y \<longleftrightarrow> x \<le> y \<and> \<not> y \<le> x"
    by (simp add: less_eq_quality_tier_def less_quality_tier_def less_le_not_le)
  show "x \<le> x" by (simp add: less_eq_quality_tier_def)
  show "x \<le> y \<Longrightarrow> y \<le> z \<Longrightarrow> x \<le> z"
    unfolding less_eq_quality_tier_def by (rule order_trans)
  show "x \<le> y \<Longrightarrow> y \<le> x \<Longrightarrow> x = y"
    unfolding less_eq_quality_tier_def by (rule quality_tier_enum.distinct_values) simp
  show "x \<le> y \<or> y \<le> x"
    unfolding less_eq_quality_tier_def by (rule linear)
qed

end

section \<open>Normalised errors\<close>

record normalized_error =
  ne_class :: error_class
  ne_message :: string
  ne_http_status :: "int option"
  ne_retry_eligible :: bool
  ne_fallback_eligible :: bool
  ne_retry_after :: "rat option"

text \<open>\<open>_ELIGIBILITY\<close>: (retry_eligible, fallback_eligible) of each class.\<close>

fun eligibility :: "error_class \<Rightarrow> bool \<times> bool" where
  "eligibility InvalidRequest = (False, False)"
| "eligibility AuthError = (False, False)"
| "eligibility RateLimited = (True, True)"
| "eligibility TimeoutClass = (True, True)"
| "eligibility Provider5xx = (True, True)"
| "eligibility PolicyDeniedClass = (False, False)"
| "eligibility StreamStartedFailure = (False, False)"
| "eligibility MalformedResponse = (False, False)"

text \<open>The field constraints of the pydantic model \<open>NormalizedError\<close>.\<close>

definition normalized_error_ok :: "normalized_error \<Rightarrow> bool" where
  "normalized_error_ok e \<longleftrightarrow>
     ne_message e \<noteq> '''' \<and>
     (case ne_http_status e of None \<Rightarrow> True | Some s \<Rightarrow> 100 \<le> s \<and> s \<le> 599) \<and>
     (case ne_retry_after e of None \<Rightarrow> True | Some r \<Rightarrow> 0 \<le> r)"

definition make_normalized_error ::
    "error_class \<Rightarrow> string \<Rightarrow> int option \<Rightarrow> rat option \<Rightarrow> normalized_error" where
  "make_normalized_error c msg status retry =
     (let (retry_ok, fallback_ok) = eligibility c
      in \<lparr>ne_class = c, ne_message = msg, ne_http_status = status,
          ne_retry_eligible = retry_ok, ne_fallback_eligible = fallback_ok,
          ne_retry_after = retry\<rparr>)"

definition classify_http_status :: "int \<Rightarrow> error_class option" where
  "classify_http_status status =
     (if status = 408 then Some TimeoutClass
      else if status = 429 then Some RateLimited
      else if status \<in> {401, 403} then Some AuthError
      else if 400 \<le> status \<and> status < 500 then Some InvalidRequest
      else if 500 \<le> status \<and> status < 600 then Some Provider5xx
      else None)"

text \<open>\<open>Inl status\<close> is the \<open>ValueError\<close> for a status that is not an error.\<close>

definition normalize_http_error ::
    "int \<Rightarrow> string \<Rightarrow> rat option \<Rightarrow> int + normalized_error" where
  "normalize_http_error status msg retry =
     (case classify_http_status status of
        None \<Rightarrow> Inl status
      | Some c \<Rightarrow> Inr (make_normalized_error c msg (Some status) retry))"

record attempt_outcome =
  ao_provider :: string
  ao_error :: "error_class option"
  ao_retry_after :: "rat option"

text \<open>\<open>AttemptOutcome(provider=p)\<close> of a successful attempt, and the one of a failed attempt.\<close>

definition attempt_ok :: "string \<Rightarrow> attempt_outcome" where
  "attempt_ok p = \<lparr>ao_provider = p, ao_error = None, ao_retry_after = None\<rparr>"

definition attempt_failed :: "string \<Rightarrow> normalized_error \<Rightarrow> attempt_outcome" where
  "attempt_failed p e =
     \<lparr>ao_provider = p, ao_error = Some (ne_class e), ao_retry_after = ne_retry_after e\<rparr>"

record provider_error =
  pe_error :: normalized_error
  pe_attempts :: "attempt_outcome list"

text \<open>\<open>ProviderError(error)\<close>, with an empty attempt history.\<close>

definition provider_error :: "normalized_error \<Rightarrow> provider_error" where
  "provider_error e = \<lparr>pe_error = e, pe_attempts = []\<rparr>"

lemmas error_defs [model_defs] =
  make_normalized_error_def provider_error_def attempt_ok_def attempt_failed_def

lemma make_normalized_error_sel [simp]:
  "ne_class (make_normalized_error c m s r) = c"
  "ne_message (make_normalized_error c m s r) = m"
  "ne_http_status (make_normalized_error c m s r) = s"
  "ne_retry_after (make_normalized_error c m s r) = r"
  "ne_retry_eligible (make_normalized_error c m s r) = fst (eligibility c)"
  "ne_fallback_eligible (make_normalized_error c m s r) = snd (eligibility c)"
  by (simp_all add: make_normalized_error_def split_beta)

lemma provider_error_sel [simp]:
  "pe_error (provider_error e) = e"
  "pe_attempts (provider_error e) = []"
  by (simp_all add: provider_error_def)

lemma attempt_sel [simp]:
  "ao_provider (attempt_ok p) = p"
  "ao_error (attempt_ok p) = None"
  "ao_provider (attempt_failed p e) = p"
  "ao_error (attempt_failed p e) = Some (ne_class e)"
  "ao_retry_after (attempt_failed p e) = ne_retry_after e"
  by (simp_all add: error_defs)

lemma retry_iff_fallback: "fst (eligibility c) = snd (eligibility c)"
  by (cases c) simp_all

lemma fallback_classes: "snd (eligibility c) \<longleftrightarrow> c \<in> {RateLimited, TimeoutClass, Provider5xx}"
  by (cases c) simp_all

lemma classify_defined: "(\<exists>c. classify_http_status s = Some c) \<longleftrightarrow> 400 \<le> s \<and> s < 600"
  by (auto simp: classify_http_status_def)

section \<open>Properties\<close>

text \<open>
  HTTP normalisation: every status from 400 to 599, and no other, is normalised; the
  result carries the status and the retry hint, is a well-formed error when the message is
  not empty and the hint not negative, and is eligible for fallback exactly for 408, 429
  and the 5xx statuses.
\<close>

theorem http_normalization:
  "(case normalize_http_error status msg retry of
      Inl s \<Rightarrow> s = status \<and> (status < 400 \<or> 600 \<le> status)
    | Inr e \<Rightarrow> 400 \<le> status \<and> status < 600 \<and> ne_http_status e = Some status
        \<and> ne_retry_after e = retry \<and> ne_retry_eligible e = ne_fallback_eligible e
        \<and> (ne_fallback_eligible e \<longleftrightarrow> status = 408 \<or> status = 429 \<or> 500 \<le> status)
        \<and> (normalized_error_ok e \<longleftrightarrow>
             msg \<noteq> '''' \<and> (case retry of None \<Rightarrow> True | Some r \<Rightarrow> 0 \<le> r)))"
proof (cases "classify_http_status status")
  case None
  then show ?thesis
    using classify_defined [of status] by (auto simp: normalize_http_error_def)
next
  case (Some c)
  then have range: "400 \<le> status \<and> status < 600" using classify_defined by blast
  have "snd (eligibility c) \<longleftrightarrow> status = 408 \<or> status = 429 \<or> 500 \<le> status"
    using Some range by (auto simp: classify_http_status_def split: if_splits)
  then show ?thesis
    using Some range
    by (simp add: normalize_http_error_def normalized_error_ok_def retry_iff_fallback)
qed

text \<open>
  Wire values round trip: parsing the value of a data class, a quality tier or an error
  class gives it back, and a string parses to a member only if it is that member's value.
\<close>

theorem enum_round_trip:
  "(parse_data_class s = Some d \<longleftrightarrow> data_class_value d = s) \<and>
   (parse_quality_tier s = Some q \<longleftrightarrow> quality_tier_value q = s) \<and>
   (parse_error_class s = Some c \<longleftrightarrow> error_class_value c = s)"
  by (simp add: parse_data_class_def parse_quality_tier_def parse_error_class_def
      data_class_enum.parse_iff quality_tier_enum.parse_iff error_class_enum.parse_iff)

end
