(* ===== verification/Domain.thy ===== *)
theory Domain
  imports Enums_Errors
begin

text \<open>
  The provider-neutral data model (\<open>models/domain.py\<close>): JSON values, canonical requests,
  usage with its provenance, results, chunks, health, request contexts and money.

  A pydantic model is a record together with its validator \<open>validate_<name>\<close>, which
  returns the message of the first failing constraint: the field constraints first, then
  the model validators, in declaration order. A time stamp carries the offset of its zone
  (\<open>None\<close> for a naive one).
\<close>

section \<open>JSON values\<close>

datatype json =
    JNull
  | JBool bool
  | JInt int
  | JFloat rat
  | JStr string
  | JArr "json list"
  | JObj "(string \<times> json) list"

type_synonym json_object = "(string \<times> json) list"

section \<open>Requests\<close>

record content_part =
  cp_type :: string
  cp_text :: "string option"
  cp_data :: "json_object option"
  cp_extra :: json_object

definition text_part :: "string \<Rightarrow> content_part" where
  "text_part s = \<lparr>cp_type = ''text'', cp_text = Some s, cp_data = None, cp_extra = []\<rparr>"

definition validate_content_part :: "content_part \<Rightarrow> string + unit" where
  "validate_content_part p = guard_that (cp_type p \<noteq> '''') ''type''"

record canonical_message =
  cm_role :: message_role
  cm_content :: "content_part list"
  cm_name :: "string option"

definition validate_message :: "canonical_message \<Rightarrow> string + unit" where
  "validate_message m =
     seq_checks (map validate_content_part (cm_content m) @
       [guard_that (cm_content m \<noteq> []) ''content''])"

record request_metadata =
  rm_workload :: string
  rm_data_class :: data_class
  rm_quality_tier :: quality_tier
  rm_request_id :: string

definition validate_metadata :: "request_metadata \<Rightarrow> string + unit" where
  "validate_metadata m =
     seq_checks
       [guard_that (rm_workload m \<noteq> '''') ''workload'',
        guard_that (rm_request_id m \<noteq> '''') ''request_id'']"

record chat_request =
  cr_messages :: "canonical_message list"
  cr_model :: string
  cr_temperature :: pyfloat
  cr_max_tokens :: int
  cr_stream :: bool
  cr_metadata :: request_metadata

definition validate_chat_request :: "chat_request \<Rightarrow> string + unit" where
  "validate_chat_request r =
     seq_checks (map validate_message (cr_messages r) @
       [guard_that (cr_messages r \<noteq> []) ''messages'',
        guard_that (cr_model r \<noteq> '''') ''model'',
        guard_that (0 \<le> cr_temperature r \<and> cr_temperature r \<le> 2) ''temperature'',
        guard_that (0 < cr_max_tokens r) ''max_tokens'',
        validate_metadata (cr_metadata r)])"

section \<open>Usage with provenance\<close>

record normalized_usage =
  nu_visible :: "int option"
  nu_visible_source :: usage_source
  nu_input :: "int option"
  nu_input_source :: usage_source
  nu_output :: "int option"
  nu_output_source :: usage_source
  nu_special :: "int option"
  nu_special_source :: usage_source

definition usage_unavailable :: normalized_usage where
  "usage_unavailable =
     \<lparr>nu_visible = None, nu_visible_source = Unavailable,
      nu_input = None, nu_input_source = Unavailable,
      nu_output = None, nu_output_source = Unavailable,
      nu_special = None, nu_special_source = Unavailable\<rparr>"

definition usage_pairs :: "normalized_usage \<Rightarrow> (int option \<times> usage_source \<times> string) list" where
  "usage_pairs u =
     [(nu_visible u, nu_visible_source u, ''visible_output_tokens''),
      (nu_input u, nu_input_source u, ''billed_input_tokens''),
      (nu_output u, nu_output_source u, ''billed_output_tokens''),
      (nu_special u, nu_special_source u, ''reasoning_or_special_tokens'')]"

text \<open>\<open>Annotated[int, Field(ge=0)]\<close> on an optional field.\<close>

definition token_count_ok :: "int option \<Rightarrow> bool" where
  "token_count_ok v = (case v of None \<Rightarrow> True | Some n \<Rightarrow> 0 \<le> n)"

fun check_token_field :: "int option \<times> usage_source \<times> string \<Rightarrow> string + unit" where
  "check_token_field (v, s, name) = guard_that (token_count_ok v) name"

fun check_source :: "int option \<times> usage_source \<times> string \<Rightarrow> string + unit" where
  "check_source (v, s, name) =
     (if v = None \<and> s \<noteq> Unavailable
      then Inl (name @ '' needs a value when its source is available'')
      else if v \<noteq> None \<and> s = Unavailable
      then Inl (name @ '' cannot have a value with an unavailable source'')
      else Inr ())"

definition validate_sources :: "normalized_usage \<Rightarrow> string + unit" where
  "validate_sources u = seq_checks (map check_source (usage_pairs u))"

definition validate_usage :: "normalized_usage \<Rightarrow> string + unit" where
  "validate_usage u =
     seq_checks (map check_token_field (usage_pairs u) @ [validate_sources u])"

section \<open>Results, chunks, health\<close>

record provider_result =
  pr_provider :: string
  pr_model :: string
  pr_output :: "content_part list"
  pr_finish_reason :: "string option"
  pr_usage :: normalized_usage
  pr_extensions :: json_object

definition validate_result :: "provider_result \<Rightarrow> string + unit" where
  "validate_result r =
     seq_checks ([guard_that (pr_provider r \<noteq> '''') ''provider'',
       guard_that (pr_model r \<noteq> '''') ''model''] @
       map validate_content_part (pr_output r) @ [validate_usage (pr_usage r)])"

record provider_chunk =
  pc_provider :: string
  pc_model :: string
  pc_sequence :: int
  pc_delta :: "content_part list"
  pc_is_final :: bool
  pc_finish_reason :: "string option"
  pc_usage :: "normalized_usage option"
  pc_extensions :: json_object

definition validate_chunk :: "provider_chunk \<Rightarrow> string + unit" where
  "validate_chunk c =
     seq_checks ([guard_that (pc_provider c \<noteq> '''') ''provider'',
       guard_that (pc_model c \<noteq> '''') ''model'',
       guard_that (0 \<le> pc_sequence c) ''sequence''] @
       map validate_content_part (pc_delta c) @
       [case pc_usage c of None \<Rightarrow> Inr () | Some u \<Rightarrow> validate_usage u,
        guard_that (pc_usage c = None \<or> pc_is_final c)
          ''stream usage is only valid on a final chunk''])"

record provider_capabilities =
  cap_streaming :: bool
  cap_reports_usage :: bool
  cap_reports_streaming_usage :: bool
  cap_tool_calls :: bool

text \<open>Seconds since the epoch, and the offset of the zone in seconds if there is one.\<close>

record timestamp =
  ts_instant :: rat
  ts_offset :: "rat option"

definition require_utc :: "timestamp \<Rightarrow> string \<Rightarrow> string + unit" where
  "require_utc t name =
     guard_that (ts_offset t = Some 0) (name @ '' must be timezone-aware UTC'')"

definition utc :: "rat \<Rightarrow> timestamp" where
  "utc t = \<lparr>ts_instant = t, ts_offset = Some 0\<rparr>"

record provider_health =
  ph_healthy :: bool
  ph_checked_at :: timestamp
  ph_detail :: "string option"

definition validate_health :: "provider_health \<Rightarrow> string + unit" where
  "validate_health h = require_utc (ph_checked_at h) ''checked_at''"

record request_context =
  ctx_request_id :: string
  ctx_started_at :: timestamp
  ctx_deadline_at :: timestamp

definition validate_context :: "request_context \<Rightarrow> string + unit" where
  "validate_context c =
     seq_checks
       [guard_that (ctx_request_id c \<noteq> '''') ''request_id'',
        require_utc (ctx_started_at c) ''started_at'',
        require_utc (ctx_deadline_at c) ''deadline_at'',
        guard_that (ts_instant (ctx_started_at c) \<le> ts_instant (ctx_deadline_at c))
          ''deadline_at must not precede started_at'']"

section \<open>Money\<close>

datatype raw_amount = FloatAmount pyfloat | ExactAmount decimal

record money =
  amount :: decimal
  currency :: string

definition currency_ok :: "string \<Rightarrow> bool" where
  "currency_ok c \<longleftrightarrow> length c = 3 \<and> (\<forall>x \<in> set c. CHR ''A'' \<le> x \<and> x \<le> CHR ''Z'')"

fun make_money :: "raw_amount \<Rightarrow> string \<Rightarrow> string + money" where
  "make_money (FloatAmount x) c = Inl ''money amount must not be a float''"
| "make_money (ExactAmount d) c =
     (if currency_ok c then Inr \<lparr>amount = d, currency = c\<rparr> else Inl ''currency'')"

definition money_add :: "money \<Rightarrow> money \<Rightarrow> string + money" where
  "money_add a b =
     (if currency a \<noteq> currency b then Inl ''cannot add money in different currencies''
      else make_money (ExactAmount (dadd (amount a) (amount b))) (currency a))"

text \<open>The operands \<open>*\<close> is called with: an exact multiplier, or the float it rejects.\<close>

fun money_mul :: "money \<Rightarrow> raw_amount \<Rightarrow> string + money" where
  "money_mul a (FloatAmount x) = Inl ''money multiplier must not be a float''"
| "money_mul a (ExactAmount k) = make_money (ExactAmount (dmul (amount a) k)) (currency a)"

section \<open>Lemmas\<close>

lemma check_source_Inr [simp]:
  "check_source p = Inr () \<longleftrightarrow> (fst p = None \<longleftrightarrow> fst (snd p) = Unavailable)"
  by (cases p) auto

lemma check_source_Inr_ex: "(\<exists>v. check_source p = Inr v) \<longleftrightarrow> check_source p = Inr ()"
  by auto

lemma check_token_field_Inr [simp]:
  "check_token_field p = Inr () \<longleftrightarrow> token_count_ok (fst p)"
  by (cases p) simp

lemma validate_sources_iff:
  "validate_sources u = Inr () \<longleftrightarrow>
     (\<forall>p \<in> set (usage_pairs u). fst p = None \<longleftrightarrow> fst (snd p) = Unavailable)"
  by (simp add: validate_sources_def)

lemma validate_usage_iff:
  "validate_usage u = Inr () \<longleftrightarrow>
     (\<forall>p \<in> set (usage_pairs u).
        token_count_ok (fst p) \<and> (fst p = None \<longleftrightarrow> fst (snd p) = Unavailable))"
  by (auto simp: validate_usage_def validate_sources_iff)

lemma usage_unavailable_valid [simp]: "validate_usage usage_unavailable = Inr ()"
  by (simp add: validate_usage_iff usage_unavailable_def usage_pairs_def token_count_ok_def)

lemma utc_sel [simp]: "ts_instant (utc t) = t" "ts_offset (utc t) = Some 0"
  by (simp_all add: utc_def)

lemma require_utc_utc [simp]: "require_utc (utc t) n = Inr ()"
  by (simp add: require_utc_def guard_that_def)

lemma validate_context_iff:
  "validate_context c = Inr () \<longleftrightarrow>
     ctx_request_id c \<noteq> '''' \<and> ts_offset (ctx_started_at c) = Some 0
     \<and> ts_offset (ctx_deadline_at c) = Some 0
     \<and> ts_instant (ctx_started_at c) \<le> ts_instant (ctx_deadline_at c)"
  by (auto simp: validate_context_def require_utc_def)

end
