(* ===== verification/Config_Schema.thy ===== *)
theory Config_Schema
  imports Domain
begin

text \<open>
  The configuration schemas (\<open>config/schema.py\<close>): exact price decimals, the provider
  document with its pricing table, the routing policy with its rules, fallback and timeout
  settings, and the gateway configuration that ties both documents together. Each pydantic
  model is a record and a validator; the model validators are functions of their own name.
  A dictionary is an association list in document order.
\<close>

section \<open>Exact decimals\<close>

definition is_digit :: "char \<Rightarrow> bool" where
  "is_digit c \<longleftrightarrow> CHR ''0'' \<le> c \<and> c \<le> CHR ''9''"

definition digit_value :: "char \<Rightarrow> int" where
  "digit_value c = of_char c - 48"

definition digits_value :: "string \<Rightarrow> int" where
  "digits_value s = foldl (\<lambda>n c. 10 * n + digit_value c) 0 s"

definition is_space :: "char \<Rightarrow> bool" where
  "is_space c \<longleftrightarrow> of_char c \<in> {9, 10, 11, 12, 13, 28, 29, 30, 31, 32, 133, 160 :: nat}"

definition strip :: "string \<Rightarrow> string" where
  "strip s = rev (dropWhile is_space (rev (dropWhile is_space s)))"

fun split_sign :: "string \<Rightarrow> rat \<times> string" where
  "split_sign (CHR ''-'' # s) = (-1, s)"
| "split_sign (CHR ''+'' # s) = (1, s)"
| "split_sign s = (1, s)"

definition scale10 :: "int \<Rightarrow> rat \<Rightarrow> rat" where
  "scale10 e x = (if 0 \<le> e then x * 10 ^ nat e else x / 10 ^ nat (- e))"

definition parse_exponent :: "string \<Rightarrow> int option" where
  "parse_exponent s =
     (case s of
        [] \<Rightarrow> Some 0
      | c # rest \<Rightarrow>
          if c \<noteq> CHR ''e'' \<and> c \<noteq> CHR ''E'' then None
          else (let (sg, ds) = split_sign rest
                in if ds \<noteq> [] \<and> list_all is_digit ds
                   then Some (if sg < 0 then - digits_value ds else digits_value ds)
                   else None))"

text \<open>
  \<open>Decimal(s)\<close> for a finite numeral: blanks around it and underscores are dropped, then
  a sign, digits with an optional point (at least one digit), an optional exponent.
  \<open>None\<close> is \<open>InvalidOperation\<close>, or the infinities and NaNs that the schema's type rejects.
\<close>

definition parse_decimal :: "string \<Rightarrow> decimal option" where
  "parse_decimal s0 =
     (let s = filter (\<lambda>c. c \<noteq> CHR ''_'') (strip s0);
          (sg, body) = split_sign s;
          whole = takeWhile is_digit body;
          rest = dropWhile is_digit body;
          (frac, tl) =
            (case rest of
               CHR ''.'' # r \<Rightarrow> (takeWhile is_digit r, dropWhile is_digit r)
             | _ \<Rightarrow> ([], rest))
      in if whole = [] \<and> frac = [] then None
         else map_option
           (\<lambda>e. sg * scale10 (e - int (length frac)) (of_int (digits_value (whole @ frac))))
           (parse_exponent tl))"

text \<open>\<open>_exact_decimal\<close> on the value the YAML loader produced.\<close>

fun exact_decimal :: "json \<Rightarrow> string + decimal" where
  "exact_decimal (JFloat x) =
     Inl ''prices must be quoted decimals, not floating-point YAML values''"
| "exact_decimal (JStr s) =
     (case parse_decimal s of
        None \<Rightarrow> Inl ''price must be a decimal''
      | Some d \<Rightarrow> Inr d)"
| "exact_decimal (JInt n) = Inr (of_int n)"
| "exact_decimal v = Inl ''price must be a decimal string or integer''"

text \<open>The annotated type \<open>PriceDecimal\<close>: exact, and not negative.\<close>

definition price_decimal :: "json \<Rightarrow> string + decimal" where
  "price_decimal v =
     bind_res (exact_decimal v)
       (\<lambda>d. if 0 \<le> d then Inr d else Inl ''greater_than_equal'')"

section \<open>The provider document\<close>

record provider_model_config =
  pmc_upstream_model :: string
  pmc_supports_sampling :: bool

datatype provider_kind = OpenAICompatible | Managed

record provider_config =
  pcf_kind :: provider_kind
  pcf_external :: bool
  pcf_models :: "(string \<times> provider_model_config) list"
  pcf_base_url_env :: "string option"
  pcf_adapter :: "string option"
  pcf_api_key_env :: "string option"

definition required_adapter_fields :: "provider_config \<Rightarrow> string + unit" where
  "required_adapter_fields c =
     (if pcf_kind c = OpenAICompatible \<and> \<not> truthy_str (pcf_base_url_env c)
      then Inl ''openai_compatible provider requires base_url_env''
      else if pcf_kind c = Managed \<and> \<not> truthy_str (pcf_adapter c)
      then Inl ''managed provider requires adapter''
      else Inr ())"

definition validate_provider_config :: "provider_config \<Rightarrow> string + unit" where
  "validate_provider_config c =
     seq_checks
       ([guard_that (pcf_models c \<noteq> []) ''models''] @
        map (\<lambda>(n, m). guard_that (pmc_upstream_model m \<noteq> '''') ''upstream_model'') (pcf_models c) @
        [required_adapter_fields c])"

record route_alias_config =
  rac_provider :: string
  rac_model :: string

record pricing_config =
  prc_currency :: string
  prc_effective_date :: "int \<times> int \<times> int"
  prc_input_per_1m :: decimal
  prc_output_per_1m :: decimal
  prc_cached_input_per_1m :: "decimal option"
  prc_source_url :: string

text \<open>The prices as they come from the document, before the annotated type reads them.\<close>

definition make_pricing ::
    "string \<Rightarrow> int \<times> int \<times> int \<Rightarrow> json \<Rightarrow> json \<Rightarrow> json \<Rightarrow> string \<Rightarrow> string + pricing_config" where
  "make_pricing cur date inp out cached url =
     bind_res (guard_that (currency_ok cur) ''currency'') (\<lambda>_.
     bind_res (price_decimal inp) (\<lambda>i.
     bind_res (price_decimal out) (\<lambda>out'.
     bind_res (case cached of JNull \<Rightarrow> Inr None | v \<Rightarrow> bind_res (price_decimal v) (\<lambda>d. Inr (Some d)))
       (\<lambda>c.
     bind_res (guard_that (url \<noteq> '''') ''source_url'') (\<lambda>_.
       Inr \<lparr>prc_currency = cur, prc_effective_date = date, prc_input_per_1m = i,
            prc_output_per_1m = out', prc_cached_input_per_1m = c, prc_source_url = url\<rparr>)))))"

text \<open>What a pricing entry satisfies once the schema has accepted it.\<close>

definition pricing_ok :: "pricing_config \<Rightarrow> bool" where
  "pricing_ok p \<longleftrightarrow>
     currency_ok (prc_currency p) \<and> 0 \<le> prc_input_per_1m p \<and> 0 \<le> prc_output_per_1m p
     \<and> (case prc_cached_input_per_1m p of None \<Rightarrow> True | Some d \<Rightarrow> 0 \<le> d)
     \<and> prc_source_url p \<noteq> ''''"

record providers_document =
  pd_providers :: "(string \<times> provider_config) list"
  pd_route_aliases :: "(string \<times> route_alias_config) list"
  pd_pricing :: "(string \<times> (string \<times> pricing_config) list) list"

datatype document_error =
    AliasUnknownProvider string string
  | AliasUnknownModel string string
  | PricingUnknownProvider string
  | PricingUnknownModels string "string list"
  | MissingPrices string "string list"
  | DocumentField string

fun check_alias ::
    "(string \<times> provider_config) list \<Rightarrow> string \<times> route_alias_config \<Rightarrow> document_error + unit" where
  "check_alias ps (alias_name, a) =
     (case map_of ps (rac_provider a) of
        None \<Rightarrow> Inl (AliasUnknownProvider alias_name (rac_provider a))
      | Some p \<Rightarrow>
          guard_that (rac_model a \<in> set (dict_keys (pcf_models p)))
            (AliasUnknownModel alias_name (rac_model a)))"

fun check_pricing ::
    "(string \<times> provider_config) list \<Rightarrow> string \<times> (string \<times> pricing_config) list
      \<Rightarrow> document_error + unit" where
  "check_pricing ps (provider_name, model_prices) =
     (case map_of ps provider_name of
        None \<Rightarrow> Inl (PricingUnknownProvider provider_name)
      | Some p \<Rightarrow>
          (let unknown = set_difference (dict_keys model_prices) (dict_keys (pcf_models p))
           in guard_that (unknown = []) (PricingUnknownModels provider_name unknown)))"

fun check_managed_prices ::
    "(string \<times> (string \<times> pricing_config) list) list \<Rightarrow> string \<times> provider_config
      \<Rightarrow> document_error + unit" where
  "check_managed_prices pricing (provider_name, p) =
     (if pcf_kind p \<noteq> Managed then Inr ()
      else (let prices = (case map_of pricing provider_name of None \<Rightarrow> [] | Some m \<Rightarrow> m);
                missing = set_difference (dict_keys (pcf_models p)) (dict_keys prices)
            in guard_that (missing = []) (MissingPrices provider_name missing)))"

definition references_and_managed_prices_exist :: "providers_document \<Rightarrow> document_error + unit" where
  "references_and_managed_prices_exist d =
     seq_checks
       (map (check_alias (pd_providers d)) (pd_route_aliases d) @
        map (check_pricing (pd_providers d)) (pd_pricing d) @
        map (check_managed_prices (pd_pricing d)) (pd_providers d))"

definition as_field :: "string + unit \<Rightarrow> document_error + unit" where
  "as_field r = (case r of Inl e \<Rightarrow> Inl (DocumentField e) | Inr _ \<Rightarrow> Inr ())"

definition validate_document :: "providers_document \<Rightarrow> document_error + unit" where
  "validate_document d =
     seq_checks
       ([guard_that (pd_providers d \<noteq> []) (DocumentField ''providers'')] @
        map (\<lambda>(n, p). as_field (validate_provider_config p)) (pd_providers d) @
        map (\<lambda>(n, a). guard_that (rac_provider a \<noteq> '''' \<and> rac_model a \<noteq> '''')
                        (DocumentField ''route_aliases'')) (pd_route_aliases d) @
        map (\<lambda>(n, m). guard_that (list_all (pricing_ok \<circ> snd) m) (DocumentField ''pricing''))
          (pd_pricing d) @
        [references_and_managed_prices_exist d])"

section \<open>The routing policy\<close>

record routing_provider_config =
  rpc_managed :: bool
  rpc_external :: bool
  rpc_provider :: "string option"
  rpc_model_alias :: "string option"

definition managed_route_fields :: "routing_provider_config \<Rightarrow> string + unit" where
  "managed_route_fields c =
     guard_that (\<not> (rpc_managed c \<and>
                    (\<not> truthy_str (rpc_provider c) \<or> \<not> truthy_str (rpc_model_alias c))))
       ''managed routing provider requires provider and model_alias''"

record rule_match =
  wm_data_class :: "data_class list option"
  wm_workload :: "string list option"
  wm_quality_tier :: "quality_tier list option"

record routing_rule =
  rr_name :: string
  rr_when :: rule_match
  rr_route :: "string list"

record fallback_config =
  fb_on :: "error_class list"
  fb_max_attempts :: int
  fb_never_cross :: bool

text \<open>\<open>AllowedFallbackError\<close>, the non-empty list of them, and the positive bound.\<close>

definition validate_fallback :: "fallback_config \<Rightarrow> string + unit" where
  "validate_fallback c =
     seq_checks
       [guard_that (fb_on c \<noteq> [] \<and> set (fb_on c) \<subseteq> {TimeoutClass, RateLimited, Provider5xx}) ''on'',
        guard_that (0 < fb_max_attempts c) ''max_attempts'']"

record timeout_config =
  to_connect :: pyfloat
  to_response_header :: pyfloat
  to_stream_idle :: pyfloat
  to_per_attempt :: pyfloat
  to_global_deadline :: pyfloat

definition default_timeouts :: timeout_config where
  "default_timeouts =
     \<lparr>to_connect = 5, to_response_header = 30, to_stream_idle = 30, to_per_attempt = 60,
      to_global_deadline = 90\<rparr>"

definition timeout_fields :: "timeout_config \<Rightarrow> (string \<times> pyfloat) list" where
  "timeout_fields t =
     [(''connect_timeout'', to_connect t), (''response_header_timeout'', to_response_header t),
      (''stream_idle_timeout'', to_stream_idle t), (''per_attempt_timeout'', to_per_attempt t)]"

definition deadline_covers_each_timeout :: "timeout_config \<Rightarrow> string + unit" where
  "deadline_covers_each_timeout t =
     seq_checks (map (\<lambda>(n, v). guard_that (v \<le> to_global_deadline t)
                        (n @ '' must not exceed global_request_deadline'')) (timeout_fields t))"

definition validate_timeouts :: "timeout_config \<Rightarrow> string + unit" where
  "validate_timeouts t =
     seq_checks
       (map (\<lambda>(n, v). guard_that (0 < v) n)
          (timeout_fields t @ [(''global_request_deadline'', to_global_deadline t)]) @
        [deadline_covers_each_timeout t])"

record routing_policy =
  rp_version :: int
  rp_providers :: "(string \<times> routing_provider_config) list"
  rp_rules :: "routing_rule list"
  rp_fallback :: fallback_config
  rp_timeouts :: timeout_config
  rp_workloads :: "string list"

definition default_workloads :: "string list" where
  "default_workloads = [''classification'', ''structured-extraction'', ''generation'', ''generic'']"

datatype policy_error =
    InvalidWorkload string
  | RuleWorkloadsNotAllowed "string list"
  | RuleUnknownProviders string "string list"
  | RuleRestrictedExternal string "string list"
  | PolicyField string

text \<open>\<open>re.fullmatch(r"[a-z0-9][a-z0-9-]{0,31}", w)\<close>\<close>

definition slug_char :: "char \<Rightarrow> bool" where
  "slug_char c \<longleftrightarrow> CHR ''a'' \<le> c \<and> c \<le> CHR ''z'' \<or> is_digit c"

definition workload_ok :: "string \<Rightarrow> bool" where
  "workload_ok w =
     (case w of
        [] \<Rightarrow> False
      | c # cs \<Rightarrow> slug_char c \<and> length cs \<le> 31 \<and> list_all (\<lambda>x. slug_char x \<or> x = CHR ''-'') cs)"

definition rule_workloads :: "routing_rule list \<Rightarrow> string list" where
  "rule_workloads rules =
     concat (map (\<lambda>r. case wm_workload (rr_when r) of None \<Rightarrow> [] | Some ws \<Rightarrow> ws) rules)"

definition workload_identifiers_are_bounded :: "routing_policy \<Rightarrow> policy_error + unit" where
  "workload_identifiers_are_bounded p =
     (let unknown = set_difference (rule_workloads (rp_rules p)) (rp_workloads p)
      in seq_checks
           (map (\<lambda>w. guard_that (workload_ok w) (InvalidWorkload w)) (rp_workloads p) @
            [guard_that (unknown = []) (RuleWorkloadsNotAllowed unknown)]))"

definition matches_restricted :: "routing_rule \<Rightarrow> bool" where
  "matches_restricted r =
     (case wm_data_class (rr_when r) of None \<Rightarrow> True | Some ds \<Rightarrow> Restricted \<in> set ds)"

text \<open>
  \<open>self.providers[name].external\<close>: the look-up is only reached for names checked to be
  keys just before, so the \<open>KeyError\<close> branch of the subscript does not occur.
\<close>

definition known_external :: "(string \<times> routing_provider_config) list \<Rightarrow> string \<Rightarrow> bool" where
  "known_external ps name = (case map_of ps name of None \<Rightarrow> False | Some r \<Rightarrow> rpc_external r)"

definition check_rule ::
    "(string \<times> routing_provider_config) list \<Rightarrow> routing_rule \<Rightarrow> policy_error + unit" where
  "check_rule ps r =
     (let unknown = set_difference (rr_route r) (dict_keys ps);
          external = filter (known_external ps) (rr_route r)
      in if unknown \<noteq> [] then Inl (RuleUnknownProviders (rr_name r) unknown)
         else if matches_restricted r \<and> external \<noteq> []
         then Inl (RuleRestrictedExternal (rr_name r) external)
         else Inr ())"

definition routes_are_known_and_restricted_is_private :: "routing_policy \<Rightarrow> policy_error + unit" where
  "routes_are_known_and_restricted_is_private p =
     seq_checks (map (check_rule (rp_providers p)) (rp_rules p))"

definition as_policy_field :: "string + unit \<Rightarrow> policy_error + unit" where
  "as_policy_field r = (case r of Inl e \<Rightarrow> Inl (PolicyField e) | Inr _ \<Rightarrow> Inr ())"

definition validate_policy :: "routing_policy \<Rightarrow> policy_error + unit" where
  "validate_policy p =
     seq_checks
       ([guard_that (rp_version p = 1) (PolicyField ''version''),
         guard_that (rp_providers p \<noteq> []) (PolicyField ''providers'')] @
        map (\<lambda>(n, c). as_policy_field (managed_route_fields c)) (rp_providers p) @
        [guard_that (rp_rules p \<noteq> []) (PolicyField ''rules'')] @
        map (\<lambda>r. guard_that (rr_name r \<noteq> '''' \<and> rr_route r \<noteq> []) (PolicyField ''rule'')) (rp_rules p) @
        [as_policy_field (validate_fallback (rp_fallback p)),
         as_policy_field (validate_timeouts (rp_timeouts p)),
         guard_that (rp_workloads p \<noteq> []) (PolicyField ''workloads''),
         workload_identifiers_are_bounded p,
         routes_are_known_and_restricted_is_private p])"

section \<open>The gateway configuration\<close>

record gateway_config =
  gc_providers :: providers_document
  gc_routing :: routing_policy

datatype gateway_config_error =
    RouteUnknownProvider string string
  | InconsistentExternal string
  | RouteUnknownModel string string

fun check_route_provider ::
    "providers_document \<Rightarrow> string \<times> routing_provider_config \<Rightarrow> gateway_config_error + unit" where
  "check_route_provider d (route_name, r) =
     (let provider_name = or_str (rpc_provider r) route_name
      in case map_of (pd_providers d) provider_name of
           None \<Rightarrow> Inl (RouteUnknownProvider route_name provider_name)
         | Some p \<Rightarrow>
             if rpc_external r \<noteq> pcf_external p then Inl (InconsistentExternal route_name)
             else (case rpc_model_alias r of
                     None \<Rightarrow> Inr ()
                   | Some m \<Rightarrow>
                       guard_that (m = '''' \<or> m \<in> set (dict_keys (pcf_models p)))
                         (RouteUnknownModel route_name m)))"

definition routing_matches_provider_document :: "gateway_config \<Rightarrow> gateway_config_error + unit" where
  "routing_matches_provider_document c =
     seq_checks (map (check_route_provider (gc_providers c)) (rp_providers (gc_routing c)))"

section \<open>What a validated document guarantees\<close>

lemma as_policy_field_Inr [simp]: "as_policy_field r = Inr () \<longleftrightarrow> r = Inr ()"
  by (auto simp: as_policy_field_def split: sum.splits)

lemma as_field_Inr [simp]: "as_field r = Inr () \<longleftrightarrow> r = Inr ()"
  by (auto simp: as_field_def split: sum.splits)

lemma validate_policy_parts:
  assumes "validate_policy p = Inr ()"
  shows "rp_rules p \<noteq> []" "rp_providers p \<noteq> []" "validate_fallback (rp_fallback p) = Inr ()"
    "validate_timeouts (rp_timeouts p) = Inr ()" "workload_identifiers_are_bounded p = Inr ()"
    "routes_are_known_and_restricted_is_private p = Inr ()"
    "r \<in> set (rp_rules p) \<Longrightarrow> rr_name r \<noteq> '''' \<and> rr_route r \<noteq> []"
  using assms by (auto simp: validate_policy_def)

lemma validated_fallback:
  assumes "validate_policy p = Inr ()"
  shows "0 < fb_max_attempts (rp_fallback p)"
    and "set (fb_on (rp_fallback p)) \<subseteq> {TimeoutClass, RateLimited, Provider5xx}"
  using validate_policy_parts(3) [OF assms]
  by (auto simp: validate_fallback_def)

lemma validated_timeouts:
  assumes "validate_policy p = Inr ()"
  shows "0 < to_per_attempt (rp_timeouts p)" "0 < to_global_deadline (rp_timeouts p)"
    "0 < to_response_header (rp_timeouts p)" "0 < to_stream_idle (rp_timeouts p)"
    "to_per_attempt (rp_timeouts p) \<le> to_global_deadline (rp_timeouts p)"
  using validate_policy_parts(4) [OF assms]
  by (auto simp: validate_timeouts_def deadline_covers_each_timeout_def timeout_fields_def
     )

lemma check_rule_Inr:
  "check_rule ps r = Inr () \<longleftrightarrow>
     set (rr_route r) \<subseteq> set (dict_keys ps)
     \<and> (matches_restricted r \<longrightarrow> (\<forall>n \<in> set (rr_route r). \<not> known_external ps n))"
  by (auto simp: check_rule_def Let_def filter_empty_conv)

lemma validated_rule:
  assumes "validate_policy p = Inr ()" "r \<in> set (rp_rules p)" "n \<in> set (rr_route r)"
  shows "n \<in> set (dict_keys (rp_providers p))"
    and "matches_restricted r \<Longrightarrow> \<not> known_external (rp_providers p) n"
proof -
  have "check_rule (rp_providers p) r = Inr ()"
    using validate_policy_parts(6) [OF assms(1)] assms(2)
    by (auto simp: routes_are_known_and_restricted_is_private_def)
  then show "n \<in> set (dict_keys (rp_providers p))"
    and "matches_restricted r \<Longrightarrow> \<not> known_external (rp_providers p) n"
    using assms(3) by (auto simp: check_rule_Inr)
qed

lemma validated_workloads:
  assumes "validate_policy p = Inr ()"
  shows "w \<in> set (rp_workloads p) \<Longrightarrow> workload_ok w"
    and "w \<in> set (rule_workloads (rp_rules p)) \<Longrightarrow> w \<in> set (rp_workloads p)"
  using validate_policy_parts(5) [OF assms]
  by (auto simp: workload_identifiers_are_bounded_def Let_def)

lemma workload_length: "workload_ok w \<Longrightarrow> 1 \<le> length w \<and> length w \<le> 32"
  by (cases w) (auto simp: workload_ok_def)

lemma routing_matches_Inr:
  assumes "routing_matches_provider_document c = Inr ()"
    and "map_of (rp_providers (gc_routing c)) n = Some r"
  obtains p where
    "map_of (pd_providers (gc_providers c)) (or_str (rpc_provider r) n) = Some p"
    "pcf_external p = rpc_external r"
proof -
  have "(n, r) \<in> set (rp_providers (gc_routing c))"
    using assms(2) by (rule map_of_SomeD)
  with assms(1) have "check_route_provider (gc_providers c) (n, r) = Inr ()"
    by (auto simp: routing_matches_provider_document_def)
  then show ?thesis
    using that by (auto simp: Let_def split: option.splits if_splits)
qed

lemma managed_prices_complete:
  assumes "validate_document d = Inr ()" "(n, p) \<in> set (pd_providers d)" "pcf_kind p = Managed"
    "m \<in> set (dict_keys (pcf_models p))"
  shows "\<exists>ps pr. map_of (pd_pricing d) n = Some ps \<and> map_of ps m = Some pr"
proof -
  define prices where "prices = (case map_of (pd_pricing d) n of None \<Rightarrow> [] | Some ps \<Rightarrow> ps)"
  have "references_and_managed_prices_exist d = Inr ()"
    using assms(1) by (auto simp: validate_document_def)
  then have "check_managed_prices (pd_pricing d) (n, p) = Inr ()"
    using assms(2)
    by (auto simp: references_and_managed_prices_exist_def)
  then have "set (dict_keys (pcf_models p)) \<subseteq> set (dict_keys prices)"
    using assms(3) by (simp add: Let_def prices_def)
  with assms(4) have "\<exists>pr. map_of prices m = Some pr" by (blast intro: in_dict_keysE)
  then show ?thesis by (cases "map_of (pd_pricing d) n") (auto simp: prices_def)
qed

lemma validated_pricing:
  assumes "validate_document d = Inr ()"
    and "map_of (pd_pricing d) n = Some ps" and "map_of ps m = Some pr"
  shows "pricing_ok pr"
proof -
  have "(n, ps) \<in> set (pd_pricing d)" "(m, pr) \<in> set ps"
    using assms(2,3) by (auto dest: map_of_SomeD)
  then show ?thesis
    using assms(1)
    by (force simp: validate_document_def list_all_iff)
qed

lemma price_decimal_nonneg: "price_decimal v = Inr d \<Longrightarrow> 0 \<le> d"
  by (auto simp: price_decimal_def bind_res_Inr split: if_splits)

lemma make_pricing_ok: "make_pricing cur date inp out cached url = Inr p \<Longrightarrow> pricing_ok p"
  by (cases cached)
    (auto simp: make_pricing_def bind_res_Inr pricing_ok_def dest: price_decimal_nonneg)

end
