(* ===== verification/Lab_Config.thy ===== *)
theory Lab_Config
  imports Config_Schema
begin

text \<open>
  The configuration the repository ships (\<open>policy/routing.yaml\<close> with
  \<open>config/providers.example.yaml\<close>), with shorter timeouts, as the values its loader produces. It
  is the concrete configuration the development's theorems are evaluated on.
\<close>

definition lab_timeouts :: timeout_config where
  "lab_timeouts =
     \<lparr>to_connect = 1, to_response_header = 2, to_stream_idle = 2, to_per_attempt = 3,
      to_global_deadline = 5\<rparr>"

definition lab_rules :: "routing_rule list" where
  "lab_rules =
     [\<lparr>rr_name = ''restricted-private-only'',
       rr_when = \<lparr>wm_data_class = Some [Restricted], wm_workload = None, wm_quality_tier = None\<rparr>,
       rr_route = [''private-vllm'']\<rparr>,
      \<lparr>rr_name = ''economy-default'',
       rr_when = \<lparr>wm_data_class = Some [Public, Internal], wm_workload = None,
                  wm_quality_tier = Some [Economy]\<rparr>,
       rr_route = [''private-vllm'', ''managed-economy'']\<rparr>,
      \<lparr>rr_name = ''confidential-default'',
       rr_when = \<lparr>wm_data_class = Some [Confidential], wm_workload = None,
                  wm_quality_tier = Some [Economy, Balanced]\<rparr>,
       rr_route = [''private-vllm'']\<rparr>,
      \<lparr>rr_name = ''premium-default'',
       rr_when = \<lparr>wm_data_class = Some [Public, Internal, Confidential], wm_workload = None,
                  wm_quality_tier = Some [Premium]\<rparr>,
       rr_route = [''managed-premium'', ''private-vllm'']\<rparr>,
      \<lparr>rr_name = ''balanced-default'',
       rr_when = \<lparr>wm_data_class = Some [Public, Internal], wm_workload = None,
                  wm_quality_tier = Some [Balanced]\<rparr>,
       rr_route = [''private-vllm'', ''managed-premium'']\<rparr>]"

definition lab_policy :: routing_policy where
  "lab_policy =
     \<lparr>rp_version = 1,
      rp_providers =
        [(''private-vllm'', \<lparr>rpc_managed = False, rpc_external = False, rpc_provider = None,
                             rpc_model_alias = None\<rparr>),
         (''managed-economy'', \<lparr>rpc_managed = True, rpc_external = True,
                                rpc_provider = Some ''managed-primary'',
                                rpc_model_alias = Some ''lab-economy''\<rparr>),
         (''managed-premium'', \<lparr>rpc_managed = True, rpc_external = True,
                                rpc_provider = Some ''managed-primary'',
                                rpc_model_alias = Some ''lab-premium''\<rparr>)],
      rp_rules = lab_rules,
      rp_fallback = \<lparr>fb_on = [TimeoutClass, RateLimited, Provider5xx], fb_max_attempts = 2,
                     fb_never_cross = True\<rparr>,
      rp_timeouts = lab_timeouts,
      rp_workloads = default_workloads\<rparr>"

definition lab_price :: "decimal \<Rightarrow> decimal \<Rightarrow> pricing_config" where
  "lab_price inp out =
     \<lparr>prc_currency = ''USD'', prc_effective_date = (2026, 8, 15), prc_input_per_1m = inp,
      prc_output_per_1m = out, prc_cached_input_per_1m = None,
      prc_source_url = ''https://platform.claude.com/docs/en/pricing.md''\<rparr>"

definition lab_providers :: providers_document where
  "lab_providers =
     \<lparr>pd_providers =
        [(''private-vllm'',
          \<lparr>pcf_kind = OpenAICompatible, pcf_external = False,
           pcf_models = [(''lab-private'', \<lparr>pmc_upstream_model = ''lab-private'',
                                            pmc_supports_sampling = True\<rparr>)],
           pcf_base_url_env = Some ''PRIVATE_VLLM_BASE_URL'', pcf_adapter = None,
           pcf_api_key_env = Some ''PRIVATE_VLLM_API_KEY''\<rparr>),
         (''managed-primary'',
          \<lparr>pcf_kind = Managed, pcf_external = True,
           pcf_models = [(''lab-economy'', \<lparr>pmc_upstream_model = ''claude-haiku-4-5-20251001'',
                                            pmc_supports_sampling = True\<rparr>),
                         (''lab-premium'', \<lparr>pmc_upstream_model = ''claude-opus-5'',
                                            pmc_supports_sampling = False\<rparr>)],
           pcf_base_url_env = None, pcf_adapter = Some ''anthropic'',
           pcf_api_key_env = Some ''MANAGED_PRIMARY_API_KEY''\<rparr>)],
      pd_route_aliases =
        [(''lab-default'', \<lparr>rac_provider = ''private-vllm'', rac_model = ''lab-private''\<rparr>),
         (''managed-economy'', \<lparr>rac_provider = ''managed-primary'', rac_model = ''lab-economy''\<rparr>),
         (''managed-premium'', \<lparr>rac_provider = ''managed-primary'', rac_model = ''lab-premium''\<rparr>)],
      pd_pricing =
        [(''managed-primary'', [(''lab-economy'', lab_price 1 5), (''lab-premium'', lab_price 5 25)])]\<rparr>"

definition lab_gateway :: gateway_config where
  "lab_gateway = \<lparr>gc_providers = lab_providers, gc_routing = lab_policy\<rparr>"

lemma lab_policy_valid: "validate_policy lab_policy = Inr ()"
  by code_simp

lemma lab_providers_valid: "validate_document lab_providers = Inr ()"
  by code_simp

lemma lab_gateway_valid: "routing_matches_provider_document lab_gateway = Inr ()"
  by code_simp

lemma lab_gateway_sel [simp]:
  "gc_providers lab_gateway = lab_providers" "gc_routing lab_gateway = lab_policy"
  by (simp_all add: lab_gateway_def)

section \<open>A request\<close>

definition lab_request :: "data_class \<Rightarrow> quality_tier \<Rightarrow> chat_request" where
  "lab_request d q =
     \<lparr>cr_messages = [\<lparr>cm_role = UserRole, cm_content = [text_part ''classify this''], cm_name = None\<rparr>],
      cr_model = ''lab-default'', cr_temperature = 0, cr_max_tokens = 256, cr_stream = False,
      cr_metadata = \<lparr>rm_workload = ''generic'', rm_data_class = d, rm_quality_tier = q,
                     rm_request_id = ''req-1''\<rparr>\<rparr>"

definition lab_ctx :: request_context where
  "lab_ctx = \<lparr>ctx_request_id = ''req-1'', ctx_started_at = utc 0, ctx_deadline_at = utc 5\<rparr>"

definition lab_usage :: normalized_usage where
  "lab_usage = usage_unavailable\<lparr>nu_input := Some 100, nu_input_source := ProviderReported,
     nu_output := Some 20, nu_output_source := ProviderReported\<rparr>"

definition lab_result :: "string \<Rightarrow> provider_result" where
  "lab_result n =
     \<lparr>pr_provider = n, pr_model = ''m'', pr_output = [text_part ''ok''],
      pr_finish_reason = Some ''stop'', pr_usage = lab_usage, pr_extensions = []\<rparr>"

lemma lab_request_valid: "validate_chat_request (lab_request Restricted Economy) = Inr ()"
  by code_simp

lemma lab_ctx_valid: "validate_context lab_ctx = Inr ()"
  by code_simp

end
