(* ===== verification/Policy_Router.thy ===== *)
theory Policy_Router
  imports Lab_Config
begin

text \<open>
  The deterministic policy router (\<open>routing/policy.py\<close>): rule matching, the route decision,
  the selection of the first matching rule, and the removal of external providers from a
  route for restricted data. The locale \<open>route_filter\<close> is the contract of such a removal;
  the router's and, in \<open>Fallback\<close>, the executor's own filter are interpretations of it.
\<close>

section \<open>The router\<close>

record route_decision =
  rd_rule_name :: string
  rd_primary :: string
  rd_fallbacks :: "string list"

definition decision_providers :: "route_decision \<Rightarrow> string list" where
  "decision_providers d = rd_primary d # rd_fallbacks d"

text \<open>
  The two ways to raise \<open>PolicyDenied\<close>, and the \<open>KeyError\<close> of \<open>policy.providers[name]\<close>
  for a route that names no provider.
\<close>

datatype route_error =
    NoPermittedProvider string
  | NoRuleMatches data_class string quality_tier
  | ProviderKeyError string

definition accepts :: "'a list option \<Rightarrow> 'a \<Rightarrow> bool" where
  "accepts field x = (case field of None \<Rightarrow> True | Some xs \<Rightarrow> x \<in> set xs)"

definition rule_matches :: "routing_rule \<Rightarrow> data_class \<Rightarrow> string \<Rightarrow> quality_tier \<Rightarrow> bool" where
  "rule_matches r d w q =
     (let when = rr_when r
      in if \<not> accepts (wm_data_class when) d then False
         else if \<not> accepts (wm_workload when) w then False
         else accepts (wm_quality_tier when) q)"

text \<open>\<open>[name for name in names if not policy.providers[name].external]\<close>\<close>

fun private_only :: "(string \<times> routing_provider_config) list \<Rightarrow> string list \<Rightarrow> string + string list"
where
  "private_only ps [] = Inr []"
| "private_only ps (n # ns) =
     (case map_of ps n of
        None \<Rightarrow> Inl n
      | Some c \<Rightarrow>
          bind_res (private_only ps ns) (\<lambda>ms. Inr (if rpc_external c then ms else n # ms)))"

definition restricted_route :: "routing_policy \<Rightarrow> data_class \<Rightarrow> string list \<Rightarrow> string + string list"
where
  "restricted_route p d route =
     (if d = Restricted then private_only (rp_providers p) route else Inr route)"

fun select_from ::
    "routing_policy \<Rightarrow> routing_rule list \<Rightarrow> data_class \<Rightarrow> string \<Rightarrow> quality_tier
      \<Rightarrow> route_error + route_decision" where
  "select_from p [] d w q = Inl (NoRuleMatches d w q)"
| "select_from p (r # rs) d w q =
     (if \<not> rule_matches r d w q then select_from p rs d w q
      else (case restricted_route p d (rr_route r) of
              Inl n \<Rightarrow> Inl (ProviderKeyError n)
            | Inr [] \<Rightarrow> Inl (NoPermittedProvider (rr_name r))
            | Inr (x # xs) \<Rightarrow>
                Inr \<lparr>rd_rule_name = rr_name r, rd_primary = x, rd_fallbacks = xs\<rparr>))"

definition select_route ::
    "routing_policy \<Rightarrow> data_class \<Rightarrow> string \<Rightarrow> quality_tier \<Rightarrow> route_error + route_decision" where
  "select_route p d w q = select_from p (rp_rules p) d w q"

section \<open>The contract of a route filter\<close>

locale route_filter =
  fixes keep :: "data_class \<Rightarrow> string list \<Rightarrow> 'e + string list"
    and external :: "string \<Rightarrow> bool"
  assumes keep_subseq: "keep d ns = Inr ms \<Longrightarrow> subseq ms ns"
    and keep_private: "keep Restricted ns = Inr ms \<Longrightarrow> n \<in> set ms \<Longrightarrow> \<not> external n"
begin

lemma keep_subset: "keep d ns = Inr ms \<Longrightarrow> n \<in> set ms \<Longrightarrow> n \<in> set ns"
  by (drule keep_subseq) (auto simp: subseq_conv_nths dest: in_set_nthsD)

lemma no_external: "keep Restricted ns = Inr ms \<Longrightarrow> filter external ms = []"
  by (auto simp: filter_empty_conv dest: keep_private)

lemma keep_length: "keep d ns = Inr ms \<Longrightarrow> length ms \<le> length ns"
  by (drule keep_subseq) (rule list_emb_length)

end

definition policy_external :: "routing_policy \<Rightarrow> string \<Rightarrow> bool" where
  "policy_external p n = known_external (rp_providers p) n"

lemma private_only_Inr:
  "private_only ps ns = Inr ms \<longleftrightarrow>
     set ns \<subseteq> set (dict_keys ps) \<and> ms = filter (\<lambda>n. \<not> known_external ps n) ns"
  by (induction ns arbitrary: ms)
    (auto simp: bind_res_Inr known_external_def split: option.splits
      dest: map_of_dict_keysD in_dict_keysE)

lemma private_only_Inl:
  "private_only ps ns = Inl n \<Longrightarrow> n \<in> set ns \<and> n \<notin> set (dict_keys ps)"
  by (induction ns)
    (auto simp: bind_res_Inl split: option.splits dest: in_dict_keysE)

interpretation router_filter: route_filter "restricted_route p" "policy_external p"
  for p :: routing_policy
proof
  show "restricted_route p d ns = Inr ms \<Longrightarrow> subseq ms ns" for d ns ms
    by (auto simp: restricted_route_def private_only_Inr split: if_splits)
  show "restricted_route p Restricted ns = Inr ms \<Longrightarrow> n \<in> set ms \<Longrightarrow> \<not> policy_external p n" for ns ms n
    by (auto simp: restricted_route_def private_only_Inr policy_external_def)
qed

section \<open>Lemmas\<close>

lemma select_from_Inr:
  "select_from p rs d w q = Inr dec \<Longrightarrow>
   \<exists>rs1 r rs2. rs = rs1 @ r # rs2 \<and> (\<forall>r' \<in> set rs1. \<not> rule_matches r' d w q)
     \<and> rule_matches r d w q \<and> rd_rule_name dec = rr_name r
     \<and> restricted_route p d (rr_route r) = Inr (decision_providers dec)"
proof (induction rs)
  case (Cons r rs)
  show ?case
  proof (cases "rule_matches r d w q")
    case True
    then have "rd_rule_name dec = rr_name r
        \<and> restricted_route p d (rr_route r) = Inr (decision_providers dec)"
      using Cons.prems
      by (auto simp: decision_providers_def split: sum.splits list.splits)
    then show ?thesis using True by (intro exI [of _ "[]"] exI [of _ r] exI [of _ rs]) simp
  next
    case False
    then obtain rs1 r0 rs2 where "rs = rs1 @ r0 # rs2" "\<forall>r' \<in> set rs1. \<not> rule_matches r' d w q"
      "rule_matches r0 d w q" "rd_rule_name dec = rr_name r0"
      "restricted_route p d (rr_route r0) = Inr (decision_providers dec)"
      using Cons by auto
    with False show ?thesis
      by (intro exI [of _ "r # rs1"] exI [of _ r0] exI [of _ rs2]) simp
  qed
qed simp

lemma select_route_rule:
  assumes "select_route p d w q = Inr dec"
  obtains r where "r \<in> set (rp_rules p)" "rule_matches r d w q" "rd_rule_name dec = rr_name r"
    "restricted_route p d (rr_route r) = Inr (decision_providers dec)"
proof -
  obtain rs1 r rs2 where "rp_rules p = rs1 @ r # rs2" "rule_matches r d w q"
    "rd_rule_name dec = rr_name r" "restricted_route p d (rr_route r) = Inr (decision_providers dec)"
    using select_from_Inr [OF assms [unfolded select_route_def]] by blast
  then show thesis by (intro that [of r]) simp_all
qed

lemma select_from_denied:
  "select_from p rs d w q = Inl (NoRuleMatches d' w' q') \<longleftrightarrow>
     (d', w', q') = (d, w, q) \<and> (\<forall>r \<in> set rs. \<not> rule_matches r d w q)"
  by (induction rs) (auto split: sum.splits list.splits)

lemma rule_matches_restricted: "rule_matches r Restricted w q \<Longrightarrow> matches_restricted r"
  by (cases "wm_data_class (rr_when r)")
    (simp_all add: rule_matches_def Let_def accepts_def matches_restricted_def split: if_splits)

lemma filter_private_route:
  assumes "validate_policy p = Inr ()" "r \<in> set (rp_rules p)" "rule_matches r d w q"
  shows "restricted_route p d (rr_route r) = Inr (rr_route r)"
proof (cases "d = Restricted")
  case True
  then have "\<not> known_external (rp_providers p) n" if "n \<in> set (rr_route r)" for n
    using validated_rule(2) [OF assms(1,2) that] rule_matches_restricted assms(3) by blast
  moreover have "set (rr_route r) \<subseteq> set (dict_keys (rp_providers p))"
    using validated_rule(1) [OF assms(1,2)] by blast
  ultimately show ?thesis using True by (simp add: restricted_route_def private_only_Inr)
qed (simp add: restricted_route_def)

lemma select_from_validated:
  assumes "validate_policy p = Inr ()" "set rs \<subseteq> set (rp_rules p)"
  shows "select_from p rs d w q =
     (case find (\<lambda>r. rule_matches r d w q) rs of
        None \<Rightarrow> Inl (NoRuleMatches d w q)
      | Some r \<Rightarrow> Inr \<lparr>rd_rule_name = rr_name r, rd_primary = hd (rr_route r),
                     rd_fallbacks = tl (rr_route r)\<rparr>)"
  using assms(2)
proof (induction rs)
  case (Cons r rs)
  show ?case
  proof (cases "rule_matches r d w q")
    case True
    have "rr_route r \<noteq> []" using validate_policy_parts(7) [OF assms(1)] Cons.prems by simp
    then show ?thesis
      using True filter_private_route [OF assms(1) _ True] Cons.prems
      by (auto split: list.splits)
  next
    case False
    then show ?thesis using Cons by simp
  qed
qed simp

lemma restricted_route_private:
  assumes "validate_policy (gc_routing g) = Inr ()"
    and "routing_matches_provider_document g = Inr ()"
    and "select_route (gc_routing g) Restricted w q = Inr dec"
    and "n \<in> set (decision_providers dec)"
  shows "\<exists>r p. map_of (rp_providers (gc_routing g)) n = Some r \<and> \<not> rpc_external r
     \<and> map_of (pd_providers (gc_providers g)) (or_str (rpc_provider r) n) = Some p
     \<and> \<not> pcf_external p"
proof -
  let ?p = "gc_routing g"
  obtain rule where rule: "rule \<in> set (rp_rules ?p)"
    and route: "restricted_route ?p Restricted (rr_route rule) = Inr (decision_providers dec)"
    by (rule select_route_rule [OF assms(3)])
  have "n \<in> set (rr_route rule)"
    using router_filter.keep_subset [OF route] assms(4) .
  then obtain r where r: "map_of (rp_providers ?p) n = Some r"
    using validated_rule(1) [OF assms(1) rule] in_dict_keysE by metis
  moreover have "\<not> rpc_external r"
    using router_filter.keep_private [OF route assms(4)] r
    by (simp add: policy_external_def known_external_def)
  ultimately show ?thesis using routing_matches_Inr [OF assms(2) r] by metis
qed

section \<open>Properties\<close>

text \<open>
  C1. Restricted data fails closed at load time: if the routing policy and the gateway
  configuration are accepted, then whatever route is selected for restricted data, every
  provider of it, primary and fallbacks, is private, in the policy and in the provider
  document the route resolves to.
\<close>

theorem restricted_routes_are_private:
  assumes "validate_policy (gc_routing g) = Inr ()"
    and "routing_matches_provider_document g = Inr ()"
    and "select_route (gc_routing g) Restricted w q = Inr dec"
    and "n \<in> set (decision_providers dec)"
  shows "\<exists>r p. map_of (rp_providers (gc_routing g)) n = Some r \<and> \<not> rpc_external r
     \<and> map_of (pd_providers (gc_providers g)) (or_str (rpc_provider r) n) = Some p
     \<and> \<not> pcf_external p"
  using assms by (rule restricted_route_private)

theorem restricted_routes_are_private_witness:
  "\<exists>dec. select_route lab_policy Restricted ''generic'' Premium = Inr dec
     \<and> decision_providers dec = [''private-vllm'']
     \<and> (\<exists>r p. map_of (rp_providers lab_policy) ''private-vllm'' = Some r \<and> \<not> rpc_external r
         \<and> map_of (pd_providers lab_providers) (or_str (rpc_provider r) ''private-vllm'') = Some p
         \<and> \<not> pcf_external p)"
proof -
  have sel: "select_route lab_policy Restricted ''generic'' Premium
      = Inr \<lparr>rd_rule_name = ''restricted-private-only'', rd_primary = ''private-vllm'',
             rd_fallbacks = []\<rparr>"
    by code_simp
  show ?thesis
    using restricted_routes_are_private
      [of lab_gateway "''generic''" Premium _ "''private-vllm''", OF _ _ _]
      lab_policy_valid lab_gateway_valid sel
    by (simp add: decision_providers_def)
qed

text \<open>
  The router is the first-match function: on an accepted policy it never fails with a
  missing key and never strips a route to nothing; it returns the whole route of the first
  rule that matches, and denies the request exactly when no rule matches.
\<close>

theorem select_route_first_match:
  assumes "validate_policy p = Inr ()"
  shows "select_route p d w q =
     (case find (\<lambda>r. rule_matches r d w q) (rp_rules p) of
        None \<Rightarrow> Inl (NoRuleMatches d w q)
      | Some r \<Rightarrow> Inr \<lparr>rd_rule_name = rr_name r, rd_primary = hd (rr_route r),
                     rd_fallbacks = tl (rr_route r)\<rparr>)"
  unfolding select_route_def by (rule select_from_validated [OF assms subset_refl])

theorem select_route_first_match_witness:
  "select_route lab_policy Confidential ''generic'' Premium =
     (case find (\<lambda>r. rule_matches r Confidential ''generic'' Premium) (rp_rules lab_policy) of
        None \<Rightarrow> Inl (NoRuleMatches Confidential ''generic'' Premium)
      | Some r \<Rightarrow> Inr \<lparr>rd_rule_name = rr_name r, rd_primary = hd (rr_route r),
                     rd_fallbacks = tl (rr_route r)\<rparr>)"
  by (rule select_route_first_match [OF lab_policy_valid])

text \<open>
  Defence in depth: even for a policy no validator has seen, a decision for restricted
  data names only providers the policy declares private, in the order of the matching
  rule's route.
\<close>

theorem router_strips_external:
  assumes "select_route p Restricted w q = Inr dec"
  shows "filter (policy_external p) (decision_providers dec) = []
    \<and> (\<exists>r \<in> set (rp_rules p). rule_matches r Restricted w q \<and> rd_rule_name dec = rr_name r
         \<and> subseq (decision_providers dec) (rr_route r))"
proof -
  obtain rule where rule: "rule \<in> set (rp_rules p)" "rule_matches rule Restricted w q"
      "rd_rule_name dec = rr_name rule"
    and route: "restricted_route p Restricted (rr_route rule) = Inr (decision_providers dec)"
    by (rule select_route_rule [OF assms])
  show ?thesis
    using rule router_filter.no_external [OF route] router_filter.keep_subseq [OF route] by blast
qed

definition leaky_policy :: routing_policy where
  "leaky_policy = lab_policy\<lparr>rp_rules :=
     [\<lparr>rr_name = ''any'',
       rr_when = \<lparr>wm_data_class = None, wm_workload = None, wm_quality_tier = None\<rparr>,
       rr_route = [''managed-premium'', ''private-vllm'', ''managed-economy'']\<rparr>]\<rparr>"

theorem router_strips_external_witness:
  "validate_policy leaky_policy \<noteq> Inr () \<and>
   (\<exists>dec. select_route leaky_policy Restricted ''generic'' Economy = Inr dec
     \<and> filter (policy_external leaky_policy) (decision_providers dec) = [])"
proof -
  have "select_route leaky_policy Restricted ''generic'' Economy
      = Inr \<lparr>rd_rule_name = ''any'', rd_primary = ''private-vllm'', rd_fallbacks = []\<rparr>"
    by code_simp
  moreover from router_strips_external [OF this]
  have "filter (policy_external leaky_policy)
      (decision_providers \<lparr>rd_rule_name = ''any'', rd_primary = ''private-vllm'', rd_fallbacks = []\<rparr>) = []"
    by blast
  moreover have "validate_policy leaky_policy \<noteq> Inr ()" by code_simp
  ultimately show ?thesis by blast
qed

end
