(* ===== verification/Fallback.thy ===== *)
theory Fallback
  imports Policy_Router
begin

text \<open>
  Bounded fallback execution (\<open>routing/fallback.py\<close>). Time is explicit: one clock in
  seconds, which stands for both \<open>datetime.now(UTC)\<close> and the loop time and advances only
  where the code awaits (a provider call, a sleep, and, while a chunk is yielded, the
  consumer). An adapter is a parameter: given the number of attempts made before, the
  clock, the request and the context it says how long the call takes and how it ends;
  \<open>asyncio.timeout(budget)\<close> cuts a call that is not over before its budget is.
  A stream is the script of the events that successive \<open>anext\<close> calls run into, and the
  \<open>aclose\<close> awaited after every attempt is a parameter too: how long it takes and the exception
  it ends with, if any.
  Every run also records the adapter calls it made with their start times.
\<close>

section \<open>Shared parts\<close>

definition remaining_seconds :: "request_context \<Rightarrow> rat \<Rightarrow> rat" where
  "remaining_seconds ctx now = ts_instant (ctx_deadline_at ctx) - now"

definition deadline_error :: normalized_error where
  "deadline_error =
     make_normalized_error TimeoutClass ''global request deadline exhausted'' None None"

text \<open>\<open>_with_attempts\<close>\<close>

definition with_attempts :: "normalized_error \<Rightarrow> attempt_outcome list \<Rightarrow> provider_error" where
  "with_attempts e attempts = (provider_error e)\<lparr>pe_attempts := attempts\<rparr>"

text \<open>Whether another attempt is worth making, and the clock after the sleep.\<close>

definition wait_for_retry_after :: "normalized_error \<Rightarrow> request_context \<Rightarrow> rat \<Rightarrow> bool \<times> rat" where
  "wait_for_retry_after e ctx now =
     (case ne_retry_after e of
        None \<Rightarrow> (True, now)
      | Some hint \<Rightarrow>
          (let remaining = remaining_seconds ctx now;
               delay = min hint remaining
           in if remaining - delay \<le> 0 then (False, now)
              else (True, now + max 0 delay)))"

definition executor_permits ::
    "routing_policy \<Rightarrow> data_class \<Rightarrow> string list \<Rightarrow> string + string list" where
  "executor_permits p d names =
     bind_res
       (if fb_never_cross (rp_fallback p) \<and> d = Restricted
        then private_only (rp_providers p) names else Inr names)
       (\<lambda>ns. Inr (slice_to (fb_max_attempts (rp_fallback p)) ns))"

definition permitted_providers ::
    "routing_policy \<Rightarrow> route_decision \<Rightarrow> data_class \<Rightarrow> string + string list" where
  "permitted_providers p dec d = executor_permits p d (decision_providers dec)"

definition fallback_allowed :: "routing_policy \<Rightarrow> normalized_error \<Rightarrow> bool" where
  "fallback_allowed p e \<longleftrightarrow>
     ne_fallback_eligible e \<and> ne_class e \<in> set (fb_on (rp_fallback p))"

section \<open>Complete responses\<close>

datatype chat_reply =
    Replied provider_result
  | ReplyError normalized_error
  | ReplyTimeout
  | ReplyCrash string

type_synonym chat_adapter =
  "nat \<Rightarrow> rat \<Rightarrow> chat_request \<Rightarrow> request_context \<Rightarrow> rat \<times> chat_reply"

record fallback_result =
  fr_result :: provider_result
  fr_provider :: string
  fr_fallback_count :: nat
  fr_attempts :: "attempt_outcome list"

text \<open>
  What leaves the executor as an exception: a \<open>ProviderError\<close>, the \<open>KeyError\<close> of a
  subscript, or another exception of an adapter, which the executor does not catch.
\<close>

datatype exec_error =
    Raised provider_error
  | MissingKey string
  | Crashed string

record 'a exec_run =
  ex_outcome :: "exec_error + 'a"
  ex_time :: rat
  ex_calls :: "(string \<times> rat) list"

datatype attempt_result =
    AttemptDone provider_result
  | AttemptFailed normalized_error
  | AttemptCrashed string

text \<open>One \<open>async with asyncio.timeout(budget)\<close> around \<open>adapter.chat\<close>: the clock after it
  and what the \<open>try\<close> statement binds.\<close>

definition chat_attempt ::
    "chat_adapter \<Rightarrow> nat \<Rightarrow> rat \<Rightarrow> chat_request \<Rightarrow> request_context \<Rightarrow> rat \<Rightarrow> rat \<times> attempt_result"
where
  "chat_attempt adapter index now request ctx budget =
     (let (duration, reply) = adapter index now request ctx;
          timed_out = AttemptFailed
            (make_normalized_error TimeoutClass ''provider attempt timed out'' None None)
      in if budget \<le> duration then (now + budget, timed_out)
         else (now + duration,
               case reply of
                 Replied r \<Rightarrow> AttemptDone r
               | ReplyError e \<Rightarrow> AttemptFailed e
               | ReplyTimeout \<Rightarrow> timed_out
               | ReplyCrash s \<Rightarrow> AttemptCrashed s))"

definition chat_budget :: "routing_policy \<Rightarrow> request_context \<Rightarrow> rat \<Rightarrow> rat" where
  "chat_budget p ctx now = min (to_per_attempt (rp_timeouts p)) (remaining_seconds ctx now)"

fun chat_loop ::
    "(string \<Rightarrow> chat_adapter option) \<Rightarrow> routing_policy \<Rightarrow> chat_request \<Rightarrow> request_context
      \<Rightarrow> nat \<Rightarrow> string list \<Rightarrow> attempt_outcome list \<Rightarrow> rat \<Rightarrow> fallback_result exec_run" where
  "chat_loop adapters p request ctx index [] attempts now =
     \<lparr>ex_outcome = Inl (Raised (with_attempts deadline_error attempts)), ex_time = now,
      ex_calls = []\<rparr>"
| "chat_loop adapters p request ctx index (name # rest) attempts now =
     (if remaining_seconds ctx now \<le> 0
      then \<lparr>ex_outcome = Inl (Raised (with_attempts deadline_error attempts)), ex_time = now,
            ex_calls = []\<rparr>
      else case adapters name of
        None \<Rightarrow> \<lparr>ex_outcome = Inl (MissingKey name), ex_time = now, ex_calls = []\<rparr>
      | Some adapter \<Rightarrow>
          (case chat_attempt adapter index now request ctx (chat_budget p ctx now) of
             (now', AttemptDone r) \<Rightarrow>
               \<lparr>ex_outcome = Inr \<lparr>fr_result = r, fr_provider = name, fr_fallback_count = index,
                                 fr_attempts = attempts @ [attempt_ok name]\<rparr>,
                ex_time = now', ex_calls = [(name, now)]\<rparr>
           | (now', AttemptCrashed s) \<Rightarrow>
               \<lparr>ex_outcome = Inl (Crashed s), ex_time = now', ex_calls = [(name, now)]\<rparr>
           | (now', AttemptFailed e) \<Rightarrow>
               (let attempts' = attempts @ [attempt_failed name e];
                    stop = \<lparr>ex_outcome = Inl (Raised (with_attempts e attempts')),
                            ex_time = now', ex_calls = [(name, now)]\<rparr>
                in if rest = [] \<or> \<not> fallback_allowed p e then stop
                   else (let (again, now'') = wait_for_retry_after e ctx now'
                         in if \<not> again then stop
                            else (let run = chat_loop adapters p request ctx (Suc index) rest
                                              attempts' now''
                                  in run\<lparr>ex_calls := (name, now) # ex_calls run\<rparr>)))))"

definition executor_chat ::
    "(string \<Rightarrow> chat_adapter option) \<Rightarrow> routing_policy \<Rightarrow> chat_request \<Rightarrow> request_context
      \<Rightarrow> route_decision \<Rightarrow> rat \<Rightarrow> fallback_result exec_run" where
  "executor_chat adapters p request ctx dec now =
     (case permitted_providers p dec (rm_data_class (cr_metadata request)) of
        Inl n \<Rightarrow> \<lparr>ex_outcome = Inl (MissingKey n), ex_time = now, ex_calls = []\<rparr>
      | Inr providers \<Rightarrow> chat_loop adapters p request ctx 0 providers [] now)"

section \<open>Streams\<close>

datatype stream_event =
    ChunkEvent provider_chunk
  | ErrorEvent normalized_error
  | TimeoutEvent
  | CrashEvent string
  | EndEvent

text \<open>
  A script pairs each event with the time its \<open>anext\<close> takes; the end of the list is the
  immediate end of the stream. \<open>hold k\<close> is the time the consumer keeps the \<open>k\<close>-th chunk
  of the attempt before it asks for the next one.
\<close>

type_synonym stream_script = "(rat \<times> stream_event) list"

text \<open>
  What the \<open>finally: await aclose()\<close> of each attempt does, by the attempt's index: the time
  it takes, which no timeout bounds (for an attempt that timed out, the time the cancelled step
  needs to unwind is part of it), and the exception it raises, if any. An iterator without
  \<open>aclose\<close> takes no time. An exception of the closing is one the executor does not catch, and
  it takes the place of the attempt's own end; a \<open>ProviderError\<close> raised by a closing is outside
  the model (the iterators are the adapters' own generators, which raise theirs from \<open>anext\<close>).
\<close>

type_synonym stream_closing = "nat \<Rightarrow> rat \<times> string option"

type_synonym stream_adapter =
  "nat \<Rightarrow> rat \<Rightarrow> chat_request \<Rightarrow> request_context \<Rightarrow> stream_script"

datatype stream_end =
    StreamReturned
  | StreamFailed normalized_error
  | StreamCrashed string

definition stream_budget ::
    "timeout_config \<Rightarrow> request_context \<Rightarrow> rat \<Rightarrow> bool \<Rightarrow> rat \<Rightarrow> rat" where
  "stream_budget t ctx attempt_deadline started now =
     (let idle_budget = (if started then to_stream_idle t else to_response_header t)
      in min (min idle_budget (remaining_seconds ctx now)) (attempt_deadline - now))"

definition budget_exhausted :: normalized_error where
  "budget_exhausted =
     make_normalized_error TimeoutClass ''provider attempt budget exhausted'' None None"

definition stream_timed_out :: normalized_error where
  "stream_timed_out = make_normalized_error TimeoutClass ''provider stream timed out'' None None"

text \<open>The \<open>while True\<close> loop over one provider: the chunks it yields, the clock, its end.\<close>

fun stream_attempt ::
    "timeout_config \<Rightarrow> request_context \<Rightarrow> rat \<Rightarrow> (nat \<Rightarrow> rat) \<Rightarrow> nat \<Rightarrow> stream_script \<Rightarrow> rat
      \<Rightarrow> provider_chunk list \<times> rat \<times> stream_end" where
  "stream_attempt t ctx ad hold k [] now =
     (if stream_budget t ctx ad (0 < k) now \<le> 0 then ([], now, StreamFailed budget_exhausted)
      else ([], now, StreamReturned))"
| "stream_attempt t ctx ad hold k ((wait, ev) # script) now =
     (let budget = stream_budget t ctx ad (0 < k) now
      in if budget \<le> 0 then ([], now, StreamFailed budget_exhausted)
         else if budget \<le> wait then ([], now + budget, StreamFailed stream_timed_out)
         else (case ev of
                 EndEvent \<Rightarrow> ([], now + wait, StreamReturned)
               | ErrorEvent e \<Rightarrow> ([], now + wait, StreamFailed e)
               | TimeoutEvent \<Rightarrow> ([], now + wait, StreamFailed stream_timed_out)
               | CrashEvent s \<Rightarrow> ([], now + wait, StreamCrashed s)
               | ChunkEvent c \<Rightarrow>
                   (let (cs, now', res) =
                          stream_attempt t ctx ad hold (Suc k) script (now + wait + hold k)
                    in (c # cs, now', res))))"

definition no_replay_error :: normalized_error where
  "no_replay_error =
     make_normalized_error StreamStartedFailure
       ''provider failed after streaming began; no replay'' None None"

record stream_run =
  st_chunks :: "(string \<times> nat \<times> provider_chunk) list"
  st_outcome :: "exec_error + unit"
  st_log :: "attempt_outcome list"
  st_time :: rat
  st_calls :: "(string \<times> rat) list"

fun stream_loop ::
    "(string \<Rightarrow> stream_adapter option) \<Rightarrow> routing_policy \<Rightarrow> chat_request \<Rightarrow> request_context
      \<Rightarrow> (nat \<Rightarrow> rat) \<Rightarrow> stream_closing \<Rightarrow> nat \<Rightarrow> string list \<Rightarrow> attempt_outcome list \<Rightarrow> rat
      \<Rightarrow> stream_run" where
  "stream_loop adapters p request ctx hold closing index [] history now =
     \<lparr>st_chunks = [], st_outcome = Inl (Raised (with_attempts deadline_error history)),
      st_log = history, st_time = now, st_calls = []\<rparr>"
| "stream_loop adapters p request ctx hold closing index (name # rest) history now =
     (if remaining_seconds ctx now \<le> 0
      then \<lparr>st_chunks = [], st_outcome = Inl (Raised (with_attempts deadline_error history)),
            st_log = history, st_time = now, st_calls = []\<rparr>
      else case adapters name of
        None \<Rightarrow> \<lparr>st_chunks = [], st_outcome = Inl (MissingKey name), st_log = history,
                 st_time = now, st_calls = []\<rparr>
      | Some adapter \<Rightarrow>
          (let t = rp_timeouts p;
               (cs, ended, res) =
                 stream_attempt t ctx (now + to_per_attempt t) hold 0
                   (adapter index now request ctx) now;
               (spent, raised) = closing index;
               now' = ended + spent;
               run = \<lparr>st_chunks = map (\<lambda>c. (name, index, c)) cs, st_outcome = Inr (),
                      st_log = (if res = StreamReturned then history @ [attempt_ok name]
                                else history),
                      st_time = now', st_calls = [(name, now)]\<rparr>
           in case raised of
                Some s \<Rightarrow> run\<lparr>st_outcome := Inl (Crashed s)\<rparr>
              | None \<Rightarrow>
              (case res of
                StreamReturned \<Rightarrow> run
              | StreamCrashed s \<Rightarrow> run\<lparr>st_outcome := Inl (Crashed s)\<rparr>
              | StreamFailed e \<Rightarrow>
                  (let history' = history @ [attempt_failed name e];
                       raise = (\<lambda>e'. run\<lparr>st_outcome := Inl (Raised (with_attempts e' history')),
                                        st_log := history'\<rparr>)
                   in if cs \<noteq> [] then raise no_replay_error
                      else if rest = [] \<or> \<not> fallback_allowed p e then raise e
                      else (let (again, now'') = wait_for_retry_after e ctx now'
                            in if \<not> again then raise e
                               else (let next_run = stream_loop adapters p request ctx hold closing
                                                      (Suc index) rest history' now''
                                     in next_run\<lparr>st_calls := (name, now) # st_calls next_run\<rparr>))))))"

definition executor_stream ::
    "(string \<Rightarrow> stream_adapter option) \<Rightarrow> routing_policy \<Rightarrow> chat_request \<Rightarrow> request_context
      \<Rightarrow> (nat \<Rightarrow> rat) \<Rightarrow> stream_closing \<Rightarrow> route_decision \<Rightarrow> attempt_outcome list \<Rightarrow> rat \<Rightarrow> stream_run" where
  "executor_stream adapters p request ctx hold closing dec history now =
     (case permitted_providers p dec (rm_data_class (cr_metadata request)) of
        Inl n \<Rightarrow> \<lparr>st_chunks = [], st_outcome = Inl (MissingKey n), st_log = history,
                  st_time = now, st_calls = []\<rparr>
      | Inr providers \<Rightarrow> stream_loop adapters p request ctx hold closing 0 providers history now)"

section \<open>The contract of timed providers\<close>

text \<open>A call never ends before it starts: all the executor's timing rests on.\<close>

locale timed_adapters =
  fixes adapters :: "string \<Rightarrow> chat_adapter option"
  assumes duration_nonneg: "adapters n = Some a \<Longrightarrow> 0 \<le> fst (a i now request ctx)"

locale timed_streams =
  fixes streams :: "string \<Rightarrow> stream_adapter option"
  assumes wait_nonneg:
    "streams n = Some a \<Longrightarrow> (w, ev) \<in> set (a i now request ctx) \<Longrightarrow> 0 \<le> w"

section \<open>Lemmas on the shared parts\<close>

lemma subseq_slice_to: "subseq (slice_to k xs) xs"
  by (auto simp: slice_to_def prefix_imp_subseq take_is_prefix)

interpretation executor_filter: route_filter "executor_permits p"
    "\<lambda>n. fb_never_cross (rp_fallback p) \<and> policy_external p n"
  for p :: routing_policy
proof
  show "subseq ms ns" if "executor_permits p d ns = Inr ms" for d ns ms
    using that subseq_order.order_trans [OF subseq_slice_to subseq_filter_left] subseq_slice_to
    by (auto simp: executor_permits_def bind_res_Inr private_only_Inr split: if_splits)
  show "\<not> (fb_never_cross (rp_fallback p) \<and> policy_external p n)"
    if "executor_permits p Restricted ns = Inr ms" "n \<in> set ms" for ns ms n
    using that set_slice_to
    by (fastforce simp: executor_permits_def bind_res_Inr private_only_Inr policy_external_def
        split: if_splits)
qed

lemma permitted_subset:
  "permitted_providers p dec d = Inr ns \<Longrightarrow> n \<in> set ns \<Longrightarrow> n \<in> set (decision_providers dec)"
  unfolding permitted_providers_def by (rule executor_filter.keep_subset)

lemma permitted_private:
  "permitted_providers p dec Restricted = Inr ns \<Longrightarrow> n \<in> set ns \<Longrightarrow>
   fb_never_cross (rp_fallback p) \<Longrightarrow> \<not> policy_external p n"
  using executor_filter.keep_private [of p "decision_providers dec" ns n]
  by (simp add: permitted_providers_def)

lemma permitted_length:
  "permitted_providers p dec d = Inr ns \<Longrightarrow> 0 \<le> fb_max_attempts (rp_fallback p) \<Longrightarrow>
   int (length ns) \<le> fb_max_attempts (rp_fallback p)"
  by (auto simp: permitted_providers_def executor_permits_def bind_res_Inr length_slice_to)

lemma wait_time:
  assumes "wait_for_retry_after e ctx now = (again, now')"
  shows "now \<le> now'" and "now < ts_instant (ctx_deadline_at ctx) \<Longrightarrow> now' < ts_instant (ctx_deadline_at ctx)"
    and "now \<le> ts_instant (ctx_deadline_at ctx) \<Longrightarrow> now' \<le> ts_instant (ctx_deadline_at ctx)"
    and "now' \<le> max now (ts_instant (ctx_deadline_at ctx))"
  using assms
  by (auto simp: wait_for_retry_after_def remaining_seconds_def Let_def split: option.splits if_splits)

lemma wait_again_hint:
  assumes "wait_for_retry_after e ctx now = (True, now')" "ne_retry_after e = Some h"
  shows "now' = now + max 0 h" "now + h < ts_instant (ctx_deadline_at ctx)"
  using assms
  by (auto simp: wait_for_retry_after_def remaining_seconds_def Let_def min_def split: if_splits)

lemma with_attempts_sel [simp]:
  "pe_error (with_attempts e as) = e" "pe_attempts (with_attempts e as) = as"
  by (simp_all add: with_attempts_def)

section \<open>One round of the loop\<close>

text \<open>
  The three shapes of a round: no call is made, the call decides the outcome, or it fails
  in a way that lets the loop go on.
\<close>

lemma chat_loop_round:
  assumes run: "run = chat_loop adapters p request ctx index (n # rest) attempts now"
  obtains
    (no_call) "ex_calls run = []" "ex_time run = now"
      "ex_outcome run = Inl (Raised (with_attempts deadline_error attempts))
         \<and> remaining_seconds ctx now \<le> 0
       \<or> ex_outcome run = Inl (MissingKey n) \<and> adapters n = None"
  | (final) a now' res where "adapters n = Some a" "0 < remaining_seconds ctx now"
      "chat_attempt a index now request ctx (chat_budget p ctx now) = (now', res)"
      "ex_calls run = [(n, now)]" "ex_time run = now'"
      "ex_outcome run =
         (case res of
            AttemptDone r \<Rightarrow> Inr \<lparr>fr_result = r, fr_provider = n, fr_fallback_count = index,
                                 fr_attempts = attempts @ [attempt_ok n]\<rparr>
          | AttemptCrashed s \<Rightarrow> Inl (Crashed s)
          | AttemptFailed e \<Rightarrow> Inl (Raised (with_attempts e (attempts @ [attempt_failed n e]))))"
  | (next_round) a now' e now'' run' where "adapters n = Some a" "0 < remaining_seconds ctx now"
      "chat_attempt a index now request ctx (chat_budget p ctx now) = (now', AttemptFailed e)"
      "fallback_allowed p e" "rest \<noteq> []" "wait_for_retry_after e ctx now' = (True, now'')"
      "run' = chat_loop adapters p request ctx (Suc index) rest (attempts @ [attempt_failed n e]) now''"
      "ex_calls run = (n, now) # ex_calls run'" "ex_time run = ex_time run'"
      "ex_outcome run = ex_outcome run'"
proof (cases "remaining_seconds ctx now \<le> 0")
  case True
  then show thesis using run by (intro no_call) simp_all
next
  case live: False
  show thesis
  proof (cases "adapters n")
    case None
    then show thesis using run live by (intro no_call) simp_all
  next
    case (Some a)
    obtain now' res where att:
        "chat_attempt a index now request ctx (chat_budget p ctx now) = (now', res)"
      by fastforce
    show thesis
    proof (cases "\<exists>e now''. res = AttemptFailed e \<and> rest \<noteq> [] \<and> fallback_allowed p e
                    \<and> wait_for_retry_after e ctx now' = (True, now'')")
      case True
      then obtain e now'' where go: "res = AttemptFailed e" "rest \<noteq> []" "fallback_allowed p e"
        "wait_for_retry_after e ctx now' = (True, now'')" by blast
      with run live Some att show thesis by (intro next_round) (simp_all add: Let_def)
    next
      case False
      with run live Some att show thesis
        by (intro final [OF Some _ att])
          (auto simp: Let_def split: attempt_result.splits prod.splits bool.splits)
    qed
  qed
qed

lemma chat_attempt_time:
  assumes "chat_attempt a i now request ctx budget = (now', res)"
    and "0 \<le> fst (a i now request ctx)" "0 < budget"
  shows "now \<le> now'" "now' \<le> now + budget"
  using assms by (auto simp: chat_attempt_def Let_def split: prod.splits if_splits)

section \<open>The history of a run\<close>

lemma chat_loop_calls: "prefix (map fst (ex_calls (chat_loop ads p rq ctx i ns as now))) ns"
proof (induction ns arbitrary: i as now)
  case (Cons n ns)
  show ?case
    by (rule chat_loop_round [of "chat_loop ads p rq ctx i (n # ns) as now" ads p rq ctx i n ns as now])
      (use Cons.IH in \<open>simp_all\<close>)
qed simp

definition failed_for :: "error_class list \<Rightarrow> attempt_outcome \<Rightarrow> bool" where
  "failed_for cs h \<longleftrightarrow> (\<exists>c \<in> set cs. ao_error h = Some c)"

lemma failed_for_attempt [simp]:
  "failed_for cs (attempt_failed n e) \<longleftrightarrow> ne_class e \<in> set cs"
  by (simp add: failed_for_def)

lemma chat_loop_success:
  "ex_outcome (chat_loop ads p rq ctx i ns as now) = Inr fr \<Longrightarrow>
   \<exists>hs. fr_attempts fr = as @ hs @ [attempt_ok (fr_provider fr)]
     \<and> map ao_provider hs @ [fr_provider fr] = map fst (ex_calls (chat_loop ads p rq ctx i ns as now))
     \<and> fr_fallback_count fr = i + length hs
     \<and> (\<forall>h \<in> set hs. failed_for (fb_on (rp_fallback p)) h)"
proof (induction ns arbitrary: i as now)
  case (Cons n ns)
  show ?case
  proof (rule chat_loop_round [of "chat_loop ads p rq ctx i (n # ns) as now" ads p rq ctx i n ns as now, OF refl])
    fix a now' res
    assume "ex_calls (chat_loop ads p rq ctx i (n # ns) as now) = [(n, now)]"
      "ex_outcome (chat_loop ads p rq ctx i (n # ns) as now) =
         (case res of
            AttemptDone r \<Rightarrow> Inr \<lparr>fr_result = r, fr_provider = n, fr_fallback_count = i,
                                 fr_attempts = as @ [attempt_ok n]\<rparr>
          | AttemptCrashed s \<Rightarrow> Inl (Crashed s)
          | AttemptFailed e \<Rightarrow> Inl (Raised (with_attempts e (as @ [attempt_failed n e]))))"
    then show ?thesis using Cons.prems by (intro exI [of _ "[]"]) (cases res; auto)
  next
    fix a now' e now'' run'
    assume step: "fallback_allowed p e"
      "run' = chat_loop ads p rq ctx (Suc i) ns (as @ [attempt_failed n e]) now''"
      "ex_calls (chat_loop ads p rq ctx i (n # ns) as now) = (n, now) # ex_calls run'"
      "ex_outcome (chat_loop ads p rq ctx i (n # ns) as now) = ex_outcome run'"
    then have "ex_outcome run' = Inr fr" using Cons.prems by simp
    with Cons.IH step(2) obtain hs where hs:
      "fr_attempts fr = (as @ [attempt_failed n e]) @ hs @ [attempt_ok (fr_provider fr)]"
      "map ao_provider hs @ [fr_provider fr] = map fst (ex_calls run')"
      "fr_fallback_count fr = Suc i + length hs"
      "\<forall>h \<in> set hs. failed_for (fb_on (rp_fallback p)) h" by blast
    with step show ?thesis
      by (intro exI [of _ "attempt_failed n e # hs"]) (simp add: fallback_allowed_def)
  qed (use Cons.prems in auto)
qed simp

lemma chat_loop_raised:
  "ex_outcome (chat_loop ads p rq ctx i ns as now) = Inl (Raised pe) \<Longrightarrow>
   \<exists>hs. pe_attempts pe = as @ hs
     \<and> map ao_provider hs = map fst (ex_calls (chat_loop ads p rq ctx i ns as now))
     \<and> (\<forall>h \<in> set (butlast hs). failed_for (fb_on (rp_fallback p)) h)
     \<and> (\<forall>h \<in> set hs. ao_error h \<noteq> None)
     \<and> (pe_error pe = deadline_error
         \<or> hs \<noteq> [] \<and> ao_error (last hs) = Some (ne_class (pe_error pe)))"
proof (induction ns arbitrary: i as now)
  case (Cons n ns)
  show ?case
  proof (rule chat_loop_round [of "chat_loop ads p rq ctx i (n # ns) as now" ads p rq ctx i n ns as now, OF refl])
    assume "ex_calls (chat_loop ads p rq ctx i (n # ns) as now) = []"
      "ex_outcome (chat_loop ads p rq ctx i (n # ns) as now)
          = Inl (Raised (with_attempts deadline_error as)) \<and> remaining_seconds ctx now \<le> 0
        \<or> ex_outcome (chat_loop ads p rq ctx i (n # ns) as now) = Inl (MissingKey n) \<and> ads n = None"
    then show ?thesis using Cons.prems by (intro exI [of _ "[]"]) auto
  next
    fix a now' res
    assume "ex_calls (chat_loop ads p rq ctx i (n # ns) as now) = [(n, now)]"
      "ex_outcome (chat_loop ads p rq ctx i (n # ns) as now) =
         (case res of
            AttemptDone r \<Rightarrow> Inr \<lparr>fr_result = r, fr_provider = n, fr_fallback_count = i,
                                 fr_attempts = as @ [attempt_ok n]\<rparr>
          | AttemptCrashed s \<Rightarrow> Inl (Crashed s)
          | AttemptFailed e \<Rightarrow> Inl (Raised (with_attempts e (as @ [attempt_failed n e]))))"
    then show ?thesis
      using Cons.prems by (intro exI [of _ "[attempt_failed n (pe_error pe)]"]) (cases res; auto)
  next
    fix a now' e now'' run'
    assume step: "fallback_allowed p e"
      "run' = chat_loop ads p rq ctx (Suc i) ns (as @ [attempt_failed n e]) now''"
      "ex_calls (chat_loop ads p rq ctx i (n # ns) as now) = (n, now) # ex_calls run'"
      "ex_outcome (chat_loop ads p rq ctx i (n # ns) as now) = ex_outcome run'"
    then have "ex_outcome run' = Inl (Raised pe)" using Cons.prems by simp
    with Cons.IH step(2) obtain hs where hs:
      "pe_attempts pe = (as @ [attempt_failed n e]) @ hs"
      "map ao_provider hs = map fst (ex_calls run')"
      "\<forall>h \<in> set (butlast hs). failed_for (fb_on (rp_fallback p)) h"
      "\<forall>h \<in> set hs. ao_error h \<noteq> None"
      "pe_error pe = deadline_error
        \<or> hs \<noteq> [] \<and> ao_error (last hs) = Some (ne_class (pe_error pe))" by blast
    with step show ?thesis
      by (intro exI [of _ "attempt_failed n e # hs"]) (auto simp: fallback_allowed_def)
  qed
next
  case Nil
  then show ?case by (intro exI [of _ "[]"]) auto
qed

section \<open>Deadlines\<close>

context timed_adapters begin

lemma chat_loop_time:
  assumes "0 < to_per_attempt (rp_timeouts p)" "now \<le> ts_instant (ctx_deadline_at ctx)"
  shows "now \<le> ex_time (chat_loop adapters p rq ctx i ns as now)
    \<and> ex_time (chat_loop adapters p rq ctx i ns as now) \<le> ts_instant (ctx_deadline_at ctx)
    \<and> (\<forall>c \<in> set (ex_calls (chat_loop adapters p rq ctx i ns as now)).
         now \<le> snd c \<and> snd c < ts_instant (ctx_deadline_at ctx))"
  using assms(2)
proof (induction ns arbitrary: i as now)
  case (Cons n ns)
  let ?D = "ts_instant (ctx_deadline_at ctx)"
  have att: "now \<le> now' \<and> now' \<le> ?D"
    if "adapters n = Some a" "0 < remaining_seconds ctx now"
      "chat_attempt a i now rq ctx (chat_budget p ctx now) = (now', res)" for a now' res
  proof -
    have "0 < chat_budget p ctx now" "now + chat_budget p ctx now \<le> ?D"
      using that(2) assms(1) by (auto simp: chat_budget_def remaining_seconds_def)
    with chat_attempt_time [OF that(3) duration_nonneg [OF that(1)]] show ?thesis by simp
  qed
  show ?case
  proof (rule chat_loop_round
      [of "chat_loop adapters p rq ctx i (n # ns) as now" adapters p rq ctx i n ns as now, OF refl],
      goal_cases no_call final next_round)
    case no_call
    then show ?case using Cons.prems by simp
  next
    case (final a now' res)
    then show ?case using att [OF final(1-3)] by (simp add: remaining_seconds_def)
  next
    case (next_round a now' e now'' run')
    note first = att [OF next_round(1-3)] and sleep = wait_time [OF next_round(6)]
    have "now'' \<le> ?D" "now \<le> now''" using first sleep by auto
    moreover have "now'' \<le> ex_time run' \<and> ex_time run' \<le> ?D
        \<and> (\<forall>c \<in> set (ex_calls run'). now'' \<le> snd c \<and> snd c < ?D)"
      unfolding next_round(7) by (rule Cons.IH) (rule \<open>now'' \<le> ?D\<close>)
    ultimately show ?case
      using next_round(2,8,9) by (auto simp: remaining_seconds_def)
  qed
qed simp

end

section \<open>Lemmas on streams\<close>

text \<open>The chunks of a script up to its first event of another kind.\<close>

fun leading_chunks :: "stream_script \<Rightarrow> provider_chunk list" where
  "leading_chunks ((w, ChunkEvent c) # s) = c # leading_chunks s"
| "leading_chunks s = []"

lemma stream_attempt_chunks:
  "stream_attempt t ctx ad hold k script now = (cs, now', res) \<Longrightarrow>
   prefix cs (leading_chunks script) \<and> (res = StreamReturned \<longrightarrow> cs = leading_chunks script)"
proof (induction script arbitrary: k now cs now' res)
  case (Cons x script)
  obtain w ev where x: "x = (w, ev)" by fastforce
  show ?case
  proof (cases ev)
    case (ChunkEvent c)
    obtain cs0 now0 res0 where rest:
      "stream_attempt t ctx ad hold (Suc k) script (now + w + hold k) = (cs0, now0, res0)"
      by (metis prod_cases3)
    show ?thesis
      using Cons.prems Cons.IH [OF rest] rest by (auto simp: x ChunkEvent Let_def split: if_splits)
  qed (use Cons.prems in \<open>auto simp: x Let_def split: if_splits\<close>)
qed (auto split: if_splits)

lemma stream_attempt_time:
  assumes "stream_attempt t ctx ad hold k script now = (cs, now', res)"
    and "\<forall>(w, ev) \<in> set script. 0 \<le> w" "\<forall>j. 0 \<le> hold j \<and> hold j \<le> H"
    and "now \<le> ts_instant (ctx_deadline_at ctx) + H" "now \<le> ad + H"
  shows "now \<le> now' \<and> now' \<le> ts_instant (ctx_deadline_at ctx) + H \<and> now' \<le> ad + H
    \<and> (cs = [] \<longrightarrow> now \<le> ts_instant (ctx_deadline_at ctx) \<longrightarrow> now' \<le> ts_instant (ctx_deadline_at ctx))"
  using assms
proof (induction script arbitrary: k now cs now' res)
  case (Cons x script)
  obtain w ev where x: "x = (w, ev)" by fastforce
  have H: "0 \<le> H" "0 \<le> hold k" "hold k \<le> H" using Cons.prems(3) order_trans by blast+
  have w: "0 \<le> w" using Cons.prems(2) x by simp
  let ?b = "stream_budget t ctx ad (0 < k) now"
  have b: "now + ?b \<le> ts_instant (ctx_deadline_at ctx)" "now + ?b \<le> ad"
    by (auto simp: stream_budget_def remaining_seconds_def Let_def)
  show ?case
  proof (cases "\<exists>c. ev = ChunkEvent c \<and> w < ?b")
    case True
    then obtain c where ev: "ev = ChunkEvent c" "w < ?b" by blast
    obtain cs0 now0 res0 where rest:
      "stream_attempt t ctx ad hold (Suc k) script (now + w + hold k) = (cs0, now0, res0)"
      by (metis prod_cases3)
    have "now + w + hold k \<le> now0 \<and> now0 \<le> ts_instant (ctx_deadline_at ctx) + H \<and> now0 \<le> ad + H"
      using Cons.IH [OF rest] Cons.prems(2,3) ev b H by (simp add: x)
    with H w rest ev Cons.prems(1) show ?thesis by (auto simp: x Let_def)
  next
    case False
    then show ?thesis using Cons.prems(1,4,5) b H w
      by (cases ev) (auto simp: x Let_def split: if_splits)
  qed
qed (auto split: if_splits)

lemma stream_loop_round:
  assumes run: "run = stream_loop streams p request ctx hold closing index (n # rest) history now"
  obtains
    (no_call) "st_calls run = []" "st_time run = now" "st_log run = history" "st_chunks run = []"
      "st_outcome run = Inl (Raised (with_attempts deadline_error history))
       \<or> st_outcome run = Inl (MissingKey n) \<and> streams n = None"
  | (final) a cs now' res where "streams n = Some a" "0 < remaining_seconds ctx now"
      "stream_attempt (rp_timeouts p) ctx (now + to_per_attempt (rp_timeouts p)) hold 0
         (a index now request ctx) now = (cs, now', res)"
      "st_calls run = [(n, now)]" "st_time run = now' + fst (closing index)"
      "st_chunks run = map (\<lambda>c. (n, index, c)) cs"
      "st_log run = history @ (case res of StreamReturned \<Rightarrow> [attempt_ok n]
                                | StreamCrashed s \<Rightarrow> []
                                | StreamFailed e \<Rightarrow>
                                    if snd (closing index) = None then [attempt_failed n e] else [])"
      "st_outcome run = (case snd (closing index) of
                           Some s \<Rightarrow> Inl (Crashed s)
                         | None \<Rightarrow>
                             (case res of StreamReturned \<Rightarrow> Inr ()
                              | StreamCrashed s \<Rightarrow> Inl (Crashed s)
                              | StreamFailed e \<Rightarrow>
                                  Inl (Raised (with_attempts (if cs = [] then e else no_replay_error)
                                                 (st_log run)))))"
  | (next_round) a now' e now'' run' where "streams n = Some a" "0 < remaining_seconds ctx now"
      "stream_attempt (rp_timeouts p) ctx (now + to_per_attempt (rp_timeouts p)) hold 0
         (a index now request ctx) now = ([], now', StreamFailed e)"
      "fallback_allowed p e" "rest \<noteq> []"
      "wait_for_retry_after e ctx (now' + fst (closing index)) = (True, now'')"
      "snd (closing index) = None"
      "run' = stream_loop streams p request ctx hold closing (Suc index) rest
                (history @ [attempt_failed n e]) now''"
      "st_calls run = (n, now) # st_calls run'" "st_time run = st_time run'"
      "st_chunks run = st_chunks run'" "st_log run = st_log run'" "st_outcome run = st_outcome run'"
proof (cases "remaining_seconds ctx now \<le> 0")
  case True
  then show thesis using run by (intro no_call) simp_all
next
  case live: False
  show thesis
  proof (cases "streams n")
    case None
    then show thesis using run live by (intro no_call) simp_all
  next
    case (Some a)
    obtain cs now' res where att:
      "stream_attempt (rp_timeouts p) ctx (now + to_per_attempt (rp_timeouts p)) hold 0
         (a index now request ctx) now = (cs, now', res)"
      by (metis prod_cases3)
    obtain spent raised where cl: "closing index = (spent, raised)" by fastforce
    show thesis
    proof (cases "\<exists>e now''. res = StreamFailed e \<and> cs = [] \<and> rest \<noteq> [] \<and> fallback_allowed p e
                    \<and> wait_for_retry_after e ctx (now' + spent) = (True, now'') \<and> raised = None")
      case True
      then obtain e now'' where go: "res = StreamFailed e" "cs = []" "rest \<noteq> []"
        "fallback_allowed p e" "wait_for_retry_after e ctx (now' + spent) = (True, now'')"
        "raised = None" by blast
      with run live Some att cl show thesis by (intro next_round) (simp_all add: Let_def)
    next
      case False
      with run live Some att cl show thesis
        by (intro final [OF Some _ att])
          (auto simp: Let_def split: stream_end.splits prod.splits bool.splits option.splits)
    qed
  qed
qed

lemma stream_loop_calls:
  "prefix (map fst (st_calls (stream_loop ss p rq ctx hold closing i ns h now))) ns"
proof (induction ns arbitrary: i h now)
  case (Cons n ns)
  show ?case
    by (rule stream_loop_round
        [of "stream_loop ss p rq ctx hold closing i (n # ns) h now" ss p rq ctx hold closing i n ns h now])
      (use Cons.IH in \<open>simp_all\<close>)
qed simp

lemma stream_loop_single:
  fixes i ns h now and ss :: "string \<Rightarrow> stream_adapter option" and p :: routing_policy
    and rq :: chat_request and ctx :: request_context and hold :: "nat \<Rightarrow> rat" and closing :: stream_closing
  defines "run \<equiv> stream_loop ss p rq ctx hold closing i ns h now"
  assumes "st_chunks run \<noteq> []"
  shows "\<exists>n cs. st_chunks run = map (\<lambda>c. (n, i + (length (st_calls run) - 1), c)) cs
     \<and> n = fst (last (st_calls run)) \<and> st_calls run \<noteq> []
     \<and> (\<forall>pe. st_outcome run = Inl (Raised pe) \<longrightarrow> pe_error pe = no_replay_error)"
  using assms(2) unfolding run_def
proof (induction ns arbitrary: i h now)
  case (Cons n ns)
  show ?case
  proof (rule stream_loop_round
      [of "stream_loop ss p rq ctx hold closing i (n # ns) h now" ss p rq ctx hold closing i n ns h now, OF refl],
      goal_cases no_call final next_round)
    case no_call
    then show ?case using Cons.prems by simp
  next
    case (final a cs now' res)
    with Cons.prems have "cs \<noteq> []" by auto
    with final show ?case by (intro exI [of _ n] exI [of _ cs]) (auto split: stream_end.splits option.splits)
  next
    case (next_round a now' e now'' run')
    then have "st_chunks run' \<noteq> []" using Cons.prems by simp
    with Cons.IH next_round(8) obtain m cs where ih:
      "st_chunks run' = map (\<lambda>c. (m, Suc i + (length (st_calls run') - 1), c)) cs"
      "m = fst (last (st_calls run'))" "st_calls run' \<noteq> []"
      "\<forall>pe. st_outcome run' = Inl (Raised pe) \<longrightarrow> pe_error pe = no_replay_error" by blast
    have "Suc i + (length (st_calls run') - 1) = i + length (st_calls run')"
      using ih(3) by (cases "st_calls run'") simp_all
    with ih next_round show ?case by (intro exI [of _ m] exI [of _ cs]) auto
  qed
qed simp

lemma stream_loop_log:
  fixes i ns h now and ss :: "string \<Rightarrow> stream_adapter option" and p :: routing_policy
    and rq :: chat_request and ctx :: request_context and hold :: "nat \<Rightarrow> rat" and closing :: stream_closing
  defines "run \<equiv> stream_loop ss p rq ctx hold closing i ns h now"
  shows "\<exists>hs. st_log run = h @ hs
     \<and> (\<forall>x \<in> set (butlast hs). failed_for (fb_on (rp_fallback p)) x)
     \<and> prefix (map ao_provider hs) (map fst (st_calls run))
     \<and> (st_outcome run = Inr () \<longrightarrow> hs \<noteq> [] \<and> ao_error (last hs) = None
          \<and> map ao_provider hs = map fst (st_calls run))
     \<and> (\<forall>pe. st_outcome run = Inl (Raised pe) \<longrightarrow> pe_attempts pe = st_log run
          \<and> map ao_provider hs = map fst (st_calls run) \<and> (\<forall>x \<in> set hs. ao_error x \<noteq> None))"
  unfolding run_def
proof (induction ns arbitrary: i h now)
  case (Cons n ns)
  show ?case
  proof (rule stream_loop_round
      [of "stream_loop ss p rq ctx hold closing i (n # ns) h now" ss p rq ctx hold closing i n ns h now, OF refl],
      goal_cases no_call final next_round)
    case no_call
    then show ?case by (intro exI [of _ "[]"]) auto
  next
    case (final a cs now' res)
    then show ?case
      by (intro exI [of _ "case res of StreamReturned \<Rightarrow> [attempt_ok n] | StreamCrashed s \<Rightarrow> []
             | StreamFailed e \<Rightarrow>
                 if snd (closing i) = None then [attempt_failed n e] else []"])
        (auto split: stream_end.splits option.splits)
  next
    case (next_round a now' e now'' run')
    note ih = Cons.IH [of "Suc i" "h @ [attempt_failed n e]" now'', folded next_round(8)]
    obtain hs where hs: "st_log run' = (h @ [attempt_failed n e]) @ hs"
      "\<forall>x \<in> set (butlast hs). failed_for (fb_on (rp_fallback p)) x"
      "prefix (map ao_provider hs) (map fst (st_calls run'))"
      "st_outcome run' = Inr () \<longrightarrow> hs \<noteq> [] \<and> ao_error (last hs) = None
          \<and> map ao_provider hs = map fst (st_calls run')"
      "\<forall>pe. st_outcome run' = Inl (Raised pe) \<longrightarrow> pe_attempts pe = st_log run'
          \<and> map ao_provider hs = map fst (st_calls run') \<and> (\<forall>x \<in> set hs. ao_error x \<noteq> None)"
      using ih by blast
    with next_round show ?case
      by (intro exI [of _ "attempt_failed n e # hs"]) (auto simp: fallback_allowed_def)
  qed
next
  case Nil
  then show ?case by (intro exI [of _ "[]"]) auto
qed

context timed_streams begin

lemma stream_loop_time:
  fixes i ns h now and p :: routing_policy
    and rq :: chat_request and ctx :: request_context and hold :: "nat \<Rightarrow> rat" and closing :: stream_closing
  defines "run \<equiv> stream_loop streams p rq ctx hold closing i ns h now"
  assumes hold: "\<forall>j. 0 \<le> hold j \<and> hold j \<le> H"
    and closing: "\<forall>j. 0 \<le> fst (closing j) \<and> fst (closing j) \<le> C"
    and pos: "0 < to_per_attempt (rp_timeouts p)"
    and now: "now \<le> ts_instant (ctx_deadline_at ctx) + C"
  shows "now \<le> st_time run \<and> st_time run \<le> ts_instant (ctx_deadline_at ctx) + H + C
    \<and> (\<forall>c \<in> set (st_calls run). now \<le> snd c \<and> snd c < ts_instant (ctx_deadline_at ctx))"
  using now unfolding run_def
proof (induction ns arbitrary: i h now)
  case Nil
  have "0 \<le> H" using hold order_trans by blast
  with Nil show ?case by simp
next
  case (Cons n ns)
  let ?D = "ts_instant (ctx_deadline_at ctx)"
  have H: "0 \<le> H" using hold order_trans by blast
  have cl: "0 \<le> fst (closing i)" "fst (closing i) \<le> C" using closing by blast+
  have att: "now \<le> now' \<and> now' \<le> ?D + H \<and> (cs = [] \<longrightarrow> now' \<le> ?D)"
    if "streams n = Some a" "0 < remaining_seconds ctx now"
      "stream_attempt (rp_timeouts p) ctx (now + to_per_attempt (rp_timeouts p)) hold 0
         (a i now rq ctx) now = (cs, now', res)" for a cs now' res
    using stream_attempt_time [OF that(3) _ hold] wait_nonneg [OF that(1)] that(2) H pos
    by (fastforce simp: remaining_seconds_def)
  show ?case
  proof (rule stream_loop_round
      [of "stream_loop streams p rq ctx hold closing i (n # ns) h now" streams p rq ctx hold closing i n ns h now, OF refl],
      goal_cases no_call final next_round)
    case no_call
    then show ?case using Cons.prems H by simp
  next
    case (final a cs now' res)
    then show ?case using att [OF final(1-3)] cl by (simp add: remaining_seconds_def)
  next
    case (next_round a now' e now'' run')
    note first = att [OF next_round(1-3)] and sleep = wait_time [OF next_round(6)]
    have le: "now'' \<le> ?D + C" "now \<le> now''" using first sleep(1,4) cl by auto
    have "now'' \<le> st_time run' \<and> st_time run' \<le> ?D + H + C
        \<and> (\<forall>c \<in> set (st_calls run'). now'' \<le> snd c \<and> snd c < ?D)"
      unfolding next_round(8) by (rule Cons.IH) (rule le)
    with le show ?case using next_round(2,9,10) by (auto simp: remaining_seconds_def)
  qed
qed

end

section \<open>Properties\<close>

lemma executor_calls_prefix:
  assumes "c \<in> set (ex_calls (executor_chat ads p rq ctx dec now))"
  shows "\<exists>ns. permitted_providers p dec (rm_data_class (cr_metadata rq)) = Inr ns \<and> fst c \<in> set ns"
proof (cases "permitted_providers p dec (rm_data_class (cr_metadata rq))")
  case (Inr ns)
  with assms have "fst c \<in> set (map fst (ex_calls (chat_loop ads p rq ctx 0 ns [] now)))"
    by (simp add: executor_chat_def)
  then show ?thesis using chat_loop_calls Inr by (meson set_mono_prefix subsetD)
qed (use assms in \<open>simp add: executor_chat_def\<close>)

lemma executor_stream_calls_prefix:
  assumes "c \<in> set (st_calls (executor_stream ss p rq ctx hold closing dec h now))"
  shows "\<exists>ns. permitted_providers p dec (rm_data_class (cr_metadata rq)) = Inr ns \<and> fst c \<in> set ns"
proof (cases "permitted_providers p dec (rm_data_class (cr_metadata rq))")
  case (Inr ns)
  with assms have "fst c \<in> set (map fst (st_calls (stream_loop ss p rq ctx hold closing 0 ns h now)))"
    by (simp add: executor_stream_def)
  then show ?thesis using stream_loop_calls Inr by (meson set_mono_prefix subsetD)
qed (use assms in \<open>simp add: executor_stream_def\<close>)

lemma executor_raised_history:
  assumes "ex_outcome (executor_chat ads p rq ctx dec now) = Inl (Raised pe)"
  shows "map ao_provider (pe_attempts pe) = map fst (ex_calls (executor_chat ads p rq ctx dec now))"
proof (cases "permitted_providers p dec (rm_data_class (cr_metadata rq))")
  case (Inr ns)
  with assms have "ex_outcome (chat_loop ads p rq ctx 0 ns [] now) = Inl (Raised pe)"
    by (simp add: executor_chat_def)
  from chat_loop_raised [OF this] Inr show ?thesis by (auto simp: executor_chat_def)
qed (use assms in \<open>simp add: executor_chat_def\<close>)

definition lab_decision :: route_decision where
  "lab_decision = \<lparr>rd_rule_name = ''economy-default'', rd_primary = ''private-vllm'',
                   rd_fallbacks = [''managed-economy'']\<rparr>"

definition busy_error :: normalized_error where
  "busy_error = make_normalized_error RateLimited ''busy'' (Some 429) (Some 1)"

text \<open>A private provider that is busy after one second and a managed one that answers.\<close>

fun busy_adapters :: "string \<Rightarrow> chat_adapter option" where
  "busy_adapters n =
     (if n = ''private-vllm'' then Some (\<lambda>i now rq ctx. (1, ReplyError busy_error))
      else if n = ''managed-economy''
      then Some (\<lambda>i now rq ctx. (1, Replied (lab_result ''managed-primary'')))
      else None)"

definition lab_chunk :: "int \<Rightarrow> bool \<Rightarrow> provider_chunk" where
  "lab_chunk k final =
     \<lparr>pc_provider = ''managed-primary'', pc_model = ''m'', pc_sequence = k, pc_delta = [text_part ''x''],
      pc_is_final = final, pc_finish_reason = None, pc_usage = None, pc_extensions = []\<rparr>"

fun broken_streams :: "string \<Rightarrow> stream_adapter option" where
  "broken_streams n =
     (if n = ''private-vllm'' then Some (\<lambda>i now rq ctx. [(1, ErrorEvent busy_error)])
      else if n = ''managed-economy''
      then Some (\<lambda>i now rq ctx. [(1 / 2, ChunkEvent (lab_chunk 0 False)), (1 / 2, ErrorEvent busy_error)])
      else None)"

interpretation busy_timed: timed_adapters busy_adapters
  by standard (auto split: if_splits)

interpretation broken_timed: timed_streams broken_streams
  by standard (auto split: if_splits)

lemma busy_run:
  "executor_chat busy_adapters lab_policy (lab_request Public Economy) lab_ctx lab_decision 0 =
     \<lparr>ex_outcome = Inr \<lparr>fr_result = lab_result ''managed-primary'', fr_provider = ''managed-economy'',
        fr_fallback_count = 1,
        fr_attempts = [attempt_failed ''private-vllm'' busy_error, attempt_ok ''managed-economy'']\<rparr>,
      ex_time = 3, ex_calls = [(''private-vllm'', 0), (''managed-economy'', 2)]\<rparr>"
  by code_simp

text \<open>
  C3. The executor's own guard: with \<open>never_cross_data_policy\<close> set, no complete or streamed
  execution of a restricted request calls a provider the policy declares external, whatever
  decision it is given.
\<close>

theorem executor_never_crosses:
  assumes "fb_never_cross (rp_fallback p)" "rm_data_class (cr_metadata rq) = Restricted"
  shows "(\<forall>c \<in> set (ex_calls (executor_chat ads p rq ctx dec now)). \<not> policy_external p (fst c))
    \<and> (\<forall>c \<in> set (st_calls (executor_stream ss p rq ctx hold closing dec h now)).
         \<not> policy_external p (fst c))"
  using executor_calls_prefix executor_stream_calls_prefix permitted_private assms by metis

theorem executor_never_crosses_witness:
  "ex_calls (executor_chat busy_adapters lab_policy (lab_request Restricted Economy) lab_ctx
      lab_decision 0) = [(''private-vllm'', 0)]
   \<and> \<not> policy_external lab_policy ''private-vllm''"
proof -
  have "ex_calls (executor_chat busy_adapters lab_policy (lab_request Restricted Economy) lab_ctx
      lab_decision 0) = [(''private-vllm'', 0)]"
    by code_simp
  moreover have "fb_never_cross (rp_fallback lab_policy)"
      "rm_data_class (cr_metadata (lab_request Restricted Economy)) = Restricted"
    by code_simp+
  ultimately show ?thesis
    using executor_never_crosses [THEN conjunct1, of lab_policy "lab_request Restricted Economy"
        busy_adapters lab_ctx lab_decision 0] by simp
qed

text \<open>
  Attempts are bounded and ordered: an execution calls at most \<open>max_attempts\<close> providers,
  and the providers it calls form a subsequence of the decision's.
\<close>

theorem executor_attempts_bounded:
  assumes "validate_policy p = Inr ()"
  shows "int (length (ex_calls (executor_chat ads p rq ctx dec now))) \<le> fb_max_attempts (rp_fallback p)
    \<and> subseq (map fst (ex_calls (executor_chat ads p rq ctx dec now))) (decision_providers dec)
    \<and> int (length (st_calls (executor_stream ss p rq ctx hold closing dec h now)))
        \<le> fb_max_attempts (rp_fallback p)
    \<and> subseq (map fst (st_calls (executor_stream ss p rq ctx hold closing dec h now))) (decision_providers dec)"
proof -
  have pos: "0 \<le> fb_max_attempts (rp_fallback p)" using validated_fallback(1) [OF assms] by simp
  show ?thesis
  proof (cases "permitted_providers p dec (rm_data_class (cr_metadata rq))")
    case (Inl n)
    with pos show ?thesis by (simp add: executor_chat_def executor_stream_def)
  next
    case (Inr ns)
    have "subseq ns (decision_providers dec)"
      using Inr unfolding permitted_providers_def by (rule executor_filter.keep_subseq)
    moreover have "int (length ns) \<le> fb_max_attempts (rp_fallback p)"
      by (rule permitted_length [OF Inr pos])
    moreover have *: "prefix xs ns \<Longrightarrow> length xs \<le> length ns \<and> subseq xs ns" for xs
      by (simp add: prefix_length_le prefix_imp_subseq)
    ultimately show ?thesis
      using Inr * [OF chat_loop_calls [of ads p rq ctx 0 ns "[]" now]]
        * [OF stream_loop_calls [of ss p rq ctx hold closing 0 ns h now]]
      by (auto simp: executor_chat_def executor_stream_def intro: subseq_order.order_trans)
  qed
qed

theorem executor_attempts_bounded_witness:
  "int (length (ex_calls (executor_chat busy_adapters lab_policy (lab_request Public Economy) lab_ctx
     lab_decision 0))) \<le> 2"
  using executor_attempts_bounded [OF lab_policy_valid, of busy_adapters "lab_request Public Economy"
      lab_ctx lab_decision 0 broken_streams "\<lambda>_. 0" "\<lambda>_. (0, None)" "[]"]
  by (simp add: lab_policy_def)

text \<open>
  C4. What a success means: the result comes from the last provider called; every earlier
  attempt failed with a class the policy allows fallback on; the attempt history names the
  providers called, in order; and \<open>fallback_count\<close> is the number of failed attempts.
\<close>

theorem executor_success_history:
  assumes "ex_outcome (executor_chat ads p rq ctx dec now) = Inr fr"
  shows "\<exists>hs. fr_attempts fr = hs @ [attempt_ok (fr_provider fr)]
    \<and> map ao_provider (fr_attempts fr) = map fst (ex_calls (executor_chat ads p rq ctx dec now))
    \<and> fr_fallback_count fr = length hs
    \<and> (\<forall>h \<in> set hs. failed_for (fb_on (rp_fallback p)) h)"
proof (cases "permitted_providers p dec (rm_data_class (cr_metadata rq))")
  case (Inr ns)
  with assms have "ex_outcome (chat_loop ads p rq ctx 0 ns [] now) = Inr fr"
    by (simp add: executor_chat_def)
  from chat_loop_success [OF this] Inr show ?thesis by (auto simp: executor_chat_def)
qed (use assms in \<open>simp add: executor_chat_def\<close>)

theorem executor_success_history_witness:
  "\<exists>fr hs. ex_outcome (executor_chat busy_adapters lab_policy (lab_request Public Economy) lab_ctx
        lab_decision 0) = Inr fr \<and> fr_fallback_count fr = 1
     \<and> fr_attempts fr = hs @ [attempt_ok (fr_provider fr)] \<and> length hs = 1
     \<and> list_all (failed_for (fb_on (rp_fallback lab_policy))) hs"
proof -
  obtain fr where fr: "ex_outcome (executor_chat busy_adapters lab_policy (lab_request Public Economy)
      lab_ctx lab_decision 0) = Inr fr" "fr_fallback_count fr = 1"
    by (simp add: busy_run)
  with executor_success_history [OF fr(1)] show ?thesis by (auto simp: list_all_iff)
qed

text \<open>
  C5. What a failure carries: the raised error's attempt history names exactly the providers
  called, each with the class it failed with; all but the last failed with a class that
  allows fallback; and the error is the last attempt's, or that of the exhausted deadline.
\<close>

theorem executor_failure_history:
  assumes "ex_outcome (executor_chat ads p rq ctx dec now) = Inl (Raised pe)"
  shows "map ao_provider (pe_attempts pe) = map fst (ex_calls (executor_chat ads p rq ctx dec now))
    \<and> (\<forall>h \<in> set (pe_attempts pe). ao_error h \<noteq> None)
    \<and> (\<forall>h \<in> set (butlast (pe_attempts pe)). failed_for (fb_on (rp_fallback p)) h)
    \<and> (pe_error pe = deadline_error
        \<or> pe_attempts pe \<noteq> [] \<and> ao_error (last (pe_attempts pe)) = Some (ne_class (pe_error pe)))"
proof (cases "permitted_providers p dec (rm_data_class (cr_metadata rq))")
  case (Inr ns)
  with assms have "ex_outcome (chat_loop ads p rq ctx 0 ns [] now) = Inl (Raised pe)"
    by (simp add: executor_chat_def)
  from chat_loop_raised [OF this] Inr show ?thesis by (auto simp: executor_chat_def)
qed (use assms in \<open>simp add: executor_chat_def\<close>)

theorem executor_failure_history_witness:
  "\<exists>pe. ex_outcome (executor_chat busy_adapters lab_policy (lab_request Restricted Economy) lab_ctx
        lab_decision 0) = Inl (Raised pe) \<and> pe_error pe = busy_error
     \<and> map ao_provider (pe_attempts pe) = [''private-vllm'']"
proof -
  have run: "executor_chat busy_adapters lab_policy (lab_request Restricted Economy) lab_ctx
        lab_decision 0
      = \<lparr>ex_outcome = Inl (Raised (with_attempts busy_error [attempt_failed ''private-vllm'' busy_error])),
         ex_time = 1, ex_calls = [(''private-vllm'', 0)]\<rparr>"
    by code_simp
  then have "ex_outcome (executor_chat busy_adapters lab_policy (lab_request Restricted Economy) lab_ctx
        lab_decision 0)
      = Inl (Raised (with_attempts busy_error [attempt_failed ''private-vllm'' busy_error]))"
    by simp
  from executor_failure_history [OF this] run show ?thesis by auto
qed

text \<open>
  C6. The global deadline holds: on an accepted policy, an execution that starts before the
  deadline is over by the deadline, sleeps for \<open>Retry-After\<close> included, and every provider
  call of it starts before the deadline.
\<close>

theorem executor_meets_deadline:
  assumes "validate_policy p = Inr ()"
    and "timed_adapters ads"
    and "now \<le> ts_instant (ctx_deadline_at ctx)"
  shows "now \<le> ex_time (executor_chat ads p rq ctx dec now)
    \<and> ex_time (executor_chat ads p rq ctx dec now) \<le> ts_instant (ctx_deadline_at ctx)
    \<and> (\<forall>c \<in> set (ex_calls (executor_chat ads p rq ctx dec now)).
         now \<le> snd c \<and> snd c < ts_instant (ctx_deadline_at ctx))"
proof (cases "permitted_providers p dec (rm_data_class (cr_metadata rq))")
  case (Inr ns)
  then show ?thesis
    using timed_adapters.chat_loop_time [OF assms(2) validated_timeouts(1) [OF assms(1)] assms(3)]
    by (simp add: executor_chat_def)
qed (use assms(3) in \<open>simp add: executor_chat_def\<close>)

theorem executor_meets_deadline_witness:
  "ex_time (executor_chat busy_adapters lab_policy (lab_request Public Economy) lab_ctx lab_decision 0)
     \<le> 5"
  using executor_meets_deadline [OF lab_policy_valid busy_timed.timed_adapters_axioms,
      of 0 lab_ctx "lab_request Public Economy" lab_decision]
  by (simp add: lab_ctx_def)

text \<open>
  C7. No replay: all the chunks of an execution come from one provider, the last one called,
  and carry its position; and if the execution fails after a chunk was yielded, the error is
  the \<open>stream_started_failure\<close> that no fallback is allowed for.
\<close>

theorem stream_never_replays:
  assumes "st_chunks (executor_stream ss p rq ctx hold closing dec h now) \<noteq> []"
  shows "\<exists>n k. (\<forall>x \<in> set (st_chunks (executor_stream ss p rq ctx hold closing dec h now)).
            fst x = n \<and> fst (snd x) = k)
    \<and> Suc k = length (st_calls (executor_stream ss p rq ctx hold closing dec h now))
    \<and> n = fst (last (st_calls (executor_stream ss p rq ctx hold closing dec h now)))
    \<and> (\<forall>pe. st_outcome (executor_stream ss p rq ctx hold closing dec h now) = Inl (Raised pe) \<longrightarrow>
         ne_class (pe_error pe) = StreamStartedFailure \<and> \<not> ne_fallback_eligible (pe_error pe))"
proof (cases "permitted_providers p dec (rm_data_class (cr_metadata rq))")
  case (Inr ns)
  define run where "run = stream_loop ss p rq ctx hold closing 0 ns h now"
  have eq: "executor_stream ss p rq ctx hold closing dec h now = run"
    by (simp add: executor_stream_def Inr run_def)
  obtain n cs where "st_chunks run = map (\<lambda>c. (n, 0 + (length (st_calls run) - 1), c)) cs"
    "n = fst (last (st_calls run))" "st_calls run \<noteq> []"
    "\<forall>pe. st_outcome run = Inl (Raised pe) \<longrightarrow> pe_error pe = no_replay_error"
    using stream_loop_single [of ss p rq ctx hold closing 0 ns h now] assms unfolding eq run_def by blast
  then show ?thesis
    unfolding eq by (intro exI [of _ n] exI [of _ "length (st_calls run) - 1"])
      (auto simp: no_replay_error_def)
qed (use assms in \<open>simp add: executor_stream_def\<close>)

theorem stream_never_replays_witness:
  "\<exists>n k. st_chunks (executor_stream broken_streams lab_policy (lab_request Public Economy) lab_ctx
        (\<lambda>_. 0) (\<lambda>_. (0, None)) lab_decision [] 0) = [(n, k, lab_chunk 0 False)] \<and> n = ''managed-economy'' \<and> k = 1"
proof -
  have run: "st_chunks (executor_stream broken_streams lab_policy (lab_request Public Economy) lab_ctx
        (\<lambda>_. 0) (\<lambda>_. (0, None)) lab_decision [] 0) = [(''managed-economy'', 1, lab_chunk 0 False)]"
    by code_simp
  then have "st_chunks (executor_stream broken_streams lab_policy (lab_request Public Economy) lab_ctx
        (\<lambda>_. 0) (\<lambda>_. (0, None)) lab_decision [] 0) \<noteq> []" by simp
  from stream_never_replays [OF this] run show ?thesis by auto
qed

text \<open>
  The attempt log of a stream: whatever the outcome, the log is extended in place by one
  record per provider called, in order (a crash leaves the crashed attempt out); all but the
  last record are failures that allow fallback; a stream that returns ends with a successful
  record, and an error carries the whole log, without a successful record of this execution.
\<close>

theorem stream_attempt_log:
  "\<exists>hs. st_log (executor_stream ss p rq ctx hold closing dec h now) = h @ hs
     \<and> (\<forall>x \<in> set (butlast hs). failed_for (fb_on (rp_fallback p)) x)
     \<and> (case st_outcome (executor_stream ss p rq ctx hold closing dec h now) of
          Inr _ \<Rightarrow> hs \<noteq> [] \<and> ao_error (last hs) = None
            \<and> map ao_provider hs = map fst (st_calls (executor_stream ss p rq ctx hold closing dec h now))
        | Inl (Raised pe) \<Rightarrow> pe_attempts pe = st_log (executor_stream ss p rq ctx hold closing dec h now)
            \<and> list_all (\<lambda>x. ao_error x \<noteq> None) hs
            \<and> map ao_provider hs = map fst (st_calls (executor_stream ss p rq ctx hold closing dec h now))
        | Inl _ \<Rightarrow>
            prefix (map ao_provider hs)
              (map fst (st_calls (executor_stream ss p rq ctx hold closing dec h now))))"
proof (cases "permitted_providers p dec (rm_data_class (cr_metadata rq))")
  case (Inl n)
  then show ?thesis by (intro exI [of _ "[]"]) (simp add: executor_stream_def)
next
  case (Inr ns)
  then have eq: "executor_stream ss p rq ctx hold closing dec h now = stream_loop ss p rq ctx hold closing 0 ns h now"
    by (simp add: executor_stream_def)
  show ?thesis
    unfolding eq using stream_loop_log [of ss p rq ctx hold closing 0 ns h now]
    by (auto simp: list_all_iff split: sum.splits exec_error.splits)
qed

theorem stream_attempt_log_witness:
  "\<exists>hs. st_log (executor_stream broken_streams lab_policy (lab_request Public Economy) lab_ctx
        (\<lambda>_. 0) (\<lambda>_. (0, None)) lab_decision [] 0) = hs \<and> length hs = 2
     \<and> list_all (failed_for (fb_on (rp_fallback lab_policy))) (butlast hs)"
proof -
  have "length (st_log (executor_stream broken_streams lab_policy (lab_request Public Economy) lab_ctx
        (\<lambda>_. 0) (\<lambda>_. (0, None)) lab_decision [] 0)) = 2"
    by code_simp
  then show ?thesis
    using stream_attempt_log [of broken_streams lab_policy "lab_request Public Economy" lab_ctx
        "\<lambda>_. 0" "\<lambda>_. (0, None)" lab_decision "[]" 0]
    by (auto simp: list_all_iff)
qed

text \<open>
  C8. Streams respect the deadline: with a consumer that holds each chunk at most \<open>H\<close>
  seconds and iterators that close within \<open>C\<close> seconds (no timeout of the executor covers
  either), a stream that starts before the deadline is over within \<open>H + C\<close> of it, and every
  provider is called before the deadline.
\<close>

theorem stream_meets_deadline:
  assumes "validate_policy p = Inr ()" "timed_streams ss"
    and "\<forall>j. 0 \<le> hold j \<and> hold j \<le> H"
    and "\<forall>j. 0 \<le> fst (closing j) \<and> fst (closing j) \<le> C"
    and "now \<le> ts_instant (ctx_deadline_at ctx)"
  shows "now \<le> st_time (executor_stream ss p rq ctx hold closing dec h now)
    \<and> st_time (executor_stream ss p rq ctx hold closing dec h now)
        \<le> ts_instant (ctx_deadline_at ctx) + H + C
    \<and> (\<forall>c \<in> set (st_calls (executor_stream ss p rq ctx hold closing dec h now)).
         now \<le> snd c \<and> snd c < ts_instant (ctx_deadline_at ctx))"
proof -
  have nonneg: "0 \<le> H" "0 \<le> C" using assms(3,4) order_trans by blast+
  show ?thesis
  proof (cases "permitted_providers p dec (rm_data_class (cr_metadata rq))")
    case (Inr ns)
    have "now \<le> ts_instant (ctx_deadline_at ctx) + C" using assms(5) nonneg by simp
    from timed_streams.stream_loop_time [OF assms(2,3,4) validated_timeouts(1) [OF assms(1)] this] Inr
    show ?thesis by (simp add: executor_stream_def)
  next
    case (Inl n)
    with assms(5) nonneg show ?thesis by (simp add: executor_stream_def)
  qed
qed

theorem stream_meets_deadline_witness:
  "st_time (executor_stream broken_streams lab_policy (lab_request Public Economy) lab_ctx
     (\<lambda>_. 1 / 4) (\<lambda>_. (1 / 8, None)) lab_decision [] 0) \<le> 5 + 1 / 4 + 1 / 8"
  using stream_meets_deadline [OF lab_policy_valid broken_timed.timed_streams_axioms,
      of "\<lambda>_. 1 / 4" "1 / 4" "\<lambda>_. (1 / 8, None)" "1 / 8" 0 lab_ctx "lab_request Public Economy"
      lab_decision "[]"]
  by (simp add: lab_ctx_def)

text \<open>
  A completed stream is complete: one attempt yields a prefix of the chunks its provider
  produces, and if it returns normally it has yielded all of them up to the end of the
  stream, in order, none dropped and none repeated.
\<close>

theorem stream_attempt_faithful:
  "case stream_attempt t ctx ad hold k script now of
     (cs, now', res) \<Rightarrow>
       prefix cs (leading_chunks script)
       \<and> (case res of StreamReturned \<Rightarrow> cs = leading_chunks script | _ \<Rightarrow> True)"
  using stream_attempt_chunks [of t ctx ad hold k script now]
  by (cases "stream_attempt t ctx ad hold k script now") (auto split: stream_end.splits)

end
