(* ===== verification/Security.thy ===== *)
theory Security
  imports Domain
begin

text \<open>
  Bearer-key authentication (\<open>security/auth.py\<close>). The digest \<open>hash_api_key\<close>, SHA-256 of the
  UTF-8 bytes in hexadecimal, is a parameter: the model relies on nothing about it but that it
  is a function. Comparing digests in constant time is, by value, equality.
\<close>

record api_key_entry =
  ak_sha256 :: string
  ak_team :: string

definition hex_digit :: "char \<Rightarrow> bool" where
  "hex_digit c \<longleftrightarrow> CHR ''0'' \<le> c \<and> c \<le> CHR ''9'' \<or> CHR ''a'' \<le> c \<and> c \<le> CHR ''f''"

definition api_key_entry_ok :: "api_key_entry \<Rightarrow> bool" where
  "api_key_entry_ok e \<longleftrightarrow>
     length (ak_sha256 e) = 64 \<and> list_all hex_digit (ak_sha256 e)
     \<and> 1 \<le> length (ak_team e) \<and> length (ak_team e) \<le> 64"

record auth_config =
  ac_keys :: "api_key_entry list"

definition auth_config_ok :: "auth_config \<Rightarrow> bool" where
  "auth_config_ok c \<longleftrightarrow> ac_keys c \<noteq> [] \<and> list_all api_key_entry_ok (ac_keys c)"

datatype auth_error =
    MissingKeyError
  | UnknownKey
  | TeamMismatch string string

text \<open>The loop over every configured entry, with no early exit: a later match overrides.\<close>

fun match_team :: "string \<Rightarrow> api_key_entry list \<Rightarrow> string option \<Rightarrow> string option" where
  "match_team presented [] matched = matched"
| "match_team presented (e # es) matched =
     match_team presented es (if presented = ak_sha256 e then Some (ak_team e) else matched)"

definition authenticate ::
    "(string \<Rightarrow> string) \<Rightarrow> auth_config \<Rightarrow> string option \<Rightarrow> string option \<Rightarrow> auth_error + string"
where
  "authenticate hash_api_key config bearer asserted =
     (if \<not> truthy_str bearer then Inl MissingKeyError
      else (case match_team (hash_api_key (the bearer)) (ac_keys config) None of
              None \<Rightarrow> Inl UnknownKey
            | Some team \<Rightarrow>
                (case asserted of
                   None \<Rightarrow> Inr team
                 | Some a \<Rightarrow> if a \<noteq> team then Inl (TeamMismatch a team) else Inr team)))"

section \<open>Lemmas\<close>

lemma match_team_eq:
  "match_team d es m =
     (case filter (\<lambda>e. d = ak_sha256 e) es of [] \<Rightarrow> m
      | xs \<Rightarrow> Some (ak_team (last xs)))"
  by (induction es arbitrary: m) (auto split: list.splits)

lemma match_team_None: "match_team d es None = None \<longleftrightarrow> (\<forall>e \<in> set es. d \<noteq> ak_sha256 e)"
proof -
  have "match_team d es None = None \<longleftrightarrow> filter (\<lambda>e. d = ak_sha256 e) es = []"
    by (simp add: match_team_eq split: list.splits)
  then show ?thesis by (simp add: filter_empty_conv)
qed

lemma match_team_Some:
  "match_team d es None = Some t \<Longrightarrow> \<exists>e \<in> set es. d = ak_sha256 e \<and> ak_team e = t"
proof -
  assume m: "match_team d es None = Some t"
  let ?xs = "filter (\<lambda>e. d = ak_sha256 e) es"
  have "?xs \<noteq> []" and t: "t = ak_team (last ?xs)" using m by (auto simp: match_team_eq split: list.splits)
  then have "last ?xs \<in> set ?xs" by (intro last_in_set)
  with t show ?thesis by auto
qed

lemma authenticate_Inr:
  assumes "authenticate h c bearer asserted = Inr team"
  shows "\<exists>key e. bearer = Some key \<and> key \<noteq> '''' \<and> e \<in> set (ac_keys c) \<and> h key = ak_sha256 e
     \<and> ak_team e = team \<and> (asserted = None \<or> asserted = Some team)"
  using assms
  by (auto simp: authenticate_def truthy_str_def split: option.splits if_splits dest!: match_team_Some)

section \<open>Properties\<close>

text \<open>
  C14. Identity comes from the key alone: the team an authenticated caller gets is that of the
  last configured entry with the digest of its key; the asserted team only decides whether the
  request is refused, never who the caller is; and without a matching entry nobody is let in.
\<close>

theorem identity_from_key:
  "(case authenticate h c bearer asserted of
      Inr team \<Rightarrow>
        (\<exists>key e. bearer = Some key \<and> e \<in> set (ac_keys c) \<and> ak_sha256 e = h key \<and> ak_team e = team)
        \<and> authenticate h c bearer None = Inr team
        \<and> asserted \<in> {None, Some team}
    | Inl (TeamMismatch a team) \<Rightarrow>
        asserted = Some a \<and> a \<noteq> team \<and> authenticate h c bearer None = Inr team
    | Inl UnknownKey \<Rightarrow> list_all (\<lambda>e. ak_sha256 e \<noteq> h (the bearer)) (ac_keys c)
    | Inl MissingKeyError \<Rightarrow> bearer = None \<or> bearer = Some '''')"
proof (cases "truthy_str bearer")
  case False
  then show ?thesis by (auto simp: authenticate_def truthy_str_def split: option.splits if_splits)
next
  case True
  then obtain key where key: "bearer = Some key" "key \<noteq> ''''"
    by (auto simp: truthy_str_def split: option.splits)
  show ?thesis
  proof (cases "match_team (h key) (ac_keys c) None")
    case None
    then have "\<forall>e \<in> set (ac_keys c). h key \<noteq> ak_sha256 e" by (simp only: match_team_None)
    with None key show ?thesis by (auto simp: authenticate_def truthy_str_def list_all_iff)
  next
    case (Some team)
    from match_team_Some [OF this] show ?thesis
      using Some key
      by (cases asserted) (auto simp: authenticate_def truthy_str_def)
  qed
qed

end
