(* ===== verification/Wire_Schemas.thy ===== *)
theory Wire_Schemas
  imports Domain
begin

text \<open>
  The public wire schemas and their translation (\<open>api/schemas.py\<close>). Reading a JSON body into
  the typed wire request is pydantic's; the constraints of the schema are checked here. A
  payload is a JSON value with its keys in the order the code writes them.
\<close>

section \<open>Decimal text of an integer\<close>

fun digit_char :: "nat \<Rightarrow> char" where
  "digit_char n = char_of (48 + n)"

function str_nat :: "nat \<Rightarrow> string" where
  "str_nat n = (if n < 10 then [digit_char n] else str_nat (n div 10) @ [digit_char (n mod 10)])"
  by auto
termination by (relation "measure id") auto

declare str_nat.simps [simp del]

definition str_int :: "int \<Rightarrow> string" where
  "str_int i = (if i < 0 then CHR ''-'' # str_nat (nat (- i)) else str_nat (nat i))"

section \<open>Requests\<close>

record wire_message =
  wr_role :: string
  wr_content :: string
  wr_name :: "string option"

record wire_request =
  wq_model :: string
  wq_messages :: "wire_message list"
  wq_temperature :: pyfloat
  wq_max_tokens :: int
  wq_stream :: bool

definition max_messages :: nat where
  "max_messages = 128"

definition max_content_chars :: nat where
  "max_content_chars = 200000"

text \<open>\<open>^[A-Za-z0-9][A-Za-z0-9._-]{0,63}$\<close>\<close>

definition alnum :: "char \<Rightarrow> bool" where
  "alnum c \<longleftrightarrow>
     CHR ''A'' \<le> c \<and> c \<le> CHR ''Z'' \<or> CHR ''a'' \<le> c \<and> c \<le> CHR ''z''
     \<or> CHR ''0'' \<le> c \<and> c \<le> CHR ''9''"

definition model_name_ok :: "string \<Rightarrow> bool" where
  "model_name_ok s =
     (case s of
        [] \<Rightarrow> False
      | c # cs \<Rightarrow> alnum c \<and> length cs \<le> 63
          \<and> list_all (\<lambda>x. alnum x \<or> x = CHR ''.'' \<or> x = CHR ''_'' \<or> x = CHR ''-'') cs)"

definition validate_wire :: "wire_request \<Rightarrow> string + unit" where
  "validate_wire w =
     seq_checks
       ([guard_that (model_name_ok (wq_model w)) ''model''] @
        map (\<lambda>m. guard_that (length (wr_content m) \<le> max_content_chars) ''content'') (wq_messages w) @
        [guard_that (1 \<le> length (wq_messages w) \<and> length (wq_messages w) \<le> max_messages) ''messages'',
         guard_that (0 \<le> wq_temperature w \<and> wq_temperature w \<le> 2) ''temperature'',
         guard_that (0 < wq_max_tokens w \<and> wq_max_tokens w \<le> 8192) ''max_tokens''])"

definition wire_role :: "string \<Rightarrow> message_role option" where
  "wire_role s =
     map_of [(''system'', SystemRole), (''developer'', DeveloperRole), (''user'', UserRole),
             (''assistant'', ModelRole)] s"

definition wire_to_message :: "wire_message \<Rightarrow> string + canonical_message" where
  "wire_to_message m =
     (case wire_role (wr_role m) of
        None \<Rightarrow> Inl (''unsupported message role: '' @ wr_role m)
      | Some r \<Rightarrow>
          Inr \<lparr>cm_role = r, cm_content = [text_part (wr_content m)], cm_name = wr_name m\<rparr>)"

definition to_canonical ::
    "wire_request \<Rightarrow> string \<Rightarrow> data_class \<Rightarrow> quality_tier \<Rightarrow> string \<Rightarrow> string + chat_request" where
  "to_canonical w workload d q request_id =
     bind_res (traverse wire_to_message (wq_messages w)) (\<lambda>messages.
       let r = \<lparr>cr_messages = messages, cr_model = wq_model w, cr_temperature = wq_temperature w,
                cr_max_tokens = wq_max_tokens w, cr_stream = wq_stream w,
                cr_metadata = \<lparr>rm_workload = workload, rm_data_class = d, rm_quality_tier = q,
                               rm_request_id = request_id\<rparr>\<rparr>
       in bind_res (validate_chat_request r) (\<lambda>_. Inr r))"

section \<open>Responses\<close>

definition usage_payload :: "normalized_usage \<Rightarrow> json_object option" where
  "usage_payload u =
     (case (nu_input u, nu_output u) of
        (Some i, Some out) \<Rightarrow>
          Some [(''prompt_tokens'', JInt i), (''completion_tokens'', JInt out),
                (''total_tokens'', JInt (i + out))]
      | _ \<Rightarrow> None)"

definition parts_text :: "content_part list \<Rightarrow> string" where
  "parts_text ps = concat (map (\<lambda>p. or_str (cp_text p) '''') ps)"

definition completion_response :: "string \<Rightarrow> int \<Rightarrow> string \<Rightarrow> provider_result \<Rightarrow> json_object" where
  "completion_response request_id created model_alias r =
     [(''id'', JStr (''chatcmpl-'' @ request_id)), (''object'', JStr ''chat.completion''),
      (''created'', JInt created), (''model'', JStr model_alias),
      (''choices'', JArr [JObj
         [(''index'', JInt 0),
          (''message'', JObj [(''role'', JStr ''assistant''), (''content'', JStr (parts_text (pr_output r)))]),
          (''finish_reason'', JStr (or_str (pr_finish_reason r) ''stop''))]])]
     @ (case usage_payload (pr_usage r) of None \<Rightarrow> [] | Some u \<Rightarrow> [(''usage'', JObj u)])"

definition completion_chunk ::
    "string \<Rightarrow> int \<Rightarrow> string \<Rightarrow> string option \<Rightarrow> string option \<Rightarrow> normalized_usage option
      \<Rightarrow> json_object" where
  "completion_chunk request_id created model_alias delta_text finish_reason usage =
     [(''id'', JStr (''chatcmpl-'' @ request_id)), (''object'', JStr ''chat.completion.chunk''),
      (''created'', JInt created), (''model'', JStr model_alias),
      (''choices'', JArr [JObj
         [(''index'', JInt 0),
          (''delta'', JObj (if truthy_str delta_text then [(''content'', JStr (the delta_text))] else [])),
          (''finish_reason'', case finish_reason of None \<Rightarrow> JNull | Some f \<Rightarrow> JStr f)]])]
     @ (case usage of
          None \<Rightarrow> []
        | Some u \<Rightarrow> (case usage_payload u of None \<Rightarrow> [] | Some p \<Rightarrow> [(''usage'', JObj p)]))"

section \<open>Lemmas\<close>

lemma wire_role_not_tool: "wire_role s \<noteq> Some ToolRole"
  by (auto simp: wire_role_def)

lemma validate_text_message:
  "validate_message \<lparr>cm_role = r, cm_content = [text_part s], cm_name = n\<rparr> = Inr ()"
  by (simp add: validate_message_def validate_content_part_def text_part_def guard_that_def)

lemma wire_to_message_Inr:
  "wire_to_message m = Inr c \<longleftrightarrow>
     (\<exists>r. wire_role (wr_role m) = Some r
       \<and> c = \<lparr>cm_role = r, cm_content = [text_part (wr_content m)], cm_name = wr_name m\<rparr>)"
  by (auto simp: wire_to_message_def split: option.splits)

lemma to_canonical_request:
  assumes "to_canonical w wl d q rid = Inr r"
  shows "validate_chat_request r = Inr ()" "cr_metadata r
      = \<lparr>rm_workload = wl, rm_data_class = d, rm_quality_tier = q, rm_request_id = rid\<rparr>"
    "cr_model r = wq_model w" "cr_stream r = wq_stream w"
    "cr_temperature r = wq_temperature w" "cr_max_tokens r = wq_max_tokens w"
    "traverse wire_to_message (wq_messages w) = Inr (cr_messages r)"
  using assms by (auto simp: to_canonical_def bind_res_Inr Let_def)

lemma to_canonical_total:
  assumes "validate_wire w = Inr ()" "wl \<noteq> ''''" "rid \<noteq> ''''"
    and "traverse wire_to_message (wq_messages w) = Inr ms"
  shows "\<exists>r. to_canonical w wl d q rid = Inr r"
proof -
  have len: "length ms = length (wq_messages w)" by (rule traverse_length [OF assms(4)])
  have "validate_message c = Inr ()" if "c \<in> set ms" for c
    using traverse_member [OF assms(4) that] by (auto simp: wire_to_message_Inr validate_text_message)
  moreover have "ms \<noteq> []" "wq_model w \<noteq> ''''"
    using assms(1) len by (auto simp: validate_wire_def model_name_ok_def)
  ultimately have "validate_chat_request \<lparr>cr_messages = ms, cr_model = wq_model w,
      cr_temperature = wq_temperature w, cr_max_tokens = wq_max_tokens w, cr_stream = wq_stream w,
      cr_metadata = \<lparr>rm_workload = wl, rm_data_class = d, rm_quality_tier = q, rm_request_id = rid\<rparr>\<rparr>
      = Inr ()"
    using assms(1-3) by (simp add: validate_chat_request_def validate_metadata_def validate_wire_def)
  with assms(4) show ?thesis by (simp add: to_canonical_def)
qed

section \<open>Properties\<close>

text \<open>
  Translation is faithful and total: a wire request that passes the schema is translated
  exactly when every role is one of the four supported ones; the canonical request is valid,
  keeps the model, the parameters and every message with its role, text and name in order, and
  carries exactly the metadata the gateway derived.
\<close>

theorem translation_faithful:
  assumes "validate_wire w = Inr ()" "wl \<noteq> ''''" "rid \<noteq> ''''"
  shows "case to_canonical w wl d q rid of
      Inl _ \<Rightarrow> list_ex (\<lambda>m. wire_role (wr_role m) = None) (wq_messages w)
    | Inr r \<Rightarrow> validate_chat_request r = Inr ()
        \<and> cr_model r = wq_model w \<and> cr_temperature r = wq_temperature w
        \<and> cr_max_tokens r = wq_max_tokens w \<and> cr_stream r = wq_stream w
        \<and> map (\<lambda>c. (Some (cm_role c), parts_text (cm_content c), cm_name c)) (cr_messages r)
            = map (\<lambda>m. (wire_role (wr_role m), wr_content m, wr_name m)) (wq_messages w)
        \<and> cr_metadata r = \<lparr>rm_workload = wl, rm_data_class = d, rm_quality_tier = q,
                           rm_request_id = rid\<rparr>"
proof (cases "to_canonical w wl d q rid")
  case (Inl e)
  have "\<not> (\<exists>ms. traverse wire_to_message (wq_messages w) = Inr ms)"
  proof
    assume "\<exists>ms. traverse wire_to_message (wq_messages w) = Inr ms"
    then obtain ms where "traverse wire_to_message (wq_messages w) = Inr ms" by blast
    from to_canonical_total [OF assms this, of d q] Inl show False by simp
  qed
  then obtain m where "m \<in> set (wq_messages w)" "\<not> (\<exists>c. wire_to_message m = Inr c)"
    unfolding traverse_Inr_iff by blast
  then have "list_ex (\<lambda>m. wire_role (wr_role m) = None) (wq_messages w)"
    by (auto simp: list_ex_iff wire_to_message_def split: option.splits)
  with Inl show ?thesis by simp
next
  case (Inr r)
  have tr: "traverse wire_to_message (wq_messages w) = Inr (cr_messages r)"
    by (rule to_canonical_request(7) [OF Inr])
  have "map (\<lambda>c. (Some (cm_role c), parts_text (cm_content c), cm_name c)) ms
      = map (\<lambda>m. (wire_role (wr_role m), wr_content m, wr_name m)) xs"
    if "traverse wire_to_message xs = Inr ms" for xs ms
    using that
    by (induction xs arbitrary: ms)
      (auto simp: bind_res_Inr wire_to_message_Inr parts_text_def text_part_def or_str_def)
  with tr have "map (\<lambda>c. (Some (cm_role c), parts_text (cm_content c), cm_name c)) (cr_messages r)
      = map (\<lambda>m. (wire_role (wr_role m), wr_content m, wr_name m)) (wq_messages w)" by blast
  then show ?thesis
    using Inr to_canonical_request(1-6) [OF Inr] by simp
qed

definition lab_wire :: "bool \<Rightarrow> wire_request" where
  "lab_wire stream =
     \<lparr>wq_model = ''lab-default'',
      wq_messages = [\<lparr>wr_role = ''user'', wr_content = ''classify this'', wr_name = None\<rparr>],
      wq_temperature = 0, wq_max_tokens = 256, wq_stream = stream\<rparr>"

lemma lab_wire_valid: "validate_wire (lab_wire b) = Inr ()"
  by (simp add: lab_wire_def validate_wire_def guard_that_def model_name_ok_def alnum_def
      max_content_chars_def max_messages_def)

theorem translation_faithful_witness:
  "\<exists>r. to_canonical (lab_wire False) ''generic'' Public Economy ''req-1'' = Inr r
     \<and> validate_chat_request r = Inr ()"
proof -
  obtain r where "to_canonical (lab_wire False) ''generic'' Public Economy ''req-1'' = Inr r"
    using to_canonical_total [OF lab_wire_valid, of "''generic''" "''req-1''" False _ Public Economy]
    by (auto simp: lab_wire_def wire_to_message_def wire_role_def)
  with translation_faithful [OF lab_wire_valid, of "''generic''" "''req-1''" False Public Economy]
  show ?thesis by auto
qed

end
