(* ===== verification/Metrics.thy ===== *)
theory Metrics
  imports Py_Numbers
begin

text \<open>
  The gateway's metric series (\<open>telemetry/metrics.py\<close>). A counter is the value of each label
  tuple, zero before its first increment; incrementing adds in binary floating point, as the
  Prometheus client does. The amounts the code adds are never negative. A histogram is the
  number of observations per label tuple; the observed values are clock readings.
\<close>

type_synonym labels = "string list"
type_synonym counter = "labels \<Rightarrow> pyfloat"
type_synonym histogram = "labels \<Rightarrow> nat"

definition counter_inc :: "counter \<Rightarrow> labels \<Rightarrow> pyfloat \<Rightarrow> counter" where
  "counter_inc c ls x = c(ls := fadd (c ls) x)"

definition observe :: "histogram \<Rightarrow> labels \<Rightarrow> histogram" where
  "observe h ls = h(ls := Suc (h ls))"

record gateway_metrics =
  mt_requests :: counter
  mt_latency :: histogram
  mt_ttft :: histogram
  mt_input_tokens :: counter
  mt_output_tokens :: counter
  mt_managed_cost :: counter
  mt_routing_decisions :: counter
  mt_fallback :: counter
  mt_provider_errors :: counter
  mt_policy_denied :: counter

definition new_metrics :: gateway_metrics where
  "new_metrics =
     \<lparr>mt_requests = (\<lambda>_. 0), mt_latency = (\<lambda>_. 0), mt_ttft = (\<lambda>_. 0), mt_input_tokens = (\<lambda>_. 0),
      mt_output_tokens = (\<lambda>_. 0), mt_managed_cost = (\<lambda>_. 0), mt_routing_decisions = (\<lambda>_. 0),
      mt_fallback = (\<lambda>_. 0), mt_provider_errors = (\<lambda>_. 0), mt_policy_denied = (\<lambda>_. 0)\<rparr>"

definition record_cost ::
    "string \<Rightarrow> string \<Rightarrow> string \<Rightarrow> decimal \<Rightarrow> gateway_metrics \<Rightarrow> gateway_metrics" where
  "record_cost provider model_alias team amount_usd m =
     m\<lparr>mt_managed_cost := counter_inc (mt_managed_cost m) [provider, model_alias, team]
                            (float_of_decimal amount_usd)\<rparr>"

section \<open>The contract of a counter\<close>

locale counter_store =
  fixes get :: "'c \<Rightarrow> 'k \<Rightarrow> rat" and inc :: "'c \<Rightarrow> 'k \<Rightarrow> rat \<Rightarrow> 'c"
  assumes get_inc_same: "get (inc c k x) k = fadd (get c k) x"
    and get_inc_other: "k' \<noteq> k \<Longrightarrow> get (inc c k x) k' = get c k'"
begin

lemma changed_only: "get (inc c k x) k' \<noteq> get c k' \<Longrightarrow> k' = k"
  using get_inc_other by blast

lemma inc_fold_other:
  "(\<forall>k x. (k, x) \<in> set ops \<longrightarrow> k \<noteq> k') \<Longrightarrow> get (foldl (\<lambda>c (k, x). inc c k x) c ops) k' = get c k'"
proof (induction ops arbitrary: c)
  case (Cons op ops)
  obtain k x where op: "op = (k, x)" by fastforce
  have "get (foldl (\<lambda>c (k, x). inc c k x) (inc c k x) ops) k' = get (inc c k x) k'"
    using Cons.prems by (intro Cons.IH) simp
  also have "\<dots> = get c k'" using Cons.prems op by (intro get_inc_other) auto
  finally show ?case by (simp add: op)
qed simp

lemma inc_monotone:
  assumes "flt_round (get c k) = get c k" "0 \<le> x"
  shows "get c k \<le> get (inc c k x) k"
  unfolding get_inc_same fadd_def by (rule flt.rnd_add_grows) (rule assms)+

end

interpretation counters: counter_store "\<lambda>c k. c k" counter_inc
  by unfold_locales (simp_all add: counter_inc_def)

end
