(* ===== verification/Gateway_Routes.thy ===== *)
theory Gateway_Routes
  imports Fallback Security Wire_Schemas Metrics
begin

text \<open>
  The HTTP endpoint \<open>POST /v1/chat/completions\<close> (\<open>api/routes.py\<close>) and the state it runs on
  (\<open>api/app.py\<close>): admission (authentication, metadata, body), routing, execution and the
  metrics, access log and response of every exit.

  What the handler takes from elsewhere is the record \<open>gateway_env\<close>: the digest of a key, the
  JSON reader and writer, pydantic's reading of a body into the typed wire request, a fresh
  request identifier, how long the client holds each streamed chunk and how the iterator of each
  attempt closes. The adapters are the parameters of the fallback executor plus their \<open>price\<close>
  methods. A handler run returns the response (or the exception that left the handler), the
  metrics, the access log and the provider calls made. Latencies are clock readings and are not part of the log record.
\<close>

section \<open>State\<close>

record gateway_env =
  ge_hash :: "string \<Rightarrow> string"
  ge_loads :: "string \<Rightarrow> json option"
  ge_decode :: "json \<Rightarrow> wire_request option"
  ge_dumps :: "json \<Rightarrow> string"
  ge_new_id :: string
  ge_hold :: "nat \<Rightarrow> rat"
  ge_closing :: stream_closing

record provider_adapter =
  pa_chat :: chat_adapter
  pa_stream :: stream_adapter
  pa_price :: "normalized_usage \<Rightarrow> string \<Rightarrow> money option"

record gateway_state =
  gs_config :: gateway_config
  gs_auth :: auth_config
  gs_adapters :: "string \<Rightarrow> provider_adapter option"
  gs_model_aliases :: "string list"

definition gs_chat :: "gateway_state \<Rightarrow> string \<Rightarrow> chat_adapter option" where
  "gs_chat st n = map_option pa_chat (gs_adapters st n)"

definition gs_stream :: "gateway_state \<Rightarrow> string \<Rightarrow> stream_adapter option" where
  "gs_stream st n = map_option pa_stream (gs_adapters st n)"

definition gs_price ::
    "gateway_state \<Rightarrow> string \<Rightarrow> (normalized_usage \<Rightarrow> string \<Rightarrow> money option) option" where
  "gs_price st n = map_option pa_price (gs_adapters st n)"

definition known_model_aliases :: "gateway_config \<Rightarrow> string list" where
  "known_model_aliases c =
     dict_keys (pd_route_aliases (gc_providers c))
     @ concat (map (\<lambda>(n, p). dict_keys (pcf_models p)) (pd_providers (gc_providers c)))"

record access_entry =
  al_request_id :: string
  al_team :: string
  al_workload :: string
  al_outcome :: string
  al_provider :: "string option"
  al_rule :: "string option"
  al_fallback_count :: nat

record gateway_world =
  gw_metrics :: gateway_metrics
  gw_log :: "access_entry list"

datatype response_body =
    JsonBody json
  | EventStream "string list" bool

record http_response =
  hs_status :: int
  hs_headers :: "(string \<times> string) list"
  hs_body :: response_body

text \<open>An exception that leaves the handler (the framework answers it with status 500).\<close>

datatype unhandled = UnhandledKey string | UnhandledCrash string

record handled =
  hd_result :: "unhandled + http_response"
  hd_world :: gateway_world
  hd_calls :: "(string \<times> rat) list"

section \<open>Responses\<close>

fun error_status :: "error_class \<Rightarrow> int" where
  "error_status InvalidRequest = 502"
| "error_status AuthError = 502"
| "error_status RateLimited = 429"
| "error_status TimeoutClass = 504"
| "error_status Provider5xx = 502"
| "error_status PolicyDeniedClass = 403"
| "error_status StreamStartedFailure = 502"
| "error_status MalformedResponse = 502"

definition error_object :: "string \<Rightarrow> string \<Rightarrow> string \<Rightarrow> json" where
  "error_object message kind code =
     JObj [(''error'', JObj [(''message'', JStr message), (''type'', JStr kind), (''code'', JStr code)])]"

definition error_response :: "int \<Rightarrow> string \<Rightarrow> string \<Rightarrow> string \<Rightarrow> http_response" where
  "error_response status message code request_id =
     \<lparr>hs_status = status,
      hs_headers = (if request_id = '''' then [] else [(''X-Gateway-Request-Id'', request_id)]),
      hs_body = JsonBody (error_object message ''invalid_request_error'' code)\<rparr>"

definition provider_error_response :: "provider_error \<Rightarrow> string \<Rightarrow> string \<Rightarrow> string \<Rightarrow> http_response"
where
  "provider_error_response e request_id provider route =
     (let err = pe_error e
      in \<lparr>hs_status = error_status (ne_class err),
          hs_headers =
            [(''X-Gateway-Request-Id'', request_id), (''X-Gateway-Provider'', provider),
             (''X-Gateway-Route'', route),
             (''X-Gateway-Fallback-Count'', str_nat (length (pe_attempts e) - 1))]
            @ (case ne_retry_after err of
                 None \<Rightarrow> []
               | Some r \<Rightarrow> [(''Retry-After'', str_int (int_of_float r))]),
          hs_body = JsonBody (error_object (ne_message err) ''provider_error''
                                (error_class_value (ne_class err)))\<rparr>)"

section \<open>Metrics and log\<close>

definition log_request :: "access_entry \<Rightarrow> gateway_world \<Rightarrow> gateway_world" where
  "log_request e w = w\<lparr>gw_log := gw_log w @ [e]\<rparr>"

definition with_metrics :: "(gateway_metrics \<Rightarrow> gateway_metrics) \<Rightarrow> gateway_world \<Rightarrow> gateway_world" where
  "with_metrics f w = w\<lparr>gw_metrics := f (gw_metrics w)\<rparr>"

definition inc_requests :: "labels \<Rightarrow> gateway_metrics \<Rightarrow> gateway_metrics" where
  "inc_requests ls m = m\<lparr>mt_requests := counter_inc (mt_requests m) ls 1\<rparr>"

definition inc_provider_errors :: "string \<Rightarrow> error_class \<Rightarrow> gateway_metrics \<Rightarrow> gateway_metrics" where
  "inc_provider_errors provider c m =
     m\<lparr>mt_provider_errors := counter_inc (mt_provider_errors m) [provider, error_class_value c] 1\<rparr>"

definition observe_latency :: "string \<Rightarrow> string \<Rightarrow> gateway_metrics \<Rightarrow> gateway_metrics" where
  "observe_latency provider workload m =
     m\<lparr>mt_latency := observe (mt_latency m) [provider, workload]\<rparr>"

text \<open>Every failed attempt, and every transition to the next provider.\<close>

fun record_attempt_history :: "attempt_outcome list \<Rightarrow> gateway_metrics \<Rightarrow> gateway_metrics" where
  "record_attempt_history [] m = m"
| "record_attempt_history (a # rest) m =
     (case ao_error a of
        None \<Rightarrow> record_attempt_history rest m
      | Some c \<Rightarrow>
          (let m1 = inc_provider_errors (ao_provider a) c m;
               m2 = (case rest of
                       [] \<Rightarrow> m1
                     | b # _ \<Rightarrow>
                         m1\<lparr>mt_fallback := counter_inc (mt_fallback m1)
                              [ao_provider a, ao_provider b, error_class_value c] 1\<rparr>)
           in record_attempt_history rest m2))"

text \<open>The metrics, and the \<open>KeyError\<close> of \<open>state.adapters[provider]\<close> if there is one.\<close>

definition record_result_metrics ::
    "gateway_state \<Rightarrow> string \<Rightarrow> string \<Rightarrow> string \<Rightarrow> normalized_usage \<Rightarrow> gateway_metrics
      \<Rightarrow> gateway_metrics \<times> string option" where
  "record_result_metrics st provider model_alias team usage m =
     (let ls = [provider, model_alias, team];
          m1 = (case nu_input usage of
                  None \<Rightarrow> m
                | Some n \<Rightarrow> m\<lparr>mt_input_tokens := counter_inc (mt_input_tokens m) ls (of_int n)\<rparr>);
          m2 = (case nu_output usage of
                  None \<Rightarrow> m1
                | Some n \<Rightarrow> m1\<lparr>mt_output_tokens := counter_inc (mt_output_tokens m1) ls (of_int n)\<rparr>)
      in case gs_price st provider of
           None \<Rightarrow> (m2, Some provider)
         | Some price_of \<Rightarrow>
             (case price_of usage model_alias of
                None \<Rightarrow> (m2, None)
              | Some cost \<Rightarrow> (record_cost provider model_alias team (amount cost) m2, None)))"

text \<open>What every exit of one request knows: its route, its labels and its identifiers.\<close>

record request_info =
  ri_decision :: route_decision
  ri_model_alias :: string
  ri_metric_model :: string
  ri_team :: string
  ri_workload :: string
  ri_request_id :: string
  ri_created :: int

definition error_provider :: "provider_error \<Rightarrow> route_decision \<Rightarrow> string" where
  "error_provider e dec =
     (if pe_attempts e \<noteq> [] then ao_provider (last (pe_attempts e)) else rd_primary dec)"

definition request_labels :: "request_info \<Rightarrow> string \<Rightarrow> string \<Rightarrow> labels" where
  "request_labels ri provider outcome =
     [provider, ri_metric_model ri, ri_workload ri, ri_team ri, outcome]"

definition access_of :: "request_info \<Rightarrow> string \<Rightarrow> string \<Rightarrow> nat \<Rightarrow> access_entry" where
  "access_of ri provider outcome fallbacks =
     \<lparr>al_request_id = ri_request_id ri, al_team = ri_team ri, al_workload = ri_workload ri,
      al_outcome = outcome, al_provider = Some provider,
      al_rule = Some (rd_rule_name (ri_decision ri)), al_fallback_count = fallbacks\<rparr>"

definition record_terminal_error ::
    "request_info \<Rightarrow> provider_error \<Rightarrow> gateway_world \<Rightarrow> string \<times> gateway_world" where
  "record_terminal_error ri e w =
     (let provider = error_provider e (ri_decision ri);
          c = ne_class (pe_error e);
          w1 = with_metrics (record_attempt_history (pe_attempts e)) w;
          w2 = (if pe_attempts e = [] then with_metrics (inc_provider_errors provider c) w1 else w1);
          w3 = with_metrics (inc_requests (request_labels ri provider (error_class_value c))) w2
      in (provider, log_request (access_of ri provider (error_class_value c) 0) w3))"

section \<open>Complete responses\<close>

definition success_headers :: "request_info \<Rightarrow> string \<Rightarrow> nat \<Rightarrow> (string \<times> string) list" where
  "success_headers ri provider fallbacks =
     [(''X-Gateway-Request-Id'', ri_request_id ri),
      (''X-Gateway-Route'', rd_rule_name (ri_decision ri)),
      (''X-Gateway-Provider'', provider), (''X-Gateway-Fallback-Count'', str_nat fallbacks)]"

definition unhandled_exec :: "exec_error \<Rightarrow> unhandled" where
  "unhandled_exec e =
     (case e of MissingKey n \<Rightarrow> UnhandledKey n | Crashed s \<Rightarrow> UnhandledCrash s
      | Raised pe \<Rightarrow> UnhandledCrash (ne_message (pe_error pe)))"

definition non_streamed ::
    "gateway_state \<Rightarrow> request_info \<Rightarrow> chat_request \<Rightarrow> request_context \<Rightarrow> rat \<Rightarrow> gateway_world \<Rightarrow> handled"
where
  "non_streamed st ri canonical ctx now w =
     (let run = executor_chat (gs_chat st) (gc_routing (gs_config st)) canonical ctx (ri_decision ri) now
      in case ex_outcome run of
           Inl (Raised e) \<Rightarrow>
             (let (provider, w') = record_terminal_error ri e w
              in \<lparr>hd_result = Inr (provider_error_response e (ri_request_id ri) provider
                                   (rd_rule_name (ri_decision ri))),
                  hd_world = w', hd_calls = ex_calls run\<rparr>)
         | Inl e \<Rightarrow> \<lparr>hd_result = Inl (unhandled_exec e), hd_world = w, hd_calls = ex_calls run\<rparr>
         | Inr out \<Rightarrow>
             (let provider = fr_provider out;
                  w1 = with_metrics (record_attempt_history (fr_attempts out)) w;
                  w2 = with_metrics (observe_latency provider (ri_workload ri)) w1;
                  w3 = with_metrics (inc_requests (request_labels ri provider ''success'')) w2;
                  (m, missing) = record_result_metrics st provider (ri_metric_model ri) (ri_team ri)
                                   (pr_usage (fr_result out)) (gw_metrics w3);
                  w4 = w3\<lparr>gw_metrics := m\<rparr>
              in case missing of
                   Some n \<Rightarrow> \<lparr>hd_result = Inl (UnhandledKey n), hd_world = w4, hd_calls = ex_calls run\<rparr>
                 | None \<Rightarrow>
                     \<lparr>hd_result = Inr
                        \<lparr>hs_status = 200,
                         hs_headers = success_headers ri provider (fr_fallback_count out),
                         hs_body = JsonBody (JObj (completion_response (ri_request_id ri)
                                     (ri_created ri) (ri_model_alias ri) (fr_result out)))\<rparr>,
                      hd_world = log_request
                        (access_of ri provider ''success'' (fr_fallback_count out)) w4,
                      hd_calls = ex_calls run\<rparr>))"

section \<open>Streamed responses\<close>

definition sse_frame :: "string \<Rightarrow> string" where
  "sse_frame data = ''data: '' @ data @ [CHR 0x0A, CHR 0x0A]"

definition done_frame :: string where
  "done_frame = sse_frame ''[DONE]''"

text \<open>
  The loop over the items: the frames, the metrics, whether content was seen, the provider of
  the last item, and the \<open>KeyError\<close> that ends it early if there is one.
\<close>

fun stream_items ::
    "gateway_env \<Rightarrow> gateway_state \<Rightarrow> request_info \<Rightarrow> (string \<times> nat \<times> provider_chunk) list \<Rightarrow> bool
      \<Rightarrow> string option \<Rightarrow> gateway_metrics
      \<Rightarrow> string list \<times> gateway_metrics \<times> string option \<times> string option" where
  "stream_items env st ri [] first_content used m = ([], m, used, None)"
| "stream_items env st ri ((provider, k, chunk) # items) first_content used m =
     (let see = (pc_delta chunk \<noteq> [] \<and> first_content);
          m1 = (if see then m\<lparr>mt_ttft := observe (mt_ttft m) [provider, ri_workload ri]\<rparr> else m);
          first_content' = (if see then False else first_content);
          delta_text = parts_text (pc_delta chunk)
      in if pc_is_final chunk then
           (let payload = completion_chunk (ri_request_id ri) (ri_created ri) (ri_model_alias ri)
                            (if delta_text = '''' then None else Some delta_text)
                            (Some (or_str (pc_finish_reason chunk) ''stop'')) (pc_usage chunk);
                frame = sse_frame (ge_dumps env (JObj payload));
                (m2, missing) =
                  (case pc_usage chunk of
                     None \<Rightarrow> (m1, None)
                   | Some u \<Rightarrow>
                       record_result_metrics st provider (ri_metric_model ri) (ri_team ri) u m1)
            in case missing of
                 Some n \<Rightarrow> ([frame], m2, Some provider, Some n)
               | None \<Rightarrow>
                   (let (frames, m3, used', missing') =
                          stream_items env st ri items first_content' (Some provider) m2
                    in (frame # frames, m3, used', missing')))
         else if delta_text \<noteq> '''' then
           (let payload = completion_chunk (ri_request_id ri) (ri_created ri) (ri_model_alias ri)
                            (Some delta_text) None None;
                (frames, m3, used', missing') =
                  stream_items env st ri items first_content' (Some provider) m1
            in (sse_frame (ge_dumps env (JObj payload)) # frames, m3, used', missing'))
         else stream_items env st ri items first_content' (Some provider) m1)"

text \<open>\<open>event_stream()\<close>: the frames, whether it is cut off by an exception, and the world after
  its \<open>finally\<close> block.\<close>

definition event_stream ::
    "gateway_env \<Rightarrow> gateway_state \<Rightarrow> request_info \<Rightarrow> stream_run \<Rightarrow> gateway_world
      \<Rightarrow> string list \<times> bool \<times> gateway_world" where
  "event_stream env st ri run w =
     (let (frames, m, used, missing) =
            stream_items env st ri (st_chunks run) True None (gw_metrics w);
          (tail, aborted, outcome) =
            (case missing of
               Some n \<Rightarrow> ([], True, ''success'')
             | None \<Rightarrow>
                 (case st_outcome run of
                    Inr _ \<Rightarrow> ([done_frame], False, ''success'')
                  | Inl (Raised e) \<Rightarrow>
                      (let code = error_class_value (ne_class (pe_error e))
                       in ([sse_frame (ge_dumps env
                              (error_object (ne_message (pe_error e)) ''provider_error'' code))],
                           False, code))
                  | Inl _ \<Rightarrow> ([], True, ''success'')));
          final_provider = or_str used
            (if st_log run \<noteq> [] then ao_provider (last (st_log run)) else rd_primary (ri_decision ri));
          m1 = record_attempt_history (st_log run) m;
          m2 = observe_latency final_provider (ri_workload ri) m1;
          m3 = inc_requests (request_labels ri final_provider outcome) m2
      in (frames @ tail, aborted,
          log_request (access_of ri final_provider outcome 0) (w\<lparr>gw_metrics := m3\<rparr>)))"

definition streamed ::
    "gateway_env \<Rightarrow> gateway_state \<Rightarrow> request_info \<Rightarrow> chat_request \<Rightarrow> request_context \<Rightarrow> rat
      \<Rightarrow> gateway_world \<Rightarrow> handled" where
  "streamed env st ri canonical ctx now w =
     (let run = executor_stream (gs_stream st) (gc_routing (gs_config st)) canonical ctx (ge_hold env) (ge_closing env)
                  (ri_decision ri) [] now;
          respond = (\<lambda>provider fallbacks.
            let (frames, aborted, w') = event_stream env st ri run w
            in \<lparr>hd_result = Inr
                 \<lparr>hs_status = 200,
                  hs_headers = success_headers ri provider fallbacks @ [(''Cache-Control'', ''no-cache'')],
                  hs_body = EventStream frames aborted\<rparr>,
                hd_world = w', hd_calls = st_calls run\<rparr>)
      in case (st_chunks run, st_outcome run) of
           ([], Inl (Raised e)) \<Rightarrow>
             (let (provider, w') = record_terminal_error ri e w
              in \<lparr>hd_result = Inr (provider_error_response e (ri_request_id ri) provider
                                   (rd_rule_name (ri_decision ri))),
                  hd_world = w', hd_calls = st_calls run\<rparr>)
         | ([], Inl e) \<Rightarrow> \<lparr>hd_result = Inl (unhandled_exec e), hd_world = w, hd_calls = st_calls run\<rparr>
         | ([], Inr _) \<Rightarrow> respond (rd_primary (ri_decision ri)) 0
         | ((provider, k, chunk) # _, _) \<Rightarrow> respond provider k)"

section \<open>The endpoint\<close>

record http_request =
  hr_authorization :: "string option"
  hr_team :: "string option"
  hr_workload :: "string option"
  hr_data_class :: "string option"
  hr_quality_tier :: "string option"
  hr_request_id :: "string option"
  hr_body :: string

definition ascii_lower :: "char \<Rightarrow> char" where
  "ascii_lower c =
     (if CHR ''A'' \<le> c \<and> c \<le> CHR ''Z'' then char_of (of_char c + 32 :: nat) else c)"

definition bearer_key :: "string option \<Rightarrow> string option" where
  "bearer_key authorization =
     (case authorization of
        None \<Rightarrow> None
      | Some a \<Rightarrow>
          if a \<noteq> '''' \<and> starts_with (map ascii_lower a) ''bearer '' then Some (drop 7 a) else None)"

record admitted =
  ad_team :: string
  ad_workload :: string
  ad_data_class :: data_class
  ad_quality_tier :: quality_tier
  ad_request_id :: string
  ad_wire :: wire_request
  ad_canonical :: chat_request

definition effective_request_id :: "gateway_env \<Rightarrow> http_request \<Rightarrow> string" where
  "effective_request_id env r = take 64 (or_str (hr_request_id r) (ge_new_id env))"

text \<open>Everything before routing: an early response, or the admitted request.\<close>

definition admission ::
    "gateway_env \<Rightarrow> gateway_state \<Rightarrow> http_request \<Rightarrow> http_response + admitted" where
  "admission env st r =
     (let rid = effective_request_id env r;
          fail = (\<lambda>status message code. Inl (error_response status message code rid))
      in case authenticate (ge_hash env) (gs_auth st) (bearer_key (hr_authorization r)) (hr_team r) of
           Inl (TeamMismatch a t) \<Rightarrow>
             fail 403 ''X-Gateway-Team does not match the authenticated identity'' ''team_mismatch''
         | Inl _ \<Rightarrow> fail 401 ''invalid or missing API key'' ''auth_failed''
         | Inr team \<Rightarrow>
             (let workload = or_str (hr_workload r) ''generic''
              in if workload \<notin> set (rp_workloads (gc_routing (gs_config st)))
                 then fail 422 ''unknown workload'' ''invalid_workload''
                 else case (hr_data_class r, hr_quality_tier r) of
                   (Some dc, Some qt) \<Rightarrow>
                     (case (parse_data_class dc, parse_quality_tier qt) of
                        (Some d, Some q) \<Rightarrow>
                          (case ge_loads env (hr_body r) of
                             None \<Rightarrow> fail 400 ''request body is not valid JSON'' ''invalid_json''
                           | Some body \<Rightarrow>
                               (case ge_decode env body of
                                  None \<Rightarrow> fail 400 ''invalid request: schema'' ''invalid_request''
                                | Some wire \<Rightarrow>
                                    (case bind_res (validate_wire wire)
                                            (\<lambda>_. to_canonical wire workload d q rid) of
                                       Inl e \<Rightarrow> fail 400 (''invalid request: '' @ e) ''invalid_request''
                                     | Inr canonical \<Rightarrow>
                                         Inr \<lparr>ad_team = team, ad_workload = workload, ad_data_class = d,
                                              ad_quality_tier = q, ad_request_id = rid, ad_wire = wire,
                                              ad_canonical = canonical\<rparr>)))
                      | _ \<Rightarrow> fail 422 ''invalid data class or quality tier'' ''invalid_metadata'')
                 | _ \<Rightarrow> fail 422 ''X-Gateway-Data-Class and X-Gateway-Quality-Tier are required''
                          ''missing_metadata''))"

definition metric_model_of :: "gateway_state \<Rightarrow> wire_request \<Rightarrow> string" where
  "metric_model_of st wire =
     (if wq_model wire \<in> set (gs_model_aliases st) then wq_model wire else ''other'')"

text \<open>The reason of a denial; names are shown between quotes.\<close>

fun denial_reason :: "route_error \<Rightarrow> string" where
  "denial_reason (NoPermittedProvider rule) =
     ''rule '' @ [CHR 0x27] @ rule @ [CHR 0x27] @ '' leaves no permitted provider for restricted data''"
| "denial_reason (NoRuleMatches d w q) =
     ''no routing rule matches data_class='' @ data_class_value d @ '' workload='' @ [CHR 0x27] @ w
     @ [CHR 0x27] @ '' quality_tier='' @ quality_tier_value q"
| "denial_reason (ProviderKeyError n) = n"

definition denied_world :: "gateway_state \<Rightarrow> admitted \<Rightarrow> gateway_world \<Rightarrow> gateway_world" where
  "denied_world st ad w =
     (let w1 = with_metrics (\<lambda>m. m\<lparr>mt_policy_denied :=
                 counter_inc (mt_policy_denied m) [''no_permitted_route''] 1\<rparr>) w;
          w2 = with_metrics (inc_requests
                 [''none'', metric_model_of st (ad_wire ad), ad_workload ad, ad_team ad,
                  ''policy_denied'']) w1
      in log_request
           \<lparr>al_request_id = ad_request_id ad, al_team = ad_team ad, al_workload = ad_workload ad,
            al_outcome = ''policy_denied'', al_provider = None, al_rule = None,
            al_fallback_count = 0\<rparr> w2)"

definition context_of :: "gateway_state \<Rightarrow> string \<Rightarrow> rat \<Rightarrow> request_context" where
  "context_of st rid now =
     \<lparr>ctx_request_id = rid, ctx_started_at = utc now,
      ctx_deadline_at = utc (now + to_global_deadline (rp_timeouts (gc_routing (gs_config st))))\<rparr>"

definition chat_completions ::
    "gateway_env \<Rightarrow> gateway_state \<Rightarrow> http_request \<Rightarrow> rat \<Rightarrow> gateway_world \<Rightarrow> handled" where
  "chat_completions env st r now w =
     (case admission env st r of
        Inl response \<Rightarrow> \<lparr>hd_result = Inr response, hd_world = w, hd_calls = []\<rparr>
      | Inr ad \<Rightarrow>
          (case select_route (gc_routing (gs_config st)) (ad_data_class ad) (ad_workload ad)
                  (ad_quality_tier ad) of
             Inl (ProviderKeyError n) \<Rightarrow>
               \<lparr>hd_result = Inl (UnhandledKey n), hd_world = w, hd_calls = []\<rparr>
           | Inl reason \<Rightarrow>
               \<lparr>hd_result = Inr (error_response 403 (denial_reason reason) ''policy_denied''
                                 (ad_request_id ad)),
                hd_world = denied_world st ad w, hd_calls = []\<rparr>
           | Inr dec \<Rightarrow>
               (let w1 = with_metrics (\<lambda>m. m\<lparr>mt_routing_decisions :=
                           counter_inc (mt_routing_decisions m) [rd_rule_name dec, ''matched''] 1\<rparr>) w;
                    ctx = context_of st (ad_request_id ad) now;
                    ri = \<lparr>ri_decision = dec, ri_model_alias = wq_model (ad_wire ad),
                          ri_metric_model = metric_model_of st (ad_wire ad), ri_team = ad_team ad,
                          ri_workload = ad_workload ad, ri_request_id = ad_request_id ad,
                          ri_created = int_of_float now\<rparr>
                in if wq_stream (ad_wire ad)
                   then streamed env st ri (ad_canonical ad) ctx now w1
                   else non_streamed st ri (ad_canonical ad) ctx now w1)))"

section \<open>Lemmas\<close>

lemma admission_Inr:
  assumes "admission env st r = Inr ad"
  shows "authenticate (ge_hash env) (gs_auth st) (bearer_key (hr_authorization r)) (hr_team r)
      = Inr (ad_team ad)"
    and "ad_workload ad = or_str (hr_workload r) ''generic''"
    and "ad_workload ad \<in> set (rp_workloads (gc_routing (gs_config st)))"
    and "\<exists>dc qt. hr_data_class r = Some dc \<and> parse_data_class dc = Some (ad_data_class ad)
      \<and> hr_quality_tier r = Some qt \<and> parse_quality_tier qt = Some (ad_quality_tier ad)"
    and "to_canonical (ad_wire ad) (ad_workload ad) (ad_data_class ad) (ad_quality_tier ad)
      (ad_request_id ad) = Inr (ad_canonical ad)"
    and "ad_request_id ad = effective_request_id env r"
  using assms
  by (auto simp: admission_def Let_def bind_res_Inr
      split: sum.splits auth_error.splits if_splits option.splits)

lemma admission_Inl:
  assumes "admission env st r = Inl response"
  shows "hs_status response \<in> {400, 401, 403, 422}"
  using assms
  by (auto simp: admission_def Let_def error_response_def
      split: sum.splits auth_error.splits if_splits option.splits)

lemma admission_metadata:
  assumes "admission env st r = Inr ad"
  shows "rm_data_class (cr_metadata (ad_canonical ad)) = ad_data_class ad"
  using to_canonical_request(2) [OF admission_Inr(5) [OF assms]] by simp

lemma with_metrics_sel [simp]:
  "gw_metrics (with_metrics f w) = f (gw_metrics w)" "gw_log (with_metrics f w) = gw_log w"
  by (simp_all add: with_metrics_def)

lemma log_request_sel [simp]: "gw_metrics (log_request e w) = gw_metrics w"
  by (simp add: log_request_def)

lemma inc_requests_sel [simp]:
  "mt_requests (inc_requests ls m) = counter_inc (mt_requests m) ls 1"
  "mt_requests (inc_provider_errors p c m) = mt_requests m"
  "mt_requests (observe_latency p wl m) = mt_requests m"
  by (simp_all add: inc_requests_def inc_provider_errors_def observe_latency_def)

lemma record_attempt_history_requests [simp]:
  "mt_requests (record_attempt_history as m) = mt_requests m"
  by (induction as m rule: record_attempt_history.induct)
    (auto simp: Let_def split: option.splits list.splits)

lemma record_result_metrics_requests:
  "record_result_metrics st p a t u m = (m', missing) \<Longrightarrow> mt_requests m' = mt_requests m"
  by (auto simp: record_result_metrics_def Let_def record_cost_def split: option.splits)

lemma stream_items_requests:
  "stream_items env st ri items fc used m = (frames, m', used', missing) \<Longrightarrow>
   mt_requests m' = mt_requests m"
proof (induction items arbitrary: fc used m frames m' used' missing)
  case (Cons item items)
  obtain provider k chunk where item: "item = (provider, k, chunk)" by (metis prod_cases3)
  show ?case
    using Cons.prems
    by (auto simp: item Let_def split: if_splits option.splits prod.splits
        dest!: Cons.IH record_result_metrics_requests)
qed simp

lemma record_result_metrics_known:
  "gs_price st p \<noteq> None \<Longrightarrow> snd (record_result_metrics st p a t u m) = None"
  by (auto simp: record_result_metrics_def Let_def split: option.splits)

lemma stream_items_end:
  "(\<forall>x \<in> set items. gs_price st (fst x) \<noteq> None) \<Longrightarrow>
   snd (snd (stream_items env st ri items fc used m))
     = (if items = [] then used else Some (fst (last items)), None)"
proof (induction items arbitrary: fc used m)
  case (Cons item items)
  obtain provider k chunk where item: "item = (provider, k, chunk)" by (metis prod_cases3)
  then have known: "gs_price st provider \<noteq> None" using Cons.prems by auto
  have IH: "snd (snd (stream_items env st ri items fc' (Some provider) m1))
      = (Some (if items = [] then provider else fst (last items)), None)" for fc' m1
    using Cons by auto
  show ?case
    using record_result_metrics_known [OF known]
    by (simp add: item Let_def split_beta IH split: option.split)
qed simp

lemma stream_items_total:
  assumes "\<forall>x \<in> set items. gs_price st (fst x) \<noteq> None"
  shows "\<exists>frames m'. stream_items env st ri items fc used m =
     (frames, m', if items = [] then used else Some (fst (last items)), None)"
  using stream_items_end [OF assms, of env ri fc used m]
  by (metis prod.collapse)

definition counted :: "gateway_metrics \<Rightarrow> gateway_metrics \<Rightarrow> labels \<Rightarrow> bool" where
  "counted m m' ls \<longleftrightarrow> mt_requests m' = counter_inc (mt_requests m) ls 1"

lemma record_terminal_error_counted:
  "record_terminal_error ri e w = (provider, w') \<Longrightarrow>
   counted (gw_metrics w) (gw_metrics w')
     (request_labels ri provider (error_class_value (ne_class (pe_error e))))"
  by (auto simp: record_terminal_error_def Let_def counted_def)

lemma event_stream_counted:
  assumes "event_stream env st ri run w = (frames, aborted, w')"
  shows "\<exists>provider outcome. counted (gw_metrics w) (gw_metrics w') (request_labels ri provider outcome)"
  using assms stream_items_requests [of env st ri "st_chunks run" True None "gw_metrics w"]
  by (auto simp: event_stream_def Let_def counted_def split: prod.splits) blast+

lemma non_streamed_counted:
  assumes "hd_result (non_streamed st ri canonical ctx now w) = Inr response"
  shows "\<exists>provider outcome. counted (gw_metrics w) (gw_metrics (hd_world
      (non_streamed st ri canonical ctx now w))) (request_labels ri provider outcome)"
proof -
  let ?run = "executor_chat (gs_chat st) (gc_routing (gs_config st)) canonical ctx (ri_decision ri) now"
  show ?thesis
  proof (cases "ex_outcome ?run")
    case (Inl e)
    show ?thesis
    proof (cases e)
      case (Raised pe)
      obtain p w' where t: "record_terminal_error ri pe w = (p, w')" by fastforce
      from record_terminal_error_counted [OF this] show ?thesis
        using Inl Raised t by (auto simp: non_streamed_def Let_def)
    qed (use assms Inl in \<open>auto simp: non_streamed_def Let_def\<close>)
  next
    case (Inr out)
    let ?ls = "request_labels ri (fr_provider out) ''success''"
    obtain m missing where r: "record_result_metrics st (fr_provider out) (ri_metric_model ri)
        (ri_team ri) (pr_usage (fr_result out))
        (inc_requests ?ls (observe_latency (fr_provider out) (ri_workload ri)
          (record_attempt_history (fr_attempts out) (gw_metrics w)))) = (m, missing)" by fastforce
    with record_result_metrics_requests [OF r] have "counted (gw_metrics w) m ?ls"
      by (simp add: counted_def)
    then show ?thesis
      using Inr r by (auto simp: non_streamed_def Let_def split: option.splits)
  qed
qed

lemma streamed_counted:
  assumes "hd_result (streamed env st ri canonical ctx now w) = Inr response"
  shows "\<exists>provider outcome. counted (gw_metrics w) (gw_metrics (hd_world
      (streamed env st ri canonical ctx now w))) (request_labels ri provider outcome)"
proof -
  let ?run = "executor_stream (gs_stream st) (gc_routing (gs_config st)) canonical ctx (ge_hold env) (ge_closing env)
      (ri_decision ri) [] now"
  obtain frames aborted w' where es: "event_stream env st ri ?run w = (frames, aborted, w')"
    by (metis prod_cases3)
  note es_counted = event_stream_counted [OF es]
  show ?thesis
  proof (cases "st_chunks ?run")
    case (Cons item items)
    then show ?thesis using es es_counted
      by (cases item) (auto simp: streamed_def Let_def)
  next
    case Nil
    show ?thesis
    proof (cases "st_outcome ?run")
      case (Inr u)
      then show ?thesis using Nil es es_counted by (auto simp: streamed_def Let_def)
    next
      case (Inl e)
      show ?thesis
      proof (cases e)
        case (Raised pe)
        obtain p w' where t: "record_terminal_error ri pe w = (p, w')" by fastforce
        from record_terminal_error_counted [OF this] show ?thesis
          using Nil Inl Raised t by (auto simp: streamed_def Let_def)
      qed (use assms Nil Inl in \<open>auto simp: streamed_def Let_def\<close>)
    qed
  qed
qed

lemma streamed_calls:
  "hd_calls (streamed env st ri canonical ctx now w) =
     st_calls (executor_stream (gs_stream st) (gc_routing (gs_config st)) canonical ctx (ge_hold env) (ge_closing env)
       (ri_decision ri) [] now)"
  by (auto simp: streamed_def Let_def split: list.splits sum.splits exec_error.splits prod.splits)

lemma non_streamed_calls:
  "hd_calls (non_streamed st ri canonical ctx now w) =
     ex_calls (executor_chat (gs_chat st) (gc_routing (gs_config st)) canonical ctx (ri_decision ri) now)"
  by (auto simp: non_streamed_def Let_def split: sum.splits exec_error.splits prod.splits option.splits)

lemma chat_completions_calls:
  assumes "c \<in> set (hd_calls (chat_completions env st r now w))"
  obtains ad dec where "admission env st r = Inr ad"
    "select_route (gc_routing (gs_config st)) (ad_data_class ad) (ad_workload ad) (ad_quality_tier ad)
       = Inr dec"
    "fst c \<in> set (decision_providers dec)"
proof -
  obtain ad where ad: "admission env st r = Inr ad"
    using assms by (cases "admission env st r") (auto simp: chat_completions_def)
  obtain dec where dec: "select_route (gc_routing (gs_config st)) (ad_data_class ad) (ad_workload ad)
      (ad_quality_tier ad) = Inr dec"
    using assms ad by (cases "select_route (gc_routing (gs_config st)) (ad_data_class ad)
      (ad_workload ad) (ad_quality_tier ad)")
      (auto simp: chat_completions_def split: route_error.splits)
  let ?p = "gc_routing (gs_config st)"
  let ?ctx = "context_of st (ad_request_id ad) now"
  have "(\<exists>ads. c \<in> set (ex_calls (executor_chat ads ?p (ad_canonical ad) ?ctx dec now)))
      \<or> (\<exists>ss hold closing h. c \<in> set (st_calls (executor_stream ss ?p (ad_canonical ad) ?ctx hold closing dec h now)))"
    using assms ad dec
    by (cases "wq_stream (ad_wire ad)")
      (auto simp: chat_completions_def Let_def streamed_calls non_streamed_calls)
  then obtain ns where "permitted_providers ?p dec (rm_data_class (cr_metadata (ad_canonical ad)))
      = Inr ns" "fst c \<in> set ns"
    using executor_calls_prefix executor_stream_calls_prefix by blast
  then show thesis using permitted_subset that [OF ad dec] by blast
qed

section \<open>A concrete gateway\<close>

definition lab_env :: "wire_request \<Rightarrow> gateway_env" where
  "lab_env wire =
     \<lparr>ge_hash = (\<lambda>s. s), ge_loads = (\<lambda>s. Some JNull), ge_decode = (\<lambda>j. Some wire),
      ge_dumps = (\<lambda>j. ''{}''), ge_new_id = ''new'', ge_hold = (\<lambda>_. 0), ge_closing = (\<lambda>_. (0, None))\<rparr>"

fun lab_adapters :: "string \<Rightarrow> provider_adapter option" where
  "lab_adapters n =
     (if n = ''private-vllm''
      then Some \<lparr>pa_chat = (\<lambda>i now rq ctx. (1, ReplyError busy_error)),
                 pa_stream = (\<lambda>i now rq ctx. [(1, ErrorEvent busy_error)]),
                 pa_price = (\<lambda>u m. None)\<rparr>
      else if n = ''managed-economy''
      then Some \<lparr>pa_chat = (\<lambda>i now rq ctx. (1, Replied (lab_result ''managed-primary''))),
                 pa_stream = (\<lambda>i now rq ctx. [(1 / 2, ChunkEvent (lab_chunk 0 False)),
                                               (1 / 2, CrashEvent ''RuntimeError'')]),
                 pa_price = (\<lambda>u m. None)\<rparr>
      else None)"

definition lab_state :: gateway_state where
  "lab_state =
     \<lparr>gs_config = lab_gateway,
      gs_auth = \<lparr>ac_keys = [\<lparr>ak_sha256 = ''k'', ak_team = ''platform-lab''\<rparr>]\<rparr>,
      gs_adapters = lab_adapters, gs_model_aliases = known_model_aliases lab_gateway\<rparr>"

definition lab_http :: "string \<Rightarrow> string option \<Rightarrow> http_request" where
  "lab_http dc key =
     \<lparr>hr_authorization = map_option (\<lambda>k. ''Bearer '' @ k) key, hr_team = None, hr_workload = None,
      hr_data_class = Some dc, hr_quality_tier = Some ''economy'', hr_request_id = Some ''req-1'',
      hr_body = ''{}''\<rparr>"

definition lab_world :: gateway_world where
  "lab_world = \<lparr>gw_metrics = new_metrics, gw_log = []\<rparr>"

definition lab_admitted :: "data_class \<Rightarrow> admitted" where
  "lab_admitted d =
     \<lparr>ad_team = ''platform-lab'', ad_workload = ''generic'', ad_data_class = d,
      ad_quality_tier = Economy, ad_request_id = ''req-1'', ad_wire = lab_wire False,
      ad_canonical = lab_request d Economy\<rparr>"

lemma lab_auth:
  "authenticate (ge_hash (lab_env wire)) (gs_auth lab_state)
     (bearer_key (hr_authorization (lab_http dc (Some ''k'')))) None = Inr ''platform-lab''"
proof -
  have "bearer_key (Some ''Bearer k'') = Some ''k''" by code_simp
  then show ?thesis
    by (simp add: authenticate_def lab_env_def lab_state_def lab_http_def truthy_str_def)
qed

lemma lab_parse:
  "parse_data_class ''restricted'' = Some Restricted" "parse_data_class ''public'' = Some Public"
  "parse_quality_tier ''economy'' = Some Economy"
  "''generic'' \<in> set (rp_workloads lab_policy)"
  by code_simp+

lemma lab_canonical:
  "to_canonical (lab_wire False) ''generic'' Restricted Economy ''req-1'' = Inr (lab_request Restricted Economy)"
  "to_canonical (lab_wire False) ''generic'' Public Economy ''req-1'' = Inr (lab_request Public Economy)"
  by code_simp+

lemma lab_http_sel [simp]:
  "hr_team (lab_http dc k) = None" "hr_workload (lab_http dc k) = None"
  "hr_data_class (lab_http dc k) = Some dc" "hr_quality_tier (lab_http dc k) = Some ''economy''"
  "effective_request_id (lab_env wire) (lab_http dc k) = ''req-1''"
  by (simp_all add: lab_http_def effective_request_id_def or_str_def)

lemma lab_env_sel [simp]:
  "ge_loads (lab_env wire) t = Some JNull" "ge_decode (lab_env wire) j = Some wire"
  by (simp_all add: lab_env_def)

lemma lab_state_sel [simp]:
  "gs_config lab_state = lab_gateway" "gs_adapters lab_state = lab_adapters"
  by (simp_all add: lab_state_def)

lemma lab_admission:
  "admission (lab_env (lab_wire False)) lab_state (lab_http ''restricted'' (Some ''k''))
     = Inr (lab_admitted Restricted)"
  "admission (lab_env (lab_wire False)) lab_state (lab_http ''public'' (Some ''k''))
     = Inr (lab_admitted Public)"
  by (simp_all add: admission_def Let_def lab_auth lab_parse lab_canonical lab_wire_valid
      lab_admitted_def or_str_def)

lemma lab_route:
  "select_route lab_policy Restricted ''generic'' Economy = Inr
     \<lparr>rd_rule_name = ''restricted-private-only'', rd_primary = ''private-vllm'', rd_fallbacks = []\<rparr>"
  "select_route lab_policy Public ''generic'' Economy = Inr lab_decision"
  by code_simp+

lemma lab_run_restricted:
  "ex_calls (executor_chat (gs_chat lab_state) lab_policy (lab_request Restricted Economy)
     (context_of lab_state ''req-1'' 0)
     \<lparr>rd_rule_name = ''restricted-private-only'', rd_primary = ''private-vllm'', rd_fallbacks = []\<rparr> 0)
   = [(''private-vllm'', 0)]"
  by code_simp

lemma lab_run_public:
  "ex_outcome (executor_chat (gs_chat lab_state) lab_policy (lab_request Public Economy)
     (context_of lab_state ''req-1'' 0) lab_decision 0)
   = Inr \<lparr>fr_result = lab_result ''managed-primary'', fr_provider = ''managed-economy'',
        fr_fallback_count = 1,
        fr_attempts = [attempt_failed ''private-vllm'' busy_error, attempt_ok ''managed-economy'']\<rparr>"
  by code_simp

lemma lab_admitted_sel [simp]:
  "ad_team (lab_admitted d) = ''platform-lab''" "ad_workload (lab_admitted d) = ''generic''"
  "ad_data_class (lab_admitted d) = d" "ad_quality_tier (lab_admitted d) = Economy"
  "ad_request_id (lab_admitted d) = ''req-1''" "ad_wire (lab_admitted d) = lab_wire False"
  "ad_canonical (lab_admitted d) = lab_request d Economy"
  by (simp_all add: lab_admitted_def)

lemma lab_wire_stream [simp]: "wq_stream (lab_wire b) = b"
  by (simp add: lab_wire_def)

section \<open>Properties\<close>

text \<open>
  C11. Nothing happens without admission: if the endpoint calls a provider, or touches a metric
  or the access log, then the caller presented a key of the configuration whose team becomes the
  request's team, the workload is on the allowlist, the canonical request is valid, and its data
  class is the one the header names. Every other request gets a 400, 401, 403 or 422.
\<close>

theorem no_effect_without_admission:
  "case admission env st r of
     Inl response \<Rightarrow>
       chat_completions env st r now w = \<lparr>hd_result = Inr response, hd_world = w, hd_calls = []\<rparr>
       \<and> hs_status response \<in> {400, 401, 403, 422}
   | Inr ad \<Rightarrow>
       authenticate (ge_hash env) (gs_auth st) (bearer_key (hr_authorization r)) (hr_team r)
         = Inr (ad_team ad)
       \<and> ad_workload ad \<in> set (rp_workloads (gc_routing (gs_config st)))
       \<and> validate_chat_request (ad_canonical ad) = Inr ()
       \<and> map_option data_class_value (Some (rm_data_class (cr_metadata (ad_canonical ad))))
         = hr_data_class r"
proof (cases "admission env st r")
  case (Inl response)
  then show ?thesis using admission_Inl by (simp add: chat_completions_def)
next
  case (Inr ad)
  then show ?thesis
    using admission_Inr [OF Inr] admission_metadata [OF Inr] to_canonical_request(1)
    by (auto simp: parse_data_class_def data_class_enum.parse_iff)
qed

text \<open>
  C10. Restricted data stays private, end to end: on an accepted configuration, a request whose
  header says restricted makes the endpoint, streaming or not, call only providers that the
  provider document declares not external.
\<close>

theorem restricted_end_to_end:
  assumes "validate_policy (gc_routing (gs_config st)) = Inr ()"
    and "routing_matches_provider_document (gs_config st) = Inr ()"
    and "hr_data_class r = Some ''restricted''"
    and "c \<in> set (hd_calls (chat_completions env st r now w))"
  shows "\<exists>entry p. map_of (rp_providers (gc_routing (gs_config st))) (fst c) = Some entry
     \<and> map_of (pd_providers (gc_providers (gs_config st))) (or_str (rpc_provider entry) (fst c)) = Some p
     \<and> \<not> pcf_external p"
proof -
  obtain ad dec where ad: "admission env st r = Inr ad" and dec:
    "select_route (gc_routing (gs_config st)) (ad_data_class ad) (ad_workload ad) (ad_quality_tier ad)
       = Inr dec" "fst c \<in> set (decision_providers dec)"
    by (rule chat_completions_calls [OF assms(4)])
  have "ad_data_class ad = Restricted"
    using admission_Inr(4) [OF ad] assms(3) data_class_enum.parse_iff [of "''restricted''" "ad_data_class ad"]
    by (cases "ad_data_class ad") (auto simp: parse_data_class_def)
  with dec(1) have "select_route (gc_routing (gs_config st)) Restricted (ad_workload ad)
      (ad_quality_tier ad) = Inr dec" by simp
  from restricted_route_private [OF assms(1,2) this dec(2)] show ?thesis by blast
qed

theorem restricted_end_to_end_witness:
  "\<exists>c. c \<in> set (hd_calls (chat_completions (lab_env (lab_wire False)) lab_state
          (lab_http ''restricted'' (Some ''k'')) 0 lab_world))
     \<and> (\<exists>entry p. map_of (rp_providers lab_policy) (fst c) = Some entry
         \<and> map_of (pd_providers lab_providers) (or_str (rpc_provider entry) (fst c)) = Some p
         \<and> \<not> pcf_external p)"
proof -
  have calls: "hd_calls (chat_completions (lab_env (lab_wire False)) lab_state
          (lab_http ''restricted'' (Some ''k'')) 0 lab_world) = [(''private-vllm'', 0)]"
    by (simp add: chat_completions_def lab_admission lab_route non_streamed_calls lab_run_restricted)
  have "hr_data_class (lab_http ''restricted'' (Some ''k'')) = Some ''restricted''"
    by (simp add: lab_http_def)
  from restricted_end_to_end [OF _ _ this, of lab_state "(''private-vllm'', 0)" "lab_env (lab_wire False)"
      0 lab_world] calls lab_policy_valid lab_gateway_valid
  have "\<exists>entry p. map_of (rp_providers lab_policy) ''private-vllm'' = Some entry
         \<and> map_of (pd_providers lab_providers) (or_str (rpc_provider entry) ''private-vllm'') = Some p
         \<and> \<not> pcf_external p"
    by simp
  with calls show ?thesis by (intro exI [of _ "(''private-vllm'', 0 :: rat)"]) simp
qed

lemma answered_counted:
  assumes "admission env st r = Inr ad"
    and "hd_result (chat_completions env st r now w) = Inr response"
  shows "\<exists>provider model_alias outcome.
      counted (gw_metrics w) (gw_metrics (hd_world (chat_completions env st r now w)))
        [provider, model_alias, ad_workload ad, ad_team ad, outcome]
    \<and> model_alias \<in> insert ''other'' (set (gs_model_aliases st))
    \<and> ad_workload ad \<in> set (rp_workloads (gc_routing (gs_config st)))
    \<and> authenticate (ge_hash env) (gs_auth st) (bearer_key (hr_authorization r)) (hr_team r)
        = Inr (ad_team ad)"
proof -
  let ?label = "metric_model_of st (ad_wire ad)"
  have known: "?label \<in> insert ''other'' (set (gs_model_aliases st))"
    by (simp add: metric_model_of_def)
  have "\<exists>provider outcome. counted (gw_metrics w)
      (gw_metrics (hd_world (chat_completions env st r now w)))
      [provider, ?label, ad_workload ad, ad_team ad, outcome]"
  proof (cases "select_route (gc_routing (gs_config st)) (ad_data_class ad) (ad_workload ad)
      (ad_quality_tier ad)")
    case (Inl e)
    then show ?thesis
      using assms by (cases e)
        (auto simp: chat_completions_def denied_world_def counted_def Let_def inc_requests_def)
  next
    case (Inr dec)
    then show ?thesis
      using assms
        streamed_counted [where w = "with_metrics (\<lambda>m. m\<lparr>mt_routing_decisions :=
            counter_inc (mt_routing_decisions m) [rd_rule_name dec, ''matched''] 1\<rparr>) w"]
        non_streamed_counted [where w = "with_metrics (\<lambda>m. m\<lparr>mt_routing_decisions :=
            counter_inc (mt_routing_decisions m) [rd_rule_name dec, ''matched''] 1\<rparr>) w"]
      by (fastforce simp: chat_completions_def Let_def counted_def request_labels_def split: if_splits)
  qed
  with known admission_Inr(1,3) [OF assms(1)] show ?thesis by blast
qed

text \<open>
  C12. Every answered request is counted once, under bounded labels: if the endpoint answers an
  admitted request, whatever the outcome, exactly one label tuple of \<open>gateway_requests_total\<close>
  is incremented, by one; its model label is a configured model name or the word other, its workload
  is on the allowlist and its team is the authenticated one.
\<close>

theorem answered_request_counted_once:
  assumes "admission env st r = Inr ad"
    and "hd_result (chat_completions env st r now w) = Inr response"
  shows "\<exists>provider model_alias outcome.
      counted (gw_metrics w) (gw_metrics (hd_world (chat_completions env st r now w)))
        [provider, model_alias, ad_workload ad, ad_team ad, outcome]
    \<and> model_alias \<in> insert ''other'' (set (gs_model_aliases st))
    \<and> ad_workload ad \<in> set (rp_workloads (gc_routing (gs_config st)))
    \<and> authenticate (ge_hash env) (gs_auth st) (bearer_key (hr_authorization r)) (hr_team r)
        = Inr (ad_team ad)"
  by (rule answered_counted [OF assms])

theorem answered_request_counted_once_witness:
  "\<exists>provider model_alias outcome.
      counted (gw_metrics lab_world) (gw_metrics (hd_world (chat_completions (lab_env (lab_wire False))
          lab_state (lab_http ''public'' (Some ''k'')) 0 lab_world)))
        [provider, model_alias, ''generic'', ''platform-lab'', outcome]"
proof -
  have "\<exists>response. hd_result (chat_completions (lab_env (lab_wire False)) lab_state
      (lab_http ''public'' (Some ''k'')) 0 lab_world) = Inr response"
    by (simp add: chat_completions_def lab_admission lab_route non_streamed_def lab_run_public Let_def
        record_result_metrics_def gs_price_def split: option.splits)
  then obtain response where "hd_result (chat_completions (lab_env (lab_wire False)) lab_state
      (lab_http ''public'' (Some ''k'')) 0 lab_world) = Inr response" ..
  from answered_request_counted_once [OF lab_admission(2) this] show ?thesis by auto
qed

text \<open>
  C13. A stream that dies is counted as a success: when an exception the executor does not
  normalise leaves the provider after chunks were streamed, the response is cut off, yet the
  \<open>finally\<close> block counts the request with the outcome success.
\<close>

theorem aborted_stream_counted_as_success:
  assumes "st_chunks run \<noteq> []" "list_all (\<lambda>x. gs_adapters st (fst x) \<noteq> None) (st_chunks run)"
    and "st_outcome run = Inl (Crashed e)"
  shows "\<exists>frames w'. event_stream env st ri run w = (frames, True, w')
    \<and> (\<exists>provider. counted (gw_metrics w) (gw_metrics w') (request_labels ri provider ''success''))
    \<and> al_outcome (last (gw_log w')) = ''success''"
proof -
  obtain frames m where items: "stream_items env st ri (st_chunks run) True None (gw_metrics w)
      = (frames, m, Some (fst (last (st_chunks run))), None)"
    using stream_items_total [of "st_chunks run" st env ri True None "gw_metrics w"] assms(1,2)
    by (auto simp: list_all_iff gs_price_def)
  have "mt_requests m = mt_requests (gw_metrics w)" by (rule stream_items_requests [OF items])
  then show ?thesis
    using items assms(3)
    by (auto simp: event_stream_def Let_def counted_def log_request_def access_of_def)
qed

definition lab_info :: request_info where
  "lab_info =
     \<lparr>ri_decision = lab_decision, ri_model_alias = ''m'', ri_metric_model = ''other'',
      ri_team = ''platform-lab'', ri_workload = ''generic'', ri_request_id = ''req-1'', ri_created = 0\<rparr>"

definition crashed_run :: stream_run where
  "crashed_run =
     executor_stream (gs_stream lab_state) lab_policy (lab_request Public Economy) lab_ctx (\<lambda>_. 0)
       (\<lambda>_. (0, None)) lab_decision [] 0"

theorem aborted_stream_counted_as_success_witness:
  "\<exists>frames w'. event_stream (lab_env (lab_wire True)) lab_state lab_info crashed_run lab_world
      = (frames, True, w') \<and> al_outcome (last (gw_log w')) = ''success''"
proof -
  have chunks: "st_chunks crashed_run = [(''managed-economy'', 1, lab_chunk 0 False)]"
    and out: "st_outcome crashed_run = Inl (Crashed ''RuntimeError'')"
    by code_simp+
  then have "st_chunks crashed_run \<noteq> []"
    "list_all (\<lambda>x. gs_adapters lab_state (fst x) \<noteq> None) (st_chunks crashed_run)" by simp_all
  from aborted_stream_counted_as_success [OF this out] show ?thesis by blast
qed

text \<open>
  Errors keep their meaning on the way out: an execution that ends in a provider error before
  any content is answered with the status of its class, an error body that names the class, the
  provider of the last attempt (or the primary if none was made) and the number of fallbacks.
\<close>

theorem provider_error_answer:
  assumes "ex_outcome (executor_chat (gs_chat st) (gc_routing (gs_config st)) canonical ctx
      (ri_decision ri) now) = Inl (Raised e)"
  shows "\<exists>response. hd_result (non_streamed st ri canonical ctx now w) = Inr response
    \<and> hs_status response = error_status (ne_class (pe_error e))
    \<and> 400 \<le> hs_status response
    \<and> hs_body response = JsonBody (error_object (ne_message (pe_error e)) ''provider_error''
         (error_class_value (ne_class (pe_error e))))
    \<and> map_of (hs_headers response) ''X-Gateway-Provider'' =
        Some (last (rd_primary (ri_decision ri) # map fst
          (hd_calls (non_streamed st ri canonical ctx now w))))
    \<and> map_of (hs_headers response) ''X-Gateway-Fallback-Count'' =
        Some (str_nat (length (hd_calls (non_streamed st ri canonical ctx now w)) - 1))"
proof -
  let ?run = "executor_chat (gs_chat st) (gc_routing (gs_config st)) canonical ctx (ri_decision ri) now"
  have hist: "map ao_provider (pe_attempts e) = map fst (ex_calls ?run)"
    by (rule executor_raised_history [OF assms])
  have len: "length (pe_attempts e) = length (ex_calls ?run)"
    using arg_cong [OF hist, of length] by simp
  have prov: "error_provider e (ri_decision ri)
      = last (rd_primary (ri_decision ri) # map fst (ex_calls ?run))"
    unfolding hist [symmetric] by (simp add: error_provider_def last_map)
  have status: "400 \<le> error_status c" for c by (cases c) simp_all
  have result: "hd_result (non_streamed st ri canonical ctx now w)
      = Inr (provider_error_response e (ri_request_id ri) (error_provider e (ri_decision ri))
          (rd_rule_name (ri_decision ri)))"
    using assms by (simp add: non_streamed_def Let_def record_terminal_error_def)
  show ?thesis
    unfolding result non_streamed_calls
    by (simp add: provider_error_response_def Let_def status prov len)
qed

theorem provider_error_answer_witness:
  "\<exists>response. hd_result (non_streamed lab_state
      \<lparr>ri_decision = \<lparr>rd_rule_name = ''restricted-private-only'', rd_primary = ''private-vllm'',
         rd_fallbacks = []\<rparr>,
       ri_model_alias = ''m'', ri_metric_model = ''other'', ri_team = ''t'', ri_workload = ''generic'',
       ri_request_id = ''req-1'', ri_created = 0\<rparr>
      (lab_request Restricted Economy) (context_of lab_state ''req-1'' 0) 0 lab_world) = Inr response
    \<and> hs_status response = 429"
proof -
  let ?ri = "\<lparr>ri_decision = \<lparr>rd_rule_name = ''restricted-private-only'', rd_primary = ''private-vllm'',
         rd_fallbacks = []\<rparr>,
       ri_model_alias = ''m'', ri_metric_model = ''other'', ri_team = ''t'', ri_workload = ''generic'',
       ri_request_id = ''req-1'', ri_created = 0\<rparr>"
  have "ex_outcome (executor_chat (gs_chat lab_state) (gc_routing (gs_config lab_state))
      (lab_request Restricted Economy) (context_of lab_state ''req-1'' 0) (ri_decision ?ri) 0)
      = Inl (Raised (with_attempts busy_error [attempt_failed ''private-vllm'' busy_error]))"
    by code_simp
  from provider_error_answer [OF this, of lab_world] show ?thesis
    by (auto simp: busy_error_def)
qed

text \<open>
  Billed tokens are accounted exactly once: a successful complete response adds the input
  and output tokens its usage reports, and nothing else, to the counters of the provider that
  answered, and nothing to any other label tuple.
\<close>

theorem tokens_accounted:
  assumes "ex_outcome (executor_chat (gs_chat st) (gc_routing (gs_config st)) canonical ctx
      (ri_decision ri) now) = Inr out"
  shows "mt_input_tokens (gw_metrics (hd_world (non_streamed st ri canonical ctx now w))) ls =
      (if ls = [fr_provider out, ri_metric_model ri, ri_team ri]
       then (case nu_input (pr_usage (fr_result out)) of
               None \<Rightarrow> mt_input_tokens (gw_metrics w) ls
             | Some n \<Rightarrow> fadd (mt_input_tokens (gw_metrics w) ls) (of_int n))
       else mt_input_tokens (gw_metrics w) ls)
    \<and> mt_output_tokens (gw_metrics (hd_world (non_streamed st ri canonical ctx now w))) ls =
      (if ls = [fr_provider out, ri_metric_model ri, ri_team ri]
       then (case nu_output (pr_usage (fr_result out)) of
               None \<Rightarrow> mt_output_tokens (gw_metrics w) ls
             | Some n \<Rightarrow> fadd (mt_output_tokens (gw_metrics w) ls) (of_int n))
       else mt_output_tokens (gw_metrics w) ls)"
proof -
  have hist: "mt_input_tokens (record_attempt_history as m) = mt_input_tokens m
      \<and> mt_output_tokens (record_attempt_history as m) = mt_output_tokens m" for as m
    by (induction as m rule: record_attempt_history.induct)
      (auto simp: Let_def inc_provider_errors_def split: option.splits list.splits)
  show ?thesis
    using assms
    by (simp add: non_streamed_def Let_def record_result_metrics_def hist inc_requests_def
        observe_latency_def record_cost_def counters.get_inc_same counters.get_inc_other
        split: option.splits)
qed

theorem tokens_accounted_witness:
  "mt_input_tokens (gw_metrics (hd_world (non_streamed lab_state
      \<lparr>ri_decision = lab_decision, ri_model_alias = ''m'', ri_metric_model = ''other'', ri_team = ''t'',
       ri_workload = ''generic'', ri_request_id = ''req-1'', ri_created = 0\<rparr>
      (lab_request Public Economy) (context_of lab_state ''req-1'' 0) 0 lab_world)))
      [''managed-economy'', ''other'', ''t''] = fadd 0 100"
proof -
  let ?ri = "\<lparr>ri_decision = lab_decision, ri_model_alias = ''m'', ri_metric_model = ''other'', ri_team = ''t'',
       ri_workload = ''generic'', ri_request_id = ''req-1'', ri_created = 0\<rparr>"
  have "ex_outcome (executor_chat (gs_chat lab_state) (gc_routing (gs_config lab_state))
      (lab_request Public Economy) (context_of lab_state ''req-1'' 0) (ri_decision ?ri) 0)
      = Inr \<lparr>fr_result = lab_result ''managed-primary'', fr_provider = ''managed-economy'',
        fr_fallback_count = 1,
        fr_attempts = [attempt_failed ''private-vllm'' busy_error, attempt_ok ''managed-economy'']\<rparr>"
    using lab_run_public by simp
  from tokens_accounted [OF this, of lab_world "[''managed-economy'', ''other'', ''t'']"] show ?thesis
    by (simp add: lab_result_def lab_usage_def usage_unavailable_def lab_world_def new_metrics_def)
qed

end
