(* ===== verification/Json_Values.thy ===== *)
theory Json_Values
  imports Domain
begin

text \<open>
  Python's view of a decoded JSON value: truth, the types \<open>isinstance\<close> tells apart, the
  subscripts and \<open>dict.get\<close>, each with the exception it raises (\<open>Inl\<close> of its class name).
  An object is a list of its items in order; \<open>json.loads\<close> never repeats a key.
\<close>

fun json_truthy :: "json \<Rightarrow> bool" where
  "json_truthy JNull = False"
| "json_truthy (JBool b) = b"
| "json_truthy (JInt i) = (i \<noteq> 0)"
| "json_truthy (JFloat x) = (x \<noteq> 0)"
| "json_truthy (JStr s) = (s \<noteq> '''')"
| "json_truthy (JArr xs) = (xs \<noteq> [])"
| "json_truthy (JObj kvs) = (kvs \<noteq> [])"

text \<open>\<open>isinstance(x, int)\<close> holds of the booleans, which count as zero and one.\<close>

fun json_int :: "json \<Rightarrow> int option" where
  "json_int (JInt i) = Some i"
| "json_int (JBool b) = Some (if b then 1 else 0)"
| "json_int _ = None"

fun json_str :: "json \<Rightarrow> string option" where
  "json_str (JStr s) = Some s"
| "json_str _ = None"

fun json_object_of :: "json \<Rightarrow> json_object option" where
  "json_object_of (JObj kvs) = Some kvs"
| "json_object_of _ = None"

text \<open>\<open>d.get(k)\<close> on a dictionary: \<open>None\<close> for an absent key.\<close>

definition dict_get :: "json_object \<Rightarrow> string \<Rightarrow> json" where
  "dict_get kvs k = (case map_of kvs k of None \<Rightarrow> JNull | Some v \<Rightarrow> v)"

text \<open>\<open>x.get(k)\<close>, \<open>x[k]\<close> and \<open>x[0]\<close> on any value.\<close>

fun json_get :: "json \<Rightarrow> string \<Rightarrow> string + json" where
  "json_get (JObj kvs) k = Inr (dict_get kvs k)"
| "json_get _ k = Inl ''AttributeError''"

fun json_item :: "json \<Rightarrow> string \<Rightarrow> string + json" where
  "json_item (JObj kvs) k = (case map_of kvs k of None \<Rightarrow> Inl ''KeyError'' | Some v \<Rightarrow> Inr v)"
| "json_item _ k = Inl ''TypeError''"

fun json_first :: "json \<Rightarrow> string + json" where
  "json_first (JArr []) = Inl ''IndexError''"
| "json_first (JArr (x # xs)) = Inr x"
| "json_first (JStr []) = Inl ''IndexError''"
| "json_first (JStr (c # cs)) = Inr (JStr [c])"
| "json_first (JObj kvs) = Inl ''KeyError''"
| "json_first _ = Inl ''TypeError''"

text \<open>\<open>str.strip()\<close>: the white space among the 8-bit characters.\<close>

definition py_space :: "char \<Rightarrow> bool" where
  "py_space c \<longleftrightarrow> (let n = of_char c :: nat in n \<in> {32, 133, 160} \<or> 9 \<le> n \<and> n \<le> 13 \<or> 28 \<le> n \<and> n \<le> 31)"

definition strip :: "string \<Rightarrow> string" where
  "strip s = rev (dropWhile py_space (rev (dropWhile py_space s)))"

lemma dict_get_Nil [simp]: "dict_get [] k = JNull"
  by (simp add: dict_get_def)

lemma dict_get_Cons [simp]: "dict_get ((k', v) # kvs) k = (if k' = k then v else dict_get kvs k)"
  by (simp add: dict_get_def)

lemma json_str_Some [simp]: "json_str v = Some s \<longleftrightarrow> v = JStr s"
  by (cases v) auto

lemma json_object_of_Some [simp]: "json_object_of v = Some kvs \<longleftrightarrow> v = JObj kvs"
  by (cases v) auto

lemma strip_inner: "s \<noteq> '''' \<Longrightarrow> \<not> py_space (hd s) \<Longrightarrow> \<not> py_space (last s) \<Longrightarrow> strip s = s"
  by (simp add: strip_def dropWhile_eq_self_iff [THEN iffD2] hd_rev)

lemma strip_leading: "py_space c \<Longrightarrow> strip (c # s) = strip s"
  by (simp add: strip_def)

end
