(* ===== verification/Adapter_Contract.thy ===== *)
theory Adapter_Contract
  imports Fallback Wire_Schemas Json_Values
begin

text \<open>
  What the gateway relies on from a provider adapter (\<open>adapters/base.py\<close>), and the parts the
  adapters share: the exceptions an adapter call ends with, the construction of results,
  chunks and usage through their validators, and the outcomes of the HTTP client.

  The contract of a streaming adapter is the locale \<open>provider_stream\<close>: its chunks are valid,
  carry its name and the requested model and are numbered from zero; only the last chunk of a
  stream that ends normally is final. Its consequences for one executor attempt are proved
  here; every adapter theory interprets the locale on its own stream.
\<close>

section \<open>How an adapter call ends\<close>

text \<open>A \<open>ProviderError\<close> carrying a normalised error, or any other exception.\<close>

datatype adapter_failure = Normalized normalized_error | Escaped string

fun reply_of :: "adapter_failure + provider_result \<Rightarrow> chat_reply" where
  "reply_of (Inr r) = Replied r"
| "reply_of (Inl (Normalized e)) = ReplyError e"
| "reply_of (Inl (Escaped s)) = ReplyCrash s"

fun failure_event :: "adapter_failure \<Rightarrow> stream_event" where
  "failure_event (Normalized e) = ErrorEvent e"
| "failure_event (Escaped s) = CrashEvent s"

text \<open>The pydantic constructors: a value the validator rejects is a \<open>ValidationError\<close>.\<close>

definition validated :: "('a \<Rightarrow> string + unit) \<Rightarrow> 'a \<Rightarrow> adapter_failure + 'a" where
  "validated check x = (case check x of Inl s \<Rightarrow> Inl (Escaped ''ValidationError'') | Inr _ \<Rightarrow> Inr x)"

definition raise_class :: "error_class \<Rightarrow> string \<Rightarrow> int option \<Rightarrow> rat option \<Rightarrow> adapter_failure" where
  "raise_class c msg status retry =
     (let e = make_normalized_error c msg status retry
      in if normalized_error_ok e then Normalized e else Escaped ''ValidationError'')"

definition raise_http :: "int \<Rightarrow> string \<Rightarrow> rat option \<Rightarrow> adapter_failure" where
  "raise_http status msg retry =
     (case normalize_http_error status msg retry of
        Inl _ \<Rightarrow> Escaped ''ValueError''
      | Inr e \<Rightarrow> if normalized_error_ok e then Normalized e else Escaped ''ValidationError'')"

definition text_chunk :: "string \<Rightarrow> string \<Rightarrow> int \<Rightarrow> string \<Rightarrow> provider_chunk" where
  "text_chunk name model sequence t =
     \<lparr>pc_provider = name, pc_model = model, pc_sequence = sequence, pc_delta = [text_part t],
      pc_is_final = False, pc_finish_reason = None, pc_usage = None, pc_extensions = []\<rparr>"

definition final_chunk ::
    "string \<Rightarrow> string \<Rightarrow> int \<Rightarrow> string \<Rightarrow> normalized_usage \<Rightarrow> provider_chunk" where
  "final_chunk name model sequence finish usage =
     \<lparr>pc_provider = name, pc_model = model, pc_sequence = sequence, pc_delta = [],
      pc_is_final = True, pc_finish_reason = Some finish, pc_usage = Some usage,
      pc_extensions = []\<rparr>"

text \<open>\<open>yield\<close> of a chunk after \<open>wait\<close> seconds and the rest of the generator behind it; a chunk
  that is not valid raises instead.\<close>

definition yield_chunk :: "rat \<Rightarrow> provider_chunk \<Rightarrow> stream_script \<Rightarrow> stream_script" where
  "yield_chunk wait c rest =
     (case validated validate_chunk c of
        Inl f \<Rightarrow> [(wait, failure_event f)]
      | Inr c' \<Rightarrow> (wait, ChunkEvent c') # rest)"

definition flatten_text :: "content_part list \<Rightarrow> string" where
  "flatten_text parts = concat (map (\<lambda>p. or_str (cp_text p) '''') parts)"

text \<open>\<open>max(0.0, float(raw))\<close> of a \<open>Retry-After\<close> header, \<open>None\<close> if there is none or it is not a
  number; \<open>to_float\<close> is Python's \<open>float\<close> on strings, on finite values.\<close>

definition retry_after_hint ::
    "(string \<Rightarrow> pyfloat option) \<Rightarrow> (string \<times> string) list \<Rightarrow> rat option" where
  "retry_after_hint to_float headers =
     (case map_of headers ''retry-after'' of
        None \<Rightarrow> None
      | Some raw \<Rightarrow> map_option (max 0) (to_float raw))"

section \<open>The stream contract\<close>

text \<open>The chunks of a script up to its first event of another kind, and that event.\<close>

fun script_chunks :: "stream_script \<Rightarrow> provider_chunk list" where
  "script_chunks ((w, ChunkEvent c) # script) = c # script_chunks script"
| "script_chunks script = []"

fun script_end :: "stream_script \<Rightarrow> stream_event" where
  "script_end ((w, ChunkEvent c) # script) = script_end script"
| "script_end ((w, ev) # script) = ev"
| "script_end [] = EndEvent"

fun numbered_from :: "string \<Rightarrow> string \<Rightarrow> nat \<Rightarrow> provider_chunk list \<Rightarrow> bool" where
  "numbered_from name model n [] = True"
| "numbered_from name model n (c # cs) \<longleftrightarrow>
     pc_provider c = name \<and> pc_model c = model \<and> validate_chunk c = Inr () \<and> pc_sequence c = int n
     \<and> numbered_from name model (Suc n) cs"

definition unfinished :: "provider_chunk list \<Rightarrow> bool" where
  "unfinished cs = list_all (\<lambda>c. \<not> pc_is_final c) cs"

definition well_formed_from :: "string \<Rightarrow> string \<Rightarrow> nat \<Rightarrow> stream_script \<Rightarrow> bool" where
  "well_formed_from name model n script \<longleftrightarrow>
     (let cs = script_chunks script
      in numbered_from name model n cs
       \<and> (if script_end script = EndEvent
          then cs \<noteq> [] \<and> unfinished (butlast cs) \<and> pc_is_final (last cs)
          else unfinished cs))"

lemma validated_Inr [simp]: "validated check x = Inr y \<longleftrightarrow> y = x \<and> check x = Inr ()"
  by (auto simp: validated_def split: sum.splits)

lemma validated_Inl [simp]:
  "validated check x = Inl f \<longleftrightarrow> f = Escaped ''ValidationError'' \<and> check x \<noteq> Inr ()"
  by (auto simp: validated_def split: sum.splits)

lemma failure_event_not_end [simp]: "failure_event f \<noteq> EndEvent" "failure_event f \<noteq> ChunkEvent c"
  by (cases f; simp)+

lemma script_failure [simp]:
  "script_chunks ((w, failure_event f) # s) = []" "script_end ((w, failure_event f) # s) = failure_event f"
  by (cases f; simp)+

lemma chunk_sel [simp]:
  "pc_provider (text_chunk n m k t) = n" "pc_model (text_chunk n m k t) = m"
  "pc_sequence (text_chunk n m k t) = k" "\<not> pc_is_final (text_chunk n m k t)"
  "pc_delta (text_chunk n m k t) = [text_part t]" "pc_usage (text_chunk n m k t) = None"
  "pc_provider (final_chunk n m k f u) = n" "pc_model (final_chunk n m k f u) = m"
  "pc_sequence (final_chunk n m k f u) = k" "pc_is_final (final_chunk n m k f u)"
  "pc_delta (final_chunk n m k f u) = []" "pc_usage (final_chunk n m k f u) = Some u"
  "pc_finish_reason (final_chunk n m k f u) = Some f"
  by (simp_all add: text_chunk_def final_chunk_def)

lemma text_chunk_valid: "n \<noteq> '''' \<Longrightarrow> m \<noteq> '''' \<Longrightarrow> 0 \<le> k \<Longrightarrow> validate_chunk (text_chunk n m k t) = Inr ()"
  by (simp add: validate_chunk_def text_chunk_def text_part_def validate_content_part_def)

lemma final_chunk_valid:
  "n \<noteq> '''' \<Longrightarrow> m \<noteq> '''' \<Longrightarrow> 0 \<le> k \<Longrightarrow> validate_usage u = Inr () \<Longrightarrow>
   validate_chunk (final_chunk n m k f u) = Inr ()"
  by (simp add: validate_chunk_def final_chunk_def)

lemma numbered_nth:
  "numbered_from name model n cs \<Longrightarrow> i < length cs \<Longrightarrow>
   pc_provider (cs ! i) = name \<and> pc_model (cs ! i) = model \<and> validate_chunk (cs ! i) = Inr ()
   \<and> pc_sequence (cs ! i) = int (n + i)"
proof (induction cs arbitrary: n i)
  case (Cons c cs)
  then show ?case by (cases i) auto
qed simp

lemma unfinished_simps [simp]:
  "unfinished []" "unfinished (c # cs) \<longleftrightarrow> \<not> pc_is_final c \<and> unfinished cs"
  by (simp_all add: unfinished_def)

lemma well_formed_failure [simp]: "well_formed_from name model n [(w, failure_event f)]"
  by (simp add: well_formed_from_def)

lemma well_formed_stop [simp]:
  "well_formed_from name model n [(w, ErrorEvent e)]" "well_formed_from name model n [(w, TimeoutEvent)]"
  "well_formed_from name model n [(w, CrashEvent s)]"
  by (simp_all add: well_formed_from_def)

lemma well_formed_yield:
  assumes "pc_provider c = name" "pc_model c = model" "pc_sequence c = int n" "\<not> pc_is_final c"
    and "well_formed_from name model (Suc n) rest"
  shows "well_formed_from name model n (yield_chunk w c rest)"
proof (cases "validate_chunk c")
  case (Inl e)
  then show ?thesis by (simp add: yield_chunk_def validated_def)
next
  case (Inr u)
  with assms show ?thesis
    by (auto simp: yield_chunk_def validated_def well_formed_from_def Let_def split: if_splits)
qed

lemma well_formed_final:
  assumes "pc_provider c = name" "pc_model c = model" "pc_sequence c = int n" "pc_is_final c"
  shows "well_formed_from name model n (yield_chunk w c [])"
proof (cases "validate_chunk c")
  case (Inl e)
  then show ?thesis by (simp add: yield_chunk_def validated_def)
next
  case (Inr u)
  with assms show ?thesis by (simp add: yield_chunk_def validated_def well_formed_from_def)
qed

lemma numbered_prefix: "prefix ds cs \<Longrightarrow> numbered_from name model n cs \<Longrightarrow> numbered_from name model n ds"
  by (induction cs arbitrary: ds n) (auto simp: prefix_Cons)

section \<open>One executor attempt over a well-formed stream\<close>

text \<open>What \<open>anext\<close> yields is a prefix of the script's chunks, all of them if the attempt returns.\<close>

lemma attempt_script:
  "stream_attempt t ctx ad hold k script now = (cs, now', res) \<Longrightarrow>
   prefix cs (script_chunks script)
   \<and> (res = StreamReturned \<longrightarrow> cs = script_chunks script \<and> script_end script = EndEvent)"
proof (induction script arbitrary: k now cs now' res)
  case Nil
  then show ?case by (auto simp: Let_def split: if_splits)
next
  case (Cons x script)
  obtain w ev where x: "x = (w, ev)" by (cases x)
  show ?case
  proof (cases ev)
    case (ChunkEvent c)
    obtain cs1 t1 r1 where rest:
      "stream_attempt t ctx ad hold (Suc k) script (now + w + hold k) = (cs1, t1, r1)"
      by (metis prod_cases3)
    from Cons.prems Cons.IH [OF rest] rest show ?thesis
      by (auto simp: x ChunkEvent Let_def split: if_splits)
  qed (use Cons.prems in \<open>auto simp: x Let_def split: if_splits\<close>)
qed

text \<open>A script that ends normally can still be cut by the clock, and by nothing else.\<close>

lemma attempt_end:
  "stream_attempt t ctx ad hold k script now = (cs, now', res) \<Longrightarrow> script_end script = EndEvent \<Longrightarrow>
   res = StreamReturned \<or> res = StreamFailed budget_exhausted \<or> res = StreamFailed stream_timed_out"
proof (induction script arbitrary: k now cs now' res)
  case Nil
  then show ?case by (auto simp: Let_def split: if_splits)
next
  case (Cons x script)
  obtain w ev where x: "x = (w, ev)" by (cases x)
  show ?case
  proof (cases ev)
    case (ChunkEvent c)
    obtain cs1 t1 r1 where rest:
      "stream_attempt t ctx ad hold (Suc k) script (now + w + hold k) = (cs1, t1, r1)"
      by (metis prod_cases3)
    from Cons.prems Cons.IH [OF rest] rest show ?thesis
      by (auto simp: x ChunkEvent Let_def split: if_splits)
  qed (use Cons.prems in \<open>auto simp: x Let_def split: if_splits\<close>)
qed

lemma final_is_last:
  assumes "prefix cs ds" "unfinished (butlast ds)" "\<not> unfinished cs"
  shows "cs = ds"
proof (rule ccontr)
  assume "cs \<noteq> ds"
  with assms(1) obtain d es where ds: "ds = cs @ d # es"
    by (metis append_Nil2 neq_Nil_conv prefix_def)
  then have "butlast ds = cs @ butlast (d # es)" by (simp add: butlast_append)
  with assms(2,3) show False by (simp add: unfinished_def)
qed

locale provider_stream =
  fixes name :: string and stream :: stream_adapter
  assumes well_formed: "well_formed_from name (cr_model request) 0 (stream i now request ctx)"
begin

lemma attempt_numbered:
  assumes "stream_attempt t ctx ad hold 0 (stream i now request ctx) now' = (cs, now'', res)"
  shows "numbered_from name (cr_model request) 0 cs"
  using well_formed [of request i now ctx] attempt_script [OF assms]
  by (auto simp: well_formed_from_def Let_def intro: numbered_prefix)

lemma attempt_final:
  assumes "stream_attempt t ctx ad hold 0 (stream i now request ctx) now' = (cs, now'', StreamReturned)"
  shows "cs \<noteq> [] \<and> unfinished (butlast cs) \<and> pc_is_final (last cs)"
  using well_formed [of request i now ctx] attempt_script [OF assms]
  by (auto simp: well_formed_from_def Let_def)

lemma attempt_finished:
  assumes "stream_attempt t ctx ad hold 0 (stream i now request ctx) now' = (cs, now'', res)"
    and "\<not> unfinished cs"
  shows "cs \<noteq> [] \<and> unfinished (butlast cs) \<and> pc_is_final (last cs)
    \<and> (res = StreamReturned \<or> res = StreamFailed budget_exhausted
        \<or> res = StreamFailed stream_timed_out)"
proof -
  let ?s = "stream i now request ctx"
  have pre: "prefix cs (script_chunks ?s)" using attempt_script [OF assms(1)] by blast
  have fin: "script_end ?s = EndEvent"
    using well_formed [of request i now ctx] assms(2) set_mono_prefix [OF pre]
    by (auto simp: well_formed_from_def Let_def unfinished_def list_all_iff split: if_splits)
  with well_formed [of request i now ctx]
  have all: "script_chunks ?s \<noteq> []" "unfinished (butlast (script_chunks ?s))"
      "pc_is_final (last (script_chunks ?s))"
    by (simp_all add: well_formed_from_def Let_def)
  from final_is_last [OF pre all(2) assms(2)] all attempt_end [OF assms(1) fin]
  show ?thesis by simp
qed

end

section \<open>The executor over a pool of well-formed providers\<close>

definition complete_chunks :: "provider_chunk list \<Rightarrow> bool" where
  "complete_chunks cs \<longleftrightarrow> cs \<noteq> [] \<and> unfinished (butlast cs) \<and> pc_is_final (last cs)"

text \<open>
  How a run can end after its final chunk was passed on: normally; or the attempt's time was
  over before the end of the stream was seen; or the closing of an iterator failed.
\<close>

definition ends_after_final :: "stream_closing \<Rightarrow> stream_run \<Rightarrow> bool" where
  "ends_after_final closing run \<longleftrightarrow>
     st_outcome run = Inr ()
     \<or> (\<exists>name. st_outcome run = Inl (Raised (with_attempts no_replay_error (st_log run)))
          \<and> (last (st_log run) = attempt_failed name budget_exhausted
              \<or> last (st_log run) = attempt_failed name stream_timed_out))
     \<or> (\<exists>i s. snd (closing i) = Some s \<and> st_outcome run = Inl (Crashed s))"

text \<open>
  The chunks of a run: one provider's, numbered from zero, complete if the run succeeds; and
  a final one is the last and followed by one of the ends above.
\<close>

definition served_by_one :: "string \<Rightarrow> stream_closing \<Rightarrow> stream_run \<Rightarrow> bool" where
  "served_by_one model closing run \<longleftrightarrow>
     (let cs = map (\<lambda>x. snd (snd x)) (st_chunks run)
      in (\<exists>name. list_all (\<lambda>x. fst x = name) (st_chunks run) \<and> numbered_from name model 0 cs)
       \<and> (st_outcome run = Inr () \<longrightarrow> complete_chunks cs)
       \<and> (\<not> unfinished cs \<longrightarrow> complete_chunks cs \<and> ends_after_final closing run))"

lemma served_nothing:
  "st_chunks run = [] \<Longrightarrow> st_outcome run \<noteq> Inr () \<Longrightarrow> served_by_one model closing run"
  by (simp add: served_by_one_def)

locale provider_pool =
  fixes streams :: "string \<Rightarrow> stream_adapter option"
  assumes provider: "streams n = Some a \<Longrightarrow> provider_stream n a"
begin

lemma loop_served:
  "served_by_one (cr_model request) closing
     (stream_loop streams p request ctx hold closing index names history now)"
proof (induction names arbitrary: index history now)
  case Nil
  show ?case by (simp add: served_nothing)
next
  case (Cons n names)
  show ?case
  proof (rule stream_loop_round
      [of "stream_loop streams p request ctx hold closing index (n # names) history now" streams p request ctx
        hold closing index n names history now, OF refl], goal_cases no_call final next_round)
    case no_call
    then show ?case by (intro served_nothing) auto
  next
    case (final a cs now' res)
    note contract = provider [OF final(1)]
    have "numbered_from n (cr_model request) 0 cs"
      by (rule provider_stream.attempt_numbered [OF contract final(3)])
    moreover have "res = StreamReturned \<Longrightarrow> complete_chunks cs"
      using provider_stream.attempt_final [OF contract] final(3) by (simp add: complete_chunks_def)
    moreover have "\<not> unfinished cs \<Longrightarrow> complete_chunks cs \<and> ends_after_final closing
        (stream_loop streams p request ctx hold closing index (n # names) history now)"
      using provider_stream.attempt_finished [OF contract final(3)] final(4-8)
      by (cases "snd (closing index)")
        (auto simp: complete_chunks_def ends_after_final_def simp del: stream_loop.simps
            intro: exI [of _ n])
    ultimately show ?case
      using final by (auto simp: served_by_one_def list_all_iff comp_def
          split: stream_end.splits option.splits)
  next
    case (next_round a now' e now'' run')
    then show ?case using Cons.IH by (simp add: served_by_one_def ends_after_final_def)
  qed
qed

lemma executor_served:
  "served_by_one (cr_model request) closing
     (executor_stream streams p request ctx hold closing dec history now)"
  by (auto simp: executor_stream_def loop_served intro: served_nothing split: sum.splits)

end

end
