(* ===== verification/OpenAI_Adapter.thy ===== *)
theory OpenAI_Adapter
  imports Adapter_Contract
begin

text \<open>
  The adapter for OpenAI-compatible upstreams (\<open>adapters/openai_compat.py\<close>). The upstream
  behind the httpx client is a parameter: the record \<open>http_client\<close> says, for a request at a
  time, how long the call takes and whether it times out, fails, raises something else or is
  answered. A streamed answer is its list of lines with the time each takes to arrive.
  \<open>json.loads\<close> and \<open>float\<close> on strings are the parameters of \<open>codec\<close>.
\<close>

record codec =
  cd_loads :: "string \<Rightarrow> json option"
  cd_float :: "string \<Rightarrow> pyfloat option"

section \<open>The HTTP client\<close>

text \<open>\<open>TimeoutException\<close>, any other \<open>HTTPError\<close> (with the class name), any other exception.\<close>

datatype http_failure = HttpTimeout string | HttpBroken string | HttpOther string

record http_answer =
  ha_status :: int
  ha_headers :: "(string \<times> string) list"
  ha_body :: string

datatype line_event = Line string | LineFailure http_failure

record stream_answer =
  sa_status :: int
  sa_headers :: "(string \<times> string) list"
  sa_lines :: "(rat \<times> line_event) list"

record http_client =
  hc_post :: "nat \<Rightarrow> rat \<Rightarrow> json_object \<Rightarrow> (string \<times> string) list \<Rightarrow> rat \<times> (http_failure + http_answer)"
  hc_stream :: "nat \<Rightarrow> rat \<Rightarrow> json_object \<Rightarrow> (string \<times> string) list \<Rightarrow> rat \<times> (http_failure + stream_answer)"
  hc_get :: "rat \<Rightarrow> (string \<times> string) list \<Rightarrow> http_failure + int"

section \<open>Requests\<close>

fun role_to_wire :: "message_role \<Rightarrow> string" where
  "role_to_wire SystemRole = ''system''"
| "role_to_wire DeveloperRole = ''developer''"
| "role_to_wire UserRole = ''user''"
| "role_to_wire ModelRole = ''assistant''"
| "role_to_wire ToolRole = ''tool''"

definition wire_messages :: "chat_request \<Rightarrow> json list" where
  "wire_messages request =
     map (\<lambda>m. JObj [(''role'', JStr (role_to_wire (cm_role m))),
                    (''content'', JStr (flatten_text (cm_content m)))]) (cr_messages request)"

record openai_adapter =
  oa_name :: string
  oa_upstream_model :: string
  oa_api_key :: "string option"

definition openai_capabilities :: provider_capabilities where
  "openai_capabilities =
     \<lparr>cap_streaming = True, cap_reports_usage = True, cap_reports_streaming_usage = True,
      cap_tool_calls = False\<rparr>"

definition openai_headers :: "openai_adapter \<Rightarrow> (string \<times> string) list" where
  "openai_headers a =
     (''content-type'', ''application/json'')
     # (if truthy_str (oa_api_key a) then [(''authorization'', ''Bearer '' @ the (oa_api_key a))] else [])"

definition openai_body :: "openai_adapter \<Rightarrow> chat_request \<Rightarrow> bool \<Rightarrow> json_object" where
  "openai_body a request stream =
     [(''model'', JStr (oa_upstream_model a)), (''messages'', JArr (wire_messages request)),
      (''temperature'', JFloat (cr_temperature request)), (''max_tokens'', JInt (cr_max_tokens request)),
      (''stream'', JBool stream)]
     @ (if stream then [(''stream_options'', JObj [(''include_usage'', JBool True)])] else [])"

section \<open>Usage\<close>

definition usage_from_payload :: "json \<Rightarrow> adapter_failure + normalized_usage" where
  "usage_from_payload payload =
     (case json_object_of payload of
        None \<Rightarrow> Inr usage_unavailable
      | Some kvs \<Rightarrow>
          (case (json_int (dict_get kvs ''prompt_tokens''), json_int (dict_get kvs ''completion_tokens'')) of
             (Some prompt, Some completion) \<Rightarrow>
               (let reasoning = (case json_object_of (dict_get kvs ''completion_tokens_details'') of
                                   None \<Rightarrow> None
                                 | Some details \<Rightarrow> json_int (dict_get details ''reasoning_tokens''));
                    base = usage_unavailable
                      \<lparr>nu_input := Some prompt, nu_input_source := ProviderReported,
                       nu_output := Some completion, nu_output_source := ProviderReported,
                       nu_visible := Some completion, nu_visible_source := ProviderReported\<rparr>
                in validated validate_usage
                  (case reasoning of
                     Some r \<Rightarrow>
                       if 0 \<le> r \<and> r \<le> completion
                       then base\<lparr>nu_visible := Some (completion - r), nu_special := Some r,
                                 nu_special_source := ProviderReported\<rparr>
                       else base
                   | None \<Rightarrow> base))
           | _ \<Rightarrow> Inr usage_unavailable))"

section \<open>Complete responses\<close>

text \<open>\<open>_raise_for_status\<close>: what it raises, if anything.\<close>

definition raise_for_status ::
    "codec \<Rightarrow> openai_adapter \<Rightarrow> int \<Rightarrow> (string \<times> string) list \<Rightarrow> adapter_failure option" where
  "raise_for_status cd a status headers =
     (if status < 400 then None
      else Some (raise_http status (oa_name a @ '' returned HTTP '' @ str_int status)
                   (retry_after_hint (cd_float cd) headers)))"

text \<open>The body of the \<open>try\<close> statement: \<open>Inl\<close> of an exception it catches.\<close>

definition read_completion :: "json option \<Rightarrow> string + json \<times> string option \<times> json" where
  "read_completion payload =
     (case payload of
        None \<Rightarrow> Inl ''ValueError''
      | Some p \<Rightarrow>
          (case json_object_of p of
             None \<Rightarrow> Inl ''TypeError''
           | Some kvs \<Rightarrow>
               bind_res (json_item p ''choices'') (\<lambda>choices.
               bind_res (json_first choices) (\<lambda>choice.
               bind_res (json_item choice ''message'') (\<lambda>message.
               bind_res (json_get message ''content'') (\<lambda>content.
               bind_res (json_get choice ''finish_reason'') (\<lambda>finish.
                 let text = (if json_truthy content then content else JStr '''')
                 in case finish of
                      JNull \<Rightarrow> Inr (text, None, dict_get kvs ''usage'')
                    | JStr s \<Rightarrow> Inr (text, Some s, dict_get kvs ''usage'')
                    | _ \<Rightarrow> Inl ''TypeError'')))))))"

definition openai_result ::
    "codec \<Rightarrow> openai_adapter \<Rightarrow> chat_request \<Rightarrow> http_answer \<Rightarrow> adapter_failure + provider_result" where
  "openai_result cd a request answer =
     (case raise_for_status cd a (ha_status answer) (ha_headers answer) of
        Some f \<Rightarrow> Inl f
      | None \<Rightarrow>
          (case read_completion (cd_loads cd (ha_body answer)) of
             Inl _ \<Rightarrow> Inl (raise_class MalformedResponse
                         (oa_name a @ '' returned a malformed completion payload'') None None)
           | Inr (content, finish, raw_usage) \<Rightarrow>
               (case json_str content of
                  None \<Rightarrow> Inl (Escaped ''ValidationError'')
                | Some text \<Rightarrow>
                    bind_res (usage_from_payload raw_usage) (\<lambda>usage.
                      validated validate_result
                        \<lparr>pr_provider = oa_name a, pr_model = cr_model request,
                         pr_output = [text_part text], pr_finish_reason = finish,
                         pr_usage = usage, pr_extensions = []\<rparr>))))"

fun openai_http_failure :: "openai_adapter \<Rightarrow> string \<Rightarrow> string \<Rightarrow> http_failure \<Rightarrow> adapter_failure" where
  "openai_http_failure a timed_out broken (HttpTimeout _) =
     raise_class TimeoutClass (oa_name a @ timed_out) None None"
| "openai_http_failure a timed_out broken (HttpBroken _) =
     raise_class TimeoutClass (oa_name a @ broken) None None"
| "openai_http_failure a timed_out broken (HttpOther s) = Escaped s"

definition openai_chat :: "codec \<Rightarrow> http_client \<Rightarrow> openai_adapter \<Rightarrow> chat_adapter" where
  "openai_chat cd client a = (\<lambda>i now request ctx.
     (case hc_post client i now (openai_body a request False) (openai_headers a) of
        (duration, Inl f) \<Rightarrow>
          (duration, reply_of (Inl
             (openai_http_failure a '' request timed out'' '' connection failed'' f)))
      | (duration, Inr answer) \<Rightarrow>
          (duration, reply_of (openai_result cd a request answer))))"

section \<open>Streams\<close>

text \<open>The state of the generator: chunks yielded, the usage and the finish reason seen.\<close>

record openai_cursor =
  oc_sequence :: nat
  oc_usage :: normalized_usage
  oc_finish :: "string option"

definition final_of :: "openai_adapter \<Rightarrow> string \<Rightarrow> openai_cursor \<Rightarrow> provider_chunk" where
  "final_of a model cur =
     final_chunk (oa_name a) model (int (oc_sequence cur)) (or_str (oc_finish cur) ''stop'') (oc_usage cur)"

text \<open>One event object: the new usage and finish reason, and the text to yield.\<close>

definition event_usage :: "json_object \<Rightarrow> normalized_usage \<Rightarrow> adapter_failure + normalized_usage" where
  "event_usage event usage =
     (if dict_get event ''usage'' = JNull then Inr usage
      else usage_from_payload (dict_get event ''usage''))"

definition event_choice :: "json_object \<Rightarrow> json_object option" where
  "event_choice event =
     (case dict_get event ''choices'' of
        JArr (first # _) \<Rightarrow> json_object_of first
      | _ \<Rightarrow> None)"

definition choice_text :: "json_object \<Rightarrow> string option" where
  "choice_text choice =
     (case json_object_of (dict_get choice ''delta'') of
        None \<Rightarrow> None
      | Some delta \<Rightarrow>
          (case json_str (dict_get delta ''content'') of
             None \<Rightarrow> None
           | Some t \<Rightarrow> if t = '''' then None else Some t))"

definition choice_finish :: "json_object \<Rightarrow> string option \<Rightarrow> string option" where
  "choice_finish choice finish =
     (case json_str (dict_get choice ''finish_reason'') of None \<Rightarrow> finish | Some f \<Rightarrow> Some f)"

fun openai_lines ::
    "codec \<Rightarrow> openai_adapter \<Rightarrow> string \<Rightarrow> rat \<Rightarrow> openai_cursor \<Rightarrow> (rat \<times> line_event) list \<Rightarrow> stream_script"
where
  "openai_lines cd a model waited cur [] = yield_chunk waited (final_of a model cur) []"
| "openai_lines cd a model waited cur ((w, LineFailure f) # rest) =
     [(waited + w, failure_event
        (openai_http_failure a '' stream timed out'' '' stream connection failed'' f))]"
| "openai_lines cd a model waited cur ((w, Line l) # rest) =
     (if \<not> starts_with l ''data:'' then openai_lines cd a model (waited + w) cur rest
      else let data = strip (drop 5 l) in
        if data = ''[DONE]'' then yield_chunk (waited + w) (final_of a model cur) []
        else case cd_loads cd data of
          None \<Rightarrow> [(waited + w, failure_event (raise_class MalformedResponse
                    (oa_name a @ '' sent an invalid stream event'') None None))]
        | Some value \<Rightarrow>
            (case json_object_of value of
               None \<Rightarrow> [(waited + w, failure_event (raise_class MalformedResponse
                         (oa_name a @ '' sent a non-object stream event'') None None))]
             | Some event \<Rightarrow>
                 (case event_usage event (oc_usage cur) of
                    Inl f \<Rightarrow> [(waited + w, failure_event f)]
                  | Inr usage \<Rightarrow>
                      (case event_choice event of
                         None \<Rightarrow> openai_lines cd a model (waited + w) (cur\<lparr>oc_usage := usage\<rparr>) rest
                       | Some choice \<Rightarrow>
                           (let finish = choice_finish choice (oc_finish cur)
                            in case choice_text choice of
                                 None \<Rightarrow> openai_lines cd a model (waited + w)
                                           (cur\<lparr>oc_usage := usage, oc_finish := finish\<rparr>) rest
                               | Some t \<Rightarrow>
                                   yield_chunk (waited + w)
                                     (text_chunk (oa_name a) model (int (oc_sequence cur)) t)
                                     (openai_lines cd a model 0
                                       \<lparr>oc_sequence = Suc (oc_sequence cur), oc_usage = usage,
                                        oc_finish = finish\<rparr> rest))))))"

text \<open>\<open>response.aread()\<close>: the time it takes and the failure it runs into, if any.\<close>

fun drain :: "(rat \<times> line_event) list \<Rightarrow> rat \<times> http_failure option" where
  "drain [] = (0, None)"
| "drain ((w, LineFailure f) # rest) = (w, Some f)"
| "drain ((w, Line l) # rest) = (let (t, r) = drain rest in (w + t, r))"

definition openai_script ::
    "codec \<Rightarrow> openai_adapter \<Rightarrow> chat_request \<Rightarrow> rat \<Rightarrow> stream_answer \<Rightarrow> stream_script" where
  "openai_script cd a request waited answer =
     (case raise_for_status cd a (sa_status answer) (sa_headers answer) of
        Some f \<Rightarrow>
          (case drain (sa_lines answer) of
             (t, Some hf) \<Rightarrow> [(waited + t, failure_event
                 (openai_http_failure a '' stream timed out'' '' stream connection failed'' hf))]
           | (t, None) \<Rightarrow> [(waited + t, failure_event f)])
      | None \<Rightarrow>
          openai_lines cd a (cr_model request) waited
            \<lparr>oc_sequence = 0, oc_usage = usage_unavailable, oc_finish = None\<rparr> (sa_lines answer))"

definition openai_stream :: "codec \<Rightarrow> http_client \<Rightarrow> openai_adapter \<Rightarrow> stream_adapter" where
  "openai_stream cd client a = (\<lambda>i now request ctx.
     (case hc_stream client i now (openai_body a request True) (openai_headers a) of
        (waited, Inl f) \<Rightarrow>
          [(waited, failure_event
             (openai_http_failure a '' stream timed out'' '' stream connection failed'' f))]
      | (waited, Inr answer) \<Rightarrow> openai_script cd a request waited answer))"

section \<open>Health and price\<close>

definition openai_health :: "http_client \<Rightarrow> openai_adapter \<Rightarrow> rat \<Rightarrow> string + provider_health" where
  "openai_health client a now =
     (case hc_get client now (openai_headers a) of
        Inl (HttpOther s) \<Rightarrow> Inl s
      | Inl (HttpTimeout n) \<Rightarrow> Inr \<lparr>ph_healthy = False, ph_checked_at = utc now, ph_detail = Some n\<rparr>
      | Inl (HttpBroken n) \<Rightarrow> Inr \<lparr>ph_healthy = False, ph_checked_at = utc now, ph_detail = Some n\<rparr>
      | Inr status \<Rightarrow>
          Inr \<lparr>ph_healthy = status < 500, ph_checked_at = utc now,
               ph_detail = Some (''HTTP '' @ str_int status)\<rparr>)"

definition openai_price :: "normalized_usage \<Rightarrow> string \<Rightarrow> money option" where
  "openai_price usage model = None"

section \<open>Lemmas\<close>

lemma openai_lines_well_formed:
  "oc_sequence cur = n \<Longrightarrow> well_formed_from (oa_name a) model n (openai_lines cd a model waited cur lines)"
proof (induction lines arbitrary: waited cur n)
  case Nil
  then show ?case by (auto simp: final_of_def intro: well_formed_final)
next
  case (Cons x lines)
  obtain w le where x: "x = (w, le)" by (cases x)
  show ?case
    by (cases le) (use Cons in \<open>auto simp: x Let_def final_of_def split: option.splits sum.splits
        intro!: well_formed_yield well_formed_final Cons.IH\<close>)
qed

lemma openai_script_well_formed:
  "well_formed_from (oa_name a) (cr_model request) 0 (openai_script cd a request waited answer)"
  by (auto simp: openai_script_def openai_lines_well_formed split: option.splits prod.splits)

interpretation openai_contract: provider_stream "oa_name a" "openai_stream cd client a" for cd client a
  by unfold_locales
    (auto simp: openai_stream_def openai_script_well_formed split: prod.splits sum.splits)

section \<open>What can escape\<close>

definition counts_negative :: "json \<Rightarrow> bool" where
  "counts_negative payload =
     (case json_object_of payload of
        None \<Rightarrow> False
      | Some kvs \<Rightarrow>
          (case (json_int (dict_get kvs ''prompt_tokens''), json_int (dict_get kvs ''completion_tokens'')) of
             (Some p, Some c) \<Rightarrow> p < 0 \<or> c < 0
           | _ \<Rightarrow> False))"

lemma usage_from_payload_Inl:
  "(\<exists>f. usage_from_payload payload = Inl f) \<longleftrightarrow> counts_negative payload"
  by (auto simp: usage_from_payload_def counts_negative_def Let_def validate_usage_iff usage_pairs_def
      usage_unavailable_def token_count_ok_def split: option.splits)

lemma usage_from_payload_valid: "usage_from_payload payload = Inr u \<Longrightarrow> validate_usage u = Inr ()"
  by (auto simp: usage_from_payload_def Let_def split: option.splits if_splits)

lemma usage_from_payload_escapes: "usage_from_payload payload = Inl f \<Longrightarrow> f = Escaped ''ValidationError''"
  by (auto simp: usage_from_payload_def Let_def split: option.splits)

lemma raise_class_normalized [simp]:
  "msg \<noteq> '''' \<Longrightarrow> raise_class c msg None None = Normalized (make_normalized_error c msg None None)"
  by (simp add: raise_class_def normalized_error_ok_def)

lemma raise_http_normalized:
  assumes "400 \<le> status" "status < 600" "msg \<noteq> ''''" "case retry of None \<Rightarrow> True | Some r \<Rightarrow> 0 \<le> r"
  shows "\<exists>e. raise_http status msg retry = Normalized e \<and> normalize_http_error status msg retry = Inr e"
proof -
  obtain c where "classify_http_status status = Some c" using classify_defined assms(1,2) by blast
  then show ?thesis
    using assms by (auto simp: raise_http_def normalize_http_error_def normalized_error_ok_def
        split: option.splits)
qed

lemma raise_http_escapes: "600 \<le> status \<Longrightarrow> raise_http status msg retry = Escaped ''ValueError''"
  by (simp add: raise_http_def normalize_http_error_def classify_http_status_def)

lemma retry_after_hint_nonneg:
  "case retry_after_hint to_float headers of None \<Rightarrow> True | Some r \<Rightarrow> 0 \<le> r"
  by (auto simp: retry_after_hint_def split: option.splits)

lemma raise_for_status_cases:
  assumes "oa_name a \<noteq> ''''"
  shows "raise_for_status cd a status headers = None \<longleftrightarrow> status < 400"
    and "raise_for_status cd a status headers = Some (Escaped s) \<Longrightarrow> 600 \<le> status"
    and "600 \<le> status \<Longrightarrow> raise_for_status cd a status headers = Some (Escaped ''ValueError'')"
proof -
  show "raise_for_status cd a status headers = None \<longleftrightarrow> status < 400"
    by (simp add: raise_for_status_def)
  show "600 \<le> status \<Longrightarrow> raise_for_status cd a status headers = Some (Escaped ''ValueError'')"
    by (simp add: raise_for_status_def raise_http_escapes)
  assume escaped: "raise_for_status cd a status headers = Some (Escaped s)"
  show "600 \<le> status"
  proof (rule ccontr)
    assume "\<not> 600 \<le> status"
    moreover have "400 \<le> status" using escaped by (auto simp: raise_for_status_def split: if_splits)
    ultimately show False
      using escaped raise_http_normalized [of status "oa_name a @ '' returned HTTP '' @ str_int status",
          OF _ _ _ retry_after_hint_nonneg [of "cd_float cd" headers]] assms
      by (auto simp: raise_for_status_def)
  qed
qed

lemma openai_result_valid:
  assumes "oa_name a \<noteq> ''''" "cr_model request \<noteq> ''''" "validate_usage u = Inr ()"
  shows "validate_result \<lparr>pr_provider = oa_name a, pr_model = cr_model request,
    pr_output = [text_part t], pr_finish_reason = f, pr_usage = u, pr_extensions = []\<rparr> = Inr ()"
  using assms by (simp add: validate_result_def text_part_def validate_content_part_def)

lemma openai_result_escapes:
  assumes "oa_name a \<noteq> ''''" "cr_model request \<noteq> ''''"
  shows "(\<exists>s. openai_result cd a request answer = Inl (Escaped s)) \<longleftrightarrow>
      600 \<le> ha_status answer
    \<or> ha_status answer < 400
      \<and> (\<exists>content finish raw. read_completion (cd_loads cd (ha_body answer)) = Inr (content, finish, raw)
          \<and> (json_str content = None \<or> counts_negative raw))"
proof (cases "raise_for_status cd a (ha_status answer) (ha_headers answer)")
  case None
  then have low: "ha_status answer < 400" using raise_for_status_cases(1) [OF assms(1)] by blast
  show ?thesis
  proof (cases "read_completion (cd_loads cd (ha_body answer))")
    case (Inl e)
    then show ?thesis using None low by (simp add: openai_result_def)
  next
    case (Inr x)
    obtain content finish raw where x: "x = (content, finish, raw)" by (metis prod_cases3)
    show ?thesis
    proof (cases "usage_from_payload raw")
      case (Inl f)
      then show ?thesis
        using None low Inr x usage_from_payload_escapes [OF Inl] usage_from_payload_Inl [of raw]
        by (auto simp: openai_result_def split: option.splits)
    next
      case usage: (Inr u)
      then have "\<not> counts_negative raw" using usage_from_payload_Inl [of raw] by auto
      then show ?thesis
        using None low Inr x usage openai_result_valid [OF assms usage_from_payload_valid [OF usage]]
        by (auto simp: openai_result_def split: option.splits)
    qed
  qed
next
  case (Some f)
  then have high: "\<not> ha_status answer < 400" using raise_for_status_cases(1) [OF assms(1), of cd "ha_status answer" "ha_headers answer"] by simp
  show ?thesis
    using Some high raise_for_status_cases(2) [OF assms(1), of cd "ha_status answer" "ha_headers answer"]
      raise_for_status_cases(3) [OF assms(1), of "ha_status answer" cd "ha_headers answer"]
    by (auto simp: openai_result_def)
qed

text \<open>A terminator \<open>data: [DONE]\<close>, and the event of an error the upstream reports in-band.\<close>

definition done_line :: string where
  "done_line = ''data: [DONE]''"

definition error_event :: "codec \<Rightarrow> string \<Rightarrow> bool" where
  "error_event cd l \<longleftrightarrow> starts_with l ''data:'' \<and> strip (drop 5 l) \<noteq> ''[DONE]''
     \<and> (\<exists>e. cd_loads cd (strip (drop 5 l)) = Some (JObj [(''error'', e)]))"

lemma strip_done [simp]: "strip '' [DONE]'' = ''[DONE]''"
  by code_simp

lemma openai_done [simp]:
  "openai_lines cd a model waited cur ((w, Line done_line) # rest)
    = yield_chunk (waited + w) (final_of a model cur) []"
  by (simp add: done_line_def starts_with_def Let_def)

lemma openai_error_event:
  "error_event cd l \<Longrightarrow>
   openai_lines cd a model waited cur [(w, Line l)] = yield_chunk (waited + w) (final_of a model cur) []"
  by (auto simp: error_event_def event_usage_def event_choice_def final_of_def Let_def)

lemma openai_error_event_like_done:
  "error_event cd l \<Longrightarrow>
   openai_lines cd a model waited cur (ls @ [(w, Line l)])
     = openai_lines cd a model waited cur (ls @ [(w, Line done_line)])"
proof (induction ls arbitrary: waited cur)
  case Nil
  then show ?case by (simp add: openai_error_event del: openai_lines.simps(3))
next
  case (Cons x ls)
  obtain v le where x: "x = (v, le)" by (cases x)
  show ?case
    by (cases le) (auto simp: x Cons.IH [OF Cons.prems] Let_def split: option.splits sum.splits)
qed

lemma openai_truncated_like_done:
  "openai_lines cd a model waited cur ls
     = openai_lines cd a model waited cur (ls @ [(0, Line done_line)])"
proof (induction ls arbitrary: waited cur)
  case Nil
  then show ?case by (simp del: openai_lines.simps(3))
next
  case (Cons x ls)
  obtain v le where x: "x = (v, le)" by (cases x)
  show ?case
    by (cases le) (auto simp: x Cons.IH Let_def split: option.splits sum.splits)
qed

section \<open>Properties\<close>

definition lab_codec :: codec where
  "lab_codec =
     \<lparr>cd_loads = map_of
        [(''bad'', JObj [(''choices'', JArr [JObj [(''message'', JObj [(''content'', JInt 5)])]])]),
         (''{}'', JObj [(''error'', JNull)])],
      cd_float = (\<lambda>s. None)\<rparr>"

definition lab_openai :: openai_adapter where
  "lab_openai = \<lparr>oa_name = ''private-vllm'', oa_upstream_model = ''m'', oa_api_key = None\<rparr>"

definition lab_client :: http_client where
  "lab_client =
     \<lparr>hc_post = (\<lambda>i now body headers. (1, Inr \<lparr>ha_status = 200, ha_headers = [], ha_body = ''bad''\<rparr>)),
      hc_stream = (\<lambda>i now body headers. (1, Inr \<lparr>sa_status = 200, sa_headers = [], sa_lines = []\<rparr>)),
      hc_get = (\<lambda>now headers. Inr 200)\<rparr>"

text \<open>
  C18. Exactly when an upstream error leaves the OpenAI adapter unnormalised: the client raised
  something that is no HTTP error, the status is 600 or more, or a well-shaped 2xx or 3xx
  completion has a true content that is no string or a negative token count. In every other
  case \<open>chat\<close> ends with a result or a \<open>ProviderError\<close>.
\<close>

theorem openai_unnormalized:
  assumes "oa_name a \<noteq> ''''" "cr_model request \<noteq> ''''"
  shows "(\<exists>s. snd (openai_chat cd client a i now request ctx) = ReplyCrash s) \<longleftrightarrow>
    (case snd (hc_post client i now (openai_body a request False) (openai_headers a)) of
       Inl f \<Rightarrow> (\<exists>s. f = HttpOther s)
     | Inr answer \<Rightarrow>
         600 \<le> ha_status answer
       \<or> ha_status answer < 400
         \<and> (\<exists>content finish raw. read_completion (cd_loads cd (ha_body answer)) = Inr (content, finish, raw)
             \<and> (json_str content = None \<or> counts_negative raw)))"
proof (cases "hc_post client i now (openai_body a request False) (openai_headers a)")
  case (Pair t outcome)
  show ?thesis
  proof (cases outcome)
    case (Inl f)
    then show ?thesis using Pair by (cases f) (simp_all add: openai_chat_def)
  next
    case (Inr answer)
    have "(\<exists>s. reply_of r = ReplyCrash s) \<longleftrightarrow> (\<exists>s. r = Inl (Escaped s))" for r
      by (cases r rule: reply_of.cases) simp_all
    then show ?thesis
      using Pair Inr openai_result_escapes [OF assms] by (simp add: openai_chat_def)
  qed
qed

theorem openai_unnormalized_witness:
  "\<exists>s. snd (openai_chat lab_codec lab_client lab_openai 0 0 (lab_request Public Economy) lab_ctx) = ReplyCrash s"
proof -
  have "oa_name lab_openai \<noteq> ''''" "cr_model (lab_request Public Economy) \<noteq> ''''"
    by (simp_all add: lab_openai_def lab_request_def)
  note openai_unnormalized [OF this, of lab_codec lab_client 0 0 lab_ctx]
  moreover have "read_completion (cd_loads lab_codec ''bad'') = Inr (JInt 5, None, JNull)"
    by (simp add: lab_codec_def read_completion_def)
  ultimately show ?thesis by (simp add: lab_client_def)
qed

text \<open>
  C19. An in-band error or a cut connection looks like success: whatever lines came before, a
  stream that ends with an error event, or that just stops, gives the executor the same chunks
  and the same normal end as one the upstream completed with \<open>[DONE]\<close>.
\<close>

theorem inband_error_looks_complete:
  assumes "error_event cd l"
  shows "openai_lines cd a model waited cur (ls @ [(w, Line l)])
       = openai_lines cd a model waited cur (ls @ [(w, Line done_line)])
    \<and> openai_lines cd a model waited cur ls
       = openai_lines cd a model waited cur (ls @ [(0, Line done_line)])"
  using openai_error_event_like_done [OF assms] openai_truncated_like_done by (rule conjI)

theorem inband_error_looks_complete_witness:
  "openai_lines lab_codec lab_openai ''m'' 0
      \<lparr>oc_sequence = 0, oc_usage = usage_unavailable, oc_finish = None\<rparr> [(1, Line ''data: {}'')]
    = [(1, ChunkEvent (final_chunk ''private-vllm'' ''m'' 0 ''stop'' usage_unavailable))]"
proof -
  have "strip (drop 5 ''data: {}'') = ''{}''" by code_simp
  then have "error_event lab_codec ''data: {}''"
    by (simp add: error_event_def lab_codec_def starts_with_def)
  from inband_error_looks_complete [OF this, of lab_openai "''m''" 0
      "\<lparr>oc_sequence = 0, oc_usage = usage_unavailable, oc_finish = None\<rparr>" "[]" 1]
  show ?thesis
    by (simp add: final_of_def yield_chunk_def validated_def final_chunk_valid lab_openai_def or_str_def
        del: openai_lines.simps(3))
qed

end
