(* ===== verification/Bench_Models.thy ===== *)
theory Bench_Models
  imports Config_Schema
begin

text \<open>
  Benchmark scenarios and per-request evidence records (\<open>benchmark/models.py\<close>), with their
  validators, and the SLO document (\<open>benchmark/slo.py\<close>) the scenarios refer to.
\<close>

section \<open>Scenarios\<close>

datatype workload_kind = Classification | StructuredExtraction | Generation

datatype provider_mode = ManagedMode | PrivateMode | HybridMode | LocalMockMode

datatype economic_view = ViewA | ViewB

record request_profile =
  rq_data_class :: data_class
  rq_quality_tier :: quality_tier
  rq_weight :: int

definition request_profile_ok :: "request_profile \<Rightarrow> bool" where
  "request_profile_ok r \<longleftrightarrow> 1 \<le> rq_weight r \<and> rq_weight r \<le> 1000"

record scenario =
  sc_id :: string
  sc_treatment :: string
  sc_workload :: workload_kind
  sc_provider_mode :: provider_mode
  sc_stream :: bool
  sc_concurrency :: int
  sc_requests :: int
  sc_temperature :: pyfloat
  sc_max_tokens :: int
  sc_data_class :: data_class
  sc_quality_tier :: quality_tier
  sc_structured_output_mode :: string
  sc_warmup_requests :: int
  sc_repeats :: int
  sc_dataset :: string
  sc_slo_config :: string
  sc_slo_cell :: string
  sc_pricing_config :: string
  sc_timeout_config :: string
  sc_cost_config :: string
  sc_model :: string
  sc_publishable :: bool
  sc_economic_views :: "economic_view list"
  sc_pricing_version :: string
  sc_bootstrap_iterations :: int
  sc_seed :: int
  sc_request_rate_schedule :: string
  sc_sampling_parameters :: json_object
  sc_request_mix :: "request_profile list"
  sc_notes :: string

text \<open>The patterns \<open>^[a-z0-9][a-z0-9-]{0,n}$\<close> of \<open>id\<close> and \<open>treatment\<close>.\<close>

definition slug_ok :: "nat \<Rightarrow> string \<Rightarrow> bool" where
  "slug_ok n s =
     (case s of
        [] \<Rightarrow> False
      | c # cs \<Rightarrow> slug_char c \<and> length cs \<le> n \<and> list_all (\<lambda>x. slug_char x \<or> x = CHR ''-'') cs)"

definition scenario_fields_ok :: "scenario \<Rightarrow> bool" where
  "scenario_fields_ok s \<longleftrightarrow>
     slug_ok 63 (sc_id s) \<and> slug_ok 31 (sc_treatment s)
     \<and> 1 \<le> sc_concurrency s \<and> sc_concurrency s \<le> 1024 \<and> 1 \<le> sc_requests s
     \<and> 0 \<le> sc_temperature s \<and> sc_temperature s \<le> 2
     \<and> 1 \<le> sc_max_tokens s \<and> sc_max_tokens s \<le> 8192
     \<and> sc_structured_output_mode s \<noteq> '''' \<and> 0 \<le> sc_warmup_requests s \<and> 1 \<le> sc_repeats s
     \<and> list_all (\<lambda>x. x \<noteq> '''')
         [sc_dataset s, sc_slo_config s, sc_slo_cell s, sc_pricing_config s, sc_timeout_config s,
          sc_cost_config s, sc_model s, sc_pricing_version s]
     \<and> 2 \<le> length (sc_economic_views s) \<and> 100 \<le> sc_bootstrap_iterations s
     \<and> list_all request_profile_ok (sc_request_mix s)"

fun workload_id :: "workload_kind \<Rightarrow> string" where
  "workload_id Classification = ''WL-01''"
| "workload_id StructuredExtraction = ''WL-02''"
| "workload_id Generation = ''WL-03''"

definition slo_cell_of :: "workload_kind \<Rightarrow> quality_tier \<Rightarrow> string" where
  "slo_cell_of w t = workload_id w @ ''/'' @ quality_tier_value t"

definition validate_evidence_shape :: "scenario \<Rightarrow> string + unit" where
  "validate_evidence_shape s =
     (if card (set (sc_economic_views s)) \<noteq> 2
      then Inl ''economic_views must contain view_a and view_b exactly once''
      else if sc_slo_cell s \<noteq> slo_cell_of (sc_workload s) (sc_quality_tier s)
      then Inl ''slo_cell must match workload and quality_tier''
      else if sc_provider_mode s = HybridMode \<and> length (sc_request_mix s) < 2
      then Inl ''hybrid scenarios require at least two request_mix profiles''
      else if sc_provider_mode s \<noteq> HybridMode \<and> sc_request_mix s \<noteq> []
      then Inl ''request_mix is only valid for hybrid scenarios''
      else Inr ())"

definition validate_scenario :: "scenario \<Rightarrow> string + unit" where
  "validate_scenario s =
     (if scenario_fields_ok s then validate_evidence_shape s else Inl ''field'')"

definition slo_cells_used :: "scenario \<Rightarrow> string list" where
  "slo_cells_used s =
     (let tiers = (if sc_request_mix s \<noteq> [] then map rq_quality_tier (sc_request_mix s)
                   else [sc_quality_tier s])
      in map (slo_cell_of (sc_workload s)) (sorted_set tiers))"

section \<open>Evidence records\<close>

record token_usage_record =
  tu_input :: "int option"
  tu_input_source :: usage_source
  tu_visible :: "int option"
  tu_visible_source :: usage_source
  tu_billed_input :: "int option"
  tu_billed_input_source :: usage_source
  tu_billed_output :: "int option"
  tu_billed_output_source :: usage_source
  tu_special :: "json_object option"

definition empty_token_usage :: token_usage_record where
  "empty_token_usage =
     \<lparr>tu_input = None, tu_input_source = Unavailable,
      tu_visible = None, tu_visible_source = Unavailable,
      tu_billed_input = None, tu_billed_input_source = Unavailable,
      tu_billed_output = None, tu_billed_output_source = Unavailable, tu_special = None\<rparr>"

definition token_usage_ok :: "token_usage_record \<Rightarrow> bool" where
  "token_usage_ok u \<longleftrightarrow>
     list_all token_count_ok [tu_input u, tu_visible u, tu_billed_input u, tu_billed_output u]"

datatype difficulty = Easy | Medium | Hard

record benchmark_record =
  br_run_id :: string
  br_repeat_index :: int
  br_request_id :: string
  br_workload :: workload_kind
  br_dataset_item_id :: string
  br_difficulty :: "difficulty option"
  br_data_class :: "data_class option"
  br_quality_tier :: "quality_tier option"
  br_route :: "string option"
  br_provider :: "string option"
  br_model_alias :: string
  br_started_at :: timestamp
  br_completed_at :: timestamp
  br_ttft_ms :: "pyfloat option"
  br_e2e_ms :: pyfloat
  br_usage :: token_usage_record
  br_http_status :: int
  br_finish_reason :: "string option"
  br_error_class :: "error_class option"
  br_fallback_count :: int
  br_task_correct :: "bool option"
  br_quality_score :: "json_object option"
  br_managed_cost :: "decimal option"

text \<open>\<open>reject_float_money\<close> on the raw value of the cost field.\<close>

fun reject_float_money :: "raw_amount option \<Rightarrow> string + decimal option" where
  "reject_float_money (Some (FloatAmount x)) =
     Inl ''managed_inference_cost_usd must not be a float''"
| "reject_float_money (Some (ExactAmount d)) = Inr (Some d)"
| "reject_float_money None = Inr None"

definition record_fields_ok :: "benchmark_record \<Rightarrow> bool" where
  "record_fields_ok r \<longleftrightarrow>
     br_run_id r \<noteq> '''' \<and> 1 \<le> br_repeat_index r \<and> br_request_id r \<noteq> ''''
     \<and> br_dataset_item_id r \<noteq> '''' \<and> br_model_alias r \<noteq> ''''
     \<and> (case br_ttft_ms r of None \<Rightarrow> True | Some t \<Rightarrow> 0 \<le> t) \<and> 0 \<le> br_e2e_ms r
     \<and> token_usage_ok (br_usage r) \<and> 100 \<le> br_http_status r \<and> br_http_status r \<le> 599
     \<and> 0 \<le> br_fallback_count r"

definition timestamps_are_utc_and_ordered :: "benchmark_record \<Rightarrow> string + unit" where
  "timestamps_are_utc_and_ordered r =
     seq_checks
       [require_utc (br_started_at r) ''started_at'',
        require_utc (br_completed_at r) ''completed_at'',
        guard_that (ts_instant (br_started_at r) \<le> ts_instant (br_completed_at r))
          ''completed_at must not precede started_at'',
        guard_that (br_workload r \<noteq> Generation \<or> br_task_correct r = None)
          ''generation records do not have task_correct'']"

definition validate_record :: "benchmark_record \<Rightarrow> string + unit" where
  "validate_record r =
     (if record_fields_ok r then timestamps_are_utc_and_ordered r else Inl ''field'')"

section \<open>Service level objectives\<close>

record slo_target =
  sl_p95_ttft_ms :: int
  sl_p95_e2e_ms :: int
  sl_max_error_rate :: decimal
  sl_min_quality_rate :: "decimal option"

text \<open>\<open>_decimal\<close>: the decimal of the value's text, which only strings and integers have.\<close>

fun slo_decimal :: "json \<Rightarrow> string + decimal" where
  "slo_decimal (JFloat x) = Inl ''SLO rates must be quoted decimals''"
| "slo_decimal (JStr s) =
     (case parse_decimal s of None \<Rightarrow> Inl ''invalid decimal SLO rate'' | Some d \<Rightarrow> Inr d)"
| "slo_decimal (JInt n) = Inr (of_int n)"
| "slo_decimal v = Inl ''invalid decimal SLO rate''"

definition rate_ok :: "decimal \<Rightarrow> bool" where
  "rate_ok d \<longleftrightarrow> 0 \<le> d \<and> d \<le> 1"

definition slo_target_ok :: "slo_target \<Rightarrow> bool" where
  "slo_target_ok t \<longleftrightarrow>
     0 < sl_p95_ttft_ms t \<and> 0 < sl_p95_e2e_ms t \<and> rate_ok (sl_max_error_rate t)
     \<and> (case sl_min_quality_rate t of None \<Rightarrow> True | Some d \<Rightarrow> rate_ok d)"

record slo_document =
  sd_version :: string
  sd_effective_date :: string
  sd_cells :: "(string \<times> slo_target) list"

definition date_ok :: "string \<Rightarrow> bool" where
  "date_ok s \<longleftrightarrow>
     length s = 10 \<and> s ! 4 = CHR ''-'' \<and> s ! 7 = CHR ''-''
     \<and> list_all is_digit (take 4 s @ take 2 (drop 5 s) @ drop 8 s)"

datatype slo_error =
    InvalidCell string
  | QualityNotAllowed
  | QualityNeeded string
  | SLOField
  | MissingTarget string

fun check_cell :: "string \<times> slo_target \<Rightarrow> slo_error + unit" where
  "check_cell (cell, t) =
     (if \<not> (starts_with cell ''WL-01/'' \<or> starts_with cell ''WL-02/'' \<or> starts_with cell ''WL-03/'')
      then Inl (InvalidCell cell)
      else if starts_with cell ''WL-03/'' \<and> sl_min_quality_rate t \<noteq> None then Inl QualityNotAllowed
      else if \<not> starts_with cell ''WL-03/'' \<and> sl_min_quality_rate t = None
      then Inl (QualityNeeded cell)
      else Inr ())"

definition workload_quality_rules :: "slo_document \<Rightarrow> slo_error + unit" where
  "workload_quality_rules d = seq_checks (map check_cell (sd_cells d))"

definition validate_slo :: "slo_document \<Rightarrow> slo_error + unit" where
  "validate_slo d =
     (if sd_version d \<noteq> '''' \<and> date_ok (sd_effective_date d) \<and> sd_cells d \<noteq> []
         \<and> list_all (slo_target_ok \<circ> snd) (sd_cells d)
      then workload_quality_rules d else Inl SLOField)"

definition require_cell :: "slo_document \<Rightarrow> string \<Rightarrow> slo_error + slo_target" where
  "require_cell d cell =
     (case map_of (sd_cells d) cell of
        None \<Rightarrow> Inl (MissingTarget cell)
      | Some t \<Rightarrow> Inr t)"

section \<open>Lemmas\<close>

lemma starts_with_code_append [simp]: "starts_with (p @ s) p"
  by (simp add: starts_with_def)

lemma slo_cell_prefix:
  "starts_with (slo_cell_of w t) ''WL-03/'' \<longleftrightarrow> w = Generation"
  by (cases w) (simp_all add: slo_cell_of_def starts_with_code)

lemma slo_cell_inj: "slo_cell_of w t = slo_cell_of w t' \<Longrightarrow> t = t'"
  by (auto simp: slo_cell_of_def dest: quality_tier_enum.distinct_values)

lemma slo_cells_distinct: "distinct (slo_cells_used s)"
  by (auto simp: slo_cells_used_def Let_def distinct_map intro: inj_onI dest: slo_cell_inj)

lemma slo_cells_set:
  "set (slo_cells_used s) =
     slo_cell_of (sc_workload s) `
       (if sc_request_mix s \<noteq> [] then rq_quality_tier ` set (sc_request_mix s)
        else {sc_quality_tier s})"
  by (simp add: slo_cells_used_def Let_def)

lemma validate_scenario_Inr:
  assumes "validate_scenario s = Inr ()"
  shows "scenario_fields_ok s" "sc_slo_cell s = slo_cell_of (sc_workload s) (sc_quality_tier s)"
    "sc_provider_mode s = HybridMode \<Longrightarrow> 2 \<le> length (sc_request_mix s)"
    "sc_provider_mode s \<noteq> HybridMode \<Longrightarrow> sc_request_mix s = []"
  using assms by (auto simp: validate_scenario_def validate_evidence_shape_def split: if_splits)

lemma validate_slo_cell:
  assumes "validate_slo d = Inr ()" "map_of (sd_cells d) c = Some t"
  shows "check_cell (c, t) = Inr ()" and "slo_target_ok t"
proof -
  have "(c, t) \<in> set (sd_cells d)" using assms(2) by (rule map_of_SomeD)
  then show "check_cell (c, t) = Inr ()" "slo_target_ok t"
    using assms(1)
    by (auto simp: validate_slo_def workload_quality_rules_def list_all_iff split: if_splits
        simp del: check_cell.simps)
qed

section \<open>Properties\<close>

definition lab_target :: "decimal option \<Rightarrow> slo_target" where
  "lab_target q =
     \<lparr>sl_p95_ttft_ms = 1500, sl_p95_e2e_ms = 5000, sl_max_error_rate = 1 / 100,
      sl_min_quality_rate = q\<rparr>"

definition lab_slo :: slo_document where
  "lab_slo =
     \<lparr>sd_version = ''lab-v1'', sd_effective_date = ''2026-08-15'',
      sd_cells = [(''WL-01/economy'', lab_target (Some (9 / 10))),
                  (''WL-01/premium'', lab_target (Some (9 / 10))),
                  (''WL-03/economy'', lab_target None)]\<rparr>"

definition lab_scenario :: "provider_mode \<Rightarrow> request_profile list \<Rightarrow> scenario" where
  "lab_scenario mode mix =
     \<lparr>sc_id = ''wl01-hybrid'', sc_treatment = ''hybrid'', sc_workload = Classification,
      sc_provider_mode = mode, sc_stream = False, sc_concurrency = 4, sc_requests = 20,
      sc_temperature = 0, sc_max_tokens = 64, sc_data_class = Public, sc_quality_tier = Economy,
      sc_structured_output_mode = ''prompt'', sc_warmup_requests = 0, sc_repeats = 2,
      sc_dataset = ''d'', sc_slo_config = ''s'', sc_slo_cell = ''WL-01/economy'',
      sc_pricing_config = ''p'', sc_timeout_config = ''t'', sc_cost_config = ''c'',
      sc_model = ''lab-default'', sc_publishable = False, sc_economic_views = [ViewA, ViewB],
      sc_pricing_version = ''v'', sc_bootstrap_iterations = 100, sc_seed = 1,
      sc_request_rate_schedule = ''closed-loop'', sc_sampling_parameters = [],
      sc_request_mix = mix, sc_notes = ''''\<rparr>"

definition lab_mix :: "request_profile list" where
  "lab_mix =
     [\<lparr>rq_data_class = Public, rq_quality_tier = Economy, rq_weight = 3\<rparr>,
      \<lparr>rq_data_class = Restricted, rq_quality_tier = Premium, rq_weight = 1\<rparr>]"

lemma lab_hybrid_valid: "validate_scenario (lab_scenario HybridMode lab_mix) = Inr ()"
  by code_simp

lemma lab_slo_valid: "validate_slo lab_slo = Inr ()"
  by code_simp

text \<open>
  The SLO cells a scenario uses: for an accepted scenario they are listed once each, are
  exactly the cells of the quality tiers that can carry traffic, and outside hybrid mode are
  the one cell the scenario names.
\<close>

theorem slo_cells_used_exact:
  assumes "validate_scenario s = Inr ()"
  shows "slo_cells_used s \<noteq> [] \<and> distinct (slo_cells_used s)
    \<and> (if sc_provider_mode s = HybridMode
       then set (slo_cells_used s)
              = (\<lambda>r. slo_cell_of (sc_workload s) (rq_quality_tier r)) ` set (sc_request_mix s)
       else slo_cells_used s = [sc_slo_cell s])"
proof (cases "sc_provider_mode s = HybridMode")
  case True
  then have "sc_request_mix s \<noteq> []" using validate_scenario_Inr(3) [OF assms] by auto
  then have "set (slo_cells_used s)
      = (\<lambda>r. slo_cell_of (sc_workload s) (rq_quality_tier r)) ` set (sc_request_mix s)"
    by (simp add: slo_cells_set image_image)
  moreover from this \<open>sc_request_mix s \<noteq> []\<close> have "slo_cells_used s \<noteq> []" by auto
  ultimately show ?thesis using True slo_cells_distinct by simp
next
  case False
  then have "slo_cells_used s = [sc_slo_cell s]"
    using validate_scenario_Inr(2,4) [OF assms] by (simp add: slo_cells_used_def sorted_set_def)
  with False show ?thesis by simp
qed

theorem slo_cells_used_exact_witness:
  "set (slo_cells_used (lab_scenario HybridMode lab_mix)) = {''WL-01/economy'', ''WL-01/premium''}"
  using slo_cells_used_exact [OF lab_hybrid_valid]
  by (simp add: lab_scenario_def lab_mix_def slo_cell_of_def)

text \<open>
  A quality floor exists exactly for the objective workloads: in an accepted SLO document
  the target of a scenario cell has a minimum quality rate, and it is a rate, unless the
  workload is open-ended generation, where it has none.
\<close>

theorem slo_quality_floor:
  assumes "validate_slo d = Inr ()" "require_cell d (slo_cell_of w t) = Inr target"
  shows "(case sl_min_quality_rate target of
            None \<Rightarrow> w = Generation
          | Some r \<Rightarrow> w \<noteq> Generation \<and> 0 \<le> r \<and> r \<le> 1)
    \<and> 0 < sl_p95_e2e_ms target"
proof -
  have "map_of (sd_cells d) (slo_cell_of w t) = Some target"
    using assms(2) by (simp add: require_cell_def split: option.splits)
  from validate_slo_cell [OF assms(1) this] show ?thesis
    by (auto simp: slo_cell_prefix slo_target_ok_def rate_ok_def split: option.splits if_splits)
qed

theorem slo_quality_floor_witness:
  "\<exists>target. require_cell lab_slo (slo_cell_of Generation Economy) = Inr target
     \<and> sl_min_quality_rate target = None"
proof -
  have "require_cell lab_slo (slo_cell_of Generation Economy) = Inr (lab_target None)"
    by code_simp
  with slo_quality_floor [OF lab_slo_valid this] show ?thesis
    by (auto split: option.splits)
qed

end
