(* ===== verification/Cost_Models.thy ===== *)
theory Cost_Models
  imports Bench_Models
begin

text \<open>
  Exact-money cost configuration and billed-resource inputs (\<open>costing/models.py\<close>). The
  decimals of the configuration are exact values; computed amounts are rounded by the
  decimal context. Dictionaries keyed by sensitivity or tier are association lists.
\<close>

text \<open>\<open>exact_decimal\<close> of the cost configuration, which has its own messages.\<close>

fun exact_cost_decimal :: "json \<Rightarrow> string + decimal" where
  "exact_cost_decimal (JFloat x) = Inl ''cost values must be quoted decimals''"
| "exact_cost_decimal (JStr s) =
     (case parse_decimal s of
        None \<Rightarrow> Inl ''cost value must be a decimal''
      | Some d \<Rightarrow> Inr d)"
| "exact_cost_decimal (JInt n) = Inr (of_int n)"
| "exact_cost_decimal v = Inl ''cost value must be a decimal string or integer''"

definition money_decimal :: "json \<Rightarrow> string + decimal" where
  "money_decimal v =
     bind_res (exact_cost_decimal v) (\<lambda>d. if 0 \<le> d then Inr d else Inl ''greater_than_equal'')"

definition positive_decimal :: "json \<Rightarrow> string + decimal" where
  "positive_decimal v =
     bind_res (exact_cost_decimal v) (\<lambda>d. if 0 < d then Inr d else Inl ''greater_than'')"

definition fraction_decimal :: "json \<Rightarrow> string + decimal" where
  "fraction_decimal v =
     bind_res (exact_cost_decimal v)
       (\<lambda>d. if \<not> 0 < d then Inl ''greater_than''
            else if \<not> d \<le> 1 then Inl ''less_than_equal'' else Inr d)"

record operations_allocation =
  oa_hours_per_month :: decimal
  oa_hourly_rate_usd :: decimal
  oa_allocation_fraction :: decimal
  oa_basis :: string

definition operations_allocation_ok :: "operations_allocation \<Rightarrow> bool" where
  "operations_allocation_ok a \<longleftrightarrow>
     0 < oa_hours_per_month a \<and> 0 < oa_hourly_rate_usd a
     \<and> 0 < oa_allocation_fraction a \<and> oa_allocation_fraction a \<le> 1 \<and> oa_basis a \<noteq> ''''"

definition monthly_cost :: "operations_allocation \<Rightarrow> decimal" where
  "monthly_cost a =
     dmul (dmul (oa_hours_per_month a) (oa_hourly_rate_usd a)) (oa_allocation_fraction a)"

record shared_platform_rates =
  sp_gateway :: decimal
  sp_network_nat :: decimal
  sp_control_plane :: decimal
  sp_shared_storage :: decimal
  sp_observability :: decimal

definition shared_rates_ok :: "shared_platform_rates \<Rightarrow> bool" where
  "shared_rates_ok r \<longleftrightarrow>
     0 \<le> sp_gateway r \<and> 0 \<le> sp_network_nat r \<and> 0 \<le> sp_control_plane r
     \<and> 0 \<le> sp_shared_storage r \<and> 0 \<le> sp_observability r"

record private_rates =
  pv_gpu_node :: decimal
  pv_cpu_node :: decimal
  pv_model_storage :: decimal
  pv_model_transfer_per_gb :: decimal
  pv_node_lifecycle :: decimal
  pv_minimum_billing_seconds :: int

definition private_rates_ok :: "private_rates \<Rightarrow> bool" where
  "private_rates_ok r \<longleftrightarrow>
     0 \<le> pv_gpu_node r \<and> 0 \<le> pv_cpu_node r \<and> 0 \<le> pv_model_storage r
     \<and> 0 \<le> pv_model_transfer_per_gb r \<and> 0 \<le> pv_node_lifecycle r
     \<and> 1 \<le> pv_minimum_billing_seconds r"

record token_profile =
  tp_input_tokens :: int
  tp_output_tokens :: int

definition token_profile_ok :: "token_profile \<Rightarrow> bool" where
  "token_profile_ok p \<longleftrightarrow> 0 \<le> tp_input_tokens p \<and> 0 \<le> tp_output_tokens p"

record utilization_tier =
  ut_requests_per_replica_month :: int
  ut_replica_hours_per_month :: decimal

definition utilization_tier_ok :: "utilization_tier \<Rightarrow> bool" where
  "utilization_tier_ok t \<longleftrightarrow>
     0 < ut_requests_per_replica_month t \<and> 0 < ut_replica_hours_per_month t"

record scenario_grid_config =
  sg_monthly_requests :: "int list"
  sg_token_profiles :: "(string \<times> token_profile) list"
  sg_utilization_tiers :: "(string \<times> utilization_tier) list"
  sg_quality_points :: "int list"

definition sensitivity_names :: "string list" where
  "sensitivity_names = [''low'', ''typical'', ''high'']"

definition required_grid_shape :: "scenario_grid_config \<Rightarrow> string + unit" where
  "required_grid_shape g =
     (if list_ex (\<lambda>v. v \<le> 0) (sg_monthly_requests g)
      then Inl ''monthly request points must be positive''
      else if set (dict_keys (sg_utilization_tiers g)) \<noteq> set sensitivity_names
      then Inl ''utilization_tiers must define low, typical, and high''
      else if 0 \<notin> set (sg_quality_points g)
      then Inl ''quality sensitivity must include the measured-rate point 0''
      else Inr ())"

definition validate_grid_config :: "scenario_grid_config \<Rightarrow> string + unit" where
  "validate_grid_config g =
     (if 2 \<le> length (sg_monthly_requests g) \<and> 2 \<le> length (sg_token_profiles g)
         \<and> 3 \<le> length (sg_quality_points g)
         \<and> list_all (token_profile_ok \<circ> snd) (sg_token_profiles g)
         \<and> list_all (utilization_tier_ok \<circ> snd) (sg_utilization_tiers g)
      then required_grid_shape g else Inl ''field'')"

record cost_config =
  cc_version :: string
  cc_currency :: string
  cc_effective_date :: string
  cc_private :: private_rates
  cc_shared :: shared_platform_rates
  cc_operations :: "(string \<times> operations_allocation) list"
  cc_scenario_grid :: scenario_grid_config

definition required_operations_sensitivity :: "cost_config \<Rightarrow> string + unit" where
  "required_operations_sensitivity c =
     guard_that (set (dict_keys (cc_operations c)) = set sensitivity_names)
       ''operations must define non-zero low, typical, and high allocations''"

definition validate_cost_config :: "cost_config \<Rightarrow> string + unit" where
  "validate_cost_config c =
     (if cc_version c \<noteq> '''' \<and> cc_currency c = ''USD'' \<and> date_ok (cc_effective_date c)
         \<and> private_rates_ok (cc_private c) \<and> shared_rates_ok (cc_shared c)
         \<and> list_all (operations_allocation_ok \<circ> snd) (cc_operations c)
         \<and> validate_grid_config (cc_scenario_grid c) = Inr ()
      then required_operations_sensitivity c else Inl ''field'')"

record private_run_inputs =
  pi_gpu_node_hours :: decimal
  pi_cpu_node_hours :: decimal
  pi_model_storage_hours :: decimal
  pi_model_transfer_gb :: decimal
  pi_node_lifecycle_hours :: decimal
  pi_shared_platform_hours :: decimal

definition private_run_inputs_ok :: "private_run_inputs \<Rightarrow> bool" where
  "private_run_inputs_ok i \<longleftrightarrow>
     0 \<le> pi_gpu_node_hours i \<and> 0 \<le> pi_cpu_node_hours i \<and> 0 \<le> pi_model_storage_hours i
     \<and> 0 \<le> pi_model_transfer_gb i \<and> 0 \<le> pi_node_lifecycle_hours i
     \<and> 0 \<le> pi_shared_platform_hours i"

section \<open>Lemmas\<close>

lemma monthly_cost_nonneg: "operations_allocation_ok a \<Longrightarrow> 0 \<le> monthly_cost a"
  by (simp add: operations_allocation_ok_def monthly_cost_def dmul_nonneg)

lemma money_decimal_nonneg: "money_decimal v = Inr d \<Longrightarrow> 0 \<le> d"
  by (auto simp: money_decimal_def bind_res_Inr split: if_splits)

lemma validate_cost_config_Inr:
  assumes "validate_cost_config c = Inr ()"
  shows "private_rates_ok (cc_private c)" "shared_rates_ok (cc_shared c)"
    "validate_grid_config (cc_scenario_grid c) = Inr ()"
    "set (dict_keys (cc_operations c)) = set sensitivity_names"
    "list_all (operations_allocation_ok \<circ> snd) (cc_operations c)"
  using assms
  by (auto simp: validate_cost_config_def required_operations_sensitivity_def split: if_splits)

lemma config_operations:
  assumes "validate_cost_config c = Inr ()" "s \<in> set sensitivity_names"
  obtains a where "map_of (cc_operations c) s = Some a" "operations_allocation_ok a"
proof -
  obtain a where a: "map_of (cc_operations c) s = Some a"
    using validate_cost_config_Inr(4) [OF assms(1)] assms(2) in_dict_keysE by metis
  then have "(s, a) \<in> set (cc_operations c)" by (rule map_of_SomeD)
  then have "operations_allocation_ok a"
    using validate_cost_config_Inr(5) [OF assms(1)] by (auto simp: list_all_iff)
  with a show thesis by (rule that)
qed

lemma grid_config_Inr:
  assumes "validate_grid_config g = Inr ()"
  shows "v \<in> set (sg_monthly_requests g) \<Longrightarrow> 0 < v"
    and "(n, p) \<in> set (sg_token_profiles g) \<Longrightarrow> token_profile_ok p"
    and "(n, t) \<in> set (sg_utilization_tiers g) \<Longrightarrow> utilization_tier_ok t"
    and "0 \<in> set (sg_quality_points g)"
  using assms
  by (auto simp: validate_grid_config_def required_grid_shape_def list_all_iff list_ex_iff
      split: if_splits)

section \<open>The laboratory configuration (\<open>config/cost.local.yaml\<close>)\<close>

definition lab_allocation :: "decimal \<Rightarrow> decimal \<Rightarrow> decimal \<Rightarrow> operations_allocation" where
  "lab_allocation h r f =
     \<lparr>oa_hours_per_month = h, oa_hourly_rate_usd = r, oa_allocation_fraction = f,
      oa_basis = ''Local scenario assumption; replace before publication.''\<rparr>"

definition lab_grid :: scenario_grid_config where
  "lab_grid =
     \<lparr>sg_monthly_requests = [10000, 50000, 100000, 500000, 1000000],
      sg_token_profiles = [(''short'', \<lparr>tp_input_tokens = 256, tp_output_tokens = 64\<rparr>),
                           (''medium'', \<lparr>tp_input_tokens = 1024, tp_output_tokens = 256\<rparr>)],
      sg_utilization_tiers =
        [(''low'', \<lparr>ut_requests_per_replica_month = 100000, ut_replica_hours_per_month = 720\<rparr>),
         (''typical'', \<lparr>ut_requests_per_replica_month = 500000, ut_replica_hours_per_month = 720\<rparr>),
         (''high'', \<lparr>ut_requests_per_replica_month = 1000000, ut_replica_hours_per_month = 720\<rparr>)],
      sg_quality_points = [-5, 0, 5]\<rparr>"

definition lab_cost :: cost_config where
  "lab_cost =
     \<lparr>cc_version = ''local-mock-v1'', cc_currency = ''USD'', cc_effective_date = ''2026-08-15'',
      cc_private = \<lparr>pv_gpu_node = 1, pv_cpu_node = 1 / 10, pv_model_storage = 1 / 100,
                    pv_model_transfer_per_gb = 0, pv_node_lifecycle = 0,
                    pv_minimum_billing_seconds = 1\<rparr>,
      cc_shared = \<lparr>sp_gateway = 5 / 100, sp_network_nat = 2 / 100, sp_control_plane = 1 / 10,
                   sp_shared_storage = 1 / 100, sp_observability = 3 / 100\<rparr>,
      cc_operations = [(''low'', lab_allocation 4 50 (1 / 10)),
                       (''typical'', lab_allocation 12 75 (1 / 4)),
                       (''high'', lab_allocation 30 100 (1 / 2))],
      cc_scenario_grid = lab_grid\<rparr>"

lemma lab_cost_valid: "validate_cost_config lab_cost = Inr ()"
  by code_simp

end
