(* ===== verification/Cost_Engine.thy ===== *)
theory Cost_Engine
  imports Cost_Models Lab_Config
begin

text \<open>
  Run economics (\<open>costing/engine.py\<close>) and the gateway's per-request pricing
  (\<open>config/pricing.py\<close>). View A is the marginal cost of the two services; View B adds the
  same platform and operations costs to both, once per operations sensitivity.
\<close>

section \<open>Per-request pricing\<close>

definition million :: decimal where
  "million = 1000000"

definition price ::
    "providers_document \<Rightarrow> string \<Rightarrow> string \<Rightarrow> normalized_usage \<Rightarrow> (string + money) option" where
  "price d provider model_alias usage =
     (case map_of (pd_pricing d) provider of
        None \<Rightarrow> None
      | Some model_prices \<Rightarrow>
          (case map_of model_prices model_alias of
             None \<Rightarrow> None
           | Some pricing \<Rightarrow>
               (case (nu_input usage, nu_output usage) of
                  (Some i, Some out) \<Rightarrow>
                    Some (make_money
                      (ExactAmount
                        (ddiv (dadd (dmul (of_int i) (prc_input_per_1m pricing))
                                    (dmul (of_int out) (prc_output_per_1m pricing))) million))
                      (prc_currency pricing))
                | _ \<Rightarrow> None)))"

section \<open>Aggregation of the managed records\<close>

record managed_aggregate =
  ma_total :: decimal
  ma_priced :: nat
  ma_missing :: nat
  ma_estimated :: bool

definition is_managed :: "benchmark_record \<Rightarrow> bool" where
  "is_managed r =
     (case br_provider r of None \<Rightarrow> False | Some p \<Rightarrow> starts_with p ''managed'')"

fun aggregate_loop ::
    "benchmark_record list \<Rightarrow> decimal \<times> nat \<times> nat \<Rightarrow> decimal \<times> nat \<times> nat" where
  "aggregate_loop [] acc = acc"
| "aggregate_loop (r # rs) (tot, priced, missing) =
     (if \<not> is_managed r then aggregate_loop rs (tot, priced, missing)
      else (case br_managed_cost r of
              None \<Rightarrow> aggregate_loop rs (tot, priced, Suc missing)
            | Some c \<Rightarrow> aggregate_loop rs (dadd tot c, Suc priced, missing)))"

definition aggregate_managed :: "benchmark_record list \<Rightarrow> managed_aggregate" where
  "aggregate_managed rs =
     (let (tot, priced, missing) = aggregate_loop rs (0, 0, 0)
      in \<lparr>ma_total = tot, ma_priced = priced, ma_missing = missing, ma_estimated = 0 < priced\<rparr>)"

section \<open>Token counts\<close>

text \<open>The loop that adds two counts per record and gives up at the first record without them.\<close>

fun token_sum ::
    "(token_usage_record \<Rightarrow> int option) \<Rightarrow> (token_usage_record \<Rightarrow> int option)
      \<Rightarrow> benchmark_record list \<Rightarrow> int \<Rightarrow> int option" where
  "token_sum f g [] tot = Some tot"
| "token_sum f g (r # rs) tot =
     (case (f (br_usage r), g (br_usage r)) of
        (Some a, Some b) \<Rightarrow> token_sum f g rs (tot + (a + b))
      | _ \<Rightarrow> None)"

definition managed_provider_billed_tokens :: "benchmark_record list \<Rightarrow> int option" where
  "managed_provider_billed_tokens rs =
     (let managed = filter (\<lambda>r. starts_with (or_str (br_provider r) '''') ''managed'') rs
      in if managed = [] then None else token_sum tu_billed_input tu_billed_output managed 0)"

definition private_normalized_tokens :: "benchmark_record list \<Rightarrow> int option" where
  "private_normalized_tokens rs =
     (let priv = filter (\<lambda>r. starts_with (or_str (br_provider r) '''') ''private'') rs
      in if priv = [] then None else token_sum tu_input tu_visible priv 0)"

section \<open>Views\<close>

definition private_view_a :: "cost_config \<Rightarrow> private_run_inputs \<Rightarrow> decimal" where
  "private_view_a c i =
     (let r = cc_private c
      in dadd (dadd (dadd (dadd
           (dmul (pi_gpu_node_hours i) (pv_gpu_node r))
           (dmul (pi_cpu_node_hours i) (pv_cpu_node r)))
           (dmul (pi_model_storage_hours i) (pv_model_storage r)))
           (dmul (pi_model_transfer_gb i) (pv_model_transfer_per_gb r)))
           (dmul (pi_node_lifecycle_hours i) (pv_node_lifecycle r)))"

definition shared_platform_components :: "cost_config \<Rightarrow> decimal \<Rightarrow> (string \<times> decimal) list" where
  "shared_platform_components c hours =
     (let s = cc_shared c
      in [(''gateway_runtime_usd'', dmul hours (sp_gateway s)),
          (''network_nat_usd'', dmul hours (sp_network_nat s)),
          (''control_plane_usd'', dmul hours (sp_control_plane s)),
          (''shared_storage_usd'', dmul hours (sp_shared_storage s)),
          (''observability_usd'', dmul hours (sp_observability s))])"

definition shared_platform_cost :: "cost_config \<Rightarrow> decimal \<Rightarrow> decimal" where
  "shared_platform_cost c hours = dsum (map snd (shared_platform_components c hours))"

definition month_hours :: decimal where
  "month_hours = 30 * 24"

text \<open>\<open>Inl\<close> is the \<open>KeyError\<close> of a sensitivity the configuration does not have.\<close>

definition operations_cost :: "cost_config \<Rightarrow> decimal \<Rightarrow> string \<Rightarrow> string + decimal" where
  "operations_cost c hours sensitivity =
     (case map_of (cc_operations c) sensitivity of
        None \<Rightarrow> Inl sensitivity
      | Some a \<Rightarrow> Inr (ddiv (dmul (monthly_cost a) hours) month_hours))"

record view_cost =
  vc_total :: decimal
  vc_per_request :: "decimal option"
  vc_per_correct :: "decimal option"
  vc_per_million :: "decimal option"
  vc_token_count :: "int option"
  vc_token_definition :: "string option"

definition ratio_if :: "decimal \<Rightarrow> int \<Rightarrow> decimal option" where
  "ratio_if tot n = (if n \<noteq> 0 then Some (ddiv tot (of_int n)) else None)"

definition view ::
    "decimal \<Rightarrow> int \<Rightarrow> int option \<Rightarrow> int option \<Rightarrow> string option \<Rightarrow> view_cost" where
  "view tot requests correct tokens defn =
     (let (per_million, count, def) =
        (case tokens of
           Some t \<Rightarrow> if 0 < t then (Some (ddiv (dmul tot million) (of_int t)), Some t, defn)
                    else (None, None, None)
         | None \<Rightarrow> (None, None, None))
      in \<lparr>vc_total = tot, vc_per_request = ratio_if tot requests,
          vc_per_correct = (case correct of None \<Rightarrow> None | Some n \<Rightarrow> ratio_if tot n),
          vc_per_million = per_million, vc_token_count = count, vc_token_definition = def\<rparr>)"

definition managed_token_definition :: string where
  "managed_token_definition = ''provider-billed input + output tokens''"

definition private_token_definition :: string where
  "private_token_definition = ''normalized input + visible output tokens''"

record view_pair =
  vp_managed :: view_cost
  vp_private :: view_cost

record sensitivity_row = view_pair +
  sr_components :: "(string \<times> decimal) list"
  sr_monthly_allocation :: decimal

record run_views_result =
  rv_view_a :: view_pair
  rv_view_b :: "(string \<times> sensitivity_row) list"

definition pair_views ::
    "decimal \<Rightarrow> decimal \<Rightarrow> int \<Rightarrow> int option \<Rightarrow> int option \<Rightarrow> int option \<Rightarrow> view_pair" where
  "pair_views managed priv requests correct managed_tokens private_tokens =
     \<lparr>vp_managed = view managed requests correct managed_tokens (Some managed_token_definition),
      vp_private = view priv requests correct private_tokens (Some private_token_definition)\<rparr>"

definition sensitivity_row_of ::
    "cost_config \<Rightarrow> decimal \<Rightarrow> private_run_inputs \<Rightarrow> int \<Rightarrow> int option \<Rightarrow> int option \<Rightarrow> int option
      \<Rightarrow> string \<Rightarrow> string + string \<times> sensitivity_row" where
  "sensitivity_row_of c managed i requests correct managed_tokens private_tokens s =
     (let hours = pi_shared_platform_hours i;
          shared_components = shared_platform_components c hours;
          shared = dsum (map snd shared_components)
      in bind_res (operations_cost c hours s) (\<lambda>ops.
         case map_of (cc_operations c) s of
           None \<Rightarrow> Inl s
         | Some a \<Rightarrow>
             Inr (s, view_pair.extend
               (pair_views (dadd managed (dadd shared ops)) (dadd (private_view_a c i) (dadd shared ops))
                 requests correct managed_tokens private_tokens)
               \<lparr>sr_components = shared_components @ [(''operations_engineering_allocation_usd'', ops)],
                sr_monthly_allocation = monthly_cost a\<rparr>)))"

definition run_views ::
    "cost_config \<Rightarrow> decimal \<Rightarrow> private_run_inputs \<Rightarrow> int \<Rightarrow> int option \<Rightarrow> int option \<Rightarrow> int option
      \<Rightarrow> string + run_views_result" where
  "run_views c managed i requests correct managed_tokens private_tokens =
     bind_res
       (traverse (sensitivity_row_of c managed i requests correct managed_tokens private_tokens)
          sensitivity_names)
       (\<lambda>rows. Inr
          \<lparr>rv_view_a = pair_views managed (private_view_a c i) requests correct managed_tokens
                         private_tokens,
           rv_view_b = rows\<rparr>)"

section \<open>Lemmas\<close>

lemma million_pos [simp]: "0 < million" "0 \<le> million"
  by (simp_all add: million_def)

lemma month_hours_pos [simp]: "0 < month_hours"
  by (simp add: month_hours_def)

lemma dsum_snoc: "dsum (xs @ [x]) = dadd (dsum xs) x"
  by (simp add: dsum_def)

lemma aggregate_loop_eq:
  "aggregate_loop rs (t, k, m) =
     (foldl dadd t (List.map_filter br_managed_cost (filter is_managed rs)),
      k + length (filter (\<lambda>r. is_managed r \<and> br_managed_cost r \<noteq> None) rs),
      m + length (filter (\<lambda>r. is_managed r \<and> br_managed_cost r = None) rs))"
  by (induction rs arbitrary: t k m)
    (auto simp: List.map_filter_def split: option.splits)

lemma token_sum_Some:
  "token_sum f g rs n = Some t \<longleftrightarrow>
     (\<forall>r \<in> set rs. f (br_usage r) \<noteq> None \<and> g (br_usage r) \<noteq> None)
     \<and> t = n + (\<Sum>r \<leftarrow> rs. the (f (br_usage r)) + the (g (br_usage r)))"
  by (induction rs arbitrary: n) (auto split: option.splits)

lemma shared_components_nonneg:
  assumes "shared_rates_ok (cc_shared c)" "0 \<le> hours"
  shows "\<forall>x \<in> set (map snd (shared_platform_components c hours)). 0 \<le> x"
  using assms by (simp add: shared_platform_components_def shared_rates_ok_def Let_def dmul_nonneg)

lemma operations_cost_nonneg:
  assumes "validate_cost_config c = Inr ()" "0 \<le> hours" "operations_cost c hours s = Inr x"
  shows "0 \<le> x"
proof -
  obtain a where a: "map_of (cc_operations c) s = Some a" "x = ddiv (dmul (monthly_cost a) hours) month_hours"
    using assms(3) by (auto simp: operations_cost_def split: option.splits)
  have "(s, a) \<in> set (cc_operations c)" using a(1) by (rule map_of_SomeD)
  then have "operations_allocation_ok a"
    using validate_cost_config_Inr(5) [OF assms(1)] by (auto simp: list_all_iff)
  with a(2) assms(2) show ?thesis
    by (simp add: ddiv_nonneg dmul_nonneg monthly_cost_nonneg month_hours_def)
qed

lemma private_view_a_nonneg:
  assumes "private_rates_ok (cc_private c)" "private_run_inputs_ok i"
  shows "0 \<le> private_view_a c i"
  using assms
  by (simp add: private_view_a_def private_rates_ok_def private_run_inputs_ok_def Let_def
      dadd_nonneg dmul_nonneg)

lemma private_view_a_rounded [simp]: "dec_round (private_view_a c i) = private_view_a c i"
  by (simp add: private_view_a_def Let_def)

lemma dadd_grows: "dec_round x = x \<Longrightarrow> 0 \<le> y \<Longrightarrow> x \<le> dadd x y"
  unfolding dadd_def by (rule dec.rnd_add_grows)

lemma view_sel [simp]:
  "vc_total (view t n cn k d) = t" "vc_per_request (view t n cn k d) = ratio_if t n"
  by (simp_all add: view_def Let_def split: option.splits prod.splits)

lemma pair_views_sel [simp]:
  "vc_total (vp_managed (pair_views m p n cn a b)) = m"
  "vc_total (vp_private (pair_views m p n cn a b)) = p"
  by (simp_all add: pair_views_def)

lemma run_views_rows:
  assumes "run_views c m i n cn mt pt = Inr v"
  shows "rv_view_a v = pair_views m (private_view_a c i) n cn mt pt"
    and "length (rv_view_b v) = length sensitivity_names"
    and "k < length sensitivity_names \<Longrightarrow>
      sensitivity_row_of c m i n cn mt pt (sensitivity_names ! k) = Inr (rv_view_b v ! k)"
  using assms by (auto simp: run_views_def bind_res_Inr dest: traverse_length traverse_nth)

lemma sensitivity_row_shape:
  assumes "sensitivity_row_of c m i n cn mt pt s = Inr (s', row)"
  obtains a ops where "s' = s" "map_of (cc_operations c) s = Some a"
    "operations_cost c (pi_shared_platform_hours i) s = Inr ops"
    "sr_components row = shared_platform_components c (pi_shared_platform_hours i)
       @ [(''operations_engineering_allocation_usd'', ops)]"
    "sr_monthly_allocation row = monthly_cost a"
    "vc_total (vp_managed row) = dadd m (dsum (map snd (sr_components row)))"
    "vc_total (vp_private row) = dadd (private_view_a c i) (dsum (map snd (sr_components row)))"
  using assms
  by (fastforce simp: sensitivity_row_of_def Let_def bind_res_Inr view_pair.defs pair_views_def
      dsum_snoc split: option.splits)

lemma sensitivity_row_costs:
  assumes "validate_cost_config c = Inr ()" "private_run_inputs_ok i"
    and "sensitivity_row_of c m i n cn mt pt s = Inr (s', row)"
  shows "list_all (\<lambda>x. 0 \<le> snd x) (sr_components row)" "0 \<le> dsum (map snd (sr_components row))"
proof -
  obtain ops where ops: "operations_cost c (pi_shared_platform_hours i) s = Inr ops"
    "sr_components row = shared_platform_components c (pi_shared_platform_hours i)
       @ [(''operations_engineering_allocation_usd'', ops)]"
    using assms(3) by (rule sensitivity_row_shape)
  have hours: "0 \<le> pi_shared_platform_hours i"
    using assms(2) by (simp add: private_run_inputs_ok_def)
  have "0 \<le> ops" by (rule operations_cost_nonneg [OF assms(1) hours ops(1)])
  then show "list_all (\<lambda>x. 0 \<le> snd x) (sr_components row)"
    using shared_components_nonneg [OF validate_cost_config_Inr(2) [OF assms(1)] hours] ops(2)
    by (simp add: list_all_iff)
  then show "0 \<le> dsum (map snd (sr_components row))"
    by (intro dsum_nonneg) (auto simp: list_all_iff)
qed

lemma sensitivity_row_total:
  assumes "validate_cost_config c = Inr ()" "s \<in> set sensitivity_names"
  shows "\<exists>x. sensitivity_row_of c m i n cn mt pt s = Inr x"
proof -
  obtain a where "map_of (cc_operations c) s = Some a" by (rule config_operations [OF assms])
  then show ?thesis by (simp add: sensitivity_row_of_def operations_cost_def Let_def)
qed

lemma decimal_sign: "0 \<le> rat_of_int p / 10 ^ k \<longleftrightarrow> 0 \<le> p"
proof -
  have "(0 :: rat) < 10 ^ k" by simp
  then show ?thesis by (simp only: pos_le_divide_eq) simp
qed

lemma exact_price:
  fixes i q p r :: int
  assumes "0 \<le> i" "0 \<le> q" "0 \<le> p" "0 \<le> r" "i * p + q * r \<le> 10 ^ 28"
  shows "ddiv (dadd (dmul (of_int i) (of_int p / 10 ^ k)) (dmul (of_int q) (of_int r / 10 ^ k))) million
    = of_int (i * p + q * r) / 10 ^ (k + 6)"
proof -
  have nn: "0 \<le> i * p" "0 \<le> q * r" using assms by simp_all
  have m1: "dmul (of_int i) (of_int p / 10 ^ k) = of_int (i * p) / 10 ^ k"
    using dec_round_exact [of "i * p" k] nn assms(5) by (simp add: dmul_def)
  have m2: "dmul (of_int q) (of_int r / 10 ^ k) = of_int (q * r) / 10 ^ k"
    using dec_round_exact [of "q * r" k] nn assms(5) by (simp add: dmul_def)
  have add: "dadd (of_int (i * p) / 10 ^ k) (of_int (q * r) / 10 ^ k)
      = of_int (i * p + q * r) / 10 ^ k"
    using dec_round_exact [of "i * p + q * r" k] nn assms(5)
    by (simp add: dadd_def add_divide_distrib)
  have "ddiv (of_int (i * p + q * r) / 10 ^ k) million = of_int (i * p + q * r) / 10 ^ (k + 6)"
    using dec_round_exact [of "i * p + q * r" "k + 6"] nn assms(5)
    by (simp add: ddiv_def million_def power_add)
  then show ?thesis by (simp only: m1 m2 add)
qed

section \<open>Properties\<close>

text \<open>
  C15. Pricing never invents tokens and never loses money: a price exists exactly when the
  provider and the model have a pricing entry and both billed counts are known, and there is
  none for an unknown provider, an unknown model or a missing count; on an accepted document it
  is then a non-negative amount in the entry's currency; and when the prices are decimals with
  \<open>k\<close> digits and the amount fits the 28 digits of the context it is exact, unrounded.
\<close>

theorem price_exact:
  assumes "validate_document d = Inr ()" "validate_usage u = Inr ()"
  shows "case map_of (pd_pricing d) provider of
      None \<Rightarrow> price d provider model u = None
    | Some prices \<Rightarrow>
        (case (map_of prices model, nu_input u, nu_output u) of
           (Some pr, Some i, Some q) \<Rightarrow>
             (\<exists>m. price d provider model u = Some (Inr m) \<and> currency m = prc_currency pr
               \<and> 0 \<le> amount m
               \<and> (\<forall>p r k. prc_input_per_1m pr = of_int p / 10 ^ k
                     \<and> prc_output_per_1m pr = of_int r / 10 ^ k \<and> i * p + q * r \<le> 10 ^ 28
                   \<longrightarrow> amount m = of_int (i * p + q * r) / 10 ^ (k + 6)))
         | _ \<Rightarrow> price d provider model u = None)"
proof (cases "map_of (pd_pricing d) provider")
  case None
  then show ?thesis by (simp add: price_def)
next
  case prices: (Some prices)
  show ?thesis
  proof (cases "map_of prices model = None \<or> nu_input u = None \<or> nu_output u = None")
    case True
    with prices show ?thesis by (auto simp: price_def split: option.splits)
  next
    case False
    then obtain pr i q where iq: "map_of prices model = Some pr" "nu_input u = Some i"
        "nu_output u = Some q" by auto
    have ok: "pricing_ok pr" by (rule validated_pricing [OF assms(1) prices iq(1)])
    have pos: "0 \<le> i" "0 \<le> q"
      using assms(2) iq by (auto simp: validate_usage_iff usage_pairs_def token_count_ok_def)
    define m where "m = \<lparr>amount = ddiv (dadd (dmul (of_int i) (prc_input_per_1m pr))
        (dmul (of_int q) (prc_output_per_1m pr))) million, currency = prc_currency pr\<rparr>"
    have "0 \<le> amount m" using ok pos by (simp add: m_def pricing_ok_def dec_nonneg)
    moreover have "price d provider model u = Some (Inr m)"
      using prices iq ok by (simp add: price_def pricing_ok_def m_def)
    moreover have "amount m = of_int (i * p + q * r) / 10 ^ (k + 6)"
      if "prc_input_per_1m pr = of_int p / 10 ^ k" "prc_output_per_1m pr = of_int r / 10 ^ k"
        "i * p + q * r \<le> 10 ^ 28" for p r k
    proof -
      have "0 \<le> p" "0 \<le> r" using ok that(1,2) by (simp_all add: pricing_ok_def decimal_sign)
      from exact_price [OF pos this that(3), of k] that(1,2) show ?thesis by (simp add: m_def)
    qed
    ultimately show ?thesis using prices iq by (auto simp: m_def)
  qed
qed

theorem price_exact_witness:
  "\<exists>m. price lab_providers ''managed-primary'' ''lab-economy'' lab_usage = Some (Inr m)
     \<and> amount m = 200 / 10 ^ 6 \<and> price lab_providers ''managed-primary'' ''other'' lab_usage = None
     \<and> price lab_providers ''other'' ''lab-economy'' lab_usage = None"
proof -
  have prices: "map_of (pd_pricing lab_providers) ''managed-primary''
      = Some [(''lab-economy'', lab_price 1 5), (''lab-premium'', lab_price 5 25)]"
    "map_of (pd_pricing lab_providers) ''other'' = None"
    by (simp_all add: lab_providers_def)
  have usage: "validate_usage lab_usage = Inr ()" by code_simp
  have price: "prc_input_per_1m (lab_price 1 5) = of_int 1 / 10 ^ 0"
    "prc_output_per_1m (lab_price 1 5) = of_int 5 / 10 ^ 0" by (simp_all add: lab_price_def)
  have counts: "nu_input lab_usage = Some 100" "nu_output lab_usage = Some 20"
    by (simp_all add: lab_usage_def usage_unavailable_def)
  obtain m where m: "price lab_providers ''managed-primary'' ''lab-economy'' lab_usage = Some (Inr m)"
    and exact: "\<And>p r k. prc_input_per_1m (lab_price 1 5) = of_int p / 10 ^ k
        \<and> prc_output_per_1m (lab_price 1 5) = of_int r / 10 ^ k \<and> 100 * p + 20 * r \<le> 10 ^ 28
      \<Longrightarrow> amount m = of_int (100 * p + 20 * r) / 10 ^ (k + 6)"
    using price_exact [OF lab_providers_valid usage, of "''managed-primary''" "''lab-economy''"]
      prices counts by auto
  have "amount m = of_int (100 * 1 + 20 * 5) / 10 ^ (0 + 6)"
    by (rule exact) (simp add: price)
  moreover have "price lab_providers ''managed-primary'' ''other'' lab_usage = None"
    using price_exact [OF lab_providers_valid usage, of "''managed-primary''" "''other''"] prices
    by simp
  moreover have "price lab_providers ''other'' ''lab-economy'' lab_usage = None"
    using price_exact [OF lab_providers_valid usage, of "''other''" "''lab-economy''"] prices by simp
  ultimately show ?thesis using m by auto
qed

text \<open>
  The managed aggregate partitions the managed records: each is counted once, as priced
  or as missing its usage; the total is the decimal sum of the priced costs in order; and
  records of other providers do not contribute.
\<close>

theorem aggregate_managed_partition:
  "ma_priced (aggregate_managed rs) + ma_missing (aggregate_managed rs)
      = length (filter is_managed rs)
   \<and> ma_total (aggregate_managed rs)
      = dsum (List.map_filter br_managed_cost (filter is_managed rs))
   \<and> ma_priced (aggregate_managed rs)
      = length (List.map_filter br_managed_cost (filter is_managed rs))
   \<and> ma_estimated (aggregate_managed rs) = (0 < ma_priced (aggregate_managed rs))"
proof -
  have "length (filter (\<lambda>r. is_managed r \<and> br_managed_cost r \<noteq> None) rs)
      + length (filter (\<lambda>r. is_managed r \<and> br_managed_cost r = None) rs) = length (filter is_managed rs)"
    by (induction rs) auto
  moreover have "length (filter (\<lambda>r. is_managed r \<and> br_managed_cost r \<noteq> None) rs)
      = length (List.map_filter br_managed_cost (filter is_managed rs))"
    by (induction rs) (auto simp: List.map_filter_def)
  ultimately show ?thesis
    by (simp add: aggregate_managed_def aggregate_loop_eq dsum_def)
qed

text \<open>
  Token counts are all or nothing: the managed count exists exactly when there are managed
  records and every one reports both billed counts, and it is then their sum; likewise the
  private count over input and visible output tokens.
\<close>

theorem token_counts_all_or_nothing:
  "(managed_provider_billed_tokens rs = Some t \<longleftrightarrow>
      (let ms = filter (\<lambda>r. starts_with (or_str (br_provider r) '''') ''managed'') rs
       in ms \<noteq> []
        \<and> list_all (\<lambda>r. tu_billed_input (br_usage r) \<noteq> None \<and> tu_billed_output (br_usage r) \<noteq> None) ms
        \<and> t = (\<Sum>r \<leftarrow> ms. the (tu_billed_input (br_usage r)) + the (tu_billed_output (br_usage r)))))
   \<and> (private_normalized_tokens rs = Some u \<longleftrightarrow>
      (let ps = filter (\<lambda>r. starts_with (or_str (br_provider r) '''') ''private'') rs
       in ps \<noteq> []
        \<and> list_all (\<lambda>r. tu_input (br_usage r) \<noteq> None \<and> tu_visible (br_usage r) \<noteq> None) ps
        \<and> u = (\<Sum>r \<leftarrow> ps. the (tu_input (br_usage r)) + the (tu_visible (br_usage r)))))"
  by (auto simp: managed_provider_billed_tokens_def private_normalized_tokens_def Let_def
      token_sum_Some list_all_iff)

text \<open>
  View B treats both paths alike: on an accepted configuration \<open>run_views\<close> always returns;
  it has one row per operations sensitivity, in order; each row adds to both View A totals the
  same amount, the decimal sum of exactly the platform components it reports; so no total of
  View B is below its View A total, and the cheaper path of View A is never the dearer one.
\<close>

theorem views_are_symmetric:
  assumes "validate_cost_config c = Inr ()" "private_run_inputs_ok i"
    and "0 \<le> managed" "dec_round managed = managed"
  shows "\<exists>v. run_views c managed i n cn mt pt = Inr v
    \<and> map fst (rv_view_b v) = sensitivity_names
    \<and> list_all (\<lambda>(s, row).
         let extra = dsum (map snd (sr_components row));
             priv = private_view_a c i
         in 0 \<le> extra
          \<and> vc_total (vp_managed row) = dadd managed extra
          \<and> vc_total (vp_private row) = dadd priv extra
          \<and> managed \<le> vc_total (vp_managed row) \<and> priv \<le> vc_total (vp_private row)
          \<and> (managed \<le> priv \<longrightarrow> vc_total (vp_managed row) \<le> vc_total (vp_private row))
          \<and> (priv \<le> managed \<longrightarrow> vc_total (vp_private row) \<le> vc_total (vp_managed row)))
       (rv_view_b v)
    \<and> vc_total (vp_managed (rv_view_a v)) = managed
    \<and> vc_total (vp_private (rv_view_a v)) = private_view_a c i"
proof -
  let ?row = "sensitivity_row_of c managed i n cn mt pt"
  obtain rows where rows: "traverse ?row sensitivity_names = Inr rows"
    using sensitivity_row_total [OF assms(1)] traverse_Inr_iff [of ?row sensitivity_names] by auto
  then obtain v where v: "run_views c managed i n cn mt pt = Inr v" "rv_view_b v = rows"
    by (simp add: run_views_def)
  have row: "?row (sensitivity_names ! k) = Inr (rows ! k)" if "k < length rows" for k
    using traverse_nth [OF rows] traverse_length [OF rows] that by simp
  have names: "map fst rows = sensitivity_names"
  proof (rule nth_equalityI)
    show "length (map fst rows) = length sensitivity_names"
      using traverse_length [OF rows] by simp
    show "map fst rows ! k = sensitivity_names ! k" if "k < length (map fst rows)" for k
      using row [of k] that by (cases "rows ! k") (auto elim: sensitivity_row_shape)
  qed
  have "(\<lambda>(s, row). let extra = dsum (map snd (sr_components row)); priv = private_view_a c i
         in 0 \<le> extra
          \<and> vc_total (vp_managed row) = dadd managed extra
          \<and> vc_total (vp_private row) = dadd priv extra
          \<and> managed \<le> vc_total (vp_managed row) \<and> priv \<le> vc_total (vp_private row)
          \<and> (managed \<le> priv \<longrightarrow> vc_total (vp_managed row) \<le> vc_total (vp_private row))
          \<and> (priv \<le> managed \<longrightarrow> vc_total (vp_private row) \<le> vc_total (vp_managed row))) sr"
    if "sr \<in> set rows" for sr
  proof -
    obtain k where k: "k < length rows" "sr = rows ! k" using \<open>sr \<in> set rows\<close> by (auto simp: in_set_conv_nth)
    obtain s r where sr: "sr = (s, r)" by fastforce
    have this_row: "?row (sensitivity_names ! k) = Inr (s, r)" using row [OF k(1)] k(2) sr by simp
    have pos: "0 \<le> dsum (map snd (sr_components r))"
      by (rule sensitivity_row_costs(2) [OF assms(1,2) this_row])
    have tots: "vc_total (vp_managed r) = dadd managed (dsum (map snd (sr_components r)))"
      "vc_total (vp_private r) = dadd (private_view_a c i) (dsum (map snd (sr_components r)))"
      using this_row by (auto elim: sensitivity_row_shape)
    show ?thesis
      unfolding sr using pos tots dadd_grows [OF assms(4) pos]
        dadd_grows [OF private_view_a_rounded pos, of c i]
      by (simp add: Let_def dadd_mono)
  qed
  then show ?thesis using v names run_views_rows(1) [OF v(1)] by (simp add: list_all_iff)
qed

definition lab_inputs :: private_run_inputs where
  "lab_inputs =
     \<lparr>pi_gpu_node_hours = 2, pi_cpu_node_hours = 1, pi_model_storage_hours = 2,
      pi_model_transfer_gb = 0, pi_node_lifecycle_hours = 0, pi_shared_platform_hours = 2\<rparr>"

theorem views_are_symmetric_witness:
  "\<exists>v. run_views lab_cost 1 lab_inputs 100 (Some 90) None None = Inr v
     \<and> map fst (rv_view_b v) = [''low'', ''typical'', ''high'']
     \<and> vc_total (vp_private (rv_view_a v)) = private_view_a lab_cost lab_inputs"
proof -
  have "private_run_inputs_ok lab_inputs" by code_simp
  moreover have "dec_round 1 = 1" using dec_round_int [of 1] by simp
  ultimately show ?thesis
    using views_are_symmetric [OF lab_cost_valid, of lab_inputs 1 100 "Some 90" None None]
    by (auto simp: sensitivity_names_def)
qed

text \<open>
  Unit costs are honest: a cost per request exists exactly when there were requests, and
  multiplied back it is within one part in \<open>2 * 10^27\<close> of the total; a cost per million tokens
  is reported, with its count and definition, exactly when the count is known and positive.
\<close>

theorem unit_costs:
  assumes "0 \<le> t" "0 \<le> n"
  shows "(case vc_per_request (view t n cn k d) of
            None \<Rightarrow> n = 0
          | Some x \<Rightarrow> 0 < n \<and> \<bar>x * of_int n - t\<bar> \<le> t / (2 * 10 ^ 27))
    \<and> (vc_per_million (view t n cn k d) \<noteq> None \<longleftrightarrow> (case k of None \<Rightarrow> False | Some m \<Rightarrow> 0 < m))
    \<and> (vc_token_count (view t n cn k d) = (if vc_per_million (view t n cn k d) = None then None else k))
    \<and> (vc_token_definition (view t n cn k d)
         = (if vc_per_million (view t n cn k d) = None then None else d))"
proof -
  have "\<bar>ddiv t (of_int n) * of_int n - t\<bar> \<le> t / (2 * 10 ^ 27)" if "0 < n"
  proof -
    let ?x = "t / of_int n"
    have "\<bar>dec_round ?x - ?x\<bar> \<le> 1 / (2 * 10 ^ 27) * ?x"
      using dec.rnd_error [of ?x] assms(1) that by simp
    then have "\<bar>dec_round ?x - ?x\<bar> * of_int n \<le> 1 / (2 * 10 ^ 27) * ?x * of_int n"
      using that by (intro mult_right_mono) simp_all
    moreover have "\<bar>dec_round ?x - ?x\<bar> * of_int n = \<bar>(dec_round ?x - ?x) * of_int n\<bar>"
      using that by (simp add: abs_mult)
    moreover have "(dec_round ?x - ?x) * of_int n = ddiv t (of_int n) * of_int n - t"
      using that by (simp add: ddiv_def field_simps)
    moreover have "1 / (2 * 10 ^ 27) * ?x * of_int n = t / (2 * 10 ^ 27)"
      using that by simp
    ultimately show ?thesis by simp
  qed
  then show ?thesis
    using assms(2) by (auto simp: view_def ratio_if_def Let_def split: option.splits)
qed

theorem unit_costs_witness:
  "\<exists>x. vc_per_request (view 10 3 None (Some 7) (Some ''tokens'')) = Some x
     \<and> \<bar>x * of_int 3 - 10\<bar> \<le> 10 / (2 * 10 ^ 27)"
  using unit_costs [of 10 3 None "Some 7" "Some ''tokens''"]
  by (auto simp: ratio_if_def simp del: of_int_numeral)

end
