(* ===== verification/Anthropic_Adapter.thy ===== *)
theory Anthropic_Adapter
  imports OpenAI_Adapter Cost_Engine
begin

text \<open>
  The managed adapter for the Anthropic Messages API (\<open>adapters/anthropic_managed.py\<close>). The
  SDK is a parameter: for a request it says how long \<open>messages.create\<close> takes and which
  response, event stream or exception it gives; the events and exceptions are the SDK classes
  the code tells apart.
\<close>

section \<open>The SDK\<close>

datatype sdk_error =
    ApiTimeout
  | ApiConnection
  | ApiStatus int "(string \<times> string) list"
  | ApiResponseValidation
  | OtherAnthropicError
  | OtherException string

record content_block =
  bl_type :: string
  bl_text :: string

record sdk_message =
  sm_content :: "content_block list"
  sm_stop_reason :: "string option"
  sm_input_tokens :: int
  sm_output_tokens :: int

datatype sdk_event =
    MessageStart int
  | TextDelta string
  | OtherDelta
  | MessageDelta "string option" "int option"
  | OtherEvent
  | SdkFailure sdk_error

record anthropic_client =
  ac_create :: "nat \<Rightarrow> rat \<Rightarrow> json_object \<Rightarrow> rat \<times> (sdk_error + sdk_message)"
  ac_stream :: "nat \<Rightarrow> rat \<Rightarrow> json_object \<Rightarrow> rat \<times> (sdk_error + (rat \<times> sdk_event) list)"
  ac_retrieve :: "rat \<Rightarrow> string option"

section \<open>Requests\<close>

text \<open>One pass over the messages: the system texts and the conversation.\<close>

fun split_loop ::
    "canonical_message list \<Rightarrow> string list \<times> json list \<Rightarrow> string list \<times> json list" where
  "split_loop [] acc = acc"
| "split_loop (m # ms) (system_texts, wire) =
     (let t = flatten_text (cm_content m)
      in if cm_role m = SystemRole \<or> cm_role m = DeveloperRole
         then split_loop ms (system_texts @ [t], wire)
         else if cm_role m = ModelRole
         then split_loop ms (system_texts,
                wire @ [JObj [(''role'', JStr ''assistant''), (''content'', JStr t)]])
         else split_loop ms (system_texts,
                wire @ [JObj [(''role'', JStr ''user''), (''content'', JStr t)]]))"

fun join :: "string \<Rightarrow> string list \<Rightarrow> string" where
  "join sep [] = ''''"
| "join sep [s] = s"
| "join sep (s # t # rest) = s @ sep @ join sep (t # rest)"

definition newline :: char where
  "newline = CHR 0x0A"

definition split_messages :: "chat_request \<Rightarrow> string option \<times> json list" where
  "split_messages request =
     (let (system_texts, wire) = split_loop (cr_messages request) ([], [])
      in (if system_texts \<noteq> [] then Some (join [newline, newline] system_texts) else None, wire))"

record anthropic_adapter =
  aa_name :: string
  aa_upstream_model :: string
  aa_model_alias :: string
  aa_pricing :: providers_document
  aa_provider_config_name :: string
  aa_supports_sampling :: bool

definition anthropic_capabilities :: provider_capabilities where
  "anthropic_capabilities =
     \<lparr>cap_streaming = True, cap_reports_usage = True, cap_reports_streaming_usage = True,
      cap_tool_calls = False\<rparr>"

definition sampling_kwargs :: "anthropic_adapter \<Rightarrow> chat_request \<Rightarrow> json_object" where
  "sampling_kwargs a request =
     (if \<not> aa_supports_sampling a then []
      else [(''temperature'', JFloat (min (cr_temperature request) 1))])"

text \<open>The keyword arguments of \<open>messages.create\<close>; an omitted system prompt is no argument.\<close>

definition create_kwargs :: "anthropic_adapter \<Rightarrow> chat_request \<Rightarrow> bool \<Rightarrow> json_object" where
  "create_kwargs a request stream =
     (let (system, messages) = split_messages request
      in [(''model'', JStr (aa_upstream_model a)), (''max_tokens'', JInt (cr_max_tokens request))]
         @ (case system of None \<Rightarrow> [] | Some s \<Rightarrow> [(''system'', JStr s)])
         @ [(''messages'', JArr messages)]
         @ (if stream then [(''stream'', JBool True)] else [])
         @ sampling_kwargs a request)"

section \<open>Normalisation\<close>

definition anthropic_usage :: "int option \<Rightarrow> int option \<Rightarrow> adapter_failure + normalized_usage" where
  "anthropic_usage input_tokens output_tokens =
     (if input_tokens = None \<and> output_tokens = None then Inr usage_unavailable
      else validated validate_usage
        (let u = (case input_tokens of
                    None \<Rightarrow> usage_unavailable
                  | Some i \<Rightarrow> usage_unavailable\<lparr>nu_input := Some i, nu_input_source := ProviderReported\<rparr>)
         in case output_tokens of
              None \<Rightarrow> u
            | Some n \<Rightarrow> u\<lparr>nu_output := Some n, nu_output_source := ProviderReported\<rparr>))"

definition finish_reasons :: "(string \<times> string) list" where
  "finish_reasons =
     [(''end_turn'', ''stop''), (''stop_sequence'', ''stop''), (''max_tokens'', ''length''),
      (''tool_use'', ''tool_calls''), (''refusal'', ''content_filter'')]"

definition finish_reason_of :: "string option \<Rightarrow> string" where
  "finish_reason_of stop_reason =
     (case stop_reason of
        None \<Rightarrow> ''stop''
      | Some s \<Rightarrow> (case map_of finish_reasons s of None \<Rightarrow> ''stop'' | Some f \<Rightarrow> f))"

fun normalize_error :: "codec \<Rightarrow> string \<Rightarrow> sdk_error \<Rightarrow> adapter_failure" where
  "normalize_error cd name ApiTimeout =
     raise_class TimeoutClass (name @ '' request timed out'') None None"
| "normalize_error cd name ApiConnection =
     raise_class TimeoutClass (name @ '' connection failed'') None None"
| "normalize_error cd name (ApiStatus status headers) =
     (let retry = retry_after_hint (cd_float cd) headers
      in if 400 \<le> status \<and> status < 600
         then raise_http status (name @ '' returned HTTP '' @ str_int status) retry
         else raise_class Provider5xx (name @ '' reported an in-band error'') None retry)"
| "normalize_error cd name ApiResponseValidation =
     raise_class MalformedResponse (name @ '' sent an invalid payload'') None None"
| "normalize_error cd name OtherAnthropicError =
     raise_class Provider5xx (name @ '' client reported a failure'') None None"
| "normalize_error cd name (OtherException s) =
     raise_class MalformedResponse (name @ '' client failure'') None None"

section \<open>Calls\<close>

definition block_text :: "content_block list \<Rightarrow> string" where
  "block_text blocks = concat (map bl_text (filter (\<lambda>b. bl_type b = ''text'') blocks))"

definition anthropic_result ::
    "anthropic_adapter \<Rightarrow> chat_request \<Rightarrow> sdk_message \<Rightarrow> adapter_failure + provider_result" where
  "anthropic_result a request response =
     bind_res (anthropic_usage (Some (sm_input_tokens response)) (Some (sm_output_tokens response)))
       (\<lambda>usage. validated validate_result
          \<lparr>pr_provider = aa_name a, pr_model = cr_model request,
           pr_output = [text_part (block_text (sm_content response))],
           pr_finish_reason = Some (finish_reason_of (sm_stop_reason response)),
           pr_usage = usage, pr_extensions = []\<rparr>)"

definition anthropic_chat :: "codec \<Rightarrow> anthropic_client \<Rightarrow> anthropic_adapter \<Rightarrow> chat_adapter" where
  "anthropic_chat cd client a = (\<lambda>i now request ctx.
     (case ac_create client i now (create_kwargs a request False) of
        (duration, Inl e) \<Rightarrow> (duration, reply_of (Inl (normalize_error cd (aa_name a) e)))
      | (duration, Inr response) \<Rightarrow> (duration, reply_of (anthropic_result a request response))))"

text \<open>A \<open>yield\<close> inside the \<open>try\<close> statement: a chunk that is not valid is normalised as well.\<close>

definition caught_yield ::
    "codec \<Rightarrow> anthropic_adapter \<Rightarrow> rat \<Rightarrow> provider_chunk \<Rightarrow> stream_script \<Rightarrow> stream_script" where
  "caught_yield cd a wait c rest =
     (case validated validate_chunk c of
        Inl _ \<Rightarrow> [(wait, failure_event
                    (normalize_error cd (aa_name a) (OtherException ''ValidationError'')))]
      | Inr c' \<Rightarrow> (wait, ChunkEvent c') # rest)"

record anthropic_cursor =
  an_sequence :: nat
  an_input :: "int option"
  an_output :: "int option"
  an_finish :: "string option"

fun anthropic_events ::
    "codec \<Rightarrow> anthropic_adapter \<Rightarrow> string \<Rightarrow> rat \<Rightarrow> anthropic_cursor \<Rightarrow> (rat \<times> sdk_event) list
      \<Rightarrow> stream_script" where
  "anthropic_events cd a model waited cur [] =
     (case anthropic_usage (an_input cur) (an_output cur) of
        Inl f \<Rightarrow> [(waited, failure_event f)]
      | Inr usage \<Rightarrow>
          yield_chunk waited (final_chunk (aa_name a) model (int (an_sequence cur))
            (finish_reason_of (an_finish cur)) usage) [])"
| "anthropic_events cd a model waited cur ((w, ev) # rest) =
     (case ev of
        SdkFailure e \<Rightarrow> [(waited + w, failure_event (normalize_error cd (aa_name a) e))]
      | MessageStart i \<Rightarrow> anthropic_events cd a model (waited + w) (cur\<lparr>an_input := Some i\<rparr>) rest
      | TextDelta t \<Rightarrow>
          if t = '''' then anthropic_events cd a model (waited + w) cur rest
          else caught_yield cd a (waited + w) (text_chunk (aa_name a) model (int (an_sequence cur)) t)
                 (anthropic_events cd a model 0 (cur\<lparr>an_sequence := Suc (an_sequence cur)\<rparr>) rest)
      | MessageDelta stop output \<Rightarrow>
          anthropic_events cd a model (waited + w)
            (cur\<lparr>an_output := (if output \<noteq> None then output else an_output cur),
                 an_finish := (if stop \<noteq> None then stop else an_finish cur)\<rparr>) rest
      | _ \<Rightarrow> anthropic_events cd a model (waited + w) cur rest)"

definition anthropic_stream :: "codec \<Rightarrow> anthropic_client \<Rightarrow> anthropic_adapter \<Rightarrow> stream_adapter" where
  "anthropic_stream cd client a = (\<lambda>i now request ctx.
     (case ac_stream client i now (create_kwargs a request True) of
        (waited, Inl e) \<Rightarrow> [(waited, failure_event (normalize_error cd (aa_name a) e))]
      | (waited, Inr events) \<Rightarrow>
          anthropic_events cd a (cr_model request) waited
            \<lparr>an_sequence = 0, an_input = None, an_output = None, an_finish = None\<rparr> events))"

text \<open>\<open>ac_retrieve\<close> gives the class name of the exception \<open>models.retrieve\<close> raised, if any.\<close>

definition anthropic_health :: "anthropic_client \<Rightarrow> rat \<Rightarrow> provider_health" where
  "anthropic_health client now =
     (case ac_retrieve client now of
        Some cls \<Rightarrow> \<lparr>ph_healthy = False, ph_checked_at = utc now, ph_detail = Some cls\<rparr>
      | None \<Rightarrow> \<lparr>ph_healthy = True, ph_checked_at = utc now, ph_detail = Some ''ok''\<rparr>)"

definition anthropic_price ::
    "anthropic_adapter \<Rightarrow> normalized_usage \<Rightarrow> string \<Rightarrow> (string + money) option" where
  "anthropic_price a usage model =
     price (aa_pricing a) (aa_provider_config_name a) (aa_model_alias a) usage"

section \<open>Lemmas\<close>

lemma well_formed_caught:
  assumes "pc_provider c = name" "pc_model c = model" "pc_sequence c = int n" "\<not> pc_is_final c"
    and "well_formed_from name model (Suc n) rest"
  shows "well_formed_from name model n (caught_yield cd a w c rest)"
  using well_formed_yield [OF assms, of w]
  by (cases "validate_chunk c") (simp_all add: caught_yield_def yield_chunk_def validated_def)

lemma anthropic_events_well_formed:
  "an_sequence cur = n \<Longrightarrow>
   well_formed_from (aa_name a) model n (anthropic_events cd a model waited cur events)"
proof (induction events arbitrary: waited cur n)
  case Nil
  then show ?case by (auto intro: well_formed_final split: sum.splits)
next
  case (Cons x events)
  obtain w ev where x: "x = (w, ev)" by (cases x)
  show ?case
    by (cases ev) (use Cons in \<open>auto simp: x intro!: well_formed_caught Cons.IH\<close>)
qed

interpretation anthropic_contract: provider_stream "aa_name a" "anthropic_stream cd client a" for cd client a
  by unfold_locales
    (auto simp: anthropic_stream_def anthropic_events_well_formed split: prod.splits sum.splits)

text \<open>Every exception of the SDK is normalised; only the fallback classes of a status differ.\<close>

lemma normalize_error_total:
  assumes "name \<noteq> ''''"
  shows "\<exists>n. normalize_error cd name e = Normalized n"
proof (cases e)
  case (ApiStatus status headers)
  then show ?thesis
    using assms raise_http_normalized [of status "name @ '' returned HTTP '' @ str_int status",
        OF _ _ _ retry_after_hint_nonneg [of "cd_float cd" headers]]
      retry_after_hint_nonneg [of "cd_float cd" headers]
    by (auto simp: Let_def raise_class_def normalized_error_ok_def split: option.splits)
qed (simp_all add: assms)

lemma anthropic_usage_cases:
  "anthropic_usage i n = Inl f \<Longrightarrow>
     f = Escaped ''ValidationError'' \<and> (\<exists>k. (i = Some k \<or> n = Some k) \<and> k < 0)"
  by (auto simp: anthropic_usage_def Let_def validate_usage_iff usage_pairs_def usage_unavailable_def
      token_count_ok_def split: option.splits if_splits)

lemma anthropic_usage_fields:
  "anthropic_usage i n = Inr u \<Longrightarrow>
     nu_input u = i \<and> nu_output u = n \<and> nu_visible u = None \<and> validate_usage u = Inr ()"
  by (auto simp: anthropic_usage_def Let_def usage_unavailable_def
      usage_unavailable_valid [unfolded usage_unavailable_def] split: option.splits if_splits)

lemma split_loop_eq:
  "split_loop ms (ss, ws) =
     (ss @ map (\<lambda>m. flatten_text (cm_content m))
             (filter (\<lambda>m. cm_role m = SystemRole \<or> cm_role m = DeveloperRole) ms),
      ws @ map (\<lambda>m. JObj [(''role'', JStr (if cm_role m = ModelRole then ''assistant'' else ''user'')),
                            (''content'', JStr (flatten_text (cm_content m)))])
             (filter (\<lambda>m. \<not> (cm_role m = SystemRole \<or> cm_role m = DeveloperRole)) ms))"
  by (induction ms arbitrary: ss ws) (simp_all add: Let_def)

lemma anthropic_usage_Inl:
  "(\<exists>f. anthropic_usage i n = Inl f) \<longleftrightarrow> (\<exists>k. (i = Some k \<or> n = Some k) \<and> k < 0)"
  by (auto simp: anthropic_usage_def Let_def validate_usage_iff usage_pairs_def usage_unavailable_def
      token_count_ok_def split: option.splits)

section \<open>Properties\<close>

definition lab_anthropic :: anthropic_adapter where
  "lab_anthropic =
     \<lparr>aa_name = ''managed-claude'', aa_upstream_model = ''claude'', aa_model_alias = ''lab-default'',
      aa_pricing = lab_providers, aa_provider_config_name = ''managed-claude'',
      aa_supports_sampling = False\<rparr>"

definition lab_sdk :: "sdk_error + sdk_message \<Rightarrow> anthropic_client" where
  "lab_sdk outcome =
     \<lparr>ac_create = (\<lambda>i now kw. (1, outcome)), ac_stream = (\<lambda>i now kw. (1, Inr [])),
      ac_retrieve = (\<lambda>now. None)\<rparr>"

text \<open>
  C40. The managed adapter normalises every exception of the SDK: a call of \<open>chat\<close> ends with
  something other than a result or a \<open>ProviderError\<close> only if the provider reports a negative
  token count. A result carries the reported counts as billed and leaves the visible count
  unavailable, and is valid.
\<close>

theorem anthropic_normalizes:
  assumes "aa_name a \<noteq> ''''" "cr_model request \<noteq> ''''"
  shows "case snd (anthropic_chat cd client a i now request ctx) of
      ReplyCrash s \<Rightarrow> \<exists>response. snd (ac_create client i now (create_kwargs a request False)) = Inr response
          \<and> (sm_input_tokens response < 0 \<or> sm_output_tokens response < 0)
    | ReplyError e \<Rightarrow> \<exists>x. snd (ac_create client i now (create_kwargs a request False)) = Inl x
    | Replied r \<Rightarrow> \<exists>response. snd (ac_create client i now (create_kwargs a request False)) = Inr response
          \<and> pr_provider r = aa_name a \<and> pr_model r = cr_model request \<and> validate_result r = Inr ()
          \<and> nu_input (pr_usage r) = Some (sm_input_tokens response)
          \<and> nu_output (pr_usage r) = Some (sm_output_tokens response) \<and> nu_visible (pr_usage r) = None
    | ReplyTimeout \<Rightarrow> False"
proof (cases "ac_create client i now (create_kwargs a request False)")
  case (Pair t outcome)
  show ?thesis
  proof (cases outcome)
    case (Inl e)
    then show ?thesis
      using Pair normalize_error_total [OF assms(1), of cd e] by (auto simp: anthropic_chat_def)
  next
    case (Inr response)
    let ?usage = "anthropic_usage (Some (sm_input_tokens response)) (Some (sm_output_tokens response))"
    show ?thesis
    proof (cases ?usage)
      case (Inl f)
      then show ?thesis
        using Pair Inr anthropic_usage_cases [OF Inl] by (auto simp: anthropic_chat_def anthropic_result_def)
    next
      case usage: (Inr u)
      let ?r = "\<lparr>pr_provider = aa_name a, pr_model = cr_model request,
        pr_output = [text_part (block_text (sm_content response))],
        pr_finish_reason = Some (finish_reason_of (sm_stop_reason response)),
        pr_usage = u, pr_extensions = []\<rparr>"
      have "validate_result ?r = Inr ()"
        using assms anthropic_usage_fields [OF usage]
        by (simp add: validate_result_def text_part_def validate_content_part_def)
      moreover from this have "anthropic_result a request response = Inr ?r"
        using usage by (simp add: anthropic_result_def)
      ultimately show ?thesis
        using Pair Inr anthropic_usage_fields [OF usage] by (simp add: anthropic_chat_def)
    qed
  qed
qed

theorem anthropic_normalizes_witness:
  "\<exists>e. snd (anthropic_chat lab_codec (lab_sdk (Inl (ApiStatus 529 []))) lab_anthropic 0 0
      (lab_request Public Economy) lab_ctx) = ReplyError e"
proof -
  have "aa_name lab_anthropic \<noteq> ''''" "cr_model (lab_request Public Economy) \<noteq> ''''"
    by (simp_all add: lab_anthropic_def lab_request_def)
  note anthropic_normalizes [OF this, where cd = lab_codec
      and client = "lab_sdk (Inl (ApiStatus 529 []))" and i = 0 and now = 0 and ctx = lab_ctx]
  then show ?thesis by (auto simp: lab_sdk_def split: chat_reply.splits)
qed

end
