(* ===== verification/Fallback_Liveness.thy ===== *)
theory Fallback_Liveness
  imports Fallback
begin

text \<open>
  Progress of the fallback executor: with an adapter for every permitted provider no call ends
  in a missing key, and a request is served whenever a permitted provider can serve it and
  those before it fail fast enough for fallback to reach it.
\<close>

section \<open>Every provider has an adapter\<close>

lemma chat_loop_keys:
  "(\<forall>n \<in> set names. ads n \<noteq> None) \<Longrightarrow>
   ex_outcome (chat_loop ads p rq ctx index names attempts now) \<noteq> Inl (MissingKey k)"
proof (induction names arbitrary: index attempts now)
  case (Cons n names)
  show ?case
    by (rule chat_loop_round [of "chat_loop ads p rq ctx index (n # names) attempts now" ads p rq ctx
          index n names attempts now, OF refl])
      (use Cons in \<open>auto split: attempt_result.splits\<close>)
qed simp

lemma stream_loop_keys:
  "(\<forall>n \<in> set names. ads n \<noteq> None) \<Longrightarrow>
   st_outcome (stream_loop ads p rq ctx hold closing index names history now) \<noteq> Inl (MissingKey k)"
proof (induction names arbitrary: index history now)
  case (Cons n names)
  show ?case
    by (rule stream_loop_round [of "stream_loop ads p rq ctx hold closing index (n # names) history now" ads p rq
          ctx hold closing index n names history now, OF refl])
      (use Cons in \<open>auto split: stream_end.splits option.splits\<close>)
qed simp

lemma permitted_defined:
  assumes "set (decision_providers dec) \<subseteq> set (dict_keys (rp_providers p))"
  shows "\<exists>names. permitted_providers p dec d = Inr names"
proof (cases "permitted_providers p dec d")
  case (Inl n)
  then show ?thesis
    using assms private_only_Inl [of "rp_providers p" "decision_providers dec" n]
    by (auto simp: permitted_providers_def executor_permits_def bind_res_Inl split: if_splits)
qed simp

lemma executor_keys:
  assumes "set (decision_providers dec) \<subseteq> set (dict_keys (rp_providers p))"
  shows "(\<forall>n \<in> set (decision_providers dec). chats n \<noteq> None) \<Longrightarrow>
      ex_outcome (executor_chat chats p rq ctx dec now) \<noteq> Inl (MissingKey k)"
    and "(\<forall>n \<in> set (decision_providers dec). streams n \<noteq> None) \<Longrightarrow>
      st_outcome (executor_stream streams p rq ctx hold closing dec history now) \<noteq> Inl (MissingKey k)"
proof -
  obtain names where names: "permitted_providers p dec (rm_data_class (cr_metadata rq)) = Inr names"
    using permitted_defined [OF assms] by blast
  note permitted_subset [OF names]
  then show "(\<forall>n \<in> set (decision_providers dec). chats n \<noteq> None) \<Longrightarrow>
      ex_outcome (executor_chat chats p rq ctx dec now) \<noteq> Inl (MissingKey k)"
    and "(\<forall>n \<in> set (decision_providers dec). streams n \<noteq> None) \<Longrightarrow>
      st_outcome (executor_stream streams p rq ctx hold closing dec history now) \<noteq> Inl (MissingKey k)"
    using names chat_loop_keys stream_loop_keys by (simp_all add: executor_chat_def executor_stream_def)
qed

section \<open>Progress\<close>

text \<open>
  A provider that answers a request within \<open>d\<close> seconds: with a result, or with an error the
  policy falls back on whose \<open>Retry-After\<close> hint is at most \<open>h\<close> seconds.
\<close>

definition responsive ::
    "routing_policy \<Rightarrow> chat_request \<Rightarrow> request_context \<Rightarrow> rat \<Rightarrow> rat \<Rightarrow> chat_adapter \<Rightarrow> bool" where
  "responsive p rq ctx d h a \<longleftrightarrow>
     (\<forall>i now. 0 \<le> fst (a i now rq ctx) \<and> fst (a i now rq ctx) \<le> d
        \<and> (case snd (a i now rq ctx) of
             Replied r \<Rightarrow> True
           | ReplyError e \<Rightarrow> fallback_allowed p e
               \<and> (case ne_retry_after e of None \<Rightarrow> True | Some x \<Rightarrow> x \<le> h)
           | _ \<Rightarrow> False))"

definition serves :: "chat_request \<Rightarrow> request_context \<Rightarrow> chat_adapter \<Rightarrow> bool" where
  "serves rq ctx a \<longleftrightarrow> (\<forall>i now. \<exists>r. snd (a i now rq ctx) = Replied r)"

lemma attempt_in_budget:
  assumes "responsive p rq ctx d h a" "d < budget"
  shows "\<exists>t. 0 \<le> t \<and> t \<le> d \<and>
     ((\<exists>r. chat_attempt a i now rq ctx budget = (now + t, AttemptDone r) \<and> snd (a i now rq ctx) = Replied r)
      \<or> (\<exists>e. chat_attempt a i now rq ctx budget = (now + t, AttemptFailed e)
            \<and> snd (a i now rq ctx) = ReplyError e \<and> fallback_allowed p e
            \<and> (case ne_retry_after e of None \<Rightarrow> True | Some x \<Rightarrow> x \<le> h)))"
proof -
  obtain t reply where a: "a i now rq ctx = (t, reply)" by (cases "a i now rq ctx")
  have r: "0 \<le> fst (a i now rq ctx) \<and> fst (a i now rq ctx) \<le> d
        \<and> (case snd (a i now rq ctx) of
             Replied r \<Rightarrow> True
           | ReplyError e \<Rightarrow> fallback_allowed p e
               \<and> (case ne_retry_after e of None \<Rightarrow> True | Some x \<Rightarrow> x \<le> h)
           | _ \<Rightarrow> False)"
    using assms(1) unfolding responsive_def by blast
  then show ?thesis
    using assms(2) by (intro exI [of _ t]) (cases reply; simp add: a chat_attempt_def)
qed

lemma wait_short:
  assumes "case ne_retry_after e of None \<Rightarrow> True | Some x \<Rightarrow> x \<le> h" "0 \<le> h"
    and "now + h < ts_instant (ctx_deadline_at ctx)"
  shows "\<exists>now'. wait_for_retry_after e ctx now = (True, now') \<and> now \<le> now' \<and> now' \<le> now + h"
  using assms
  by (cases "ne_retry_after e") (auto simp: wait_for_retry_after_def remaining_seconds_def Let_def)

lemma chat_loop_serves:
  assumes "\<forall>n \<in> set names. \<exists>a. ads n = Some a \<and> responsive p rq ctx d h a"
    and "\<exists>n \<in> set names. \<exists>a. ads n = Some a \<and> serves rq ctx a"
    and "d < to_per_attempt (rp_timeouts p)" "0 \<le> d" "0 \<le> h"
    and "now + of_nat (length names) * (d + h) < ts_instant (ctx_deadline_at ctx)"
  shows "\<exists>fr. ex_outcome (chat_loop ads p rq ctx index names attempts now) = Inr fr
     \<and> ex_time (chat_loop ads p rq ctx index names attempts now) \<le> now + of_nat (length names) * (d + h)"
  using assms(1,2,6)
proof (induction names arbitrary: index attempts now)
  case (Cons n names)
  let ?dl = "ts_instant (ctx_deadline_at ctx)" and ?k = "of_nat (length names) * (d + h) :: rat"
  obtain a where a: "ads n = Some a" "responsive p rq ctx d h a" using Cons.prems(1) by auto
  have k: "0 \<le> ?k" using assms(4,5) by simp
  have whole: "now + of_nat (length (n # names)) * (d + h) = now + (d + h) + ?k"
    by (simp add: distrib_right)
  have room: "now + (d + h) + ?k < ?dl" using Cons.prems(3) whole by simp
  have live: "0 < remaining_seconds ctx now" "d < chat_budget p ctx now"
    using room k assms(3-5) unfolding remaining_seconds_def chat_budget_def min_less_iff_conj
    by linarith+
  obtain t where t: "0 \<le> t" "t \<le> d" and att:
    "(\<exists>r. chat_attempt a index now rq ctx (chat_budget p ctx now) = (now + t, AttemptDone r)
        \<and> snd (a index now rq ctx) = Replied r)
      \<or> (\<exists>e. chat_attempt a index now rq ctx (chat_budget p ctx now) = (now + t, AttemptFailed e)
            \<and> snd (a index now rq ctx) = ReplyError e \<and> fallback_allowed p e
            \<and> (case ne_retry_after e of None \<Rightarrow> True | Some x \<Rightarrow> x \<le> h))"
    using attempt_in_budget [OF a(2) live(2)] by blast
  from att show ?case
  proof (elim disjE exE conjE)
    fix r
    assume "chat_attempt a index now rq ctx (chat_budget p ctx now) = (now + t, AttemptDone r)"
    moreover have "now + t \<le> now + of_nat (length (n # names)) * (d + h)"
      using t k assms(5) whole by linarith
    ultimately show ?thesis using a(1) live(1) by simp
  next
    fix e
    assume e: "chat_attempt a index now rq ctx (chat_budget p ctx now) = (now + t, AttemptFailed e)"
      "snd (a index now rq ctx) = ReplyError e" "fallback_allowed p e"
      "case ne_retry_after e of None \<Rightarrow> True | Some x \<Rightarrow> x \<le> h"
    have "\<not> serves rq ctx a" unfolding serves_def using e(2) by (metis chat_reply.distinct(1))
    then have good: "\<exists>n \<in> set names. \<exists>a. ads n = Some a \<and> serves rq ctx a"
      using Cons.prems(2) a(1) by auto
    then have rest: "names \<noteq> []" by auto
    obtain now'' where w: "wait_for_retry_after e ctx (now + t) = (True, now'')"
      "now + t \<le> now''" "now'' \<le> now + t + h"
      using wait_short [OF e(4) assms(5), of "now + t" ctx] room k t by auto
    have "now'' + ?k < ?dl" using w(3) room t by linarith
    with Cons.IH [OF _ good this, of "Suc index" "attempts @ [attempt_failed n e]"] Cons.prems(1)
    obtain fr where fr: "ex_outcome (chat_loop ads p rq ctx (Suc index) names
          (attempts @ [attempt_failed n e]) now'') = Inr fr"
      "ex_time (chat_loop ads p rq ctx (Suc index) names (attempts @ [attempt_failed n e]) now'')
        \<le> now'' + ?k" by auto
    moreover have "now'' + ?k \<le> now + of_nat (length (n # names)) * (d + h)"
      using w(3) t whole by linarith
    ultimately show ?thesis
      using a(1) live(1) e(1,3) rest w(1) by (auto simp: Let_def)
  qed
qed simp

section \<open>Properties\<close>

text \<open>
  C16. A request is served when it can be: if every permitted provider answers within \<open>d\<close>
  seconds, with a result or an error the policy falls back on whose hint is at most \<open>h\<close>, if one
  of them always answers with a result, and if the deadline leaves \<open>d + h\<close> seconds for each,
  then \<open>chat\<close> returns a result within that time. Fallback never gives up early.
\<close>

theorem executor_serves:
  assumes "permitted_providers p dec (rm_data_class (cr_metadata rq)) = Inr names"
    and "\<forall>n \<in> set names. \<exists>a. ads n = Some a \<and> responsive p rq ctx d h a"
    and "\<exists>n \<in> set names. \<exists>a. ads n = Some a \<and> serves rq ctx a"
    and "d < to_per_attempt (rp_timeouts p)" "0 \<le> d" "0 \<le> h"
    and "now + of_nat (length names) * (d + h) < ts_instant (ctx_deadline_at ctx)"
  shows "\<exists>fr. ex_outcome (executor_chat ads p rq ctx dec now) = Inr fr
     \<and> ex_time (executor_chat ads p rq ctx dec now) \<le> now + of_nat (length names) * (d + h)"
  using chat_loop_serves [OF assms(2-7)] assms(1) by (simp add: executor_chat_def)

theorem executor_serves_witness:
  "\<exists>fr. ex_outcome (executor_chat busy_adapters lab_policy (lab_request Public Economy) lab_ctx
      lab_decision 0) = Inr fr"
proof -
  have names: "permitted_providers lab_policy lab_decision (rm_data_class (cr_metadata (lab_request Public Economy)))
      = Inr [''private-vllm'', ''managed-economy'']"
    by code_simp
  have "fallback_allowed lab_policy busy_error"
    by (simp add: fallback_allowed_def lab_policy_def busy_error_def)
  then have "\<forall>n \<in> set [''private-vllm'', ''managed-economy'']. \<exists>a. busy_adapters n = Some a
      \<and> responsive lab_policy (lab_request Public Economy) lab_ctx 1 1 a"
    by (simp add: responsive_def busy_error_def)
  moreover have "\<exists>n \<in> set [''private-vllm'', ''managed-economy'']. \<exists>a. busy_adapters n = Some a
      \<and> serves (lab_request Public Economy) lab_ctx a"
    by (simp add: serves_def)
  ultimately show ?thesis
    using executor_serves [OF names, of busy_adapters lab_ctx 1 1 0]
    by (simp add: lab_ctx_def lab_policy_def lab_timeouts_def)
qed


section \<open>Streams that never end by themselves\<close>

text \<open>
  An endless source yields an event for every \<open>anext\<close>; a script that shows its first \<open>n\<close>
  events is enough fuel for the loop when no others of them fit before the deadline of the attempt.
\<close>

type_synonym endless_source =
  "nat \<Rightarrow> rat \<Rightarrow> chat_request \<Rightarrow> request_context \<Rightarrow> nat \<Rightarrow> rat \<times> stream_event"

definition first_events ::
    "nat \<Rightarrow> (string \<Rightarrow> endless_source option) \<Rightarrow> string \<Rightarrow> stream_adapter option" where
  "first_events n sources name =
     map_option (\<lambda>s i now rq ctx. map (s i now rq ctx) [0..<n]) (sources name)"

lemma exhausted_attempt:
  assumes "ad \<le> now"
  shows "stream_attempt t ctx ad hold k script now = ([], now, StreamFailed budget_exhausted)"
proof -
  have "stream_budget t ctx ad started now \<le> 0" for started
    using assms by (auto simp: stream_budget_def Let_def min_le_iff_disj)
  then show ?thesis by (cases script) (auto simp: Let_def)
qed

lemma endless_attempt:
  assumes "\<And>k. d \<le> fst (src k) + hold k" "ad \<le> now + of_nat n * d"
  shows "stream_attempt t ctx ad hold k (map src [k..<k + n] @ others) now
       = stream_attempt t ctx ad hold k (map src [k..<k + n]) now
    \<and> length (fst (stream_attempt t ctx ad hold k (map src [k..<k + n]) now)) \<le> n
    \<and> ((\<forall>k. snd (src k) \<noteq> EndEvent) \<longrightarrow>
        snd (snd (stream_attempt t ctx ad hold k (map src [k..<k + n]) now)) \<noteq> StreamReturned)"
  using assms(2)
proof (induction n arbitrary: k now)
  case 0
  then have "ad \<le> now" by simp
  from exhausted_attempt [OF this] show ?case by (simp del: stream_attempt.simps)
next
  case (Suc n)
  obtain w ev where x: "src k = (w, ev)" by fastforce
  have first: "map src [k..<k + Suc n] = (w, ev) # map src [Suc k..<Suc k + n]"
    by (subst upt_conv_Cons) (simp_all add: x del: upt_Suc)
  have "of_nat (Suc n) * d = d + of_nat n * d" by (simp add: distrib_right)
  then have later: "ad \<le> now + w + hold k + of_nat n * d"
    using Suc.prems assms(1) [of k] x by simp
  have ih: "stream_attempt t ctx ad hold (Suc k) (map src [Suc k..<Suc k + n] @ others) (now + w + hold k)
       = stream_attempt t ctx ad hold (Suc k) (map src [Suc k..<Suc k + n]) (now + w + hold k)
    \<and> length (fst (stream_attempt t ctx ad hold (Suc k) (map src [Suc k..<Suc k + n]) (now + w + hold k))) \<le> n
    \<and> ((\<forall>k. snd (src k) \<noteq> EndEvent) \<longrightarrow> snd (snd (stream_attempt t ctx ad hold (Suc k)
          (map src [Suc k..<Suc k + n]) (now + w + hold k))) \<noteq> StreamReturned)"
    by (rule Suc.IH [OF later])
  have kind: "ev \<noteq> EndEvent" if "\<forall>k. snd (src k) \<noteq> EndEvent" using that x by (metis snd_conv)
  show ?case
    unfolding first
    by (cases ev) (use ih kind in \<open>auto simp: Let_def split: prod.split\<close>)
qed

lemma first_events_attempt:
  assumes "\<And>k. d \<le> fst (src k) + hold k" "to_per_attempt t \<le> of_nat n * d" "n \<le> m"
  shows "stream_attempt t ctx (now + to_per_attempt t) hold 0 (map src [0..<m]) now
       = stream_attempt t ctx (now + to_per_attempt t) hold 0 (map src [0..<n]) now"
    and "length (fst (stream_attempt t ctx (now + to_per_attempt t) hold 0 (map src [0..<n]) now)) \<le> n"
    and "(\<forall>k. snd (src k) \<noteq> EndEvent) \<Longrightarrow>
      snd (snd (stream_attempt t ctx (now + to_per_attempt t) hold 0 (map src [0..<n]) now)) \<noteq> StreamReturned"
proof -
  have "now + to_per_attempt t \<le> now + of_nat n * d" using assms(2) by simp
  note * = endless_attempt [where k = 0 and others = "map src [n..<m]", OF assms(1) this, of t ctx]
  have "map src [0..<m] = map src [0..<n] @ map src [n..<m]"
    using assms(3) upt_add_eq_append [of 0 n "m - n"] by simp
  with * show "stream_attempt t ctx (now + to_per_attempt t) hold 0 (map src [0..<m]) now
       = stream_attempt t ctx (now + to_per_attempt t) hold 0 (map src [0..<n]) now"
    and "length (fst (stream_attempt t ctx (now + to_per_attempt t) hold 0 (map src [0..<n]) now)) \<le> n"
    and "(\<forall>k. snd (src k) \<noteq> EndEvent) \<Longrightarrow>
      snd (snd (stream_attempt t ctx (now + to_per_attempt t) hold 0 (map src [0..<n]) now)) \<noteq> StreamReturned"
    by simp_all
qed

lemma endless_loop:
  assumes "\<forall>name s i now k. sources name = Some s \<longrightarrow> d \<le> fst (s i now rq ctx k) + hold k"
    and "to_per_attempt (rp_timeouts p) \<le> of_nat n * d" "n \<le> m"
  shows "stream_loop (first_events m sources) p rq ctx hold closing index names history now
       = stream_loop (first_events n sources) p rq ctx hold closing index names history now
    \<and> length (st_chunks (stream_loop (first_events n sources) p rq ctx hold closing index names history now)) \<le> n
    \<and> ((\<forall>name s i now k. sources name = Some s \<longrightarrow> snd (s i now rq ctx k) \<noteq> EndEvent) \<longrightarrow>
        st_outcome (stream_loop (first_events n sources) p rq ctx hold closing index names history now) \<noteq> Inr ())"
proof -
  define never where
    "never \<longleftrightarrow> (\<forall>name s i now k. sources name = Some s \<longrightarrow> snd (s i now rq ctx k) \<noteq> EndEvent)"
  show ?thesis
    unfolding never_def [symmetric]
  proof (induction names arbitrary: index history now)
    case (Cons name names)
    show ?case
    proof (cases "sources name")
      case None
      then show ?thesis by (simp add: first_events_def)
    next
      case (Some s)
      let ?at = "stream_attempt (rp_timeouts p) ctx (now + to_per_attempt (rp_timeouts p)) hold 0
        (map (s index now rq ctx) [0..<n]) now"
      obtain cs now' res where at: "?at = (cs, now', res)" by (cases ?at)
      have fast: "d \<le> fst (s index now rq ctx k) + hold k" for k using assms(1) Some by blast
      note * = first_events_attempt [where src = "s index now rq ctx", OF fast assms(2,3), of ctx now]
      have ends: "never \<longrightarrow> res \<noteq> StreamReturned"
        using *(3) Some at by (auto simp: never_def)
      have len: "length cs \<le> n" using *(2) at by simp
      show ?thesis
        using Some *(1) at len ends Cons.IH
        by (cases res) (auto simp: first_events_def Let_def split: prod.split option.split)
    qed
  qed simp
qed

text \<open>
  C9. The loop over a stream ends even if the upstream never stops: when every event and the
  consumer's hold together take at least some time, the first \<open>n\<close> events of each provider, as
  many as fit in the attempt's timeout, decide the whole run, at most \<open>n\<close> chunks are passed on,
  and if no provider ends its stream by itself the run ends with an error.
\<close>

theorem endless_streams_end:
  assumes "\<forall>name s i now k. sources name = Some s \<longrightarrow> d \<le> fst (s i now rq ctx k) + hold k"
    and "to_per_attempt (rp_timeouts p) \<le> of_nat n * d" "n \<le> m"
  shows "executor_stream (first_events m sources) p rq ctx hold closing dec history now
       = executor_stream (first_events n sources) p rq ctx hold closing dec history now
    \<and> length (st_chunks (executor_stream (first_events n sources) p rq ctx hold closing dec history now)) \<le> n
    \<and> ((\<forall>name s i now k. sources name = Some s \<longrightarrow> snd (s i now rq ctx k) \<noteq> EndEvent) \<longrightarrow>
        st_outcome (executor_stream (first_events n sources) p rq ctx hold closing dec history now) \<noteq> Inr ())"
  unfolding executor_stream_def using endless_loop [OF assms] by (simp split: sum.split)

text \<open>A provider that sends a chunk each second for ever.\<close>

definition trickling :: "string \<Rightarrow> endless_source option" where
  "trickling name = Some (\<lambda>i now rq ctx k. (1, ChunkEvent (lab_chunk (int k) False)))"

theorem endless_streams_end_witness:
  "\<exists>e. st_outcome (executor_stream (first_events 1000 trickling) lab_policy (lab_request Public Economy)
         lab_ctx (\<lambda>k. 0) (\<lambda>_. (0, None)) lab_decision [] 0) = Inl e
     \<and> length (st_chunks (executor_stream (first_events 1000 trickling) lab_policy
         (lab_request Public Economy) lab_ctx (\<lambda>k. 0) (\<lambda>_. (0, None)) lab_decision [] 0)) \<le> 3"
proof -
  have "to_per_attempt (rp_timeouts lab_policy) \<le> of_nat 3 * (1 :: rat)"
    by (simp add: lab_policy_def lab_timeouts_def)
  moreover have "sources = trickling \<Longrightarrow> sources name = Some s \<Longrightarrow> (1 :: rat) \<le> fst (s i now rq ctx k) + 0
      \<and> snd (s i now rq ctx k) \<noteq> EndEvent" for sources name s i now rq ctx k
    by (auto simp: trickling_def)
  ultimately have "st_outcome (executor_stream (first_events 1000 trickling) lab_policy
        (lab_request Public Economy) lab_ctx (\<lambda>k. 0) (\<lambda>_. (0, None)) lab_decision [] 0) \<noteq> Inr ()
     \<and> length (st_chunks (executor_stream (first_events 1000 trickling) lab_policy
         (lab_request Public Economy) lab_ctx (\<lambda>k. 0) (\<lambda>_. (0, None)) lab_decision [] 0)) \<le> 3"
    using endless_streams_end [where sources = trickling and d = 1 and n = 3 and m = 1000
        and p = lab_policy and rq = "lab_request Public Economy" and ctx = lab_ctx
        and hold = "\<lambda>k. 0" and closing = "\<lambda>_. (0, None)" and dec = lab_decision and history = "[]" and now = 0]
    by auto
  then show ?thesis by (metis (full_types) old.sum.exhaust old.unit.exhaust)
qed

end
