(* ===== verification/App_Wiring.thy ===== *)
theory App_Wiring
  imports Gateway_Routes Anthropic_Adapter Fallback_Liveness
begin

text \<open>
  The application factory (\<open>api/app.py\<close>): one adapter per routing provider, built from the
  configuration and the environment, and the gateway state with its executor. An adapter is
  first the description of what is constructed, \<open>adapter_spec\<close>; what the httpx client or the
  SDK does behind given settings is the parameter \<open>upstreams\<close>, with which a description
  becomes the adapter the executor calls.
\<close>

section \<open>Construction\<close>

record client_settings =
  cs_base_url :: "string option"
  cs_api_key :: "string option"
  cs_read_timeout :: rat
  cs_connect_timeout :: rat
  cs_max_retries :: nat

datatype adapter_spec =
    OpenAISpec openai_adapter client_settings
  | AnthropicSpec anthropic_adapter client_settings

text \<open>The \<open>ConfigurationError\<close>s of this module, and the \<open>KeyError\<close> of a subscript.\<close>

datatype wiring_error =
    MissingEnv string
  | MultipleModels string
  | UnknownAdapter string "string option"
  | NoAdapter "string list"
  | WiringKey string

definition require_env :: "(string \<Rightarrow> string option) \<Rightarrow> string \<Rightarrow> wiring_error + string" where
  "require_env env name =
     (if truthy_str (env name) then Inr (the (env name)) else Inl (MissingEnv name))"

definition single_model_alias ::
    "(string \<times> provider_model_config) list \<Rightarrow> string \<Rightarrow> wiring_error + string" where
  "single_model_alias models provider_name =
     (if length models \<noteq> 1 then Inl (MultipleModels provider_name) else Inr (fst (hd models)))"

definition managed_adapters :: "string list" where
  "managed_adapters = [''anthropic'']"

definition build_openai ::
    "(string \<Rightarrow> string option) \<Rightarrow> timeout_config \<Rightarrow> string \<Rightarrow> provider_config \<Rightarrow> string
      \<Rightarrow> wiring_error + adapter_spec" where
  "build_openai env t route_name provider upstream_model =
     bind_res (require_env env (or_str (pcf_base_url_env provider) '''')) (\<lambda>base_url.
       let api_key = (if truthy_str (pcf_api_key_env provider)
                      then env (the (pcf_api_key_env provider)) else None)
       in Inr (OpenAISpec
            \<lparr>oa_name = route_name, oa_upstream_model = upstream_model, oa_api_key = api_key\<rparr>
            \<lparr>cs_base_url = Some base_url, cs_api_key = None, cs_read_timeout = to_response_header t,
             cs_connect_timeout = to_connect t, cs_max_retries = 0\<rparr>))"

definition build_anthropic ::
    "(string \<Rightarrow> string option) \<Rightarrow> timeout_config \<Rightarrow> providers_document \<Rightarrow> string \<Rightarrow> string
      \<Rightarrow> provider_config \<Rightarrow> string \<Rightarrow> provider_model_config \<Rightarrow> wiring_error + adapter_spec" where
  "build_anthropic env t pricing route_name provider_name provider model_alias m =
     bind_res (require_env env (or_str (pcf_api_key_env provider) '''')) (\<lambda>api_key.
     bind_res (case pcf_base_url_env provider of
                 None \<Rightarrow> Inr None
               | Some n \<Rightarrow> bind_res (require_env env n) (\<lambda>u. Inr (Some u))) (\<lambda>base_url.
       Inr (AnthropicSpec
            \<lparr>aa_name = route_name, aa_upstream_model = pmc_upstream_model m,
             aa_model_alias = model_alias, aa_pricing = pricing,
             aa_provider_config_name = provider_name,
             aa_supports_sampling = pmc_supports_sampling m\<rparr>
            \<lparr>cs_base_url = base_url, cs_api_key = Some api_key,
             cs_read_timeout = to_response_header t, cs_connect_timeout = to_connect t,
             cs_max_retries = 0\<rparr>)))"

definition build_adapter ::
    "gateway_config \<Rightarrow> (string \<Rightarrow> string option) \<Rightarrow> string \<times> routing_provider_config
      \<Rightarrow> wiring_error + string \<times> adapter_spec" where
  "build_adapter cfg env entry =
     (let (route_name, route) = entry;
          t = rp_timeouts (gc_routing cfg);
          provider_name = or_str (rpc_provider route) route_name
      in case map_of (pd_providers (gc_providers cfg)) provider_name of
           None \<Rightarrow> Inl (WiringKey provider_name)
         | Some provider \<Rightarrow>
             bind_res (if truthy_str (rpc_model_alias route) then Inr (the (rpc_model_alias route))
                       else single_model_alias (pcf_models provider) provider_name) (\<lambda>model_alias.
               case map_of (pcf_models provider) model_alias of
                 None \<Rightarrow> Inl (WiringKey model_alias)
               | Some m \<Rightarrow>
                   bind_res
                     (if \<not> rpc_managed route
                      then build_openai env t route_name provider (pmc_upstream_model m)
                      else if pcf_adapter provider \<in> Some ` set managed_adapters
                      then build_anthropic env t (gc_providers cfg) route_name provider_name
                             provider model_alias m
                      else Inl (UnknownAdapter provider_name (pcf_adapter provider)))
                     (\<lambda>spec. Inr (route_name, spec))))"

definition build_adapters ::
    "gateway_config \<Rightarrow> (string \<Rightarrow> string option) \<Rightarrow> wiring_error + (string \<times> adapter_spec) list"
where
  "build_adapters cfg env = traverse (build_adapter cfg env) (rp_providers (gc_routing cfg))"

section \<open>The adapters at work\<close>

record upstreams =
  up_codec :: codec
  up_http :: "client_settings \<Rightarrow> http_client"
  up_sdk :: "client_settings \<Rightarrow> anthropic_client"

text \<open>The price of a managed model on an accepted document always has a valid currency.\<close>

fun adapter_of :: "upstreams \<Rightarrow> adapter_spec \<Rightarrow> provider_adapter" where
  "adapter_of up (OpenAISpec a s) =
     \<lparr>pa_chat = openai_chat (up_codec up) (up_http up s) a,
      pa_stream = openai_stream (up_codec up) (up_http up s) a,
      pa_price = openai_price\<rparr>"
| "adapter_of up (AnthropicSpec a s) =
     \<lparr>pa_chat = anthropic_chat (up_codec up) (up_sdk up s) a,
      pa_stream = anthropic_stream (up_codec up) (up_sdk up s) a,
      pa_price = (\<lambda>u m. case anthropic_price a u m of Some (Inr x) \<Rightarrow> Some x | _ \<Rightarrow> None)\<rparr>"

definition create_app ::
    "gateway_config \<Rightarrow> auth_config \<Rightarrow> (string \<Rightarrow> string option) \<Rightarrow> upstreams
      \<Rightarrow> (string \<times> provider_adapter) list option \<Rightarrow> wiring_error + gateway_state" where
  "create_app cfg auth env up given =
     bind_res (case given of
                 Some adapters \<Rightarrow> Inr adapters
               | None \<Rightarrow> bind_res (build_adapters cfg env)
                           (\<lambda>specs. Inr (map (\<lambda>(n, s). (n, adapter_of up s)) specs)))
       (\<lambda>adapters.
          let missing = set_difference (dict_keys (rp_providers (gc_routing cfg))) (dict_keys adapters)
          in if missing \<noteq> [] then Inl (NoAdapter missing)
             else Inr \<lparr>gs_config = cfg, gs_auth = auth, gs_adapters = map_of adapters,
                       gs_model_aliases = known_model_aliases cfg\<rparr>)"

section \<open>Lemmas\<close>

fun spec_name :: "adapter_spec \<Rightarrow> string" where
  "spec_name (OpenAISpec a s) = oa_name a"
| "spec_name (AnthropicSpec a s) = aa_name a"

lemma build_adapter_name:
  "build_adapter cfg env entry = Inr (n, spec) \<Longrightarrow> n = fst entry \<and> spec_name spec = fst entry"
  by (cases entry)
    (auto simp: build_adapter_def build_openai_def build_anthropic_def Let_def bind_res_Inr
      split: option.splits if_splits)

lemma build_adapters_names:
  assumes "build_adapters cfg env = Inr specs" "(n, spec) \<in> set specs"
  shows "spec_name spec = n"
  using traverse_member [OF assms(1) [unfolded build_adapters_def] assms(2)] build_adapter_name
  by metis

lemma traverse_keys:
  "traverse f xs = Inr ys \<Longrightarrow> (\<And>x y. f x = Inr y \<Longrightarrow> fst y = fst x) \<Longrightarrow> map fst ys = map fst xs"
  by (induction xs arbitrary: ys) (auto simp: bind_res_Inr)

lemma build_adapters_keys:
  assumes "build_adapters cfg env = Inr specs"
  shows "dict_keys specs = dict_keys (rp_providers (gc_routing cfg))"
  using traverse_keys [OF assms [unfolded build_adapters_def]] build_adapter_name
  by (metis dict_keys_def prod.collapse)

lemma adapter_of_stream: "provider_stream (spec_name spec) (pa_stream (adapter_of up spec))"
  by (cases spec) (simp_all add: openai_contract.provider_stream_axioms anthropic_contract.provider_stream_axioms)

lemma create_app_built:
  assumes "create_app cfg auth env up None = Inr st"
  obtains specs where "build_adapters cfg env = Inr specs"
    and "gs_adapters st = map_of (map (\<lambda>(n, s). (n, adapter_of up s)) specs)"
    and "gs_config st = cfg"
  using assms by (auto simp: create_app_def Let_def bind_res_Inr split: if_splits)

lemma create_app_covers:
  assumes "create_app cfg auth env up given = Inr st" "n \<in> set (dict_keys (rp_providers (gc_routing cfg)))"
  shows "\<exists>a. gs_adapters st n = Some a"
proof -
  obtain adapters where "set (dict_keys (rp_providers (gc_routing cfg))) \<subseteq> set (dict_keys adapters)"
    "gs_adapters st = map_of adapters"
    using assms(1) by (auto simp: create_app_def Let_def bind_res_Inr split: if_splits)
  with assms(2) show ?thesis by (metis in_dict_keysE subsetD)
qed

text \<open>The streams of the adapters the factory builds, none if it raises.\<close>

definition wired_streams ::
    "gateway_config \<Rightarrow> (string \<Rightarrow> string option) \<Rightarrow> upstreams \<Rightarrow> string \<Rightarrow> stream_adapter option" where
  "wired_streams cfg env up n =
     (case build_adapters cfg env of
        Inl e \<Rightarrow> None
      | Inr specs \<Rightarrow> map_option pa_stream (map_of (map (\<lambda>(n, s). (n, adapter_of up s)) specs) n))"

interpretation wired: provider_pool "wired_streams cfg env up" for cfg env up
proof
  fix n s request i now ctx
  assume "wired_streams cfg env up n = Some s"
  then obtain specs spec where specs: "build_adapters cfg env = Inr specs" "(n, spec) \<in> set specs"
    and s: "s = pa_stream (adapter_of up spec)"
    by (fastforce simp: wired_streams_def split: sum.splits dest: map_of_SomeD)
  show "well_formed_from n (cr_model request) 0 (s i now request ctx)"
    using provider_stream.well_formed [OF adapter_of_stream [of spec up]] build_adapters_names [OF specs]
    by (simp add: s)
qed

lemma create_app_streams:
  assumes "create_app cfg auth env up None = Inr st"
  shows "gs_stream st = wired_streams cfg env up"
  using create_app_built [OF assms] by (metis (no_types, lifting) ext gs_stream_def sum.simps(6) wired_streams_def)

lemma decision_known:
  assumes "validate_policy p = Inr ()" "select_route p d w q = Inr dec"
  shows "set (decision_providers dec) \<subseteq> set (dict_keys (rp_providers p))"
proof
  fix n
  assume n: "n \<in> set (decision_providers dec)"
  obtain r where r: "r \<in> set (rp_rules p)" "restricted_route p d (rr_route r) = Inr (decision_providers dec)"
    by (rule select_route_rule [OF assms(2)])
  show "n \<in> set (dict_keys (rp_providers p))"
    using validated_rule(1) [OF assms(1) r(1) router_filter.keep_subset [OF r(2) n]] .
qed

section \<open>Properties\<close>

definition lab_environment :: "string \<Rightarrow> string option" where
  "lab_environment =
     map_of [(''PRIVATE_VLLM_BASE_URL'', ''http://vllm''), (''MANAGED_PRIMARY_API_KEY'', ''key'')]"

definition lab_upstreams :: upstreams where
  "lab_upstreams =
     \<lparr>up_codec = lab_codec, up_http = (\<lambda>s. lab_client),
      up_sdk = (\<lambda>s. lab_sdk (Inl ApiTimeout))\<rparr>"

lemma lab_create:
  "\<exists>st. create_app lab_gateway a lab_environment lab_upstreams None = Inr st"
proof -
  have "\<exists>specs. build_adapters lab_gateway lab_environment = Inr specs"
    by (simp add: build_adapters_def lab_policy_def lab_providers_def build_adapter_def Let_def
        build_openai_def build_anthropic_def require_env_def lab_environment_def or_str_def
        truthy_str_def single_model_alias_def managed_adapters_def)
  then obtain specs where specs: "build_adapters lab_gateway lab_environment = Inr specs" ..
  let ?named = "map (\<lambda>(n, s). (n, adapter_of lab_upstreams s)) specs"
  have "dict_keys ?named = dict_keys (rp_providers lab_policy)"
    using build_adapters_keys [OF specs] by (simp add: dict_keys_def split_def comp_def)
  then have "set_difference (dict_keys (rp_providers (gc_routing lab_gateway))) (dict_keys ?named) = []"
    by simp
  with specs show ?thesis by (simp add: create_app_def Let_def)
qed

text \<open>
  C17. Streams of a wired gateway are well-formed: with the adapters the factory builds, whatever
  the upstreams send, the chunks of a stream all come from one provider, carry its route name
  and the requested model, are valid and are numbered 0, 1, 2, ...; a stream
  that ends normally ends with a final chunk; and a final chunk is only ever the last one, after
  which the stream ends normally, unless the attempt's time is over before its end is seen (then
  the run fails with the \<open>no replay\<close> error over a logged timeout) or the closing of the
  provider's iterator raises.
\<close>

theorem wired_streams_well_formed:
  assumes "create_app cfg auth env up None = Inr st"
  shows "served_by_one (cr_model request) closing
    (executor_stream (gs_stream st) p request ctx hold closing dec history now)"
  unfolding create_app_streams [OF assms] by (rule wired.executor_served)

theorem wired_streams_well_formed_witness:
  "\<exists>st. create_app lab_gateway (gs_auth lab_state) lab_environment lab_upstreams None = Inr st
    \<and> served_by_one ''lab-default'' (\<lambda>_. (0, None)) (executor_stream (gs_stream st) lab_policy
          (lab_request Public Economy) lab_ctx (\<lambda>_. 0) (\<lambda>_. (0, None)) lab_decision [] 0)"
proof -
  obtain st where st: "create_app lab_gateway (gs_auth lab_state) lab_environment lab_upstreams None = Inr st"
    using lab_create by blast
  from wired_streams_well_formed [OF st, of "lab_request Public Economy"] st show ?thesis
    by (auto simp: lab_request_def)
qed

text \<open>
  A wired gateway never asks for a missing adapter: once the factory has succeeded, with
  built or given adapters, no decision of the router makes the executor subscript a provider
  without adapter or route, so the \<open>KeyError\<close> branches of both calls are unreachable.
\<close>

theorem wired_executor_complete:
  assumes "create_app cfg auth env up given = Inr st" "validate_policy (gc_routing cfg) = Inr ()"
    and "select_route (gc_routing cfg) d w q = Inr dec"
  shows "ex_outcome (executor_chat (gs_chat st) (gc_routing cfg) request ctx dec now) \<noteq> Inl (MissingKey k)
    \<and> st_outcome (executor_stream (gs_stream st) (gc_routing cfg) request ctx hold closing dec history now)
        \<noteq> Inl (MissingKey k)"
proof -
  note known = decision_known [OF assms(2,3)]
  have "\<forall>n \<in> set (decision_providers dec). gs_chat st n \<noteq> None \<and> gs_stream st n \<noteq> None"
    using create_app_covers [OF assms(1)] known by (fastforce simp: gs_chat_def gs_stream_def)
  then show ?thesis using executor_keys [OF known] by blast
qed

theorem wired_executor_complete_witness:
  "\<exists>st. create_app lab_gateway (gs_auth lab_state) lab_environment lab_upstreams None = Inr st
    \<and> ex_outcome (executor_chat (gs_chat st) lab_policy (lab_request Public Economy) lab_ctx lab_decision 0)
        \<noteq> Inl (MissingKey ''private-vllm'')"
proof -
  obtain st where st: "create_app lab_gateway (gs_auth lab_state) lab_environment lab_upstreams None = Inr st"
    using lab_create by blast
  from wired_executor_complete [OF st, of Public "''generic''" Economy lab_decision] lab_policy_valid
    lab_route(2) st show ?thesis by auto
qed

end
