(* ===== verification/Evaluators.thy ===== *)
theory Evaluators
  imports Json_Values Wire_Schemas
begin

text \<open>
  The deterministic workload evaluators (\<open>benchmark/evaluators.py\<close>): text normalisation,
  closed-set label extraction, classification metrics, and the extraction of a JSON record
  from a fenced block with its field scores.

  The Unicode tables (NFKC, case folding), \<open>str\<close> on values that are no strings and
  \<open>json.loads\<close> are the parameters of \<open>text_env\<close>; the regular expressions of the module are
  written out as functions on 8-bit characters. Ratios are rounded float divisions.
\<close>

record text_env =
  te_nfkc :: "string \<Rightarrow> string"
  te_casefold :: "string \<Rightarrow> string"
  te_str :: "json \<Rightarrow> string"
  te_loads :: "string \<Rightarrow> json option"

section \<open>Normalisation\<close>

text \<open>\<open>re.sub(r"\s+", " ", text)\<close>; the flag says that the previous character was white space.\<close>

fun collapse_spaces :: "bool \<Rightarrow> string \<Rightarrow> string" where
  "collapse_spaces inside [] = []"
| "collapse_spaces inside (c # s) =
     (if py_space c then (if inside then collapse_spaces True s else CHR '' '' # collapse_spaces True s)
      else c # collapse_spaces False s)"

definition normalize_text :: "text_env \<Rightarrow> string \<Rightarrow> string" where
  "normalize_text te s = collapse_spaces False (te_casefold te (strip (te_nfkc te s)))"

definition token_strip_chars :: string where
  "token_strip_chars = '' .,:;!?'' @ [CHR 0x22, CHR 0x27, CHR 0x60] @ ''*_#()[]{}<>''"

definition strip_chars :: "string \<Rightarrow> string \<Rightarrow> string" where
  "strip_chars cs s = rev (dropWhile (\<lambda>c. c \<in> set cs) (rev (dropWhile (\<lambda>c. c \<in> set cs) s)))"

record evaluation =
  ev_task_correct :: bool
  ev_score :: json_object

section \<open>Label extraction\<close>

text \<open>\<open>str.splitlines()\<close> on 8-bit characters: a carriage return before a line feed is one break.\<close>

definition line_break :: "char \<Rightarrow> bool" where
  "line_break c \<longleftrightarrow> (let n = of_char c :: nat in 10 \<le> n \<and> n \<le> 13 \<or> 28 \<le> n \<and> n \<le> 30 \<or> n = 133)"

fun splitlines_from :: "string \<Rightarrow> string \<Rightarrow> string list" where
  "splitlines_from cur [] = (if cur = [] then [] else [cur])"
| "splitlines_from cur (c # s) =
     (if c = CHR 0x0D \<and> (case s of d # _ \<Rightarrow> d = CHR 0x0A | [] \<Rightarrow> False)
      then cur # splitlines_from [] (tl s)
      else if line_break c then cur # splitlines_from [] s
      else splitlines_from (cur @ [c]) s)"

definition splitlines :: "string \<Rightarrow> string list" where
  "splitlines s = splitlines_from [] s"

text \<open>\<open>line.split(" ")\<close>\<close>

fun split_spaces_from :: "string \<Rightarrow> string \<Rightarrow> string list" where
  "split_spaces_from cur [] = [cur]"
| "split_spaces_from cur (c # s) =
     (if c = CHR '' '' then cur # split_spaces_from [] s else split_spaces_from (cur @ [c]) s)"

definition split_spaces :: "string \<Rightarrow> string list" where
  "split_spaces s = split_spaces_from [] s"

text \<open>\<open>\w\<close>, and \<open>_NEGATION_PATTERN.search\<close>: an alternative with no word character beside it.\<close>

definition word_char :: "char \<Rightarrow> bool" where
  "word_char c \<longleftrightarrow>
     (let n = of_char c :: nat
      in 48 \<le> n \<and> n \<le> 57 \<or> 65 \<le> n \<and> n \<le> 90 \<or> 97 \<le> n \<and> n \<le> 122 \<or> n = 95
         \<or> n \<in> {170, 178, 179, 181, 185, 186, 188, 189, 190} \<or> 192 \<le> n \<and> n \<noteq> 215 \<and> n \<noteq> 247)"

definition negations :: "string list" where
  "negations =
     [''not'', ''no'', ''never'', ''none'', ''is not'', ''isn'' @ [CHR 0x27] @ ''t'', ''was not'',
      ''wasn'' @ [CHR 0x27] @ ''t'', ''ruled out'', ''rather than'', ''instead of'', ''except'']"

definition bounded_prefix :: "string \<Rightarrow> string \<Rightarrow> bool" where
  "bounded_prefix w s \<longleftrightarrow>
     starts_with s w \<and> (case drop (length w) s of [] \<Rightarrow> True | c # _ \<Rightarrow> \<not> word_char c)"

fun negated_from :: "bool \<Rightarrow> string \<Rightarrow> bool" where
  "negated_from after_word [] = False"
| "negated_from after_word (c # s) =
     (\<not> after_word \<and> list_ex (\<lambda>w. bounded_prefix w (c # s)) negations
      \<or> negated_from (word_char c) s)"

definition mentions_negation :: "string \<Rightarrow> bool" where
  "mentions_negation line = negated_from False line"

text \<open>One line: \<open>None\<close> to go on to the line above, otherwise what the extraction returns.\<close>

definition label_of_line :: "text_env \<Rightarrow> string list \<Rightarrow> string \<Rightarrow> string option option" where
  "label_of_line te label_set raw_line =
     (let line = normalize_text te raw_line
      in if line = '''' then None
         else (let words = map (strip_chars token_strip_chars) (split_spaces line);
                   found = remdups (filter (\<lambda>w. w \<in> set label_set) words)
               in case found of
                    [] \<Rightarrow> None
                  | [label] \<Rightarrow>
                      if strip_chars token_strip_chars line \<noteq> label \<and> mentions_negation line
                      then Some None else Some (Some label)
                  | _ \<Rightarrow> Some None))"

fun extract_from :: "text_env \<Rightarrow> string list \<Rightarrow> string list \<Rightarrow> string option" where
  "extract_from te label_set [] = None"
| "extract_from te label_set (l # ls) =
     (case label_of_line te label_set l of
        None \<Rightarrow> extract_from te label_set ls
      | Some r \<Rightarrow> r)"

definition extract_label :: "text_env \<Rightarrow> string \<Rightarrow> string list \<Rightarrow> string option" where
  "extract_label te output labels =
     extract_from te (map (normalize_text te) labels) (rev (splitlines output))"

definition evaluate_classification ::
    "text_env \<Rightarrow> string \<Rightarrow> string \<Rightarrow> string list option \<Rightarrow> evaluation" where
  "evaluate_classification te output expected labels =
     (let bare = strip_chars token_strip_chars (normalize_text te output);
          truth = normalize_text te expected;
          (predicted, meth) =
            (case labels of
               Some (l # ls) \<Rightarrow>
                 if bare \<notin> set (map (normalize_text te) (l # ls))
                 then (case extract_label te output (l # ls) of
                         Some x \<Rightarrow> (x, ''closed-set-line-extraction'')
                       | None \<Rightarrow> (bare, ''no-label-found''))
                 else (bare, ''bare'')
             | _ \<Rightarrow> (bare, ''bare''));
          correct = (predicted = truth)
      in \<lparr>ev_task_correct = correct,
          ev_score =
            [(''normalized_prediction'', JStr predicted), (''expected'', JStr truth),
             (''exact_match'', JBool (correct \<and> meth = ''bare'')),
             (''extraction_method'', JStr meth), (''raw_output_prefix'', JStr (take 240 output))]\<rparr>)"

section \<open>Classification metrics\<close>

text \<open>\<open>a / b\<close> on counts, zero when \<open>b\<close> is.\<close>

definition count_ratio :: "nat \<Rightarrow> nat \<Rightarrow> pyfloat" where
  "count_ratio a b = (if b = 0 then 0 else int_truediv (int a) (int b))"

definition f1_score :: "pyfloat \<Rightarrow> pyfloat \<Rightarrow> pyfloat" where
  "f1_score precision recall =
     (if fadd precision recall = 0 then 0
      else fdiv (fmul (fmul 2 precision) recall) (fadd precision recall))"

record class_metrics =
  cl_precision :: pyfloat
  cl_recall :: pyfloat
  cl_f1 :: pyfloat
  cl_support :: nat

record classification_report =
  cf_accuracy :: pyfloat
  cf_per_class :: "(string \<times> class_metrics) list"
  cf_confusion :: "(string \<times> (string \<times> nat) list) list"
  cf_unknown :: "(string \<times> nat) list"

definition guess_strip_chars :: string where
  "guess_strip_chars = '' .,:;'' @ [CHR 0x22, CHR 0x27, CHR 0x60]"

definition bump :: "string \<Rightarrow> (string \<times> nat) list \<Rightarrow> (string \<times> nat) list" where
  "bump k d = AList.update k (case map_of d k of None \<Rightarrow> 1 | Some n \<Rightarrow> Suc n) d"

text \<open>One pair of the loop; \<open>Inl\<close> is the \<open>KeyError\<close> for a true label that is not a key.\<close>

definition confusion_step ::
    "(string \<times> (string \<times> nat) list) list \<times> (string \<times> nat) list \<Rightarrow> string \<times> string
      \<Rightarrow> string + (string \<times> (string \<times> nat) list) list \<times> (string \<times> nat) list" where
  "confusion_step state pair =
     (let (confusion, unknown) = state; (tru, guess) = pair
      in case map_of confusion tru of
           None \<Rightarrow> Inl tru
         | Some row \<Rightarrow>
             if guess \<in> set (dict_keys row)
             then Inr (AList.update tru (bump guess row) confusion, unknown)
             else Inr (confusion, bump guess unknown))"

fun confusion_loop ::
    "(string \<times> (string \<times> nat) list) list \<times> (string \<times> nat) list \<Rightarrow> (string \<times> string) list
      \<Rightarrow> string + (string \<times> (string \<times> nat) list) list \<times> (string \<times> nat) list" where
  "confusion_loop state [] = Inr state"
| "confusion_loop state (p # ps) = bind_res (confusion_step state p) (\<lambda>s. confusion_loop s ps)"

definition cell :: "(string \<times> (string \<times> nat) list) list \<Rightarrow> string \<Rightarrow> string \<Rightarrow> nat" where
  "cell confusion row col =
     (case map_of confusion row of
        None \<Rightarrow> 0
      | Some r \<Rightarrow> (case map_of r col of None \<Rightarrow> 0 | Some n \<Rightarrow> n))"

definition metrics_of ::
    "(string \<times> (string \<times> nat) list) list \<Rightarrow> string list \<Rightarrow> string list \<Rightarrow> string \<Rightarrow> class_metrics" where
  "metrics_of confusion effective truths label =
     (let tp = cell confusion label label;
          others = filter (\<lambda>x. x \<noteq> label) effective;
          fp = (\<Sum>x \<leftarrow> others. cell confusion x label);
          fn = (\<Sum>x \<leftarrow> others. cell confusion label x);
          precision = count_ratio tp (tp + fp);
          recall = count_ratio tp (tp + fn)
      in \<lparr>cl_precision = precision, cl_recall = recall, cl_f1 = f1_score precision recall,
          cl_support = count_list truths label\<rparr>)"

text \<open>The labels given by the caller are distinct. \<open>Inl\<close> is the message of the \<open>ValueError\<close> on unequal lengths, or the label whose lookup raises a \<open>KeyError\<close>.\<close>

definition classification_metrics ::
    "text_env \<Rightarrow> string list \<Rightarrow> string list \<Rightarrow> string list \<Rightarrow> string + classification_report" where
  "classification_metrics te expected predicted labels =
     (if length expected \<noteq> length predicted then Inl ''expected and predicted lengths differ''
      else (let truths = map (normalize_text te) expected;
                guesses = map (\<lambda>v. strip_chars guess_strip_chars (normalize_text te v)) predicted;
                effective = (if labels \<noteq> [] then labels else sorted_set (truths @ guesses));
                empty = map (\<lambda>l. (l, map (\<lambda>other. (other, 0)) effective)) effective
            in bind_res (confusion_loop (empty, []) (zip truths guesses)) (\<lambda>(confusion, unknown).
                 Inr \<lparr>cf_accuracy = count_ratio (length (filter (\<lambda>(t, g). t = g) (zip truths guesses)))
                                      (length truths),
                      cf_per_class = map (\<lambda>l. (l, metrics_of confusion effective truths l)) effective,
                      cf_confusion = confusion, cf_unknown = unknown\<rparr>)))"

section \<open>Extraction\<close>

text \<open>Normalised values: equality of integers and booleans is numeric, as Python's is.\<close>

datatype norm_value = NNone | NText string | NNumber int

fun normalize_value :: "text_env \<Rightarrow> json \<Rightarrow> norm_value" where
  "normalize_value te JNull = NNone"
| "normalize_value te (JStr s) = NText (normalize_text te s)"
| "normalize_value te (JInt i) = NNumber i"
| "normalize_value te (JBool b) = NNumber (if b then 1 else 0)"
| "normalize_value te v = NText (normalize_text te (te_str te v))"

text \<open>
  \<open>_FENCE_PATTERN.findall\<close>: at a position, three back quotes, an optional \<open>json\<close>, white space up
  to its last line feed, and then the shortest body before the next three back quotes.
\<close>

definition fence_mark :: string where
  "fence_mark = [CHR 0x60, CHR 0x60, CHR 0x60]"

fun split_close :: "string \<Rightarrow> (string \<times> string) option" where
  "split_close [] = None"
| "split_close (c # s) =
     (if starts_with (c # s) fence_mark then Some ([], drop 3 (c # s))
      else map_option (\<lambda>(b, r). (c # b, r)) (split_close s))"

definition ascii_lower_char :: "char \<Rightarrow> char" where
  "ascii_lower_char c = (if CHR ''A'' \<le> c \<and> c \<le> CHR ''Z'' then char_of ((of_char c :: nat) + 32) else c)"

text \<open>What follows the last line feed of the leading white space, if there is one.\<close>

definition after_newline :: "string \<Rightarrow> string option" where
  "after_newline s =
     (let run = takeWhile py_space s
      in if CHR 0x0A \<in> set run
         then Some (drop (length run - length (takeWhile (\<lambda>c. c \<noteq> CHR 0x0A) (rev run))) s)
         else None)"

definition fence_at :: "string \<Rightarrow> (string \<times> string) option" where
  "fence_at s =
     (if \<not> starts_with s fence_mark then None
      else let rest = drop 3 s;
               start = (if map ascii_lower_char (take 4 rest) = ''json''
                        then after_newline (drop 4 rest) else after_newline rest)
           in case start of None \<Rightarrow> None | Some body \<Rightarrow> split_close body)"

lemma split_close_length: "split_close s = Some (b, r) \<Longrightarrow> length r < length s"
  by (induction s arbitrary: b) (auto split: if_splits)

lemma after_newline_length: "after_newline s = Some t \<Longrightarrow> length t \<le> length s"
  by (auto simp: after_newline_def Let_def split: if_splits)

lemma fence_at_length: "fence_at s = Some (b, r) \<Longrightarrow> length r < length s"
  by (auto simp: fence_at_def Let_def starts_with_def fence_mark_def split: option.splits if_splits
      dest!: split_close_length after_newline_length)

function fence_bodies :: "string \<Rightarrow> string list" where
  "fence_bodies s =
     (case s of
        [] \<Rightarrow> []
      | c # t \<Rightarrow>
          (case fence_at s of
             Some (body, rest) \<Rightarrow> body # fence_bodies rest
           | None \<Rightarrow> fence_bodies t))"
  by auto
termination
  by (relation "measure length") (auto dest: fence_at_length)

declare fence_bodies.simps [simp del]

definition strip_code_fence :: "text_env \<Rightarrow> string \<Rightarrow> string" where
  "strip_code_fence te output =
     (case find (\<lambda>b. te_loads te b \<noteq> None) (rev (fence_bodies output)) of
        Some body \<Rightarrow> body
      | None \<Rightarrow> output)"

definition failed_extraction :: "bool \<Rightarrow> evaluation" where
  "failed_extraction valid =
     \<lparr>ev_task_correct = False,
      ev_score =
        [(''json_valid'', JBool valid), (''required_field_exact_match'', JBool False),
         (''field_f1'', JFloat 0), (''whole_record_correct'', JBool False), (''field_matches'', JObj [])]\<rparr>"

definition field_matches :: "text_env \<Rightarrow> json_object \<Rightarrow> json_object \<Rightarrow> (string \<times> bool) list" where
  "field_matches te parsed expected =
     map (\<lambda>(k, v). (k, k \<in> set (dict_keys parsed)
                        \<and> normalize_value te (dict_get parsed k) = normalize_value te v)) expected"

definition score_record :: "text_env \<Rightarrow> json_object \<Rightarrow> json_object \<Rightarrow> evaluation" where
  "score_record te parsed expected =
     (let matches = field_matches te parsed expected;
          tp = length (filter snd matches);
          fn = length expected - tp;
          fp = length (filter (\<lambda>k. k \<notin> set (dict_keys expected) \<or> map_of matches k \<noteq> Some True)
                         (dict_keys parsed));
          precision = count_ratio tp (tp + fp);
          recall = count_ratio tp (tp + fn);
          exact = list_all snd matches;
          whole = (exact \<and> set (dict_keys parsed) = set (dict_keys expected))
      in \<lparr>ev_task_correct = exact,
          ev_score =
            [(''json_valid'', JBool True), (''required_field_exact_match'', JBool exact),
             (''field_precision'', JFloat precision), (''field_recall'', JFloat recall),
             (''field_f1'', JFloat (f1_score precision recall)),
             (''whole_record_correct'', JBool whole),
             (''field_matches'', JObj (map (\<lambda>(k, b). (k, JBool b)) matches))]\<rparr>)"

definition evaluate_extraction :: "text_env \<Rightarrow> string \<Rightarrow> json_object \<Rightarrow> evaluation" where
  "evaluate_extraction te output expected =
     (case te_loads te (strip_code_fence te output) of
        None \<Rightarrow> failed_extraction False
      | Some v \<Rightarrow>
          (case json_object_of v of
             None \<Rightarrow> failed_extraction True
           | Some parsed \<Rightarrow> score_record te parsed expected))"

section \<open>Lemmas\<close>

lemma unbroken_line: "list_all (\<lambda>c. \<not> line_break c) f \<Longrightarrow> cur @ f \<noteq> [] \<Longrightarrow> splitlines_from cur f = [cur @ f]"
proof (induction f arbitrary: cur)
  case (Cons c f)
  have "line_break (CHR 0x0D)" by (simp add: line_break_def)
  with Cons show ?case by auto
qed simp

lemma splitlines_line:
  "list_all (\<lambda>c. \<not> line_break c) d \<Longrightarrow>
   splitlines_from cur (d @ CHR 0x0A # rest) = (cur @ d) # splitlines_from [] rest"
proof (induction d arbitrary: cur)
  case Nil
  have "line_break (CHR 0x0A)" by (simp add: line_break_def)
  then show ?case by simp
next
  case (Cons c d)
  have "line_break (CHR 0x0D)" by (simp add: line_break_def)
  with Cons show ?case by auto
qed

lemma splitlines_last:
  assumes "list_all (\<lambda>c. \<not> line_break c) f" "f \<noteq> []"
  shows "\<exists>ls. splitlines_from cur (x @ CHR 0x0A # f) = ls @ [f]"
proof (induction x arbitrary: cur rule: length_induct)
  case (1 x)
  have f: "splitlines_from [] f = [f]" using unbroken_line [OF assms(1), of "[]"] assms(2) by simp
  have lf: "line_break (CHR 0x0A)" "line_break (CHR 0x0D)" by (simp_all add: line_break_def)
  show ?case
  proof (cases x)
    case Nil
    then show ?thesis using f lf by simp
  next
    case (Cons c y)
    show ?thesis
    proof (cases "c = CHR 0x0D \<and> (case y @ CHR 0x0A # f of d # _ \<Rightarrow> d = CHR 0x0A | [] \<Rightarrow> False)")
      case True
      show ?thesis
      proof (cases y)
        case Nil
        then show ?thesis using True Cons f by simp
      next
        case (Cons d z)
        then obtain ls where "splitlines_from [] (z @ CHR 0x0A # f) = ls @ [f]"
          using 1 [rule_format, of z "[]"] \<open>x = c # y\<close> by auto
        then show ?thesis using True Cons \<open>x = c # y\<close> by simp
      qed
    next
      case False
      have "splitlines_from cur (c # y @ CHR 0x0A # f) =
          (if line_break c then cur # splitlines_from [] (y @ CHR 0x0A # f)
           else splitlines_from (cur @ [c]) (y @ CHR 0x0A # f))"
        using False by (auto split: list.splits)
      moreover obtain ls1 ls2 where "splitlines_from [] (y @ CHR 0x0A # f) = ls1 @ [f]"
        "splitlines_from (cur @ [c]) (y @ CHR 0x0A # f) = ls2 @ [f]"
        using 1 [rule_format, of y "[]"] 1 [rule_format, of y "cur @ [c]"] Cons by auto
      ultimately show ?thesis using Cons by simp
    qed
  qed
qed

lemma split_spaces_single: "CHR '' '' \<notin> set s \<Longrightarrow> split_spaces_from cur s = [cur @ s]"
  by (induction s arbitrary: cur) auto

lemma label_line:
  assumes "normalize_text te f = label" "label \<noteq> ''''" "CHR '' '' \<notin> set label"
    and "strip_chars token_strip_chars label = label" "label \<in> set labels"
  shows "label_of_line te labels f = Some (Some label)"
  using assms by (simp add: label_of_line_def Let_def split_spaces_def split_spaces_single)

lemma count_ratio_full: "0 < n \<Longrightarrow> count_ratio n n = 1"
  by (simp add: count_ratio_def int_truediv_def dec_round_def flt_round_int [of 1, simplified])

lemma f1_full: "f1_score 1 1 = 1"
  using flt_round_int [of 1] flt_round_int [of 2] by (simp add: f1_score_def flt_ops)

lemma matches_keys: "map fst (field_matches te parsed expected) = dict_keys expected"
  by (simp add: field_matches_def dict_keys_def case_prod_beta comp_def)

lemma hits_length:
  assumes "distinct (map fst (ms :: (string \<times> bool) list))" "distinct ks"
    and "\<And>k. map_of ms k = Some True \<Longrightarrow> k \<in> set ks"
  shows "length (filter (\<lambda>k. map_of ms k = Some True) ks) = length (filter snd ms)"
proof -
  have "set (filter (\<lambda>k. map_of ms k = Some True) ks) = fst ` set (filter snd ms)"
    using assms(3) map_of_eq_Some_iff [OF assms(1)] by (force simp: image_iff)
  moreover have "distinct (filter (\<lambda>k. map_of ms k = Some True) ks)" using assms(2) by simp
  moreover have "distinct (map fst (filter snd ms))" using assms(1) by (rule distinct_map_filter)
  ultimately show ?thesis by (metis distinct_card length_map set_map)
qed

lemma filter_split: "length (filter P xs) + length (filter (\<lambda>x. \<not> P x) xs) = length xs"
  by (rule sum_length_filter_compl)

lemma all_filtered: "length (filter P xs) = length xs \<longleftrightarrow> list_all P xs"
proof -
  have "length (filter P xs) \<le> length xs" by simp
  then show ?thesis
    by (metis filter_id_conv length_filter_less less_irrefl list_all_iff)
qed

lemma field_hits:
  assumes "well_keyed expected"
  shows "filter snd (field_matches te parsed expected)
      = map (\<lambda>(k, v). (k, True)) (filter (\<lambda>(k, v). \<exists>w. map_of parsed k = Some w
            \<and> normalize_value te w = normalize_value te v) expected)"
proof -
  have eq: "(k \<in> set (dict_keys parsed) \<and> normalize_value te (dict_get parsed k) = n)
      \<longleftrightarrow> (\<exists>w. map_of parsed k = Some w \<and> normalize_value te w = n)" for k n
    using map_of_dict_keys [of parsed k] by (auto simp: dict_get_def)
  show ?thesis
    unfolding field_matches_def eq by (induction expected) auto
qed

lemma score_record_counts:
  fixes te :: text_env and parsed expected :: json_object
  assumes "well_keyed parsed" "well_keyed expected"
  defines "hits \<equiv> length (filter snd (field_matches te parsed expected))"
  shows "length (filter (\<lambda>k. k \<notin> set (dict_keys expected)
             \<or> map_of (field_matches te parsed expected) k \<noteq> Some True) (dict_keys parsed))
      = length parsed - hits"
    and "hits \<le> length parsed" "hits \<le> length expected"
proof -
  let ?ms = "field_matches te parsed expected" and ?P = "\<lambda>k. map_of (field_matches te parsed expected) k = Some True"
  have d: "distinct (map fst ?ms)" "distinct (dict_keys parsed)"
    using assms(1,2) by (simp_all add: matches_keys well_keyed_def dict_keys_def)
  have "?P k \<Longrightarrow> k \<in> set (dict_keys parsed)" for k
    by (auto simp: field_matches_def dest: map_of_SomeD)
  from hits_length [OF d this] have hits: "length (filter ?P (dict_keys parsed)) = hits"
    by (simp add: hits_def)
  have "k \<in> set (dict_keys expected)" if "?P k" for k
    using map_of_dict_keysD [OF that] by (simp add: dict_keys_def matches_keys [unfolded dict_keys_def])
  then have "filter (\<lambda>k. k \<notin> set (dict_keys expected) \<or> map_of ?ms k \<noteq> Some True) (dict_keys parsed)
      = filter (\<lambda>k. \<not> ?P k) (dict_keys parsed)" by (intro filter_cong) auto
  then show "length (filter (\<lambda>k. k \<notin> set (dict_keys expected) \<or> map_of ?ms k \<noteq> Some True) (dict_keys parsed))
      = length parsed - hits"
    using filter_split [of ?P "dict_keys parsed"] hits by (simp add: dict_keys_def)
  show "hits \<le> length parsed" using hits length_filter_le [of ?P "dict_keys parsed"] by (simp add: dict_keys_def)
  show "hits \<le> length expected"
    using length_filter_le [of snd ?ms] by (simp add: hits_def field_matches_def)
qed

section \<open>Properties\<close>

text \<open>
  C22. Extraction scores are what their names say: with \<open>hits\<close> the expected fields present with
  an equal normalised value, a record is correct exactly when every expected field is a hit,
  precision is hits over the fields given and recall hits over the fields expected, the whole
  record is correct exactly when besides no field is extra, and then the F1 score is one.
\<close>

theorem extraction_scores:
  fixes te :: text_env and parsed expected :: json_object
  assumes "te_loads te (strip_code_fence te output) = Some (JObj parsed)"
    and "well_keyed parsed" "well_keyed expected"
  defines "hits \<equiv> filter (\<lambda>(k, v). \<exists>w. map_of parsed k = Some w
      \<and> normalize_value te w = normalize_value te v) expected"
  shows "\<exists>score. evaluate_extraction te output expected
        = \<lparr>ev_task_correct = (hits = expected), ev_score = score\<rparr>
    \<and> map_of score ''field_precision'' = Some (JFloat (count_ratio (length hits) (length parsed)))
    \<and> map_of score ''field_recall'' = Some (JFloat (count_ratio (length hits) (length expected)))
    \<and> map_of score ''whole_record_correct''
        = Some (JBool (hits = expected \<and> set (dict_keys parsed) = set (dict_keys expected)))
    \<and> (hits = expected \<and> expected \<noteq> [] \<and> set (dict_keys parsed) = set (dict_keys expected)
        \<longrightarrow> map_of score ''field_f1'' = Some (JFloat 1))"
proof -
  let ?ms = "field_matches te parsed expected"
  have hits: "length (filter snd ?ms) = length hits"
    by (simp add: field_hits [OF assms(3)] hits_def)
  have exact: "list_all snd ?ms \<longleftrightarrow> hits = expected"
  proof -
    have "list_all snd ?ms \<longleftrightarrow> length (filter snd ?ms) = length ?ms" by (simp add: all_filtered)
    also have "\<dots> \<longleftrightarrow> length hits = length expected" unfolding hits by (simp add: field_matches_def)
    also have "\<dots> \<longleftrightarrow> hits = expected" by (simp add: hits_def all_filtered filter_id_conv list_all_iff)
    finally show ?thesis .
  qed
  have same: "length parsed = length expected" if "set (dict_keys parsed) = set (dict_keys expected)"
    using that assms(2,3) by (metis distinct_card dict_keys_def length_map well_keyed_def)
  note counts = score_record_counts [OF assms(2,3), where te = te, unfolded hits]
  show ?thesis
    using assms(1) counts exact same
    by (auto simp: evaluate_extraction_def score_record_def Let_def hits count_ratio_full f1_full)
qed

definition lab_text :: text_env where
  "lab_text =
     \<lparr>te_nfkc = id, te_casefold = map ascii_lower_char, te_str = (\<lambda>v. ''''),
      te_loads = map_of [(''{}'', JObj [(''a'', JStr ''Yes ''), (''b'', JInt 1)])]\<rparr>"

theorem extraction_scores_witness:
  "\<exists>score. evaluate_extraction lab_text ''{}'' [(''a'', JStr ''yes''), (''b'', JBool True)]
        = \<lparr>ev_task_correct = True, ev_score = score\<rparr>
    \<and> map_of score ''field_f1'' = Some (JFloat 1)"
proof -
  have fence: "strip_code_fence lab_text ''{}'' = ''{}''" by code_simp
  have hits: "filter (\<lambda>(k, v). \<exists>w. map_of [(''a'', JStr ''Yes ''), (''b'', JInt 1)] k = Some w
      \<and> normalize_value lab_text w = normalize_value lab_text v) [(''a'', JStr ''yes''), (''b'', JBool True)]
    = [(''a'', JStr ''yes''), (''b'', JBool True)]"
  proof -
    have "normalize_text lab_text ''Yes '' = normalize_text lab_text ''yes''" by code_simp
    then show ?thesis by simp
  qed
  have "te_loads lab_text (strip_code_fence lab_text ''{}'') = Some (JObj [(''a'', JStr ''Yes ''), (''b'', JInt 1)])"
    unfolding fence by (simp add: lab_text_def)
  from extraction_scores [OF this, of "[(''a'', JStr ''yes''), (''b'', JBool True)]"] hits
  show ?thesis by (auto simp: well_keyed_def dict_keys_def)
qed

text \<open>
  The final line decides: when the response as a whole is no known label, and its last line is
  exactly one, normalised and free of spaces and decoration, then that label is the prediction,
  whatever the response says before; it is correct exactly if it is the expected label.
\<close>

theorem final_line_decides:
  assumes "normalize_text te final = label" "label \<noteq> ''''" "CHR '' '' \<notin> set label"
    and "strip_chars token_strip_chars label = label"
    and "list_all (\<lambda>c. \<not> line_break c) final" "final \<noteq> ''''"
    and "label \<in> set (map (normalize_text te) labels)"
    and "strip_chars token_strip_chars (normalize_text te (reasoning @ CHR 0x0A # final))
           \<notin> set (map (normalize_text te) labels)"
  shows "map_of (ev_score (evaluate_classification te (reasoning @ CHR 0x0A # final) expected (Some labels)))
           ''normalized_prediction'' = Some (JStr label)
    \<and> (ev_task_correct (evaluate_classification te (reasoning @ CHR 0x0A # final) expected (Some labels))
        \<longleftrightarrow> label = normalize_text te expected)"
proof -
  obtain ls where "splitlines (reasoning @ CHR 0x0A # final) = ls @ [final]"
    using splitlines_last [OF assms(5,6)] unfolding splitlines_def by blast
  then have "extract_label te (reasoning @ CHR 0x0A # final) labels = Some label"
    using label_line [OF assms(1-4) assms(7)] by (simp add: extract_label_def)
  moreover obtain l rest where "labels = l # rest" using assms(7) by (cases labels) auto
  ultimately show ?thesis
    using assms(8) by (simp add: evaluate_classification_def Let_def del: list.map(2))
qed

theorem final_line_decides_witness:
  "map_of (ev_score (evaluate_classification lab_text (''It is not Spam'' @ CHR 0x0A # ''Ham'') ''ham''
      (Some [''spam'', ''ham'']))) ''normalized_prediction'' = Some (JStr ''ham'')"
proof -
  have e: "normalize_text lab_text ''Ham'' = ''ham''" "strip_chars token_strip_chars ''ham'' = ''ham''"
    "list_all (\<lambda>c. \<not> line_break c) ''Ham''"
    "''ham'' \<in> set (map (normalize_text lab_text) [''spam'', ''ham''])"
    "strip_chars token_strip_chars (normalize_text lab_text (''It is not Spam'' @ CHR 0x0A # ''Ham''))
       \<notin> set (map (normalize_text lab_text) [''spam'', ''ham''])"
    by code_simp+
  from final_line_decides [OF e(1) _ _ e(2,3) _ e(4,5), of "''ham''"] show ?thesis by simp
qed

end
