(* ===== verification/Fault_Mock.thy ===== *)
theory Fault_Mock
  imports OpenAI_Adapter Evaluators
begin

text \<open>
  The deterministic fault endpoints (\<open>faultmock/app.py\<close>): the scenario enumeration, the
  sequence cursor and counters, the payloads and event streams of both wire formats, and the
  two handlers, which return the updated state, the time slept and the answer.

  The cursor and the counters refine an abstract trace of the scenarios served since the last
  reset, and the OpenAI adapter of the gateway is run against the handler: for every scenario
  it ends with the error class the scenario stands for, a stalled answer with a timeout. The
  HTTP client between the two, with its read timeout, and \<open>json.dumps\<close> are parameters.
\<close>

section \<open>Scenarios and configuration\<close>

datatype fault_scenario =
    FaultOk | FaultRateLimited | FaultServerError | FaultTimeout | FaultDelayed | FaultMalformed
  | FaultStreamOk | FaultStreamFail | FaultInBand | FaultClose

definition fault_scenarios :: "fault_scenario list" where
  "fault_scenarios =
     [FaultOk, FaultRateLimited, FaultServerError, FaultTimeout, FaultDelayed, FaultMalformed,
      FaultStreamOk, FaultStreamFail, FaultInBand, FaultClose]"

fun fault_scenario_value :: "fault_scenario \<Rightarrow> string" where
  "fault_scenario_value FaultOk = ''ok''"
| "fault_scenario_value FaultRateLimited = ''rate_limited_429''"
| "fault_scenario_value FaultServerError = ''server_500''"
| "fault_scenario_value FaultTimeout = ''timeout''"
| "fault_scenario_value FaultDelayed = ''delayed_ms''"
| "fault_scenario_value FaultMalformed = ''malformed_json''"
| "fault_scenario_value FaultStreamOk = ''stream_ok''"
| "fault_scenario_value FaultStreamFail = ''stream_fail_after_first_chunk''"
| "fault_scenario_value FaultInBand = ''in_band_error''"
| "fault_scenario_value FaultClose = ''connection_close''"

interpretation fault_scenario_enum: str_enum fault_scenarios fault_scenario_value
proof
  show "m \<in> set fault_scenarios" for m by (cases m) (simp_all add: fault_scenarios_def)
  show "fault_scenario_value m = fault_scenario_value m' \<Longrightarrow> m = m'" for m m'
    by (cases m; cases m') simp_all
qed

definition parse_fault_scenario :: "string \<Rightarrow> fault_scenario option" where
  "parse_fault_scenario s = enum_parse fault_scenarios fault_scenario_value s"

record fault_config =
  fc_sequence :: "fault_scenario list"
  fc_retry_after :: int
  fc_timeout :: pyfloat
  fc_delayed_ms :: int

definition default_fault_config :: fault_config where
  "default_fault_config =
     \<lparr>fc_sequence = [FaultOk], fc_retry_after = 1, fc_timeout = 2, fc_delayed_ms = 100\<rparr>"

definition fault_config_ok :: "fault_config \<Rightarrow> bool" where
  "fault_config_ok c \<longleftrightarrow>
     fc_sequence c \<noteq> [] \<and> 0 \<le> fc_retry_after c \<and> fc_retry_after c \<le> 3600
     \<and> 0 < fc_timeout c \<and> fc_timeout c \<le> 300 \<and> 0 \<le> fc_delayed_ms c \<and> fc_delayed_ms c \<le> 300000"

section \<open>The state\<close>

text \<open>A \<open>Counter\<close> is a dictionary in which an absent key counts zero.\<close>

record fault_state =
  fs_config :: fault_config
  fs_cursor :: nat
  fs_counts :: "(string \<times> nat) list"

definition counter_get :: "(string \<times> nat) list \<Rightarrow> string \<Rightarrow> nat" where
  "counter_get d k = (case map_of d k of None \<Rightarrow> 0 | Some n \<Rightarrow> n)"

definition new_fault_state :: "fault_config \<Rightarrow> fault_state" where
  "new_fault_state c = \<lparr>fs_config = c, fs_cursor = 0, fs_counts = []\<rparr>"

text \<open>\<open>select\<close>: \<open>None\<close> is the \<open>ValueError\<close> for an unknown override.\<close>

definition next_scenario :: "fault_state \<Rightarrow> string option \<Rightarrow> (fault_scenario \<times> fault_state) option" where
  "next_scenario st override =
     (case override of
        Some s \<Rightarrow> map_option (\<lambda>sc. (sc, st)) (parse_fault_scenario s)
      | None \<Rightarrow>
          Some (fc_sequence (fs_config st) ! (fs_cursor st mod length (fc_sequence (fs_config st))),
                st\<lparr>fs_cursor := fs_cursor st + 1\<rparr>))"

definition select_scenario :: "fault_state \<Rightarrow> string option \<Rightarrow> (fault_scenario \<times> fault_state) option" where
  "select_scenario st override =
     (case next_scenario st override of
        None \<Rightarrow> None
      | Some (sc, st') \<Rightarrow>
          (let k = fault_scenario_value sc
           in Some (sc, st'\<lparr>fs_counts := AList.update k (counter_get (fs_counts st') k + 1) (fs_counts st')\<rparr>)))"

definition reset_state :: "fault_state \<Rightarrow> fault_state" where
  "reset_state st = st\<lparr>fs_cursor := 0, fs_counts := []\<rparr>"

section \<open>Payloads\<close>

definition openai_error_body :: "string \<Rightarrow> string \<Rightarrow> json" where
  "openai_error_body error_type msg =
     JObj [(''error'', JObj [(''message'', JStr msg), (''type'', JStr error_type), (''code'', JStr error_type)])]"

definition anthropic_error_body :: "string \<Rightarrow> string \<Rightarrow> json" where
  "anthropic_error_body error_type msg =
     JObj [(''type'', JStr ''error''),
           (''error'', JObj [(''type'', JStr error_type), (''message'', JStr msg)])]"

definition openai_usage_json :: json where
  "openai_usage_json =
     JObj [(''prompt_tokens'', JInt 7), (''completion_tokens'', JInt 3), (''total_tokens'', JInt 10)]"

definition openai_completion :: "string \<Rightarrow> json" where
  "openai_completion model =
     JObj [(''id'', JStr ''chatcmpl-faultmock''), (''object'', JStr ''chat.completion''),
           (''created'', JInt 0), (''model'', JStr model),
           (''choices'', JArr [JObj [(''index'', JInt 0),
              (''message'', JObj [(''role'', JStr ''assistant''), (''content'', JStr ''fault mock completion'')]),
              (''finish_reason'', JStr ''stop'')]]),
           (''usage'', openai_usage_json)]"

definition openai_first :: "string \<Rightarrow> json" where
  "openai_first model =
     JObj [(''id'', JStr ''chatcmpl-faultmock''), (''object'', JStr ''chat.completion.chunk''),
           (''created'', JInt 0), (''model'', JStr model),
           (''choices'', JArr [JObj [(''index'', JInt 0),
              (''delta'', JObj [(''content'', JStr ''fault mock'')]), (''finish_reason'', JNull)]])]"

definition openai_final :: "string \<Rightarrow> json" where
  "openai_final model =
     JObj [(''id'', JStr ''chatcmpl-faultmock''), (''object'', JStr ''chat.completion.chunk''),
           (''created'', JInt 0), (''model'', JStr model),
           (''choices'', JArr [JObj [(''index'', JInt 0), (''delta'', JObj []), (''finish_reason'', JStr ''stop'')]]),
           (''usage'', openai_usage_json)]"

definition newline :: char where
  "newline = CHR 0x0A"

definition data_frame :: "string \<Rightarrow> string" where
  "data_frame s = ''data: '' @ s @ [newline, newline]"

definition openai_frames :: "(json \<Rightarrow> string) \<Rightarrow> string \<Rightarrow> bool \<Rightarrow> string list" where
  "openai_frames dumps model fail_after_first =
     data_frame (dumps (openai_first model))
     # (if fail_after_first then [data_frame ''{invalid-json'']
        else [data_frame (dumps (openai_final model)), data_frame ''[DONE]''])"

definition anthropic_message :: "string \<Rightarrow> json" where
  "anthropic_message model =
     JObj [(''id'', JStr ''msg_faultmock''), (''type'', JStr ''message''), (''role'', JStr ''assistant''),
           (''model'', JStr model),
           (''content'', JArr [JObj [(''type'', JStr ''text''), (''text'', JStr ''fault mock completion'')]]),
           (''stop_reason'', JStr ''end_turn''), (''stop_sequence'', JNull),
           (''usage'', JObj [(''input_tokens'', JInt 7), (''output_tokens'', JInt 3)])]"

definition anthropic_event :: "(json \<Rightarrow> string) \<Rightarrow> string \<Rightarrow> json_object \<Rightarrow> string" where
  "anthropic_event dumps event payload =
     ''event: '' @ event @ [newline] @ ''data: '' @ dumps (JObj payload) @ [newline, newline]"

definition anthropic_error_frame :: "(json \<Rightarrow> string) \<Rightarrow> string \<Rightarrow> string \<Rightarrow> string" where
  "anthropic_error_frame dumps error_type msg =
     anthropic_event dumps ''error''
       [(''type'', JStr ''error''),
        (''error'', JObj [(''type'', JStr error_type), (''message'', JStr msg)])]"

definition anthropic_frames :: "(json \<Rightarrow> string) \<Rightarrow> string \<Rightarrow> bool \<Rightarrow> bool \<Rightarrow> string list" where
  "anthropic_frames dumps model fail_after_first in_band_error =
     (if in_band_error then [anthropic_error_frame dumps ''overloaded_error'' ''injected overload'']
      else
        [anthropic_event dumps ''message_start''
           [(''type'', JStr ''message_start''),
            (''message'', JObj
               [(''id'', JStr ''msg_faultmock''), (''type'', JStr ''message''), (''role'', JStr ''assistant''),
                (''model'', JStr model), (''content'', JArr []), (''stop_reason'', JNull),
                (''stop_sequence'', JNull),
                (''usage'', JObj [(''input_tokens'', JInt 7), (''output_tokens'', JInt 0)])])],
         anthropic_event dumps ''content_block_start''
           [(''type'', JStr ''content_block_start''), (''index'', JInt 0),
            (''content_block'', JObj [(''type'', JStr ''text''), (''text'', JStr '''')])],
         anthropic_event dumps ''content_block_delta''
           [(''type'', JStr ''content_block_delta''), (''index'', JInt 0),
            (''delta'', JObj [(''type'', JStr ''text_delta''), (''text'', JStr ''fault mock'')])]]
        @ (if fail_after_first
           then [anthropic_error_frame dumps ''api_error'' ''injected stream failure'']
           else
             [anthropic_event dumps ''content_block_stop''
                [(''type'', JStr ''content_block_stop''), (''index'', JInt 0)],
              anthropic_event dumps ''message_delta''
                [(''type'', JStr ''message_delta''),
                 (''delta'', JObj [(''stop_reason'', JStr ''end_turn''), (''stop_sequence'', JNull)]),
                 (''usage'', JObj [(''output_tokens'', JInt 3)])],
              anthropic_event dumps ''message_stop'' [(''type'', JStr ''message_stop'')]]))"

section \<open>Handlers\<close>

text \<open>
  A request: the override header, the delay header (read by the framework, which answers 422
  when it is out of range), and the body, \<open>None\<close> when it is not valid JSON.
\<close>

record fault_request =
  fq_override :: "string option"
  fq_delay_ms :: "int option"
  fq_body :: "json option"

datatype fault_answer =
    FaultJson int "(string \<times> string) list" json
  | FaultRaw string
  | FaultEvents "string list"
  | FaultBroken
  | FaultUnprocessable
  | FaultUnhandled string

definition scenario_delay :: "fault_scenario \<Rightarrow> fault_config \<Rightarrow> int option \<Rightarrow> rat" where
  "scenario_delay sc c requested =
     (if sc = FaultTimeout then fc_timeout c
      else if sc = FaultDelayed
      then int_truediv (case requested of None \<Rightarrow> fc_delayed_ms c | Some ms \<Rightarrow> ms) 1000
      else 0)"

definition body_model :: "json \<Rightarrow> string" where
  "body_model body =
     (case json_object_of body of
        None \<Rightarrow> ''faultmock-model''
      | Some kvs \<Rightarrow> (case json_str (dict_get kvs ''model'') of None \<Rightarrow> ''faultmock-model'' | Some m \<Rightarrow> m))"

definition body_stream :: "json \<Rightarrow> bool" where
  "body_stream body =
     (case json_object_of body of None \<Rightarrow> False | Some kvs \<Rightarrow> dict_get kvs ''stream'' = JBool True)"

definition delay_header_ok :: "int option \<Rightarrow> bool" where
  "delay_header_ok d = (case d of None \<Rightarrow> True | Some ms \<Rightarrow> 0 \<le> ms \<and> ms \<le> 300000)"

definition openai_answer ::
    "(json \<Rightarrow> string) \<Rightarrow> fault_config \<Rightarrow> fault_scenario \<Rightarrow> int option \<Rightarrow> json \<Rightarrow> rat \<times> fault_answer" where
  "openai_answer dumps c sc delay_ms body =
     (let model = body_model body
      in if sc = FaultRateLimited
         then (0, FaultJson 429 [(''retry-after'', str_int (fc_retry_after c))]
                   (openai_error_body ''rate_limit_error'' ''injected rate limit''))
         else if sc = FaultServerError
         then (0, FaultJson 500 [] (openai_error_body ''server_error'' ''injected server failure''))
         else if sc = FaultMalformed then (0, FaultRaw ''{invalid-json'')
         else if sc = FaultClose then (0, FaultBroken)
         else (scenario_delay sc c delay_ms,
               if body_stream body \<or> sc \<in> {FaultStreamOk, FaultStreamFail}
               then FaultEvents (openai_frames dumps model (sc = FaultStreamFail))
               else FaultJson 200 [] (openai_completion model)))"

definition openai_chat_endpoint ::
    "(json \<Rightarrow> string) \<Rightarrow> fault_state \<Rightarrow> fault_request \<Rightarrow> fault_state \<times> rat \<times> fault_answer" where
  "openai_chat_endpoint dumps st r =
     (if \<not> delay_header_ok (fq_delay_ms r) then (st, 0, FaultUnprocessable)
      else case select_scenario st (fq_override r) of
        None \<Rightarrow> (st, 0, FaultJson 400 [] (openai_error_body ''invalid_fault_scenario'' ''unknown fault scenario''))
      | Some (sc, st') \<Rightarrow>
          (case fq_body r of
             None \<Rightarrow> (st', 0, FaultUnhandled ''JSONDecodeError'')
           | Some body \<Rightarrow> (st', openai_answer dumps (fs_config st') sc (fq_delay_ms r) body)))"

definition anthropic_answer ::
    "(json \<Rightarrow> string) \<Rightarrow> fault_config \<Rightarrow> fault_scenario \<Rightarrow> int option \<Rightarrow> json \<Rightarrow> rat \<times> fault_answer" where
  "anthropic_answer dumps c sc delay_ms body =
     (let model = body_model body
      in if sc = FaultRateLimited
         then (0, FaultJson 429 [(''retry-after'', str_int (fc_retry_after c))]
                   (anthropic_error_body ''rate_limit_error'' ''injected rate limit''))
         else if sc = FaultServerError
         then (0, FaultJson 500 [] (anthropic_error_body ''api_error'' ''injected server failure''))
         else if sc = FaultMalformed then (0, FaultRaw ''{invalid-json'')
         else if sc = FaultClose then (0, FaultBroken)
         else (scenario_delay sc c delay_ms,
               if body_stream body \<or> sc \<in> {FaultStreamOk, FaultStreamFail, FaultInBand}
               then FaultEvents (anthropic_frames dumps model (sc = FaultStreamFail) (sc = FaultInBand))
               else FaultJson 200 [] (anthropic_message model)))"

definition anthropic_messages_endpoint ::
    "(json \<Rightarrow> string) \<Rightarrow> fault_state \<Rightarrow> fault_request \<Rightarrow> fault_state \<times> rat \<times> fault_answer" where
  "anthropic_messages_endpoint dumps st r =
     (if \<not> delay_header_ok (fq_delay_ms r) then (st, 0, FaultUnprocessable)
      else case select_scenario st (fq_override r) of
        None \<Rightarrow> (st, 0, FaultJson 400 [] (anthropic_error_body ''invalid_request_error'' ''unknown fault scenario''))
      | Some (sc, st') \<Rightarrow>
          (case fq_body r of
             None \<Rightarrow> (st', 0, FaultUnhandled ''JSONDecodeError'')
           | Some body \<Rightarrow> (st', anthropic_answer dumps (fs_config st') sc (fq_delay_ms r) body)))"

definition diagnostic_state :: "fault_state \<Rightarrow> json" where
  "diagnostic_state st =
     JObj [(''cursor'', JInt (int (fs_cursor st))),
           (''counts'', JObj (map (\<lambda>(k, n). (k, JInt (int n))) (fs_counts st)))]"

section \<open>The abstract trace\<close>

text \<open>
  What the state promises: the scenarios served since the last reset, each with whether it was
  drawn from the sequence. Draw number \<open>k\<close> is entry \<open>k mod n\<close> of the sequence.
\<close>

datatype fault_event = Select "string option" | Reset

fun fault_step :: "fault_state \<Rightarrow> fault_event \<Rightarrow> fault_state" where
  "fault_step st (Select override) =
     (case select_scenario st override of None \<Rightarrow> st | Some (sc, st') \<Rightarrow> st')"
| "fault_step st Reset = reset_state st"

definition fault_run :: "fault_state \<Rightarrow> fault_event list \<Rightarrow> fault_state" where
  "fault_run st es = foldl fault_step st es"

type_synonym fault_trace = "(bool \<times> fault_scenario) list"

fun trace_step :: "fault_scenario list \<Rightarrow> fault_trace \<Rightarrow> fault_event \<Rightarrow> fault_trace" where
  "trace_step sequence tr (Select None) =
     tr @ [(True, sequence ! (length (filter fst tr) mod length sequence))]"
| "trace_step sequence tr (Select (Some s)) =
     (case parse_fault_scenario s of None \<Rightarrow> tr | Some sc \<Rightarrow> tr @ [(False, sc)])"
| "trace_step sequence tr Reset = []"

definition trace_run :: "fault_scenario list \<Rightarrow> fault_event list \<Rightarrow> fault_trace" where
  "trace_run sequence es = foldl (trace_step sequence) [] es"

definition implements :: "fault_scenario list \<Rightarrow> fault_trace \<Rightarrow> fault_state \<Rightarrow> bool" where
  "implements sequence tr st \<longleftrightarrow>
     fc_sequence (fs_config st) = sequence
     \<and> fs_cursor st = length (filter fst tr)
     \<and> (\<forall>sc. counter_get (fs_counts st) (fault_scenario_value sc) = count_list (map snd tr) sc)"

definition drawn_in_order :: "fault_scenario list \<Rightarrow> fault_trace \<Rightarrow> bool" where
  "drawn_in_order sequence tr \<longleftrightarrow>
     map snd (filter fst tr) = map (\<lambda>k. sequence ! (k mod length sequence)) [0..<length (filter fst tr)]"

lemma counter_get_update:
  "counter_get (AList.update k n d) k' = (if k' = k then n else counter_get d k')"
  by (simp add: counter_get_def update_conv')

lemma fault_value_eq [simp]: "fault_scenario_value a = fault_scenario_value b \<longleftrightarrow> a = b"
  using fault_scenario_enum.distinct_values by blast

lemma implements_new: "implements (fc_sequence c) [] (new_fault_state c)"
  by (simp add: implements_def new_fault_state_def counter_get_def)

lemma select_refines:
  assumes "implements sequence tr st"
  shows "case select_scenario st override of
      None \<Rightarrow> trace_step sequence tr (Select override) = tr
    | Some (sc, st') \<Rightarrow> \<exists>drawn. trace_step sequence tr (Select override) = tr @ [(drawn, sc)]
        \<and> implements sequence (tr @ [(drawn, sc)]) st'"
  using assms
  by (cases override)
    (auto simp: select_scenario_def next_scenario_def Let_def implements_def counter_get_update
      split: option.splits)

lemma step_refines:
  assumes "implements sequence tr st"
  shows "implements sequence (trace_step sequence tr e) (fault_step st e)"
proof (cases e)
  case (Select override)
  then show ?thesis using select_refines [OF assms, of override] assms by (auto split: option.splits)
next
  case Reset
  then show ?thesis using assms by (simp add: implements_def reset_state_def counter_get_def)
qed

lemma run_refines:
  "implements sequence tr st \<Longrightarrow>
   implements sequence (foldl (trace_step sequence) tr es) (foldl fault_step st es)"
  by (induction es arbitrary: tr st) (simp_all add: step_refines)

lemma step_in_order: "drawn_in_order sequence tr \<Longrightarrow> drawn_in_order sequence (trace_step sequence tr e)"
  by (induction sequence tr e rule: trace_step.induct)
    (auto simp: drawn_in_order_def split: option.splits)

lemma run_in_order:
  "drawn_in_order sequence tr \<Longrightarrow> drawn_in_order sequence (foldl (trace_step sequence) tr es)"
  by (induction es arbitrary: tr) (simp_all add: step_in_order)

section \<open>The gateway's adapter against the endpoint\<close>

text \<open>
  The HTTP client and server between the adapter and the endpoint are third-party code: the
  client is the parameter the adapter already has, and what is relied on is stated here. The
  client was built with a read timeout and with the override header of one scenario
  (\<open>_real_adapters\<close> of \<open>fault_evidence.py\<close>). A call whose answer starts only after the read
  timeout ends as httpx's \<open>ReadTimeout\<close>; a connection broken inside the body ends as a
  protocol error, for a stream possibly after the status was read; any other answer arrives
  with its status, its \<open>Retry-After\<close> header and its text, which \<open>aiter_lines\<close> splits into lines
  at any pace.
\<close>

definition fault_call ::
    "(json \<Rightarrow> string) \<Rightarrow> fault_state \<Rightarrow> fault_scenario \<Rightarrow> json_object \<Rightarrow> rat \<times> fault_answer" where
  "fault_call dumps st sc body =
     snd (openai_chat_endpoint dumps st
       \<lparr>fq_override = Some (fault_scenario_value sc), fq_delay_ms = None, fq_body = Some (JObj body)\<rparr>)"

fun carries ::
    "(json \<Rightarrow> string) \<Rightarrow> fault_answer \<Rightarrow> int \<Rightarrow> (string \<times> string) list \<Rightarrow> string \<Rightarrow> bool" where
  "carries dumps (FaultJson status headers body) status' headers' t \<longleftrightarrow>
     status' = status \<and> map_of headers' ''retry-after'' = map_of headers ''retry-after''
     \<and> t = dumps body"
| "carries dumps (FaultRaw body) status' headers' t \<longleftrightarrow> status' = 200 \<and> t = body"
| "carries dumps (FaultEvents frames) status' headers' t \<longleftrightarrow> status' = 200 \<and> t = concat frames"
| "carries dumps FaultBroken status' headers' t \<longleftrightarrow> False"
| "carries dumps FaultUnprocessable status' headers' t \<longleftrightarrow> status' = 422"
| "carries dumps (FaultUnhandled e) status' headers' t \<longleftrightarrow> status' = 500"

fun posted ::
    "(json \<Rightarrow> string) \<Rightarrow> rat \<Rightarrow> rat \<times> fault_answer \<Rightarrow> rat \<times> (http_failure + http_answer) \<Rightarrow> bool" where
  "posted dumps read_timeout (delay, ans) (wait, outcome) \<longleftrightarrow>
     (if read_timeout \<le> delay then \<exists>n. outcome = Inl (HttpTimeout n)
      else if ans = FaultBroken then \<exists>n. outcome = Inl (HttpBroken n)
      else \<exists>a. outcome = Inr a \<and> carries dumps ans (ha_status a) (ha_headers a) (ha_body a))"

fun streamed_back ::
    "(json \<Rightarrow> string) \<Rightarrow> rat \<Rightarrow> rat \<times> fault_answer \<Rightarrow> rat \<times> (http_failure + stream_answer) \<Rightarrow> bool" where
  "streamed_back dumps read_timeout (delay, ans) (wait, outcome) \<longleftrightarrow>
     (if read_timeout \<le> delay then \<exists>n. outcome = Inl (HttpTimeout n)
      else if ans = FaultBroken
      then (\<exists>n. outcome = Inl (HttpBroken n))
        \<or> (\<exists>a w n. outcome = Inr a \<and> sa_status a = 200 \<and> sa_lines a = [(w, LineFailure (HttpBroken n))])
      else \<exists>a t. outcome = Inr a \<and> carries dumps ans (sa_status a) (sa_headers a) t
        \<and> map snd (sa_lines a) = map Line (splitlines t))"

definition reaches_faultmock ::
    "(json \<Rightarrow> string) \<Rightarrow> rat \<Rightarrow> fault_state \<Rightarrow> fault_scenario \<Rightarrow> http_client \<Rightarrow> bool" where
  "reaches_faultmock dumps read_timeout st sc client \<longleftrightarrow>
     (\<forall>i now body headers.
        posted dumps read_timeout (fault_call dumps st sc body) (hc_post client i now body headers)
        \<and> streamed_back dumps read_timeout (fault_call dumps st sc body)
            (hc_stream client i now body headers))"

text \<open>
  The class each scenario is meant to cause, on a complete and on a streamed call. A scenario
  that sleeps (\<open>timeout\<close>, \<open>delayed_ms\<close>) causes a timeout when it sleeps up to the read timeout
  of the client, and is an ordinary answer when it does not.
\<close>

fun chat_class :: "fault_scenario \<Rightarrow> error_class option" where
  "chat_class FaultRateLimited = Some RateLimited"
| "chat_class FaultServerError = Some Provider5xx"
| "chat_class FaultMalformed = Some MalformedResponse"
| "chat_class FaultClose = Some TimeoutClass"
| "chat_class FaultStreamOk = Some MalformedResponse"
| "chat_class FaultStreamFail = Some MalformedResponse"
| "chat_class _ = None"

fun stream_class :: "fault_scenario \<Rightarrow> error_class option" where
  "stream_class FaultRateLimited = Some RateLimited"
| "stream_class FaultServerError = Some Provider5xx"
| "stream_class FaultClose = Some TimeoutClass"
| "stream_class FaultStreamFail = Some MalformedResponse"
| "stream_class _ = None"

definition stalls :: "rat \<Rightarrow> fault_config \<Rightarrow> fault_scenario \<Rightarrow> bool" where
  "stalls read_timeout c sc \<longleftrightarrow>
     sc = FaultTimeout \<and> read_timeout \<le> fc_timeout c
     \<or> sc = FaultDelayed \<and> read_timeout \<le> int_truediv (fc_delayed_ms c) 1000"

definition expected_class ::
    "(fault_scenario \<Rightarrow> error_class option) \<Rightarrow> rat \<Rightarrow> fault_config \<Rightarrow> fault_scenario \<Rightarrow> error_class option"
where
  "expected_class table read_timeout c sc =
     (if stalls read_timeout c sc then Some TimeoutClass else table sc)"

definition stream_text :: "rat \<Rightarrow> fault_config \<Rightarrow> fault_scenario \<Rightarrow> string" where
  "stream_text read_timeout c sc =
     (if stalls read_timeout c sc \<or> sc \<in> {FaultRateLimited, FaultServerError, FaultClose, FaultMalformed}
      then '''' else ''fault mock'')"

text \<open>
  What the run relies on from \<open>json\<close> and \<open>float\<close>: the payloads of the endpoint are printed on
  one line between braces and read back, the broken texts are rejected, and the printed
  \<open>Retry-After\<close> is read back.
\<close>

definition reads_back :: "codec \<Rightarrow> (json \<Rightarrow> string) \<Rightarrow> json \<Rightarrow> bool" where
  "reads_back cd dumps v \<longleftrightarrow>
     cd_loads cd (dumps v) = Some v
     \<and> dumps v \<noteq> '''' \<and> hd (dumps v) = CHR ''{'' \<and> last (dumps v) = CHR ''}''
     \<and> list_all (\<lambda>c. \<not> line_break c) (dumps v)"

definition json_behaves :: "codec \<Rightarrow> (json \<Rightarrow> string) \<Rightarrow> string \<Rightarrow> int \<Rightarrow> bool" where
  "json_behaves cd dumps model retry \<longleftrightarrow>
     list_all (reads_back cd dumps) [openai_completion model, openai_first model, openai_final model]
     \<and> cd_loads cd ''{invalid-json'' = None
     \<and> cd_loads cd (concat (openai_frames dumps model False)) = None
     \<and> cd_loads cd (concat (openai_frames dumps model True)) = None
     \<and> cd_float cd (str_int retry) = Some (of_int retry)"

definition data_prefix :: string where
  "data_prefix = ''data: ''"

lemma done_prefix: "data_prefix @ ''[DONE]'' = done_line"
  by (simp add: data_prefix_def done_line_def)

lemma lines_data_frame:
  assumes "list_all (\<lambda>c. \<not> line_break c) x"
  shows "splitlines_from [] (data_frame x @ rest) = (data_prefix @ x) # '''' # splitlines_from [] rest"
proof -
  have "list_all (\<lambda>c. \<not> line_break c) (data_prefix @ x)"
    using assms by (simp add: data_prefix_def line_break_def)
  from splitlines_line [OF this, of "[]" "newline # rest"]
    splitlines_line [where d = "[]" and cur = "[]" and rest = rest]
  show ?thesis by (simp add: data_frame_def data_prefix_def newline_def)
qed

lemma strip_braces: "reads_back cd dumps v \<Longrightarrow> strip (CHR '' '' # dumps v) = dumps v"
proof -
  assume v: "reads_back cd dumps v"
  have "py_space (CHR '' '')" "\<not> py_space (CHR ''{'')" "\<not> py_space (CHR ''}'')" by code_simp+
  with v show ?thesis by (simp add: strip_leading strip_inner reads_back_def)
qed

lemma strip_invalid [simp]: "strip '' {invalid-json'' = ''{invalid-json''"
  by code_simp

lemma not_done: "reads_back cd dumps v \<Longrightarrow> dumps v \<noteq> ''[DONE]''"
  by (auto simp: reads_back_def)

lemma body_of_request [simp]:
  "body_model (JObj (openai_body a request s)) = oa_upstream_model a"
  "body_stream (JObj (openai_body a request s)) = s"
  by (simp_all add: body_model_def body_stream_def openai_body_def)

lemma fault_call_eq:
  "fault_call dumps st sc body = openai_answer dumps (fs_config st) sc None (JObj body)"
  by (simp add: fault_call_def openai_chat_endpoint_def delay_header_ok_def select_scenario_def
      next_scenario_def parse_fault_scenario_def fault_scenario_enum.parse_value Let_def)

definition fault_usage :: normalized_usage where
  "fault_usage =
     \<lparr>nu_visible = Some 3, nu_visible_source = ProviderReported,
      nu_input = Some 7, nu_input_source = ProviderReported,
      nu_output = Some 3, nu_output_source = ProviderReported,
      nu_special = None, nu_special_source = Unavailable\<rparr>"

lemma fault_usage_read: "usage_from_payload openai_usage_json = Inr fault_usage"
  by (simp add: usage_from_payload_def openai_usage_json_def fault_usage_def usage_unavailable_def
      validate_usage_iff usage_pairs_def token_count_ok_def)

lemma fault_usage_valid: "validate_usage fault_usage = Inr ()"
  by (rule usage_from_payload_valid [OF fault_usage_read])

definition fault_result :: "openai_adapter \<Rightarrow> chat_request \<Rightarrow> provider_result" where
  "fault_result a request =
     \<lparr>pr_provider = oa_name a, pr_model = cr_model request,
      pr_output = [text_part ''fault mock completion''], pr_finish_reason = Some ''stop'',
      pr_usage = fault_usage, pr_extensions = []\<rparr>"

lemma completion_read:
  "read_completion (Some (openai_completion m))
     = Inr (JStr ''fault mock completion'', Some ''stop'', openai_usage_json)"
  by (simp add: read_completion_def openai_completion_def)

lemma completion_result:
  assumes "oa_name a \<noteq> ''''" "cr_model request \<noteq> ''''" "reads_back cd dumps (openai_completion m)"
  shows "openai_result cd a request
      \<lparr>ha_status = 200, ha_headers = h, ha_body = dumps (openai_completion m)\<rparr> = Inr (fault_result a request)"
  using assms openai_result_valid [OF assms(1,2) fault_usage_valid]
  by (simp add: openai_result_def raise_for_status_def reads_back_def completion_read fault_usage_read
      fault_result_def)

lemma unreadable_result:
  assumes "cd_loads cd t = None"
  shows "\<exists>e. openai_result cd a request \<lparr>ha_status = 200, ha_headers = h, ha_body = t\<rparr> = Inl (Normalized e)
    \<and> ne_class e = MalformedResponse"
  using assms by (simp add: openai_result_def raise_for_status_def read_completion_def)

lemma status_raises:
  assumes "oa_name a \<noteq> ''''" "400 \<le> status" "status < 600" "classify_http_status status = Some c"
  shows "\<exists>e. raise_for_status cd a status headers = Some (Normalized e) \<and> ne_class e = c
    \<and> ne_retry_after e = retry_after_hint (cd_float cd) headers"
proof -
  have "oa_name a @ '' returned HTTP '' @ str_int status \<noteq> ''''" using assms(1) by simp
  from raise_http_normalized [OF assms(2,3) this retry_after_hint_nonneg [of "cd_float cd" headers]]
  obtain e where "raise_for_status cd a status headers = Some (Normalized e)"
    "normalize_http_error status (oa_name a @ '' returned HTTP '' @ str_int status)
       (retry_after_hint (cd_float cd) headers) = Inr e"
    using assms(2) by (auto simp: raise_for_status_def)
  then show ?thesis using assms(4) by (auto simp: normalize_http_error_def)
qed

lemma status_result:
  assumes "oa_name a \<noteq> ''''" "400 \<le> status" "status < 600" "classify_http_status status = Some c"
  shows "\<exists>e. openai_result cd a request \<lparr>ha_status = status, ha_headers = h, ha_body = t\<rparr> = Inl (Normalized e)
    \<and> ne_class e = c \<and> ne_retry_after e = retry_after_hint (cd_float cd) h"
  using status_raises [OF assms, of cd h] by (auto simp: openai_result_def)

lemma retry_header:
  "cd_float cd (str_int n) = Some (of_int n) \<Longrightarrow> 0 \<le> n \<Longrightarrow>
   map_of headers ''retry-after'' = Some (str_int n) \<Longrightarrow>
   retry_after_hint (cd_float cd) headers = Some (of_int n)"
  by (simp add: retry_after_hint_def)

lemma stalls_only:
  assumes "stalls rt c sc" "0 < rt"
  shows "sc = FaultTimeout \<or> sc = FaultDelayed"
  using assms by (auto simp: stalls_def)

text \<open>A stalled call, whatever its method, is answered with the delay of its scenario.\<close>

lemma stalled_answer:
  assumes "stalls rt c sc" "0 < rt"
  shows "rt \<le> fst (openai_answer dumps c sc None body)"
  using stalls_only [OF assms] assms(1) by (auto simp: openai_answer_def stalls_def scenario_delay_def Let_def)

lemma prompt_answer:
  assumes "\<not> stalls rt c sc" "0 < rt"
  shows "\<not> rt \<le> fst (openai_answer dumps c sc None body)"
  using assms by (auto simp: openai_answer_def stalls_def scenario_delay_def Let_def)

lemma chat_answers:
  assumes "oa_name a \<noteq> ''''" "cr_model request \<noteq> ''''" "0 \<le> fc_retry_after c"
    and "json_behaves cd dumps (oa_upstream_model a) (fc_retry_after c)"
    and "snd (openai_answer dumps c sc None (JObj (openai_body a request False))) = fa" "fa \<noteq> FaultBroken"
    and "carries dumps fa (ha_status ans) (ha_headers ans) (ha_body ans)"
  shows "case openai_result cd a request ans of
      Inl (Normalized e) \<Rightarrow> chat_class sc = Some (ne_class e)
        \<and> (sc = FaultRateLimited \<longrightarrow> ne_retry_after e = Some (of_int (fc_retry_after c)))
    | Inr r \<Rightarrow> chat_class sc = None \<and> r = fault_result a request
    | _ \<Rightarrow> False"
proof -
  let ?m = "oa_upstream_model a" and ?n = "fc_retry_after c"
  obtain s h t where ans: "ans = \<lparr>ha_status = s, ha_headers = h, ha_body = t\<rparr>" by (cases ans)
  have json: "reads_back cd dumps (openai_completion ?m)" "cd_loads cd ''{invalid-json'' = None"
    "cd_loads cd (concat (openai_frames dumps ?m b)) = None" "cd_float cd (str_int ?n) = Some (of_int ?n)" for b
    using assms(4) by (cases b; simp add: json_behaves_def)+
  note got = assms(5-7) [unfolded ans]
  have rate: "classify_http_status 429 = Some RateLimited" "classify_http_status 500 = Some Provider5xx"
    by (simp_all add: classify_http_status_def)
  show ?thesis
  proof (cases sc)
    case FaultRateLimited
    then have "s = 429" "map_of h ''retry-after'' = Some (str_int ?n)"
      using got by (auto simp: openai_answer_def)
    with status_result [OF assms(1) _ _ rate(1), where cd = cd and request = request and h = h and t = t]
      retry_header [OF json(4) assms(3)] FaultRateLimited
    show ?thesis by (auto simp: ans)
  next
    case FaultServerError
    then have "s = 500" using got by (auto simp: openai_answer_def)
    with status_result [OF assms(1) _ _ rate(2), where cd = cd and request = request and h = h and t = t]
      FaultServerError
    show ?thesis by (auto simp: ans)
  next
    case FaultMalformed
    then have "s = 200" "t = ''{invalid-json''" using got by (auto simp: openai_answer_def)
    with unreadable_result [OF json(2), of a request h] FaultMalformed show ?thesis by (auto simp: ans)
  next
    case FaultStreamOk
    then have "s = 200" "t = concat (openai_frames dumps ?m False)"
      using got by (auto simp: openai_answer_def Let_def)
    with unreadable_result [OF json(3), of a request h False] FaultStreamOk show ?thesis by (auto simp: ans)
  next
    case FaultStreamFail
    then have "s = 200" "t = concat (openai_frames dumps ?m True)"
      using got by (auto simp: openai_answer_def Let_def)
    with unreadable_result [OF json(3), of a request h True] FaultStreamFail show ?thesis by (auto simp: ans)
  next
    case FaultClose
    then show ?thesis using got by (simp add: openai_answer_def)
  qed (use got completion_result [OF assms(1,2) json(1), of h] in \<open>auto simp: ans openai_answer_def Let_def\<close>)
qed

lemma chat_table:
  assumes "oa_name a \<noteq> ''''" "cr_model request \<noteq> ''''" "0 \<le> fc_retry_after (fs_config st)"
    and "json_behaves cd dumps (oa_upstream_model a) (fc_retry_after (fs_config st))"
    and "0 < rt" "reaches_faultmock dumps rt st sc client"
  shows "case snd (openai_chat cd client a i now request ctx) of
      ReplyError e \<Rightarrow> expected_class chat_class rt (fs_config st) sc = Some (ne_class e)
        \<and> (sc = FaultRateLimited \<longrightarrow> ne_retry_after e = Some (of_int (fc_retry_after (fs_config st))))
    | Replied r \<Rightarrow> expected_class chat_class rt (fs_config st) sc = None \<and> r = fault_result a request
    | _ \<Rightarrow> False"
proof -
  let ?c = "fs_config st" and ?body = "JObj (openai_body a request False)"
  obtain w out where post: "hc_post client i now (openai_body a request False) (openai_headers a) = (w, out)"
    by fastforce
  obtain d fa where ans: "openai_answer dumps ?c sc None ?body = (d, fa)" by fastforce
  have got: "posted dumps rt (d, fa) (w, out)"
    using assms(6) [unfolded reaches_faultmock_def, rule_format, THEN conjunct1, of "openai_body a request False"
      i now "openai_headers a"] post ans by (simp add: fault_call_eq)
  consider (stalled) "stalls rt ?c sc" | (broken) "\<not> stalls rt ?c sc" "fa = FaultBroken"
    | (arrives) "\<not> stalls rt ?c sc" "fa \<noteq> FaultBroken" by blast
  then show ?thesis
  proof cases
    case stalled
    with got stalled_answer [OF stalled assms(5), of dumps ?body] ans
    show ?thesis using assms(1) stalls_only [OF stalled assms(5)]
      by (auto simp: openai_chat_def post expected_class_def)
  next
    case broken
    with ans have "sc = FaultClose" by (auto simp: openai_answer_def Let_def split: if_splits)
    with broken got prompt_answer [OF broken(1) assms(5), of dumps ?body] ans assms(1)
    show ?thesis by (auto simp: openai_chat_def post expected_class_def)
  next
    case arrives
    with got prompt_answer [OF arrives(1) assms(5), of dumps ?body] ans
    obtain x where x: "out = Inr x" "carries dumps fa (ha_status x) (ha_headers x) (ha_body x)" by auto
    from chat_answers [OF assms(1-4) _ arrives(2) x(2), of sc] ans arrives(1) x(1)
    show ?thesis
      by (auto simp: openai_chat_def post expected_class_def split: sum.splits adapter_failure.splits)
  qed
qed

definition stream_pieces :: "stream_script \<Rightarrow> string" where
  "stream_pieces script = concat (map (\<lambda>c. parts_text (pc_delta c)) (script_chunks script))"

definition fault_cursor :: "nat \<Rightarrow> normalized_usage \<Rightarrow> string option \<Rightarrow> openai_cursor" where
  "fault_cursor n u f = \<lparr>oc_sequence = n, oc_usage = u, oc_finish = f\<rparr>"

lemma data_line:
  assumes "reads_back cd dumps v"
  shows "openai_lines cd a m waited cur ((w, Line (data_prefix @ dumps v)) # rest)
     = (case json_object_of v of
          None \<Rightarrow> [(waited + w, failure_event (raise_class MalformedResponse
                     (oa_name a @ '' sent a non-object stream event'') None None))]
        | Some event \<Rightarrow>
            (case event_usage event (oc_usage cur) of
               Inl f \<Rightarrow> [(waited + w, failure_event f)]
             | Inr usage \<Rightarrow>
                 (case event_choice event of
                    None \<Rightarrow> openai_lines cd a m (waited + w) (cur\<lparr>oc_usage := usage\<rparr>) rest
                  | Some choice \<Rightarrow>
                      (let finish = choice_finish choice (oc_finish cur)
                       in case choice_text choice of
                            None \<Rightarrow> openai_lines cd a m (waited + w)
                                      (cur\<lparr>oc_usage := usage, oc_finish := finish\<rparr>) rest
                          | Some t \<Rightarrow>
                              yield_chunk (waited + w) (text_chunk (oa_name a) m (int (oc_sequence cur)) t)
                                (openai_lines cd a m 0
                                  \<lparr>oc_sequence = Suc (oc_sequence cur), oc_usage = usage,
                                   oc_finish = finish\<rparr> rest)))))"
  using strip_braces [OF assms] not_done [OF assms] assms
  by (simp add: starts_with_def reads_back_def Let_def data_prefix_def)

lemma blank_line: "openai_lines cd a m waited cur ((w, Line '''') # rest) = openai_lines cd a m (waited + w) cur rest"
  by (simp add: starts_with_def)

lemma first_line:
  assumes "reads_back cd dumps (openai_first um)" "oa_name a \<noteq> ''''" "m \<noteq> ''''"
  shows "openai_lines cd a m waited (fault_cursor 0 u f) ((w, Line (data_prefix @ dumps (openai_first um))) # rest)
     = (waited + w, ChunkEvent (text_chunk (oa_name a) m 0 ''fault mock''))
       # openai_lines cd a m 0 (fault_cursor 1 u f) rest"
  unfolding data_line [OF assms(1)]
  using assms(2,3)
  by (simp add: openai_first_def event_usage_def event_choice_def choice_text_def choice_finish_def
      fault_cursor_def yield_chunk_def validated_def text_chunk_valid Let_def)

lemma final_line:
  assumes "reads_back cd dumps (openai_final um)"
  shows "openai_lines cd a m waited (fault_cursor n u f) ((w, Line (data_prefix @ dumps (openai_final um))) # rest)
     = openai_lines cd a m (waited + w) (fault_cursor n fault_usage (Some ''stop'')) rest"
  unfolding data_line [OF assms(1)]
  by (simp add: openai_final_def event_usage_def event_choice_def choice_text_def choice_finish_def
      fault_cursor_def fault_usage_read Let_def openai_usage_json_def
      fault_usage_read [unfolded openai_usage_json_def])

lemma break_free [simp]:
  "list_all (\<lambda>c. \<not> line_break c) ''{invalid-json''" "list_all (\<lambda>c. \<not> line_break c) ''[DONE]''"
  by code_simp+

lemma lines_of_frames:
  assumes "reads_back cd dumps (openai_first um)" "reads_back cd dumps (openai_final um)"
  shows "splitlines (concat (openai_frames dumps um True))
      = [data_prefix @ dumps (openai_first um), '''', data_prefix @ ''{invalid-json'', '''']"
    and "splitlines (concat (openai_frames dumps um False))
      = [data_prefix @ dumps (openai_first um), '''', data_prefix @ dumps (openai_final um), '''', done_line, '''']"
  using assms lines_data_frame [OF break_free(1), of "[]"] lines_data_frame [OF break_free(2), of "[]"]
  by (simp_all add: splitlines_def openai_frames_def lines_data_frame reads_back_def done_prefix)

lemma line_of_invalid: "splitlines ''{invalid-json'' = [''{invalid-json'']"
  using unbroken_line [OF break_free(1), of "[]"] by (simp add: splitlines_def)

lemma invalid_line:
  assumes "cd_loads cd ''{invalid-json'' = None"
  shows "openai_lines cd a m waited cur ((w, Line (data_prefix @ ''{invalid-json'')) # rest)
     = [(waited + w, ErrorEvent (make_normalized_error MalformedResponse
          (oa_name a @ '' sent an invalid stream event'') None None))]"
  using assms by (simp add: starts_with_def data_prefix_def)

lemma final_yield:
  "oa_name a \<noteq> '''' \<Longrightarrow> m \<noteq> '''' \<Longrightarrow> validate_usage u = Inr () \<Longrightarrow>
   yield_chunk w (final_of a m (fault_cursor n u f)) []
     = [(w, ChunkEvent (final_chunk (oa_name a) m (int n) (or_str f ''stop'') u))]"
  by (simp add: final_of_def fault_cursor_def yield_chunk_def validated_def final_chunk_valid)

lemma openai_script_ok:
  "sa_status ans < 400 \<Longrightarrow> openai_script cd a request w ans
     = openai_lines cd a (cr_model request) w (fault_cursor 0 usage_unavailable None) (sa_lines ans)"
  by (simp add: openai_script_def raise_for_status_def fault_cursor_def)

lemma complete_stream:
  assumes "oa_name a \<noteq> ''''" "cr_model request \<noteq> ''''" "json_behaves cd dumps um retry"
    and "sa_status ans = 200"
    and "map snd (sa_lines ans) = map Line (splitlines (concat (openai_frames dumps um False)))"
  shows "script_chunks (openai_script cd a request w ans)
      = [text_chunk (oa_name a) (cr_model request) 0 ''fault mock'',
         final_chunk (oa_name a) (cr_model request) 1 ''stop'' fault_usage]"
    and "script_end (openai_script cd a request w ans) = EndEvent"
proof -
  have json: "reads_back cd dumps (openai_first um)" "reads_back cd dumps (openai_final um)"
    using assms(3) by (simp_all add: json_behaves_def)
  obtain w1 w2 w3 w4 w5 w6 where lines: "sa_lines ans =
      [(w1, Line (data_prefix @ dumps (openai_first um))), (w2, Line ''''),
       (w3, Line (data_prefix @ dumps (openai_final um))), (w4, Line ''''), (w5, Line done_line), (w6, Line '''')]"
    using assms(5) unfolding lines_of_frames [OF json] by (auto simp: map_eq_Cons_conv)
  note steps = openai_script_ok lines first_line [OF json(1) assms(1,2)] final_line [OF json(2)] blank_line
    final_yield [OF assms(1,2) fault_usage_valid] or_str_def fault_cursor_def [symmetric]
  have "openai_script cd a request w ans
      = [(w + w1, ChunkEvent (text_chunk (oa_name a) (cr_model request) 0 ''fault mock'')),
         (w2 + w3 + w4 + w5, ChunkEvent (final_chunk (oa_name a) (cr_model request) 1 ''stop'' fault_usage))]"
    using assms(4) by (simp add: steps del: openai_lines.simps(3))
  then show "script_chunks (openai_script cd a request w ans)
      = [text_chunk (oa_name a) (cr_model request) 0 ''fault mock'',
         final_chunk (oa_name a) (cr_model request) 1 ''stop'' fault_usage]"
    and "script_end (openai_script cd a request w ans) = EndEvent" by simp_all
qed

lemma broken_off_stream:
  assumes "oa_name a \<noteq> ''''" "cr_model request \<noteq> ''''" "json_behaves cd dumps um retry"
    and "sa_status ans = 200"
    and "map snd (sa_lines ans) = map Line (splitlines (concat (openai_frames dumps um True)))"
  shows "script_chunks (openai_script cd a request w ans)
      = [text_chunk (oa_name a) (cr_model request) 0 ''fault mock'']"
    and "script_end (openai_script cd a request w ans) = ErrorEvent (make_normalized_error
      MalformedResponse (oa_name a @ '' sent an invalid stream event'') None None)"
proof -
  have json: "reads_back cd dumps (openai_first um)" "reads_back cd dumps (openai_final um)"
    "cd_loads cd ''{invalid-json'' = None"
    using assms(3) by (simp_all add: json_behaves_def)
  obtain w1 w2 w3 w4 where lines: "sa_lines ans =
      [(w1, Line (data_prefix @ dumps (openai_first um))), (w2, Line ''''),
       (w3, Line (data_prefix @ ''{invalid-json'')), (w4, Line '''')]"
    using assms(5) unfolding lines_of_frames [OF json(1,2)] by (auto simp: map_eq_Cons_conv)
  note steps = openai_script_ok lines first_line [OF json(1) assms(1,2)] blank_line
    invalid_line [OF json(3)]
  have "openai_script cd a request w ans
      = [(w + w1, ChunkEvent (text_chunk (oa_name a) (cr_model request) 0 ''fault mock'')),
         (w2 + w3, ErrorEvent (make_normalized_error MalformedResponse
               (oa_name a @ '' sent an invalid stream event'') None None))]"
    using assms(4) by (simp add: steps del: openai_lines.simps(3))
  then show "script_chunks (openai_script cd a request w ans)
      = [text_chunk (oa_name a) (cr_model request) 0 ''fault mock'']"
    and "script_end (openai_script cd a request w ans) = ErrorEvent (make_normalized_error
      MalformedResponse (oa_name a @ '' sent an invalid stream event'') None None)" by simp_all
qed

lemma unreadable_stream:
  assumes "oa_name a \<noteq> ''''" "cr_model request \<noteq> ''''" "sa_status ans = 200"
    and "map snd (sa_lines ans) = map Line (splitlines ''{invalid-json'')"
  shows "script_chunks (openai_script cd a request w ans)
      = [final_chunk (oa_name a) (cr_model request) 0 ''stop'' usage_unavailable]"
    and "script_end (openai_script cd a request w ans) = EndEvent"
proof -
  obtain w1 where lines: "sa_lines ans = [(w1, Line ''{invalid-json'')]"
    using assms(4) by (auto simp: line_of_invalid map_eq_Cons_conv)
  have "openai_script cd a request w ans
      = [(w + w1, ChunkEvent (final_chunk (oa_name a) (cr_model request) 0 ''stop'' usage_unavailable))]"
    using assms(3) by (simp add: openai_script_ok lines starts_with_def or_str_def
        final_yield [OF assms(1,2) usage_unavailable_valid])
  then show "script_chunks (openai_script cd a request w ans)
      = [final_chunk (oa_name a) (cr_model request) 0 ''stop'' usage_unavailable]"
    and "script_end (openai_script cd a request w ans) = EndEvent" by simp_all
qed

lemma drain_lines: "map snd xs = map Line ls \<Longrightarrow> snd (drain xs) = None"
proof (induction ls arbitrary: xs)
  case (Cons l ls)
  then obtain w ys where "xs = (w, Line l) # ys" "map snd ys = map Line ls"
    by (auto simp: map_eq_Cons_conv)
  with Cons.IH [of ys] show ?case by (cases "drain ys") simp
qed simp

lemma status_script:
  assumes "oa_name a \<noteq> ''''" "400 \<le> sa_status ans" "sa_status ans < 600"
    and "classify_http_status (sa_status ans) = Some c" "map snd (sa_lines ans) = map Line ls"
  shows "\<exists>w' e. openai_script cd a request w ans = [(w', ErrorEvent e)] \<and> ne_class e = c"
proof -
  obtain e where "raise_for_status cd a (sa_status ans) (sa_headers ans) = Some (Normalized e)"
    "ne_class e = c"
    using status_raises [OF assms(1-4)] by blast
  moreover obtain t where "drain (sa_lines ans) = (t, None)"
    using drain_lines [OF assms(5)] by (cases "drain (sa_lines ans)") auto
  ultimately show ?thesis by (auto simp: openai_script_def)
qed

definition stream_as_expected :: "rat \<Rightarrow> fault_config \<Rightarrow> fault_scenario \<Rightarrow> stream_script \<Rightarrow> bool" where
  "stream_as_expected read_timeout c sc script \<longleftrightarrow>
     stream_pieces script = stream_text read_timeout c sc
     \<and> (case expected_class stream_class read_timeout c sc of
          None \<Rightarrow> script_end script = EndEvent
        | Some ec \<Rightarrow> \<exists>e. script_end script = ErrorEvent e \<and> ne_class e = ec)"

lemma stream_answers:
  assumes "oa_name a \<noteq> ''''" "cr_model request \<noteq> ''''"
    and "json_behaves cd dumps (oa_upstream_model a) (fc_retry_after c)"
    and "snd (openai_answer dumps c sc None (JObj (openai_body a request True))) = fa" "fa \<noteq> FaultBroken"
    and "carries dumps fa (sa_status ans) (sa_headers ans) t" "map snd (sa_lines ans) = map Line (splitlines t)"
    and "\<not> stalls rt c sc"
  shows "stream_as_expected rt c sc (openai_script cd a request w ans)"
proof -
  note got = assms(4-7)
  note defs = stream_as_expected_def stream_pieces_def stream_text_def expected_class_def
  have rate: "classify_http_status 429 = Some RateLimited" "classify_http_status 500 = Some Provider5xx"
    by (simp_all add: classify_http_status_def)
  have part: "parts_text [text_part t] = t" "parts_text [] = ''''" for t
    by (simp_all add: parts_text_def text_part_def or_str_def)
  have complete: "stream_as_expected rt c sc (openai_script cd a request w ans)"
    if "fa = FaultEvents (openai_frames dumps (oa_upstream_model a) False)" "stream_class sc = None"
      "sc \<noteq> FaultMalformed"
    using complete_stream [OF assms(1-3), of ans w] that got assms(8)
    by (cases sc) (simp_all add: defs part)
  show ?thesis
  proof (cases sc)
    case FaultRateLimited
    then have "sa_status ans = 429" using got by (auto simp: openai_answer_def)
    with status_script [OF assms(1) _ _ _ assms(7), of RateLimited cd request w] rate FaultRateLimited assms(8)
    show ?thesis by (auto simp: defs)
  next
    case FaultServerError
    then have "sa_status ans = 500" using got by (auto simp: openai_answer_def)
    with status_script [OF assms(1) _ _ _ assms(7), of Provider5xx cd request w] rate FaultServerError assms(8)
    show ?thesis by (auto simp: defs)
  next
    case FaultMalformed
    then have "sa_status ans = 200" "t = ''{invalid-json''" using got by (auto simp: openai_answer_def)
    with unreadable_stream [OF assms(1,2), of ans cd w] assms(7,8) FaultMalformed
    show ?thesis by (simp add: defs part)
  next
    case FaultStreamFail
    then have "sa_status ans = 200" "t = concat (openai_frames dumps (oa_upstream_model a) True)"
      using got by (auto simp: openai_answer_def Let_def)
    with broken_off_stream [OF assms(1-3), of ans w] assms(7,8) FaultStreamFail
    show ?thesis by (simp add: defs part)
  next
    case FaultClose
    then show ?thesis using got by (simp add: openai_answer_def)
  qed (use complete assms(4) in \<open>simp_all add: openai_answer_def Let_def\<close>)
qed

lemma stream_table:
  assumes "oa_name a \<noteq> ''''" "cr_model request \<noteq> ''''"
    and "json_behaves cd dumps (oa_upstream_model a) (fc_retry_after (fs_config st))"
    and "0 < rt" "reaches_faultmock dumps rt st sc client"
  shows "stream_as_expected rt (fs_config st) sc (openai_stream cd client a i now request ctx)"
proof -
  let ?c = "fs_config st" and ?body = "JObj (openai_body a request True)"
  obtain w out where sent: "hc_stream client i now (openai_body a request True) (openai_headers a) = (w, out)"
    by fastforce
  obtain d fa where ans: "openai_answer dumps ?c sc None ?body = (d, fa)" by fastforce
  have got: "streamed_back dumps rt (d, fa) (w, out)"
    using assms(5) [unfolded reaches_faultmock_def, rule_format, THEN conjunct2, of "openai_body a request True"
      i now "openai_headers a"] sent ans by (simp add: fault_call_eq)
  note defs = stream_as_expected_def stream_pieces_def stream_text_def expected_class_def
    openai_stream_def sent
  consider (stalled) "stalls rt ?c sc" | (broken) "\<not> stalls rt ?c sc" "fa = FaultBroken"
    | (arrives) "\<not> stalls rt ?c sc" "fa \<noteq> FaultBroken" by blast
  then show ?thesis
  proof cases
    case stalled
    with got stalled_answer [OF stalled assms(4), of dumps ?body] ans assms(1)
    show ?thesis by (auto simp: defs)
  next
    case broken
    with ans have "sc = FaultClose" by (auto simp: openai_answer_def Let_def split: if_splits)
    with broken got prompt_answer [OF broken(1) assms(4), of dumps ?body] ans assms(1)
    show ?thesis by (auto simp: defs openai_script_ok)
  next
    case arrives
    with got prompt_answer [OF arrives(1) assms(4), of dumps ?body] ans
    obtain x t where x: "out = Inr x" "carries dumps fa (sa_status x) (sa_headers x) t"
      "map snd (sa_lines x) = map Line (splitlines t)" by auto
    from stream_answers [OF assms(1-3) _ arrives(2) x(2,3) arrives(1), of w] ans x(1)
    show ?thesis by (simp add: openai_stream_def sent)
  qed
qed

section \<open>Properties\<close>

text \<open>
  C20. The endpoint's state implements its trace: after any requests and resets the cursor is the
  number of draws since the last reset, every counter is the number of times its scenario was
  served, the draws run through the configured sequence cyclically, and the next request is
  served the scenario the trace is extended with, or refused for an unknown override, which
  changes nothing.
\<close>

theorem faultmock_implements_trace:
  "implements (fc_sequence c) (trace_run (fc_sequence c) es) (fault_run (new_fault_state c) es)
   \<and> drawn_in_order (fc_sequence c) (trace_run (fc_sequence c) es)
   \<and> (case select_scenario (fault_run (new_fault_state c) es) override of
        None \<Rightarrow> trace_run (fc_sequence c) (es @ [Select override]) = trace_run (fc_sequence c) es
      | Some (sc, st') \<Rightarrow> \<exists>drawn. trace_run (fc_sequence c) (es @ [Select override])
          = trace_run (fc_sequence c) es @ [(drawn, sc)])"
proof -
  have impl: "implements (fc_sequence c) (trace_run (fc_sequence c) es) (fault_run (new_fault_state c) es)"
    unfolding trace_run_def fault_run_def by (rule run_refines [OF implements_new])
  moreover have "drawn_in_order (fc_sequence c) (trace_run (fc_sequence c) es)"
    unfolding trace_run_def by (rule run_in_order) (simp add: drawn_in_order_def)
  ultimately show ?thesis
    using select_refines [OF impl, of override] by (auto simp: trace_run_def split: option.splits)
qed

text \<open>
  C21. The gateway's adapter sees the fault each scenario names: called against the endpoint
  through any client that reaches it with a given read timeout, for every scenario, \<open>chat\<close> ends
  with the error class of the table \<open>chat_class\<close>, with the configured \<open>Retry-After\<close> for a rate
  limit, or with the completion and its billed tokens; \<open>stream\<close> yields the text of
  \<open>stream_text\<close> and ends as \<open>stream_class\<close> says; and a scenario that sleeps up to the read
  timeout, \<open>timeout\<close> above all, ends both with a timeout error and no text.
\<close>

theorem adapter_meets_faultmock:
  assumes "oa_name a \<noteq> ''''" "cr_model request \<noteq> ''''" "0 \<le> fc_retry_after (fs_config st)"
    and "json_behaves cd dumps (oa_upstream_model a) (fc_retry_after (fs_config st))"
    and "0 < rt" "reaches_faultmock dumps rt st sc client"
  shows "(case snd (openai_chat cd client a i now request ctx) of
      ReplyError e \<Rightarrow> expected_class chat_class rt (fs_config st) sc = Some (ne_class e)
        \<and> (sc = FaultRateLimited \<longrightarrow> ne_retry_after e = Some (of_int (fc_retry_after (fs_config st))))
    | Replied r \<Rightarrow> expected_class chat_class rt (fs_config st) sc = None \<and> r = fault_result a request
    | _ \<Rightarrow> False)
    \<and> stream_as_expected rt (fs_config st) sc (openai_stream cd client a i now request ctx)"
  using chat_table [OF assms] stream_table [OF assms(1,2,4-6)] by blast

definition table_dumps :: "json \<Rightarrow> string" where
  "table_dumps v =
     (if v = openai_completion ''m'' then ''{c}'' else if v = openai_first ''m'' then ''{f}''
      else if v = openai_final ''m'' then ''{l}'' else ''{e}'')"

definition table_codec :: codec where
  "table_codec =
     \<lparr>cd_loads = map_of [(''{c}'', openai_completion ''m''), (''{f}'', openai_first ''m''),
                         (''{l}'', openai_final ''m'')],
      cd_float = (\<lambda>s. if s = ''1'' then Some 1 else None)\<rparr>"

lemma table_dumps_eq:
  "table_dumps (openai_completion ''m'') = ''{c}''" "table_dumps (openai_first ''m'') = ''{f}''"
  "table_dumps (openai_final ''m'') = ''{l}''"
  by (simp_all add: table_dumps_def openai_completion_def openai_first_def openai_final_def)

lemma table_behaves: "json_behaves table_codec table_dumps ''m'' 1"
proof -
  have "str_int 1 = ''1''" by code_simp
  then show ?thesis
    by (simp add: json_behaves_def reads_back_def table_dumps_eq table_codec_def openai_frames_def
        data_frame_def newline_def line_break_def)
qed

text \<open>A client over a fixed pace: one instance of what is relied on.\<close>

definition table_text :: "fault_answer \<Rightarrow> http_answer" where
  "table_text fa =
     (case fa of
        FaultJson status headers body \<Rightarrow>
          \<lparr>ha_status = status, ha_headers = headers, ha_body = table_dumps body\<rparr>
      | FaultRaw t \<Rightarrow> \<lparr>ha_status = 200, ha_headers = [], ha_body = t\<rparr>
      | FaultEvents frames \<Rightarrow> \<lparr>ha_status = 200, ha_headers = [], ha_body = concat frames\<rparr>
      | FaultBroken \<Rightarrow> \<lparr>ha_status = 200, ha_headers = [], ha_body = ''''\<rparr>
      | FaultUnprocessable \<Rightarrow> \<lparr>ha_status = 422, ha_headers = [], ha_body = ''''\<rparr>
      | FaultUnhandled e \<Rightarrow> \<lparr>ha_status = 500, ha_headers = [], ha_body = ''''\<rparr>)"

definition table_client :: "rat \<Rightarrow> fault_scenario \<Rightarrow> http_client" where
  "table_client rt sc =
     (let call = (\<lambda>body. fault_call table_dumps (new_fault_state default_fault_config) sc body);
          failure = (\<lambda>(d, fa). if rt \<le> d then Some (HttpTimeout ''ReadTimeout'')
             else if fa = FaultBroken then Some (HttpBroken ''RemoteProtocolError'') else None)
      in \<lparr>hc_post = (\<lambda>i now body headers.
            (0, case failure (call body) of Some f \<Rightarrow> Inl f | None \<Rightarrow> Inr (table_text (snd (call body))))),
          hc_stream = (\<lambda>i now body headers.
            (0, case failure (call body) of Some f \<Rightarrow> Inl f
                | None \<Rightarrow>
                    (let t = table_text (snd (call body))
                     in Inr \<lparr>sa_status = ha_status t, sa_headers = ha_headers t,
                             sa_lines = map (\<lambda>l. (0, Line l)) (splitlines (ha_body t))\<rparr>))),
          hc_get = (\<lambda>now headers. Inr 200)\<rparr>)"

lemma table_carries:
  "fa \<noteq> FaultBroken \<Longrightarrow>
   carries table_dumps fa (ha_status (table_text fa)) (ha_headers (table_text fa)) (ha_body (table_text fa))"
  by (cases fa) (simp_all add: table_text_def)

lemma table_reaches:
  "reaches_faultmock table_dumps rt (new_fault_state default_fault_config) sc (table_client rt sc)"
  unfolding reaches_faultmock_def
proof (intro allI)
  fix i now body headers
  obtain d fa where call: "fault_call table_dumps (new_fault_state default_fault_config) sc body = (d, fa)"
    by fastforce
  have "map snd (map (\<lambda>l. (0 :: rat, Line l)) ls) = map Line ls" for ls by simp
  then show "posted table_dumps rt (fault_call table_dumps (new_fault_state default_fault_config) sc body)
       (hc_post (table_client rt sc) i now body headers)
    \<and> streamed_back table_dumps rt (fault_call table_dumps (new_fault_state default_fault_config) sc body)
       (hc_stream (table_client rt sc) i now body headers)"
    using table_carries [of fa] by (auto simp: table_client_def call comp_def Let_def)
qed

theorem adapter_meets_faultmock_witness:
  "(\<exists>e. snd (openai_chat table_codec (table_client 2 FaultRateLimited) lab_openai 0 0
        (lab_request Public Economy) lab_ctx) = ReplyError e \<and> ne_retry_after e = Some 1)
   \<and> (\<exists>e. snd (openai_chat table_codec (table_client 2 FaultTimeout) lab_openai 0 0
        (lab_request Public Economy) lab_ctx) = ReplyError e \<and> ne_class e = TimeoutClass)
   \<and> stream_as_expected 2 default_fault_config FaultStreamFail
        (openai_stream table_codec (table_client 2 FaultStreamFail) lab_openai 0 0
           (lab_request Public Economy) lab_ctx)"
proof -
  have h: "oa_name lab_openai \<noteq> ''''" "cr_model (lab_request Public Economy) \<noteq> ''''"
    "0 \<le> fc_retry_after (fs_config (new_fault_state default_fault_config))"
    "json_behaves table_codec table_dumps (oa_upstream_model lab_openai)
       (fc_retry_after (fs_config (new_fault_state default_fault_config)))" "(0 :: rat) < 2"
    using table_behaves
    by (simp_all add: lab_openai_def lab_request_def new_fault_state_def default_fault_config_def)
  have tables: "expected_class chat_class 2 default_fault_config FaultRateLimited = Some RateLimited"
    "expected_class chat_class 2 default_fault_config FaultTimeout = Some TimeoutClass"
    by (simp_all add: expected_class_def stalls_def default_fault_config_def)
  show ?thesis
    using adapter_meets_faultmock [OF h table_reaches, of FaultRateLimited 0 0 lab_ctx]
      adapter_meets_faultmock [OF h table_reaches, of FaultTimeout 0 0 lab_ctx]
      adapter_meets_faultmock [OF h table_reaches, of FaultStreamFail 0 0 lab_ctx] tables
    by (auto simp: new_fault_state_def default_fault_config_def split: chat_reply.splits)
qed

end
