(* ===== verification/Datasets.thy ===== *)
theory Datasets
  imports Evaluators
begin

text \<open>
  The loader of frozen data sets (\<open>benchmark/datasets.py\<close>). The file system is a map from
  paths to contents, a missing entry is an \<open>OSError\<close>; SHA-256 in hexadecimal, \<open>json.loads\<close>,
  \<open>str\<close> and \<open>int\<close> on values are the parameters of \<open>data_env\<close>. An error the loader raises
  itself is \<open>Integrity\<close>, any other exception \<open>Uncaught\<close> with its class.
\<close>

record data_env =
  de_text :: text_env
  de_int :: "string \<Rightarrow> int option"
  de_sha256 :: "string \<Rightarrow> string"

type_synonym file_store = "string \<Rightarrow> string option"

datatype dataset_error = Integrity string | Uncaught string

datatype item_target = TextTarget string | RecordTarget json_object | OtherTarget json

record dataset_item =
  di_item_id :: string
  di_difficulty :: string
  di_prompt :: string
  di_target :: "item_target option"
  di_input_token_target :: "int option"
  di_output_token_target :: "int option"

record dataset_bundle =
  db_name :: string
  db_version :: string
  db_workload :: string
  db_seed :: int
  db_checksum :: string
  db_items :: "dataset_item list"

section \<open>Python values\<close>

text \<open>\<open>str(v)\<close> and \<open>int(v)\<close> on a decoded value.\<close>

fun py_str :: "text_env \<Rightarrow> json \<Rightarrow> string" where
  "py_str te (JStr s) = s"
| "py_str te JNull = ''None''"
| "py_str te (JBool b) = (if b then ''True'' else ''False'')"
| "py_str te (JInt i) = str_int i"
| "py_str te v = te_str te v"

fun py_int :: "data_env \<Rightarrow> json \<Rightarrow> string + int" where
  "py_int de (JInt i) = Inr i"
| "py_int de (JBool b) = Inr (if b then 1 else 0)"
| "py_int de (JFloat x) = Inr (int_of_float x)"
| "py_int de (JStr s) = (case de_int de s of None \<Rightarrow> Inl ''ValueError'' | Some i \<Rightarrow> Inr i)"
| "py_int de v = Inl ''TypeError''"

fun uncaught :: "string + 'a \<Rightarrow> dataset_error + 'a" where
  "uncaught (Inl s) = Inl (Uncaught s)"
| "uncaught (Inr x) = Inr x"

section \<open>Checksums\<close>

text \<open>\<open>line.partition("  ")\<close>, with \<open>None\<close> for a missing separator.\<close>

fun partition_gap :: "string \<Rightarrow> (string \<times> string) option" where
  "partition_gap (a # b # s) =
     (if a = CHR '' '' \<and> b = CHR '' '' then Some ([], s)
      else map_option (\<lambda>(x, y). (a # x, y)) (partition_gap (b # s)))"
| "partition_gap s = None"

text \<open>\<open>path.parent / name\<close>, and \<open>path.with_suffix\<close>: the last name of the path loses what follows
  its last dot, unless the dot is its first or last character.\<close>

definition split_name :: "string \<Rightarrow> string \<times> string" where
  "split_name path =
     (let name = rev (takeWhile (\<lambda>c. c \<noteq> CHR ''/'') (rev path))
      in (take (length path - length name) path, name))"

definition parent_join :: "string \<Rightarrow> string \<Rightarrow> string" where
  "parent_join path name = (if starts_with name ''/'' then name else fst (split_name path) @ name)"

definition stem :: "string \<Rightarrow> string" where
  "stem name =
     (let tail = takeWhile (\<lambda>c. c \<noteq> CHR ''.'') (rev name);
          k = length name - length tail
      in if tail \<noteq> [] \<and> 1 < k then take (k - 1) name else name)"

definition with_suffix :: "string \<Rightarrow> string \<Rightarrow> string" where
  "with_suffix path ext = (let (folder, name) = split_name path in folder @ stem name @ ext)"

definition check_line ::
    "data_env \<Rightarrow> file_store \<Rightarrow> string \<Rightarrow> string \<Rightarrow> dataset_error + string" where
  "check_line de files checksum_path line =
     (case partition_gap line of
        None \<Rightarrow> Inl (Integrity ''invalid checksum line'')
      | Some (expected, filename) \<Rightarrow>
          if length expected \<noteq> 64 \<or> filename = [] then Inl (Integrity ''invalid checksum line'')
          else (case files (parent_join checksum_path filename) of
                  None \<Rightarrow> Inl (Uncaught ''OSError'')
                | Some content \<Rightarrow>
                    if de_sha256 de content \<noteq> expected then Inl (Integrity ''checksum mismatch'')
                    else Inr (expected @ ''  '' @ filename @ [CHR 0x0A])))"

text \<open>The aggregate digest is updated line by line; it is the digest of the concatenation.\<close>

definition verify_checksum :: "data_env \<Rightarrow> file_store \<Rightarrow> string \<Rightarrow> dataset_error + string" where
  "verify_checksum de files checksum_path =
     (case files checksum_path of
        None \<Rightarrow> Inl (Integrity ''cannot read checksum file'')
      | Some content \<Rightarrow>
          bind_res (traverse (check_line de files checksum_path) (splitlines content))
            (\<lambda>lines. Inr (de_sha256 de (concat lines))))"

section \<open>Loading\<close>

definition json_lines :: "data_env \<Rightarrow> file_store \<Rightarrow> string \<Rightarrow> dataset_error + json list" where
  "json_lines de files path =
     (case files path of
        None \<Rightarrow> Inl (Integrity ''cannot load dataset file'')
      | Some content \<Rightarrow>
          traverse (\<lambda>line. case te_loads (de_text de) line of
                             None \<Rightarrow> Inl (Integrity ''cannot load dataset file'')
                           | Some v \<Rightarrow> Inr v) (splitlines content))"

fun target_of :: "json \<Rightarrow> item_target option" where
  "target_of JNull = None"
| "target_of (JStr s) = Some (TextTarget s)"
| "target_of (JObj kvs) = Some (RecordTarget kvs)"
| "target_of v = Some (OtherTarget v)"

definition target_row :: "data_env \<Rightarrow> json \<Rightarrow> string + (string \<times> json)" where
  "target_row de row =
     bind_res (json_item row ''id'') (\<lambda>i. bind_res (json_get row ''target'') (\<lambda>t.
       Inr (py_str (de_text de) i, t)))"

text \<open>\<open>int(str(row[key])) if key in row else None\<close>, on a row that has been subscripted.\<close>

definition token_target :: "data_env \<Rightarrow> json \<Rightarrow> string \<Rightarrow> string + int option" where
  "token_target de row key =
     (case row of
        JObj kvs \<Rightarrow>
          (case map_of kvs key of
             None \<Rightarrow> Inr None
           | Some v \<Rightarrow> (case de_int de (py_str (de_text de) v) of
                          None \<Rightarrow> Inl ''ValueError'' | Some i \<Rightarrow> Inr (Some i)))
      | _ \<Rightarrow> Inl ''TypeError'')"

text \<open>The targets are a dictionary: of two rows with one identifier the later counts.\<close>

definition item_of_row ::
    "data_env \<Rightarrow> (string \<times> json) list \<Rightarrow> json \<Rightarrow> string + dataset_item" where
  "item_of_row de targets row =
     bind_res (json_item row ''id'') (\<lambda>i.
     bind_res (json_item row ''difficulty'') (\<lambda>d.
     bind_res (json_item row ''prompt'') (\<lambda>p.
     bind_res (token_target de row ''input_token_target'') (\<lambda>inp.
     bind_res (token_target de row ''output_token_target'') (\<lambda>outp.
       let te = de_text de
       in Inr \<lparr>di_item_id = py_str te i, di_difficulty = py_str te d, di_prompt = py_str te p,
               di_target = target_of (dict_get (rev targets) (py_str te i)),
               di_input_token_target = inp, di_output_token_target = outp\<rparr>)))))"

text \<open>\<open>len(items) != metadata["count"]\<close>: integers, booleans and floats compare by value.\<close>

fun json_equals_int :: "json \<Rightarrow> int \<Rightarrow> bool" where
  "json_equals_int (JInt i) n = (i = n)"
| "json_equals_int (JBool b) n = ((if b then 1 else 0) = n)"
| "json_equals_int (JFloat x) n = (x = of_int n)"
| "json_equals_int _ n = False"

definition load_targets ::
    "data_env \<Rightarrow> file_store \<Rightarrow> string \<Rightarrow> dataset_error + (string \<times> json) list" where
  "load_targets de files path =
     (case files path of
        None \<Rightarrow> Inr []
      | Some _ \<Rightarrow> bind_res (json_lines de files path) (\<lambda>rows. uncaught (traverse (target_row de) rows)))"

definition bundle_of ::
    "data_env \<Rightarrow> string \<Rightarrow> json \<Rightarrow> dataset_item list \<Rightarrow> dataset_error + dataset_bundle" where
  "bundle_of de checksum metadata items =
     bind_res (uncaught (json_item metadata ''count'')) (\<lambda>count.
     bind_res (guard_that (json_equals_int count (int (length items)))
                 (Integrity ''metadata count does not match prompt records'')) (\<lambda>_.
     bind_res (guard_that (card (set (map di_item_id items)) = length items)
                 (Integrity ''dataset item identifiers are not unique'')) (\<lambda>_.
     bind_res (uncaught (json_item metadata ''name'')) (\<lambda>name.
     bind_res (uncaught (json_item metadata ''version'')) (\<lambda>version.
     bind_res (uncaught (json_item metadata ''workload'')) (\<lambda>workload.
     bind_res (uncaught (bind_res (json_item metadata ''seed'') (py_int de))) (\<lambda>seed.
       let te = de_text de
       in Inr \<lparr>db_name = py_str te name, db_version = py_str te version,
               db_workload = py_str te workload, db_seed = seed, db_checksum = checksum,
               db_items = items\<rparr>)))))))"

definition load_dataset ::
    "data_env \<Rightarrow> file_store \<Rightarrow> string \<Rightarrow> string \<Rightarrow> dataset_error + dataset_bundle" where
  "load_dataset de files folder reference =
     (let base = (if starts_with reference ''/'' then reference else folder @ ''/'' @ reference)
      in bind_res (verify_checksum de files (with_suffix base ''.sha256'')) (\<lambda>checksum.
         bind_res (case files (with_suffix base ''.metadata.json'') of
                     None \<Rightarrow> Inl (Integrity ''cannot load metadata'')
                   | Some content \<Rightarrow>
                       (case te_loads (de_text de) content of
                          None \<Rightarrow> Inl (Integrity ''cannot load metadata'')
                        | Some v \<Rightarrow> Inr v)) (\<lambda>metadata.
         bind_res (json_lines de files (with_suffix base ''.prompts.jsonl'')) (\<lambda>prompts.
         bind_res (load_targets de files (with_suffix base ''.targets.jsonl'')) (\<lambda>targets.
         bind_res (uncaught (traverse (item_of_row de targets) prompts)) (\<lambda>items.
           bundle_of de checksum metadata items))))))"

section \<open>Lemmas\<close>

lemma partition_gap_Some: "partition_gap line = Some (x, y) \<Longrightarrow> line = x @ ''  '' @ y"
  by (induction line arbitrary: x rule: partition_gap.induct) (auto split: if_splits)

lemma uncaught_Inr [simp]: "uncaught r = Inr x \<longleftrightarrow> r = Inr x"
  by (cases r) auto

text \<open>A line that passes names a readable file with the recorded digest.\<close>

definition vouches :: "data_env \<Rightarrow> file_store \<Rightarrow> string \<Rightarrow> string \<Rightarrow> bool" where
  "vouches de files checksum_path line \<longleftrightarrow>
     (\<exists>digest name content. partition_gap line = Some (digest, name) \<and> length digest = 64
        \<and> files (parent_join checksum_path name) = Some content \<and> de_sha256 de content = digest)"

lemma check_line_vouches:
  assumes "check_line de files path line = Inr s"
  shows "vouches de files path line"
proof -
  obtain digest name where gap: "partition_gap line = Some (digest, name)"
    using assms by (cases "partition_gap line") (auto simp: check_line_def)
  from assms obtain content where "length digest = 64"
      "files (parent_join path name) = Some content" "de_sha256 de content = digest"
    by (auto simp: check_line_def gap split: option.splits if_splits)
  with gap show ?thesis unfolding vouches_def by blast
qed

lemma verify_checksum_Inr:
  assumes "verify_checksum de files path = Inr checksum"
  obtains content where "files path = Some content"
    "\<forall>line \<in> set (splitlines content). vouches de files path line"
proof -
  obtain content lines where c: "files path = Some content"
    and t: "traverse (check_line de files path) (splitlines content) = Inr lines"
    using assms by (auto simp: verify_checksum_def bind_res_Inr split: option.splits)
  have "vouches de files path line" if "line \<in> set (splitlines content)" for line
    using traverse_Inr_iff [THEN iffD1, OF exI, OF t] that by (auto intro: check_line_vouches)
  with c show ?thesis using that by blast
qed

lemma load_dataset_Inr:
  assumes "load_dataset de files folder reference = Inr b"
    and "base = (if starts_with reference ''/'' then reference else folder @ ''/'' @ reference)"
  obtains metadata content where
    "verify_checksum de files (with_suffix base ''.sha256'') = Inr (db_checksum b)"
    "files (with_suffix base ''.metadata.json'') = Some content"
    "te_loads (de_text de) content = Some metadata"
    "bundle_of de (db_checksum b) metadata (db_items b) = Inr b"
  using assms
  by (auto simp: load_dataset_def Let_def bind_res_Inr bundle_of_def split: option.splits)

lemma bundle_of_Inr:
  assumes "bundle_of de checksum metadata items = Inr b"
  shows "distinct (map di_item_id items)"
    and "\<exists>count. json_item metadata ''count'' = Inr count \<and> json_equals_int count (int (length items))"
  using assms by (auto simp: bundle_of_def bind_res_Inr card_distinct)

text \<open>Nothing obliges the checksum file to name the files that are loaded.\<close>

lemma empty_checksum_passes:
  "files path = Some '''' \<Longrightarrow> verify_checksum de files path = Inr (de_sha256 de '''')"
  by (simp add: verify_checksum_def splitlines_def)

section \<open>Properties\<close>

text \<open>Equal digests come from equal contents, at a path of the two stores.\<close>

definition no_collision :: "data_env \<Rightarrow> file_store \<Rightarrow> file_store \<Rightarrow> string \<Rightarrow> bool" where
  "no_collision de files files' path \<longleftrightarrow>
     (case (files path, files' path) of
        (Some x, Some y) \<Rightarrow> de_sha256 de x = de_sha256 de y \<longrightarrow> x = y
      | _ \<Rightarrow> True)"

text \<open>The checksum file names a path.\<close>

definition lists_path :: "string \<Rightarrow> string \<Rightarrow> string \<Rightarrow> bool" where
  "lists_path checksum_path content path \<longleftrightarrow>
     list_ex (\<lambda>line. case partition_gap line of
                       None \<Rightarrow> False | Some (d, n) \<Rightarrow> parent_join checksum_path n = path)
       (splitlines content)"

lemma listed_path_frozen:
  assumes "verify_checksum de files cp = Inr c" "verify_checksum de files' cp = Inr c'"
    and "files cp = Some content" "files' cp = Some content"
    and "lists_path cp content path" "no_collision de files files' path"
  shows "files path = files' path"
proof -
  obtain line d n where line: "line \<in> set (splitlines content)"
      "partition_gap line = Some (d, n)" "parent_join cp n = path"
    using assms(5) by (auto simp: lists_path_def list_ex_iff split: option.splits)
  have "\<exists>x. f path = Some x \<and> de_sha256 de x = d"
    if ok: "verify_checksum de f cp = Inr k" and at: "f cp = Some content" for f k
  proof -
    obtain content' where "f cp = Some content'" "\<forall>l \<in> set (splitlines content'). vouches de f cp l"
      by (rule verify_checksum_Inr [OF ok])
    then have "vouches de f cp line" using at line(1) by simp
    then show ?thesis using line(2,3) by (simp add: vouches_def)
  qed
  from this [OF assms(1,3)] this [OF assms(2,4)]
  obtain x y where "files path = Some x" "files' path = Some y" "de_sha256 de x = de_sha256 de y"
    by metis
  with assms(6) show ?thesis by (simp add: no_collision_def)
qed

text \<open>What the loader reads besides the checksum file.\<close>

definition data_paths :: "string \<Rightarrow> string list" where
  "data_paths base =
     map (with_suffix base) [''.metadata.json'', ''.prompts.jsonl'', ''.targets.jsonl'']"

definition dataset_base :: "string \<Rightarrow> string \<Rightarrow> string" where
  "dataset_base folder reference =
     (if starts_with reference ''/'' then reference else folder @ ''/'' @ reference)"

lemma json_lines_cong: "files p = files' p \<Longrightarrow> json_lines de files p = json_lines de files' p"
  by (simp add: json_lines_def)

lemma load_targets_cong: "files p = files' p \<Longrightarrow> load_targets de files p = load_targets de files' p"
  by (simp add: load_targets_def json_lines_def split: option.split)

lemma load_dataset_cong:
  assumes "verify_checksum de files (with_suffix base ''.sha256'')
      = verify_checksum de files' (with_suffix base ''.sha256'')"
    and same: "\<And>path. path \<in> set (data_paths base) \<Longrightarrow> files path = files' path"
    and "base = dataset_base folder reference"
  shows "load_dataset de files folder reference = load_dataset de files' folder reference"
proof -
  have at: "files (with_suffix base ext) = files' (with_suffix base ext)"
    if "ext \<in> {''.metadata.json'', ''.prompts.jsonl'', ''.targets.jsonl''}" for ext
    using same that by (auto simp: data_paths_def)
  show ?thesis
    unfolding load_dataset_def Let_def assms(3) [unfolded dataset_base_def, symmetric]
    using assms(1) json_lines_cong [where files = files and files' = files', OF at]
      load_targets_cong [where files = files and files' = files', OF at] at by simp
qed

lemma same_lines_same_checksum:
  assumes "verify_checksum de files cp = Inr c" "verify_checksum de files' cp = Inr c'"
    and "files cp = files' cp"
  shows "c = c'"
proof -
  obtain content xs ys where x: "traverse (check_line de files cp) (splitlines content) = Inr xs"
      "c = de_sha256 de (concat xs)"
    and y: "traverse (check_line de files' cp) (splitlines content) = Inr ys"
      "c' = de_sha256 de (concat ys)"
    using assms by (auto simp: verify_checksum_def bind_res_Inr split: option.splits)
  have "xs ! i = ys ! i" if "i < length xs" for i
    using traverse_nth [OF x(1), of i] traverse_nth [OF y(1), of i] that traverse_length [OF x(1)]
    by (auto simp: check_line_def split: option.splits prod.splits if_splits)
  then have "xs = ys"
    using traverse_length [OF x(1)] traverse_length [OF y(1)] by (intro nth_equalityI) auto
  then show ?thesis using x y by simp
qed

text \<open>
  C28. Frozen data sets: two successful loads of one reference, from stores with the same checksum
  file, return the same data set, whatever else the stores hold, provided that the checksum file
  names the metadata, the prompts and the targets and that the digest does not collide on them.
\<close>

theorem dataset_frozen:
  assumes "load_dataset de files folder reference = Inr b"
    and "load_dataset de files' folder reference = Inr b'"
    and "base = dataset_base folder reference" "cp = with_suffix base ''.sha256''"
    and "files cp = Some content" "files' cp = Some content"
    and "list_all (lists_path cp content) (data_paths base)"
    and "list_all (no_collision de files files') (data_paths base)"
  shows "b = b' \<and> distinct (map di_item_id (db_items b))"
proof -
  note base = assms(3) [unfolded dataset_base_def]
  have c: "verify_checksum de files cp = Inr (db_checksum b)"
    and u: "bundle_of de (db_checksum b) metadata (db_items b) = Inr b \<Longrightarrow>
      distinct (map di_item_id (db_items b))" for metadata
    using load_dataset_Inr [OF assms(1) base] assms(4) bundle_of_Inr(1) by auto
  have c': "verify_checksum de files' cp = Inr (db_checksum b')"
    using load_dataset_Inr [OF assms(2) base] assms(4) by auto
  have "files path = files' path" if "path \<in> set (data_paths base)" for path
    using listed_path_frozen [OF c c' assms(5,6)] assms(7,8) that by (simp add: list_all_iff)
  moreover have "verify_checksum de files cp = verify_checksum de files' cp"
    using same_lines_same_checksum [OF c c'] assms(5,6) c c' by simp
  ultimately have "load_dataset de files folder reference = load_dataset de files' folder reference"
    using load_dataset_cong [OF _ _ assms(3)] assms(4) by blast
  moreover have "distinct (map di_item_id (db_items b))"
    using load_dataset_Inr [OF assms(1) base] u by blast
  ultimately show ?thesis using assms(1,2) by simp
qed

definition lab_digest :: "string \<Rightarrow> string" where
  "lab_digest s =
     replicate 64 (if s = ''M'' then CHR ''a'' else if s = ''P'' then CHR ''b''
                   else if s = '''' then CHR ''c'' else CHR ''f'')"

definition lab_data_env :: data_env where
  "lab_data_env =
     \<lparr>de_text = lab_text\<lparr>te_loads := map_of
        [(''M'', JObj [(''count'', JInt 1), (''name'', JStr ''wl''), (''version'', JStr ''1''),
                     (''workload'', JStr ''generation''), (''seed'', JInt 7)]),
         (''P'', JObj [(''id'', JStr ''g-1''), (''difficulty'', JStr ''easy''), (''prompt'', JStr ''Go'')])]\<rparr>,
      de_int = (\<lambda>s. None), de_sha256 = lab_digest\<rparr>"

definition lab_checksums :: string where
  "lab_checksums =
     replicate 64 (CHR ''a'') @ ''  wl.metadata.json'' @ CHR 0x0A #
     replicate 64 (CHR ''b'') @ ''  wl.prompts.jsonl'' @ CHR 0x0A #
     replicate 64 (CHR ''c'') @ ''  wl.targets.jsonl''"

definition lab_files :: file_store where
  "lab_files = map_of
     [(''r/wl.sha256'', lab_checksums), (''r/wl.metadata.json'', ''M''),
      (''r/wl.prompts.jsonl'', ''P''), (''r/wl.targets.jsonl'', '''')]"

definition lab_bundle :: dataset_bundle where
  "lab_bundle = (case load_dataset lab_data_env lab_files ''r'' ''wl'' of Inr b \<Rightarrow> b
     | Inl _ \<Rightarrow> \<lparr>db_name = '''', db_version = '''', db_workload = '''', db_seed = 0, db_checksum = '''',
                db_items = []\<rparr>)"

text \<open>The store may hold other files: the loaded data set is the same.\<close>

theorem dataset_frozen_witness:
  "load_dataset lab_data_env (lab_files(''r/other'' \<mapsto> ''x'')) ''r'' ''wl'' = Inr lab_bundle
   \<and> map di_item_id (db_items lab_bundle) = [''g-1'']"
proof -
  have load: "load_dataset lab_data_env lab_files ''r'' ''wl'' = Inr lab_bundle"
    and items: "map di_item_id (db_items lab_bundle) = [''g-1'']"
    and lists: "list_all (lists_path (with_suffix (dataset_base ''r'' ''wl'') ''.sha256'') lab_checksums)
      (data_paths (dataset_base ''r'' ''wl''))"
    and clash: "list_all (no_collision lab_data_env lab_files (lab_files(''r/other'' \<mapsto> ''x'')))
      (data_paths (dataset_base ''r'' ''wl''))"
    and cp: "lab_files (with_suffix (dataset_base ''r'' ''wl'') ''.sha256'') = Some lab_checksums"
      "(lab_files(''r/other'' \<mapsto> ''x'')) (with_suffix (dataset_base ''r'' ''wl'') ''.sha256'') = Some lab_checksums"
    by code_simp+
  have "case load_dataset lab_data_env (lab_files(''r/other'' \<mapsto> ''x'')) ''r'' ''wl'' of
      Inl e \<Rightarrow> False | Inr b \<Rightarrow> True"
    by code_simp
  then obtain b' where other: "load_dataset lab_data_env (lab_files(''r/other'' \<mapsto> ''x'')) ''r'' ''wl'' = Inr b'"
    by (auto split: sum.splits)
  from dataset_frozen [OF load other refl refl cp lists clash] other items show ?thesis by simp
qed

end
