(* ===== verification/Harness.thy ===== *)
theory Harness
  imports Datasets Gateway_Routes Bench_Models Cost_Engine OpenAI_Adapter
begin

text \<open>
  The benchmark harness (\<open>benchmark/harness.py\<close>): the reader of the gateway's event streams,
  one request with its evidence record, the request mix, the managed cost, and a run over its
  repeats. The gateway behind the HTTP client, the clock, \<open>uuid5\<close> and the sample drawn by
  \<open>random.Random\<close> are parameters; an exception is \<open>Inl\<close> of its class.
\<close>

section \<open>Statuses and quality\<close>

definition class_of_status :: "int \<Rightarrow> error_class" where
  "class_of_status status =
     (if status = 429 then RateLimited else if status = 504 then TimeoutClass
      else if 500 \<le> status then Provider5xx else InvalidRequest)"

text \<open>\<open>code\<close> is the \<open>None\<close> of the initialisation or of an absent key, or the value found.\<close>

definition error_code :: "json option \<Rightarrow> string + json" where
  "error_code payload =
     (case payload of
        None \<Rightarrow> Inr JNull
      | Some p \<Rightarrow>
          if \<not> json_truthy p then Inr JNull
          else bind_res (json_get p ''error'') (\<lambda>e.
                 case e of JObj kvs \<Rightarrow> Inr (dict_get kvs ''code'') | _ \<Rightarrow> Inr JNull))"

definition http_error_class :: "text_env \<Rightarrow> int \<Rightarrow> json option \<Rightarrow> string + error_class option" where
  "http_error_class te status payload =
     (if 200 \<le> status \<and> status < 300 then Inr None
      else bind_res (error_code payload) (\<lambda>code.
        Inr (Some (case parse_error_class (py_str te code) of
                     Some c \<Rightarrow> c | None \<Rightarrow> class_of_status status))))"

definition quality ::
    "text_env \<Rightarrow> workload_kind \<Rightarrow> string \<Rightarrow> item_target option \<Rightarrow> string list option
      \<Rightarrow> string + (bool option \<times> json_object option)" where
  "quality te w output target labels =
     (case (w, target) of
        (Generation, _) \<Rightarrow> Inr (None, None)
      | (Classification, Some (TextTarget t)) \<Rightarrow>
          (let e = evaluate_classification te output t labels
           in Inr (Some (ev_task_correct e), Some (ev_score e)))
      | (StructuredExtraction, Some (RecordTarget r)) \<Rightarrow>
          (let e = evaluate_extraction te output r
           in Inr (Some (ev_task_correct e), Some (ev_score e)))
      | _ \<Rightarrow> Inl ''BenchmarkRunError'')"

section \<open>Event streams\<close>

record stream_reading =
  sr_output :: "string list"
  sr_usage :: "(string \<times> int) list"
  sr_error :: "string option"
  sr_first :: "rat option"
  sr_finish :: "string option"

definition empty_reading :: stream_reading where
  "empty_reading =
     \<lparr>sr_output = [], sr_usage = [], sr_error = None, sr_first = None, sr_finish = None\<rparr>"

text \<open>\<open>"error" in event\<close>: a key of an object, an element of an array, a part of a string.\<close>

fun has_error :: "json \<Rightarrow> string + bool" where
  "has_error (JObj kvs) = Inr (''error'' \<in> set (dict_keys kvs))"
| "has_error (JArr xs) = Inr (JStr ''error'' \<in> set xs)"
| "has_error (JStr s) = Inr (list_ex (\<lambda>t. starts_with t ''error'') (suffixes s))"
| "has_error _ = Inl ''TypeError''"

text \<open>\<open>x.get(key, default)\<close>\<close>

fun get_or :: "json \<Rightarrow> string \<Rightarrow> json \<Rightarrow> string + json" where
  "get_or (JObj kvs) k d = Inr (case map_of kvs k of None \<Rightarrow> d | Some v \<Rightarrow> v)"
| "get_or _ k d = Inl ''AttributeError''"

definition int_items :: "data_env \<Rightarrow> json_object \<Rightarrow> string + (string \<times> int) list" where
  "int_items de kvs = traverse (\<lambda>(k, v). bind_res (py_int de v) (\<lambda>i. Inr (k, i))) kvs"

definition read_choice ::
    "data_env \<Rightarrow> rat \<Rightarrow> json \<Rightarrow> stream_reading \<Rightarrow> string + stream_reading" where
  "read_choice de now choices r =
     bind_res (json_first choices) (\<lambda>choice.
     bind_res (get_or choice ''delta'' (JObj [])) (\<lambda>delta.
     bind_res (get_or delta ''content'' (JStr '''')) (\<lambda>content.
     bind_res (json_get choice ''finish_reason'') (\<lambda>finish.
       let te = de_text de;
           r1 = (if json_truthy content
                 then r\<lparr>sr_first := (case sr_first r of None \<Rightarrow> Some now | Some t \<Rightarrow> Some t),
                        sr_output := sr_output r @ [py_str te content]\<rparr>
                 else r)
       in Inr (if json_truthy finish then r1\<lparr>sr_finish := Some (py_str te finish)\<rparr> else r1)))))"

definition read_event ::
    "data_env \<Rightarrow> rat \<Rightarrow> json \<Rightarrow> stream_reading \<Rightarrow> string + stream_reading" where
  "read_event de now event r =
     bind_res (has_error event) (\<lambda>failed.
       if failed
       then bind_res (json_item event ''error'') (\<lambda>e.
            bind_res (get_or e ''code'' (JStr (error_class_value MalformedResponse))) (\<lambda>code.
              Inr (r\<lparr>sr_error := Some (py_str (de_text de) code)\<rparr>)))
       else bind_res (get_or event ''choices'' (JArr [])) (\<lambda>choices.
            bind_res (if json_truthy choices then read_choice de now choices r else Inr r) (\<lambda>r'.
            bind_res (json_get event ''usage'') (\<lambda>usage.
              case usage of
                JObj kvs \<Rightarrow> bind_res (int_items de kvs) (\<lambda>u. Inr (r'\<lparr>sr_usage := u\<rparr>))
              | _ \<Rightarrow> Inr r'))))"

definition data_mark :: string where
  "data_mark = ''data: ''"

definition read_line ::
    "data_env \<Rightarrow> rat \<Rightarrow> string \<Rightarrow> stream_reading \<Rightarrow> string + stream_reading" where
  "read_line de now line r =
     (if \<not> starts_with line data_mark then Inr r
      else (let data = drop (length data_mark) line
            in if data = ''[DONE]'' then Inr r
               else (case te_loads (de_text de) data of
                       None \<Rightarrow> Inr (r\<lparr>sr_error := Some (error_class_value MalformedResponse)\<rparr>)
                     | Some event \<Rightarrow> read_event de now event r)))"

text \<open>Each line comes with the clock when it is read; a failing connection raises.\<close>

fun read_lines ::
    "data_env \<Rightarrow> (rat \<times> line_event) list \<Rightarrow> stream_reading \<Rightarrow> string + stream_reading" where
  "read_lines de [] r = Inr r"
| "read_lines de ((now, Line l) # rest) r = bind_res (read_line de now l r) (read_lines de rest)"
| "read_lines de ((now, LineFailure f) # rest) r = Inl ''HTTPError''"

definition stream_text_of ::
    "data_env \<Rightarrow> (rat \<times> line_event) list
      \<Rightarrow> string + (string \<times> (string \<times> int) list \<times> string option \<times> rat option \<times> string option)" where
  "stream_text_of de lines =
     bind_res (read_lines de lines empty_reading) (\<lambda>r.
       Inr (concat (sr_output r), sr_usage r, sr_error r, sr_first r, sr_finish r))"

section \<open>The request mix\<close>

fun pick_profile :: "request_profile list \<Rightarrow> int \<Rightarrow> (data_class \<times> quality_tier) option" where
  "pick_profile [] slot = None"
| "pick_profile (p # ps) slot =
     (if slot < rq_weight p then Some (rq_data_class p, rq_quality_tier p)
      else pick_profile ps (slot - rq_weight p))"

text \<open>\<open>None\<close> is the \<open>AssertionError\<close> at the end of the loop, or a zero modulus.\<close>

definition profile_of :: "scenario \<Rightarrow> int \<Rightarrow> (data_class \<times> quality_tier) option" where
  "profile_of s index =
     (if sc_request_mix s = [] then Some (sc_data_class s, sc_quality_tier s)
      else pick_profile (sc_request_mix s) (index mod (\<Sum>p \<leftarrow> sc_request_mix s. rq_weight p)))"

section \<open>Usage and cost\<close>

definition usage_record :: "(string \<times> int) list \<Rightarrow> string + token_usage_record" where
  "usage_record usage =
     (let available = (if usage \<noteq> [] then ProviderReported else Unavailable);
          inp = map_of usage ''prompt_tokens'';
          outp = map_of usage ''completion_tokens'';
          u = \<lparr>tu_input = inp, tu_input_source = available,
               tu_visible = outp, tu_visible_source = available,
               tu_billed_input = inp, tu_billed_input_source = available,
               tu_billed_output = outp, tu_billed_output_source = available, tu_special = None\<rparr>
      in if token_usage_ok u then Inr u else Inl ''ValidationError'')"

definition normalized_of :: "token_usage_record \<Rightarrow> normalized_usage" where
  "normalized_of u = usage_unavailable
     \<lparr>nu_visible := tu_visible u, nu_visible_source := tu_visible_source u,
      nu_input := tu_billed_input u, nu_input_source := tu_billed_input_source u,
      nu_output := tu_billed_output u, nu_output_source := tu_billed_output_source u\<rparr>"

definition managed_cost ::
    "gateway_config \<Rightarrow> string option \<Rightarrow> string \<Rightarrow> token_usage_record \<Rightarrow> string + decimal option" where
  "managed_cost cfg provider model_alias u =
     (case provider of
        None \<Rightarrow> Inr None
      | Some name \<Rightarrow>
          if \<not> starts_with name ''managed'' then Inr None
          else
            (let route = map_of (rp_providers (gc_routing cfg)) name;
                 provider_name = or_str (Option.bind route rpc_provider) name;
                 price_alias = or_str (Option.bind route rpc_model_alias) model_alias
             in case validate_usage (normalized_of u) of
                  Inl e \<Rightarrow> Inl ''ValidationError''
                | Inr _ \<Rightarrow>
                    (case price (gc_providers cfg) provider_name price_alias (normalized_of u) of
                       None \<Rightarrow> Inr None
                     | Some (Inl e) \<Rightarrow> Inl ''ValidationError''
                     | Some (Inr m) \<Rightarrow> Inr (Some (amount m)))))"

section \<open>One request\<close>

text \<open>
  A call is identified by whether it is measured, its repeat and its index in the repeat. What the
  gateway answers to a call and the clock readings around it are functions of the call, which may
  be any: they cover every interleaving of concurrent calls.
\<close>

record harness_call =
  hk_measured :: bool
  hk_repeat :: int
  hk_index :: nat

record call_clock =
  cl_started :: timestamp
  cl_dispatch :: pyfloat
  cl_completed :: timestamp
  cl_end :: pyfloat

record harness_env =
  he_data :: data_env
  he_api_key :: string
  he_uuid :: "string \<Rightarrow> string"
  he_clock :: "harness_call \<Rightarrow> call_clock"
  he_post :: "harness_call \<Rightarrow> (string \<times> string) list \<Rightarrow> json_object \<Rightarrow> string + http_answer"
  he_stream :: "harness_call \<Rightarrow> (string \<times> string) list \<Rightarrow> json_object \<Rightarrow> string + stream_answer"
  he_sample :: "int \<Rightarrow> dataset_item list \<Rightarrow> int \<Rightarrow> dataset_item list"

text \<open>\<open>headers.get(key)\<close>: names compare without case, repeated fields are joined.\<close>

definition header :: "(string \<times> string) list \<Rightarrow> string \<Rightarrow> string option" where
  "header hs key =
     (case map snd (filter (\<lambda>(k, v). map ascii_lower_char k = map ascii_lower_char key) hs) of
        [] \<Rightarrow> None
      | v # vs \<Rightarrow> Some (concat (v # map ((@) '', '') vs)))"

fun workload_name :: "workload_kind \<Rightarrow> string" where
  "workload_name Classification = ''classification''"
| "workload_name StructuredExtraction = ''structured-extraction''"
| "workload_name Generation = ''generation''"

fun parse_difficulty :: "string \<Rightarrow> difficulty option" where
  "parse_difficulty s =
     (if s = ''easy'' then Some Easy else if s = ''medium'' then Some Medium
      else if s = ''hard'' then Some Hard else None)"

definition call_request_id :: "harness_env \<Rightarrow> scenario \<Rightarrow> harness_call \<Rightarrow> string \<Rightarrow> string" where
  "call_request_id he s k item_id =
     he_uuid he (sc_id s @ '':'' @ str_int (hk_repeat k) @ '':'' @ item_id @ '':''
       @ (if hk_measured k then ''measured'' else ''warmup''))"

definition call_headers ::
    "harness_env \<Rightarrow> scenario \<Rightarrow> string \<Rightarrow> data_class \<times> quality_tier \<Rightarrow> (string \<times> string) list" where
  "call_headers he s request_id profile =
     [(''Authorization'', ''Bearer '' @ he_api_key he), (''X-Gateway-Request-Id'', request_id),
      (''X-Gateway-Workload'', workload_name (sc_workload s)),
      (''X-Gateway-Data-Class'', data_class_value (fst profile)),
      (''X-Gateway-Quality-Tier'', quality_tier_value (snd profile))]"

definition call_body :: "scenario \<Rightarrow> dataset_item \<Rightarrow> json_object" where
  "call_body s item =
     [(''model'', JStr (sc_model s)),
      (''messages'', JArr [JObj [(''role'', JStr ''user''),
         (''content'', JStr (''[dataset_item_id='' @ di_item_id item @ '']'' @ CHR 0x0A # di_prompt item))]]),
      (''temperature'', JFloat (sc_temperature s)), (''max_tokens'', JInt (sc_max_tokens s)),
      (''stream'', JBool (sc_stream s))]"

text \<open>What the two ways of calling leave in the local variables.\<close>

record call_result =
  rs_status :: int
  rs_headers :: "(string \<times> string) list"
  rs_output :: string
  rs_usage :: "(string \<times> int) list"
  rs_payload :: "json option"
  rs_stream_error :: "string option"
  rs_ttft :: "pyfloat option"
  rs_finish :: "string option"

definition read_stream :: "harness_env \<Rightarrow> pyfloat \<Rightarrow> stream_answer \<Rightarrow> string + call_result" where
  "read_stream he dispatch a =
     bind_res (stream_text_of (he_data he) (sa_lines a)) (\<lambda>(output, usage, err, first, finish).
       Inr \<lparr>rs_status = sa_status a, rs_headers = sa_headers a, rs_output = output, rs_usage = usage,
            rs_payload = (if 300 \<le> sa_status a then te_loads (de_text (he_data he)) output else None),
            rs_stream_error = err,
            rs_ttft = map_option (\<lambda>t. fmul (fsub t dispatch) 1000) first, rs_finish = finish\<rparr>)"

definition read_body :: "harness_env \<Rightarrow> http_answer \<Rightarrow> string + call_result" where
  "read_body he a =
     (let te = de_text (he_data he);
          payload = te_loads te (ha_body a);
          base = \<lparr>rs_status = ha_status a, rs_headers = ha_headers a, rs_output = '''', rs_usage = [],
                  rs_payload = payload, rs_stream_error = None, rs_ttft = None, rs_finish = None\<rparr>
      in case payload of
           None \<Rightarrow> Inr base
         | Some p \<Rightarrow>
             if \<not> (ha_status a < 300 \<and> json_truthy p) then Inr base
             else
               bind_res (bind_res (json_item p ''choices'') json_first) (\<lambda>choice.
               bind_res (bind_res (json_item choice ''message'') (\<lambda>m. json_item m ''content'')) (\<lambda>content.
               bind_res (json_get choice ''finish_reason'') (\<lambda>finish.
               bind_res (json_get p ''usage'') (\<lambda>usage.
               bind_res (case usage of JObj kvs \<Rightarrow> int_items (he_data he) kvs | _ \<Rightarrow> Inr []) (\<lambda>u.
                 Inr (base\<lparr>rs_output := py_str te content, rs_usage := u,
                           rs_finish := (if json_truthy finish then Some (py_str te finish) else None)\<rparr>)))))))"

definition call_gateway ::
    "harness_env \<Rightarrow> scenario \<Rightarrow> harness_call \<Rightarrow> (string \<times> string) list \<Rightarrow> json_object
      \<Rightarrow> string + call_result" where
  "call_gateway he s k headers body =
     (if sc_stream s
      then bind_res (he_stream he k headers body) (read_stream he (cl_dispatch (he_clock he k)))
      else bind_res (he_post he k headers body) (read_body he))"

definition error_of_call :: "harness_env \<Rightarrow> call_result \<Rightarrow> string + error_class option" where
  "error_of_call he rs =
     bind_res (http_error_class (de_text (he_data he)) (rs_status rs) (rs_payload rs)) (\<lambda>e.
       Inr (case rs_stream_error rs of
              None \<Rightarrow> e
            | Some code \<Rightarrow> Some (case parse_error_class code of Some c \<Rightarrow> c | None \<Rightarrow> MalformedResponse)))"

definition quality_of_call ::
    "harness_env \<Rightarrow> scenario \<Rightarrow> string list option \<Rightarrow> dataset_item \<Rightarrow> error_class option \<Rightarrow> string
      \<Rightarrow> string + (bool option \<times> json_object option)" where
  "quality_of_call he s labels item err output =
     (if err \<noteq> None then Inr (if sc_workload s = Generation then None else Some False, None)
      else quality (de_text (he_data he)) (sc_workload s) output (di_target item) labels)"

definition model_alias_of :: "harness_env \<Rightarrow> scenario \<Rightarrow> json option \<Rightarrow> string + string" where
  "model_alias_of he s payload =
     (case payload of
        None \<Rightarrow> Inr (sc_model s)
      | Some p \<Rightarrow>
          if \<not> json_truthy p then Inr (sc_model s)
          else bind_res (get_or p ''model'' (JStr (sc_model s))) (\<lambda>m. Inr (py_str (de_text (he_data he)) m)))"

definition fallback_count_of :: "harness_env \<Rightarrow> call_result \<Rightarrow> string + int" where
  "fallback_count_of he rs =
     (case de_int (he_data he) (case header (rs_headers rs) ''X-Gateway-Fallback-Count'' of
                                  None \<Rightarrow> ''0'' | Some h \<Rightarrow> h) of
        None \<Rightarrow> Inl ''ValueError'' | Some n \<Rightarrow> Inr n)"

definition checked_record :: "benchmark_record \<Rightarrow> string + benchmark_record" where
  "checked_record r = (case validate_record r of Inl e \<Rightarrow> Inl ''ValidationError'' | Inr _ \<Rightarrow> Inr r)"

text \<open>The record of a measured call; \<open>None\<close> for a warm-up call.\<close>

definition harness_request ::
    "harness_env \<Rightarrow> gateway_config \<Rightarrow> scenario \<Rightarrow> string list option \<Rightarrow> string \<Rightarrow> harness_call
      \<Rightarrow> dataset_item \<Rightarrow> string + benchmark_record option" where
  "harness_request he cfg s labels run_id k item =
     (case profile_of s (int (hk_index k)) of
        None \<Rightarrow> Inl ''AssertionError''
      | Some profile \<Rightarrow>
          (let request_id = call_request_id he s k (di_item_id item);
               clock = he_clock he k
           in bind_res (call_gateway he s k (call_headers he s request_id profile) (call_body s item)) (\<lambda>rs.
              if \<not> hk_measured k then Inr None
              else
                bind_res (error_of_call he rs) (\<lambda>err.
                bind_res (quality_of_call he s labels item err (rs_output rs)) (\<lambda>(correct, score).
                bind_res (model_alias_of he s (rs_payload rs)) (\<lambda>model_alias.
                bind_res (usage_record (rs_usage rs)) (\<lambda>usage.
                bind_res (managed_cost cfg (header (rs_headers rs) ''X-Gateway-Provider'') model_alias usage) (\<lambda>cost.
                bind_res (fallback_count_of he rs) (\<lambda>fallbacks.
                bind_res (case parse_difficulty (di_difficulty item) of
                            None \<Rightarrow> Inl ''ValidationError'' | Some d \<Rightarrow> Inr d) (\<lambda>difficulty.
                bind_res (checked_record
                  \<lparr>br_run_id = run_id, br_repeat_index = hk_repeat k, br_request_id = request_id,
                   br_workload = sc_workload s, br_dataset_item_id = di_item_id item,
                   br_difficulty = Some difficulty, br_data_class = Some (fst profile),
                   br_quality_tier = Some (snd profile),
                   br_route = header (rs_headers rs) ''X-Gateway-Route'',
                   br_provider = header (rs_headers rs) ''X-Gateway-Provider'',
                   br_model_alias = model_alias, br_started_at = cl_started clock,
                   br_completed_at = cl_completed clock, br_ttft_ms = rs_ttft rs,
                   br_e2e_ms = fmul (fsub (cl_end clock) (cl_dispatch clock)) 1000,
                   br_usage = usage, br_http_status = rs_status rs, br_finish_reason = rs_finish rs,
                   br_error_class = err, br_fallback_count = fallbacks, br_task_correct = correct,
                   br_quality_score = score, br_managed_cost = cost\<rparr>) (\<lambda>r.
                Inr (Some r))))))))))))"

section \<open>A run\<close>

text \<open>\<open>tuple(sorted({item.target for ... if isinstance(item.target, str) and item.target}))\<close>\<close>

fun text_targets :: "dataset_item list \<Rightarrow> string list" where
  "text_targets [] = []"
| "text_targets (i # is) =
     (case di_target i of
        Some (TextTarget t) \<Rightarrow> if t = [] then text_targets is else t # text_targets is
      | _ \<Rightarrow> text_targets is)"

definition classification_labels :: "scenario \<Rightarrow> dataset_item list \<Rightarrow> string list option" where
  "classification_labels s items =
     (if sc_workload s = Classification then Some (sorted_set (text_targets items)) else None)"

definition select_items ::
    "harness_env \<Rightarrow> scenario \<Rightarrow> dataset_item list \<Rightarrow> string + dataset_item list" where
  "select_items he s items =
     (if int (length items) < sc_requests s then Inl ''BenchmarkRunError''
      else Inr (he_sample he (sc_seed s) items (sc_requests s)))"

definition measured_record ::
    "harness_env \<Rightarrow> gateway_config \<Rightarrow> scenario \<Rightarrow> string list option \<Rightarrow> string \<Rightarrow> int
      \<Rightarrow> nat \<times> dataset_item \<Rightarrow> string + benchmark_record" where
  "measured_record he cfg s labels run_id repeat = (\<lambda>(i, item).
     bind_res (harness_request he cfg s labels run_id
         \<lparr>hk_measured = True, hk_repeat = repeat, hk_index = i\<rparr> item)
       (\<lambda>r. case r of None \<Rightarrow> Inl ''BenchmarkRunError'' | Some rec \<Rightarrow> Inr rec))"

definition warmup_call ::
    "harness_env \<Rightarrow> gateway_config \<Rightarrow> scenario \<Rightarrow> string list option \<Rightarrow> string \<Rightarrow> dataset_item list
      \<Rightarrow> int \<Rightarrow> nat \<Rightarrow> string + benchmark_record option" where
  "warmup_call he cfg s labels run_id selected repeat i =
     (if selected = [] then Inl ''ZeroDivisionError''
      else harness_request he cfg s labels run_id
             \<lparr>hk_measured = False, hk_repeat = repeat, hk_index = i\<rparr> (selected ! (i mod length selected)))"

text \<open>\<open>asyncio.gather\<close> returns the results in the order of the calls, whatever order they end in.\<close>

definition repeat_records ::
    "harness_env \<Rightarrow> gateway_config \<Rightarrow> scenario \<Rightarrow> string list option \<Rightarrow> string \<Rightarrow> dataset_item list
      \<Rightarrow> int \<Rightarrow> string + benchmark_record list" where
  "repeat_records he cfg s labels run_id selected repeat =
     bind_res (traverse (warmup_call he cfg s labels run_id selected repeat)
                 [0 ..< nat (sc_warmup_requests s)]) (\<lambda>_.
       traverse (measured_record he cfg s labels run_id repeat) (List.enumerate 0 selected))"

definition harness_run ::
    "harness_env \<Rightarrow> gateway_config \<Rightarrow> scenario \<Rightarrow> dataset_bundle \<Rightarrow> string
      \<Rightarrow> string + benchmark_record list" where
  "harness_run he cfg s bundle run_id =
     (let labels = classification_labels s (db_items bundle)
      in bind_res (select_items he s (db_items bundle)) (\<lambda>selected.
         bind_res (traverse (repeat_records he cfg s labels run_id selected) [1 .. sc_repeats s])
           (\<lambda>groups. Inr (concat groups))))"

section \<open>The mix\<close>

definition expand_mix :: "request_profile list \<Rightarrow> (data_class \<times> quality_tier) list" where
  "expand_mix ps =
     concat (map (\<lambda>p. replicate (nat (rq_weight p)) (rq_data_class p, rq_quality_tier p)) ps)"

lemma length_expand_mix:
  "list_all request_profile_ok ps \<Longrightarrow> int (length (expand_mix ps)) = (\<Sum>p \<leftarrow> ps. rq_weight p)"
  by (induction ps) (auto simp: expand_mix_def request_profile_ok_def)

lemma pick_profile_nth:
  "list_all request_profile_ok ps \<Longrightarrow> k < length (expand_mix ps) \<Longrightarrow>
   pick_profile ps (int k) = Some (expand_mix ps ! k)"
proof (induction ps arbitrary: k)
  case (Cons p ps)
  then have "1 \<le> rq_weight p" by (simp add: request_profile_ok_def)
  then obtain w where w: "rq_weight p = int w" using zero_le_imp_eq_int [of "rq_weight p"] by force
  show ?case
  proof (cases "k < w")
    case True
    then show ?thesis using w by (simp add: expand_mix_def nth_append)
  next
    case False
    with Cons.prems(2) w have "k - w < length (expand_mix ps)" by (simp add: expand_mix_def)
    then have "pick_profile ps (int k - int w) = Some (expand_mix ps ! (k - w))"
      using Cons.IH [of "k - w"] Cons.prems(1) False by (simp add: of_nat_diff)
    then show ?thesis using w False by (simp add: expand_mix_def nth_append)
  qed
qed (simp add: expand_mix_def)

lemma profile_of_mix:
  assumes "list_all request_profile_ok (sc_request_mix s)" "sc_request_mix s \<noteq> []"
  shows "profile_of s (int i) = Some (expand_mix (sc_request_mix s) ! (i mod length (expand_mix (sc_request_mix s))))"
    and "expand_mix (sc_request_mix s) \<noteq> []"
proof -
  let ?m = "expand_mix (sc_request_mix s)"
  obtain p ps where mix: "sc_request_mix s = p # ps" using assms(2) by (cases "sc_request_mix s") auto
  then have "0 < nat (rq_weight p)" using assms(1) by (simp add: request_profile_ok_def)
  then show ne: "?m \<noteq> []" by (simp add: mix expand_mix_def)
  have "int i mod (\<Sum>q \<leftarrow> sc_request_mix s. rq_weight q) = int (i mod length ?m)"
    by (simp add: length_expand_mix [OF assms(1), symmetric] zmod_int)
  then show "profile_of s (int i) = Some (?m ! (i mod length ?m))"
    using pick_profile_nth [OF assms(1), of "i mod length ?m"] ne assms(2) by (simp add: profile_of_def)
qed

text \<open>One turn of the mix, from any multiple of its length.\<close>

lemma mix_turn:
  assumes "xs \<noteq> []"
  shows "map (\<lambda>i. xs ! (i mod length xs)) [n * length xs ..< Suc n * length xs] = xs"
proof (intro nth_equalityI)
  show "length (map (\<lambda>i. xs ! (i mod length xs)) [n * length xs ..< Suc n * length xs]) = length xs" by simp
  show "map (\<lambda>i. xs ! (i mod length xs)) [n * length xs ..< Suc n * length xs] ! j = xs ! j"
    if "j < length (map (\<lambda>i. xs ! (i mod length xs)) [n * length xs ..< Suc n * length xs])" for j
    using that by simp
qed

lemma expand_mix_count:
  "list_all request_profile_ok ps \<Longrightarrow>
   int (count_list (expand_mix ps) x)
     = (\<Sum>p \<leftarrow> filter (\<lambda>p. (rq_data_class p, rq_quality_tier p) = x) ps. rq_weight p)"
proof (induction ps)
  case (Cons p ps)
  have "count_list (replicate n y) x = (if y = x then n else 0)" for n :: nat and y
    by (induction n) auto
  with Cons show ?case by (auto simp: expand_mix_def request_profile_ok_def)
qed (simp add: expand_mix_def)

section \<open>The event stream of the gateway\<close>

text \<open>What the chunks of a stream say: the text, and what the last final chunk reports.\<close>

definition chunk_text :: "provider_chunk \<Rightarrow> string" where
  "chunk_text c = parts_text (pc_delta c)"

definition chunk_finish :: "provider_chunk \<Rightarrow> string" where
  "chunk_finish c = or_str (pc_finish_reason c) ''stop''"

definition count_items :: "normalized_usage \<Rightarrow> (string \<times> int) list option" where
  "count_items u =
     (case (nu_input u, nu_output u) of
        (Some i, Some out) \<Rightarrow>
          Some [(''prompt_tokens'', i), (''completion_tokens'', out), (''total_tokens'', i + out)]
      | _ \<Rightarrow> None)"

definition chunk_counts :: "provider_chunk \<Rightarrow> (string \<times> int) list option" where
  "chunk_counts c = Option.bind (pc_usage c) count_items"

text \<open>The payload of the frame sent for a chunk, if one is.\<close>

definition chunk_payload :: "request_info \<Rightarrow> provider_chunk \<Rightarrow> json_object option" where
  "chunk_payload ri c =
     (if pc_is_final c
      then Some (completion_chunk (ri_request_id ri) (ri_created ri) (ri_model_alias ri)
                   (if chunk_text c = '''' then None else Some (chunk_text c))
                   (Some (chunk_finish c)) (pc_usage c))
      else if chunk_text c \<noteq> ''''
      then Some (completion_chunk (ri_request_id ri) (ri_created ri) (ri_model_alias ri)
                   (Some (chunk_text c)) None None)
      else None)"

definition apply_chunk :: "rat \<Rightarrow> provider_chunk \<Rightarrow> stream_reading \<Rightarrow> stream_reading" where
  "apply_chunk now c r =
     (let r1 = (if chunk_text c \<noteq> ''''
                then r\<lparr>sr_first := (case sr_first r of None \<Rightarrow> Some now | Some t \<Rightarrow> Some t),
                       sr_output := sr_output r @ [chunk_text c]\<rparr> else r);
          r2 = (if pc_is_final c then r1\<lparr>sr_finish := Some (chunk_finish c)\<rparr> else r1)
      in case (if pc_is_final c then chunk_counts c else None) of
           None \<Rightarrow> r2 | Some u \<Rightarrow> r2\<lparr>sr_usage := u\<rparr>)"

lemma chunk_finish_nonempty [simp]: "chunk_finish c \<noteq> ''''"
  by (simp add: chunk_finish_def or_str_nonempty)

lemma completion_chunk_keys:
  "map_of (completion_chunk i n m d f u) ''error'' = None"
  "''error'' \<notin> set (dict_keys (completion_chunk i n m d f u))"
  "map_of (completion_chunk i n m d f u) ''choices'' =
     Some (JArr [JObj [(''index'', JInt 0),
       (''delta'', JObj (if truthy_str d then [(''content'', JStr (the d))] else [])),
       (''finish_reason'', case f of None \<Rightarrow> JNull | Some x \<Rightarrow> JStr x)]])"
  "dict_get (completion_chunk i n m d f u) ''usage'' =
     (case u of None \<Rightarrow> JNull | Some x \<Rightarrow> (case usage_payload x of None \<Rightarrow> JNull | Some p \<Rightarrow> JObj p))"
  by (auto simp: completion_chunk_def dict_keys_def dict_get_def split: option.splits)

text \<open>Reading the payload of a chunk back has the effect of the chunk.\<close>

definition say :: "rat \<Rightarrow> string option \<Rightarrow> string option \<Rightarrow> stream_reading \<Rightarrow> stream_reading" where
  "say now d f r =
     (let r1 = (if truthy_str d
                then r\<lparr>sr_first := (case sr_first r of None \<Rightarrow> Some now | Some t \<Rightarrow> Some t),
                       sr_output := sr_output r @ [the d]\<rparr> else r)
      in case f of None \<Rightarrow> r1 | Some x \<Rightarrow> r1\<lparr>sr_finish := Some x\<rparr>)"

lemma read_choice_say:
  assumes "f \<noteq> Some ''''"
  shows "read_choice de now
     (JArr [JObj [(''index'', JInt 0),
       (''delta'', JObj (if truthy_str d then [(''content'', JStr (the d))] else [])),
       (''finish_reason'', case f of None \<Rightarrow> JNull | Some x \<Rightarrow> JStr x)]]) r = Inr (say now d f r)"
proof -
  have "the d \<noteq> ''''" if "truthy_str d" using that by (auto simp: truthy_str_def split: option.splits)
  with assms show ?thesis
    by (cases "truthy_str d"; cases f) (simp_all add: read_choice_def say_def)
qed

lemma read_event_completion:
  assumes "f \<noteq> Some ''''"
  shows "read_event de now (JObj (completion_chunk i n m d f u)) r = Inr
     (case Option.bind u count_items of
        None \<Rightarrow> say now d f r | Some q \<Rightarrow> (say now d f r)\<lparr>sr_usage := q\<rparr>)"
proof -
  have choices: "get_or (JObj (completion_chunk i n m d f u)) ''choices'' (JArr []) =
      Inr (JArr [JObj [(''index'', JInt 0),
       (''delta'', JObj (if truthy_str d then [(''content'', JStr (the d))] else [])),
       (''finish_reason'', case f of None \<Rightarrow> JNull | Some x \<Rightarrow> JStr x)]])"
    by (simp add: completion_chunk_keys)
  show ?thesis
    unfolding read_event_def choices
    by (simp add: completion_chunk_keys read_choice_say [OF assms] usage_payload_def int_items_def
        count_items_def split: option.split)
qed

lemma read_event_chunk:
  assumes "chunk_payload ri c = Some payload"
  shows "read_event de now (JObj payload) r = Inr (apply_chunk now c r)"
proof -
  define d f u where "d = (if chunk_text c = '''' then None else Some (chunk_text c))"
    and "f = (if pc_is_final c then Some (chunk_finish c) else None)"
    and "u = (if pc_is_final c then pc_usage c else None)"
  have p: "payload = completion_chunk (ri_request_id ri) (ri_created ri) (ri_model_alias ri) d f u"
    using assms by (auto simp: chunk_payload_def d_def f_def u_def split: if_splits)
  have f: "f \<noteq> Some ''''" by (simp add: f_def)
  show ?thesis
    unfolding p read_event_completion [OF f]
    by (simp add: say_def apply_chunk_def d_def f_def u_def chunk_counts_def truthy_str_def
        split: option.split)
qed

text \<open>What an event stream sends: the payload of every chunk that has one, and an error's.\<close>

definition stream_payloads :: "request_info \<Rightarrow> stream_run \<Rightarrow> json list" where
  "stream_payloads ri run =
     map JObj (List.map_filter (\<lambda>(_, _, c). chunk_payload ri c) (st_chunks run))
     @ (case st_outcome run of
          Inl (Raised e) \<Rightarrow> [error_object (ne_message (pe_error e)) ''provider_error''
                              (error_class_value (ne_class (pe_error e)))]
        | _ \<Rightarrow> [])"

lemma stream_items_frames:
  "stream_items env st ri items fc used m = (frames, m', used', None) \<Longrightarrow>
   frames = map (\<lambda>p. sse_frame (ge_dumps env (JObj p))) (List.map_filter (\<lambda>(_, _, c). chunk_payload ri c) items)"
proof (induction items arbitrary: fc used m frames)
  case (Cons item items)
  obtain provider k c where "item = (provider, k, c)" by (cases item)
  with Cons show ?case
    by (auto simp: Let_def map_filter_simps chunk_payload_def chunk_text_def chunk_finish_def
        split: prod.splits option.splits if_splits)
qed (simp add: map_filter_simps)

text \<open>The text of a JSON value that survives the transport: it parses back and has no line break.\<close>

definition travels :: "data_env \<Rightarrow> gateway_env \<Rightarrow> json \<Rightarrow> bool" where
  "travels de env v \<longleftrightarrow>
     te_loads (de_text de) (ge_dumps env v) = Some v \<and> ge_dumps env v \<noteq> ''[DONE]''
     \<and> list_all (\<lambda>c. \<not> line_break c) (ge_dumps env v)"

lemma splitlines_from_frame:
  assumes "list_all (\<lambda>c. \<not> line_break c) d"
  shows "splitlines_from cur (d @ CHR 0x0A # CHR 0x0A # rest) = (cur @ d) # [] # splitlines_from [] rest"
  using assms
proof (induction d arbitrary: cur)
  case Nil
  have "line_break (CHR 0x0A)" by (simp add: line_break_def)
  then show ?case by simp
next
  case (Cons c d)
  have "line_break (CHR 0x0D)" by (simp add: line_break_def)
  with Cons show ?case by auto
qed

lemma splitlines_frames:
  assumes "list_all (\<lambda>d. list_all (\<lambda>c. \<not> line_break c) d) ds"
  shows "splitlines (concat (map sse_frame ds)) = concat (map (\<lambda>d. [data_mark @ d, []]) ds)"
  using assms
proof (induction ds)
  case (Cons d ds)
  have "list_all (\<lambda>c. \<not> line_break c) (data_mark @ d)"
    using Cons.prems by (auto simp: data_mark_def line_break_def)
  from splitlines_from_frame [OF this, of "[]"] Cons show ?case
    by (simp add: splitlines_def sse_frame_def data_mark_def)
qed (simp add: splitlines_def)

lemma read_line_frame:
  "travels de env v \<Longrightarrow> read_line de now (data_mark @ ge_dumps env v) r = read_event de now v r"
  by (simp add: read_line_def travels_def)

lemma read_line_blank [simp]: "read_line de now [] r = Inr r"
  by (simp add: read_line_def data_mark_def starts_with_def)

lemma read_line_done [simp]: "read_line de now (data_mark @ ''[DONE]'') r = Inr r"
  by (simp add: read_line_def)

text \<open>The last value a list reports, starting from a first one.\<close>

definition last_said :: "('a \<Rightarrow> 'b option) \<Rightarrow> 'b \<Rightarrow> 'a list \<Rightarrow> 'b" where
  "last_said f d xs = foldl (\<lambda>a x. case f x of None \<Rightarrow> a | Some b \<Rightarrow> b) d xs"

lemma last_said_simps [simp]:
  "last_said f d [] = d"
  "last_said f d (x # xs) = last_said f (case f x of None \<Rightarrow> d | Some b \<Rightarrow> b) xs"
  by (simp_all add: last_said_def)

definition final_finish :: "provider_chunk \<Rightarrow> string option option" where
  "final_finish c = (if pc_is_final c then Some (Some (chunk_finish c)) else None)"

definition final_counts :: "provider_chunk \<Rightarrow> (string \<times> int) list option" where
  "final_counts c = (if pc_is_final c then chunk_counts c else None)"

lemma apply_chunk_fields:
  "concat (sr_output (apply_chunk now c r)) = concat (sr_output r) @ chunk_text c"
  "sr_error (apply_chunk now c r) = sr_error r"
  "sr_finish (apply_chunk now c r) = (case final_finish c of None \<Rightarrow> sr_finish r | Some f \<Rightarrow> f)"
  "sr_usage (apply_chunk now c r) = (case final_counts c of None \<Rightarrow> sr_usage r | Some u \<Rightarrow> u)"
  "sr_first (apply_chunk now c r) = None \<longleftrightarrow> sr_first r = None \<and> chunk_text c = ''''"
  by (auto simp: apply_chunk_def Let_def final_finish_def final_counts_def split: option.splits)

lemma no_payload_fields:
  "chunk_payload ri c = None \<Longrightarrow> chunk_text c = '''' \<and> final_finish c = None \<and> final_counts c = None"
  by (auto simp: chunk_payload_def final_finish_def final_counts_def split: if_splits)

definition chunk_frames :: "gateway_env \<Rightarrow> request_info \<Rightarrow> provider_chunk list \<Rightarrow> string list" where
  "chunk_frames env ri cs = map (\<lambda>p. ge_dumps env (JObj p)) (List.map_filter (chunk_payload ri) cs)"

definition frame_lines :: "string list \<Rightarrow> string list" where
  "frame_lines ds = concat (map (\<lambda>d. [data_mark @ d, []]) ds)"

lemma read_frame_lines:
  assumes "map snd lines = map Line ((data_mark @ ge_dumps env v) # [] # tail)" "travels de env v"
  obtains now rest where "map snd rest = map Line tail"
    "read_lines de lines r = bind_res (read_event de now v r) (read_lines de rest)"
proof -
  obtain t1 t2 rest where lines: "lines = (t1, Line (data_mark @ ge_dumps env v)) # (t2, Line []) # rest"
      and rest: "map snd rest = map Line tail"
    using assms(1) by (auto simp: map_eq_Cons_conv)
  have "read_lines de lines r = bind_res (read_event de t1 v r) (read_lines de rest)"
    by (cases "read_event de t1 v r") (simp_all add: lines read_line_frame [OF assms(2)])
  with rest show ?thesis by (rule that)
qed

lemma read_chunk_lines:
  assumes "map snd lines = map Line (frame_lines (chunk_frames env ri cs) @ tail)"
    and "list_all (\<lambda>p. travels de env (JObj p)) (List.map_filter (chunk_payload ri) cs)"
  shows "\<exists>r' rest. read_lines de lines r = read_lines de rest r' \<and> map snd rest = map Line tail
    \<and> concat (sr_output r') = concat (sr_output r) @ concat (map chunk_text cs)
    \<and> sr_error r' = sr_error r \<and> sr_finish r' = last_said final_finish (sr_finish r) cs
    \<and> sr_usage r' = last_said final_counts (sr_usage r) cs
    \<and> (sr_first r' = None \<longleftrightarrow> sr_first r = None \<and> list_all (\<lambda>c. chunk_text c = '''') cs)"
  using assms
proof (induction cs arbitrary: lines r)
  case Nil
  then show ?case
    by (intro exI [of _ r] exI [of _ lines]) (simp add: chunk_frames_def frame_lines_def map_filter_simps)
next
  case (Cons c cs)
  show ?case
  proof (cases "chunk_payload ri c")
    case None
    with Cons.IH [of lines r] Cons.prems no_payload_fields [OF None] show ?thesis
      by (simp add: chunk_frames_def map_filter_simps)
  next
    case (Some p)
    have split: "chunk_frames env ri (c # cs) = ge_dumps env (JObj p) # chunk_frames env ri cs"
      using Some by (simp add: chunk_frames_def map_filter_simps)
    have head: "map snd lines = map Line ((data_mark @ ge_dumps env (JObj p)) # []
        # frame_lines (chunk_frames env ri cs) @ tail)"
      using Cons.prems(1) unfolding split by (simp add: frame_lines_def)
    have travel: "travels de env (JObj p)" using Cons.prems(2) Some by (simp add: map_filter_simps)
    obtain now rest where rest: "map snd rest = map Line (frame_lines (chunk_frames env ri cs) @ tail)"
      and read: "read_lines de lines r = bind_res (read_event de now (JObj p) r) (read_lines de rest)"
      by (rule read_frame_lines [OF head travel])
    have "list_all (\<lambda>p. travels de env (JObj p)) (List.map_filter (chunk_payload ri) cs)"
      using Cons.prems(2) Some by (simp add: map_filter_simps)
    from Cons.IH [OF rest this, of "apply_chunk now c r"] show ?thesis
      by (simp add: read read_event_chunk [OF Some] apply_chunk_fields conj_assoc)
  qed
qed

lemma read_error_event:
  "read_event de now (error_object message kind code) r = Inr (r\<lparr>sr_error := Some code\<rparr>)"
  by (simp add: read_event_def error_object_def dict_keys_def)

lemma stream_chunk_payloads:
  "List.map_filter (\<lambda>(_, _, c). chunk_payload ri c) xs
     = List.map_filter (chunk_payload ri) (map (snd \<circ> snd) xs)"
  by (induction xs) (auto simp: map_filter_simps split: option.splits)

text \<open>The lines of a stream that was not cut.\<close>

lemma event_stream_lines:
  assumes "event_stream env st ri run w = (frames, False, w')"
    and "list_all (travels de env) (stream_payloads ri run)"
  shows "splitlines (concat frames) = frame_lines (chunk_frames env ri (map (snd \<circ> snd) (st_chunks run)))
     @ frame_lines [case st_outcome run of
          Inl (Raised e) \<Rightarrow> ge_dumps env (error_object (ne_message (pe_error e)) ''provider_error''
                              (error_class_value (ne_class (pe_error e))))
        | _ \<Rightarrow> ''[DONE]'']
    \<and> (st_outcome run = Inr () \<or> (\<exists>e. st_outcome run = Inl (Raised e)))"
proof -
  obtain fs m used missing where items:
      "stream_items env st ri (st_chunks run) True None (gw_metrics w) = (fs, m, used, missing)"
    by (metis prod_cases4)
  then have "missing = None" using assms(1) by (auto simp: event_stream_def Let_def split: option.splits)
  note fs = stream_items_frames [OF items [unfolded this]]
  define tail where "tail = (case st_outcome run of
      Inl (Raised e) \<Rightarrow> ge_dumps env (error_object (ne_message (pe_error e)) ''provider_error''
                          (error_class_value (ne_class (pe_error e))))
    | _ \<Rightarrow> ''[DONE]'')"
  have outcome: "st_outcome run = Inr () \<or> (\<exists>e. st_outcome run = Inl (Raised e))"
    and frames: "frames = map sse_frame (chunk_frames env ri (map (snd \<circ> snd) (st_chunks run)) @ [tail])"
    using assms(1) items \<open>missing = None\<close> fs
    by (auto simp: event_stream_def Let_def tail_def done_frame_def chunk_frames_def stream_chunk_payloads
        split: sum.splits exec_error.splits)
  have "list_all (\<lambda>d. list_all (\<lambda>c. \<not> line_break c) d) (chunk_frames env ri (map (snd \<circ> snd) (st_chunks run)) @ [tail])"
    using assms(2) outcome
    by (auto simp: stream_payloads_def stream_chunk_payloads chunk_frames_def travels_def list_all_iff tail_def line_break_def)
  from splitlines_frames [OF this] outcome show ?thesis
    unfolding frames frame_lines_def tail_def by simp
qed

section \<open>Properties\<close>

text \<open>
  The weighted mix: on an accepted hybrid scenario a profile is always found, the selection
  is the lookup in the list that repeats each profile by its weight, so every turn of the mix
  draws that list in order, and each combination of data class and tier by its summed weight.
\<close>

theorem mix_is_weighted:
  assumes "validate_scenario s = Inr ()" "sc_provider_mode s = HybridMode"
    and "mix = expand_mix (sc_request_mix s)"
  shows "profile_of s (int i) = Some (mix ! (i mod length mix))
    \<and> map (\<lambda>i. profile_of s (int i)) [n * length mix ..< Suc n * length mix] = map Some mix
    \<and> int (count_list mix x)
        = (\<Sum>p \<leftarrow> filter (\<lambda>p. (rq_data_class p, rq_quality_tier p) = x) (sc_request_mix s). rq_weight p)"
proof -
  note v = validate_scenario_Inr [OF assms(1)]
  have ok: "list_all request_profile_ok (sc_request_mix s)" using v(1) by (simp add: scenario_fields_ok_def)
  have ne: "sc_request_mix s \<noteq> []" using v(3) [OF assms(2)] by auto
  note p = profile_of_mix [OF ok ne, folded assms(3)]
  have "map (\<lambda>i. profile_of s (int i)) [n * length mix ..< Suc n * length mix] = map Some mix"
    using arg_cong [OF mix_turn [OF p(2), of n], of "map Some"] by (simp add: p(1) comp_def)
  then show ?thesis using p(1) expand_mix_count [OF ok, of x] assms(3) by simp
qed

theorem mix_is_weighted_witness:
  "map (\<lambda>i. profile_of (lab_scenario HybridMode lab_mix) (int i)) [8 ..< 12]
     = [Some (Public, Economy), Some (Public, Economy), Some (Public, Economy), Some (Restricted, Premium)]"
proof -
  have "expand_mix (sc_request_mix (lab_scenario HybridMode lab_mix))
      = [(Public, Economy), (Public, Economy), (Public, Economy), (Restricted, Premium)]"
    by (simp add: expand_mix_def lab_scenario_def lab_mix_def numeral_3_eq_3)
  from mix_is_weighted [OF lab_hybrid_valid _ this [symmetric], of 0 2 "(Public, Economy)"]
  show ?thesis by (simp add: lab_scenario_def del: upt.simps)
qed

text \<open>The status 200 is no error, and an error code in the stream is read back as its class.\<close>

definition stream_error_of :: "stream_run \<Rightarrow> error_class option" where
  "stream_error_of run =
     (case st_outcome run of Inl (Raised e) \<Rightarrow> Some (ne_class (pe_error e)) | _ \<Rightarrow> None)"

text \<open>
  C23. The harness understands the gateway: whatever chunks the executor yields and however the
  stream ends, if it is not cut by an unexpected exception then the reader recovers from the
  frames the text of all chunks, the finish reason and the token counts of the last final chunk,
  and exactly the error class the executor raised, if any.
\<close>

theorem harness_reads_gateway_stream:
  assumes "event_stream env st ri run w = (frames, False, w')"
    and "map snd lines = map Line (splitlines (concat frames))"
    and "list_all (travels (he_data he) env) (stream_payloads ri run)"
    and "cs = map (snd \<circ> snd) (st_chunks run)"
  shows "\<exists>rs. read_stream he dispatch \<lparr>sa_status = 200, sa_headers = hs, sa_lines = lines\<rparr> = Inr rs
    \<and> rs_output rs = concat (map chunk_text cs)
    \<and> rs_finish rs = last_said final_finish None cs \<and> rs_usage rs = last_said final_counts [] cs
    \<and> (rs_ttft rs = None \<longleftrightarrow> list_all (\<lambda>c. chunk_text c = '''') cs)
    \<and> error_of_call he rs = Inr (stream_error_of run)"
proof -
  let ?de = "he_data he"
  define tail where "tail = (case st_outcome run of
      Inl (Raised e) \<Rightarrow> ge_dumps env (error_object (ne_message (pe_error e)) ''provider_error''
                          (error_class_value (ne_class (pe_error e))))
    | _ \<Rightarrow> ''[DONE]'')"
  note split = event_stream_lines [OF assms(1,3), folded tail_def assms(4)]
  have lines: "map snd lines = map Line (frame_lines (chunk_frames env ri cs) @ frame_lines [tail])"
    using assms(2) split by simp
  have travel: "list_all (\<lambda>p. travels ?de env (JObj p)) (List.map_filter (chunk_payload ri) cs)"
    using assms(3) by (simp add: stream_payloads_def stream_chunk_payloads assms(4) list_all_iff)
  obtain r' rest where read: "read_lines ?de lines empty_reading = read_lines ?de rest r'"
    and rest: "map snd rest = map Line (frame_lines [tail])"
    and r': "concat (sr_output r') = concat (map chunk_text cs)" "sr_error r' = None"
      "sr_finish r' = last_said final_finish None cs" "sr_usage r' = last_said final_counts [] cs"
      "sr_first r' = None \<longleftrightarrow> list_all (\<lambda>c. chunk_text c = '''') cs"
    using read_chunk_lines [OF lines travel, where r = empty_reading] by (auto simp: empty_reading_def)
  obtain t1 t2 where "rest = [(t1, Line (data_mark @ tail)), (t2, Line [])]"
    using rest by (auto simp: frame_lines_def map_eq_Cons_conv)
  moreover have "read_line ?de t (data_mark @ tail) r'
      = Inr (r'\<lparr>sr_error := map_option error_class_value (stream_error_of run)\<rparr>)" for t
  proof (cases "st_outcome run")
    case (Inr u)
    then show ?thesis using r'(2) by (cases r') (simp add: tail_def stream_error_of_def)
  next
    case (Inl x)
    then obtain e where e: "st_outcome run = Inl (Raised e)" using split by auto
    have "travels ?de env (error_object (ne_message (pe_error e)) ''provider_error''
        (error_class_value (ne_class (pe_error e))))"
      using assms(3) by (simp add: stream_payloads_def e)
    from read_line_frame [OF this] show ?thesis
      by (simp add: tail_def e stream_error_of_def read_error_event)
  qed
  ultimately have reading: "read_lines ?de lines empty_reading
      = Inr (r'\<lparr>sr_error := map_option error_class_value (stream_error_of run)\<rparr>)"
    using read by simp
  show ?thesis
    using r'
    by (simp add: read_stream_def stream_text_of_def reading error_of_call_def http_error_class_def
        parse_error_class_def error_class_enum.parse_value split: option.split)
qed

text \<open>A stream that says \<open>Hi\<close> and then fails.\<close>

definition cut_run :: stream_run where
  "cut_run =
     \<lparr>st_chunks = [(''private-vllm'', 0, text_chunk ''private-vllm'' ''m'' 0 ''Hi'')],
      st_outcome = Inl (Raised (with_attempts no_replay_error [])), st_log = [], st_time = 0, st_calls = []\<rparr>"

definition cut_info :: request_info where
  "cut_info =
     \<lparr>ri_decision = \<lparr>rd_rule_name = ''r'', rd_primary = ''private-vllm'', rd_fallbacks = []\<rparr>,
      ri_model_alias = ''m'', ri_metric_model = ''m'', ri_team = ''t'', ri_workload = ''generic'',
      ri_request_id = ''q'', ri_created = 0\<rparr>"

definition cut_payload :: json where
  "cut_payload = hd (stream_payloads cut_info cut_run)"

definition cut_error :: json where
  "cut_error = stream_payloads cut_info cut_run ! 1"

definition table_env :: gateway_env where
  "table_env = (lab_env (lab_wire True))\<lparr>ge_dumps := (\<lambda>v. if v = cut_payload then ''P'' else ''E'')\<rparr>"

definition lab_harness :: harness_env where
  "lab_harness =
     \<lparr>he_data = lab_data_env\<lparr>de_text := lab_text\<lparr>te_loads := map_of [(''P'', cut_payload), (''E'', cut_error)]\<rparr>,
                  de_int := (\<lambda>s. if s = ''0'' then Some 0 else None)\<rparr>,
      he_api_key = ''k'', he_uuid = id,
      he_clock = (\<lambda>k. \<lparr>cl_started = utc 0, cl_dispatch = 0, cl_completed = utc 1, cl_end = 1\<rparr>),
      he_post = (\<lambda>k hs b. Inl ''ConnectError''), he_stream = (\<lambda>k hs b. Inl ''ConnectError''),
      he_sample = (\<lambda>seed items k. take (nat k) items)\<rparr>"

theorem harness_reads_gateway_stream_witness:
  "\<exists>rs. read_stream lab_harness 0 \<lparr>sa_status = 200, sa_headers = [],
      sa_lines = map (Pair 1) (map Line [''data: P'', '''', ''data: E'', ''''])\<rparr> = Inr rs
    \<and> rs_output rs = ''Hi'' \<and> rs_ttft rs \<noteq> None
    \<and> error_of_call lab_harness rs = Inr (Some StreamStartedFailure)"
proof -
  have payloads: "stream_payloads cut_info cut_run = [cut_payload, cut_error]"
    and travel: "list_all (travels (he_data lab_harness) table_env) [cut_payload, cut_error]"
    by code_simp+
  have "fst (event_stream table_env lab_state cut_info cut_run lab_world) = [sse_frame ''P'', sse_frame ''E'']
    \<and> \<not> fst (snd (event_stream table_env lab_state cut_info cut_run lab_world))"
    by code_simp
  then obtain w' where es: "event_stream table_env lab_state cut_info cut_run lab_world
      = ([sse_frame ''P'', sse_frame ''E''], False, w')"
    by (cases "event_stream table_env lab_state cut_info cut_run lab_world") auto
  have lines: "map snd (map (Pair (1::rat)) (map Line [''data: P'', '''', ''data: E'', '''']))
      = map Line (splitlines (concat [sse_frame ''P'', sse_frame ''E'']))"
    by code_simp
  have cs: "map (snd \<circ> snd) (st_chunks cut_run) = [text_chunk ''private-vllm'' ''m'' 0 ''Hi'']"
    "stream_error_of cut_run = Some StreamStartedFailure" "chunk_text (text_chunk ''private-vllm'' ''m'' 0 ''Hi'') = ''Hi''"
    by code_simp+
  from harness_reads_gateway_stream [OF es lines travel [folded payloads] refl, of 0 "[]"]
  show ?thesis by (auto simp: cs)
qed

lemma read_lines_without_data:
  "list_all (\<lambda>(t, l). \<exists>x. l = Line x \<and> \<not> starts_with x data_mark) lines \<Longrightarrow> read_lines de lines r = Inr r"
proof (induction lines)
  case (Cons tl lines)
  then show ?case by (cases tl) (auto simp: read_line_def)
qed simp

text \<open>
  C26. The error code of a streamed call is lost (the code as it is): the reader keeps only
  event lines, so of an HTTP error answer, whose body is plain JSON, nothing is left to parse and
  the class is guessed from the status; the same answer to a call that is not streamed is recorded
  with the class the gateway sent.
\<close>

theorem streamed_error_code_lost:
  assumes "300 \<le> status" "te_loads (de_text (he_data he)) '''' = None"
    and "list_all (\<lambda>(t, l). \<exists>x. l = Line x \<and> \<not> starts_with x data_mark) lines"
    and "te_loads (de_text (he_data he)) body = Some (error_object message kind (error_class_value c))"
  shows "bind_res (read_stream he dispatch \<lparr>sa_status = status, sa_headers = hs, sa_lines = lines\<rparr>)
           (error_of_call he) = Inr (Some (class_of_status status))
    \<and> bind_res (read_body he \<lparr>ha_status = status, ha_headers = hs, ha_body = body\<rparr>)
           (error_of_call he) = Inr (Some c)"
proof -
  have "parse_error_class (error_class_value c) = Some c" "parse_error_class ''None'' = None"
    by (simp add: parse_error_class_def error_class_enum.parse_value, code_simp)
  then show ?thesis
    using assms(1,2,4)
    by (simp add: read_stream_def stream_text_of_def read_lines_without_data [OF assms(3)]
        empty_reading_def error_of_call_def http_error_class_def error_code_def read_body_def
        error_object_def)
qed

definition lossy_harness :: harness_env where
  "lossy_harness = lab_harness
     \<lparr>he_data := (he_data lab_harness)\<lparr>de_text := lab_text\<lparr>te_loads := map_of
        [(''B'', error_object ''m'' ''provider_error'' (error_class_value MalformedResponse))]\<rparr>\<rparr>\<rparr>"

theorem streamed_error_code_lost_witness:
  "bind_res (read_stream lossy_harness 0 \<lparr>sa_status = 502, sa_headers = [], sa_lines = [(1, Line ''B'')]\<rparr>)
     (error_of_call lossy_harness) = Inr (Some Provider5xx)
   \<and> bind_res (read_body lossy_harness \<lparr>ha_status = 502, ha_headers = [], ha_body = ''B''\<rparr>)
     (error_of_call lossy_harness) = Inr (Some MalformedResponse)"
proof -
  have e: "te_loads (de_text (he_data lossy_harness)) '''' = None"
    "te_loads (de_text (he_data lossy_harness)) ''B''
       = Some (error_object ''m'' ''provider_error'' (error_class_value MalformedResponse))"
    by (simp_all add: lossy_harness_def lab_harness_def)
  from streamed_error_code_lost [OF _ e(1) _ e(2), of 502 "[(1, Line ''B'')]" 0 "[]"]
  show ?thesis by (simp add: class_of_status_def data_mark_def starts_with_code)
qed

lemma checked_record_Inr [simp]: "checked_record r = Inr r' \<longleftrightarrow> validate_record r = Inr () \<and> r' = r"
  by (auto simp: checked_record_def split: sum.splits)

lemma harness_request_parts:
  assumes "harness_request he cfg s labels run_id k item = Inr (Some r)"
  obtains profile rs where "profile_of s (int (hk_index k)) = Some profile" "hk_measured k"
    "error_of_call he rs = Inr (br_error_class r)"
    "quality_of_call he s labels item (br_error_class r) (rs_output rs)
       = Inr (br_task_correct r, br_quality_score r)"
    "managed_cost cfg (br_provider r) (br_model_alias r) (br_usage r) = Inr (br_managed_cost r)"
    "validate_record r = Inr ()" "br_run_id r = run_id" "br_repeat_index r = hk_repeat k"
    "br_dataset_item_id r = di_item_id item"
    "br_request_id r = call_request_id he s k (di_item_id item)" "br_workload r = sc_workload s"
    "br_data_class r = Some (fst profile)" "br_quality_tier r = Some (snd profile)"
    "br_http_status r = rs_status rs"
  using assms
  by (auto simp: harness_request_def Let_def bind_res_Inr split: option.splits if_splits)

lemma managed_cost_Some:
  assumes "managed_cost cfg provider model_alias u = Inr (Some d)"
  shows "\<exists>p. provider = Some p \<and> starts_with p ''managed''
    \<and> tu_billed_input u \<noteq> None \<and> tu_billed_output u \<noteq> None"
  using assms
  by (auto simp: managed_cost_def Let_def price_def normalized_of_def usage_unavailable_def
      split: option.splits if_splits sum.splits)

lemma error_of_call_None: "error_of_call he rs = Inr None \<Longrightarrow> 200 \<le> rs_status rs \<and> rs_status rs < 300"
  by (auto simp: error_of_call_def bind_res_Inr http_error_class_def split: option.splits if_splits)

lemma quality_generation: "quality te Generation output target labels = Inr (correct, score) \<Longrightarrow>
    correct = None \<and> score = None"
  by (simp add: quality_def)

lemma quality_scored: "quality te w output target labels = Inr (correct, score) \<Longrightarrow> w \<noteq> Generation \<Longrightarrow>
    correct \<noteq> None \<and> score \<noteq> None"
  by (auto simp: quality_def Let_def split: workload_kind.splits option.splits item_target.splits)

text \<open>
  The evidence record of a call is consistent: it exists only for a measured call and is a
  valid record of that call's repeat, item, request identifier and profile; an error leaves no
  quality score and counts as incorrect except for generation; a call without error answered with
  a 2xx status and has a verdict and a score exactly if it is no generation; a cost is only
  attributed to a managed provider that reported both token counts.
\<close>

theorem record_consistent:
  assumes "harness_request he cfg s labels run_id k item = Inr (Some r)"
  shows "hk_measured k \<and> validate_record r = Inr () \<and> br_run_id r = run_id
    \<and> br_repeat_index r = hk_repeat k \<and> br_dataset_item_id r = di_item_id item
    \<and> br_request_id r = call_request_id he s k (di_item_id item) \<and> br_workload r = sc_workload s
    \<and> (\<exists>d q. profile_of s (int (hk_index k)) = Some (d, q)
         \<and> br_data_class r = Some d \<and> br_quality_tier r = Some q)
    \<and> (br_error_class r \<noteq> None \<longrightarrow> br_quality_score r = None
         \<and> br_task_correct r = (if sc_workload s = Generation then None else Some False))
    \<and> (br_error_class r = None \<longrightarrow> 200 \<le> br_http_status r \<and> br_http_status r < 300
         \<and> (br_task_correct r = None \<longleftrightarrow> sc_workload s = Generation)
         \<and> (br_quality_score r = None \<longleftrightarrow> sc_workload s = Generation))
    \<and> (br_managed_cost r \<noteq> None \<longrightarrow> (\<exists>p. br_provider r = Some p \<and> starts_with p ''managed''
         \<and> tu_billed_input (br_usage r) \<noteq> None \<and> tu_billed_output (br_usage r) \<noteq> None))"
proof -
  obtain profile rs where "profile_of s (int (hk_index k)) = Some profile" "hk_measured k"
    and e: "error_of_call he rs = Inr (br_error_class r)"
    and q: "quality_of_call he s labels item (br_error_class r) (rs_output rs)
       = Inr (br_task_correct r, br_quality_score r)"
    and c: "managed_cost cfg (br_provider r) (br_model_alias r) (br_usage r) = Inr (br_managed_cost r)"
    and r: "validate_record r = Inr ()" "br_run_id r = run_id" "br_repeat_index r = hk_repeat k"
      "br_dataset_item_id r = di_item_id item"
      "br_request_id r = call_request_id he s k (di_item_id item)" "br_workload r = sc_workload s"
      "br_data_class r = Some (fst profile)" "br_quality_tier r = Some (snd profile)"
      "br_http_status r = rs_status rs"
    by (rule harness_request_parts [OF assms])
  moreover have "\<exists>d q. profile_of s (int (hk_index k)) = Some (d, q)
      \<and> br_data_class r = Some d \<and> br_quality_tier r = Some q"
    using calculation by (cases profile) simp
  moreover have "br_error_class r \<noteq> None \<longrightarrow> br_quality_score r = None
      \<and> br_task_correct r = (if sc_workload s = Generation then None else Some False)"
    using q by (auto simp: quality_of_call_def)
  moreover have "br_error_class r = None \<longrightarrow> 200 \<le> br_http_status r \<and> br_http_status r < 300
      \<and> (br_task_correct r = None \<longleftrightarrow> sc_workload s = Generation)
      \<and> (br_quality_score r = None \<longleftrightarrow> sc_workload s = Generation)"
    using q e error_of_call_None [of he rs] r(9) quality_generation quality_scored
    by (cases "sc_workload s = Generation") (fastforce simp: quality_of_call_def)+
  moreover have "br_managed_cost r \<noteq> None \<longrightarrow> (\<exists>p. br_provider r = Some p \<and> starts_with p ''managed''
      \<and> tu_billed_input (br_usage r) \<noteq> None \<and> tu_billed_output (br_usage r) \<noteq> None)"
    using c managed_cost_Some by fastforce
  ultimately show ?thesis by blast
qed

definition failing_harness :: harness_env where
  "failing_harness = lossy_harness\<lparr>he_post := (\<lambda>k hs b.
     Inr \<lparr>ha_status = 502, ha_headers = [], ha_body = ''B''\<rparr>)\<rparr>"

definition lab_item :: dataset_item where
  "lab_item =
     \<lparr>di_item_id = ''c-1'', di_difficulty = ''easy'', di_prompt = ''p'', di_target = Some (TextTarget ''spam''),
      di_input_token_target = None, di_output_token_target = None\<rparr>"

theorem record_consistent_witness:
  "\<exists>r. harness_request failing_harness lab_gateway (lab_scenario HybridMode lab_mix) None ''run''
         \<lparr>hk_measured = True, hk_repeat = 1, hk_index = 3\<rparr> lab_item = Inr (Some r)
     \<and> br_error_class r = Some MalformedResponse \<and> br_quality_score r = None
     \<and> br_task_correct r = Some False \<and> br_data_class r = Some Restricted"
proof -
  let ?k = "\<lparr>hk_measured = True, hk_repeat = 1, hk_index = 3\<rparr>"
  let ?s = "lab_scenario HybridMode lab_mix"
  have "case harness_request failing_harness lab_gateway ?s None ''run'' ?k lab_item of
      Inr (Some r) \<Rightarrow> br_error_class r = Some MalformedResponse | _ \<Rightarrow> False"
    by code_simp
  then obtain r where r: "harness_request failing_harness lab_gateway ?s None ''run'' ?k lab_item = Inr (Some r)"
      "br_error_class r = Some MalformedResponse"
    by (auto split: sum.splits option.splits)
  have p: "profile_of ?s (int (hk_index ?k)) = Some (Restricted, Premium)" "sc_workload ?s = Classification"
    by code_simp+
  from record_consistent [OF r(1)] r p show ?thesis by auto
qed

lemma traverse_map:
  assumes "traverse f xs = Inr ys" "\<And>x y. x \<in> set xs \<Longrightarrow> f x = Inr y \<Longrightarrow> h y = g x"
  shows "map h ys = map g xs"
  using assms by (induction xs arbitrary: ys) (auto simp: bind_res_Inr)

lemma measured_record_Inr:
  assumes "measured_record he cfg s labels run_id repeat x = Inr r"
  shows "harness_request he cfg s labels run_id
    \<lparr>hk_measured = True, hk_repeat = repeat, hk_index = fst x\<rparr> (snd x) = Inr (Some r)"
  using assms by (cases x) (auto simp: measured_record_def bind_res_Inr split: option.splits)

text \<open>What a record says of the call it is the evidence of.\<close>

definition call_key :: "benchmark_record \<Rightarrow> int \<times> string" where
  "call_key r = (br_repeat_index r, br_dataset_item_id r)"

lemma repeat_records_keys:
  assumes "repeat_records he cfg s labels run_id selected repeat = Inr rs"
  shows "map call_key rs = map (Pair repeat) (map di_item_id selected)"
proof -
  have t: "traverse (measured_record he cfg s labels run_id repeat) (List.enumerate 0 selected) = Inr rs"
    using assms by (auto simp: repeat_records_def bind_res_Inr)
  have "call_key r = (repeat, di_item_id (snd x))"
    if "measured_record he cfg s labels run_id repeat x = Inr r" for x r
    by (rule harness_request_parts [OF measured_record_Inr [OF that]]) (simp add: call_key_def)
  then have "map call_key rs = map (\<lambda>x. (repeat, di_item_id (snd x))) (List.enumerate 0 selected)"
    by (intro traverse_map [OF t]) blast
  also have "\<dots> = map (Pair repeat) (map di_item_id (map snd (List.enumerate 0 selected)))"
    unfolding map_map comp_def ..
  finally show ?thesis by (simp only: map_snd_enumerate)
qed

text \<open>
  A run is complete: if it writes evidence then it has exactly one record for every repeat and
  every selected item, in this order, and so repeats times requests records, all valid and of the
  run; the calls may have been answered in any order and the warm-up calls leave no record.
\<close>

theorem run_is_complete:
  assumes "harness_run he cfg s bundle run_id = Inr records"
    and "selected = he_sample he (sc_seed s) (db_items bundle) (sc_requests s)"
    and "int (length selected) = sc_requests s" "1 \<le> sc_repeats s"
  shows "map call_key records = List.product [1 .. sc_repeats s] (map di_item_id selected)
    \<and> int (length records) = sc_repeats s * sc_requests s
    \<and> list_all (\<lambda>r. validate_record r = Inr () \<and> br_run_id r = run_id) records"
proof -
  define labels where "labels = classification_labels s (db_items bundle)"
  obtain groups where g: "traverse (repeat_records he cfg s labels run_id selected) [1 .. sc_repeats s] = Inr groups"
    and records: "records = concat groups"
    using assms(1,2) by (auto simp: harness_run_def Let_def bind_res_Inr select_items_def labels_def split: if_splits)
  have "map (map call_key) groups = map (\<lambda>k. map (Pair k) (map di_item_id selected)) [1 .. sc_repeats s]"
    using g by (rule traverse_map) (rule repeat_records_keys)
  then have keys: "map call_key records = List.product [1 .. sc_repeats s] (map di_item_id selected)"
    by (simp add: records map_concat product_concat_map)
  have "length records = length (map call_key records)" by simp
  also have "\<dots> = nat (sc_repeats s) * length selected" unfolding keys by (simp add: length_product)
  finally have count: "int (length records) = sc_repeats s * sc_requests s"
    using assms(3,4) by simp
  have "validate_record r = Inr () \<and> br_run_id r = run_id" if mem: "r \<in> set records" for r
  proof -
    obtain rs where rs: "r \<in> set rs" "rs \<in> set groups" using mem records by auto
    then obtain repeat where "repeat_records he cfg s labels run_id selected repeat = Inr rs"
      using traverse_member [OF g] by blast
    with rs have "\<exists>x. measured_record he cfg s labels run_id repeat x = Inr r"
      using traverse_member by (fastforce simp: repeat_records_def bind_res_Inr)
    then obtain x where "measured_record he cfg s labels run_id repeat x = Inr r" ..
    then show ?thesis by (rule harness_request_parts [OF measured_record_Inr]) simp
  qed
  then show ?thesis using keys count by (simp add: list_all_iff)
qed

theorem run_is_complete_witness:
  "\<exists>records. harness_run failing_harness lab_gateway ((lab_scenario HybridMode lab_mix)\<lparr>sc_requests := 1\<rparr>)
       \<lparr>db_name = ''n'', db_version = ''1'', db_workload = ''classification'', db_seed = 1, db_checksum = ''c'',
        db_items = [lab_item]\<rparr> ''run'' = Inr records
     \<and> map call_key records = [(1, ''c-1''), (2, ''c-1'')]"
proof -
  let ?s = "(lab_scenario HybridMode lab_mix)\<lparr>sc_requests := 1\<rparr>"
  let ?b = "\<lparr>db_name = ''n'', db_version = ''1'', db_workload = ''classification'', db_seed = 1,
    db_checksum = ''c'', db_items = [lab_item]\<rparr>"
  have "case harness_run failing_harness lab_gateway ?s ?b ''run'' of Inr r \<Rightarrow> True | Inl e \<Rightarrow> False"
    by code_simp
  then obtain records where r: "harness_run failing_harness lab_gateway ?s ?b ''run'' = Inr records"
    by (auto split: sum.splits)
  have "he_sample failing_harness (sc_seed ?s) (db_items ?b) (sc_requests ?s) = [lab_item]"
    "sc_repeats ?s = 2" "sc_requests ?s = 1" "di_item_id lab_item = ''c-1''"
    by (simp_all add: failing_harness_def lossy_harness_def lab_harness_def lab_scenario_def lab_item_def)
  with run_is_complete [OF r refl] r show ?thesis by (simp add: upto_rec1)
qed

end
