(* ===== verification/Statistics.thy ===== *)
theory Statistics
  imports Py_Numbers
begin

text \<open>
  Percentiles, seeded bootstrap intervals and the claimability rule
  (\<open>benchmark/statistics.py\<close>). The generator \<open>random.Random(seed)\<close> is a parameter: the
  stream of numbers it yields to successive \<open>randrange(n)\<close> calls, as a function of the call's
  number and of \<open>n\<close>; all that is relied on is \<open>0 \<le> randrange(n) < n\<close>. \<open>statistics.fmean\<close>
  divides the correctly rounded exact sum by the count.
\<close>

section \<open>Percentiles\<close>

definition percentile :: "pyfloat list \<Rightarrow> pyfloat \<Rightarrow> string + pyfloat" where
  "percentile values probability =
     (if values = [] then Inl ''percentile requires at least one value''
      else if \<not> (0 \<le> probability \<and> probability \<le> 1)
      then Inl ''probability must be between zero and one''
      else (let ordered = sort values;
                position = fmul (flt_round (of_nat (length ordered - 1))) probability;
                lower = \<lfloor>position\<rfloor>;
                upper = \<lceil>position\<rceil>
            in if lower = upper then Inr (ordered ! nat lower)
               else (let fraction = fsub position (of_int lower)
                     in Inr (fadd (fmul (ordered ! nat lower) (fsub 1 fraction))
                                  (fmul (ordered ! nat upper) fraction)))))"

section \<open>Bootstrap\<close>

record confidence_interval =
  ci_low :: pyfloat
  ci_high :: pyfloat
  ci_confidence :: pyfloat
  ci_iterations :: int
  ci_seed :: int
  ci_method :: string
  ci_unit :: string

text \<open>\<open>0.025\<close>, \<open>0.975\<close> and \<open>0.95\<close> are the nearest binary fractions.\<close>

definition bounds :: "pyfloat list \<Rightarrow> string + pyfloat \<times> pyfloat" where
  "bounds samples =
     bind_res (percentile samples (flt_round (25 / 1000))) (\<lambda>lo.
     bind_res (percentile samples (flt_round (975 / 1000))) (\<lambda>hi. Inr (lo, hi)))"

definition fmean :: "pyfloat list \<Rightarrow> pyfloat" where
  "fmean xs = fdiv (flt_round (sum_list xs)) (flt_round (of_nat (length xs)))"

type_synonym generator = "nat \<Rightarrow> nat \<Rightarrow> nat"

text \<open>
  The draws of one iteration: \<open>n\<close> calls of \<open>randrange(n)\<close>, numbered from \<open>k * n\<close> on.
\<close>

definition draw_indices :: "generator \<Rightarrow> nat \<Rightarrow> nat \<Rightarrow> nat list" where
  "draw_indices rng n k = map (\<lambda>j. rng (k * n + j) n) [0..<n]"

definition resample :: "generator \<Rightarrow> 'a list \<Rightarrow> nat \<Rightarrow> 'a list" where
  "resample rng xs k = map (\<lambda>i. xs ! i) (draw_indices rng (length xs) k)"

definition make_interval ::
    "pyfloat list \<Rightarrow> int \<Rightarrow> int \<Rightarrow> string \<Rightarrow> string \<Rightarrow> string + confidence_interval" where
  "make_interval samples iterations seed meth unit_name =
     bind_res (bounds samples) (\<lambda>(lo, hi). Inr
       \<lparr>ci_low = lo, ci_high = hi, ci_confidence = flt_round (95 / 100), ci_iterations = iterations,
        ci_seed = seed, ci_method = meth, ci_unit = unit_name\<rparr>)"

definition truth :: "bool \<Rightarrow> pyfloat" where
  "truth b = (if b then 1 else 0)"

definition paired_quality_effect_ci ::
    "(int \<Rightarrow> generator) \<Rightarrow> bool list \<Rightarrow> bool list \<Rightarrow> int \<Rightarrow> int \<Rightarrow> string + confidence_interval" where
  "paired_quality_effect_ci random baseline treatment iterations seed =
     (if length baseline \<noteq> length treatment \<or> baseline = []
      then Inl ''paired quality inputs must be non-empty and equal length''
      else (let differences = map (\<lambda>(r, c). fsub (truth c) (truth r)) (zip baseline treatment);
                samples = map (\<lambda>k. fmean (resample (random seed) differences k)) [0..<nat iterations]
            in make_interval samples iterations seed ''paired percentile bootstrap''
                 ''dataset_item_id''))"

definition clustered_metric_ci ::
    "(int \<Rightarrow> generator) \<Rightarrow> (int \<times> pyfloat list) list \<Rightarrow> (pyfloat list \<Rightarrow> string + pyfloat) \<Rightarrow> int \<Rightarrow> int
      \<Rightarrow> string + confidence_interval" where
  "clustered_metric_ci random repeat_values metric iterations seed =
     (if repeat_values = [] \<or> list_ex (\<lambda>(k, vs). vs = []) repeat_values
      then Inl ''every repeat cluster must contain values''
      else bind_res
        (traverse (\<lambda>k. metric (concat (resample (random seed) (map snd repeat_values) k)))
           [0..<nat iterations])
        (\<lambda>samples. make_interval samples iterations seed ''cluster percentile bootstrap''
                      ''repeat_index''))"

text \<open>
  The builtin \<open>sum\<close> on floats is the compensated summation of CPython 3.12: a running sum and
  a correction that collects the rounding errors and is added at the end.
\<close>

definition compensated_step :: "pyfloat \<times> pyfloat \<Rightarrow> pyfloat \<Rightarrow> pyfloat \<times> pyfloat" where
  "compensated_step sc x =
     (let (s, c) = sc;
          t = fadd s x
      in (t, fadd c (if \<bar>x\<bar> \<le> \<bar>s\<bar> then fadd (fsub s t) x else fadd (fsub x t) s)))"

definition float_sum :: "pyfloat list \<Rightarrow> pyfloat" where
  "float_sum xs = (let (s, c) = foldl compensated_step (0, 0) xs in fadd s c)"

definition repeat_ratio_ci ::
    "(int \<Rightarrow> generator) \<Rightarrow> (int \<times> pyfloat) list \<Rightarrow> (int \<times> int) list \<Rightarrow> int \<Rightarrow> int
      \<Rightarrow> string + confidence_interval" where
  "repeat_ratio_ci random numerators denominators iterations seed =
     (if set (dict_keys numerators) \<noteq> set (dict_keys denominators) \<or> numerators = []
      then Inl ''repeat ratios need matching non-empty repeat sets''
      else if list_ex (\<lambda>(k, v). v \<le> 0) denominators
      then Inl ''repeat ratio denominators must be positive''
      else (let repeat_ids = sort (dict_keys numerators);
                sample = (\<lambda>k. let selected = resample (random seed) repeat_ids k
                             in fdiv (float_sum (map (\<lambda>i. the (map_of numerators i)) selected))
                                     (flt_round (of_int (\<Sum>i \<leftarrow> selected.
                                        the (map_of denominators i)))))
            in make_interval (map sample [0..<nat iterations]) iterations seed
                 ''cluster ratio percentile bootstrap'' ''repeat_index''))"

datatype claim = Directional | Inconclusive

definition claimability :: "pyfloat list \<Rightarrow> confidence_interval \<Rightarrow> claim" where
  "claimability effects i =
     (if effects = [] then Inconclusive
      else (let all_positive = list_all (\<lambda>v. 0 < v) effects;
                all_negative = list_all (\<lambda>v. v < 0) effects;
                excludes_zero = (0 < ci_low i \<or> ci_high i < 0)
            in if (all_positive \<or> all_negative) \<and> excludes_zero then Directional
               else Inconclusive))"

section \<open>Lemmas\<close>

lemma flt_round_nat [simp]: "n \<le> 2 ^ 53 \<Longrightarrow> flt_round (of_nat n) = of_nat n"
  using flt_round_int [of "int n"] by simp

lemma flt_round_0 [simp]: "flt_round 0 = 0" and flt_round_1 [simp]: "flt_round 1 = 1"
  using flt_round_int [of 0] flt_round_int [of 1] by simp_all

text \<open>One interpolation, with its four roundings: within three relative errors of the ends.\<close>

lemma interpolation_bounds:
  assumes "0 \<le> a" "a \<le> b" "0 \<le> f" "f \<le> 1"
  defines "e \<equiv> 1 / 2 ^ 53"
  shows "(1 - e) ^ 3 * a \<le> fadd (fmul a (fsub 1 f)) (fmul b f)"
    and "fadd (fmul a (fsub 1 f)) (fmul b f) \<le> (1 + e) ^ 3 * b"
proof -
  have e: "0 \<le> e" "e < 1" by (simp_all add: e_def)
  define g where "g = fsub 1 f"
  have g: "(1 - e) * (1 - f) \<le> g" "g \<le> (1 + e) * (1 - f)" "0 \<le> g"
    using flt.rnd_bounds [of "1 - f"] flt.rnd_nonneg [of "1 - f"] assms(4)
    unfolding g_def fsub_def e_def by simp_all
  define u where "u = fmul a g"
  have u: "(1 - e) * (a * g) \<le> u" "u \<le> (1 + e) * (a * g)" "0 \<le> u"
    using flt.rnd_bounds [of "a * g"] flt.rnd_nonneg [of "a * g"] assms(1) g(3)
    unfolding u_def fmul_def e_def by simp_all
  define v where "v = fmul b f"
  have v: "(1 - e) * (b * f) \<le> v" "v \<le> (1 + e) * (b * f)" "0 \<le> v"
    using flt.rnd_bounds [of "b * f"] flt.rnd_nonneg [of "b * f"] assms(1-3)
    unfolding v_def fmul_def e_def by simp_all
  have r: "(1 - e) * (u + v) \<le> fadd u v" "fadd u v \<le> (1 + e) * (u + v)"
    using flt.rnd_bounds [of "u + v"] u(3) v(3) unfolding fadd_def e_def by simp_all
  have "(1 - e) ^ 2 * a \<le> u + v"
  proof -
    have "(1 - e) ^ 2 * a * (1 - f) \<le> u"
    proof -
      have "a * ((1 - e) * (1 - f)) \<le> a * g" using g(1) assms(1) by (rule mult_left_mono)
      then have "(1 - e) * (a * ((1 - e) * (1 - f))) \<le> (1 - e) * (a * g)"
        by (rule mult_left_mono) (use e in simp)
      then show ?thesis using u(1) by (simp add: power2_eq_square algebra_simps)
    qed
    moreover have "(1 - e) ^ 2 * a * f \<le> v"
    proof -
      have "(1 - e) ^ 2 \<le> 1 - e" using e by (simp add: power2_eq_square mult_left_le_one_le)
      then have "(1 - e) ^ 2 * (a * f) \<le> (1 - e) * (a * f)"
        using assms(1,3) by (intro mult_right_mono) simp_all
      also have "\<dots> \<le> (1 - e) * (b * f)"
        using assms(2,3) e by (intro mult_left_mono mult_right_mono) simp_all
      finally show ?thesis using v(1) by (simp add: mult.assoc)
    qed
    moreover have "(1 - e) ^ 2 * a = (1 - e) ^ 2 * a * (1 - f) + (1 - e) ^ 2 * a * f"
      by (simp add: algebra_simps)
    ultimately show ?thesis by linarith
  qed
  then have "(1 - e) * ((1 - e) ^ 2 * a) \<le> (1 - e) * (u + v)"
    using e by (intro mult_left_mono) simp_all
  with r(1) show "(1 - e) ^ 3 * a \<le> fadd (fmul a (fsub 1 f)) (fmul b f)"
    unfolding u_def v_def g_def by (simp add: power3_eq_cube power2_eq_square mult.assoc)
  have "u + v \<le> (1 + e) ^ 2 * b"
  proof -
    have "u \<le> (1 + e) ^ 2 * b * (1 - f)"
    proof -
      have "(1 + e) * (a * g) \<le> (1 + e) * (b * ((1 + e) * (1 - f)))"
        using g assms(1,2) e by (intro mult_left_mono mult_mono) simp_all
      then show ?thesis using u(2) by (simp add: power2_eq_square algebra_simps)
    qed
    moreover have "v \<le> (1 + e) ^ 2 * b * f"
    proof -
      have "1 + e \<le> (1 + e) ^ 2" using e by (simp add: power2_eq_square algebra_simps)
      then have "(1 + e) * (b * f) \<le> (1 + e) ^ 2 * (b * f)"
        using assms(1-3) by (intro mult_right_mono) simp_all
      then show ?thesis using v(2) by (simp add: mult.assoc)
    qed
    moreover have "(1 + e) ^ 2 * b = (1 + e) ^ 2 * b * (1 - f) + (1 + e) ^ 2 * b * f"
      by (simp add: algebra_simps)
    ultimately show ?thesis by linarith
  qed
  then have "(1 + e) * (u + v) \<le> (1 + e) * ((1 + e) ^ 2 * b)"
    using e by (intro mult_left_mono) simp_all
  with r(2) show "fadd (fmul a (fsub 1 f)) (fmul b f) \<le> (1 + e) ^ 3 * b"
    unfolding u_def v_def g_def by (simp add: power3_eq_cube power2_eq_square mult.assoc)
qed

lemma percentile_position:
  assumes "vs \<noteq> []" "length vs \<le> 2 ^ 53" "0 \<le> p" "p \<le> 1"
  defines "x \<equiv> fmul (flt_round (of_nat (length (sort vs) - 1))) p"
  shows "0 \<le> \<lfloor>x\<rfloor>" "\<lfloor>x\<rfloor> \<le> \<lceil>x\<rceil>" "nat \<lceil>x\<rceil> < length vs"
    "0 \<le> fsub x (of_int \<lfloor>x\<rfloor>)" "fsub x (of_int \<lfloor>x\<rfloor>) \<le> 1"
proof -
  let ?n = "length vs - 1"
  have n: "flt_round (of_nat ?n) = (of_nat ?n :: rat)" using assms(2) by (intro flt_round_nat) simp
  have x: "x = flt_round (of_nat ?n * p)" using n by (simp add: x_def fmul_def)
  have "(of_nat ?n :: rat) * p \<le> of_nat ?n" using assms(3,4) by (simp add: mult_left_le)
  then have "x \<le> of_nat ?n" unfolding x using n by (intro flt.rnd_below)
  then have up: "\<lceil>x\<rceil> \<le> int ?n" by (simp add: ceiling_le_iff)
  have "0 \<le> x" unfolding x using assms(3) by (intro flt.rnd_nonneg) simp
  then show "0 \<le> \<lfloor>x\<rfloor>" by simp
  show "\<lfloor>x\<rfloor> \<le> \<lceil>x\<rceil>" by linarith
  show "nat \<lceil>x\<rceil> < length vs" using up assms(1) by (cases vs) simp_all
  have "0 \<le> x - of_int \<lfloor>x\<rfloor>" "x - of_int \<lfloor>x\<rfloor> \<le> 1" by linarith+
  then show "0 \<le> fsub x (of_int \<lfloor>x\<rfloor>)" "fsub x (of_int \<lfloor>x\<rfloor>) \<le> 1"
    unfolding fsub_def by (auto intro: flt.rnd_nonneg flt.rnd_below)
qed

lemma sort_ends:
  assumes "vs \<noteq> []"
  shows "Min (set vs) = sort vs ! 0" "Max (set vs) = sort vs ! (length vs - 1)"
proof -
  have "sort vs ! 0 \<le> v \<and> v \<le> sort vs ! (length vs - 1)" if v: "v \<in> set vs" for v
  proof -
    obtain i where "i < length (sort vs)" "v = sort vs ! i" using v by (metis in_set_conv_nth set_sort)
    then show ?thesis using sorted_nth_mono [OF sorted_sort, of 0 i vs]
        sorted_nth_mono [OF sorted_sort, of i "length vs - 1" vs] by simp
  qed
  moreover have "sort vs ! 0 \<in> set vs" "sort vs ! (length vs - 1) \<in> set vs"
    using nth_mem [of 0 "sort vs"] nth_mem [of "length vs - 1" "sort vs"] assms by simp_all
  ultimately show "Min (set vs) = sort vs ! 0" "Max (set vs) = sort vs ! (length vs - 1)"
    by (auto intro: Min_eqI Max_eqI)
qed

lemma sort_range:
  assumes "vs \<noteq> []" "i < length vs"
  shows "Min (set vs) \<le> sort vs ! i \<and> sort vs ! i \<le> Max (set vs)"
proof -
  have "sort vs ! i \<in> set vs" using nth_mem [of i "sort vs"] assms(2) by simp
  then show ?thesis by (simp add: Min_le Max_ge)
qed

lemma range_widened:
  fixes vs :: "rat list"
  assumes "vs \<noteq> []" "list_all (\<lambda>v. 0 \<le> v) vs"
  shows "(1 - 1 / 2 ^ 53) ^ 3 * Min (set vs) \<le> Min (set vs)"
    and "Max (set vs) \<le> (1 + 1 / 2 ^ 53) ^ 3 * Max (set vs)"
    and "0 \<le> Min (set vs)"
    and "Min (set vs) \<le> a \<Longrightarrow> (1 - 1 / 2 ^ 53) ^ 3 * Min (set vs) \<le> (1 - 1 / 2 ^ 53) ^ 3 * a"
    and "b \<le> Max (set vs) \<Longrightarrow> (1 + 1 / 2 ^ 53) ^ 3 * b \<le> (1 + 1 / 2 ^ 53) ^ 3 * Max (set vs)"
proof -
  have nonneg: "0 \<le> v" if "v \<in> set vs" for v using assms(2) that by (simp add: list_all_iff)
  show lo: "0 \<le> Min (set vs)" using nonneg Min_in [of "set vs"] assms(1) by simp
  have hi: "0 \<le> Max (set vs)" using nonneg Max_in [of "set vs"] assms(1) by simp
  have pw: "(1 - 1 / 2 ^ 53 :: rat) ^ 3 \<le> 1" "1 \<le> (1 + 1 / 2 ^ 53 :: rat) ^ 3"
    by (simp_all add: power_le_one)
  show "(1 - 1 / 2 ^ 53) ^ 3 * Min (set vs) \<le> Min (set vs)"
    "Max (set vs) \<le> (1 + 1 / 2 ^ 53) ^ 3 * Max (set vs)"
    using mult_right_mono [OF pw(1) lo] mult_right_mono [OF pw(2) hi] by simp_all
qed (simp_all add: mult_left_mono)

section \<open>Properties\<close>

text \<open>
  A percentile is a value of the sample's range: for non-negative values (latencies) and a
  probability in range it exists and lies between the smallest and the largest value, up to the
  three roundings of the interpolation; probabilities zero and one give the extremes exactly.
\<close>

theorem percentile_in_range:
  assumes "vs \<noteq> []" "length vs \<le> 2 ^ 53" "list_all (\<lambda>v. 0 \<le> v) vs" "0 \<le> p" "p \<le> 1"
  shows "\<exists>x. percentile vs p = Inr x
    \<and> (1 - 1 / 2 ^ 53) ^ 3 * Min (set vs) \<le> x \<and> x \<le> (1 + 1 / 2 ^ 53) ^ 3 * Max (set vs)
    \<and> (p = 0 \<longrightarrow> x = Min (set vs)) \<and> (p = 1 \<longrightarrow> x = Max (set vs))"
proof -
  define x where "x = fmul (flt_round (of_nat (length (sort vs) - 1))) p"
  note pos = percentile_position [OF assms(1,2,4,5), folded x_def]
  have lu: "nat \<lfloor>x\<rfloor> \<le> nat \<lceil>x\<rceil>" "nat \<lceil>x\<rceil> < length vs" using pos by (simp_all add: nat_mono)
  note range = sort_range [OF assms(1)] and wide = range_widened [OF assms(1,3)]
  have last: "flt_round (of_nat (length vs - 1)) = (of_nat (length vs - 1) :: rat)"
    using assms(2) by (intro flt_round_nat) simp
  show ?thesis
  proof (cases "\<lfloor>x\<rfloor> = \<lceil>x\<rceil>")
    case True
    have "percentile vs p = Inr (sort vs ! nat \<lfloor>x\<rfloor>)"
      using True assms(1,4,5) unfolding percentile_def Let_def x_def [symmetric] by simp
    moreover have "p = 0 \<Longrightarrow> nat \<lfloor>x\<rfloor> = 0" "p = 1 \<Longrightarrow> nat \<lfloor>x\<rfloor> = length vs - 1"
      using last by (simp_all add: x_def fmul_def)
    ultimately show ?thesis
      using range [of "nat \<lfloor>x\<rfloor>"] lu wide(1,2) sort_ends [OF assms(1)] by auto
  next
    case False
    have "percentile vs p = Inr (fadd (fmul (sort vs ! nat \<lfloor>x\<rfloor>) (fsub 1 (fsub x (of_int \<lfloor>x\<rfloor>))))
        (fmul (sort vs ! nat \<lceil>x\<rceil>) (fsub x (of_int \<lfloor>x\<rfloor>))))"
      using False assms(1,4,5) unfolding percentile_def Let_def x_def [symmetric] by simp
    moreover have ab: "0 \<le> sort vs ! nat \<lfloor>x\<rfloor>" "sort vs ! nat \<lfloor>x\<rfloor> \<le> sort vs ! nat \<lceil>x\<rceil>"
      using wide(3) range [of "nat \<lfloor>x\<rfloor>"] lu sorted_nth_mono [OF sorted_sort, of "nat \<lfloor>x\<rfloor>" "nat \<lceil>x\<rceil>" vs]
      by simp_all
    moreover have "Min (set vs) \<le> sort vs ! nat \<lfloor>x\<rfloor>" "sort vs ! nat \<lceil>x\<rceil> \<le> Max (set vs)"
      using range [of "nat \<lfloor>x\<rfloor>"] range [of "nat \<lceil>x\<rceil>"] lu by simp_all
    note wide(4) [OF this(1), THEN order_trans, OF interpolation_bounds(1) [OF ab pos(4,5)]]
      interpolation_bounds(2) [OF ab pos(4,5), THEN order_trans, OF wide(5) [OF this(2)]]
    moreover have "p \<noteq> 0" "p \<noteq> 1" using False last by (auto simp: x_def fmul_def)
    ultimately show ?thesis by (intro exI conjI) (assumption | simp)+
  qed
qed

theorem percentile_in_range_witness:
  "\<exists>x. percentile [12, 7, 30] 1 = Inr x \<and> x = 30"
  using percentile_in_range [of "[12, 7, 30]" 1] by auto

end
