(* ===== verification/Report.thy ===== *)
theory Report
  imports Datasets Bench_Models Cost_Engine Statistics
begin

text \<open>
  The report of a run (\<open>benchmark/report.py\<close>): latencies, quality, the service level objectives
  per traffic cell, the repeats and their dispersion, the breakdown by provider, the billed hours
  and the cost views of the combined route. Dictionaries with fixed keys are records. \<open>str\<close> and
  \<open>float\<close> on values and the random generator are parameters; an exception is \<open>Inl\<close> of its class
  or message.
\<close>

section \<open>Latency and time\<close>

record latency_row =
  lt_p50 :: "pyfloat option"
  lt_p95 :: "pyfloat option"
  lt_p99 :: "pyfloat option"

definition quantile :: "pyfloat list \<Rightarrow> rat \<Rightarrow> pyfloat option" where
  "quantile values q =
     (case percentile values (flt_round q) of Inl e \<Rightarrow> None | Inr x \<Rightarrow> Some x)"

definition latency :: "pyfloat list \<Rightarrow> latency_row" where
  "latency values =
     (if values = [] then \<lparr>lt_p50 = None, lt_p95 = None, lt_p99 = None\<rparr>
      else \<lparr>lt_p50 = quantile values (1 / 2), lt_p95 = quantile values (95 / 100),
            lt_p99 = quantile values (99 / 100)\<rparr>)"

text \<open>
  \<open>Decimal(str(span.total_seconds()))\<close> is the exact difference for time stamps in microseconds
  less than \<open>10 ^ 15\<close> microseconds apart: the shortest text of the float is that decimal.
\<close>

definition span_seconds :: "benchmark_record list \<Rightarrow> decimal" where
  "span_seconds records =
     (if records = [] then 0
      else Max (set (map (\<lambda>r. ts_instant (br_completed_at r)) records))
         - Min (set (map (\<lambda>r. ts_instant (br_started_at r)) records)))"

definition e2e_values :: "benchmark_record list \<Rightarrow> pyfloat list" where
  "e2e_values records = map br_e2e_ms records"

definition ttft_values :: "benchmark_record list \<Rightarrow> pyfloat list" where
  "ttft_values records = List.map_filter br_ttft_ms records"

definition count_where :: "('a \<Rightarrow> bool) \<Rightarrow> 'a list \<Rightarrow> nat" where
  "count_where p xs = length (filter p xs)"

definition failed :: "benchmark_record \<Rightarrow> bool" where
  "failed r \<longleftrightarrow> br_error_class r \<noteq> None"

definition correct :: "benchmark_record \<Rightarrow> bool" where
  "correct r \<longleftrightarrow> br_task_correct r = Some True"

section \<open>Quality\<close>

record report_env =
  rp_text :: text_env
  rp_float :: "string \<Rightarrow> pyfloat option"
  rp_random :: "int \<Rightarrow> generator"

fun json_float :: "report_env \<Rightarrow> json \<Rightarrow> string + pyfloat" where
  "json_float re (JFloat x) = Inr x"
| "json_float re (JInt i) = Inr (flt_round (of_int i))"
| "json_float re (JBool b) = Inr (if b then 1 else 0)"
| "json_float re (JStr s) = (case rp_float re s of None \<Rightarrow> Inl ''ValueError'' | Some x \<Rightarrow> Inr x)"
| "json_float re v = Inl ''TypeError''"

record extraction_metrics =
  xm_json_valid_rate :: pyfloat
  xm_exact_match_rate :: pyfloat
  xm_field_f1_mean :: pyfloat
  xm_whole_record_rate :: pyfloat

datatype task_metrics =
    NoMetrics
  | LabelMetrics classification_report
  | FieldMetrics extraction_metrics

record difficulty_row =
  dr_attempts :: nat
  dr_correct :: nat
  dr_rate :: pyfloat

record quality_report =
  qr_applicable :: bool
  qr_task_correct :: "nat option"
  qr_quality_rate :: "pyfloat option"
  qr_by_difficulty :: "(difficulty \<times> difficulty_row) list"
  qr_task_metrics :: task_metrics

text \<open>\<open>str(score.get(key, "")) if score else ""\<close>\<close>

definition score_text :: "report_env \<Rightarrow> string \<Rightarrow> benchmark_record \<Rightarrow> string" where
  "score_text re key r =
     (case br_quality_score r of
        None \<Rightarrow> ''''
      | Some [] \<Rightarrow> ''''
      | Some score \<Rightarrow> (case map_of score key of None \<Rightarrow> '''' | Some v \<Rightarrow> py_str (rp_text re) v))"

definition score_of :: "benchmark_record \<Rightarrow> json_object" where
  "score_of r = (case br_quality_score r of None \<Rightarrow> [] | Some s \<Rightarrow> s)"

definition flag_rate :: "string \<Rightarrow> benchmark_record list \<Rightarrow> pyfloat" where
  "flag_rate key records =
     count_ratio (count_where (\<lambda>r. map_of (score_of r) key = Some (JBool True)) records) (length records)"

definition field_f1_of :: "report_env \<Rightarrow> benchmark_record \<Rightarrow> string + pyfloat" where
  "field_f1_of re r =
     json_float re (case map_of (score_of r) ''field_f1'' of None \<Rightarrow> JFloat 0 | Some v \<Rightarrow> v)"

definition extraction_metrics_of ::
    "report_env \<Rightarrow> benchmark_record list \<Rightarrow> string + extraction_metrics" where
  "extraction_metrics_of re records =
     (if records = [] then Inl ''ZeroDivisionError''
      else bind_res (traverse (field_f1_of re) records) (\<lambda>f1s.
        Inr \<lparr>xm_json_valid_rate = flag_rate ''json_valid'' records,
             xm_exact_match_rate = flag_rate ''required_field_exact_match'' records,
             xm_field_f1_mean = fmean f1s,
             xm_whole_record_rate = flag_rate ''whole_record_correct'' records\<rparr>))"

definition difficulty_row_of :: "benchmark_record list \<Rightarrow> difficulty \<Rightarrow> difficulty_row" where
  "difficulty_row_of records d =
     (let g = filter (\<lambda>r. br_difficulty r = Some d) records
      in \<lparr>dr_attempts = length g, dr_correct = count_where correct g,
          dr_rate = count_ratio (count_where correct g) (length g)\<rparr>)"

definition task_metrics_of ::
    "report_env \<Rightarrow> workload_kind \<Rightarrow> benchmark_record list \<Rightarrow> string + task_metrics" where
  "task_metrics_of re w records =
     (if w = Classification
      then bind_res (classification_metrics (rp_text re)
               (map (score_text re ''expected'') records)
               (map (score_text re ''normalized_prediction'') records) []) (\<lambda>m. Inr (LabelMetrics m))
      else bind_res (extraction_metrics_of re records) (\<lambda>m. Inr (FieldMetrics m)))"

definition quality_payload ::
    "report_env \<Rightarrow> scenario \<Rightarrow> benchmark_record list \<Rightarrow> string + quality_report" where
  "quality_payload re s records =
     (if sc_workload s = Generation
      then Inr \<lparr>qr_applicable = False, qr_task_correct = None, qr_quality_rate = None,
                qr_by_difficulty = [], qr_task_metrics = NoMetrics\<rparr>
      else bind_res (task_metrics_of re (sc_workload s) records) (\<lambda>metrics.
        Inr \<lparr>qr_applicable = True, qr_task_correct = Some (count_where correct records),
             qr_quality_rate = Some (count_ratio (count_where correct records) (length records)),
             qr_by_difficulty = map (\<lambda>d. (d, difficulty_row_of records d)) [Easy, Medium, Hard],
             qr_task_metrics = metrics\<rparr>))"

section \<open>Service level objectives\<close>

record slo_check =
  sk_actual :: "pyfloat option"
  sk_target :: rat
  sk_applicable :: bool
  sk_pass :: bool

record slo_evaluation =
  se_cell :: string
  se_targets :: slo_target
  se_checks :: "(string \<times> slo_check) list"
  se_failed :: "string list"
  se_eligible :: bool

definition at_most :: "pyfloat option \<Rightarrow> rat \<Rightarrow> bool" where
  "at_most actual target = (case actual of None \<Rightarrow> False | Some x \<Rightarrow> x \<le> target)"

definition quality_check :: "slo_target \<Rightarrow> benchmark_record list \<Rightarrow> string + slo_check" where
  "quality_check t records =
     (case sl_min_quality_rate t of
        None \<Rightarrow> Inl ''TypeError''
      | Some d \<Rightarrow>
          (let rate = count_ratio (count_where correct records) (length records)
           in Inr \<lparr>sk_actual = Some rate, sk_target = float_of_decimal d, sk_applicable = True,
                   sk_pass = (float_of_decimal d \<le> rate)\<rparr>))"

definition evaluate_slo_cell ::
    "workload_kind \<Rightarrow> bool \<Rightarrow> slo_target \<Rightarrow> string \<Rightarrow> benchmark_record list \<Rightarrow> string + slo_evaluation"
where
  "evaluate_slo_cell w stream t cell_name records =
     (let e2e = lt_p95 (latency (e2e_values records));
          ttft = lt_p95 (latency (ttft_values records));
          errors = count_ratio (count_where failed records) (length records);
          base =
            [(''p95_e2e_ms'', \<lparr>sk_actual = e2e, sk_target = of_int (sl_p95_e2e_ms t),
                              sk_applicable = True, sk_pass = at_most e2e (of_int (sl_p95_e2e_ms t))\<rparr>),
             (''p95_ttft_ms'', \<lparr>sk_actual = ttft, sk_target = of_int (sl_p95_ttft_ms t),
                               sk_applicable = stream,
                               sk_pass = (\<not> stream \<or> at_most ttft (of_int (sl_p95_ttft_ms t)))\<rparr>),
             (''error_rate'', \<lparr>sk_actual = Some errors, sk_target = float_of_decimal (sl_max_error_rate t),
                              sk_applicable = True,
                              sk_pass = (errors \<le> float_of_decimal (sl_max_error_rate t))\<rparr>)]
      in if records = [] then Inl ''ZeroDivisionError''
         else bind_res (if w = Generation then Inr []
                        else bind_res (quality_check t records) (\<lambda>k. Inr [(''quality_rate'', k)])) (\<lambda>more.
           let checks = base @ more
           in Inr \<lparr>se_cell = cell_name, se_targets = t, se_checks = checks,
                   se_failed = map fst (filter (\<lambda>(n, k). \<not> sk_pass k) checks),
                   se_eligible = list_all (\<lambda>(n, k). sk_pass k) checks\<rparr>))"

text \<open>The embedded objectives: the cells if there are any, or the one target.\<close>

record manifest_slo =
  ms_cells :: "(string \<times> slo_target) list"
  ms_target :: "slo_target option"

definition manifest_targets :: "manifest_slo \<Rightarrow> scenario \<Rightarrow> string + (string \<times> slo_target) list" where
  "manifest_targets m s =
     (if ms_cells m \<noteq> [] then Inr (ms_cells m)
      else (case ms_target m of None \<Rightarrow> Inl ''KeyError'' | Some t \<Rightarrow> Inr [(sc_slo_cell s, t)]))"

definition cell_of_record :: "scenario \<Rightarrow> benchmark_record \<Rightarrow> string" where
  "cell_of_record s r =
     slo_cell_of (br_workload r) (case br_quality_tier r of None \<Rightarrow> sc_quality_tier s | Some t \<Rightarrow> t)"

text \<open>\<open>grouped.setdefault(key, []).append(x)\<close>\<close>

definition add_to_group :: "'k \<Rightarrow> 'a \<Rightarrow> ('k \<times> 'a list) list \<Rightarrow> ('k \<times> 'a list) list" where
  "add_to_group k x groups =
     AList.update k ((case map_of groups k of None \<Rightarrow> [] | Some g \<Rightarrow> g) @ [x]) groups"

definition group_by :: "('a \<Rightarrow> 'k) \<Rightarrow> 'a list \<Rightarrow> ('k \<times> 'a list) list" where
  "group_by key xs = foldl (\<lambda>groups x. add_to_group (key x) x groups) [] xs"

record cell_report =
  cp_evaluation :: slo_evaluation
  cp_sample_size :: nat
  cp_insufficient :: bool
  cp_eligible :: bool
  cp_warning :: bool

definition report_cell ::
    "scenario \<Rightarrow> (string \<times> slo_target) list \<Rightarrow> (string \<times> benchmark_record list) list \<Rightarrow> string
      \<Rightarrow> string + cell_report" where
  "report_cell s targets groups cell_name =
     (case (map_of targets cell_name, map_of groups cell_name) of
        (Some t, Some (r # rs)) \<Rightarrow>
          bind_res (evaluate_slo_cell (br_workload r) (sc_stream s) t cell_name (r # rs)) (\<lambda>e.
            let insufficient = length (r # rs) < 30
            in Inr \<lparr>cp_evaluation = e, cp_sample_size = length (r # rs), cp_insufficient = insufficient,
                    cp_eligible = (se_eligible e \<and> \<not> (sc_publishable s \<and> insufficient)),
                    cp_warning = (insufficient \<and> \<not> sc_publishable s)\<rparr>)
      | (None, _) \<Rightarrow> Inl (''manifest is missing embedded SLO target for traffic cell '' @ cell_name)
      | _ \<Rightarrow> Inl ''KeyError'')"

record slo_report =
  so_cell :: string
  so_primary :: slo_evaluation
  so_eligible :: bool
  so_latency :: latency_row
  so_ttft :: latency_row
  so_error_rate :: pyfloat
  so_quality_rate :: "pyfloat option"
  so_per_cell :: "cell_report list"

definition slo_report_of ::
    "scenario \<Rightarrow> benchmark_record list \<Rightarrow> quality_report \<Rightarrow> cell_report list \<Rightarrow> string + slo_report" where
  "slo_report_of s records quality cells =
     (case cells of
        [] \<Rightarrow> Inl ''ZeroDivisionError''
      | first # _ \<Rightarrow>
          Inr \<lparr>so_cell = sc_slo_cell s,
               so_primary = cp_evaluation
                 (case find (\<lambda>c. se_cell (cp_evaluation c) = sc_slo_cell s) cells of
                    None \<Rightarrow> first | Some c \<Rightarrow> c),
               so_eligible = list_all cp_eligible cells,
               so_latency = latency (e2e_values records), so_ttft = latency (ttft_values records),
               so_error_rate = count_ratio (count_where failed records) (length records),
               so_quality_rate = qr_quality_rate quality, so_per_cell = cells\<rparr>)"

definition slo_payload ::
    "report_env \<Rightarrow> scenario \<Rightarrow> manifest_slo \<Rightarrow> benchmark_record list \<Rightarrow> string + slo_report" where
  "slo_payload re s m records =
     bind_res (manifest_targets m s) (\<lambda>targets.
       let groups = group_by (cell_of_record s) records
       in bind_res (traverse (report_cell s targets groups) (sort (dict_keys groups))) (\<lambda>cells.
          bind_res (quality_payload re s records) (\<lambda>quality. slo_report_of s records quality cells)))"

section \<open>Groups\<close>

text \<open>Grouping in a dictionary is filtering by the key.\<close>

definition group_of :: "('a \<Rightarrow> 'k) \<Rightarrow> 'a list \<Rightarrow> 'k \<Rightarrow> 'a list" where
  "group_of key xs k = filter (\<lambda>x. key x = k) xs"

lemma group_by_snoc: "group_by key (xs @ [x]) = add_to_group (key x) x (group_by key xs)"
  by (simp add: group_by_def)

lemma map_of_group_by:
  "map_of (group_by key xs) k = (if group_of key xs k = [] then None else Some (group_of key xs k))"
proof (induction xs rule: rev_induct)
  case (snoc x xs)
  then show ?case
    by (auto simp: group_by_snoc add_to_group_def update_conv' group_of_def)
qed (simp add: group_by_def group_of_def)

lemma keys_group_by: "set (dict_keys (group_by key xs)) = key ` set xs"
proof -
  have "k \<in> set (dict_keys (group_by key xs)) \<longleftrightarrow> k \<in> key ` set xs" for k
    using map_of_dict_keys [of "group_by key xs" k]
    by (auto simp: map_of_group_by group_of_def filter_empty_conv split: if_splits)
  then show ?thesis by blast
qed

lemma distinct_group_by: "distinct (dict_keys (group_by key xs))"
  by (induction xs rule: rev_induct)
    (auto simp: group_by_snoc add_to_group_def dict_keys_def distinct_update group_by_def)

lemma sum_of_groups:
  assumes "distinct ks" "key ` set xs \<subseteq> set ks"
  shows "(\<Sum>k \<leftarrow> ks. length (group_of key xs k)) = length xs"
proof -
  have "(\<Sum>k \<in> set ks. length (group_of key xs k)) = length xs"
    using assms(2)
  proof (induction xs)
    case (Cons x xs)
    have "(\<Sum>k \<in> set ks. length (group_of key (x # xs) k))
        = (\<Sum>k \<in> set ks. (if k = key x then 1 else 0) + length (group_of key xs k))"
      by (intro sum.cong) (auto simp: group_of_def)
    then show ?case using Cons by (simp add: sum.distrib)
  qed (simp add: group_of_def)
  then show ?thesis using assms(1) by (simp add: sum_list_distinct_conv_sum_set)
qed

lemma count_in_groups:
  assumes "distinct ks" "key ` set xs \<subseteq> set ks"
  shows "(\<Sum>k \<leftarrow> ks. count_where p (group_of key xs k)) = count_where p xs"
proof -
  have "count_where p (group_of key xs k) = length (group_of key (filter p xs) k)" for k
    unfolding count_where_def group_of_def filter_filter by (metis (no_types))
  moreover have "(\<Sum>k \<leftarrow> ks. length (group_of key (filter p xs) k)) = length (filter p xs)"
    using assms by (intro sum_of_groups) auto
  ultimately show ?thesis by (simp add: count_where_def)
qed

section \<open>The decision on the objectives\<close>

text \<open>What it means that a group of records meets its targets.\<close>

definition meets_targets :: "bool \<Rightarrow> slo_target \<Rightarrow> benchmark_record list \<Rightarrow> bool" where
  "meets_targets stream t g \<longleftrightarrow>
     (case lt_p95 (latency (e2e_values g)) of None \<Rightarrow> False | Some x \<Rightarrow> x \<le> of_int (sl_p95_e2e_ms t))
     \<and> (stream \<longrightarrow>
          (case lt_p95 (latency (ttft_values g)) of None \<Rightarrow> False | Some x \<Rightarrow> x \<le> of_int (sl_p95_ttft_ms t)))
     \<and> count_ratio (count_where failed g) (length g) \<le> float_of_decimal (sl_max_error_rate t)
     \<and> (br_workload (hd g) \<noteq> Generation \<longrightarrow>
          (case sl_min_quality_rate t of
             None \<Rightarrow> False
           | Some d \<Rightarrow> float_of_decimal d \<le> count_ratio (count_where correct g) (length g)))"

lemma evaluated_cell:
  assumes "evaluate_slo_cell (br_workload (hd g)) stream t c g = Inr e"
  shows "se_eligible e \<longleftrightarrow> meets_targets stream t g"
    and "se_cell e = c" and "se_eligible e \<longleftrightarrow> se_failed e = []"
  using assms
  by (auto simp: evaluate_slo_cell_def Let_def bind_res_Inr quality_check_def meets_targets_def
      at_most_def       filter_empty_conv list_all_iff split: option.splits if_splits)

lemma report_cell_Inr:
  assumes "report_cell s targets (group_by key records) c = Inr r"
  shows "\<exists>t. map_of targets c = Some t \<and> group_of key records c \<noteq> []
    \<and> se_cell (cp_evaluation r) = c \<and> cp_sample_size r = length (group_of key records c)
    \<and> (cp_eligible r \<longleftrightarrow> meets_targets (sc_stream s) t (group_of key records c)
        \<and> (sc_publishable s \<longrightarrow> 30 \<le> length (group_of key records c)))"
proof -
  obtain t x xs where t: "map_of targets c = Some t"
    and g: "map_of (group_by key records) c = Some (x # xs)"
    using assms by (auto simp: report_cell_def split: option.splits list.splits)
  have group: "group_of key records c = x # xs"
    using g by (auto simp: map_of_group_by split: if_splits)
  obtain e where e: "evaluate_slo_cell (br_workload (hd (x # xs))) (sc_stream s) t c (x # xs) = Inr e"
    and r: "cp_evaluation r = e" "cp_sample_size r = length (x # xs)"
      "cp_eligible r \<longleftrightarrow> se_eligible e \<and> \<not> (sc_publishable s \<and> length (x # xs) < 30)"
    using assms by (auto simp: report_cell_def t g bind_res_Inr Let_def)
  show ?thesis
    using t group r evaluated_cell [OF e] by (auto simp: not_less)
qed

lemma slo_payload_reports:
  assumes "slo_payload re s m records = Inr out" "manifest_targets m s = Inr targets"
  shows "traverse (report_cell s targets (group_by (cell_of_record s) records))
      (sort (dict_keys (group_by (cell_of_record s) records))) = Inr (so_per_cell out)"
    and "so_eligible out = list_all cp_eligible (so_per_cell out)"
proof -
  have "so_per_cell out = reports \<and> so_eligible out = list_all cp_eligible reports"
    if "slo_report_of s records quality reports = Inr out" for quality reports
    using that by (cases reports) (auto simp: slo_report_of_def)
  then show "traverse (report_cell s targets (group_by (cell_of_record s) records))
      (sort (dict_keys (group_by (cell_of_record s) records))) = Inr (so_per_cell out)"
    "so_eligible out = list_all cp_eligible (so_per_cell out)"
    using assms by (auto simp: slo_payload_def bind_res_Inr Let_def)
qed

section \<open>Properties\<close>

text \<open>
  C29. The objectives decide, cell by cell: the report has one entry per traffic cell the run
  touched, in sorted order, with that cell's name and number of records; the cell is eligible
  exactly if its records meet its targets (latency at the 95th percentile, time to first token when
  streamed, error rate, and quality except for generation) and, for a run to be published, are at
  least thirty; the run is eligible exactly if all its cells are; and the cells partition the
  records, none is left out.
\<close>

theorem slo_decision:
  assumes "slo_payload re s m records = Inr out" "manifest_targets m s = Inr targets"
  shows "(let cells = sort (dict_keys (group_by (cell_of_record s) records))
      in set cells = cell_of_record s ` set records
       \<and> list_all2 (\<lambda>c report. se_cell (cp_evaluation report) = c
             \<and> cp_sample_size report = length (group_of (cell_of_record s) records c)
             \<and> (\<exists>t. map_of targets c = Some t
                 \<and> (cp_eligible report \<longleftrightarrow>
                      meets_targets (sc_stream s) t (group_of (cell_of_record s) records c)
                      \<and> (sc_publishable s \<longrightarrow> 30 \<le> length (group_of (cell_of_record s) records c)))))
           cells (so_per_cell out))
    \<and> (so_eligible out \<longleftrightarrow> (\<forall>c \<in> cell_of_record s ` set records. \<exists>t.
        map_of targets c = Some t
        \<and> meets_targets (sc_stream s) t (group_of (cell_of_record s) records c)
        \<and> (sc_publishable s \<longrightarrow> 30 \<le> length (group_of (cell_of_record s) records c))))
    \<and> (\<Sum>c \<leftarrow> so_per_cell out. cp_sample_size c) = length records"
proof -
  let ?key = "cell_of_record s"
  let ?cells = "sort (dict_keys (group_by ?key records))"
  let ?reports = "so_per_cell out"
  note t = slo_payload_reports(1) [OF assms] and out = slo_payload_reports(2) [OF assms]
  have len: "length ?reports = length ?cells" by (rule traverse_length [OF t])
  have each: "\<exists>t. map_of targets (?cells ! i) = Some t
      \<and> se_cell (cp_evaluation (?reports ! i)) = ?cells ! i
      \<and> cp_sample_size (?reports ! i) = length (group_of ?key records (?cells ! i))
      \<and> (cp_eligible (?reports ! i) \<longleftrightarrow> meets_targets (sc_stream s) t (group_of ?key records (?cells ! i))
          \<and> (sc_publishable s \<longrightarrow> 30 \<le> length (group_of ?key records (?cells ! i))))"
    if "i < length ?cells" for i
    using report_cell_Inr [OF traverse_nth [OF t that]] by blast
  have set: "set ?cells = ?key ` set records" by (simp add: keys_group_by)
  have "so_eligible out \<longleftrightarrow> (\<forall>i < length ?cells. cp_eligible (?reports ! i))"
    unfolding out by (simp add: list_all_length len)
  also have "\<dots> \<longleftrightarrow> (\<forall>i < length ?cells. \<exists>t. map_of targets (?cells ! i) = Some t
      \<and> meets_targets (sc_stream s) t (group_of ?key records (?cells ! i))
      \<and> (sc_publishable s \<longrightarrow> 30 \<le> length (group_of ?key records (?cells ! i))))"
    using each by fastforce
  also have "\<dots> \<longleftrightarrow> (\<forall>c \<in> set ?cells. \<exists>t. map_of targets c = Some t
      \<and> meets_targets (sc_stream s) t (group_of ?key records c)
      \<and> (sc_publishable s \<longrightarrow> 30 \<le> length (group_of ?key records c)))"
    unfolding all_set_conv_all_nth ..
  finally have eligible: "so_eligible out \<longleftrightarrow> (\<forall>c \<in> set ?cells. \<exists>t. map_of targets c = Some t
      \<and> meets_targets (sc_stream s) t (group_of ?key records c)
      \<and> (sc_publishable s \<longrightarrow> 30 \<le> length (group_of ?key records c)))" .
  have "map cp_sample_size ?reports = map (\<lambda>c. length (group_of ?key records c)) ?cells"
    using each len by (intro nth_equalityI) auto
  then have "(\<Sum>c \<leftarrow> ?reports. cp_sample_size c) = length records"
    using sum_of_groups [OF _ equalityD2 [OF set]] distinct_group_by [of ?key records] by simp
  moreover have "list_all2 (\<lambda>c report. se_cell (cp_evaluation report) = c
             \<and> cp_sample_size report = length (group_of ?key records c)
             \<and> (\<exists>t. map_of targets c = Some t
                 \<and> (cp_eligible report \<longleftrightarrow> meets_targets (sc_stream s) t (group_of ?key records c)
                      \<and> (sc_publishable s \<longrightarrow> 30 \<le> length (group_of ?key records c)))))
           ?cells ?reports"
    unfolding list_all2_conv_all_nth using each len by auto
  ultimately show ?thesis using eligible set out by (simp add: Let_def)
qed

text \<open>Two records of a classification run: one correct, one failed with a time-out.\<close>

definition lab_evidence :: "string \<Rightarrow> int \<Rightarrow> error_class option \<Rightarrow> benchmark_record" where
  "lab_evidence provider repeat err =
     \<lparr>br_run_id = ''run'', br_repeat_index = repeat, br_request_id = ''q'', br_workload = Classification,
      br_dataset_item_id = ''c-1'', br_difficulty = Some Easy, br_data_class = Some Public,
      br_quality_tier = Some Economy, br_route = None, br_provider = Some provider,
      br_model_alias = ''lab-default'', br_started_at = utc 0, br_completed_at = utc 1,
      br_ttft_ms = None, br_e2e_ms = 100, br_usage = empty_token_usage, br_http_status = 200,
      br_finish_reason = None, br_error_class = err, br_fallback_count = 0,
      br_task_correct = Some (err = None),
      br_quality_score = (if err = None
        then Some [(''normalized_prediction'', JStr ''ham''), (''expected'', JStr ''ham'')] else None),
      br_managed_cost = None\<rparr>"

definition lab_report_env :: report_env where
  "lab_report_env = \<lparr>rp_text = lab_text, rp_float = (\<lambda>s. None), rp_random = (\<lambda>seed k n. 0)\<rparr>"

text \<open>A generation that takes six seconds, against an objective of five.\<close>

definition slow_evidence :: benchmark_record where
  "slow_evidence = (lab_evidence ''private-vllm'' 1 None)
     \<lparr>br_workload := Generation, br_e2e_ms := 6000, br_task_correct := None, br_quality_score := None\<rparr>"

definition lab_generation :: scenario where
  "lab_generation = (lab_scenario PrivateMode [])\<lparr>sc_workload := Generation, sc_slo_cell := ''WL-03/economy''\<rparr>"

theorem slo_decision_witness:
  "\<exists>out. slo_payload lab_report_env lab_generation \<lparr>ms_cells = sd_cells lab_slo, ms_target = None\<rparr>
       [slow_evidence] = Inr out \<and> \<not> so_eligible out"
proof -
  let ?m = "\<lparr>ms_cells = sd_cells lab_slo, ms_target = None\<rparr>"
  have "case slo_payload lab_report_env lab_generation ?m [slow_evidence] of Inr out \<Rightarrow> True | Inl e \<Rightarrow> False"
    by code_simp
  then obtain out where out: "slo_payload lab_report_env lab_generation ?m [slow_evidence] = Inr out"
    by (auto split: sum.splits)
  have targets: "manifest_targets ?m lab_generation = Inr (sd_cells lab_slo)"
    by (simp add: manifest_targets_def lab_slo_def)
  have cell: "cell_of_record lab_generation slow_evidence = ''WL-03/economy''"
    "\<not> meets_targets (sc_stream lab_generation) (lab_target None)
       (group_of (cell_of_record lab_generation) [slow_evidence] ''WL-03/economy'')"
    "map_of (sd_cells lab_slo) ''WL-03/economy'' = Some (lab_target None)"
    by code_simp+
  from slo_decision [OF out targets] cell out show ?thesis by auto
qed

section \<open>Accuracy of a classification run\<close>

lemma confusion_step_keys:
  assumes "tru \<in> set (dict_keys confusion)"
  shows "\<exists>c' u'. confusion_step (confusion, unknown) (tru, guess) = Inr (c', u')
     \<and> set (dict_keys c') = set (dict_keys confusion)"
proof -
  obtain row where "map_of confusion tru = Some row" using in_dict_keysE [OF assms] by blast
  then show ?thesis
    using assms by (auto simp: confusion_step_def dict_keys_def dom_update)
qed

lemma confusion_loop_total:
  "list_all (\<lambda>(t, g). t \<in> set (dict_keys confusion)) pairs \<Longrightarrow>
   \<exists>state. confusion_loop (confusion, unknown) pairs = Inr state"
proof (induction pairs arbitrary: confusion unknown)
  case (Cons p pairs)
  obtain t g where p: "p = (t, g)" by (cases p)
  obtain c' u' where "confusion_step (confusion, unknown) p = Inr (c', u')"
      "set (dict_keys c') = set (dict_keys confusion)"
    using confusion_step_keys [of t confusion unknown g] Cons.prems p by auto
  with Cons show ?case by (auto simp: list_all_iff)
qed simp

lemma classification_metrics_accuracy:
  assumes "length expected = length predicted"
  shows "\<exists>m. classification_metrics te expected predicted [] = Inr m
    \<and> cf_accuracy m = count_ratio (length (filter (\<lambda>(e, p). normalize_text te e
         = strip_chars guess_strip_chars (normalize_text te p)) (zip expected predicted))) (length expected)"
proof -
  let ?n = "normalize_text te" and ?g = "\<lambda>v. strip_chars guess_strip_chars (normalize_text te v)"
  define effective where "effective = sorted_set (map ?n expected @ map ?g predicted)"
  define empty where "empty = map (\<lambda>l. (l, map (\<lambda>other. (other, 0::nat)) effective)) effective"
  have keys: "set (dict_keys empty) = set effective" by (simp add: empty_def dict_keys_def image_image)
  have "list_all (\<lambda>(t, g). t \<in> set (dict_keys empty)) (zip (map ?n expected) (map ?g predicted))"
    unfolding keys list_all_iff effective_def by (auto dest: set_zip_leftD)
  from confusion_loop_total [OF this, of "[]"] obtain state where
    loop: "confusion_loop (empty, []) (zip (map ?n expected) (map ?g predicted)) = Inr state" by blast
  have "length (filter (\<lambda>(t, g). t = g) (zip (map ?n expected) (map ?g predicted)))
      = length (filter (\<lambda>(e, p). ?n e = ?g p) (zip expected predicted))"
    by (simp add: zip_map_map filter_map comp_def case_prod_unfold)
  then show ?thesis
    using assms loop
    by (cases state) (simp add: classification_metrics_def Let_def effective_def [symmetric] empty_def [symmetric])
qed

definition labels_agree :: "report_env \<Rightarrow> benchmark_record \<Rightarrow> bool" where
  "labels_agree re r \<longleftrightarrow> normalize_text (rp_text re) (score_text re ''expected'' r)
     = strip_chars guess_strip_chars (normalize_text (rp_text re) (score_text re ''normalized_prediction'' r))"

text \<open>
  C30. Failed calls count as accurate (the code as it is): in the report of a classification run the
  quality rate is the share of correct tasks, but the accuracy next to it also counts every record
  without a score, which is every failed call: its expected and predicted labels are both the
  empty string, and so agree.
\<close>

theorem failed_calls_are_accurate:
  assumes "sc_workload s = Classification" "normalize_text (rp_text re) '''' = ''''"
  shows "\<exists>q m. quality_payload re s records = Inr q \<and> qr_task_metrics q = LabelMetrics m
    \<and> qr_quality_rate q = Some (count_ratio (count_where correct records) (length records))
    \<and> cf_accuracy m = count_ratio
        (count_where (\<lambda>r. score_of r = [] \<or> labels_agree re r) records) (length records)"
proof -
  obtain m where m: "classification_metrics (rp_text re) (map (score_text re ''expected'') records)
        (map (score_text re ''normalized_prediction'') records) [] = Inr m"
    and acc: "cf_accuracy m = count_ratio (length (filter (\<lambda>(e, p). normalize_text (rp_text re) e
         = strip_chars guess_strip_chars (normalize_text (rp_text re) p))
       (zip (map (score_text re ''expected'') records) (map (score_text re ''normalized_prediction'') records))))
       (length records)"
    using classification_metrics_accuracy [of "map (score_text re ''expected'') records"
        "map (score_text re ''normalized_prediction'') records" "rp_text re"] by auto
  have none: "labels_agree re r" if "score_of r = []" for r
  proof -
    have "score_text re key r = ''''" for key
      using that by (auto simp: score_text_def score_of_def split: option.splits)
    then show ?thesis by (simp add: labels_agree_def assms(2) strip_chars_def)
  qed
  have "length (filter (\<lambda>(e, p). normalize_text (rp_text re) e
         = strip_chars guess_strip_chars (normalize_text (rp_text re) p))
       (zip (map (score_text re ''expected'') records) (map (score_text re ''normalized_prediction'') records)))
      = count_where (labels_agree re) records"
    by (simp add: zip_map_map zip_same_conv_map filter_map comp_def count_where_def labels_agree_def [abs_def])
  moreover have "count_where (labels_agree re) records
      = count_where (\<lambda>r. score_of r = [] \<or> labels_agree re r) records"
    unfolding count_where_def using none by (metis (mono_tags, lifting) filter_cong)
  ultimately show ?thesis
    using m acc assms(1) by (simp add: quality_payload_def task_metrics_of_def)
qed

theorem failed_calls_are_accurate_witness:
  "\<exists>q m. quality_payload lab_report_env (lab_scenario PrivateMode [])
       [lab_evidence ''private-vllm'' 1 None, lab_evidence ''private-vllm'' 2 (Some TimeoutClass)] = Inr q
     \<and> qr_task_metrics q = LabelMetrics m \<and> qr_quality_rate q = Some (1 / 2) \<and> cf_accuracy m = 1"
proof -
  let ?rs = "[lab_evidence ''private-vllm'' 1 None, lab_evidence ''private-vllm'' 2 (Some TimeoutClass)]"
  have e: "sc_workload (lab_scenario PrivateMode []) = Classification"
    "normalize_text (rp_text lab_report_env) '''' = ''''"
    "count_where correct ?rs = 1" "length ?rs = 2" "count_ratio 1 2 = 1 / 2" "count_ratio 2 2 = 1"
    "count_where (\<lambda>r. score_of r = [] \<or> labels_agree lab_report_env r) ?rs = 2"
    by code_simp+
  from failed_calls_are_accurate [OF e(1,2), of ?rs] show ?thesis unfolding e .
qed

end
