(* ===== verification/Comparison.thy ===== *)
theory Comparison
  imports Harness Report "HOL-Library.Multiset"
begin

text \<open>
  The paired comparison of two runs (\<open>benchmark/comparison.py\<close>): reading the runs, pairing their
  quality by item and repeat, the cost and latency deltas, the fail-closed derivation of the
  claim, and the names of the output files. Manifests and summaries are decoded documents whose
  shape is not trusted: every look-up is the code's, with its defaults. The YAML and JSON decoders
  and the validation of record lines are parameters; an exception is \<open>Inl\<close>.
\<close>

section \<open>Documents\<close>

text \<open>\<open>x == y\<close> on decoded values: numbers and booleans compare by value, objects without order.\<close>

fun json_number :: "json \<Rightarrow> rat option" where
  "json_number (JInt i) = Some (of_int i)"
| "json_number (JBool b) = Some (if b then 1 else 0)"
| "json_number (JFloat x) = Some x"
| "json_number _ = None"

fun json_eq :: "json \<Rightarrow> json \<Rightarrow> bool"
and json_list_eq :: "json list \<Rightarrow> json list \<Rightarrow> bool"
and json_items_in :: "json_object \<Rightarrow> json_object \<Rightarrow> bool" where
  "json_eq JNull y = (y = JNull)"
| "json_eq (JStr s) y = (y = JStr s)"
| "json_eq (JArr xs) y = (case y of JArr ys \<Rightarrow> json_list_eq xs ys | _ \<Rightarrow> False)"
| "json_eq (JObj xs) y =
     (case y of JObj ys \<Rightarrow> length xs = length ys \<and> json_items_in xs ys | _ \<Rightarrow> False)"
| "json_eq (JInt i) y = (json_number y = Some (of_int i))"
| "json_eq (JBool b) y = (json_number y = Some (if b then 1 else 0))"
| "json_eq (JFloat x) y = (json_number y = Some x)"
| "json_list_eq [] ys = (ys = [])"
| "json_list_eq (x # xs) ys = (case ys of [] \<Rightarrow> False | y # ys' \<Rightarrow> json_eq x y \<and> json_list_eq xs ys')"
| "json_items_in [] ys = True"
| "json_items_in ((k, v) # xs) ys =
     ((case map_of ys k of None \<Rightarrow> False | Some w \<Rightarrow> json_eq v w) \<and> json_items_in xs ys)"

text \<open>\<open>d.get(k)\<close> if \<open>d\<close> is a dictionary, else \<open>None\<close>.\<close>

definition sub_get :: "json \<Rightarrow> string \<Rightarrow> json" where
  "sub_get d k = (case d of JObj kvs \<Rightarrow> dict_get kvs k | _ \<Rightarrow> JNull)"

definition object_or_empty :: "json \<Rightarrow> json_object" where
  "object_or_empty v = (case v of JObj kvs \<Rightarrow> kvs | _ \<Rightarrow> [])"

text \<open>\<open>_decimal\<close>: the finite decimal the text of a value denotes, if it denotes one.\<close>

definition decimal_of :: "text_env \<Rightarrow> json \<Rightarrow> decimal option" where
  "decimal_of te v = (if v = JNull then None else parse_decimal (py_str te v))"

section \<open>Reading a run\<close>

record comparison_env =
  ce_data :: data_env
  ce_float :: "string \<Rightarrow> pyfloat option"
  ce_random :: "int \<Rightarrow> generator"
  ce_yaml :: "string \<Rightarrow> json option"
  ce_record :: "string \<Rightarrow> benchmark_record option"

record run_data =
  rd_manifest :: json_object
  rd_records :: "benchmark_record list"
  rd_summary :: json_object

definition run_path :: "string \<Rightarrow> string \<Rightarrow> string" where
  "run_path folder name = folder @ ''/'' @ name"

definition read_run :: "comparison_env \<Rightarrow> file_store \<Rightarrow> string \<Rightarrow> string + run_data" where
  "read_run ce files folder =
     (case (files (run_path folder ''manifest.yaml''), files (run_path folder ''records.jsonl''),
            files (run_path folder ''summary.json'')) of
        (Some mtext, Some rtext, Some stext) \<Rightarrow>
          (case (ce_yaml ce mtext, te_loads (de_text (ce_data ce)) stext) of
             (Some m, Some s) \<Rightarrow>
               bind_res (traverse (\<lambda>l. case ce_record ce l of
                                         None \<Rightarrow> Inl ''ValidationError'' | Some r \<Rightarrow> Inr r)
                           (splitlines rtext)) (\<lambda>records.
               case (m, s) of
                 (JObj manifest, JObj summary) \<Rightarrow>
                   if \<not> json_truthy (dict_get manifest ''completed_at'') then Inl ''run is not completed''
                   else if records = [] then Inl ''run has no records''
                   else if \<not> json_eq (dict_get summary ''run_id'') (dict_get manifest ''run_id'')
                   then Inl ''run has inconsistent run IDs''
                   else Inr \<lparr>rd_manifest = manifest, rd_records = records, rd_summary = summary\<rparr>
               | _ \<Rightarrow> Inl ''run has invalid manifest or summary data'')
           | _ \<Rightarrow> Inl ''cannot load completed run'')
      | _ \<Rightarrow> Inl ''run directory is missing files'')"

section \<open>Paired quality\<close>

type_synonym pair_key = "string \<times> int"

definition pair_key_of :: "benchmark_record \<Rightarrow> pair_key" where
  "pair_key_of r = (br_dataset_item_id r, br_repeat_index r)"

fun indexed :: "benchmark_record list \<Rightarrow> (pair_key \<times> bool) list \<Rightarrow> string + (pair_key \<times> bool) list" where
  "indexed [] pairs = Inr pairs"
| "indexed (r # rs) pairs =
     (if pair_key_of r \<in> set (dict_keys pairs) then Inl ''duplicate paired record''
      else (case br_task_correct r of
              None \<Rightarrow> Inl ''paired quality comparison requires objective task_correct values''
            | Some b \<Rightarrow> indexed rs (pairs @ [(pair_key_of r, b)])))"

text \<open>\<open>sorted(keys)\<close> on pairs of a string and an integer.\<close>

definition sorted_keys :: "pair_key list \<Rightarrow> pair_key list" where
  "sorted_keys ks = sort ks"

record quality_effect =
  qe_estimate :: pyfloat
  qe_paired :: nat
  qe_items :: nat
  qe_interval :: confidence_interval

definition values_at :: "(pair_key \<times> bool) list \<Rightarrow> pair_key list \<Rightarrow> bool list" where
  "values_at pairs ks = map (\<lambda>k. the (map_of pairs k)) ks"

definition effect_of ::
    "(int \<Rightarrow> generator) \<Rightarrow> int \<Rightarrow> int \<Rightarrow> nat \<Rightarrow> bool list \<Rightarrow> bool list \<Rightarrow> string + quality_effect" where
  "effect_of random iterations seed items baseline treatment =
     bind_res (paired_quality_effect_ci random baseline treatment iterations seed) (\<lambda>ci.
       Inr \<lparr>qe_estimate = fdiv (float_sum (map2 (\<lambda>a b. fsub (truth b) (truth a)) baseline treatment))
                            (flt_round (of_nat (length baseline))),
            qe_paired = length baseline, qe_items = items, qe_interval = ci\<rparr>)"

definition item_ids :: "benchmark_record list \<Rightarrow> string set" where
  "item_ids records = set (map br_dataset_item_id records)"

definition paired_quality ::
    "(int \<Rightarrow> generator) \<Rightarrow> benchmark_record list \<Rightarrow> benchmark_record list \<Rightarrow> int \<Rightarrow> int
      \<Rightarrow> string + quality_effect" where
  "paired_quality random records_a records_b iterations seed =
     (if item_ids records_a \<noteq> item_ids records_b then Inl ''dataset item sets differ between runs''
      else
        bind_res (indexed records_a []) (\<lambda>pairs_a.
        bind_res (indexed records_b []) (\<lambda>pairs_b.
        if set (dict_keys pairs_a) \<noteq> set (dict_keys pairs_b)
        then Inl ''paired record sets differ after matching dataset item id and repeat index''
        else (let ks = sorted_keys (dict_keys pairs_a)
              in effect_of random iterations seed (card (item_ids records_a))
                   (values_at pairs_a ks) (values_at pairs_b ks)))))"

section \<open>Costs and latencies\<close>

text \<open>The provider mode of a manifest: the text of any value, also of a missing one.\<close>

definition provider_mode_of :: "text_env \<Rightarrow> json_object \<Rightarrow> string option" where
  "provider_mode_of te manifest =
     (case dict_get manifest ''scenario'' of
        JObj s \<Rightarrow> Some (py_str te (dict_get s ''provider_mode'')) | _ \<Rightarrow> None)"

definition mode_row :: "json \<Rightarrow> string option \<Rightarrow> json" where
  "mode_row views mode =
     (case mode of
        Some m \<Rightarrow> if m = ''managed'' \<or> m = ''private'' then sub_get views m else JNull
      | None \<Rightarrow> JNull)"

definition row_cost :: "text_env \<Rightarrow> json \<Rightarrow> decimal option" where
  "row_cost te row = decimal_of te (sub_get row ''cost_per_correct_task_usd'')"

definition view_a_cost :: "text_env \<Rightarrow> json_object \<Rightarrow> string option \<Rightarrow> decimal option" where
  "view_a_cost te summary mode =
     (let cost = dict_get summary ''cost''
      in row_cost te
           (if mode = Some ''hybrid'' then sub_get cost ''hybrid_combined_view_a''
            else mode_row (sub_get (sub_get cost ''views'') ''view_a'') mode))"

definition view_b_cost :: "text_env \<Rightarrow> json_object \<Rightarrow> string option \<Rightarrow> decimal option" where
  "view_b_cost te summary mode =
     (let cost = dict_get summary ''cost''
      in row_cost te
           (if mode = Some ''hybrid''
            then sub_get (sub_get (sub_get (sub_get cost ''hybrid_combined_view_b'')
                   ''operations_sensitivity'') ''typical'') ''combined''
            else mode_row (sub_get (sub_get (sub_get (sub_get cost ''views'') ''view_b'')
                   ''operations_sensitivity'') ''typical'') mode))"

definition ci_name :: "string option \<Rightarrow> string option" where
  "ci_name mode =
     map_of [(''managed'', ''managed_view_a_cost_per_correct_task_95_ci''),
             (''private'', ''private_view_a_cost_per_correct_task_95_ci''),
             (''hybrid'', ''hybrid_view_a_cost_per_correct_task_95_ci'')] (or_str mode '''')"

definition view_a_ci :: "text_env \<Rightarrow> json_object \<Rightarrow> string option \<Rightarrow> (decimal \<times> decimal) option" where
  "view_a_ci te summary mode =
     (let row = (case ci_name mode of
                   None \<Rightarrow> JNull | Some n \<Rightarrow> sub_get (dict_get summary ''statistics'') n)
      in case (decimal_of te (sub_get row ''low''), decimal_of te (sub_get row ''high'')) of
           (Some lo, Some hi) \<Rightarrow> Some (lo, hi) | _ \<Rightarrow> None)"

record cost_row =
  co_a :: "decimal option"
  co_b :: "decimal option"
  co_delta :: "decimal option"

definition cost_row_of :: "decimal option \<Rightarrow> decimal option \<Rightarrow> cost_row" where
  "cost_row_of a b =
     \<lparr>co_a = a, co_b = b,
      co_delta = (case (a, b) of (Some x, Some y) \<Rightarrow> Some (dsub y x) | _ \<Rightarrow> None)\<rparr>"

record cost_delta =
  cd_view_a :: cost_row
  cd_view_b :: cost_row
  cd_interval :: "(decimal \<times> decimal) option"

definition delta_interval ::
    "(decimal \<times> decimal) option \<Rightarrow> (decimal \<times> decimal) option \<Rightarrow> (decimal \<times> decimal) option" where
  "delta_interval ci_a ci_b =
     (case (ci_a, ci_b) of
        (Some (alo, ahi), Some (blo, bhi)) \<Rightarrow> Some (dsub blo ahi, dsub bhi alo)
      | _ \<Rightarrow> None)"

definition cost_delta_of ::
    "text_env \<Rightarrow> json_object \<Rightarrow> json_object \<Rightarrow> string option \<Rightarrow> string option \<Rightarrow> cost_delta" where
  "cost_delta_of te summary_a summary_b mode_a mode_b =
     \<lparr>cd_view_a = cost_row_of (view_a_cost te summary_a mode_a) (view_a_cost te summary_b mode_b),
      cd_view_b = cost_row_of (view_b_cost te summary_a mode_a) (view_b_cost te summary_b mode_b),
      cd_interval = delta_interval (view_a_ci te summary_a mode_a) (view_a_ci te summary_b mode_b)\<rparr>"

record latency_delta_row =
  ld_a :: json
  ld_b :: json
  ld_delta :: "pyfloat option"

definition report_env_of :: "comparison_env \<Rightarrow> report_env" where
  "report_env_of ce = \<lparr>rp_text = de_text (ce_data ce), rp_float = ce_float ce, rp_random = ce_random ce\<rparr>"

definition latency_row_of ::
    "comparison_env \<Rightarrow> json_object \<Rightarrow> json_object \<Rightarrow> string \<Rightarrow> string \<Rightarrow> string + latency_delta_row" where
  "latency_row_of ce summary_a summary_b name p =
     (let a = sub_get (dict_get summary_a name) p; b = sub_get (dict_get summary_b name) p;
          f = json_float (report_env_of ce)
      in if a = JNull \<or> b = JNull then Inr \<lparr>ld_a = a, ld_b = b, ld_delta = None\<rparr>
         else bind_res (f b) (\<lambda>y. bind_res (f a) (\<lambda>x.
                Inr \<lparr>ld_a = a, ld_b = b, ld_delta = Some (fsub y x)\<rparr>)))"

definition latency_delta ::
    "comparison_env \<Rightarrow> json_object \<Rightarrow> json_object
      \<Rightarrow> string + ((string \<times> string) \<times> latency_delta_row) list" where
  "latency_delta ce summary_a summary_b =
     traverse (\<lambda>(out, name, p). bind_res (latency_row_of ce summary_a summary_b name p) (\<lambda>row. Inr ((out, p), row)))
       [(''e2e_ms'', ''latency_ms'', ''p50''), (''e2e_ms'', ''latency_ms'', ''p95''),
        (''ttft_ms'', ''ttft_ms'', ''p50''), (''ttft_ms'', ''ttft_ms'', ''p95'')]"

section \<open>Claimability\<close>

text \<open>\<open>v not in {None, ...}\<close>: a list or a dictionary cannot be hashed.\<close>

fun not_among :: "json \<Rightarrow> string list \<Rightarrow> string + bool" where
  "not_among JNull xs = Inr False"
| "not_among (JStr s) xs = Inr (s \<notin> set xs)"
| "not_among (JArr vs) xs = Inl ''TypeError''"
| "not_among (JObj kvs) xs = Inl ''TypeError''"
| "not_among v xs = Inr True"

definition and_then :: "string + bool \<Rightarrow> string + bool \<Rightarrow> string + bool" where
  "and_then p q = bind_res p (\<lambda>b. if b then q else Inr False)"

definition placement_is_non_local :: "json_object \<Rightarrow> string + bool" where
  "placement_is_non_local manifest =
     (case dict_get manifest ''harness'' of
        JObj h \<Rightarrow>
          and_then (not_among (dict_get h ''location'') ['''', ''local-mock''])
            (and_then (not_among (dict_get h ''node'') ['''', ''local''])
              (and_then (not_among (dict_get h ''workload_kind'') ['''', ''local-process''])
                (Inr (json_truthy (dict_get h ''network_path'')))))
      | _ \<Rightarrow> Inr False)"

record run_metadata =
  mt_run_label :: string
  mt_run_id :: json
  mt_treatment :: json
  mt_sample_size :: nat
  mt_successes :: nat
  mt_repeats :: nat
  mt_declared :: json

definition run_metadata_of :: "string \<Rightarrow> json_object \<Rightarrow> benchmark_record list \<Rightarrow> run_metadata" where
  "run_metadata_of label_name manifest records =
     (let s = object_or_empty (dict_get manifest ''scenario'')
      in \<lparr>mt_run_label = label_name, mt_run_id = dict_get manifest ''run_id'',
          mt_treatment = dict_get s ''treatment'', mt_sample_size = length records,
          mt_successes = count_where (\<lambda>r. \<not> failed r) records,
          mt_repeats = card (set (map br_repeat_index records)), mt_declared = dict_get s ''repeats''\<rparr>)"

text \<open>A condition that fails leaves its message.\<close>

definition gate :: "bool \<Rightarrow> string \<Rightarrow> string list" where
  "gate ok message = (if ok then [] else [message])"

definition present_and_equal :: "json \<Rightarrow> json \<Rightarrow> bool" where
  "present_and_equal x y \<longleftrightarrow> json_truthy x \<and> json_eq x y"

definition enough_repeats :: "run_metadata \<Rightarrow> bool" where
  "enough_repeats m \<longleftrightarrow> 3 \<le> mt_repeats m
     \<and> (case json_int (mt_declared m) of None \<Rightarrow> False | Some n \<Rightarrow> 3 \<le> n)"

definition metadata_gates :: "run_metadata \<Rightarrow> string list" where
  "metadata_gates m =
     gate (enough_repeats m)
       (''treatment '' @ mt_run_label m @ '' must have at least 3 declared and observed repeats'')
     @ gate (200 \<le> mt_successes m)
       (''treatment '' @ mt_run_label m @ '' must have at least 200 successful responses'')"

definition costs_complete :: "cost_delta \<Rightarrow> bool" where
  "costs_complete c \<longleftrightarrow>
     co_a (cd_view_a c) \<noteq> None \<and> co_b (cd_view_a c) \<noteq> None \<and> co_a (cd_view_b c) \<noteq> None
     \<and> co_b (cd_view_b c) \<noteq> None \<and> cd_interval c \<noteq> None"

definition direction_of :: "cost_delta \<Rightarrow> confidence_interval \<Rightarrow> string option" where
  "direction_of c ci =
     (case cd_interval c of
        None \<Rightarrow> None
      | Some (lo, hi) \<Rightarrow>
          if hi < 0 \<and> 0 \<le> ci_low ci then Some ''treatment_b''
          else if 0 < lo \<and> ci_high ci \<le> 0 then Some ''treatment_a''
          else None)"

record claimability_result =
  cl_supported :: bool
  cl_direction :: "string option"
  cl_failed :: "string list"

definition derive_claim ::
    "json_object \<Rightarrow> json_object \<Rightarrow> run_metadata \<Rightarrow> run_metadata \<Rightarrow> quality_effect \<Rightarrow> cost_delta
      \<Rightarrow> string + claimability_result" where
  "derive_claim manifest_a manifest_b meta_a meta_b effect costs =
     (let checksum = (\<lambda>m. sub_get (dict_get m ''workload'') ''dataset_sha256'');
          sa = dict_get manifest_a ''scenario''; sb = dict_get manifest_b ''scenario''
      in bind_res (placement_is_non_local manifest_a) (\<lambda>remote_a.
         bind_res (placement_is_non_local manifest_b) (\<lambda>remote_b.
         let direction = direction_of costs (qe_interval effect);
             failures =
               gate (dict_get manifest_a ''publishable'' = JBool True
                       \<and> dict_get manifest_b ''publishable'' = JBool True)
                 ''both manifests must be marked publishable''
               @ gate (present_and_equal (checksum manifest_a) (checksum manifest_b))
                 ''dataset checksums must be present and equal''
               @ gate (present_and_equal (sub_get sa ''slo_cell'') (sub_get sb ''slo_cell''))
                 ''SLO cells must be present and equal''
               @ gate (present_and_equal (sub_get sa ''workload'') (sub_get sb ''workload''))
                 ''workloads must be present and equal''
               @ metadata_gates meta_a @ metadata_gates meta_b
               @ gate remote_a ''treatment A manifest must carry non-local placement''
               @ gate remote_b ''treatment B manifest must carry non-local placement''
               @ gate (costs_complete costs)
                 ''View A and View B costs and View A bootstrap bounds must be present''
               @ gate (direction \<noteq> None)
                 ''quality and View A cost intervals must support the same Pareto direction''
         in Inr \<lparr>cl_supported = (failures = []), cl_direction = direction, cl_failed = failures\<rparr>)))"

section \<open>Output and the comparison\<close>

fun split_at :: "char \<Rightarrow> string \<Rightarrow> string \<Rightarrow> string list" where
  "split_at c cur [] = [cur]"
| "split_at c cur (x # xs) = (if x = c then cur # split_at c [] xs else split_at c (cur @ [x]) xs)"

text \<open>\<open>Path(s).name\<close>: the last component that is neither empty nor a single dot.\<close>

definition path_name :: "string \<Rightarrow> string" where
  "path_name s =
     (case rev (filter (\<lambda>p. p \<noteq> [] \<and> p \<noteq> ''.'') (split_at CHR ''/'' [] s)) of
        [] \<Rightarrow> [] | p # _ \<Rightarrow> p)"

definition comparison_output_paths ::
    "string \<Rightarrow> string list \<Rightarrow> string + (string \<times> string)" where
  "comparison_output_paths folder run_ids =
     (case run_ids of
        [a, b] \<Rightarrow>
          if a = [] \<or> path_name a \<noteq> a \<or> b = [] \<or> path_name b \<noteq> b
          then Inl ''comparison run IDs must be valid file name components''
          else (let name = ''comparison-'' @ a @ ''-vs-'' @ b
                in Inr (run_path folder (name @ ''.json''), run_path folder (name @ ''.md'')))
      | _ \<Rightarrow> Inl ''comparison must contain exactly two treatments'')"

record comparison =
  cm_metadata :: "run_metadata \<times> run_metadata"
  cm_quality :: quality_effect
  cm_costs :: cost_delta
  cm_latency :: "((string \<times> string) \<times> latency_delta_row) list"
  cm_claim :: claimability_result
  cm_path :: string

definition build_comparison ::
    "comparison_env \<Rightarrow> file_store \<Rightarrow> string \<Rightarrow> string \<Rightarrow> string \<Rightarrow> string + comparison" where
  "build_comparison ce files parent folder_a folder_b =
     (let te = de_text (ce_data ce)
      in bind_res (read_run ce files folder_a) (\<lambda>a. bind_res (read_run ce files folder_b) (\<lambda>b.
         let sa = JObj (object_or_empty (dict_get (rd_manifest a) ''scenario''));
             sb = JObj (object_or_empty (dict_get (rd_manifest b) ''scenario''));
             number = (\<lambda>s k d. bind_res (get_or s k (JInt d)) (py_int (ce_data ce)))
         in bind_res (number sa ''bootstrap_iterations'' 2000) (\<lambda>na.
            bind_res (number sb ''bootstrap_iterations'' 2000) (\<lambda>nb.
            bind_res (number sa ''seed'' 20260815) (\<lambda>seed.
            bind_res (paired_quality (ce_random ce) (rd_records a) (rd_records b) (min na nb) seed) (\<lambda>q.
            let costs = cost_delta_of te (rd_summary a) (rd_summary b)
                          (provider_mode_of te (rd_manifest a)) (provider_mode_of te (rd_manifest b));
                ma = run_metadata_of ''A'' (rd_manifest a) (rd_records a);
                mb = run_metadata_of ''B'' (rd_manifest b) (rd_records b)
            in bind_res (latency_delta ce (rd_summary a) (rd_summary b)) (\<lambda>lat.
               bind_res (derive_claim (rd_manifest a) (rd_manifest b) ma mb q costs) (\<lambda>claim.
               bind_res (comparison_output_paths parent
                           (map (\<lambda>m. py_str te (mt_run_id m)) [ma, mb])) (\<lambda>(json_path, md_path).
                 Inr \<lparr>cm_metadata = (ma, mb), cm_quality = q, cm_costs = costs, cm_latency = lat,
                      cm_claim = claim, cm_path = json_path\<rparr>))))))))))"

section \<open>Lemmas\<close>

lemma gate_Nil [simp]: "gate ok m = [] \<longleftrightarrow> ok"
  by (simp add: gate_def)

lemma dsub_neg: "dsub x y < 0 \<longleftrightarrow> x < y" and dsub_pos: "0 < dsub x y \<longleftrightarrow> y < x"
proof -
  have pos: "0 < dec_round z \<longleftrightarrow> 0 < z" for z
    using dec.rnd_pos [of z] dec.rnd_mono [of z 0] dec.rnd_0 by (cases "0 < z") auto
  then show "0 < dsub x y \<longleftrightarrow> y < x" by (simp add: dsub_def)
  have "dsub x y < 0 \<longleftrightarrow> 0 < dec_round (- (x - y))" unfolding dsub_def dec.rnd_minus by simp
  then show "dsub x y < 0 \<longleftrightarrow> x < y" unfolding pos by simp
qed

lemma derive_claim_Inr:
  assumes "derive_claim ma mb meta_a meta_b q c = Inr r"
  shows "cl_direction r = direction_of c (qe_interval q)"
    and "cl_supported r \<longleftrightarrow>
      dict_get ma ''publishable'' = JBool True \<and> dict_get mb ''publishable'' = JBool True
      \<and> present_and_equal (sub_get (dict_get ma ''workload'') ''dataset_sha256'')
          (sub_get (dict_get mb ''workload'') ''dataset_sha256'')
      \<and> present_and_equal (sub_get (dict_get ma ''scenario'') ''slo_cell'')
          (sub_get (dict_get mb ''scenario'') ''slo_cell'')
      \<and> present_and_equal (sub_get (dict_get ma ''scenario'') ''workload'')
          (sub_get (dict_get mb ''scenario'') ''workload'')
      \<and> enough_repeats meta_a \<and> 200 \<le> mt_successes meta_a
      \<and> enough_repeats meta_b \<and> 200 \<le> mt_successes meta_b
      \<and> placement_is_non_local ma = Inr True \<and> placement_is_non_local mb = Inr True
      \<and> costs_complete c \<and> direction_of c (qe_interval q) \<noteq> None"
    and "cl_supported r \<longleftrightarrow> cl_failed r = []"
  using assms by (auto simp: derive_claim_def bind_res_Inr Let_def metadata_gates_def)

lemma direction_of_Some:
  assumes "direction_of c ci = Some d" "cd_interval c = delta_interval ci_a ci_b"
  obtains alo ahi blo bhi where "ci_a = Some (alo, ahi)" "ci_b = Some (blo, bhi)"
    "d = ''treatment_b'' \<and> bhi < alo \<and> 0 \<le> ci_low ci
     \<or> d = ''treatment_a'' \<and> ahi < blo \<and> ci_high ci \<le> 0"
  using assms
  by (auto simp: direction_of_def delta_interval_def dsub_neg dsub_pos split: option.splits if_splits)

lemma indexed_Inr:
  "indexed rs pairs = Inr out \<longleftrightarrow>
     distinct (map pair_key_of rs) \<and> set (map pair_key_of rs) \<inter> set (dict_keys pairs) = {}
     \<and> list_all (\<lambda>r. br_task_correct r \<noteq> None) rs
     \<and> out = pairs @ map (\<lambda>r. (pair_key_of r, the (br_task_correct r))) rs"
proof (induction rs arbitrary: pairs)
  case (Cons r rs)
  show ?case
    by (cases "br_task_correct r") (auto simp: Cons dict_keys_def)
qed (auto simp: eq_commute)

definition pairs_of :: "benchmark_record list \<Rightarrow> (pair_key \<times> bool) list" where
  "pairs_of rs = map (\<lambda>r. (pair_key_of r, the (br_task_correct r))) rs"

lemma indexed_pairs: "indexed rs [] = Inr out \<longleftrightarrow>
    distinct (map pair_key_of rs) \<and> list_all (\<lambda>r. br_task_correct r \<noteq> None) rs \<and> out = pairs_of rs"
  by (auto simp: indexed_Inr pairs_of_def dict_keys_def)

text \<open>Reordering the records changes neither the pairs nor their sorted keys.\<close>

lemma reordered_pairs:
  assumes "mset rs = mset rs'" "distinct (map pair_key_of rs)"
  shows "map_of (pairs_of rs) = map_of (pairs_of rs')"
    and "sorted_keys (dict_keys (pairs_of rs)) = sorted_keys (dict_keys (pairs_of rs'))"
proof -
  have keys: "dict_keys (pairs_of xs) = map pair_key_of xs" for xs
    by (simp add: dict_keys_def pairs_of_def)
  have m: "mset (map pair_key_of rs) = mset (map pair_key_of rs')" using assms(1) by simp
  then have "distinct (map pair_key_of rs')" using assms(2) by (metis mset_eq_imp_distinct_iff)
  moreover have "set (pairs_of rs) = set (pairs_of rs')"
    using mset_eq_setD [OF assms(1)] by (simp add: pairs_of_def)
  ultimately show "map_of (pairs_of rs) = map_of (pairs_of rs')"
    using assms(2) keys by (intro map_of_inject_set [THEN iffD2]) (simp_all add: dict_keys_def)
  show "sorted_keys (dict_keys (pairs_of rs)) = sorted_keys (dict_keys (pairs_of rs'))"
    unfolding sorted_keys_def keys using m by (intro properties_for_sort) simp_all
qed

lemma reordered_indexed:
  assumes "mset rs = mset rs'" "indexed rs [] = Inr pairs"
  shows "\<exists>pairs'. indexed rs' [] = Inr pairs' \<and> map_of pairs' = map_of pairs
    \<and> set (dict_keys pairs') = set (dict_keys pairs)
    \<and> sorted_keys (dict_keys pairs') = sorted_keys (dict_keys pairs)"
proof -
  have p: "distinct (map pair_key_of rs)" "list_all (\<lambda>r. br_task_correct r \<noteq> None) rs" "pairs = pairs_of rs"
    using assms(2) by (simp_all add: indexed_pairs)
  have "mset (map pair_key_of rs) = mset (map pair_key_of rs')" using assms(1) by simp
  then have "distinct (map pair_key_of rs')" using p(1) by (metis mset_eq_imp_distinct_iff)
  moreover have "list_all (\<lambda>r. br_task_correct r \<noteq> None) rs'"
    using p(2) mset_eq_setD [OF assms(1)] by (simp add: list_all_iff)
  ultimately have "indexed rs' [] = Inr (pairs_of rs')" by (simp add: indexed_pairs)
  moreover have "set (dict_keys (pairs_of rs')) = set (dict_keys (pairs_of rs))"
    using mset_eq_setD [OF assms(1)] by (simp add: dict_keys_def pairs_of_def image_image)
  ultimately show ?thesis using reordered_pairs [OF assms(1) p(1)] p(3) by auto
qed

lemma reordered_quality:
  assumes "mset ra = mset ra'" "mset rb = mset rb'" "paired_quality random ra rb n seed = Inr e"
  shows "paired_quality random ra' rb' n seed = Inr e"
proof -
  obtain pa pb where pa: "indexed ra [] = Inr pa" and pb: "indexed rb [] = Inr pb"
    and ids: "item_ids ra = item_ids rb" and keys: "set (dict_keys pa) = set (dict_keys pb)"
    and e: "effect_of random n seed (card (item_ids ra))
        (values_at pa (sorted_keys (dict_keys pa))) (values_at pb (sorted_keys (dict_keys pa))) = Inr e"
    using assms(3) by (auto simp: paired_quality_def bind_res_Inr Let_def split: if_splits)
  have "item_ids ra' = item_ids ra" "item_ids rb' = item_ids rb"
    using mset_eq_setD [OF assms(1)] mset_eq_setD [OF assms(2)] by (simp_all add: item_ids_def)
  then show ?thesis
    using reordered_indexed [OF assms(1) pa] reordered_indexed [OF assms(2) pb] ids keys e
    by (auto simp: paired_quality_def Let_def values_at_def)
qed

section \<open>Properties\<close>

text \<open>
  C31. A supported claim is sound: it is made only if both runs are publishable, share data set,
  cell and workload, have at least three declared and observed repeats and two hundred successful
  responses each, were placed off the local machine and have a cost per correct task in both cost
  views; and then the cost intervals of the two
  runs are disjoint, the named treatment is the cheaper one over the whole of both intervals, and
  the quality interval does not show it worse.
\<close>

theorem supported_claim_is_sound:
  assumes "derive_claim ma mb meta_a meta_b q (cost_delta_of te sum_a sum_b mode_a mode_b) = Inr r"
    and "cl_supported r"
  shows "dict_get ma ''publishable'' = JBool True \<and> dict_get mb ''publishable'' = JBool True
    \<and> present_and_equal (sub_get (dict_get ma ''workload'') ''dataset_sha256'')
        (sub_get (dict_get mb ''workload'') ''dataset_sha256'')
    \<and> present_and_equal (sub_get (dict_get ma ''scenario'') ''slo_cell'') (sub_get (dict_get mb ''scenario'') ''slo_cell'')
    \<and> present_and_equal (sub_get (dict_get ma ''scenario'') ''workload'') (sub_get (dict_get mb ''scenario'') ''workload'')
    \<and> list_all (\<lambda>m. enough_repeats m \<and> 200 \<le> mt_successes m) [meta_a, meta_b]
    \<and> list_all (\<lambda>m. placement_is_non_local m = Inr True) [ma, mb]
    \<and> list_all (\<lambda>(s, mode). view_a_cost te s mode \<noteq> None \<and> view_b_cost te s mode \<noteq> None)
        [(sum_a, mode_a), (sum_b, mode_b)]
    \<and> (\<exists>alo ahi blo bhi. view_a_ci te sum_a mode_a = Some (alo, ahi) \<and> view_a_ci te sum_b mode_b = Some (blo, bhi)
        \<and> (cl_direction r = Some ''treatment_b'' \<and> bhi < alo \<and> 0 \<le> ci_low (qe_interval q)
           \<or> cl_direction r = Some ''treatment_a'' \<and> ahi < blo \<and> ci_high (qe_interval q) \<le> 0))"
proof -
  note parts = derive_claim_Inr [OF assms(1)]
  obtain d where d: "direction_of (cost_delta_of te sum_a sum_b mode_a mode_b) (qe_interval q) = Some d"
    using parts(2) assms(2) by auto
  have "cd_interval (cost_delta_of te sum_a sum_b mode_a mode_b)
      = delta_interval (view_a_ci te sum_a mode_a) (view_a_ci te sum_b mode_b)"
    by (simp add: cost_delta_of_def)
  from direction_of_Some [OF d this] parts(1) d
  have "\<exists>alo ahi blo bhi. view_a_ci te sum_a mode_a = Some (alo, ahi) \<and> view_a_ci te sum_b mode_b = Some (blo, bhi)
        \<and> (cl_direction r = Some ''treatment_b'' \<and> bhi < alo \<and> 0 \<le> ci_low (qe_interval q)
           \<or> cl_direction r = Some ''treatment_a'' \<and> ahi < blo \<and> ci_high (qe_interval q) \<le> 0)"
    by (metis (no_types, lifting))
  moreover have "list_all (\<lambda>(s, mode). view_a_cost te s mode \<noteq> None \<and> view_b_cost te s mode \<noteq> None)
      [(sum_a, mode_a), (sum_b, mode_b)]"
    using parts(2) assms(2) by (auto simp: costs_complete_def cost_delta_of_def cost_row_of_def)
  ultimately show ?thesis using parts(2) assms(2) by simp
qed

text \<open>
  Pairing is by key, not by position: reordering the records of either run leaves the paired
  quality effect, its estimate and its bootstrap interval as they are.
\<close>

theorem pairing_ignores_order:
  assumes "mset ra = mset ra'" "mset rb = mset rb'"
  shows "paired_quality random ra rb n seed = Inr e \<longleftrightarrow> paired_quality random ra' rb' n seed = Inr e"
  using reordered_quality [OF assms] reordered_quality [OF assms [symmetric]] by blast

text \<open>
  A run compared with itself supports no claim: if its cost interval is ordered then no
  direction is derived and the status is inconclusive, whatever the two documents say.
\<close>

theorem self_comparison_inconclusive:
  assumes "build_comparison ce files parent folder folder = Inr c"
    and "read_run ce files folder = Inr run"
    and "\<And>lo hi. view_a_ci (de_text (ce_data ce)) (rd_summary run)
           (provider_mode_of (de_text (ce_data ce)) (rd_manifest run)) = Some (lo, hi) \<Longrightarrow> lo \<le> hi"
  shows "cl_direction (cm_claim c) = None \<and> \<not> cl_supported (cm_claim c)"
proof -
  let ?te = "de_text (ce_data ce)" and ?m = "rd_manifest run" and ?s = "rd_summary run"
  let ?mode = "provider_mode_of ?te ?m"
  have none: "direction_of (cost_delta_of ?te ?s ?s ?mode ?mode) ci = None" for ci
  proof (rule ccontr)
    assume "direction_of (cost_delta_of ?te ?s ?s ?mode ?mode) ci \<noteq> None"
    then obtain d where d: "direction_of (cost_delta_of ?te ?s ?s ?mode ?mode) ci = Some d" by blast
    have i: "cd_interval (cost_delta_of ?te ?s ?s ?mode ?mode)
        = delta_interval (view_a_ci ?te ?s ?mode) (view_a_ci ?te ?s ?mode)"
      by (simp add: cost_delta_of_def)
    from direction_of_Some [OF d i] assms(3) show False by (metis leD option.inject prod.inject)
  qed
  obtain meta_a meta_b q where "derive_claim ?m ?m meta_a meta_b q (cost_delta_of ?te ?s ?s ?mode ?mode) = Inr (cm_claim c)"
    using assms(1,2) by (auto simp: build_comparison_def bind_res_Inr Let_def)
  from derive_claim_Inr [OF this] none show ?thesis by simp
qed

lemma split_at_clean: "p \<in> set (split_at c cur x) \<Longrightarrow> c \<notin> set cur \<Longrightarrow> c \<notin> set p"
proof (induction x arbitrary: cur)
  case (Cons y x)
  show ?case
  proof (cases "y = c")
    case True
    with Cons.prems consider "p = cur" | "p \<in> set (split_at c [] x)" by auto
    then show ?thesis using Cons.IH [of "[]"] Cons.prems(2) by cases simp_all
  next
    case False
    then show ?thesis using Cons.IH [of "cur @ [y]"] Cons.prems by simp
  qed
qed simp

lemma path_name_slash: "CHR ''/'' \<notin> set (path_name s)"
proof (cases "rev (filter (\<lambda>p. p \<noteq> [] \<and> p \<noteq> ''.'') (split_at CHR ''/'' [] s))")
  case (Cons p ps)
  then have "p \<in> set (rev (filter (\<lambda>p. p \<noteq> [] \<and> p \<noteq> ''.'') (split_at CHR ''/'' [] s)))" by simp
  then have "p \<in> set (split_at CHR ''/'' [] s)" by simp
  then show ?thesis using split_at_clean [of p "CHR ''/''" "[]" s] Cons by (simp add: path_name_def)
qed (simp add: path_name_def)

text \<open>
  The comparison is written into the given directory: an accepted pair of run identifiers never
  leads out of it or into a subdirectory.
\<close>

lemma comparison_stays_in_folder:
  assumes "comparison_output_paths folder ids = Inr (j, m)"
  shows "\<exists>name. j = run_path folder (name @ ''.json'') \<and> m = run_path folder (name @ ''.md'')
    \<and> CHR ''/'' \<notin> set name"
proof -
  obtain a b where ids: "ids = [a, b]" "path_name a = a" "path_name b = b"
    and jm: "j = run_path folder ((''comparison-'' @ a @ ''-vs-'' @ b) @ ''.json'')"
      "m = run_path folder ((''comparison-'' @ a @ ''-vs-'' @ b) @ ''.md'')"
    using assms by (auto simp: comparison_output_paths_def Let_def split: list.splits if_splits)
  have "CHR ''/'' \<notin> set (''comparison-'' @ a @ ''-vs-'' @ b)"
    using path_name_slash [of a] path_name_slash [of b] ids(2,3) by simp
  with jm show ?thesis by blast
qed

section \<open>Concrete comparisons\<close>

definition lab_manifest :: json_object where
  "lab_manifest =
     [(''publishable'', JBool True), (''run_id'', JStr ''run''), (''completed_at'', JStr ''now''),
      (''workload'', JObj [(''dataset_sha256'', JStr ''d'')]),
      (''scenario'', JObj [(''slo_cell'', JStr ''WL-01/economy''), (''workload'', JStr ''classification''),
         (''repeats'', JInt 3), (''provider_mode'', JStr ''private''), (''bootstrap_iterations'', JInt 1),
         (''seed'', JInt 1)]),
      (''harness'', JObj [(''location'', JStr ''cluster''), (''node'', JStr ''n1''),
         (''workload_kind'', JStr ''job''), (''network_path'', JStr ''in-cluster'')])]"

definition lab_summary :: "string \<Rightarrow> string \<Rightarrow> json_object" where
  "lab_summary lo hi =
     [(''run_id'', JStr ''run''),
      (''statistics'', JObj [(''private_view_a_cost_per_correct_task_95_ci'',
         JObj [(''low'', JStr lo), (''high'', JStr hi)])]),
      (''cost'', JObj [(''views'', JObj
         [(''view_a'', JObj [(''private'', JObj [(''cost_per_correct_task_usd'', JStr hi)])]),
          (''view_b'', JObj [(''operations_sensitivity'', JObj [(''typical'',
             JObj [(''private'', JObj [(''cost_per_correct_task_usd'', JStr hi)])])])])])])]"

definition lab_metadata :: "string \<Rightarrow> run_metadata" where
  "lab_metadata name =
     \<lparr>mt_run_label = name, mt_run_id = JStr ''run'', mt_treatment = JNull, mt_sample_size = 300,
      mt_successes = 250, mt_repeats = 3, mt_declared = JInt 3\<rparr>"

definition lab_effect :: quality_effect where
  "lab_effect =
     \<lparr>qe_estimate = 1 / 8, qe_paired = 300, qe_items = 100,
      qe_interval = \<lparr>ci_low = 0, ci_high = 1 / 4, ci_confidence = 1, ci_iterations = 1, ci_seed = 1,
                     ci_method = '''', ci_unit = ''''\<rparr>\<rparr>"

theorem supported_claim_is_sound_witness:
  "\<exists>r. derive_claim lab_manifest lab_manifest (lab_metadata ''A'') (lab_metadata ''B'') lab_effect
      (cost_delta_of lab_text (lab_summary ''3'' ''4'') (lab_summary ''1'' ''2'') (Some ''private'') (Some ''private''))
      = Inr r
    \<and> cl_supported r \<and> cl_direction r = Some ''treatment_b''"
proof -
  have "case derive_claim lab_manifest lab_manifest (lab_metadata ''A'') (lab_metadata ''B'') lab_effect
      (cost_delta_of lab_text (lab_summary ''3'' ''4'') (lab_summary ''1'' ''2'') (Some ''private'') (Some ''private''))
      of Inl e \<Rightarrow> False | Inr r \<Rightarrow> cl_supported r"
    by code_simp
  then obtain r where r: "derive_claim lab_manifest lab_manifest (lab_metadata ''A'') (lab_metadata ''B'') lab_effect
      (cost_delta_of lab_text (lab_summary ''3'' ''4'') (lab_summary ''1'' ''2'') (Some ''private'') (Some ''private''))
      = Inr r" "cl_supported r"
    by (auto split: sum.splits)
  have ci: "view_a_ci lab_text (lab_summary ''3'' ''4'') (Some ''private'') = Some (3, 4)"
    "view_a_ci lab_text (lab_summary ''1'' ''2'') (Some ''private'') = Some (1, 2)"
    by code_simp+
  from supported_claim_is_sound [OF r] r ci show ?thesis by auto
qed

theorem pairing_ignores_order_witness:
  "paired_quality (\<lambda>s k n. 0) [lab_evidence ''p'' 1 None, lab_evidence ''p'' 2 (Some TimeoutClass)]
      [lab_evidence ''p'' 1 None, lab_evidence ''p'' 2 None] 1 1
   = paired_quality (\<lambda>s k n. 0) [lab_evidence ''p'' 2 (Some TimeoutClass), lab_evidence ''p'' 1 None]
      [lab_evidence ''p'' 1 None, lab_evidence ''p'' 2 None] 1 1"
proof -
  let ?a = "[lab_evidence ''p'' 1 None, lab_evidence ''p'' 2 (Some TimeoutClass)]"
  let ?a' = "[lab_evidence ''p'' 2 (Some TimeoutClass), lab_evidence ''p'' 1 None]"
  let ?b = "[lab_evidence ''p'' 1 None, lab_evidence ''p'' 2 None]"
  have m: "mset ?a = mset ?a'" by simp
  have "case paired_quality (\<lambda>s k n. 0) ?a ?b 1 1 of Inl e \<Rightarrow> False | Inr e \<Rightarrow> True" by code_simp
  then obtain e where "paired_quality (\<lambda>s k n. 0) ?a ?b 1 1 = Inr e" by (auto split: sum.splits)
  with pairing_ignores_order [OF m refl, of "\<lambda>s k n. 0" ?b 1 1 e] show ?thesis by simp
qed

definition lab_comparison_env :: comparison_env where
  "lab_comparison_env =
     \<lparr>ce_data = lab_data_env\<lparr>de_text := lab_text\<lparr>te_loads := map_of [(''S'', JObj (lab_summary ''1'' ''2''))]\<rparr>\<rparr>,
      ce_float = (\<lambda>s. None), ce_random = (\<lambda>s k n. 0),
      ce_yaml = map_of [(''M'', JObj lab_manifest)],
      ce_record = map_of [(''R'', lab_evidence ''private-vllm'' 1 None)]\<rparr>"

definition lab_run_files :: file_store where
  "lab_run_files = map_of
     [(''d/manifest.yaml'', ''M''), (''d/records.jsonl'', ''R''), (''d/summary.json'', ''S'')]"

theorem self_comparison_inconclusive_witness:
  "\<exists>c. build_comparison lab_comparison_env lab_run_files ''.'' ''d'' ''d'' = Inr c
     \<and> \<not> cl_supported (cm_claim c)"
proof -
  let ?run = "\<lparr>rd_manifest = lab_manifest, rd_records = [lab_evidence ''private-vllm'' 1 None],
                rd_summary = lab_summary ''1'' ''2''\<rparr>"
  have run: "read_run lab_comparison_env lab_run_files ''d'' = Inr ?run"
    by code_simp
  have "case paired_quality (ce_random lab_comparison_env) (rd_records ?run) (rd_records ?run) 1 1
      of Inl e \<Rightarrow> False | Inr q \<Rightarrow> True"
    by code_simp
  then obtain q where q: "paired_quality (ce_random lab_comparison_env) (rd_records ?run) (rd_records ?run) 1 1 = Inr q"
    by (auto split: sum.splits)
  have "case latency_delta lab_comparison_env (rd_summary ?run) (rd_summary ?run)
      of Inl e \<Rightarrow> False | Inr q \<Rightarrow> True"
    by code_simp
  then obtain lat where lat: "latency_delta lab_comparison_env (rd_summary ?run) (rd_summary ?run) = Inr lat"
    by (auto split: sum.splits)
  have claim: "\<exists>r. derive_claim lab_manifest lab_manifest ma mb q d = Inr r" for ma mb d
  proof -
    have "case derive_claim lab_manifest lab_manifest ma mb q d of Inl e \<Rightarrow> False | Inr q \<Rightarrow> True"
      by code_simp
    then show ?thesis by (auto split: sum.splits)
  qed
  have numbers: "bind_res (get_or (JObj (object_or_empty (dict_get lab_manifest ''scenario'')))
        ''bootstrap_iterations'' (JInt 2000)) (py_int (ce_data lab_comparison_env)) = Inr 1"
    "bind_res (get_or (JObj (object_or_empty (dict_get lab_manifest ''scenario'')))
        ''seed'' (JInt 20260815)) (py_int (ce_data lab_comparison_env)) = Inr 1"
    by code_simp+
  let ?m = "\<lambda>l. run_metadata_of l (rd_manifest ?run) (rd_records ?run)"
  have "case comparison_output_paths ''.''
      (map (\<lambda>m. py_str (de_text (ce_data lab_comparison_env)) (mt_run_id m)) [?m ''A'', ?m ''B''])
      of Inl e \<Rightarrow> False | Inr q \<Rightarrow> True"
    by code_simp
  then obtain j p where paths: "comparison_output_paths ''.''
      (map (\<lambda>m. py_str (de_text (ce_data lab_comparison_env)) (mt_run_id m)) [?m ''A'', ?m ''B'']) = Inr (j, p)"
    by (auto split: sum.splits)
  have "\<exists>c. build_comparison lab_comparison_env lab_run_files ''.'' ''d'' ''d'' = Inr c"
  proof -
    obtain r where r: "derive_claim lab_manifest lab_manifest (?m ''A'') (?m ''B'') q
        (cost_delta_of (de_text (ce_data lab_comparison_env)) (rd_summary ?run) (rd_summary ?run)
           (provider_mode_of (de_text (ce_data lab_comparison_env)) lab_manifest)
           (provider_mode_of (de_text (ce_data lab_comparison_env)) lab_manifest)) = Inr r"
      using claim by blast
    from r q lat numbers paths show ?thesis
      by (simp add: build_comparison_def run Let_def)
  qed
  then obtain c where c: "build_comparison lab_comparison_env lab_run_files ''.'' ''d'' ''d'' = Inr c"
    by blast
  have ci: "view_a_ci (de_text (ce_data lab_comparison_env)) (lab_summary ''1'' ''2'')
      (provider_mode_of (de_text (ce_data lab_comparison_env)) lab_manifest) = Some (1, 2)"
    by code_simp
  from self_comparison_inconclusive [OF c run] ci c show ?thesis by auto
qed

end
