(* ===== verification/Manifest.thy ===== *)
theory Manifest
  imports Comparison
begin

text \<open>
  The manifest of a run (\<open>benchmark/manifest.py\<close>), written before its first request: the state of
  the repository, the publishability gates, the captured deployment, the placement taken from the
  environment, and the completion after the run. Files are a map from paths to their text, and a
  missing file is an \<open>OSError\<close>; the environment variables are a map too. \<open>yaml.safe_load\<close>,
  \<open>yaml.safe_dump\<close>, \<open>datetime.fromisoformat\<close>, SHA-256 and the decimal text of an SLO target are
  parameters. A \<open>PublishabilityError\<close> is \<open>NotPublishable\<close>, every other exception \<open>Crash\<close>.
\<close>

record manifest_env =
  me_data :: data_env
  me_environ :: "string \<Rightarrow> string option"
  me_files :: file_store
  me_yaml :: "string \<Rightarrow> json option"
  me_dump :: "json_object \<Rightarrow> string"
  me_fromiso :: "string \<Rightarrow> rat option"
  me_target :: "slo_target \<Rightarrow> json"

datatype manifest_error = NotPublishable string | Crash string

fun escape :: "string + 'a \<Rightarrow> manifest_error + 'a" where
  "escape (Inl e) = Inl (Crash e)"
| "escape (Inr x) = Inr x"

section \<open>Text\<close>

definition hex_lower :: "char \<Rightarrow> bool" where
  "hex_lower c \<longleftrightarrow> c \<in> set ''0123456789abcdef''"

definition hex_of :: "nat \<Rightarrow> string \<Rightarrow> bool" where
  "hex_of n s \<longleftrightarrow> length s = n \<and> list_all hex_lower s"

text \<open>\<open>[0-9a-f]{40}|[0-9a-f]{64}\<close> and \<open>sha256:[0-9a-f]{64}\<close>, matched in full.\<close>

definition commit_id :: "string \<Rightarrow> bool" where
  "commit_id s \<longleftrightarrow> hex_of 40 s \<or> hex_of 64 s"

definition image_digest_ok :: "string \<Rightarrow> bool" where
  "image_digest_ok s \<longleftrightarrow> starts_with s ''sha256:'' \<and> hex_of 64 (drop 7 s)"

text \<open>\<open>root / path\<close>: an absolute path replaces the root.\<close>

definition join_path :: "string \<Rightarrow> string \<Rightarrow> string" where
  "join_path folder path = (if starts_with path ''/'' then path else run_path folder path)"

definition relative_to :: "string \<Rightarrow> string \<Rightarrow> string option" where
  "relative_to folder path =
     (if starts_with path (folder @ ''/'') then Some (drop (length folder + 1) path) else None)"

text \<open>The calendar date of a day number counted from 1970-01-01.\<close>

definition civil_date :: "int \<Rightarrow> int \<times> int \<times> int" where
  "civil_date days =
     (let z = days + 719468;
          era = z div 146097;
          doe = z mod 146097;
          yoe = (doe - doe div 1460 + doe div 36524 - doe div 146096) div 365;
          doy = doe - (365 * yoe + yoe div 4 - yoe div 100);
          mp = (5 * doy + 2) div 153;
          month = (if mp < 10 then mp + 3 else mp - 9)
      in (yoe + era * 400 + (if month \<le> 2 then 1 else 0), month, doy - (153 * mp + 2) div 5 + 1))"

definition padded :: "nat \<Rightarrow> int \<Rightarrow> string" where
  "padded width n = (let s = str_int n in replicate (width - length s) (CHR ''0'') @ s)"

definition date_text :: "string \<Rightarrow> int \<Rightarrow> string" where
  "date_text sep seconds =
     (let (y, m, d) = civil_date (seconds div 86400)
      in padded 4 y @ sep @ padded 2 m @ sep @ padded 2 d)"

definition clock_text :: "string \<Rightarrow> int \<Rightarrow> string" where
  "clock_text sep seconds =
     (let s = seconds mod 86400
      in padded 2 (s div 3600) @ sep @ padded 2 (s mod 3600 div 60) @ sep @ padded 2 (s mod 60))"

definition utc_text :: "timestamp \<Rightarrow> string" where
  "utc_text t =
     (let seconds = \<lfloor>ts_instant t\<rfloor>; millis = \<lfloor>(ts_instant t - of_int seconds) * 1000\<rfloor>
      in date_text ''-'' seconds @ ''T'' @ clock_text '':'' seconds @ ''.'' @ padded 3 millis @ ''Z'')"

definition make_run_id :: "timestamp \<Rightarrow> string \<Rightarrow> string \<Rightarrow> string" where
  "make_run_id started sha treatment =
     (let seconds = \<lfloor>ts_instant started\<rfloor>
      in date_text '''' seconds @ ''T'' @ clock_text '''' seconds @ ''Z-''
         @ (if sha \<noteq> ''unknown'' then take 8 sha else ''unknown'') @ ''-'' @ treatment)"

section \<open>The repository\<close>

record repository_state =
  rs_sha :: string
  rs_dirty :: bool
  rs_detection :: string

definition read_head :: "file_store \<Rightarrow> string \<Rightarrow> string" where
  "read_head files git_dir =
     (case files (run_path git_dir ''HEAD'') of
        None \<Rightarrow> ''unknown''
      | Some content \<Rightarrow>
          (let head = strip content;
               candidate = (if starts_with head ''ref: ''
                            then map_option strip (files (join_path git_dir (drop 5 head)))
                            else Some head)
           in case candidate of
                None \<Rightarrow> ''unknown''
              | Some c \<Rightarrow> if commit_id c then c else ''unknown''))"

definition detect :: "manifest_env \<Rightarrow> string \<Rightarrow> manifest_error + repository_state" where
  "detect me repo_root =
     (let head = read_head (me_files me) (run_path repo_root ''.git'');
          env_sha = map ascii_lower_char (strip (or_str (me_environ me ''BENCHMARK_GIT_SHA'') ''''));
          sha = (if head = ''unknown'' \<and> commit_id env_sha then env_sha else head)
      in case me_environ me ''BENCHMARK_TREE_DIRTY'' of
           None \<Rightarrow> Inr \<lparr>rs_sha = sha, rs_dirty = True, rs_detection = ''unknown-fail-closed''\<rparr>
         | Some v \<Rightarrow>
             (let flag = te_casefold (de_text (me_data me)) (strip v)
              in if flag \<notin> {''true'', ''false'', ''1'', ''0''}
                 then Inl (NotPublishable ''BENCHMARK_TREE_DIRTY must be true or false'')
                 else Inr \<lparr>rs_sha = sha, rs_dirty = (flag \<in> {''true'', ''1''}),
                           rs_detection = ''operator-environment''\<rparr>))"

definition sha256_file :: "manifest_env \<Rightarrow> string \<Rightarrow> manifest_error + string" where
  "sha256_file me path =
     (case me_files me path of
        None \<Rightarrow> Inl (Crash ''OSError'')
      | Some content \<Rightarrow> Inr (de_sha256 (me_data me) content))"

section \<open>The captured deployment\<close>

text \<open>\<open>str(d.get(k, ""))\<close>\<close>

definition text_of :: "text_env \<Rightarrow> json_object \<Rightarrow> string \<Rightarrow> string" where
  "text_of te d k = (case map_of d k of None \<Rightarrow> '''' | Some v \<Rightarrow> py_str te v)"

definition model_pinned :: "text_env \<Rightarrow> json_object \<Rightarrow> bool" where
  "model_pinned te d =
     (case dict_get d ''model'' of JObj m \<Rightarrow> hex_of 40 (text_of te m ''revision'') | _ \<Rightarrow> False)"

definition runtime_pinned :: "text_env \<Rightarrow> json_object \<Rightarrow> bool" where
  "runtime_pinned te d =
     (case dict_get d ''runtime'' of JObj r \<Rightarrow> image_digest_ok (text_of te r ''image_digest'') | _ \<Rightarrow> False)"

definition gateway_pinned :: "text_env \<Rightarrow> json_object \<Rightarrow> bool" where
  "gateway_pinned te d =
     (case dict_get d ''gateway'' of
        JObj g \<Rightarrow> text_of te g ''image_repository'' \<noteq> '''' \<and> image_digest_ok (text_of te g ''image_digest'')
      | _ \<Rightarrow> False)"

definition load_deploy_manifest ::
    "manifest_env \<Rightarrow> string \<Rightarrow> manifest_error + (string \<times> json_object) option" where
  "load_deploy_manifest me repo_root =
     (let te = de_text (me_data me)
      in case me_environ me ''DEPLOY_MANIFEST'' of
           None \<Rightarrow> Inr None
         | Some [] \<Rightarrow> Inr None
         | Some configured \<Rightarrow>
             (let path = join_path repo_root configured
              in case Option.bind (me_files me path) (me_yaml me) of
                   None \<Rightarrow> Inl (NotPublishable ''cannot load deploy manifest'')
                 | Some (JObj d) \<Rightarrow>
                     if \<not> model_pinned te d
                     then Inl (NotPublishable ''deploy manifest model revision must be an immutable commit SHA'')
                     else if \<not> runtime_pinned te d
                     then Inl (NotPublishable ''deploy manifest runtime image_digest must be immutable'')
                     else if \<not> gateway_pinned te d
                     then Inl (NotPublishable
                       ''deploy manifest gateway image_repository and immutable image_digest are required'')
                     else Inr (Some (path, d))
                 | Some _ \<Rightarrow> Inl (NotPublishable ''deploy manifest must contain a YAML mapping'')))"


section \<open>Conditions and placement\<close>

definition model_conditions :: "pyfloat \<Rightarrow> json_object \<Rightarrow> json" where
  "model_conditions temperature model =
     (let sampling = (dict_get model ''supports_sampling'' = JBool True)
      in JObj [(''upstream_model'', dict_get model ''upstream_model''),
               (''supports_sampling'', JBool sampling),
               (''effective_sampling'', JObj
                  [(''temperature'', if sampling then JFloat temperature else JNull),
                   (''note'', JStr (if sampling then ''scenario temperature forwarded to the provider''
                      else ''scenario temperature omitted because the provider model does not support sampling''))])])"

text \<open>The entries of a dictionary whose values are dictionaries; any other value is skipped.\<close>

definition object_entries :: "json_object \<Rightarrow> (string \<times> json_object) list" where
  "object_entries kvs = List.map_filter (\<lambda>(k, v). map_option (\<lambda>fields. (k, fields)) (json_object_of v)) kvs"

definition provider_execution_conditions :: "json \<Rightarrow> pyfloat \<Rightarrow> json_object" where
  "provider_execution_conditions providers temperature =
     List.map_filter
       (\<lambda>(name, provider).
          case dict_get provider ''models'' of
            JObj models \<Rightarrow>
              Some (name, JObj [(''models'', JObj
                (map (\<lambda>(m, v). (m, model_conditions temperature v)) (object_entries models)))])
          | _ \<Rightarrow> None)
       (object_entries (object_or_empty providers))"

definition local_network_path :: string where
  "local_network_path = ''in-process client -> gateway ASGI -> deterministic adapter''"

definition placement_defaults :: "(string \<times> string option) list" where
  "placement_defaults =
     [(''BENCHMARK_LOCATION'', Some ''local-mock''), (''BENCHMARK_NODE'', Some ''local''),
      (''BENCHMARK_NODE_GROUP'', None), (''BENCHMARK_WORKLOAD_KIND'', Some ''local-process''),
      (''BENCHMARK_AZ'', None), (''BENCHMARK_NETWORK_PATH'', Some local_network_path),
      (''BENCHMARK_INSTANCE_TYPE'', None), (''BENCHMARK_GPU_MODEL'', None), (''BENCHMARK_NODE_OS'', None),
      (''BENCHMARK_GATEWAY_ACCESS'', Some ''in-process''),
      (''BENCHMARK_EXECUTION_ORDER'', Some ''fixed local treatment; frozen item blocks'')]"

fun optional_text :: "string option \<Rightarrow> json" where
  "optional_text None = JNull"
| "optional_text (Some s) = JStr s"

definition strict_boolean_environment ::
    "manifest_env \<Rightarrow> string \<Rightarrow> bool \<Rightarrow> manifest_error + bool" where
  "strict_boolean_environment me name fallback =
     (case me_environ me name of
        None \<Rightarrow> Inr fallback
      | Some v \<Rightarrow> if v = ''true'' then Inr True else if v = ''false'' then Inr False
                  else Inl (Crash ''ValueError''))"

definition placement_from_environment :: "manifest_env \<Rightarrow> manifest_error + json_object" where
  "placement_from_environment me =
     (let named = map (\<lambda>(name, fallback).
                    (name, optional_text (case me_environ me name of None \<Rightarrow> fallback | Some v \<Rightarrow> Some v)))
                    placement_defaults
      in bind_res (strict_boolean_environment me ''BENCHMARK_FAILURE_INJECTION'' False) (\<lambda>injected.
           Inr (named @ [(''BENCHMARK_FAILURE_INJECTION'', JBool injected)])))"

definition required_placement :: "(string \<times> string) list" where
  "required_placement =
     [(''BENCHMARK_LOCATION'', ''local-mock''), (''BENCHMARK_NODE'', ''local''),
      (''BENCHMARK_WORKLOAD_KIND'', ''local-process'')]"

definition missing_placement :: "json_object \<Rightarrow> string list" where
  "missing_placement placement =
     map fst (filter (\<lambda>(name, local_value).
                \<not> json_truthy (dict_get placement name) \<or> dict_get placement name = JStr local_value)
              required_placement)"

definition validate_publishable_placement :: "scenario \<Rightarrow> json_object \<Rightarrow> manifest_error + unit" where
  "validate_publishable_placement s placement =
     (if \<not> sc_publishable s then Inr ()
      else guard_that (missing_placement placement = [])
        (NotPublishable ''publishable runs require non-local placement''))"

section \<open>The gates\<close>

definition required_target ::
    "scenario \<Rightarrow> slo_document \<Rightarrow> string \<Rightarrow> manifest_error + (string \<times> slo_target)" where
  "required_target s slo cell_name =
     (case require_cell slo cell_name of
        Inl e \<Rightarrow> Inl (if sc_publishable s then NotPublishable ''missing SLO target'' else Crash ''ValueError'')
      | Inr t \<Rightarrow> Inr (cell_name, t))"

definition validate_publishability ::
    "scenario \<Rightarrow> repository_state \<Rightarrow> dataset_bundle \<Rightarrow> slo_document \<Rightarrow> bool \<Rightarrow> manifest_error + slo_target"
where
  "validate_publishability s repo dataset slo allow_dirty =
     (if db_checksum dataset = '''' then Inl (NotPublishable ''dataset checksum is missing'')
      else bind_res (traverse (required_target s slo) (slo_cells_used s)) (\<lambda>targets.
        if sc_publishable s \<and> rs_dirty repo \<and> \<not> allow_dirty
        then Inl (NotPublishable ''publishable runs require a clean tree or an explicit dirty override'')
        else if sc_publishable s \<and> rs_sha repo = ''unknown''
        then Inl (NotPublishable ''publishable runs require a known source revision'')
        else (case map_of targets (sc_slo_cell s) of
                None \<Rightarrow> Inl (Crash ''KeyError'') | Some t \<Rightarrow> Inr t)))"

section \<open>The document\<close>

fun workload_value :: "workload_kind \<Rightarrow> string" where
  "workload_value Classification = ''classification''"
| "workload_value StructuredExtraction = ''structured-extraction''"
| "workload_value Generation = ''generation''"

fun mode_value :: "provider_mode \<Rightarrow> string" where
  "mode_value ManagedMode = ''managed''"
| "mode_value PrivateMode = ''private''"
| "mode_value HybridMode = ''hybrid''"
| "mode_value LocalMockMode = ''local-mock''"

fun view_value :: "economic_view \<Rightarrow> string" where
  "view_value ViewA = ''view_a''"
| "view_value ViewB = ''view_b''"

definition profile_dump :: "request_profile \<Rightarrow> json" where
  "profile_dump r =
     JObj [(''data_class'', JStr (data_class_value (rq_data_class r))),
           (''quality_tier'', JStr (quality_tier_value (rq_quality_tier r))),
           (''weight'', JInt (rq_weight r))]"

text \<open>\<open>scenario.model_dump(mode="json", by_alias=True)\<close>\<close>

definition scenario_dump :: "scenario \<Rightarrow> json_object" where
  "scenario_dump s =
     [(''id'', JStr (sc_id s)), (''treatment'', JStr (sc_treatment s)),
      (''workload'', JStr (workload_value (sc_workload s))),
      (''provider_mode'', JStr (mode_value (sc_provider_mode s))), (''stream'', JBool (sc_stream s)),
      (''concurrency'', JInt (sc_concurrency s)), (''requests'', JInt (sc_requests s)),
      (''temperature'', JFloat (sc_temperature s)), (''max_tokens'', JInt (sc_max_tokens s)),
      (''data_class'', JStr (data_class_value (sc_data_class s))),
      (''quality_tier'', JStr (quality_tier_value (sc_quality_tier s))),
      (''structured_output_mode'', JStr (sc_structured_output_mode s)),
      (''warmup_requests'', JInt (sc_warmup_requests s)), (''repeats'', JInt (sc_repeats s)),
      (''dataset'', JStr (sc_dataset s)), (''slo_config'', JStr (sc_slo_config s)),
      (''slo_cell'', JStr (sc_slo_cell s)), (''pricing_config'', JStr (sc_pricing_config s)),
      (''timeout_config'', JStr (sc_timeout_config s)), (''cost_config'', JStr (sc_cost_config s)),
      (''model'', JStr (sc_model s)), (''publishable'', JBool (sc_publishable s)),
      (''economic_views'', JArr (map (JStr \<circ> view_value) (sc_economic_views s))),
      (''pricing_version'', JStr (sc_pricing_version s)),
      (''bootstrap_iterations'', JInt (sc_bootstrap_iterations s)), (''seed'', JInt (sc_seed s)),
      (''request_rate_schedule'', JStr (sc_request_rate_schedule s)),
      (''sampling_parameters'', JObj (sc_sampling_parameters s)),
      (''request_mix'', JArr (map profile_dump (sc_request_mix s))), (''notes'', JStr (sc_notes s))]"


text \<open>\<open>v.values()\<close>\<close>

definition json_values :: "json \<Rightarrow> string + json list" where
  "json_values v = (case v of JObj kvs \<Rightarrow> Inr (map snd kvs) | _ \<Rightarrow> Inl ''AttributeError'')"

definition effective_dates :: "text_env \<Rightarrow> json_object \<Rightarrow> string + string list" where
  "effective_dates te pricing_raw =
     bind_res (json_values (case map_of pricing_raw ''pricing'' of None \<Rightarrow> JObj [] | Some v \<Rightarrow> v)) (\<lambda>providers.
     bind_res (traverse json_values providers) (\<lambda>models.
     bind_res (traverse (\<lambda>m. json_item m ''effective_date'') (concat models)) (\<lambda>dates.
     Inr (sorted_set (map (py_str te) dates)))))"

record manifest_inputs =
  mi_run_id :: string
  mi_started :: string
  mi_scenario_path :: string
  mi_placement :: json_object
  mi_pricing_hash :: string
  mi_dates :: "string list"
  mi_providers :: json_object
  mi_cost_hash :: string
  mi_timeout_hash :: string
  mi_slo_hash :: string
  mi_target :: json
  mi_cells :: json_object
  mi_dirty_override :: bool
  mi_notes :: "string list"

definition workload_section :: "scenario \<Rightarrow> dataset_bundle \<Rightarrow> json_object \<Rightarrow> json_object" where
  "workload_section s dataset placement =
     [(''dataset'', JStr (db_name dataset)), (''dataset_version'', JStr (db_version dataset)),
      (''dataset_sha256'', JStr (db_checksum dataset)), (''concurrency'', JInt (sc_concurrency s)),
      (''request_count_per_repeat'', JInt (sc_requests s)),
      (''request_rate_schedule'', JStr (sc_request_rate_schedule s)), (''stream'', JBool (sc_stream s)),
      (''structured_output_mode'', JStr (sc_structured_output_mode s)),
      (''input_output_token_profile'',
         (case map_of (sc_sampling_parameters s) ''token_profile'' of
            None \<Rightarrow> JStr ''dataset-defined'' | Some v \<Rightarrow> v)),
      (''temperature'', JFloat (sc_temperature s)), (''max_tokens'', JInt (sc_max_tokens s)),
      (''sampling_parameters'', JObj (sc_sampling_parameters s)),
      (''warmup_rule'', JObj [(''requests_per_repeat'', JInt (sc_warmup_requests s)),
                              (''excluded_from_measurement'', JBool True)]),
      (''cache_state'', JStr ''adapter-default''),
      (''autoscaling'', JObj [(''enabled'', JBool False), (''min'', JInt 1), (''max'', JInt 1)]),
      (''failure_injection'', dict_get placement ''BENCHMARK_FAILURE_INJECTION'')]"

definition harness_section :: "repository_state \<Rightarrow> json_object \<Rightarrow> json_object" where
  "harness_section repo placement =
     [(''location'', dict_get placement ''BENCHMARK_LOCATION''), (''namespace'', JNull),
      (''workload_kind'', dict_get placement ''BENCHMARK_WORKLOAD_KIND''), (''image'', JNull),
      (''build'', JStr (rs_sha repo)), (''pod'', JNull), (''node'', dict_get placement ''BENCHMARK_NODE''),
      (''node_group'', dict_get placement ''BENCHMARK_NODE_GROUP''),
      (''availability_zone'', dict_get placement ''BENCHMARK_AZ''),
      (''network_path'', dict_get placement ''BENCHMARK_NETWORK_PATH''),
      (''gateway_access'', dict_get placement ''BENCHMARK_GATEWAY_ACCESS''), (''tls_mode'', JStr ''none'')]"

definition base_manifest ::
    "scenario \<Rightarrow> dataset_bundle \<Rightarrow> slo_document \<Rightarrow> repository_state \<Rightarrow> manifest_inputs \<Rightarrow> json_object" where
  "base_manifest s dataset slo repo i =
     (let p = mi_placement i
      in [(''run_id'', JStr (mi_run_id i)), (''started_at'', JStr (mi_started i)), (''completed_at'', JNull),
          (''publishable'', JBool (sc_publishable s)),
          (''publishability'', JObj [(''dirty_override'', JBool (mi_dirty_override i)),
             (''dataset_checksum_verified'', JBool True), (''slo_cell_present'', JBool True),
             (''slo_cells_present'', JBool True)]),
          (''git'', JObj [(''sha'', JStr (rs_sha repo)), (''dirty'', JBool (rs_dirty repo)),
             (''dirty_detection'', JStr (rs_detection repo))]),
          (''scenario'', JObj (scenario_dump s)), (''scenario_path'', JStr (mi_scenario_path i)),
          (''environment'', JObj [(''cloud'', JNull), (''region'', JNull),
             (''availability_zone'', dict_get p ''BENCHMARK_AZ''), (''kubernetes_version'', JNull),
             (''node_os'', dict_get p ''BENCHMARK_NODE_OS'')]),
          (''harness'', JObj (harness_section repo p)),
          (''compute'', JObj [(''instance_type'', dict_get p ''BENCHMARK_INSTANCE_TYPE''),
             (''gpu_model'', dict_get p ''BENCHMARK_GPU_MODEL''), (''gpu_count'', JInt 0),
             (''driver_cuda'', JNull), (''purchase_option'', JNull)]),
          (''runtime'', JObj [(''server_version'', JNull), (''image_digest'', JNull)]),
          (''model'', JObj [(''id'', JStr (sc_model s)), (''revision'', JStr ''local-mock-v1''),
             (''license_note'', JStr ''local deterministic fixture''), (''dtype'', JNull),
             (''quantization'', JNull), (''tensor_parallel'', JNull)]),
          (''workload'', JObj (workload_section s dataset p)),
          (''pricing'', JObj [(''version'', JStr (sc_pricing_version s)),
             (''config_sha256'', JStr (mi_pricing_hash i)), (''effective_dates'', JArr (map JStr (mi_dates i)))]),
          (''providers'', JObj (mi_providers i)),
          (''cost'', JObj [(''config_sha256'', JStr (mi_cost_hash i)), (''config_path'', JStr (sc_cost_config s))]),
          (''slo'', JObj [(''version'', JStr (sd_version slo)), (''config_sha256'', JStr (mi_slo_hash i)),
             (''cell'', JStr (sc_slo_cell s)), (''target'', mi_target i), (''cells'', JObj (mi_cells i))]),
          (''timeouts'', JObj [(''config_sha256'', JStr (mi_timeout_hash i)),
             (''config_path'', JStr (sc_timeout_config s))]),
          (''statistics'', JObj [(''repeat_group_id'', JStr (mi_run_id i)), (''repeat_count'', JInt (sc_repeats s)),
             (''repeat_indices'', JArr (map JInt [1 .. sc_repeats s])),
             (''execution_order'', dict_get p ''BENCHMARK_EXECUTION_ORDER''),
             (''analysis_version'', JStr ''m2-v1''),
             (''bootstrap_iterations'', JInt (sc_bootstrap_iterations s)), (''bootstrap_seed'', JInt (sc_seed s))]),
          (''measurement'', JObj [(''planned_sample_count'', JInt (sc_requests s * sc_repeats s)),
             (''actual_sample_count'', JNull), (''duration_seconds'', JNull)]),
          (''policy'', JObj [(''config_sha256'', JStr (mi_timeout_hash i))]),
          (''operator_notes'', JArr (map JStr (mi_notes i)))])"

text \<open>\<open>d[k] = v\<close>, \<open>d.update(values)\<close> and \<open>d[section].update(values)\<close>\<close>

definition dict_set :: "string \<Rightarrow> json \<Rightarrow> json_object \<Rightarrow> json_object" where
  "dict_set k v d = AList.update k v d"

definition dict_update :: "json_object \<Rightarrow> json_object \<Rightarrow> json_object" where
  "dict_update d values = foldl (\<lambda>acc (k, v). dict_set k v acc) d values"

definition update_section :: "json_object \<Rightarrow> json_object \<Rightarrow> string \<Rightarrow> json_object" where
  "update_section deployment manifest section_name =
     (case dict_get deployment section_name of
        JObj values \<Rightarrow>
          dict_set section_name
            (JObj (dict_update (object_or_empty (dict_get manifest section_name)) values)) manifest
      | _ \<Rightarrow> manifest)"

definition deployed_manifest :: "json_object \<Rightarrow> json_object \<Rightarrow> string \<Rightarrow> string \<Rightarrow> json_object" where
  "deployed_manifest deployment manifest path digest =
     (let or_object = (\<lambda>k. case map_of deployment k of None \<Rightarrow> JObj [] | Some v \<Rightarrow> v);
          sections = foldl (update_section deployment) manifest
                       [''environment'', ''compute'', ''runtime'', ''model''];
          noted = dict_set ''gateway'' (or_object ''gateway'') (dict_set ''charts'' (or_object ''charts'')
                    (dict_set ''deployment_manifest'' (JObj [(''path'', JStr path), (''sha256'', JStr digest),
                       (''schema_version'', dict_get deployment ''schema_version'')]) sections))
      in case dict_get deployment ''autoscaling'' of
           JObj a \<Rightarrow> dict_set ''workload''
             (JObj (dict_set ''autoscaling'' (JObj a) (object_or_empty (dict_get noted ''workload'')))) noted
         | _ \<Rightarrow> noted)"

definition autoscale_ok :: "scenario \<Rightarrow> json_object \<Rightarrow> json_object \<Rightarrow> manifest_error + unit" where
  "autoscale_ok s deployment manifest =
     (let gpus = (case map_of (object_or_empty (dict_get manifest ''compute'')) ''gpu_count'' of
                    None \<Rightarrow> JInt 0 | Some v \<Rightarrow> v);
          scaling = dict_get deployment ''autoscaling''
      in if sc_treatment s \<noteq> ''t5-autoscale'' then Inr ()
         else if (case json_int gpus of None \<Rightarrow> True | Some n \<Rightarrow> n < 2)
         then Inl (NotPublishable ''T5 requires a deploy manifest with at least two GPUs'')
         else if sub_get scaling ''enabled'' \<noteq> JBool True
         then Inl (NotPublishable ''T5 requires a KEDA-enabled deploy manifest'')
         else guard_that (sub_get scaling ''provider'' = JStr ''keda'')
                (NotPublishable ''T5 deploy manifest must identify KEDA as the scaler''))"

definition capture_deployment ::
    "manifest_env \<Rightarrow> string \<Rightarrow> scenario \<Rightarrow> json_object \<Rightarrow> manifest_error + json_object" where
  "capture_deployment me repo_root s manifest =
     bind_res (load_deploy_manifest me repo_root) (\<lambda>captured.
       case captured of
         None \<Rightarrow>
           if sc_publishable s
           then Inl (NotPublishable ''publishable runs require a deploy manifest'') else Inr manifest
       | Some (path, deployment) \<Rightarrow>
           bind_res (sha256_file me path) (\<lambda>digest.
             let m = deployed_manifest deployment manifest path digest
             in bind_res (autoscale_ok s deployment m) (\<lambda>_. Inr m)))"

definition read_pricing :: "manifest_env \<Rightarrow> string \<Rightarrow> manifest_error + json_object" where
  "read_pricing me path =
     (case me_files me path of
        None \<Rightarrow> Inl (Crash ''OSError'')
      | Some content \<Rightarrow>
          (case me_yaml me content of
             None \<Rightarrow> Inl (Crash ''YAMLError'')
           | Some (JObj d) \<Rightarrow> Inr d
           | Some _ \<Rightarrow> Inl (Crash ''AttributeError'')))"

definition build_manifest ::
    "manifest_env \<Rightarrow> string \<Rightarrow> string \<Rightarrow> scenario \<Rightarrow> dataset_bundle \<Rightarrow> slo_document \<Rightarrow> string
      \<Rightarrow> repository_state \<Rightarrow> bool \<Rightarrow> timestamp \<Rightarrow> string list option \<Rightarrow> manifest_error + json_object" where
  "build_manifest me repo_root scenario_path s dataset slo slo_hash repo allow_dirty started notes =
     bind_res (validate_publishability s repo dataset slo allow_dirty) (\<lambda>target.
     bind_res (traverse (required_target s slo) (slo_cells_used s)) (\<lambda>targets.
     bind_res (placement_from_environment me) (\<lambda>placement.
     bind_res (validate_publishable_placement s placement) (\<lambda>_.
     bind_res (read_pricing me (join_path repo_root (sc_pricing_config s))) (\<lambda>pricing_raw.
     bind_res (escape (effective_dates (de_text (me_data me)) pricing_raw)) (\<lambda>dates.
     bind_res (case relative_to repo_root scenario_path of
                 None \<Rightarrow> Inl (Crash ''ValueError'') | Some p \<Rightarrow> Inr p) (\<lambda>relative.
     bind_res (sha256_file me (join_path repo_root (sc_pricing_config s))) (\<lambda>pricing_hash.
     bind_res (sha256_file me (join_path repo_root (sc_cost_config s))) (\<lambda>cost_hash.
     bind_res (sha256_file me (join_path repo_root (sc_timeout_config s))) (\<lambda>timeout_hash.
     capture_deployment me repo_root s (base_manifest s dataset slo repo
       \<lparr>mi_run_id = make_run_id started (rs_sha repo) (sc_treatment s), mi_started = utc_text started,
        mi_scenario_path = relative, mi_placement = placement, mi_pricing_hash = pricing_hash,
        mi_dates = dates,
        mi_providers = provider_execution_conditions (dict_get pricing_raw ''providers'') (sc_temperature s),
        mi_cost_hash = cost_hash, mi_timeout_hash = timeout_hash, mi_slo_hash = slo_hash,
        mi_target = me_target me target, mi_cells = map (\<lambda>(c, t). (c, me_target me t)) targets,
        mi_dirty_override = (rs_dirty repo \<and> allow_dirty),
        mi_notes = (case notes of
                      Some (n # ns) \<Rightarrow> n # ns
                    | _ \<Rightarrow> if sc_notes s \<noteq> '''' then [sc_notes s] else [])\<rparr>)))))))))))"

section \<open>Writing and completing\<close>

text \<open>Directories are a list; the folder of a new manifest must not exist.\<close>

definition write_manifest ::
    "manifest_env \<Rightarrow> string list \<Rightarrow> string \<Rightarrow> json_object \<Rightarrow> string + (string list \<times> file_store)" where
  "write_manifest me folders folder manifest =
     (if folder \<in> set folders then Inl ''FileExistsError''
      else Inr (folder # folders, (me_files me)(run_path folder ''manifest.yaml'' \<mapsto> me_dump me manifest)))"

definition zulu :: "string \<Rightarrow> string" where
  "zulu s = concat (map (\<lambda>c. if c = CHR ''Z'' then ''+00:00'' else [c]) s)"

definition complete_manifest ::
    "manifest_env \<Rightarrow> string \<Rightarrow> timestamp \<Rightarrow> int \<Rightarrow> string + file_store" where
  "complete_manifest me path completed samples =
     (case me_files me path of
        None \<Rightarrow> Inl ''OSError''
      | Some content \<Rightarrow>
          (case me_yaml me content of
             None \<Rightarrow> Inl ''YAMLError''
           | Some (JObj m) \<Rightarrow>
               bind_res (json_item (JObj m) ''started_at'') (\<lambda>started_at.
               case me_fromiso me (zulu (py_str (de_text (me_data me)) started_at)) of
                 None \<Rightarrow> Inl ''ValueError''
               | Some started \<Rightarrow>
                   bind_res (json_item (JObj m) ''measurement'') (\<lambda>measurement.
                   case measurement of
                     JObj ms \<Rightarrow>
                       Inr ((me_files me)(path \<mapsto> me_dump me
                         (dict_set ''measurement'' (JObj
                            (dict_set ''duration_seconds'' (JFloat (flt_round (ts_instant completed - started)))
                              (dict_set ''actual_sample_count'' (JInt samples) ms)))
                            (dict_set ''completed_at'' (JStr (utc_text completed)) m))))
                   | _ \<Rightarrow> Inl ''TypeError''))
           | Some _ \<Rightarrow> Inl ''TypeError''))"


section \<open>Lemmas\<close>

lemma escape_Inr [simp]: "escape r = Inr x \<longleftrightarrow> r = Inr x"
  by (cases r) auto

lemma dict_get_set [simp]: "dict_get (dict_set k v d) k' = (if k = k' then v else dict_get d k')"
  by (simp add: dict_get_def dict_set_def update_conv' split: option.split)

lemma update_section_other:
  "k \<noteq> section_name \<Longrightarrow> dict_get (update_section deployment m section_name) k = dict_get m k"
  by (simp add: update_section_def split: json.split)

definition deployed_sections :: "string list" where
  "deployed_sections =
     [''environment'', ''compute'', ''runtime'', ''model'', ''deployment_manifest'', ''charts'',
      ''gateway'', ''workload'']"

lemma deployed_manifest_other:
  "k \<notin> set deployed_sections \<Longrightarrow> dict_get (deployed_manifest deployment m path digest) k = dict_get m k"
  by (auto simp: deployed_manifest_def deployed_sections_def Let_def update_section_other split: json.split)

lemma capture_deployment_Inr:
  assumes "capture_deployment me repo_root s m = Inr m'"
  shows "k \<notin> set deployed_sections \<Longrightarrow> dict_get m' k = dict_get m k"
    and "sc_publishable s \<Longrightarrow> \<exists>path d. load_deploy_manifest me repo_root = Inr (Some (path, d))"
  using assms
  by (auto simp: capture_deployment_def bind_res_Inr Let_def deployed_manifest_other split: option.splits if_splits)

lemma load_deploy_manifest_Some:
  assumes "load_deploy_manifest me repo_root = Inr (Some (path, d))"
  shows "model_pinned (de_text (me_data me)) d \<and> runtime_pinned (de_text (me_data me)) d
    \<and> gateway_pinned (de_text (me_data me)) d"
  using assms
  by (auto simp: load_deploy_manifest_def Let_def split: option.splits list.splits json.splits if_splits)

lemma placement_get:
  assumes "placement_from_environment me = Inr placement" "(name, d) \<in> set placement_defaults"
  shows "dict_get placement name = optional_text (case me_environ me name of None \<Rightarrow> d | Some v \<Rightarrow> Some v)"
  using assms
  by (auto simp: placement_from_environment_def placement_defaults_def bind_res_Inr)

lemma build_manifest_Inr:
  assumes "build_manifest me repo_root path s dataset slo slo_hash repo allow_dirty started notes = Inr m"
  obtains target targets i where
    "capture_deployment me repo_root s (base_manifest s dataset slo repo i) = Inr m"
    "validate_publishability s repo dataset slo allow_dirty = Inr target"
    "traverse (required_target s slo) (slo_cells_used s) = Inr targets"
    "placement_from_environment me = Inr (mi_placement i)"
    "validate_publishable_placement s (mi_placement i) = Inr ()"
  using assms unfolding build_manifest_def bind_res_Inr
  by (elim exE conjE) (rule that, assumption+, simp_all (no_asm_simp))

lemma base_manifest_get:
  "dict_get (base_manifest s dataset slo repo i) ''publishable'' = JBool (sc_publishable s)"
  "dict_get (base_manifest s dataset slo repo i) ''harness'' = JObj (harness_section repo (mi_placement i))"
  "dict_get (base_manifest s dataset slo repo i) ''git'' = JObj [(''sha'', JStr (rs_sha repo)),
     (''dirty'', JBool (rs_dirty repo)), (''dirty_detection'', JStr (rs_detection repo))]"
  "dict_get (base_manifest s dataset slo repo i) ''scenario'' = JObj (scenario_dump s)"
  by (simp_all add: base_manifest_def Let_def)

lemma remote_placement:
  assumes p: "placement_from_environment me = Inr placement" and ok: "missing_placement placement = []"
    and h: "dict_get m ''harness'' = JObj (harness_section repo placement)"
  shows "placement_is_non_local m = Inr (me_environ me ''BENCHMARK_NETWORK_PATH'' \<noteq> Some '''')"
proof -
  note get = placement_get [OF p]
  have get_some: "dict_get placement n = JStr (case me_environ me n of None \<Rightarrow> d | Some v \<Rightarrow> v)"
    if "(n, Some d) \<in> set placement_defaults" for n d
    using get [OF that] by (simp split: option.split)
  have there: "not_among (dict_get placement n) ['''', d] = Inr True"
    if "(n, d) \<in> set required_placement" "(n, Some d) \<in> set placement_defaults" for n d
    using ok that get_some [OF that(2)] by (auto simp: missing_placement_def filter_empty_conv)
  have "not_among (dict_get placement ''BENCHMARK_LOCATION'') ['''', ''local-mock''] = Inr True"
    "not_among (dict_get placement ''BENCHMARK_NODE'') ['''', ''local''] = Inr True"
    "not_among (dict_get placement ''BENCHMARK_WORKLOAD_KIND'') ['''', ''local-process''] = Inr True"
    by (rule there; simp add: required_placement_def placement_defaults_def)+
  moreover have "json_truthy (dict_get placement ''BENCHMARK_NETWORK_PATH'')
      \<longleftrightarrow> me_environ me ''BENCHMARK_NETWORK_PATH'' \<noteq> Some ''''"
    using get_some [of "''BENCHMARK_NETWORK_PATH''" local_network_path]
    by (auto simp: placement_defaults_def local_network_path_def split: option.split)
  ultimately show ?thesis
    by (simp add: placement_is_non_local_def h harness_section_def and_then_def)
qed

lemma required_target_cells:
  "traverse (required_target s slo) cells = Inr targets \<Longrightarrow>
   map fst targets = cells \<and> (\<forall>c \<in> set cells. map_of (sd_cells slo) c \<noteq> None)"
  by (induction cells arbitrary: targets)
    (auto simp: bind_res_Inr required_target_def require_cell_def split: option.splits)


lemma required_targets_exist:
  "\<forall>c \<in> set cells. map_of (sd_cells slo) c \<noteq> None \<Longrightarrow>
   \<exists>ts. traverse (required_target s slo) cells = Inr ts"
  by (induction cells) (auto simp: required_target_def require_cell_def)

section \<open>Properties\<close>

text \<open>
  C32. A manifest marked publishable has passed every gate: its source revision is known and its tree
  clean or knowingly dirty, its data set has a checksum, each traffic cell an objective, and the
  captured deployment pins model, runtime and gateway; the comparison of runs finds its placement
  non-local exactly if the network path was not set to the empty text.
\<close>

theorem publishable_manifest_gated:
  assumes "build_manifest me repo_root path s dataset slo slo_hash repo allow_dirty started notes = Inr m"
    and "sc_publishable s"
  shows "dict_get m ''publishable'' = JBool True \<and> rs_sha repo \<noteq> ''unknown''
    \<and> (rs_dirty repo \<longrightarrow> allow_dirty) \<and> db_checksum dataset \<noteq> ''''
    \<and> (\<forall>c \<in> set (slo_cells_used s). map_of (sd_cells slo) c \<noteq> None)
    \<and> (\<exists>p d. load_deploy_manifest me repo_root = Inr (Some (p, d))
         \<and> model_pinned (de_text (me_data me)) d \<and> runtime_pinned (de_text (me_data me)) d
         \<and> gateway_pinned (de_text (me_data me)) d)
    \<and> placement_is_non_local m = Inr (me_environ me ''BENCHMARK_NETWORK_PATH'' \<noteq> Some '''')"
proof -
  obtain target targets i where m: "capture_deployment me repo_root s (base_manifest s dataset slo repo i) = Inr m"
    and gates: "validate_publishability s repo dataset slo allow_dirty = Inr target"
      "traverse (required_target s slo) (slo_cells_used s) = Inr targets"
    and placed: "placement_from_environment me = Inr (mi_placement i)"
      "validate_publishable_placement s (mi_placement i) = Inr ()"
    by (rule build_manifest_Inr [OF assms(1)])
  have keep: "dict_get m k = dict_get (base_manifest s dataset slo repo i) k"
    if "k \<notin> set deployed_sections" for k
    using capture_deployment_Inr(1) [OF m that] .
  have "placement_is_non_local m = Inr (me_environ me ''BENCHMARK_NETWORK_PATH'' \<noteq> Some '''')"
    using remote_placement [OF placed(1), of m repo] placed(2) assms(2) keep [of "''harness''"]
    by (simp add: validate_publishable_placement_def base_manifest_get deployed_sections_def)
  moreover have "dict_get m ''publishable'' = JBool True"
    using keep [of "''publishable''"] assms(2) by (simp add: base_manifest_get deployed_sections_def)
  moreover obtain p d where "load_deploy_manifest me repo_root = Inr (Some (p, d))"
    using capture_deployment_Inr(2) [OF m assms(2)] by blast
  moreover have "rs_sha repo \<noteq> ''unknown'' \<and> (rs_dirty repo \<longrightarrow> allow_dirty) \<and> db_checksum dataset \<noteq> ''''"
    using gates(1) assms(2) by (auto simp: validate_publishability_def bind_res_Inr split: if_splits)
  ultimately show ?thesis
    using required_target_cells [OF gates(2)] load_deploy_manifest_Some by blast
qed

text \<open>
  The code as it is: a valid hybrid scenario whose own quality tier is not one of its traffic mix
  cannot be run; with all its objectives present the look-up of its cell ends in a \<open>KeyError\<close>.
\<close>

theorem hybrid_cell_uncaught:
  assumes "validate_scenario s = Inr ()" "sc_request_mix s \<noteq> []"
    and "sc_quality_tier s \<notin> rq_quality_tier ` set (sc_request_mix s)"
    and "db_checksum dataset \<noteq> ''''"
    and "\<forall>c \<in> set (slo_cells_used s). map_of (sd_cells slo) c \<noteq> None"
    and "sc_publishable s \<longrightarrow> \<not> rs_dirty repo \<and> rs_sha repo \<noteq> ''unknown''"
  shows "build_manifest me repo_root path s dataset slo slo_hash repo allow_dirty started notes
    = Inl (Crash ''KeyError'')"
proof -
  have cell: "sc_slo_cell s = slo_cell_of (sc_workload s) (sc_quality_tier s)"
    by (rule validate_scenario_Inr(2) [OF assms(1)])
  have "sc_slo_cell s \<notin> set (slo_cells_used s)"
    using assms(2,3) by (auto simp: slo_cells_set cell dest: slo_cell_inj)
  moreover obtain targets where t: "traverse (required_target s slo) (slo_cells_used s) = Inr targets"
    using required_targets_exist [OF assms(5)] by blast
  ultimately have "map_of targets (sc_slo_cell s) = None"
    using required_target_cells [OF t] by (metis map_of_eq_None_iff set_map)
  with t assms(4,6) have "validate_publishability s repo dataset slo allow_dirty = Inl (Crash ''KeyError'')"
    by (auto simp: validate_publishability_def)
  then show ?thesis by (simp add: build_manifest_def)
qed


section \<open>A concrete run\<close>

definition lab_deployment :: json_object where
  "lab_deployment =
     [(''model'', JObj [(''revision'', JStr (replicate 40 (CHR ''a'')))]),
      (''runtime'', JObj [(''image_digest'', JStr (''sha256:'' @ replicate 64 (CHR ''b'')))]),
      (''gateway'', JObj [(''image_repository'', JStr ''g''),
                          (''image_digest'', JStr (''sha256:'' @ replicate 64 (CHR ''c'')))])]"

definition lab_manifest_env :: manifest_env where
  "lab_manifest_env =
     \<lparr>me_data = lab_data_env,
      me_environ = map_of [(''DEPLOY_MANIFEST'', ''D''), (''BENCHMARK_LOCATION'', ''eu''),
                           (''BENCHMARK_NODE'', ''n1''), (''BENCHMARK_WORKLOAD_KIND'', ''job'')],
      me_files = map_of [(''/r/D'', ''D''), (''/r/p'', ''P''), (''/r/c'', ''C''), (''/r/t'', ''T'')],
      me_yaml = map_of [(''D'', JObj lab_deployment), (''P'', JObj [])],
      me_dump = (\<lambda>m. ''''), me_fromiso = (\<lambda>s. None), me_target = (\<lambda>t. JNull)\<rparr>"

definition lab_publishable :: scenario where
  "lab_publishable = (lab_scenario PrivateMode [])\<lparr>sc_publishable := True\<rparr>"

definition lab_repository :: repository_state where
  "lab_repository =
     \<lparr>rs_sha = replicate 40 (CHR ''a''), rs_dirty = False, rs_detection = ''operator-environment''\<rparr>"

definition lab_dataset :: dataset_bundle where
  "lab_dataset =
     \<lparr>db_name = ''d'', db_version = ''1'', db_workload = ''classification'', db_seed = 1,
      db_checksum = ''c'', db_items = []\<rparr>"

theorem publishable_manifest_gated_witness:
  "\<exists>m. build_manifest lab_manifest_env ''/r'' ''/r/s'' lab_publishable lab_dataset lab_slo ''h''
         lab_repository False (utc 0) None = Inr m
     \<and> placement_is_non_local m = Inr True"
proof -
  have gates: "validate_publishability lab_publishable lab_repository lab_dataset lab_slo False
      = Inr (lab_target (Some (9 / 10)))"
    and targets: "traverse (required_target lab_publishable lab_slo) (slo_cells_used lab_publishable)
      = Inr [(''WL-01/economy'', lab_target (Some (9 / 10)))]"
    by code_simp+
  obtain placement where placement: "placement_from_environment lab_manifest_env = Inr placement"
    "missing_placement placement = []"
  proof -
    have "case placement_from_environment lab_manifest_env of
        Inl e \<Rightarrow> False | Inr placement \<Rightarrow> missing_placement placement = []"
      by code_simp
    with that show thesis by (auto split: sum.splits)
  qed
  have pricing: "read_pricing lab_manifest_env (join_path ''/r'' ''p'') = Inr []"
    and dates: "effective_dates (de_text (me_data lab_manifest_env)) [] = Inr []"
    and relative: "relative_to ''/r'' ''/r/s'' = Some ''s''"
    by code_simp+
  have digests: "\<exists>h. sha256_file lab_manifest_env path = Inr h"
    if "path \<in> {join_path ''/r'' ''p'', join_path ''/r'' ''c'', join_path ''/r'' ''t'', ''/r/D''}" for path
    using that by (auto simp: sha256_file_def lab_manifest_env_def join_path_def run_path_def starts_with_code)
  have deployment: "load_deploy_manifest lab_manifest_env ''/r'' = Inr (Some (''/r/D'', lab_deployment))"
    by code_simp
  have "\<exists>m. capture_deployment lab_manifest_env ''/r'' lab_publishable base = Inr m" for base
    using deployment digests [of "''/r/D''"]
    by (auto simp: capture_deployment_def autoscale_ok_def Let_def lab_publishable_def lab_scenario_def)
  then have captured: "\<exists>m. capture_deployment lab_manifest_env ''/r'' lab_publishable base = Inr m" for base .
  obtain hp hc ht where hashes: "sha256_file lab_manifest_env (join_path ''/r'' ''p'') = Inr hp"
    "sha256_file lab_manifest_env (join_path ''/r'' ''c'') = Inr hc"
    "sha256_file lab_manifest_env (join_path ''/r'' ''t'') = Inr ht"
    using digests [of "join_path ''/r'' ''p''"] digests [of "join_path ''/r'' ''c''"]
      digests [of "join_path ''/r'' ''t''"] by auto
  have fields: "sc_pricing_config lab_publishable = ''p''" "sc_cost_config lab_publishable = ''c''"
    "sc_timeout_config lab_publishable = ''t''" "validate_publishable_placement lab_publishable placement = Inr ()"
    using placement(2) by (simp_all add: lab_publishable_def lab_scenario_def validate_publishable_placement_def)
  have "\<exists>m. build_manifest lab_manifest_env ''/r'' ''/r/s'' lab_publishable lab_dataset lab_slo ''h''
      lab_repository False (utc 0) None = Inr m"
    unfolding build_manifest_def
    by (simp only: gates targets placement(1) pricing dates relative hashes fields captured
        bind_res.simps escape.simps option.case)
  then obtain m where m: "build_manifest lab_manifest_env ''/r'' ''/r/s'' lab_publishable lab_dataset lab_slo
      ''h'' lab_repository False (utc 0) None = Inr m" by blast
  have "sc_publishable lab_publishable" by (simp add: lab_publishable_def)
  from publishable_manifest_gated [OF m this] m show ?thesis by (simp add: lab_manifest_env_def)
qed

definition lab_premium_mix :: scenario where
  "lab_premium_mix = lab_scenario HybridMode
     [\<lparr>rq_data_class = Public, rq_quality_tier = Premium, rq_weight = 1\<rparr>,
      \<lparr>rq_data_class = Restricted, rq_quality_tier = Premium, rq_weight = 1\<rparr>]"

theorem hybrid_cell_uncaught_witness:
  "build_manifest lab_manifest_env ''/r'' ''/r/s'' lab_premium_mix lab_dataset lab_slo ''h''
     lab_repository False (utc 0) None = Inl (Crash ''KeyError'')
   \<and> validate_scenario lab_premium_mix = Inr ()"
proof -
  have valid: "validate_scenario lab_premium_mix = Inr ()" by code_simp
  have cells: "\<forall>c \<in> set (slo_cells_used lab_premium_mix). map_of (sd_cells lab_slo) c \<noteq> None"
    by code_simp
  show ?thesis
    using valid hybrid_cell_uncaught [OF valid _ _ _ cells, of lab_dataset lab_repository]
    by (simp add: lab_premium_mix_def lab_scenario_def lab_dataset_def lab_repository_def)
qed

end
