(* ===== verification/Fault_Evidence.thy ===== *)
theory Fault_Evidence
  imports App_Wiring Fault_Mock Manifest
begin

text \<open>
  The fault evidence command (\<open>fault_evidence.py\<close>): its cases, the adapters it wires to the fault
  service, the reading of metric scrapes and of event streams, the verdict on a case and the
  evidence of all of them. The scrape's text is parsed by the Prometheus client, whose samples are a
  parameter, as are JSON and the clock. What a case exchanges with the gateway is a record of the
  status, headers and texts it got; starting the fault service is process handling and left out.
\<close>

section \<open>Cases\<close>

record fault_case =
  fa_fault :: fault_scenario
  fa_wire :: string
  fa_stream :: bool
  fa_data_class :: string
  fa_quality_tier :: string
  fa_status :: int
  fa_provider :: string
  fa_fallbacks :: int
  fa_error :: "string option"

definition fallback_case :: "fault_scenario \<Rightarrow> bool \<Rightarrow> fault_case" where
  "fallback_case f stream =
     \<lparr>fa_fault = f, fa_wire = ''anthropic'', fa_stream = stream, fa_data_class = ''public'',
      fa_quality_tier = ''premium'', fa_status = 200, fa_provider = ''private-vllm'', fa_fallbacks = 1,
      fa_error = None\<rparr>"

definition fault_cases :: "fault_case list" where
  "fault_cases =
     [fallback_case FaultRateLimited False, fallback_case FaultServerError False,
      fallback_case FaultTimeout False,
      \<lparr>fa_fault = FaultMalformed, fa_wire = ''openai-compatible'', fa_stream = False,
       fa_data_class = ''internal'', fa_quality_tier = ''economy'', fa_status = 502,
       fa_provider = ''private-vllm'', fa_fallbacks = 0, fa_error = Some ''malformed_response''\<rparr>,
      \<lparr>fa_fault = FaultStreamFail, fa_wire = ''openai-compatible'', fa_stream = True,
       fa_data_class = ''internal'', fa_quality_tier = ''economy'', fa_status = 200,
       fa_provider = ''private-vllm'', fa_fallbacks = 0, fa_error = Some ''stream_started_failure''\<rparr>,
      fallback_case FaultInBand True]"

definition short_timeouts :: timeout_config where
  "short_timeouts =
     \<lparr>to_connect = flt_round (1 / 10), to_response_header = flt_round (15 / 100),
      to_stream_idle = flt_round (15 / 100), to_per_attempt = flt_round (2 / 10),
      to_global_deadline = flt_round (16 / 10)\<rparr>"

definition short_timeout_config :: "gateway_config \<Rightarrow> gateway_config" where
  "short_timeout_config cfg =
     cfg\<lparr>gc_routing := (gc_routing cfg)\<lparr>rp_timeouts := short_timeouts\<rparr>\<rparr>"

section \<open>The adapters of a case\<close>

text \<open>The scenarios the private and the managed upstream are asked for.\<close>

definition case_scenarios :: "fault_case \<Rightarrow> fault_scenario \<times> fault_scenario" where
  "case_scenarios c =
     (if fa_wire c = ''openai-compatible'' then fa_fault c else FaultOk,
      if fa_wire c = ''anthropic'' then fa_fault c else FaultOk)"

definition named_model ::
    "gateway_config \<Rightarrow> string \<Rightarrow> string \<Rightarrow> wiring_error + provider_model_config" where
  "named_model cfg provider_name model_alias =
     (case map_of (pd_providers (gc_providers cfg)) provider_name of
        None \<Rightarrow> Inl (WiringKey provider_name)
      | Some p \<Rightarrow>
          (case map_of (pcf_models p) model_alias of
             None \<Rightarrow> Inl (WiringKey model_alias) | Some m \<Rightarrow> Inr m))"

definition managed_spec ::
    "gateway_config \<Rightarrow> string \<Rightarrow> string \<Rightarrow> string \<Rightarrow> wiring_error + string \<times> adapter_spec" where
  "managed_spec cfg base_url route model_alias =
     bind_res (named_model cfg ''managed-primary'' model_alias) (\<lambda>m.
       Inr (route, AnthropicSpec
         \<lparr>aa_name = route, aa_upstream_model = pmc_upstream_model m, aa_model_alias = model_alias,
          aa_pricing = gc_providers cfg, aa_provider_config_name = ''managed-primary'',
          aa_supports_sampling = False\<rparr>
         \<lparr>cs_base_url = Some base_url, cs_api_key = Some ''local-faultmock'', cs_read_timeout = 2,
          cs_connect_timeout = 2, cs_max_retries = 0\<rparr>))"

definition real_adapters ::
    "gateway_config \<Rightarrow> string \<Rightarrow> wiring_error + (string \<times> adapter_spec) list" where
  "real_adapters cfg base_url =
     bind_res (named_model cfg ''private-vllm'' ''lab-private'') (\<lambda>m.
     bind_res (managed_spec cfg base_url ''managed-economy'' ''lab-economy'') (\<lambda>economy.
     bind_res (managed_spec cfg base_url ''managed-premium'' ''lab-premium'') (\<lambda>premium.
       Inr [(''private-vllm'', OpenAISpec
               \<lparr>oa_name = ''private-vllm'', oa_upstream_model = pmc_upstream_model m,
                oa_api_key = Some ''local-faultmock''\<rparr>
               \<lparr>cs_base_url = Some base_url, cs_api_key = None, cs_read_timeout = 2, cs_connect_timeout = 2,
                cs_max_retries = 0\<rparr>),
            economy, premium])))"

section \<open>Metric scrapes\<close>

type_synonym series = "string \<times> (string \<times> string) list"
type_synonym samples = "(string \<times> (string \<times> string) list \<times> pyfloat) list"

definition evidence_counters :: "string list" where
  "evidence_counters =
     [''gateway_requests_total'', ''gateway_fallback_total'', ''gateway_provider_errors_total'',
      ''gateway_policy_denied_total'']"

definition counter_snapshot :: "samples \<Rightarrow> (series \<times> pyfloat) list" where
  "counter_snapshot samples =
     foldl (\<lambda>d (name, ls, v). if name \<in> set evidence_counters then AList.update (name, sort ls) v d else d)
       [] samples"

record delta_row =
  dr_metric :: string
  dr_labels :: "(string \<times> string) list"
  dr_delta :: pyfloat

definition metric_delta :: "(series \<times> pyfloat) list \<Rightarrow> (series \<times> pyfloat) list \<Rightarrow> delta_row list" where
  "metric_delta before after =
     List.map_filter
       (\<lambda>((name, ls), v).
          let delta = fsub v (case map_of before (name, ls) of None \<Rightarrow> 0 | Some x \<Rightarrow> x)
          in if 0 < delta then Some \<lparr>dr_metric = name, dr_labels = ls, dr_delta = delta\<rparr> else None)
       (sort after)"

definition has_delta :: "delta_row list \<Rightarrow> string \<Rightarrow> (string \<times> string) list \<Rightarrow> bool" where
  "has_delta deltas metric wanted =
     list_ex (\<lambda>row. dr_metric row = metric
       \<and> list_all (\<lambda>(k, v). map_of (dr_labels row) k = Some v) wanted) deltas"

section \<open>Event streams\<close>

type_synonym observation = "string list \<times> string option \<times> bool"

definition observe_event :: "text_env \<Rightarrow> json \<Rightarrow> observation \<Rightarrow> string + observation" where
  "observe_event te event obs =
     (let (content, error, saw_done) = obs in
      bind_res (json_get event ''error'') (\<lambda>e.
      let error' = (case e of JObj o1 \<Rightarrow> Some (py_str te (dict_get o1 ''code'')) | _ \<Rightarrow> error) in
      bind_res (get_or event ''choices'' (JArr [])) (\<lambda>choices.
      if \<not> json_truthy choices then Inr (content, error', saw_done)
      else bind_res (json_first choices) (\<lambda>choice.
           bind_res (get_or choice ''delta'' (JObj [])) (\<lambda>delta.
           bind_res (json_get delta ''content'') (\<lambda>chunk.
           Inr (if json_truthy chunk then content @ [py_str te chunk] else content, error', saw_done)))))))"

definition observe_line :: "text_env \<Rightarrow> string \<Rightarrow> observation \<Rightarrow> string + observation" where
  "observe_line te line obs =
     (if \<not> starts_with line data_mark then Inr obs
      else (let data = drop (length data_mark) line
            in if data = ''[DONE]'' then Inr (fst obs, fst (snd obs), True)
               else (case te_loads te data of
                       None \<Rightarrow> Inl ''JSONDecodeError''
                     | Some event \<Rightarrow> observe_event te event obs)))"

fun observe_lines :: "text_env \<Rightarrow> string list \<Rightarrow> observation \<Rightarrow> string + observation" where
  "observe_lines te [] obs = Inr obs"
| "observe_lines te (l # ls) obs = bind_res (observe_line te l obs) (observe_lines te ls)"

definition stream_observation :: "text_env \<Rightarrow> string \<Rightarrow> string + string \<times> string option \<times> bool" where
  "stream_observation te content =
     bind_res (observe_lines te (splitlines content) ([], None, False)) (\<lambda>(chunks, error, saw_done).
       Inr (concat chunks, error, saw_done))"

section \<open>The verdict on a case\<close>

record case_exchange =
  cx_before :: samples
  cx_after :: samples
  cx_status :: int
  cx_headers :: "(string \<times> string) list"
  cx_text :: string
  cx_elapsed_ms :: pyfloat
  cx_counts :: json

record case_result =
  ca_fault :: string
  ca_status :: int
  ca_provider :: "string option"
  ca_fallbacks :: int
  ca_error :: "string option"
  ca_content :: string
  ca_done :: bool
  ca_elapsed_ms :: pyfloat
  ca_counts :: json
  ca_deltas :: "delta_row list"
  ca_passed :: bool

text \<open>\<open>round(x, 3)\<close>\<close>

definition round_millis :: "pyfloat \<Rightarrow> pyfloat" where
  "round_millis x = flt_round (of_int (round_half_even (x * 1000)) / 1000)"

fun expected_failure :: "fault_scenario \<Rightarrow> (string \<times> string) option" where
  "expected_failure FaultRateLimited = Some (''managed-premium'', ''rate_limited'')"
| "expected_failure FaultServerError = Some (''managed-premium'', ''provider_5xx'')"
| "expected_failure FaultTimeout = Some (''managed-premium'', ''timeout'')"
| "expected_failure FaultMalformed = Some (''private-vllm'', ''malformed_response'')"
| "expected_failure FaultStreamFail = Some (''private-vllm'', ''malformed_response'')"
| "expected_failure FaultInBand = Some (''managed-premium'', ''provider_5xx'')"
| "expected_failure _ = None"

text \<open>\<open>str(response.json()["error"]["code"])\<close>\<close>

definition body_error_code :: "text_env \<Rightarrow> string \<Rightarrow> string + string" where
  "body_error_code te body =
     (case te_loads te body of
        None \<Rightarrow> Inl ''JSONDecodeError''
      | Some v \<Rightarrow>
          bind_res (json_item v ''error'') (\<lambda>e.
          bind_res (json_item e ''code'') (\<lambda>code. Inr (py_str te code))))"

definition case_observation ::
    "data_env \<Rightarrow> fault_case \<Rightarrow> case_exchange \<Rightarrow> string + string \<times> string option \<times> bool" where
  "case_observation de c x =
     (let te = de_text de
      in if fa_stream c then stream_observation te (cx_text x)
         else if 300 \<le> cx_status x
         then bind_res (body_error_code te (cx_text x)) (\<lambda>code. Inr ('''', Some code, False))
         else Inr ('''', None, False))"

text \<open>\<open>counts == expected\<close> for a dictionary.\<close>

definition counts_are :: "json \<Rightarrow> (string \<times> int) list \<Rightarrow> bool" where
  "counts_are counts expected =
     json_eq counts (JObj (map (\<lambda>(k, n). (k, JInt n)) expected))"

definition fault_specific ::
    "fault_case \<Rightarrow> case_exchange \<Rightarrow> string \<Rightarrow> bool \<Rightarrow> bool" where
  "fault_specific c x content saw_done =
     (let f = fault_scenario_value (fa_fault c)
      in (fa_fault c = FaultTimeout \<longrightarrow> cx_elapsed_ms x < 600)
         \<and> (fa_fault c = FaultStreamFail \<longrightarrow>
              content = ''fault mock'' \<and> \<not> saw_done \<and> counts_are (cx_counts x) [(f, 1)])
         \<and> (fa_fault c = FaultInBand \<longrightarrow>
              counts_are (cx_counts x) [(f, 1), (fault_scenario_value FaultOk, 1)]))"

definition run_case :: "data_env \<Rightarrow> fault_case \<Rightarrow> case_exchange \<Rightarrow> string + case_result" where
  "run_case de c x =
     bind_res (case_observation de c x) (\<lambda>(content, error_code, saw_done).
     bind_res (case de_int de (case header (cx_headers x) ''X-Gateway-Fallback-Count'' of
                                 None \<Rightarrow> ''0'' | Some s \<Rightarrow> s) of
                 None \<Rightarrow> Inl ''ValueError'' | Some n \<Rightarrow> Inr n) (\<lambda>fallbacks.
     case expected_failure (fa_fault c) of
       None \<Rightarrow> Inl ''KeyError''
     | Some (provider, error_class) \<Rightarrow>
         (let deltas = metric_delta (counter_snapshot (cx_before x)) (counter_snapshot (cx_after x));
              seen = header (cx_headers x) ''X-Gateway-Provider''
          in Inr \<lparr>ca_fault = fault_scenario_value (fa_fault c), ca_status = cx_status x, ca_provider = seen,
               ca_fallbacks = fallbacks, ca_error = error_code, ca_content = content, ca_done = saw_done,
               ca_elapsed_ms = round_millis (cx_elapsed_ms x), ca_counts = cx_counts x, ca_deltas = deltas,
               ca_passed =
                 (cx_status x = fa_status c \<and> seen = Some (fa_provider c) \<and> fallbacks = fa_fallbacks c
                  \<and> error_code = fa_error c
                  \<and> has_delta deltas ''gateway_provider_errors_total''
                      [(''provider'', provider), (''error_class'', error_class)]
                  \<and> (has_delta deltas ''gateway_fallback_total'' [] \<longleftrightarrow> fa_fallbacks c = 1)
                  \<and> fault_specific c x content saw_done)\<rparr>)))"

record fault_headline =
  fh_injected :: nat
  fh_passed :: nat
  fh_fallback_faults :: "string list"
  fh_non_replayed :: nat

text \<open>The evidence of all cases: a case that did not pass stops the command before it writes.\<close>

definition fault_evidence ::
    "data_env \<Rightarrow> case_exchange list \<Rightarrow> string + fault_headline \<times> case_result list" where
  "fault_evidence de exchanges =
     bind_res (traverse (\<lambda>(c, x). run_case de c x) (zip fault_cases exchanges)) (\<lambda>scenarios.
       if \<not> list_all ca_passed scenarios then Inl ''fault evidence expectations failed''
       else Inr (\<lparr>fh_injected = length scenarios, fh_passed = length (filter ca_passed scenarios),
                  fh_fallback_faults = map fault_scenario_value
                    [FaultRateLimited, FaultServerError, FaultTimeout, FaultInBand],
                  fh_non_replayed = 1\<rparr>, scenarios))"

section \<open>Event streams of the gateway\<close>

lemma observe_event_chunk:
  assumes "chunk_payload ri c = Some payload"
  shows "observe_event te (JObj payload) (content, error, saw_done)
    = Inr (content @ (if chunk_text c = '''' then [] else [chunk_text c]), error, saw_done)"
proof -
  define d f u where "d = (if chunk_text c = '''' then None else Some (chunk_text c))"
    and "f = (if pc_is_final c then Some (chunk_finish c) else None)"
    and "u = (if pc_is_final c then pc_usage c else None)"
  have p: "payload = completion_chunk (ri_request_id ri) (ri_created ri) (ri_model_alias ri) d f u"
    using assms by (auto simp: chunk_payload_def d_def f_def u_def split: if_splits)
  show ?thesis
    by (simp add: p observe_event_def completion_chunk_keys dict_get_def d_def truthy_str_def)
qed

lemma observe_error_event:
  "observe_event te (error_object message kind code) (content, error, saw_done)
    = Inr (content, Some code, saw_done)"
  by (simp add: observe_event_def error_object_def)

lemma observe_line_frame:
  assumes "travels de env v"
  shows "observe_line (de_text de) (data_mark @ ge_dumps env v) obs = observe_event (de_text de) v obs"
  using assms by (simp add: observe_line_def travels_def)

lemma observe_line_blank [simp]: "observe_line te [] obs = Inr obs"
  by (simp add: observe_line_def data_mark_def starts_with_def)

lemma observe_line_done [simp]:
  "observe_line te (data_mark @ ''[DONE]'') (content, error, saw_done) = Inr (content, error, True)"
  by (simp add: observe_line_def)

lemma observe_chunk_lines:
  assumes "list_all (\<lambda>p. travels de env (JObj p)) (List.map_filter (chunk_payload ri) cs)"
  shows "\<exists>content'. concat content' = concat content @ concat (map chunk_text cs)
    \<and> observe_lines (de_text de) (frame_lines (chunk_frames env ri cs) @ tail) (content, error, saw_done)
      = observe_lines (de_text de) tail (content', error, saw_done)"
  using assms
proof (induction cs arbitrary: content)
  case Nil
  then show ?case by (intro exI [of _ content]) (simp add: chunk_frames_def frame_lines_def map_filter_simps)
next
  case (Cons c cs)
  show ?case
  proof (cases "chunk_payload ri c")
    case None
    with Cons.IH [of content] Cons.prems no_payload_fields [OF None] show ?thesis
      by (simp add: chunk_frames_def map_filter_simps)
  next
    case (Some p)
    have travel: "travels de env (JObj p)" using Cons.prems Some by (simp add: map_filter_simps)
    have rest: "list_all (\<lambda>p. travels de env (JObj p)) (List.map_filter (chunk_payload ri) cs)"
      using Cons.prems Some by (simp add: map_filter_simps)
    have step: "observe_lines (de_text de) (frame_lines (chunk_frames env ri (c # cs)) @ tail) (content, error, saw_done)
        = observe_lines (de_text de) (frame_lines (chunk_frames env ri cs) @ tail)
            (content @ (if chunk_text c = '''' then [] else [chunk_text c]), error, saw_done)"
      using Some by (simp add: chunk_frames_def map_filter_simps frame_lines_def observe_line_frame [OF travel]
          observe_event_chunk [OF Some])
    from Cons.IH [OF rest, of "content @ (if chunk_text c = '''' then [] else [chunk_text c])"] show ?thesis
      unfolding step by auto
  qed
qed

text \<open>The texts of a stream, the error it ended with and whether it was completed.\<close>

lemma gateway_stream_observed:
  assumes "event_stream env st ri run w = (frames, False, w')"
    and "list_all (travels de env) (stream_payloads ri run)"
  shows "stream_observation (de_text de) (concat frames)
    = Inr (concat (map (chunk_text \<circ> snd \<circ> snd) (st_chunks run)),
           map_option error_class_value (stream_error_of run), stream_error_of run = None)
    \<and> (stream_error_of run = None \<longleftrightarrow> st_outcome run = Inr ())"
proof -
  let ?cs = "map (snd \<circ> snd) (st_chunks run)"
  define tail where "tail = (case st_outcome run of
      Inl (Raised e) \<Rightarrow> ge_dumps env (error_object (ne_message (pe_error e)) ''provider_error''
                          (error_class_value (ne_class (pe_error e))))
    | _ \<Rightarrow> ''[DONE]'')"
  note split = event_stream_lines [OF assms, folded tail_def]
  have travel: "list_all (\<lambda>p. travels de env (JObj p)) (List.map_filter (chunk_payload ri) ?cs)"
    using assms(2) by (simp add: stream_payloads_def stream_chunk_payloads list_all_iff)
  obtain content where content: "concat content = concat (map chunk_text ?cs)"
    and read: "observe_lines (de_text de) (splitlines (concat frames)) ([], None, False)
      = observe_lines (de_text de) (frame_lines [tail]) (content, None, False)"
    using observe_chunk_lines [OF travel, of "[]" "frame_lines [tail]" None False] split by auto
  have "observe_line (de_text de) (data_mark @ tail) (content, None, False)
      = Inr (content, map_option error_class_value (stream_error_of run), stream_error_of run = None)"
  proof (cases "st_outcome run")
    case (Inr u)
    then show ?thesis by (simp add: tail_def stream_error_of_def)
  next
    case (Inl x)
    then obtain e where e: "st_outcome run = Inl (Raised e)" using split by auto
    have "travels de env (error_object (ne_message (pe_error e)) ''provider_error''
        (error_class_value (ne_class (pe_error e))))"
      using assms(2) by (simp add: stream_payloads_def e)
    from observe_line_frame [OF this] show ?thesis
      by (simp add: tail_def e stream_error_of_def observe_error_event)
  qed
  then have "observe_lines (de_text de) (splitlines (concat frames)) ([], None, False)
      = Inr (content, map_option error_class_value (stream_error_of run), stream_error_of run = None)"
    by (simp add: read frame_lines_def)
  moreover have "stream_error_of run = None \<longleftrightarrow> st_outcome run = Inr ()"
    using split by (auto simp: stream_error_of_def)
  ultimately show ?thesis
    using content by (simp add: stream_observation_def comp_assoc)
qed

section \<open>Scrapes of the gateway\<close>

lemma snapshot_keys: "distinct (map fst (counter_snapshot samples))"
proof -
  have "distinct (map fst (foldl (\<lambda>d (name, ls, v). if name \<in> set evidence_counters
      then AList.update (name, sort ls) v d else d) d samples))"
    if "distinct (map fst d)" for d :: "(series \<times> pyfloat) list"
    using that by (induction samples arbitrary: d) (auto simp: distinct_update)
  then show ?thesis by (simp add: counter_snapshot_def)
qed

text \<open>The last sample of a series counts.\<close>

definition sample_entry :: "string \<times> (string \<times> string) list \<times> pyfloat \<Rightarrow> (series \<times> pyfloat) option" where
  "sample_entry p =
     (let (name, ls, v) = p in if name \<in> set evidence_counters then Some ((name, sort ls), v) else None)"

lemma snapshot_map:
  "map_of (counter_snapshot samples) = map_of (rev (List.map_filter sample_entry samples))"
proof -
  have "map_of (foldl (\<lambda>d (name, ls, v). if name \<in> set evidence_counters
      then AList.update (name, sort ls) v d else d) d samples)
      = map_of d ++ map_of (rev (List.map_filter sample_entry samples))"
    for d :: "(series \<times> pyfloat) list"
    by (induction samples arbitrary: d) (auto simp: map_filter_simps sample_entry_def update_conv' map_add_assoc)
  from this [of "[]"] show ?thesis by (simp add: counter_snapshot_def)
qed

lemma set_map_filter_iff: "y \<in> set (List.map_filter f xs) \<longleftrightarrow> (\<exists>x \<in> set xs. f x = Some y)"
  by (induction xs) (auto simp: map_filter_simps split: option.split)

lemma snapshot_member:
  assumes "((name, ls), v) \<in> set (counter_snapshot samples)"
  shows "name \<in> set evidence_counters \<and> (\<exists>raw. (name, raw, v) \<in> set samples \<and> ls = sort raw)"
proof -
  have "map_of (rev (List.map_filter sample_entry samples)) (name, ls) = Some v"
    using map_of_is_SomeI [OF snapshot_keys assms] by (simp only: snapshot_map)
  from map_of_SomeD [OF this] obtain p where "p \<in> set samples" "sample_entry p = Some ((name, ls), v)"
    by (auto simp: set_map_filter_iff)
  moreover obtain n raw x where "p = (n, raw, x)" by (cases p)
  ultimately show ?thesis by (auto simp: sample_entry_def split: if_splits)
qed

text \<open>The rows of a comparison of two scrapes are the series that rose, with what they rose by.\<close>

lemma metric_delta_rows:
  "row \<in> set (metric_delta before after) \<longleftrightarrow>
     (\<exists>v. ((dr_metric row, dr_labels row), v) \<in> set after \<and> 0 < dr_delta row
        \<and> dr_delta row = fsub v (case map_of before (dr_metric row, dr_labels row) of None \<Rightarrow> 0 | Some x \<Rightarrow> x))"
  by (cases row) (force simp: metric_delta_def List.map_filter_def Let_def image_iff split: if_splits)

lemma has_delta_rose:
  assumes "has_delta (metric_delta before after) metric wanted"
  shows "\<exists>ls v. ((metric, ls), v) \<in> set after \<and> (\<forall>(k, x) \<in> set wanted. map_of ls k = Some x)
    \<and> 0 < fsub v (case map_of before (metric, ls) of None \<Rightarrow> 0 | Some x \<Rightarrow> x)"
proof -
  obtain row where row: "row \<in> set (metric_delta before after)" "dr_metric row = metric"
    "list_all (\<lambda>(k, x). map_of (dr_labels row) k = Some x) wanted"
    using assms by (auto simp: has_delta_def list_ex_iff)
  then obtain v where "((metric, dr_labels row), v) \<in> set after"
    "0 < fsub v (case map_of before (metric, dr_labels row) of None \<Rightarrow> 0 | Some x \<Rightarrow> x)"
    unfolding metric_delta_rows by auto
  with row(3) show ?thesis unfolding list_all_iff by blast
qed

text \<open>What a scrape of the gateway says of the request counter: each label tuple once, with its value,
  and every tuple that was ever counted.\<close>

definition request_label_names :: "string list" where
  "request_label_names = [''provider'', ''model_alias'', ''workload'', ''team'', ''outcome'']"

definition requests_name :: string where
  "requests_name = ''gateway_requests_total''"

definition request_labelling :: "labels \<Rightarrow> (string \<times> string) list" where
  "request_labelling ls = zip request_label_names ls"

definition scrapes :: "gateway_metrics \<Rightarrow> samples \<Rightarrow> bool" where
  "scrapes m samples \<longleftrightarrow>
     (\<forall>(name, raw, v) \<in> set samples. name = requests_name \<longrightarrow>
        (\<exists>ls. length ls = 5 \<and> raw = request_labelling ls \<and> v = mt_requests m ls))
     \<and> (\<forall>ls. length ls = 5 \<and> mt_requests m ls \<noteq> 0 \<longrightarrow>
          (requests_name, request_labelling ls, mt_requests m ls) \<in> set samples)"

lemma labelling_inj:
  assumes "sort (request_labelling ls) = sort (request_labelling ls')" "length ls = 5" "length ls' = 5"
  shows "ls = ls'"
proof -
  have "mset (request_labelling ls) = mset (request_labelling ls')"
    using assms(1) by (metis mset_sort)
  then have "map_of (request_labelling ls) = map_of (request_labelling ls')"
    using assms(2,3) by (intro map_of_inject_set [THEN iffD2])
      (auto simp: request_labelling_def request_label_names_def dest: mset_eq_setD)
  moreover have "map (\<lambda>k. the (map_of (request_labelling xs) k)) request_label_names = xs" if "length xs = 5" for xs
    using that by (auto simp: request_labelling_def request_label_names_def length_Suc_conv numeral_eq_Suc)
  ultimately show ?thesis using assms(2,3) by metis
qed

lemma scraped_value:
  assumes "scrapes m samples" "length ls = 5"
  shows "(case map_of (counter_snapshot samples) (requests_name, sort (request_labelling ls)) of
      None \<Rightarrow> 0 | Some x \<Rightarrow> x) = mt_requests m ls"
    and "mt_requests m ls \<noteq> 0 \<Longrightarrow>
      ((requests_name, sort (request_labelling ls)), mt_requests m ls) \<in> set (counter_snapshot samples)"
proof -
  let ?k = "(requests_name, sort (request_labelling ls))"
  have only: "v = mt_requests m ls" if "(?k, v) \<in> set (counter_snapshot samples)" for v
    using snapshot_member [OF that] assms labelling_inj [of _ ls] unfolding scrapes_def by fastforce
  have present: "map_of (counter_snapshot samples) ?k \<noteq> None" if "mt_requests m ls \<noteq> 0"
  proof -
    have "(requests_name, request_labelling ls, mt_requests m ls) \<in> set samples"
      using assms that unfolding scrapes_def by blast
    moreover have "sample_entry (requests_name, request_labelling ls, mt_requests m ls) = Some (?k, mt_requests m ls)"
      by (simp add: sample_entry_def evidence_counters_def requests_name_def)
    ultimately have "(?k, mt_requests m ls) \<in> set (List.map_filter sample_entry samples)"
      by (auto simp: set_map_filter_iff)
    then have "?k \<in> fst ` set (List.map_filter sample_entry samples)" by force
    then show ?thesis by (simp add: snapshot_map map_of_eq_None_iff)
  qed
  show "(case map_of (counter_snapshot samples) ?k of None \<Rightarrow> 0 | Some x \<Rightarrow> x) = mt_requests m ls"
    using present only by (cases "mt_requests m ls = 0") (auto split: option.split dest: map_of_SomeD)
  show "(?k, mt_requests m ls) \<in> set (counter_snapshot samples)" if "mt_requests m ls \<noteq> 0"
    using present [OF that] only by (auto dest: map_of_SomeD)
qed

lemma float_counts:
  assumes "x = of_int c" "0 \<le> c" "c < 2 ^ 53"
  shows "fadd x 1 = x + 1" "fsub (x + 1) x = 1" "fsub x x = 0"
  using assms flt_round_int [of "c + 1"] flt_round_int [of 1] flt_round_int [of 0]
  by (simp_all add: fadd_def fsub_def)

lemma evidence_of_count:
  assumes "counted m m' ls0" "length ls0 = 5" "scrapes m before" "scrapes m' after"
    and "\<And>ls. \<exists>c. mt_requests m ls = of_int c \<and> 0 \<le> c \<and> c < 2 ^ 53"
  shows "{row \<in> set (metric_delta (counter_snapshot before) (counter_snapshot after)). dr_metric row = requests_name}
    = {\<lparr>dr_metric = requests_name, dr_labels = sort (request_labelling ls0), dr_delta = 1\<rparr>}"
proof -
  let ?row = "\<lparr>dr_metric = requests_name, dr_labels = sort (request_labelling ls0), dr_delta = 1\<rparr>"
  have other: "mt_requests m' ls = mt_requests m ls" if "ls \<noteq> ls0" for ls
    using assms(1) that by (simp add: counted_def counter_inc_def)
  obtain c where c: "mt_requests m ls0 = of_int c" "0 \<le> c" "c < 2 ^ 53" using assms(5) by blast
  have one: "mt_requests m' ls0 = mt_requests m ls0 + 1" "mt_requests m' ls0 \<noteq> 0"
    using assms(1) float_counts(1) [OF c] c by (simp_all add: counted_def counter_inc_def)
  note prior = scraped_value(1) [OF assms(3)]
  have only: "row = ?row"
    if row: "row \<in> set (metric_delta (counter_snapshot before) (counter_snapshot after))"
      and name: "dr_metric row = requests_name" for row
  proof -
    obtain v where v: "((requests_name, dr_labels row), v) \<in> set (counter_snapshot after)" "0 < dr_delta row"
      "dr_delta row = fsub v (case map_of (counter_snapshot before) (requests_name, dr_labels row) of
        None \<Rightarrow> 0 | Some x \<Rightarrow> x)"
      using row name unfolding metric_delta_rows by auto
    obtain raw where "(requests_name, raw, v) \<in> set after" "dr_labels row = sort raw"
      using snapshot_member [OF v(1)] by blast
    then obtain ls where ls: "length ls = 5" "dr_labels row = sort (request_labelling ls)" "v = mt_requests m' ls"
      using assms(4) unfolding scrapes_def by fastforce
    have delta: "dr_delta row = fsub (mt_requests m' ls) (mt_requests m ls)"
      using v(3) prior [OF ls(1)] by (simp add: ls)
    have "ls = ls0"
    proof (rule ccontr)
      assume "ls \<noteq> ls0"
      obtain k where "mt_requests m ls = of_int k" "0 \<le> k" "k < 2 ^ 53" using assms(5) by blast
      from float_counts(3) [OF this] v(2) show False by (simp add: delta other [OF \<open>ls \<noteq> ls0\<close>])
    qed
    then show ?thesis
      using delta one(1) float_counts(2) [OF c] name ls(2) by (cases row) simp
  qed
  have there: "?row \<in> set (metric_delta (counter_snapshot before) (counter_snapshot after))"
  proof -
    have "fsub (mt_requests m' ls0) (case map_of (counter_snapshot before)
        (requests_name, sort (request_labelling ls0)) of None \<Rightarrow> 0 | Some x \<Rightarrow> x) = 1"
      by (simp only: prior [OF assms(2)] one(1) float_counts(2) [OF c])
    with scraped_value(2) [OF assms(4,2) one(2)] show ?thesis
      unfolding metric_delta_rows by (intro exI [of _ "mt_requests m' ls0"]) simp
  qed
  have name: "dr_metric ?row = requests_name" by simp
  show ?thesis using only there name by blast
qed

section \<open>Properties\<close>

text \<open>
  C37. A passed case says what the gateway did: on a case with a stream, read from the frames the
  gateway sent, the executor ended as the case expects, after exactly the text the case expects where
  a stream breaks; and on every case the expected provider error was counted between the scrapes, and
  a fallback was counted exactly if one was expected.
\<close>

theorem passed_case_sound:
  assumes "run_case de c x = Inr r" "ca_passed r" "c \<in> set fault_cases"
    and "fa_stream c \<longrightarrow> event_stream env st ri run w = (frames, False, w') \<and> cx_text x = concat frames
      \<and> list_all (travels de env) (stream_payloads ri run)"
  shows "(fa_stream c \<longrightarrow>
      (case fa_error c of
         None \<Rightarrow> st_outcome run = Inr ()
       | Some code \<Rightarrow> (\<exists>e. st_outcome run = Inl (Raised e) \<and> error_class_value (ne_class (pe_error e)) = code)
           \<and> concat (map (chunk_text \<circ> snd \<circ> snd) (st_chunks run)) = ''fault mock''))
    \<and> (\<exists>provider class ls v. expected_failure (fa_fault c) = Some (provider, class)
        \<and> ((''gateway_provider_errors_total'', ls), v) \<in> set (counter_snapshot (cx_after x))
        \<and> map_of ls ''provider'' = Some provider \<and> map_of ls ''error_class'' = Some class
        \<and> 0 < fsub v (case map_of (counter_snapshot (cx_before x)) (''gateway_provider_errors_total'', ls) of
            None \<Rightarrow> 0 | Some y \<Rightarrow> y))
    \<and> (fa_fallbacks c = 1 \<longleftrightarrow> (\<exists>row \<in> set (ca_deltas r). dr_metric row = ''gateway_fallback_total''))"
proof -
  let ?deltas = "metric_delta (counter_snapshot (cx_before x)) (counter_snapshot (cx_after x))"
  obtain content code saw_done provider cl where obs: "case_observation de c x = Inr (content, code, saw_done)"
    and failure: "expected_failure (fa_fault c) = Some (provider, cl)"
    and passed: "code = fa_error c" "fault_specific c x content saw_done"
      "has_delta ?deltas ''gateway_provider_errors_total'' [(''provider'', provider), (''error_class'', cl)]"
      "has_delta ?deltas ''gateway_fallback_total'' [] \<longleftrightarrow> fa_fallbacks c = 1"
    and deltas: "ca_deltas r = ?deltas"
    using assms(1,2) by (auto simp: run_case_def bind_res_Inr Let_def split: option.splits prod.splits)
  have stream: "case fa_error c of
      None \<Rightarrow> st_outcome run = Inr ()
    | Some code \<Rightarrow> (\<exists>e. st_outcome run = Inl (Raised e) \<and> error_class_value (ne_class (pe_error e)) = code)
        \<and> concat (map (chunk_text \<circ> snd \<circ> snd) (st_chunks run)) = ''fault mock''" if s: "fa_stream c"
  proof -
    have frames: "event_stream env st ri run w = (frames, False, w')" "cx_text x = concat frames"
      "list_all (travels de env) (stream_payloads ri run)" using assms(4) s by auto
    note seen = gateway_stream_observed [OF frames(1,3)]
    have "content = concat (map (chunk_text \<circ> snd \<circ> snd) (st_chunks run))"
      "fa_error c = map_option error_class_value (stream_error_of run)"
      using obs passed(1) seen s frames(2) by (auto simp: case_observation_def)
    moreover have "fa_error c \<noteq> None \<longrightarrow> fa_fault c = FaultStreamFail"
      using assms(3) s by (auto simp: fault_cases_def fallback_case_def)
    ultimately show ?thesis
      using passed(2) seen
      by (auto simp: fault_specific_def Let_def stream_error_of_def split: option.splits sum.splits exec_error.splits)
  qed
  show ?thesis
    using stream failure has_delta_rose [OF passed(3)] passed(4) unfolding deltas has_delta_def list_ex_iff
    by auto
qed

text \<open>
  The evidence sees every answered request once: between a scrape before and a scrape after an
  admitted request that the endpoint answers, whatever the outcome, exactly one series of
  \<open>gateway_requests_total\<close> rises, by one, under the workload and the authenticated team of the
  request; for request counts below \<open>2 ^ 53\<close>.
\<close>

theorem evidence_counts_one_request:
  assumes "admission env st http = Inr ad"
    and "hd_result (chat_completions env st http now w) = Inr response"
    and "scrapes (gw_metrics w) before"
    and "scrapes (gw_metrics (hd_world (chat_completions env st http now w))) after"
    and "\<And>ls. \<exists>c. mt_requests (gw_metrics w) ls = of_int c \<and> 0 \<le> c \<and> c < 2 ^ 53"
  shows "\<exists>provider model_alias outcome.
    {row \<in> set (metric_delta (counter_snapshot before) (counter_snapshot after)). dr_metric row = requests_name}
    = {\<lparr>dr_metric = requests_name, dr_labels =
          sort (request_labelling [provider, model_alias, ad_workload ad, ad_team ad, outcome]), dr_delta = 1\<rparr>}"
proof -
  obtain provider model_alias outcome where "counted (gw_metrics w)
      (gw_metrics (hd_world (chat_completions env st http now w)))
      [provider, model_alias, ad_workload ad, ad_team ad, outcome]"
    using answered_counted [OF assms(1,2)] by blast
  from evidence_of_count [OF this _ assms(3-5)] show ?thesis by (intro exI) simp
qed

section \<open>The properties at concrete inputs\<close>

definition broken_run :: stream_run where
  "broken_run =
     \<lparr>st_chunks = [(''private-vllm'', 0, text_chunk ''private-vllm'' ''m'' 0 ''fault mock'')],
      st_outcome = Inl (Raised (with_attempts no_replay_error [])), st_log = [], st_time = 0, st_calls = []\<rparr>"

definition broken_payload :: json where
  "broken_payload = hd (stream_payloads cut_info broken_run)"

definition broken_env :: gateway_env where
  "broken_env = (lab_env (lab_wire True))\<lparr>ge_dumps := (\<lambda>v. if v = broken_payload then ''P'' else ''E'')\<rparr>"

definition broken_data :: data_env where
  "broken_data = lab_data_env\<lparr>de_text := lab_text\<lparr>te_loads := map_of [(''P'', broken_payload), (''E'', cut_error)]\<rparr>,
     de_int := (\<lambda>s. if s = ''0'' then Some 0 else None)\<rparr>"

definition broken_exchange :: case_exchange where
  "broken_exchange =
     \<lparr>cx_before = [], cx_after = [(''gateway_provider_errors_total'',
        [(''provider'', ''private-vllm''), (''error_class'', ''malformed_response'')], 1)],
      cx_status = 200, cx_headers = [(''x-gateway-provider'', ''private-vllm'')],
      cx_text = concat [sse_frame ''P'', sse_frame ''E''], cx_elapsed_ms = 5,
      cx_counts = JObj [(''stream_fail_after_first_chunk'', JInt 1)]\<rparr>"

lemma broken_stream:
  "\<exists>w'. event_stream broken_env lab_state cut_info broken_run lab_world
      = ([sse_frame ''P'', sse_frame ''E''], False, w')"
  "list_all (travels broken_data broken_env) (stream_payloads cut_info broken_run)"
proof -
  have "fst (event_stream broken_env lab_state cut_info broken_run lab_world) = [sse_frame ''P'', sse_frame ''E'']
    \<and> \<not> fst (snd (event_stream broken_env lab_state cut_info broken_run lab_world))"
    by code_simp
  then show "\<exists>w'. event_stream broken_env lab_state cut_info broken_run lab_world
      = ([sse_frame ''P'', sse_frame ''E''], False, w')"
    by (cases "event_stream broken_env lab_state cut_info broken_run lab_world") auto
  have payloads: "stream_payloads cut_info broken_run = [broken_payload, cut_error]"
    and travel: "list_all (travels broken_data broken_env) [broken_payload, cut_error]"
    by code_simp+
  show "list_all (travels broken_data broken_env) (stream_payloads cut_info broken_run)"
    unfolding payloads by (rule travel)
qed

theorem passed_case_sound_witness:
  "\<exists>e. st_outcome broken_run = Inl (Raised e) \<and> ne_class (pe_error e) = StreamStartedFailure"
proof -
  let ?c = "fault_cases ! 4"
  have "case run_case broken_data ?c broken_exchange of Inl e \<Rightarrow> False | Inr r \<Rightarrow> ca_passed r"
    by code_simp
  then obtain r where r: "run_case broken_data ?c broken_exchange = Inr r" "ca_passed r"
    by (auto split: sum.splits)
  have c: "?c \<in> set fault_cases" "fa_stream ?c" "fa_error ?c = Some ''stream_started_failure''"
    by (simp_all add: fault_cases_def)
  obtain w' where w': "event_stream broken_env lab_state cut_info broken_run lab_world
      = ([sse_frame ''P'', sse_frame ''E''], False, w')"
    using broken_stream(1) by blast
  have code: "error_class_value k = ''stream_started_failure'' \<Longrightarrow> k = StreamStartedFailure" for k
    by (cases k) simp_all
  from passed_case_sound [OF r c(1), of broken_env lab_state cut_info broken_run lab_world _ w'] show ?thesis
    using w' broken_stream(2) c(2,3) code by (auto simp: broken_exchange_def)
qed

lemma lab_answered:
  "\<exists>response. hd_result (chat_completions (lab_env (lab_wire False)) lab_state
     (lab_http ''public'' (Some ''k'')) 0 lab_world) = Inr response"
  by (simp add: chat_completions_def lab_admission lab_route non_streamed_def lab_run_public Let_def
      record_result_metrics_def gs_price_def split: option.splits)

theorem evidence_counts_one_request_witness:
  "\<exists>after provider model_alias outcome.
    {row \<in> set (metric_delta (counter_snapshot []) (counter_snapshot after)). dr_metric row = requests_name}
    = {\<lparr>dr_metric = requests_name, dr_labels =
          sort (request_labelling [provider, model_alias, ''generic'', ''platform-lab'', outcome]), dr_delta = 1\<rparr>}"
proof -
  let ?http = "lab_http ''public'' (Some ''k'')" and ?env = "lab_env (lab_wire False)"
  let ?m = "gw_metrics (hd_world (chat_completions ?env lab_state ?http 0 lab_world))"
  obtain response where response: "hd_result (chat_completions ?env lab_state ?http 0 lab_world) = Inr response"
    using lab_answered by blast
  obtain ls where ls: "counted (gw_metrics lab_world) ?m ls" "length ls = 5"
    using answered_counted [OF lab_admission(2) response] by fastforce
  have zero: "mt_requests (gw_metrics lab_world) ls = 0" for ls
    by (simp add: lab_world_def new_metrics_def)
  have m: "mt_requests ?m = (\<lambda>_. 0)(ls := 1)"
    using ls(1) float_counts(1) [of 0 0] zero by (auto simp: counted_def counter_inc_def fun_eq_iff)
  have before: "scrapes (gw_metrics lab_world) []" by (simp add: scrapes_def zero)
  have after: "scrapes ?m [(requests_name, request_labelling ls, 1)]"
    using ls(2) unfolding scrapes_def m by auto
  have counts: "\<exists>c. mt_requests (gw_metrics lab_world) ls = of_int c \<and> 0 \<le> c \<and> c < 2 ^ 53" for ls
    by (intro exI [of _ 0]) (simp add: zero)
  from evidence_counts_one_request [OF lab_admission(2) response before after counts] show ?thesis
    unfolding lab_admitted_sel by blast
qed

end
