(* ===== verification/Publication.thy ===== *)
theory Publication
  imports Manifest
begin

text \<open>
  Publishing a reviewed run (\<open>scripts/publish-run.py\<close>): the validation of its directory, the exact
  decimal arithmetic of the published costs, the two charts, the read-me and the record reference,
  and the assembly in a staging directory that is renamed into place. The state is a file system of
  texts and directories. The decoders, SHA-256 and \<open>str\<close> of a compound value are parameters; the
  sign of a zero is not kept. A \<open>PublicationError\<close> is \<open>Inl\<close> of its message.
\<close>

section \<open>Decimals with their digits\<close>

text \<open>A decimal number as Python keeps it, coefficient and exponent: \<open>0.50\<close> is \<open>(50, -2)\<close>.\<close>

type_synonym scaled = "int \<times> int"

definition scaled_value :: "scaled \<Rightarrow> rat" where
  "scaled_value d = scale10 (snd d) (of_int (fst d))"

definition digit_count :: "int \<Rightarrow> nat" where
  "digit_count c = length (str_nat (nat \<bar>c\<bar>))"

text \<open>Rounding the coefficient to a number of digits, ties to even.\<close>

definition fix_digits :: "nat \<Rightarrow> scaled \<Rightarrow> scaled" where
  "fix_digits p d =
     (let (c, e) = d; k = digit_count c - p; c' = round_half_even (of_int c / 10 ^ k)
      in if digit_count c \<le> p then d
         else if digit_count c' \<le> p then (c', e + int k)
         else (c' div 10, e + int k + 1))"

definition scaled_add :: "nat \<Rightarrow> scaled \<Rightarrow> scaled \<Rightarrow> scaled" where
  "scaled_add p d d' =
     (let (c, e) = d; (c', e') = d'; low = min e e'
      in fix_digits p (c * 10 ^ nat (e - low) + c' * 10 ^ nat (e' - low), low))"

definition scaled_mul :: "nat \<Rightarrow> scaled \<Rightarrow> scaled \<Rightarrow> scaled" where
  "scaled_mul p d d' = fix_digits p (fst d * fst d', snd d + snd d')"

definition sum_exact :: "scaled list \<Rightarrow> scaled" where
  "sum_exact ds =
     (let precision = max 50 (sum_list (map (digit_count \<circ> fst) ds) + 4)
      in foldl (scaled_add precision) (0, 0) ds)"

section \<open>Numbers as text\<close>

text \<open>\<open>format(d, "f")\<close> and \<open>format(d, ".nf")\<close>; a float has the text of its exact value.\<close>

definition plain_text :: "scaled \<Rightarrow> string" where
  "plain_text d =
     (let (c, e) = d; sign = (if c < 0 then ''-'' else '''');
          places = nat (- e); digits = str_nat (nat (\<bar>c\<bar> * 10 ^ nat e));
          padded_digits = replicate (places + 1 - length digits) (CHR ''0'') @ digits;
          whole = length padded_digits - places
      in sign @ take whole padded_digits
         @ (if places = 0 then '''' else CHR ''.'' # drop whole padded_digits))"

definition fixed_text :: "nat \<Rightarrow> rat \<Rightarrow> string" where
  "fixed_text places x = plain_text (round_half_even (x * 10 ^ places), - int places)"

definition truncated_decimal :: "scaled \<Rightarrow> string" where
  "truncated_decimal d =
     (let rendered = plain_text d
      in if length rendered \<le> 14 then rendered else take 14 rendered @ ''...'')"

text \<open>\<open>Decimal(s)\<close> with its digits; blanks and underscores as in \<open>parse_decimal\<close>.\<close>

definition parse_scaled :: "string \<Rightarrow> scaled option" where
  "parse_scaled s0 =
     (let s = filter (\<lambda>c. c \<noteq> CHR ''_'') (Config_Schema.strip s0);
          (sg, body) = split_sign s;
          whole = takeWhile is_digit body;
          rest = dropWhile is_digit body;
          (frac, tl) =
            (case rest of
               CHR ''.'' # r \<Rightarrow> (takeWhile is_digit r, dropWhile is_digit r)
             | _ \<Rightarrow> ([], rest));
          c = digits_value (whole @ frac)
      in if whole = [] \<and> frac = [] then None
         else map_option (\<lambda>e. (if sg < 0 then - c else c, e - int (length frac))) (parse_exponent tl))"

section \<open>Documents\<close>

text \<open>What \<open>json.loads(text, parse_float=Decimal)\<close> yields; \<open>NaN\<close> and the infinities stay floats.\<close>

datatype doc =
    DNull
  | DBool bool
  | DInt int
  | DDec scaled
  | DNonFinite string
  | DStr string
  | DArr "doc list"
  | DObj "(string \<times> doc) list"

type_synonym doc_object = "(string \<times> doc) list"

record publish_env =
  pe_yaml :: "string \<Rightarrow> json option"
  pe_loads :: "string \<Rightarrow> doc option"
  pe_str :: "doc \<Rightarrow> string"
  pe_sha256 :: "string \<Rightarrow> string"
  pe_schema :: string

fun doc_truthy :: "doc \<Rightarrow> bool" where
  "doc_truthy DNull = False"
| "doc_truthy (DBool b) = b"
| "doc_truthy (DInt i) = (i \<noteq> 0)"
| "doc_truthy (DDec d) = (fst d \<noteq> 0)"
| "doc_truthy (DNonFinite s) = True"
| "doc_truthy (DStr s) = (s \<noteq> '''')"
| "doc_truthy (DArr xs) = (xs \<noteq> [])"
| "doc_truthy (DObj kvs) = (kvs \<noteq> [])"

fun doc_str :: "publish_env \<Rightarrow> doc \<Rightarrow> string" where
  "doc_str pe DNull = ''None''"
| "doc_str pe (DBool b) = (if b then ''True'' else ''False'')"
| "doc_str pe (DInt i) = str_int i"
| "doc_str pe (DStr s) = s"
| "doc_str pe v = pe_str pe v"

definition doc_get :: "doc_object \<Rightarrow> string \<Rightarrow> doc" where
  "doc_get kvs k = (case map_of kvs k of None \<Rightarrow> DNull | Some v \<Rightarrow> v)"

fun nested_mapping :: "doc \<Rightarrow> string \<Rightarrow> string + doc_object" where
  "nested_mapping (DObj kvs) field = Inr kvs"
| "nested_mapping v field = Inl (field @ '' must be a mapping'')"

text \<open>\<open>_decimal\<close>\<close>

fun metric_value :: "doc \<Rightarrow> string + scaled option" where
  "metric_value DNull = Inr None"
| "metric_value (DBool b) = Inl ''metric values must be decimal numbers or null''"
| "metric_value (DDec d) = Inr (Some d)"
| "metric_value (DInt i) = Inr (Some (i, 0))"
| "metric_value (DStr s) =
     (case parse_scaled s of None \<Rightarrow> Inl ''invalid decimal metric value'' | Some d \<Rightarrow> Inr (Some d))"
| "metric_value (DNonFinite s) = Inl ''metric value must be finite''"
| "metric_value v = Inl ''invalid decimal metric value''"

section \<open>The published costs\<close>

definition observed_paths :: "doc_object \<Rightarrow> string + bool \<times> bool" where
  "observed_paths summary =
     bind_res (nested_mapping (doc_get summary ''cost'') ''summary cost'') (\<lambda>cost.
       Inr (case doc_get cost ''observed_path_applicability'' of
              DObj paths \<Rightarrow> (doc_get paths ''managed'' = DBool True, doc_get paths ''private'' = DBool True)
            | _ \<Rightarrow> (False, False)))"

definition sum_present :: "scaled option list \<Rightarrow> scaled option" where
  "sum_present values =
     (let present = List.map_filter (\<lambda>v. v) values
      in if present = [] then None else Some (sum_exact present))"

definition repeat_cost :: "doc_object \<Rightarrow> bool \<times> bool \<Rightarrow> string + scaled option" where
  "repeat_cost row observed =
     (case map_of row ''view_a_cost_per_correct_task_usd'' of
        Some v \<Rightarrow> metric_value v
      | None \<Rightarrow>
          bind_res (metric_value (doc_get row ''view_a_managed_cost_per_correct_task_usd'')) (\<lambda>managed.
          bind_res (metric_value (doc_get row ''view_a_private_cost_per_correct_task_usd'')) (\<lambda>privately.
          Inr (case observed of
                 (True, False) \<Rightarrow> managed
               | (False, True) \<Rightarrow> privately
               | _ \<Rightarrow> sum_present [managed, privately]))))"

definition overall_cost :: "doc_object \<Rightarrow> string + scaled option" where
  "overall_cost summary =
     bind_res (nested_mapping (doc_get summary ''cost'') ''summary cost'') (\<lambda>cost.
     bind_res (observed_paths summary) (\<lambda>(managed, privately).
     if managed \<noteq> privately
     then bind_res (nested_mapping (doc_get cost ''views'') ''summary cost.views'') (\<lambda>views.
          bind_res (nested_mapping (doc_get views ''view_a'') ''summary cost.views.view_a'') (\<lambda>view_a.
          let route = (if managed then ''managed'' else ''private'')
          in bind_res (nested_mapping (doc_get view_a route) (''summary View A '' @ route @ '' cost'')) (\<lambda>c.
             metric_value (doc_get c ''cost_per_correct_task_usd''))))
     else bind_res (nested_mapping (doc_get cost ''hybrid_combined_view_a'')
                      ''summary cost.hybrid_combined_view_a'') (\<lambda>c.
          metric_value (doc_get c ''cost_per_correct_task_usd''))))"

definition repeat_rows :: "doc_object \<Rightarrow> string + doc_object list" where
  "repeat_rows summary =
     bind_res (nested_mapping (doc_get summary ''repeats'') ''summary repeats'') (\<lambda>repeats.
       case doc_get repeats ''values'' of
         DArr rows \<Rightarrow>
           traverse (\<lambda>r. case r of DObj kvs \<Rightarrow> Inr kvs
                          | _ \<Rightarrow> Inl ''summary repeats.values entries must be mappings'') rows
       | _ \<Rightarrow> Inl ''summary repeats.values must be a list'')"


section \<open>Charts\<close>

text \<open>\<open>html.escape\<close>, and an element without its closing character: indentation, name, attributes.\<close>

definition html_escape :: "string \<Rightarrow> string" where
  "html_escape s = concat (map (\<lambda>c.
     if c = CHR ''&'' then ''&amp;'' else if c = CHR ''<'' then ''&lt;'' else if c = CHR ''>'' then ''&gt;''
     else if c = CHR 0x22 then ''&quot;'' else if c = CHR 0x27 then ''&#x27;'' else [c]) s)"

definition element :: "nat \<Rightarrow> string \<Rightarrow> (string \<times> string) list \<Rightarrow> string" where
  "element indent name attributes =
     replicate indent (CHR '' '') @ ''<'' @ name
     @ concat (map (\<lambda>(k, v). '' '' @ k @ ''='' @ [CHR 0x22] @ v @ [CHR 0x22]) attributes)"

definition join_lines :: "string list \<Rightarrow> string" where
  "join_lines ls = (case ls of [] \<Rightarrow> '''' | l # rest \<Rightarrow> l @ concat (map (\<lambda>x. CHR 0x0A # x) rest))"

definition baseline :: int where "baseline = 48 + 174"

definition chart_head :: "string \<Rightarrow> string \<Rightarrow> string list" where
  "chart_head title subtitle =
     [element 0 ''svg'' [(''xmlns'', ''http://www.w3.org/2000/svg''), (''width'', ''600''), (''height'', ''300''),
        (''viewBox'', ''0 0 600 300''), (''role'', ''img'')] @ ''>'',
      ''  <title>'' @ html_escape title @ ''</title>'',
      element 2 ''rect'' [(''width'', ''600''), (''height'', ''300''), (''fill'', ''#ffffff'')] @ ''/>'',
      element 2 ''g'' [(''font-family'', ''sans-serif''), (''fill'', ''#17212b'')] @ ''>'',
      element 4 ''text'' [(''x'', ''300''), (''y'', ''24''), (''text-anchor'', ''middle''), (''font-size'', ''17''),
        (''font-weight'', ''600'')] @ ''>'' @ html_escape title @ ''</text>'',
      element 4 ''text'' [(''x'', ''300''), (''y'', ''41''), (''text-anchor'', ''middle''), (''font-size'', ''10'')]
        @ ''>'' @ html_escape subtitle @ ''</text>'',
      element 4 ''line'' [(''x1'', ''58''), (''y1'', ''48''), (''x2'', ''58''), (''y2'', str_int baseline),
        (''stroke'', ''#52606d'')] @ ''/>'',
      element 4 ''line'' [(''x1'', ''58''), (''y1'', str_int baseline), (''x2'', ''580''), (''y2'', str_int baseline),
        (''stroke'', ''#52606d'')] @ ''/>'']"

definition chart_tick :: "scaled \<Rightarrow> (scaled \<Rightarrow> string) \<Rightarrow> scaled \<Rightarrow> string list" where
  "chart_tick maximum value_label fraction =
     (let y = fsub (of_int baseline) (fmul (float_of_decimal (scaled_value fraction)) 174);
          tick = sum_exact [scaled_mul 28 maximum fraction]
      in [element 4 ''line'' [(''x1'', ''54''), (''y1'', fixed_text 2 y), (''x2'', ''58''), (''y2'', fixed_text 2 y),
            (''stroke'', ''#52606d'')] @ ''/>'',
          element 4 ''text'' [(''x'', ''50''), (''y'', fixed_text 2 (fadd y 3)), (''text-anchor'', ''end''),
            (''font-size'', ''9'')] @ ''>'' @ html_escape (value_label tick) @ ''</text>''])"

text \<open>The height of a bar and the upper edge it is drawn at.\<close>

definition bar_height :: "rat \<Rightarrow> rat \<Rightarrow> pyfloat" where
  "bar_height value maximum =
     (let bounded = min (max value 0) maximum;
          height = (if maximum \<noteq> 0 then fmul (float_of_decimal (ddiv bounded maximum)) 174 else 0)
      in max height 1)"

definition bar_top :: "rat \<Rightarrow> rat \<Rightarrow> pyfloat" where
  "bar_top value maximum = fsub (of_int baseline) (bar_height value maximum)"

definition bar_width :: "pyfloat \<Rightarrow> pyfloat" where
  "bar_width slot = min 66 (fmul slot (flt_round (55 / 100)))"

definition chart_bar ::
    "pyfloat \<Rightarrow> scaled \<Rightarrow> (scaled \<Rightarrow> string) \<Rightarrow> nat \<Rightarrow> string \<times> scaled option \<Rightarrow> string list" where
  "chart_bar slot maximum value_label index entry =
     (let (name, measured) = entry;
          center = fadd 58 (fmul slot (fadd (of_nat index) (1 / 2)));
          x = fixed_text 2 center
      in (element 4 ''text'' [(''x'', x), (''y'', ''242''), (''text-anchor'', ''middle''), (''font-size'', ''10'')]
            @ ''>'' @ html_escape name @ ''</text>'')
         # (case measured of
              None \<Rightarrow>
                [element 4 ''text'' [(''x'', x), (''y'', ''144''), (''text-anchor'', ''middle''), (''font-size'', ''10''),
                   (''fill'', ''#6b7280'')] @ ''>not computed</text>'']
            | Some d \<Rightarrow>
                (let height = bar_height (scaled_value d) (scaled_value maximum);
                     y = bar_top (scaled_value d) (scaled_value maximum)
                 in [element 4 ''rect'' [(''x'', fixed_text 2 (fsub center (fdiv (bar_width slot) 2))),
                       (''y'', fixed_text 2 y), (''width'', fixed_text 2 (bar_width slot)),
                       (''height'', fixed_text 2 height), (''fill'', ''#2563a6'')] @ ''>'',
                     ''      <title>'' @ html_escape (plain_text d) @ ''</title>'',
                     ''    </rect>'',
                     element 4 ''text'' [(''x'', x), (''y'', fixed_text 2 (max (fsub y 7) 53)),
                       (''text-anchor'', ''middle''), (''font-size'', ''10'')]
                     @ ''>'' @ html_escape (value_label d) @ ''</text>''])))"

definition bar_chart ::
    "string \<Rightarrow> string \<Rightarrow> (string \<times> scaled option) list \<Rightarrow> scaled \<Rightarrow> (scaled \<Rightarrow> string) \<Rightarrow> string" where
  "bar_chart title subtitle series maximum value_label =
     (let slot = int_truediv 522 (int (max (length series) 1))
      in join_lines
           (chart_head title subtitle
            @ concat (map (chart_tick maximum value_label) [(0, 0), (5, -1), (1, 0)])
            @ concat (map (\<lambda>(i, entry). chart_bar slot maximum value_label i entry) (List.enumerate 0 series))
            @ [''  </g>'', ''</svg>'', '''']))"

definition repeat_label :: "publish_env \<Rightarrow> nat \<Rightarrow> doc_object \<Rightarrow> string" where
  "repeat_label pe i row =
     ''Repeat '' @ doc_str pe (case map_of row ''repeat_index'' of None \<Rightarrow> DInt (int i) | Some v \<Rightarrow> v)"

definition repeat_series ::
    "publish_env \<Rightarrow> (doc_object \<Rightarrow> string + scaled option) \<Rightarrow> doc_object list
      \<Rightarrow> string + (string \<times> scaled option) list" where
  "repeat_series pe f rows =
     traverse (\<lambda>(i, row). bind_res (f row) (\<lambda>v. Inr (repeat_label pe i row, v))) (List.enumerate 1 rows)"

definition quality_chart :: "publish_env \<Rightarrow> doc_object \<Rightarrow> string + string" where
  "quality_chart pe summary =
     bind_res (repeat_rows summary) (\<lambda>rows.
     bind_res (repeat_series pe (\<lambda>row. metric_value (doc_get row ''quality_rate'')) rows) (\<lambda>series.
     bind_res (nested_mapping (doc_get summary ''quality'') ''summary quality'') (\<lambda>quality.
     bind_res (metric_value (doc_get quality ''quality_rate'')) (\<lambda>overall.
     Inr (bar_chart ''Quality rate by repeat'' ''Overall is shown after the measured repeats''
            (series @ [(''Overall'', overall)]) (1, 0) (\<lambda>d. fixed_text 4 (scaled_value d)))))))"

text \<open>The first greatest value, as \<open>max\<close> finds it.\<close>

fun greatest :: "scaled \<Rightarrow> scaled list \<Rightarrow> scaled" where
  "greatest best [] = best"
| "greatest best (d # ds) = greatest (if scaled_value best < scaled_value d then d else best) ds"

definition chart_maximum :: "scaled option list \<Rightarrow> scaled" where
  "chart_maximum values =
     (case filter (\<lambda>d. 0 \<le> scaled_value d) (List.map_filter (\<lambda>v. v) values) of
        [] \<Rightarrow> (1, 0)
      | d # ds \<Rightarrow> (let m = greatest d ds in if scaled_value m = 0 then (1, 0) else m))"

definition cost_chart :: "publish_env \<Rightarrow> doc_object \<Rightarrow> string + string" where
  "cost_chart pe summary =
     bind_res (observed_paths summary) (\<lambda>observed.
     bind_res (repeat_rows summary) (\<lambda>rows.
     bind_res (repeat_series pe (\<lambda>row. repeat_cost row observed) rows) (\<lambda>series.
     Inr (bar_chart ''View A cost per correct task'' ''USD per repeat; labels are truncated without rounding''
            series (chart_maximum (map snd series)) (\<lambda>d. CHR 0x24 # truncated_decimal d)))))"


section \<open>The read-me and the record reference\<close>

definition placement_text :: "publish_env \<Rightarrow> doc_object \<Rightarrow> string + string" where
  "placement_text pe summary =
     bind_res (nested_mapping (doc_get summary ''harness'') ''summary harness'') (\<lambda>harness.
       let parts = List.map_filter
             (\<lambda>(name, field). let v = doc_get harness field
                in if v \<noteq> DNull \<and> strip (doc_str pe v) \<noteq> '''' then Some (name @ '' '' @ doc_str pe v) else None)
             [(''location'', ''location''), (''node group'', ''node_group''),
              (''availability zone'', ''availability_zone'')]
       in Inr (case parts of [] \<Rightarrow> ''not recorded'' | p # ps \<Rightarrow> p @ concat (map (\<lambda>x. ''; '' @ x) ps)))"

definition required_value :: "doc_object \<Rightarrow> string \<Rightarrow> string + doc" where
  "required_value summary field =
     (case doc_get summary field of
        DNull \<Rightarrow> Inl (''summary '' @ field @ '' must be recorded'') | v \<Rightarrow> Inr v)"

definition cost_text :: "scaled option \<Rightarrow> string" where
  "cost_text v = (case v of None \<Rightarrow> ''not computed'' | Some d \<Rightarrow> plain_text d)"

definition limitation_texts :: "doc_object \<Rightarrow> string + string list" where
  "limitation_texts summary =
     (case doc_get summary ''limitations'' of
        DArr items \<Rightarrow>
          traverse (\<lambda>v. case v of DStr s \<Rightarrow> Inr s
                         | _ \<Rightarrow> Inl ''summary limitations must be a list of strings'') items
      | _ \<Rightarrow> Inl ''summary limitations must be a list of strings'')"

definition readme :: "publish_env \<Rightarrow> doc_object \<Rightarrow> string + string" where
  "readme pe summary =
     bind_res (required_value summary ''run_id'') (\<lambda>run_id.
     bind_res (required_value summary ''treatment'') (\<lambda>treatment.
     bind_res (required_value summary ''workload'') (\<lambda>workload.
     bind_res (required_value summary ''sample_size'') (\<lambda>sample_size.
     bind_res (nested_mapping (doc_get summary ''quality'') ''summary quality'') (\<lambda>quality.
     bind_res (metric_value (doc_get quality ''quality_rate'')) (\<lambda>rate.
     bind_res (nested_mapping (doc_get summary ''slo'') ''summary slo'') (\<lambda>slo.
     bind_res (case doc_get slo ''slo_eligible'' of
                 DBool b \<Rightarrow> Inr b | _ \<Rightarrow> Inl ''summary slo.slo_eligible must be a boolean'') (\<lambda>eligible.
     bind_res (limitation_texts summary) (\<lambda>limitations.
     bind_res (overall_cost summary) (\<lambda>cost.
     bind_res (placement_text pe summary) (\<lambda>placement.
     Inr (join_lines
       [''# Published run '' @ doc_str pe run_id, '''', ''- Treatment: '' @ doc_str pe treatment,
        ''- Workload: '' @ doc_str pe workload, ''- Sample size: '' @ doc_str pe sample_size,
        ''- Quality rate: '' @ cost_text rate,
        ''- SLO eligibility: '' @ (if eligible then ''true'' else ''false''),
        ''- View A cost per correct task: '' @ cost_text cost, ''- Placement: '' @ placement, '''',
        ''## Interpretation'', '''', ''Written by the operator during review.'', '''', ''## Limitations'', '''',
        (case limitations of [] \<Rightarrow> ''None recorded.''
         | l # ls \<Rightarrow> l @ concat (map (\<lambda>x. [CHR 0x0A, CHR 0x0A] @ x) ls)),
        '''']))))))))))))"

text \<open>\<open>json.dumps(s, ensure_ascii=True)\<close> of a string of 8-bit characters.\<close>

definition hex_char :: "nat \<Rightarrow> char" where
  "hex_char n = ''0123456789abcdef'' ! n"

definition quoted_char :: "char \<Rightarrow> string" where
  "quoted_char c =
     (let n = of_char c :: nat; back = CHR 0x5C
      in if n = 34 \<or> n = 92 then [back, c]
         else if n = 8 then [back, CHR ''b''] else if n = 9 then [back, CHR ''t'']
         else if n = 10 then [back, CHR ''n''] else if n = 12 then [back, CHR ''f'']
         else if n = 13 then [back, CHR ''r'']
         else if n < 32 \<or> 126 < n then [back] @ ''u00'' @ [hex_char (n div 16), hex_char (n mod 16)]
         else [c])"

definition quoted_yaml :: "string \<Rightarrow> string" where
  "quoted_yaml s = [CHR 0x22] @ concat (map quoted_char s) @ [CHR 0x22]"

definition blank_bytes :: "string \<Rightarrow> bool" where
  "blank_bytes line \<longleftrightarrow> list_all (\<lambda>c. of_char c \<in> {9, 10, 11, 12, 13, 32 :: nat}) line"

definition record_count :: "string \<Rightarrow> nat" where
  "record_count content = length (filter (\<lambda>l. \<not> blank_bytes l) (split_at (CHR 0x0A) [] content))"

record publish_fs =
  pf_files :: file_store
  pf_folders :: "string list"

definition load_document :: "publish_env \<Rightarrow> publish_fs \<Rightarrow> string \<Rightarrow> string \<Rightarrow> string + doc_object" where
  "load_document pe fs path name =
     (case Option.bind (pf_files fs path) (pe_loads pe) of
        None \<Rightarrow> Inl (''cannot load '' @ name)
      | Some (DObj kvs) \<Rightarrow> Inr kvs
      | Some _ \<Rightarrow> Inl (name @ '' must contain a mapping''))"

definition record_schema_version :: "publish_env \<Rightarrow> publish_fs \<Rightarrow> string + string" where
  "record_schema_version pe fs =
     bind_res (load_document pe fs (pe_schema pe) ''benchmark record schema'') (\<lambda>schema.
       let version = (if doc_truthy (doc_get schema ''version'') then doc_get schema ''version''
                      else doc_get schema ''schema_version'')
       in Inr (if version \<noteq> DNull then doc_str pe version else path_name (pe_schema pe)))"

definition raw_reference :: "publish_env \<Rightarrow> publish_fs \<Rightarrow> string \<Rightarrow> string \<Rightarrow> string + string" where
  "raw_reference pe fs run_id content =
     bind_res (record_schema_version pe fs) (\<lambda>version.
       Inr (join_lines
         [''records_file: '' @ quoted_yaml ''records.jsonl'',
          ''sha256: '' @ quoted_yaml (pe_sha256 pe content),
          ''record_count: '' @ str_nat (record_count content),
          ''record_schema_version: '' @ quoted_yaml version,
          ''storage_location: '' @ quoted_yaml (''repository archive under results/raw/'' @ run_id
             @ ''/ (operator retained)''),
          ''access_note: '' @ quoted_yaml
             ''Raw records are retained by the operator and are available on request.'',
          '''']))"

section \<open>Validation of the source\<close>

definition copied_files :: "string list" where
  "copied_files = [''manifest.yaml'', ''summary.json'', ''quality.json'', ''cost.json'', ''comparison.csv'']"

definition required_files :: "string list" where
  "required_files = copied_files @ [''records.jsonl'']"

definition load_manifest :: "publish_env \<Rightarrow> publish_fs \<Rightarrow> string \<Rightarrow> string + json_object" where
  "load_manifest pe fs path =
     (case Option.bind (pf_files fs path) (pe_yaml pe) of
        None \<Rightarrow> Inl ''cannot load manifest''
      | Some (JObj kvs) \<Rightarrow> Inr kvs
      | Some _ \<Rightarrow> Inl ''manifest must contain a mapping'')"

fun section_of :: "json \<Rightarrow> string \<Rightarrow> string + json_object" where
  "section_of (JObj kvs) field = Inr kvs"
| "section_of v field = Inl (field @ '' must be a mapping'')"

text \<open>The text of a value that must be a string with more than blanks.\<close>

fun present_text :: "json \<Rightarrow> string option" where
  "present_text (JStr s) = (if strip s = '''' then None else Some s)"
| "present_text _ = None"

definition plain_name :: "string \<Rightarrow> bool" where
  "plain_name s \<longleftrightarrow> path_name s = s \<and> s \<noteq> ''.'' \<and> s \<noteq> ''..''"

definition known_sha :: "json \<Rightarrow> bool" where
  "known_sha v = (case present_text v of None \<Rightarrow> False
     | Some s \<Rightarrow> map ascii_lower_char (strip s) \<noteq> ''unknown'')"

definition manifest_run_id :: "json_object \<Rightarrow> string + string" where
  "manifest_run_id manifest =
     bind_res (section_of (dict_get manifest ''scenario'') ''manifest scenario'') (\<lambda>scenario.
     if dict_get scenario ''publishable'' \<noteq> JBool True then Inl ''scenario.publishable must be true''
     else bind_res (section_of (dict_get manifest ''git'') ''manifest git'') (\<lambda>git.
     if \<not> known_sha (dict_get git ''sha'') then Inl ''manifest git.sha must be known''
     else bind_res (section_of (dict_get manifest ''harness'') ''manifest harness'') (\<lambda>harness.
     case present_text (dict_get harness ''location'') of
       None \<Rightarrow> Inl ''manifest harness.location must be recorded''
     | Some location \<Rightarrow>
         if map ascii_lower_char (strip location) = ''local-mock''
         then Inl ''manifest harness.location must not be local-mock''
         else (case present_text (dict_get manifest ''run_id'') of
                 None \<Rightarrow> Inl ''manifest run_id must be a nonempty string''
               | Some run_id \<Rightarrow>
                   if plain_name run_id then Inr run_id
                   else Inl ''manifest run_id must be a single safe path component''))))"

definition validate_source ::
    "publish_env \<Rightarrow> publish_fs \<Rightarrow> string \<Rightarrow> string + (doc_object \<times> string)" where
  "validate_source pe fs run_dir =
     (if run_dir \<notin> set (pf_folders fs) then Inl ''source run directory does not exist''
      else if list_ex (\<lambda>n. pf_files fs (run_path run_dir n) = None) required_files
      then Inl ''source run directory is missing required files''
      else bind_res (load_manifest pe fs (run_path run_dir ''manifest.yaml'')) (\<lambda>manifest.
           bind_res (manifest_run_id manifest) (\<lambda>run_id.
           bind_res (load_document pe fs (run_path run_dir ''summary.json'') ''summary'') (\<lambda>summary.
           if doc_get summary ''run_id'' \<noteq> DStr run_id
           then Inl ''summary run_id must match manifest run_id''
           else Inr (summary, run_id)))))"

section \<open>Publishing\<close>

definition exists_path :: "publish_fs \<Rightarrow> string \<Rightarrow> bool" where
  "exists_path fs path \<longleftrightarrow> path \<in> set (pf_folders fs) \<or> pf_files fs path \<noteq> None"

definition under :: "string \<Rightarrow> string \<Rightarrow> bool" where
  "under folder path \<longleftrightarrow> path = folder \<or> starts_with path (folder @ ''/'')"

definition write_all :: "string \<Rightarrow> (string \<times> string option) list \<Rightarrow> file_store \<Rightarrow> file_store" where
  "write_all folder entries files =
     foldl (\<lambda>fs (name, content). fs(run_path folder name := content)) files entries"

text \<open>\<open>source.rename(target)\<close> moves every path under the source.\<close>

definition rename_files :: "string \<Rightarrow> string \<Rightarrow> file_store \<Rightarrow> file_store" where
  "rename_files source target files = (\<lambda>path.
     if starts_with path (target @ ''/'') then files (source @ drop (length target) path)
     else if under source path then None else files path)"

definition rename_folders :: "string \<Rightarrow> string \<Rightarrow> string list \<Rightarrow> string list" where
  "rename_folders source target folders =
     map (\<lambda>path. if under source path then target @ drop (length source) path else path) folders"

text \<open>The files of the staging directory, in the order they are written.\<close>

definition staged_files ::
    "publish_fs \<Rightarrow> string \<Rightarrow> string option \<Rightarrow> string \<Rightarrow> string \<Rightarrow> string \<Rightarrow> string \<Rightarrow> (string \<times> string option) list"
where
  "staged_files fs run_dir comparison reference readme_text quality_svg cost_svg =
     map (\<lambda>n. (n, pf_files fs (run_path run_dir n))) copied_files
     @ (case comparison of None \<Rightarrow> [] | Some c \<Rightarrow> [(''comparison.json'', pf_files fs c)])
     @ [(''raw-reference.yaml'', Some reference), (''README.md'', Some readme_text),
        (''charts/quality.svg'', Some quality_svg), (''charts/cost.svg'', Some cost_svg)]"

text \<open>
  \<open>publish_run\<close> with \<open>temporary\<close> for the fresh directory of \<open>TemporaryDirectory\<close>, which is removed
  with all it holds at the end; \<open>mkdir\<close> of the output folder also makes its parents.
\<close>

definition publish_run ::
    "publish_env \<Rightarrow> string list \<Rightarrow> string \<Rightarrow> publish_fs \<Rightarrow> string \<Rightarrow> string \<Rightarrow> string option
      \<Rightarrow> (string + string) \<times> publish_fs" where
  "publish_run pe parents temporary fs run_dir output_root comparison =
     (case bind_res (validate_source pe fs run_dir) (\<lambda>(summary, run_id).
           bind_res (case comparison of
                       None \<Rightarrow> Inr ()
                     | Some c \<Rightarrow> if pf_files fs c = None then Inl ''comparison file does not exist''
                                 else bind_res (load_document pe fs c ''comparison'') (\<lambda>_. Inr ())) (\<lambda>_.
           if exists_path fs (run_path output_root run_id) then Inl ''destination already exists''
           else bind_res (raw_reference pe fs run_id
                            (case pf_files fs (run_path run_dir ''records.jsonl'') of None \<Rightarrow> '''' | Some c \<Rightarrow> c))
                  (\<lambda>reference.
                bind_res (readme pe summary) (\<lambda>readme_text.
                bind_res (quality_chart pe summary) (\<lambda>quality_svg.
                bind_res (cost_chart pe summary) (\<lambda>cost_svg.
                Inr (run_id, staged_files fs run_dir comparison reference readme_text quality_svg cost_svg))))))) of
        Inl e \<Rightarrow> (Inl e, fs)
      | Inr (run_id, staged) \<Rightarrow>
          (let destination = run_path output_root run_id;
               made = filter (\<lambda>f. f \<notin> set (pf_folders fs)) (parents @ [output_root]);
               fs' = fs\<lparr>pf_folders := made @ pf_folders fs\<rparr>;
               staging = run_path temporary run_id;
               files = write_all staging staged (pf_files fs);
               folders = pf_folders fs' @ [temporary, staging, run_path staging ''charts'']
           in if exists_path fs' destination
              then (Inl ''destination already exists'', fs')
              else (Inr destination,
                    \<lparr>pf_files = rename_files staging destination files,
                     pf_folders = filter (\<lambda>f. \<not> under temporary f)
                       (rename_folders staging destination folders)\<rparr>)))"


section \<open>Lemmas on decimals and charts\<close>

lemma str_nat_short: "n < 10 ^ Suc p \<Longrightarrow> length (str_nat n) \<le> Suc p"
proof (induction p arbitrary: n)
  case 0
  then show ?case by (simp add: str_nat.simps [of n])
next
  case (Suc p)
  have "n < 10 ^ Suc p * 10" using Suc.prems by simp
  then have "length (str_nat (n div 10)) \<le> Suc p" by (intro Suc.IH less_mult_imp_div_less)
  then show ?case by (cases "n < 10") (simp_all add: str_nat.simps [of n])
qed

lemma fix_digits_exact: "\<bar>c\<bar> < 10 ^ 50 \<Longrightarrow> 50 \<le> p \<Longrightarrow> fix_digits p (c, e) = (c, e)"
proof -
  assume c: "\<bar>c\<bar> < 10 ^ 50" and p: "50 \<le> p"
  then have "nat \<bar>c\<bar> < 10 ^ Suc 49" by (simp add: nat_less_iff)
  from str_nat_short [OF this] p show ?thesis by (simp add: fix_digits_def digit_count_def)
qed

lemma scale10_powi: "scale10 k x = x * 10 powi k"
proof (cases "0 \<le> k")
  case False
  then show ?thesis
    by (simp only: scale10_def power_int_def if_False power_inverse divide_inverse)
qed (simp add: scale10_def power_int_def)

lemma scaled_value_powi: "scaled_value (c, e) = of_int c * 10 powi e"
  by (simp add: scaled_value_def scale10_powi)

lemma scaled_value_shift:
  assumes "low \<le> e"
  shows "scaled_value (c * 10 ^ nat (e - low), low) = scaled_value (c, e)"
proof -
  have "(10 :: rat) ^ nat (e - low) = 10 powi (e - low)" using assms by (simp only: power_int_def) simp
  moreover have "(10 :: rat) powi (e - low) * 10 powi low = 10 powi e"
    by (simp add: power_int_add [symmetric])
  ultimately show ?thesis by (simp add: scaled_value_powi)
qed

lemma scaled_value_add: "scaled_value (c, e) + scaled_value (c', e) = scaled_value (c + c', e)"
  by (simp add: scaled_value_powi distrib_right)


lemma scaled_add_exact:
  assumes "50 \<le> p" "- 30 \<le> e" "- 30 \<le> e'" "min e e' \<le> 0"
    and "\<bar>scaled_value (c, e) + scaled_value (c', e')\<bar> < 10 ^ 19"
  shows "scaled_value (scaled_add p (c, e) (c', e')) = scaled_value (c, e) + scaled_value (c', e')
    \<and> snd (scaled_add p (c, e) (c', e')) = min e e'"
proof -
  let ?low = "min e e'"
  let ?c = "c * 10 ^ nat (e - ?low) + c' * 10 ^ nat (e' - ?low)"
  have v: "scaled_value (?c, ?low) = scaled_value (c, e) + scaled_value (c', e')"
    using scaled_value_shift [of ?low e c] scaled_value_shift [of ?low e' c'] by (simp add: scaled_value_add [symmetric])
  have "(10 :: rat) powi ?low * 10 powi 30 = 10 powi (?low + 30)" by (rule power_int_add [symmetric]) simp
  moreover have "(1 :: rat) \<le> 10 powi (?low + 30)" using assms(2,3) by (intro one_le_power_int) simp_all
  ultimately have "1 \<le> (10 :: rat) powi ?low * 10 ^ 30" by simp
  then have "\<bar>of_int ?c\<bar> \<le> \<bar>of_int ?c\<bar> * ((10 :: rat) powi ?low * 10 ^ 30)"
    by (simp add: mult_le_cancel_left1)
  also have "\<dots> = \<bar>scaled_value (?c, ?low)\<bar> * 10 ^ 30"
    by (simp add: scaled_value_powi abs_mult)
  also have "\<dots> < 10 ^ 19 * 10 ^ 30"
    unfolding v using assms(5) by (intro mult_strict_right_mono) simp_all
  finally have "\<bar>of_int ?c :: rat\<bar> < of_int (10 ^ 50)" by simp
  then have "\<bar>?c\<bar> < 10 ^ 50" unfolding of_int_abs [symmetric] of_int_less_iff .
  from fix_digits_exact [OF this assms(1), of ?low]
  have "scaled_add p (c, e) (c', e') = (?c, ?low)" by (simp add: scaled_add_def Let_def)
  with v show ?thesis by simp
qed

lemma scaled_fold_exact:
  assumes "50 \<le> p" "\<forall>d \<in> set ds. - 30 \<le> snd d \<and> \<bar>scaled_value d\<bar> \<le> 10 ^ 15"
    and "- 30 \<le> snd acc" "snd acc \<le> 0" "\<bar>scaled_value acc\<bar> \<le> of_nat n * 10 ^ 15" "n + length ds \<le> 1000"
  shows "scaled_value (foldl (scaled_add p) acc ds) = scaled_value acc + sum_list (map scaled_value ds)"
  using assms(2-)
proof (induction ds arbitrary: acc n)
  case (Cons d ds)
  obtain c e c' e' where d: "acc = (c, e)" "d = (c', e')" by fastforce
  have near: "\<bar>scaled_value acc + scaled_value d\<bar> \<le> of_nat (Suc n) * 10 ^ 15"
    using Cons.prems(1,4) by (auto simp: algebra_simps)
  also have "(of_nat (Suc n) :: rat) * 10 ^ 15 \<le> of_nat 1000 * 10 ^ 15"
    using Cons.prems(5) by (intro mult_right_mono) (simp_all only: of_nat_le_iff, simp_all)
  finally have "\<bar>scaled_value (c, e) + scaled_value (c', e')\<bar> < 10 ^ 19" by (simp add: d)
  then have step: "scaled_value (scaled_add p acc d) = scaled_value acc + scaled_value d"
    "snd (scaled_add p acc d) = min (snd acc) (snd d)"
    using scaled_add_exact [OF assms(1), of e e' c c'] Cons.prems(1-3) by (auto simp: d)
  have "scaled_value (foldl (scaled_add p) (scaled_add p acc d) ds)
      = scaled_value (scaled_add p acc d) + sum_list (map scaled_value ds)"
    using Cons.prems near by (intro Cons.IH [where n = "Suc n"]) (simp_all only: step, auto)
  then show ?case by (simp add: step(1))
qed simp

lemma greatest_upper: "scaled_value best \<le> scaled_value (greatest best ds)"
  by (induction best ds rule: greatest.induct) (auto split: if_splits)

lemma chart_maximum_pos: "0 < scaled_value (chart_maximum values)"
proof (cases "filter (\<lambda>d. 0 \<le> scaled_value d) (List.map_filter (\<lambda>v. v) values)")
  case (Cons d ds)
  then have "0 \<le> scaled_value d" by (auto simp: filter_eq_Cons_iff)
  with greatest_upper [of d ds] Cons show ?thesis
    by (auto simp: chart_maximum_def Let_def scaled_value_powi)
qed (simp add: chart_maximum_def scaled_value_powi)

lemma bar_height_range:
  assumes "0 < m"
  shows "1 \<le> bar_height v m \<and> bar_height v m \<le> 174"
proof -
  let ?b = "min (max v 0) m"
  have "0 \<le> ?b / m" "?b / m \<le> 1" using assms by (simp_all add: divide_le_eq)
  then have "ddiv ?b m \<le> 1"
    unfolding ddiv_def using dec_round_int [of 1] by (intro dec.rnd_below) simp_all
  then have "float_of_decimal (ddiv ?b m) \<le> 1"
    unfolding float_of_decimal_def using flt_round_int [of 1] by (intro flt.rnd_below) simp_all
  then have "fmul (float_of_decimal (ddiv ?b m)) 174 \<le> 174"
    unfolding fmul_def using flt_round_int [of 174] by (intro flt.rnd_below) simp_all
  then show ?thesis using assms by (simp add: bar_height_def Let_def)
qed

section \<open>Properties\<close>

text \<open>
  The published sums are exact: adding up to a thousand costs with at most thirty decimals and an
  absolute value up to a thousand billions loses no digit, whatever the digits of each.
\<close>

theorem published_sum_exact:
  assumes "\<forall>d \<in> set ds. - 30 \<le> snd d \<and> \<bar>scaled_value d\<bar> \<le> 10 ^ 15" "length ds \<le> 1000"
  shows "scaled_value (sum_exact ds) = sum_list (map scaled_value ds)"
  using scaled_fold_exact [where n = 0 and acc = "(0, 0)", OF _ assms(1)] assms(2)
  by (simp add: sum_exact_def Let_def scaled_value_powi)

theorem published_sum_exact_witness:
  "scaled_value (sum_exact [(1234567890123456, - 20), (25, - 2)]) = 1234567890123456 / 10 ^ 20 + 1 / 4"
  using published_sum_exact [of "[(1234567890123456, - 20), (25, - 2)]"]
  by (simp add: scaled_value_def scale10_def)

text \<open>
  Every bar stays in the frame of its chart: for any series and any value, also a negative one or
  one above the maximum, it is between one and 174 points high and ends on the baseline.
\<close>

theorem bars_in_frame:
  "1 \<le> bar_height v (scaled_value (chart_maximum values))
   \<and> bar_height v (scaled_value (chart_maximum values)) \<le> 174
   \<and> 48 \<le> bar_top v (scaled_value (chart_maximum values))
   \<and> bar_top v (scaled_value (chart_maximum values)) \<le> 221"
proof -
  have h: "1 \<le> bar_height v (scaled_value (chart_maximum values))
      \<and> bar_height v (scaled_value (chart_maximum values)) \<le> 174"
    by (rule bar_height_range [OF chart_maximum_pos])
  have "48 \<le> bar_top v (scaled_value (chart_maximum values))"
    unfolding bar_top_def fsub_def baseline_def using h flt_round_int [of 48] by (intro flt.rnd_above) simp_all
  moreover have "bar_top v (scaled_value (chart_maximum values)) \<le> 221"
    unfolding bar_top_def fsub_def baseline_def using h flt_round_int [of 221] by (intro flt.rnd_below) simp_all
  ultimately show ?thesis using h by blast
qed


section \<open>The published directory\<close>

lemma run_path_eq [simp]: "run_path folder n = run_path folder m \<longleftrightarrow> n = m"
  by (simp add: run_path_def)

lemma under_run_path [simp]: "under folder (run_path folder n)"
  by (simp add: under_def run_path_def starts_with_def)

lemma under_trans: "under a b \<Longrightarrow> under b c \<Longrightarrow> under a c"
  by (fastforce simp: under_def starts_with_def prefix_def)

lemma write_all_other:
  "\<not> under folder path \<Longrightarrow> write_all folder entries files path = files path"
proof (induction entries arbitrary: files)
  case (Cons e es)
  obtain n c where e: "e = (n, c)" by fastforce
  have "path \<noteq> run_path folder n" using Cons.prems by auto
  with Cons show ?case by (simp add: e write_all_def)
qed (simp add: write_all_def)

lemma write_all_get:
  "distinct (map fst entries) \<Longrightarrow>
   write_all folder entries files (run_path folder n)
     = (case map_of entries n of None \<Rightarrow> files (run_path folder n) | Some c \<Rightarrow> c)"
proof (induction entries arbitrary: files)
  case (Cons e es)
  obtain m c where e: "e = (m, c)" by fastforce
  have "write_all folder (e # es) files = write_all folder es (files(run_path folder m := c))"
    by (simp add: write_all_def e)
  moreover have "m = n \<Longrightarrow> map_of es n = None"
    using Cons.prems by (simp add: e map_of_eq_None_iff)
  ultimately show ?case using Cons by (auto simp: e split: option.split)
qed (simp add: write_all_def)

lemma rename_files_moved:
  "rename_files source target files (run_path target n) = files (run_path source n)"
  by (simp add: rename_files_def run_path_def starts_with_def)

lemma rename_files_other:
  "\<not> under target path \<Longrightarrow>
   rename_files source target files path = (if under source path then None else files path)"
  by (simp add: rename_files_def under_def)

lemma staged_distinct:
  "distinct (map fst (staged_files fs run_dir comparison reference readme_text quality_svg cost_svg))"
  by (cases comparison) (simp_all add: staged_files_def copied_files_def comp_def)

lemma manifest_run_id_plain: "manifest_run_id m = Inr run_id \<Longrightarrow> plain_name run_id"
  by (auto simp: manifest_run_id_def bind_res_Inr split: if_splits option.splits)

lemma validate_source_Inr:
  assumes "validate_source pe fs run_dir = Inr (summary, run_id)"
  shows "plain_name run_id" "n \<in> set required_files \<Longrightarrow> pf_files fs (run_path run_dir n) \<noteq> None"
  using assms manifest_run_id_plain
  by (auto simp: validate_source_def bind_res_Inr list_ex_iff split: if_splits)

text \<open>The four generated texts of a publication, from the summary and the raw records.\<close>

definition records_text :: "publish_fs \<Rightarrow> string \<Rightarrow> string" where
  "records_text fs run_dir =
     (case pf_files fs (run_path run_dir ''records.jsonl'') of None \<Rightarrow> '''' | Some c \<Rightarrow> c)"

definition generated_texts ::
    "publish_env \<Rightarrow> publish_fs \<Rightarrow> string \<Rightarrow> string \<Rightarrow> doc_object
      \<Rightarrow> string \<Rightarrow> string \<Rightarrow> string \<Rightarrow> string \<Rightarrow> bool" where
  "generated_texts pe fs run_dir run_id summary reference readme_text quality_svg cost_svg \<longleftrightarrow>
     raw_reference pe fs run_id (records_text fs run_dir) = Inr reference
     \<and> readme pe summary = Inr readme_text
     \<and> quality_chart pe summary = Inr quality_svg \<and> cost_chart pe summary = Inr cost_svg"

text \<open>The file of each name a publication holds, and no file for any other name.\<close>

definition published_file ::
    "publish_fs \<Rightarrow> string \<Rightarrow> string option \<Rightarrow> string \<Rightarrow> string \<Rightarrow> string \<Rightarrow> string \<Rightarrow> string \<Rightarrow> string option"
where
  "published_file fs run_dir comparison reference readme_text quality_svg cost_svg n =
     (if n \<in> set copied_files then pf_files fs (run_path run_dir n)
      else if n = ''comparison.json'' then Option.bind comparison (pf_files fs)
      else map_of [(''raw-reference.yaml'', reference), (''README.md'', readme_text),
                   (''charts/quality.svg'', quality_svg), (''charts/cost.svg'', cost_svg)] n)"

lemma staged_published:
  "(case map_of (staged_files fs run_dir comparison reference readme_text quality_svg cost_svg) n of
      None \<Rightarrow> None | Some c \<Rightarrow> c)
   = published_file fs run_dir comparison reference readme_text quality_svg cost_svg n"
  by (cases comparison) (simp_all add: published_file_def staged_files_def copied_files_def)

lemma under_cases: "under folder path \<Longrightarrow> path = folder \<or> (\<exists>n. path = run_path folder n)"
  by (auto simp: under_def run_path_def starts_with_def prefix_def)

lemma publish_run_Inr:
  assumes "publish_run pe parents temporary fs run_dir output_root comparison = (Inr destination, fs')"
  obtains run_id summary reference readme_text quality_svg cost_svg where
    "validate_source pe fs run_dir = Inr (summary, run_id)" "destination = run_path output_root run_id"
    "\<not> exists_path fs destination"
    "generated_texts pe fs run_dir run_id summary reference readme_text quality_svg cost_svg"
    "pf_files fs' = rename_files (run_path temporary run_id) destination
       (write_all (run_path temporary run_id)
          (staged_files fs run_dir comparison reference readme_text quality_svg cost_svg) (pf_files fs))"
proof -
  obtain run_id staged where checked: "bind_res (validate_source pe fs run_dir) (\<lambda>(summary, run_id).
           bind_res (case comparison of
                       None \<Rightarrow> Inr ()
                     | Some c \<Rightarrow> if pf_files fs c = None then Inl ''comparison file does not exist''
                                 else bind_res (load_document pe fs c ''comparison'') (\<lambda>_. Inr ())) (\<lambda>_.
           if exists_path fs (run_path output_root run_id) then Inl ''destination already exists''
           else bind_res (raw_reference pe fs run_id
                            (case pf_files fs (run_path run_dir ''records.jsonl'') of None \<Rightarrow> '''' | Some c \<Rightarrow> c))
                  (\<lambda>reference.
                bind_res (readme pe summary) (\<lambda>readme_text.
                bind_res (quality_chart pe summary) (\<lambda>quality_svg.
                bind_res (cost_chart pe summary) (\<lambda>cost_svg.
                Inr (run_id, staged_files fs run_dir comparison reference readme_text quality_svg cost_svg)))))))
      = Inr (run_id, staged)"
    and moved: "destination = run_path output_root run_id"
      "pf_files fs' = rename_files (run_path temporary run_id) destination
         (write_all (run_path temporary run_id) staged (pf_files fs))"
    using assms unfolding publish_run_def by (auto simp: Let_def split: sum.splits if_splits)
  from checked obtain summary reference readme_text quality_svg cost_svg where
    "validate_source pe fs run_dir = Inr (summary, run_id)"
    "\<not> exists_path fs (run_path output_root run_id)"
    "generated_texts pe fs run_dir run_id summary reference readme_text quality_svg cost_svg"
    "staged = staged_files fs run_dir comparison reference readme_text quality_svg cost_svg"
    by (auto simp: bind_res_Inr generated_texts_def records_text_def split: if_splits)
  with moved show thesis by (intro that) auto
qed

text \<open>
  C33. Publishing is all or nothing and publishes exactly what it should: a refused publication
  changes no file; an accepted one creates a directory that did not exist, directly under the output
  folder, that holds each reviewed file as it was, the comparison if one was given, the reference
  to the raw records, the README and the two charts generated from the run's summary, and no other
  file (not the raw records either); and it changes no file outside that directory.
\<close>

theorem publication_is_atomic:
  assumes "publish_run pe parents temporary fs run_dir output_root comparison = (result, fs')"
    and "\<forall>path. under temporary path \<longrightarrow> pf_files fs path = None"
  shows "case result of
      Inl e \<Rightarrow> pf_files fs' = pf_files fs
    | Inr destination \<Rightarrow> \<not> exists_path fs destination
        \<and> (\<exists>run_id summary reference readme_text quality_svg cost_svg.
             destination = run_path output_root run_id \<and> CHR ''/'' \<notin> set run_id
             \<and> validate_source pe fs run_dir = Inr (summary, run_id)
             \<and> raw_reference pe fs run_id (records_text fs run_dir) = Inr reference
             \<and> readme pe summary = Inr readme_text
             \<and> quality_chart pe summary = Inr quality_svg \<and> cost_chart pe summary = Inr cost_svg
             \<and> (\<forall>n. pf_files fs' (run_path destination n)
                    = published_file fs run_dir comparison reference readme_text quality_svg cost_svg n))
        \<and> (\<forall>n \<in> set copied_files. pf_files fs (run_path run_dir n) \<noteq> None
             \<and> pf_files fs' (run_path destination n) = pf_files fs (run_path run_dir n))
        \<and> pf_files fs' (run_path destination ''records.jsonl'') = None
        \<and> pf_files fs' destination = None
        \<and> (\<forall>path. \<not> under destination path \<longrightarrow> pf_files fs' path = pf_files fs path)"
proof (cases result)
  case (Inl e)
  then show ?thesis
    using assms(1) unfolding publish_run_def by (auto simp: Let_def split: sum.splits if_splits)
next
  case (Inr destination)
  obtain run_id summary reference readme_text quality_svg cost_svg where
    source: "validate_source pe fs run_dir = Inr (summary, run_id)"
    and destination: "destination = run_path output_root run_id" "\<not> exists_path fs destination"
    and texts: "generated_texts pe fs run_dir run_id summary reference readme_text quality_svg cost_svg"
    and files: "pf_files fs' = rename_files (run_path temporary run_id) destination
       (write_all (run_path temporary run_id)
          (staged_files fs run_dir comparison reference readme_text quality_svg cost_svg) (pf_files fs))"
    using publish_run_Inr [of pe parents temporary fs run_dir output_root comparison destination fs']
      assms(1) Inr by metis
  let ?staging = "run_path temporary run_id"
  let ?staged = "staged_files fs run_dir comparison reference readme_text quality_svg cost_svg"
  let ?file = "published_file fs run_dir comparison reference readme_text quality_svg cost_svg"
  have temp: "pf_files fs path = None" if "under ?staging path" for path
    using assms(2) under_trans [OF under_run_path that] by blast
  have moved: "pf_files fs' (run_path destination n) = ?file n" for n
    unfolding files rename_files_moved write_all_get [OF staged_distinct] temp [OF under_run_path]
    by (rule staged_published)
  have other: "pf_files fs' path = pf_files fs path"
    if "\<not> starts_with path (destination @ ''/'')" for path
    using that write_all_other [of ?staging path ?staged "pf_files fs"] temp [of path]
    by (simp add: files rename_files_def)
  have kept: "pf_files fs' (run_path destination n) = pf_files fs (run_path run_dir n)
      \<and> pf_files fs (run_path run_dir n) \<noteq> None" if "n \<in> set copied_files" for n
    using validate_source_Inr(2) [OF source, of n] that
    by (simp add: moved published_file_def required_files_def)
  have "pf_files fs' (run_path destination ''records.jsonl'') = None"
    by (simp add: moved published_file_def copied_files_def)
  moreover have "pf_files fs' destination = None"
    using other [of destination] destination(2) by (simp add: exists_path_def starts_with_def)
  moreover have "pf_files fs' path = pf_files fs path" if "\<not> under destination path" for path
    using that by (intro other) (simp add: under_def)
  moreover have "CHR ''/'' \<notin> set run_id"
    using validate_source_Inr(1) [OF source] path_name_slash [of run_id] by (simp add: plain_name_def)
  ultimately show ?thesis
    using destination Inr kept moved source texts unfolding generated_texts_def by auto
qed

definition lab_published_summary :: doc_object where
  "lab_published_summary =
     [(''run_id'', DStr ''run''), (''treatment'', DStr ''t1''), (''workload'', DStr ''w''), (''sample_size'', DInt 1),
      (''quality'', DObj []), (''slo'', DObj [(''slo_eligible'', DBool True)]), (''limitations'', DArr []),
      (''cost'', DObj [(''hybrid_combined_view_a'', DObj [])]), (''harness'', DObj []),
      (''repeats'', DObj [(''values'', DArr [])])]"

definition lab_publish_env :: publish_env where
  "lab_publish_env =
     \<lparr>pe_yaml = map_of [(''M'', JObj
        [(''scenario'', JObj [(''publishable'', JBool True)]), (''git'', JObj [(''sha'', JStr ''a'')]),
         (''harness'', JObj [(''location'', JStr ''eu'')]), (''run_id'', JStr ''run'')])],
      pe_loads = map_of [(''S'', DObj lab_published_summary), (''V'', DObj [(''version'', DInt 1)])],
      pe_str = (\<lambda>v. ''''), pe_sha256 = (\<lambda>s. ''h''), pe_schema = ''v''\<rparr>"

definition lab_publish_fs :: publish_fs where
  "lab_publish_fs =
     \<lparr>pf_files = map_of [(''r/manifest.yaml'', ''M''), (''r/summary.json'', ''S''), (''r/quality.json'', ''Q''),
        (''r/cost.json'', ''C''), (''r/comparison.csv'', ''G''), (''r/records.jsonl'', ''R''), (''v'', ''V'')],
      pf_folders = [''r'']\<rparr>"

lemma lab_charts:
  "\<exists>q c. quality_chart lab_publish_env lab_published_summary = Inr q
     \<and> cost_chart lab_publish_env lab_published_summary = Inr c"
proof -
  have rows: "repeat_rows lab_published_summary = Inr []"
    and quality: "doc_get lab_published_summary ''quality'' = DObj []"
    and observed: "observed_paths lab_published_summary = Inr (False, False)"
    by code_simp+
  show ?thesis
    by (simp add: quality_chart_def cost_chart_def rows observed quality repeat_series_def doc_get_def [of "[]"])
qed

theorem publication_is_atomic_witness:
  "\<exists>destination fs'. publish_run lab_publish_env [] ''p/tmp'' lab_publish_fs ''r'' ''p'' None = (Inr destination, fs')
     \<and> pf_files fs' (run_path destination ''cost.json'') = Some ''C''
     \<and> pf_files fs' (run_path destination ''records.jsonl'') = None
     \<and> pf_files fs' (run_path destination ''README.md'') \<noteq> None
     \<and> pf_files fs' (run_path destination ''other'') = None"
proof -
  have source: "validate_source lab_publish_env lab_publish_fs ''r'' = Inr (lab_published_summary, ''run'')"
    and fresh: "\<not> exists_path lab_publish_fs (run_path ''p'' ''run'')"
    by code_simp+
  have "case raw_reference lab_publish_env lab_publish_fs ''run'' ''R'' of Inl e \<Rightarrow> False | Inr t \<Rightarrow> True"
    "case readme lab_publish_env lab_published_summary of Inl e \<Rightarrow> False | Inr t \<Rightarrow> True"
    by code_simp+
  then obtain reference readme_text where texts:
    "raw_reference lab_publish_env lab_publish_fs ''run'' ''R'' = Inr reference"
    "readme lab_publish_env lab_published_summary = Inr readme_text"
    by (auto split: sum.splits)
  obtain q c where charts: "quality_chart lab_publish_env lab_published_summary = Inr q"
    "cost_chart lab_publish_env lab_published_summary = Inr c"
    using lab_charts by blast
  have records: "pf_files lab_publish_fs (run_path ''r'' ''records.jsonl'') = Some ''R''" by code_simp
  have again: "\<not> exists_path (lab_publish_fs\<lparr>pf_folders := filter (\<lambda>f. f \<notin> set (pf_folders lab_publish_fs))
      ([] @ [''p'']) @ pf_folders lab_publish_fs\<rparr>) (run_path ''p'' ''run'')"
    by code_simp
  obtain destination fs' where run: "publish_run lab_publish_env [] ''p/tmp'' lab_publish_fs ''r'' ''p'' None
      = (Inr destination, fs')"
    using again by (simp add: publish_run_def source fresh texts charts records Let_def)
  have "\<forall>path. under ''p/tmp'' path \<longrightarrow> pf_files lab_publish_fs path = None"
    by (auto simp: lab_publish_fs_def under_def starts_with_code)
  from publication_is_atomic [OF run this]
  have "pf_files fs' (run_path destination ''cost.json'') = pf_files lab_publish_fs (run_path ''r'' ''cost.json'')"
    "pf_files fs' (run_path destination ''records.jsonl'') = None"
    "pf_files fs' (run_path destination ''README.md'') \<noteq> None"
    "pf_files fs' (run_path destination ''other'') = None"
    by (auto simp: copied_files_def published_file_def)
  moreover have "pf_files lab_publish_fs (run_path ''r'' ''cost.json'') = Some ''C''" by code_simp
  ultimately show ?thesis using run by simp
qed

end
