(* ===== verification/Scenario_Grid.thy ===== *)
theory Scenario_Grid
  imports Cost_Engine
begin

text \<open>
  Stepwise capacity and the break-even grid (\<open>costing/scenario_grid.py\<close>). The nested loops
  are nested concatenations in the same order. A row keeps the decimals the code formats
  with \<open>str\<close> as values.
\<close>

section \<open>Capacity\<close>

definition required_replicas :: "int \<Rightarrow> int \<Rightarrow> string + int" where
  "required_replicas volume capacity =
     (if volume < 1 \<or> capacity < 1 then Inl ''capacity inputs must be positive''
      else Inr \<lceil>int_truediv volume capacity\<rceil>)"

section \<open>Rows\<close>

record grid_row =
  gr_view :: string
  gr_sensitivity :: string
  gr_monthly_requests :: int
  gr_token_profile :: string
  gr_utilization_tier :: string
  gr_quality_path :: string
  gr_quality_delta :: int
  gr_managed_quality :: decimal
  gr_private_quality :: decimal
  gr_replicas :: int
  gr_managed_total :: decimal
  gr_private_total :: decimal
  gr_components :: "(string \<times> decimal) list option"
  gr_managed_per_million :: "decimal option"
  gr_managed_token_definition :: "string option"
  gr_private_per_million :: "decimal option"
  gr_private_token_definition :: "string option"
  gr_managed_per_correct :: "decimal option"
  gr_private_per_correct :: "decimal option"
  gr_lower_cost_path :: string

text \<open>\<open>min(Decimal(1), max(Decimal(0), rate + delta))\<close>\<close>

definition clamp_rate :: "decimal \<Rightarrow> decimal" where
  "clamp_rate x = min 1 (max 0 x)"

definition quality_case ::
    "decimal \<Rightarrow> decimal \<Rightarrow> int \<Rightarrow> (string \<times> int \<times> decimal \<times> decimal) list" where
  "quality_case managed priv point =
     (let delta = ddiv (of_int point) 100
      in if point = 0 then [(''measured'', point, managed, priv)]
         else [(''managed'', point, clamp_rate (dadd managed delta), priv),
               (''private'', point, managed, clamp_rate (dadd priv delta))])"

definition quality_cases ::
    "scenario_grid_config \<Rightarrow> decimal \<Rightarrow> decimal \<Rightarrow> (string \<times> int \<times> decimal \<times> decimal) list" where
  "quality_cases g managed priv = concat (map (quality_case managed priv) (sg_quality_points g))"

definition managed_inference :: "int \<Rightarrow> token_profile \<Rightarrow> decimal \<Rightarrow> decimal \<Rightarrow> decimal" where
  "managed_inference volume p inp out =
     ddiv (dmul (of_int volume)
             (dadd (dmul (of_int (tp_input_tokens p)) inp) (dmul (of_int (tp_output_tokens p)) out)))
       million"

definition platform_components ::
    "cost_config \<Rightarrow> decimal \<Rightarrow> operations_allocation \<Rightarrow> (string \<times> decimal) list" where
  "platform_components c hours a =
     (let s = cc_shared c
      in [(''gateway_runtime_usd'', dmul (sp_gateway s) hours),
          (''network_nat_usd'', dmul (sp_network_nat s) hours),
          (''control_plane_usd'', dmul (sp_control_plane s) hours),
          (''shared_storage_usd'', dmul (sp_shared_storage s) hours),
          (''observability_usd'', dmul (sp_observability s) hours),
          (''operations_engineering_allocation_usd'', monthly_cost a)])"

definition per_million :: "decimal \<Rightarrow> int \<Rightarrow> decimal option" where
  "per_million tot tokens =
     (if tokens \<noteq> 0 then Some (ddiv (dmul tot million) (of_int tokens)) else None)"

definition per_correct :: "decimal \<Rightarrow> decimal \<Rightarrow> decimal option" where
  "per_correct tot correct = (if correct \<noteq> 0 then Some (ddiv tot correct) else None)"

definition lower_cost_path :: "decimal option \<Rightarrow> decimal option \<Rightarrow> string" where
  "lower_cost_path managed priv =
     (case (managed, priv) of
        (Some m, Some p) \<Rightarrow>
          if m < p then ''managed'' else if p < m then ''private'' else ''equal''
      | _ \<Rightarrow> ''indeterminate'')"

record grid_cell =
  gl_volume :: int
  gl_profile_name :: string
  gl_profile :: token_profile
  gl_tier_name :: string
  gl_tier :: utilization_tier
  gl_quality :: "string \<times> int \<times> decimal \<times> decimal"

text \<open>The body of the innermost loop, given the totals and the components of the row's view.\<close>

definition make_row ::
    "grid_cell \<Rightarrow> int \<Rightarrow> string \<Rightarrow> string \<Rightarrow> decimal \<Rightarrow> decimal \<Rightarrow> (string \<times> decimal) list option
      \<Rightarrow> grid_row" where
  "make_row cell replicas view_name sensitivity managed_tot private_tot components =
     (let (path, delta, managed_quality, private_quality) = gl_quality cell;
          profile = gl_profile cell;
          volume = gl_volume cell;
          monthly_tokens = volume * (tp_input_tokens profile + tp_output_tokens profile);
          managed_correct = dmul (of_int volume) managed_quality;
          private_correct = dmul (of_int volume) private_quality;
          managed_pm = per_million managed_tot monthly_tokens;
          private_pm = per_million private_tot monthly_tokens;
          managed_cpc = per_correct managed_tot managed_correct;
          private_cpc = per_correct private_tot private_correct
      in \<lparr>gr_view = view_name, gr_sensitivity = sensitivity, gr_monthly_requests = volume,
          gr_token_profile = gl_profile_name cell, gr_utilization_tier = gl_tier_name cell,
          gr_quality_path = path, gr_quality_delta = delta,
          gr_managed_quality = managed_quality, gr_private_quality = private_quality,
          gr_replicas = replicas, gr_managed_total = managed_tot, gr_private_total = private_tot,
          gr_components = components, gr_managed_per_million = managed_pm,
          gr_managed_token_definition = map_option (\<lambda>_. managed_token_definition) managed_pm,
          gr_private_per_million = private_pm,
          gr_private_token_definition = map_option (\<lambda>_. private_token_definition) private_pm,
          gr_managed_per_correct = managed_cpc, gr_private_per_correct = private_cpc,
          gr_lower_cost_path = lower_cost_path managed_cpc private_cpc\<rparr>)"

text \<open>The rows of one cell: View A, then View B once per sensitivity (a missing one is a \<open>KeyError\<close>).\<close>

definition view_b_row ::
    "cost_config \<Rightarrow> grid_cell \<Rightarrow> int \<Rightarrow> decimal \<Rightarrow> decimal \<Rightarrow> string \<Rightarrow> string + grid_row" where
  "view_b_row c cell replicas managed priv sensitivity =
     (case map_of (cc_operations c) sensitivity of
        None \<Rightarrow> Inl sensitivity
      | Some a \<Rightarrow>
          (let components = platform_components c (ut_replica_hours_per_month (gl_tier cell)) a;
               shared = dsum (map snd components)
           in Inr (make_row cell replicas ''view_b'' sensitivity (dadd managed shared)
                    (dadd priv shared) (Some components))))"

definition cell_rows ::
    "cost_config \<Rightarrow> decimal \<Rightarrow> decimal \<Rightarrow> grid_cell \<Rightarrow> string + grid_row list" where
  "cell_rows c inp out cell =
     bind_res (required_replicas (gl_volume cell) (ut_requests_per_replica_month (gl_tier cell)))
       (\<lambda>replicas.
         let managed = managed_inference (gl_volume cell) (gl_profile cell) inp out;
             hours = dmul (of_int replicas) (ut_replica_hours_per_month (gl_tier cell));
             priv = dmul hours (pv_gpu_node (cc_private c))
         in bind_res (traverse (view_b_row c cell replicas managed priv) sensitivity_names)
              (\<lambda>rows. Inr (make_row cell replicas ''view_a'' ''not_applicable'' managed priv None
                           # rows)))"

definition grid_cells :: "cost_config \<Rightarrow> decimal \<Rightarrow> decimal \<Rightarrow> grid_cell list" where
  "grid_cells c managed_quality private_quality =
     (let g = cc_scenario_grid c
      in concat (map (\<lambda>volume.
           concat (map (\<lambda>(profile_name, profile).
             concat (map (\<lambda>(tier_name, tier).
               map (\<lambda>q. \<lparr>gl_volume = volume, gl_profile_name = profile_name, gl_profile = profile,
                        gl_tier_name = tier_name, gl_tier = tier, gl_quality = q\<rparr>)
                 (quality_cases g managed_quality private_quality))
               (sg_utilization_tiers g)))
             (sg_token_profiles g)))
           (sg_monthly_requests g)))"

definition build_scenario_grid ::
    "cost_config \<Rightarrow> decimal \<Rightarrow> decimal \<Rightarrow> decimal \<Rightarrow> decimal \<Rightarrow> string + grid_row list" where
  "build_scenario_grid c inp out managed_quality private_quality =
     bind_res (traverse (cell_rows c inp out) (grid_cells c managed_quality private_quality))
       (\<lambda>rows. Inr (concat rows))"

section \<open>Lemmas\<close>

lemma replicas_ceiling:
  assumes "1 \<le> v" "v < 2 ^ 53" "1 \<le> c"
  shows "\<lceil>int_truediv v c\<rceil> = \<lceil>(of_int v :: rat) / of_int c\<rceil>"
proof -
  let ?x = "(of_int v :: rat) / of_int c" and ?k = "\<lceil>(of_int v :: rat) / of_int c\<rceil>"
  have c: "(0 :: rat) < of_int c" using assms(3) by simp
  have k: "of_int ?k - 1 < ?x" "?x \<le> of_int ?k" by linarith+
  have "0 < ?x" using assms c by simp
  then have kpos: "0 < ?k" by simp
  have "?x \<le> of_int v" using c assms by (simp add: field_simps)
  then have "?k \<le> v" by (simp add: ceiling_le_iff)
  with kpos assms(2) have "\<bar>?k\<bar> \<le> 2 ^ 53" by linarith
  then have "flt_round (of_int ?k) = of_int ?k" by (rule flt_round_int)
  then have upper: "flt_round ?x \<le> of_int ?k" using k(2) by (rule flt.rnd_below)
  have "(?k - 1) * c < v"
    using k(1) c by (simp add: field_simps flip: of_int_mult of_int_add of_int_diff)
  then have "(?k - 1) * c + 1 \<le> v" by simp
  then have "of_int ((?k - 1) * c + 1) \<le> (of_int v :: rat)" by (simp only: of_int_le_iff)
  then have "of_int ((?k - 1) * c + 1) / of_int c \<le> ?x"
    using c by (intro divide_right_mono) simp_all
  then have gap: "of_int ?k - 1 + 1 / of_int c \<le> ?x"
    using c by (simp add: add_divide_distrib)
  have "\<bar>flt_round ?x - ?x\<bar> \<le> 1 / 2 ^ 53 * ?x"
    using flt.rnd_error [of ?x] \<open>0 < ?x\<close> by simp
  moreover have "1 / 2 ^ 53 * ?x < 1 / of_int c"
  proof -
    have "(of_int v :: rat) < of_int (2 ^ 53)" using assms(2) by (simp only: of_int_less_iff)
    then show ?thesis using c by (simp add: field_simps)
  qed
  ultimately have "of_int ?k - 1 < flt_round ?x" using gap by linarith
  with upper show ?thesis unfolding int_truediv_def by (simp add: ceiling_unique)
qed

lemma flt_round_above_2_53: "flt_round 9007199254740993 = 9007199254740992"
proof -
  have "exponent_of 2 9007199254740993 = 53"
    by (rule exponent_of_unique) simp_all
  then have "unit_of 2 53 9007199254740993 = 2" by (simp add: unit_of_def)
  moreover have "round_half_even (9007199254740993 / 2) = 4503599627370496"
  proof -
    have "\<lfloor>(9007199254740993 :: rat) / 2\<rfloor> = 4503599627370496" by linarith
    then show ?thesis by (simp add: round_half_even_def)
  qed
  ultimately show ?thesis by (simp add: flt_round_def round_to_def)
qed

lemma quality_case_length:
  "length (quality_case m p k) = (if k = 0 then 1 else 2)"
  by (simp add: quality_case_def Let_def)

lemma clamp_rate_range: "0 \<le> clamp_rate x \<and> clamp_rate x \<le> 1"
  by (simp add: clamp_rate_def)

lemma quality_cases_range:
  assumes "0 \<le> m" "m \<le> 1" "0 \<le> p" "p \<le> 1" "(path, k, mq, pq) \<in> set (quality_cases g m p)"
  shows "0 \<le> mq \<and> mq \<le> 1 \<and> 0 \<le> pq \<and> pq \<le> 1"
  using assms clamp_rate_range
  by (fastforce simp: quality_cases_def quality_case_def Let_def split: if_splits)

lemma length_concat_const:
  "(\<forall>x \<in> set xs. length (f x) = n) \<Longrightarrow> length (concat (map f xs)) = length xs * n"
  by (induction xs) auto

lemma length_quality_cases:
  "length (quality_cases g m p) = (\<Sum>k \<leftarrow> sg_quality_points g. if k = 0 then 1 else 2)"
  by (simp add: quality_cases_def length_concat quality_case_length comp_def)

lemma length_grid_cells:
  "length (grid_cells c m p) =
     length (sg_monthly_requests (cc_scenario_grid c))
     * (length (sg_token_profiles (cc_scenario_grid c))
        * (length (sg_utilization_tiers (cc_scenario_grid c))
           * length (quality_cases (cc_scenario_grid c) m p)))"
  unfolding grid_cells_def Let_def
  by (intro length_concat_const ballI) (auto intro!: length_concat_const split: prod.splits)

lemma grid_cells_members:
  assumes "cell \<in> set (grid_cells c m p)"
  shows "gl_volume cell \<in> set (sg_monthly_requests (cc_scenario_grid c))"
    and "(gl_profile_name cell, gl_profile cell) \<in> set (sg_token_profiles (cc_scenario_grid c))"
    and "(gl_tier_name cell, gl_tier cell) \<in> set (sg_utilization_tiers (cc_scenario_grid c))"
    and "gl_quality cell \<in> set (quality_cases (cc_scenario_grid c) m p)"
  using assms by (auto simp: grid_cells_def Let_def)

lemma cell_rows_total:
  assumes "validate_cost_config c = Inr ()" "cell \<in> set (grid_cells c m p)"
  shows "\<exists>rows. cell_rows c inp out cell = Inr rows \<and> length rows = 4"
proof -
  note grid = grid_config_Inr [OF validate_cost_config_Inr(3) [OF assms(1)]]
  have "0 < gl_volume cell" "utilization_tier_ok (gl_tier cell)"
    using grid(1,3) grid_cells_members(1,3) [OF assms(2)] by auto
  then obtain k where k: "required_replicas (gl_volume cell)
      (ut_requests_per_replica_month (gl_tier cell)) = Inr k"
    by (simp add: required_replicas_def utilization_tier_ok_def)
  have "\<exists>x. view_b_row c cell r a b s = Inr x" if "s \<in> set sensitivity_names" for r a b s
    using config_operations [OF assms(1) that] by (fastforce simp: view_b_row_def Let_def)
  then have "\<exists>rows. traverse (view_b_row c cell r a b) sensitivity_names = Inr rows" for r a b
    by (simp add: traverse_Inr_iff)
  then obtain rows where rows: "traverse (view_b_row c cell k
      (managed_inference (gl_volume cell) (gl_profile cell) inp out)
      (dmul (dmul (of_int k) (ut_replica_hours_per_month (gl_tier cell)))
        (pv_gpu_node (cc_private c)))) sensitivity_names = Inr rows" by blast
  then have "length rows = 3" using traverse_length [OF rows] by (simp add: sensitivity_names_def)
  with k rows show ?thesis by (simp add: cell_rows_def Let_def)
qed

lemma build_grid_cells:
  assumes "build_scenario_grid c inp out m p = Inr rows" "r \<in> set rows"
  obtains cell crows where "cell \<in> set (grid_cells c m p)" "cell_rows c inp out cell = Inr crows"
    "r \<in> set crows"
proof -
  obtain rss where rss: "traverse (cell_rows c inp out) (grid_cells c m p) = Inr rss" "rows = concat rss"
    using assms(1) by (auto simp: build_scenario_grid_def bind_res_Inr)
  with assms(2) obtain crows where crows: "crows \<in> set rss" "r \<in> set crows" by auto
  from traverse_member [OF rss(1) crows(1)] crows(2) show thesis by (auto intro: that)
qed

lemma make_row_sel [simp]:
  "gr_managed_total (make_row cell k v s a b cs) = a" "gr_private_total (make_row cell k v s a b cs) = b"
  "gr_components (make_row cell k v s a b cs) = cs" "gr_replicas (make_row cell k v s a b cs) = k"
  "gr_monthly_requests (make_row cell k v s a b cs) = gl_volume cell"
  "gr_utilization_tier (make_row cell k v s a b cs) = gl_tier_name cell"
  "gr_token_profile (make_row cell k v s a b cs) = gl_profile_name cell"
  "gr_lower_cost_path (make_row cell k v s a b cs) =
     lower_cost_path (gr_managed_per_correct (make_row cell k v s a b cs))
       (gr_private_per_correct (make_row cell k v s a b cs))"
  "gr_managed_quality (make_row cell k v s a b cs) = fst (snd (snd (gl_quality cell)))"
  "gr_private_quality (make_row cell k v s a b cs) = snd (snd (snd (gl_quality cell)))"
  by (simp_all add: make_row_def Let_def split_beta)

lemma cell_row_cases:
  assumes "cell_rows c inp out cell = Inr rows" "r \<in> set rows"
  obtains k v s cs managed priv where
    "required_replicas (gl_volume cell) (ut_requests_per_replica_month (gl_tier cell)) = Inr k"
    "managed = managed_inference (gl_volume cell) (gl_profile cell) inp out"
    "priv = dmul (dmul (of_int k) (ut_replica_hours_per_month (gl_tier cell)))
              (pv_gpu_node (cc_private c))"
    "cs = None \<and> r = make_row cell k v s managed priv None
     \<or> (\<exists>xs. cs = Some xs \<and> r = make_row cell k v s (dadd managed (dsum (map snd xs)))
                                    (dadd priv (dsum (map snd xs))) (Some xs))"
proof -
  obtain k rows' where k:
    "required_replicas (gl_volume cell) (ut_requests_per_replica_month (gl_tier cell)) = Inr k"
    and rows': "traverse (view_b_row c cell k (managed_inference (gl_volume cell) (gl_profile cell) inp out)
        (dmul (dmul (of_int k) (ut_replica_hours_per_month (gl_tier cell)))
          (pv_gpu_node (cc_private c)))) sensitivity_names = Inr rows'"
    and rows: "rows = make_row cell k ''view_a'' ''not_applicable''
        (managed_inference (gl_volume cell) (gl_profile cell) inp out)
        (dmul (dmul (of_int k) (ut_replica_hours_per_month (gl_tier cell)))
          (pv_gpu_node (cc_private c))) None # rows'"
    using assms(1) by (auto simp: cell_rows_def bind_res_Inr Let_def)
  show thesis
  proof (cases "r \<in> set rows'")
    case False
    then show thesis using assms(2) rows k by (intro that [OF k refl refl]) auto
  next
    case True
    from traverse_member [OF rows' True] obtain s a where "map_of (cc_operations c) s = Some a"
      and "r = make_row cell k ''view_b'' s
        (dadd (managed_inference (gl_volume cell) (gl_profile cell) inp out)
          (dsum (map snd (platform_components c (ut_replica_hours_per_month (gl_tier cell)) a))))
        (dadd (dmul (dmul (of_int k) (ut_replica_hours_per_month (gl_tier cell)))
            (pv_gpu_node (cc_private c)))
          (dsum (map snd (platform_components c (ut_replica_hours_per_month (gl_tier cell)) a))))
        (Some (platform_components c (ut_replica_hours_per_month (gl_tier cell)) a))"
      by (auto simp: view_b_row_def Let_def split: option.splits)
    then show thesis
      by (intro that [OF k refl refl, of
            "Some (platform_components c (ut_replica_hours_per_month (gl_tier cell)) a)"]) blast
  qed
qed

lemma replicas_exact_bound:
  assumes "v < 2 ^ 53"
  shows "case required_replicas v c of
      Inl _ \<Rightarrow> v < 1 \<or> c < 1
    | Inr k \<Rightarrow> 1 \<le> v \<and> 1 \<le> c \<and> v \<le> k * c \<and> (k - 1) * c < v"
proof (cases "v < 1 \<or> c < 1")
  case False
  let ?x = "(of_int v :: rat) / of_int c"
  have c: "(0 :: rat) < of_int c" using False by simp
  have "of_int \<lceil>?x\<rceil> - 1 < ?x" "?x \<le> of_int \<lceil>?x\<rceil>" by linarith+
  then have "of_int v \<le> of_int \<lceil>?x\<rceil> * (of_int c :: rat)" "(of_int \<lceil>?x\<rceil> - 1) * (of_int c :: rat) < of_int v"
    by (simp_all only: pos_divide_le_eq [OF c] pos_less_divide_eq [OF c])
  then have "of_int v \<le> (of_int (\<lceil>?x\<rceil> * c) :: rat)" "(of_int ((\<lceil>?x\<rceil> - 1) * c) :: rat) < of_int v"
    by simp_all
  then have "v \<le> \<lceil>?x\<rceil> * c \<and> (\<lceil>?x\<rceil> - 1) * c < v"
    by (simp only: of_int_le_iff of_int_less_iff)
  then show ?thesis
    using False replicas_ceiling [OF _ assms] by (simp add: required_replicas_def)
qed (simp add: required_replicas_def)

lemma grid_built:
  assumes "validate_cost_config c = Inr ()"
  shows "\<exists>rows. build_scenario_grid c inp out m p = Inr rows
    \<and> length rows = length (sg_monthly_requests (cc_scenario_grid c))
        * (length (sg_token_profiles (cc_scenario_grid c))
           * (length (sg_utilization_tiers (cc_scenario_grid c))
              * (\<Sum>k \<leftarrow> sg_quality_points (cc_scenario_grid c). if k = 0 then 1 else 2))) * 4"
proof -
  obtain rss where rss: "traverse (cell_rows c inp out) (grid_cells c m p) = Inr rss"
    using cell_rows_total [OF assms] traverse_Inr_iff [of "cell_rows c inp out" "grid_cells c m p"]
    by blast
  have "length rows = 4" if "rows \<in> set rss" for rows
    using traverse_member [OF rss that] cell_rows_total [OF assms, of _ m p inp out] by fastforce
  then have "length (concat rss) = length rss * 4"
    using length_concat_const [of rss "\<lambda>x. x" 4] by simp
  then show ?thesis
    using rss traverse_length [OF rss]
    by (simp add: build_scenario_grid_def length_grid_cells length_quality_cases)
qed

lemma grid_count:
  "\<exists>rows. build_scenario_grid lab_cost 1 5 (9 / 10) (8 / 10) = Inr rows \<and> length rows = 600"
  using grid_built [OF lab_cost_valid, of 1 5 "9 / 10" "8 / 10"]
  by (simp add: lab_cost_def lab_grid_def)

section \<open>Properties\<close>

text \<open>
  Capacity is the exact ceiling below \<open>2^53\<close> requests: the replicas carry the volume and
  one fewer would not, although the code divides in binary floating point; the error is raised
  exactly for inputs below one.
\<close>

theorem replicas_exact:
  assumes "v < 2 ^ 53"
  shows "case required_replicas v c of
      Inl _ \<Rightarrow> v < 1 \<or> c < 1
    | Inr k \<Rightarrow> 1 \<le> v \<and> 1 \<le> c \<and> v \<le> k * c \<and> (k - 1) * c < v"
  using assms by (rule replicas_exact_bound)

theorem replicas_exact_witness:
  "required_replicas 1000001 500000 = Inr 3"
proof -
  define k where "k = \<lceil>int_truediv 1000001 500000\<rceil>"
  have k: "required_replicas 1000001 500000 = Inr k"
    by (simp add: required_replicas_def k_def)
  have "(1000001 :: int) < 2 ^ 53" by simp
  from replicas_exact [OF this, of 500000] have "1000001 \<le> k * 500000 \<and> (k - 1) * 500000 < 1000001"
    by (simp only: k sum.case)
  then have "1000001 \<le> k * 500000" "k * 500000 < 1500001" by (simp_all add: left_diff_distrib)
  then have "2 < k" "k < 4" by linarith+
  then have "k = 3" by simp
  with k show ?thesis by simp
qed

text \<open>
  From \<open>2^53 + 1\<close> requests on the floating-point division can lose the last request: the
  code then plans one replica too few.
\<close>

theorem replicas_undercount:
  "\<exists>k. required_replicas (2 ^ 53 + 1) 1 = Inr k \<and> k * 1 < 2 ^ 53 + 1"
  by (simp add: required_replicas_def int_truediv_def flt_round_above_2_53)

text \<open>
  The grid is complete: on an accepted configuration it is always built, with one View A row
  and three View B rows for every combination of volume, token profile, utilization tier and
  quality case, where a point other than zero gives two quality cases.
\<close>

theorem grid_complete:
  assumes "validate_cost_config c = Inr ()"
  shows "\<exists>rows. build_scenario_grid c inp out m p = Inr rows
    \<and> length rows = length (sg_monthly_requests (cc_scenario_grid c))
        * (length (sg_token_profiles (cc_scenario_grid c))
           * (length (sg_utilization_tiers (cc_scenario_grid c))
              * (\<Sum>k \<leftarrow> sg_quality_points (cc_scenario_grid c). if k = 0 then 1 else 2))) * 4"
  using assms by (rule grid_built)

theorem grid_complete_witness:
  "\<exists>rows. build_scenario_grid lab_cost 1 5 (9 / 10) (8 / 10) = Inr rows \<and> length rows = 600"
  using grid_complete [OF lab_cost_valid, of 1 5 "9 / 10" "8 / 10"]
  by (simp add: lab_cost_def lab_grid_def)

text \<open>
  Every row is sound: its replicas carry its volume; its quality rates are rates; its View B
  totals are its View A totals plus one and the same sum of the components it lists; and the path
  it names as cheaper has the strictly lower cost per correct task, with no verdict exactly when
  a cost per correct task does not exist.
\<close>

theorem grid_rows_sound:
  assumes "validate_cost_config c = Inr ()" "build_scenario_grid c inp out m p = Inr rows"
    and "0 \<le> m" "m \<le> 1" "0 \<le> p" "p \<le> 1" and "r \<in> set rows" "gr_monthly_requests r < 2 ^ 53"
  shows "(\<exists>prof tier.
         (gr_token_profile r, prof) \<in> set (sg_token_profiles (cc_scenario_grid c))
       \<and> (gr_utilization_tier r, tier) \<in> set (sg_utilization_tiers (cc_scenario_grid c))
       \<and> gr_monthly_requests r \<le> gr_replicas r * ut_requests_per_replica_month tier
       \<and> (let ma = managed_inference (gr_monthly_requests r) prof inp out;
              pa = dmul (dmul (of_int (gr_replicas r)) (ut_replica_hours_per_month tier))
                     (pv_gpu_node (cc_private c))
          in case gr_components r of
               None \<Rightarrow> gr_managed_total r = ma \<and> gr_private_total r = pa
             | Some xs \<Rightarrow> gr_managed_total r = dadd ma (dsum (map snd xs))
                 \<and> gr_private_total r = dadd pa (dsum (map snd xs))))
    \<and> 0 \<le> gr_managed_quality r \<and> gr_managed_quality r \<le> 1
    \<and> 0 \<le> gr_private_quality r \<and> gr_private_quality r \<le> 1
    \<and> (case (gr_managed_per_correct r, gr_private_per_correct r) of
          (Some x, Some y) \<Rightarrow>
            gr_lower_cost_path r = (if x < y then ''managed'' else if y < x then ''private'' else ''equal'')
        | _ \<Rightarrow> gr_lower_cost_path r = ''indeterminate'')"
proof -
  obtain cell crows where cell: "cell \<in> set (grid_cells c m p)" "cell_rows c inp out cell = Inr crows"
    "r \<in> set crows" by (rule build_grid_cells [OF assms(2,7)])
  obtain k v s cs ma pa where k:
    "required_replicas (gl_volume cell) (ut_requests_per_replica_month (gl_tier cell)) = Inr k"
    and bases: "ma = managed_inference (gl_volume cell) (gl_profile cell) inp out"
      "pa = dmul (dmul (of_int k) (ut_replica_hours_per_month (gl_tier cell))) (pv_gpu_node (cc_private c))"
    and r: "cs = None \<and> r = make_row cell k v s ma pa None
     \<or> (\<exists>xs. cs = Some xs \<and> r = make_row cell k v s (dadd ma (dsum (map snd xs)))
                                    (dadd pa (dsum (map snd xs))) (Some xs))"
    by (rule cell_row_cases [OF cell(2,3)])
  have vol: "gr_monthly_requests r = gl_volume cell" "gr_replicas r = k"
    "gr_token_profile r = gl_profile_name cell" "gr_utilization_tier r = gl_tier_name cell"
    "gr_managed_quality r = fst (snd (snd (gl_quality cell)))"
    "gr_private_quality r = snd (snd (snd (gl_quality cell)))"
    "gr_lower_cost_path r = lower_cost_path (gr_managed_per_correct r) (gr_private_per_correct r)"
    using r by auto
  have "gl_volume cell \<le> k * ut_requests_per_replica_month (gl_tier cell)"
    using replicas_exact_bound [of "gl_volume cell" "ut_requests_per_replica_month (gl_tier cell)"]
      assms(8) vol k by simp
  moreover have "0 \<le> gr_managed_quality r \<and> gr_managed_quality r \<le> 1
      \<and> 0 \<le> gr_private_quality r \<and> gr_private_quality r \<le> 1"
    using quality_cases_range [OF assms(3-6), of "fst (gl_quality cell)" "fst (snd (gl_quality cell))"
        "fst (snd (snd (gl_quality cell)))" "snd (snd (snd (gl_quality cell)))"]
      grid_cells_members(4) [OF cell(1)] vol by simp
  moreover have "let ma = managed_inference (gr_monthly_requests r) (gl_profile cell) inp out;
        pa = dmul (dmul (of_int (gr_replicas r)) (ut_replica_hours_per_month (gl_tier cell)))
               (pv_gpu_node (cc_private c))
      in case gr_components r of
           None \<Rightarrow> gr_managed_total r = ma \<and> gr_private_total r = pa
         | Some xs \<Rightarrow> gr_managed_total r = dadd ma (dsum (map snd xs))
             \<and> gr_private_total r = dadd pa (dsum (map snd xs))"
    using r bases by (auto simp: Let_def)
  moreover have "case (gr_managed_per_correct r, gr_private_per_correct r) of
      (Some x, Some y) \<Rightarrow>
        gr_lower_cost_path r = (if x < y then ''managed'' else if y < x then ''private'' else ''equal'')
    | _ \<Rightarrow> gr_lower_cost_path r = ''indeterminate''"
    using vol(7) by (simp add: lower_cost_path_def split: option.splits)
  moreover have "(gr_token_profile r, gl_profile cell) \<in> set (sg_token_profiles (cc_scenario_grid c))"
    "(gr_utilization_tier r, gl_tier cell) \<in> set (sg_utilization_tiers (cc_scenario_grid c))"
    using grid_cells_members(2,3) [OF cell(1)] vol by simp_all
  ultimately show ?thesis using vol(1,2) by (intro conjI exI [of _ "gl_profile cell"] exI [of _ "gl_tier cell"]) simp_all
qed

definition lab_rows :: "grid_row list" where
  "lab_rows = (case build_scenario_grid lab_cost 1 5 (9 / 10) (8 / 10) of Inl _ \<Rightarrow> [] | Inr rows \<Rightarrow> rows)"

theorem grid_rows_sound_witness:
  "\<exists>r \<in> set lab_rows. 0 \<le> gr_managed_quality r \<and> gr_managed_quality r \<le> 1"
proof -
  obtain rows where rows: "build_scenario_grid lab_cost 1 5 (9 / 10) (8 / 10) = Inr rows" "length rows = 600"
    using grid_count by blast
  then obtain r where r: "r \<in> set rows" by (cases rows) auto
  obtain cell crows where cell: "cell \<in> set (grid_cells lab_cost (9 / 10) (8 / 10))"
    "cell_rows lab_cost 1 5 cell = Inr crows" "r \<in> set crows" by (rule build_grid_cells [OF rows(1) r])
  have "gr_monthly_requests r \<in> set (sg_monthly_requests (cc_scenario_grid lab_cost))"
    using grid_cells_members(1) [OF cell(1)] cell_row_cases [OF cell(2,3)] by (metis make_row_sel(5))
  then have "gr_monthly_requests r < 2 ^ 53" by (auto simp: lab_cost_def lab_grid_def)
  with grid_rows_sound [OF lab_cost_valid rows(1) _ _ _ _ r]
  have "0 \<le> gr_managed_quality r \<and> gr_managed_quality r \<le> 1" by simp
  with r rows(1) show ?thesis by (auto simp: lab_rows_def)
qed

end
