(* ===== verification/Decision_Charts.thy ===== *)
theory Decision_Charts
  imports Publication Scenario_Grid
begin

text \<open>
  The charts of the decision brief (\<open>scripts/decision-brief-charts.py\<close>): the measured points of the
  published runs, the step path of the private cost, the monthly series of the scenario grid and the
  two SVG documents. \<open>math.log10\<close>, the decoders and SHA-256 are parameters; the text of a float in a
  label is that of its exact value. The loop of \<open>private_steps\<close> may run for ever, which is \<open>None\<close>.
\<close>

record chart_env =
  ch_loads :: "string \<Rightarrow> json option"
  ch_yaml :: "string \<Rightarrow> json option"
  ch_sha256 :: "string \<Rightarrow> string"
  ch_log10 :: "pyfloat \<Rightarrow> pyfloat"
  ch_data :: data_env

section \<open>Constants\<close>

definition brief_runs :: "string list" where
  "brief_runs =
     [''20260817T154919Z-cbe2c957-t0-managed-baseline'', ''20260817T160103Z-cbe2c957-t0-managed-baseline'',
      ''20260817T153645Z-cbe2c957-t1-private-baseline'', ''20260817T153715Z-cbe2c957-t1-private-baseline'',
      ''20260817T161636Z-cbe2c957-t3-hybrid'']"

definition grid_run :: string where
  "grid_run = ''20260817T153645Z-cbe2c957-t1-private-baseline''"

definition managed_color :: string where "managed_color = ''#b45309''"
definition private_color :: string where "private_color = ''#2563a6''"
definition hybrid_color :: string where "hybrid_color = ''#15803d''"
definition ink_color :: string where "ink_color = ''#17212b''"
definition axis_color :: string where "axis_color = ''#52606d''"
definition grid_color :: string where "grid_color = ''#e5e7eb''"

definition treatments :: "(string \<times> string \<times> string) list" where
  "treatments =
     [(''t0'', ''Managed'', managed_color), (''t1'', ''Private vLLM'', private_color),
      (''t3'', ''Hybrid'', hybrid_color)]"

definition workload_labels :: "(string \<times> string) list" where
  "workload_labels =
     [(''classification'', ''classification''), (''structured-extraction'', ''extraction'')]"

definition private_tiers :: "(string \<times> string) list" where
  "private_tiers = [(''high'', ''''), (''typical'', ''6 4''), (''low'', ''2 3'')]"

section \<open>Reading the runs\<close>

definition load_json :: "chart_env \<Rightarrow> file_store \<Rightarrow> string \<Rightarrow> string + json" where
  "load_json ch files path =
     (case files path of
        None \<Rightarrow> Inl ''OSError''
      | Some content \<Rightarrow>
          (case ch_loads ch content of None \<Rightarrow> Inl ''JSONDecodeError'' | Some v \<Rightarrow> Inr v))"

fun item_path :: "json \<Rightarrow> string list \<Rightarrow> string + json" where
  "item_path v [] = Inr v"
| "item_path v (k # ks) = bind_res (json_item v k) (\<lambda>w. item_path w ks)"

text \<open>\<open>float(v)\<close> of a finite number or of the text of one.\<close>

fun py_float :: "json \<Rightarrow> string + pyfloat" where
  "py_float (JFloat x) = Inr x"
| "py_float (JInt i) = Inr (flt_round (of_int i))"
| "py_float (JBool b) = Inr (if b then 1 else 0)"
| "py_float (JStr s) =
     (case parse_decimal s of None \<Rightarrow> Inl ''ValueError'' | Some d \<Rightarrow> Inr (float_of_decimal d))"
| "py_float _ = Inl ''TypeError''"

fun string_item :: "json \<Rightarrow> string \<Rightarrow> string + string" where
  "string_item v k =
     bind_res (json_item v k) (\<lambda>w. case w of JStr s \<Rightarrow> Inr s | _ \<Rightarrow> Inl ''TypeError'')"

definition float_at :: "json \<Rightarrow> string list \<Rightarrow> string + pyfloat" where
  "float_at v ks = bind_res (item_path v ks) py_float"

definition cost_per_correct :: "json \<Rightarrow> string + pyfloat" where
  "cost_per_correct summary =
     bind_res (json_item summary ''cost'') (\<lambda>cost.
     bind_res (string_item summary ''treatment'') (\<lambda>treatment.
     let kind = take 2 treatment
     in if kind = ''t0'' then float_at cost [''views'', ''view_a'', ''managed'', ''cost_per_correct_task_usd'']
        else if kind = ''t1'' then float_at cost [''views'', ''view_a'', ''private'', ''cost_per_correct_task_usd'']
        else float_at cost [''hybrid_combined_view_a'', ''cost_per_correct_task_usd'']))"

record chart_point =
  ct_treatment :: string
  ct_workload :: string
  ct_quality :: pyfloat
  ct_cost :: pyfloat
  ct_floor :: pyfloat

definition measured_point :: "chart_env \<Rightarrow> file_store \<Rightarrow> string \<Rightarrow> string \<Rightarrow> string + chart_point" where
  "measured_point ch files published run_id =
     bind_res (load_json ch files (run_path (run_path published run_id) ''summary.json'')) (\<lambda>summary.
     bind_res (string_item summary ''treatment'') (\<lambda>treatment.
     bind_res (string_item summary ''workload'') (\<lambda>workload.
     bind_res (float_at summary [''quality'', ''quality_rate'']) (\<lambda>rate.
     bind_res (cost_per_correct summary) (\<lambda>cost.
     bind_res (float_at summary [''slo'', ''checks'', ''quality_rate'', ''target'']) (\<lambda>least.
     Inr \<lparr>ct_treatment = take 2 treatment, ct_workload = workload, ct_quality = rate, ct_cost = cost,
          ct_floor = least\<rparr>))))))"

definition measured_points :: "chart_env \<Rightarrow> file_store \<Rightarrow> string \<Rightarrow> string + chart_point list" where
  "measured_points ch files published =
     bind_res (traverse (measured_point ch files published) brief_runs) (\<lambda>points.
       Inr (sort_key (\<lambda>p. (ct_workload p, ct_treatment p)) points))"

section \<open>The private cost\<close>

type_synonym cost_path = "(int \<times> pyfloat) list"

definition volume_cost :: "int \<Rightarrow> pyfloat \<Rightarrow> int \<Rightarrow> pyfloat" where
  "volume_cost capacity replica_cost volume =
     fmul (flt_round (of_int \<lceil>int_truediv volume capacity\<rceil>)) replica_cost"

definition replicas_cost :: "pyfloat \<Rightarrow> int \<Rightarrow> pyfloat" where
  "replicas_cost replica_cost replicas = fmul (flt_round (of_int replicas)) replica_cost"

partial_function (option) step_loop ::
    "int \<Rightarrow> pyfloat \<Rightarrow> int \<Rightarrow> int \<Rightarrow> cost_path \<Rightarrow> cost_path option" where
  [code]: "step_loop capacity replica_cost high boundary path =
     (if boundary < high
      then (let replicas = boundary div capacity
            in step_loop capacity replica_cost high (boundary + capacity)
                 (path @ [(boundary, replicas_cost replica_cost replicas),
                          (boundary, replicas_cost replica_cost (replicas + 1))]))
      else Some path)"

definition private_steps :: "int \<Rightarrow> pyfloat \<Rightarrow> int \<Rightarrow> int \<Rightarrow> (string + cost_path) option" where
  "private_steps capacity replica_cost low high =
     (if capacity = 0 then Some (Inl ''ZeroDivisionError'')
      else map_option (\<lambda>path. Inr (path @ [(high, volume_cost capacity replica_cost high)]))
             (step_loop capacity replica_cost high ((low div capacity + 1) * capacity)
                [(low, volume_cost capacity replica_cost low)]))"

section \<open>The monthly series\<close>

record chart_series =
  cv_label :: string
  cv_color :: string
  cv_dash :: string
  cv_points :: cost_path
  cv_path :: cost_path

text \<open>\<open>row[k] == v\<close>\<close>

definition row_is :: "json \<Rightarrow> string \<times> json \<Rightarrow> string + bool" where
  "row_is row kv = bind_res (json_item row (fst kv)) (\<lambda>v. Inr (json_eq v (snd kv)))"

fun row_matches :: "json \<Rightarrow> (string \<times> json) list \<Rightarrow> string + bool" where
  "row_matches row [] = Inr True"
| "row_matches row (kv # kvs) =
     bind_res (row_is row kv) (\<lambda>b. if b then row_matches row kvs else Inr False)"

fun select_rows :: "(string \<times> json) list \<Rightarrow> json list \<Rightarrow> string + json list" where
  "select_rows wanted [] = Inr []"
| "select_rows wanted (row # rows) =
     bind_res (row_matches row wanted) (\<lambda>b.
     bind_res (select_rows wanted rows) (\<lambda>rest. Inr (if b then row # rest else rest)))"

definition rows_of :: "json \<Rightarrow> string + json list" where
  "rows_of v = (case v of JArr rows \<Rightarrow> Inr rows | _ \<Rightarrow> Inl ''TypeError'')"

text \<open>A dictionary comprehension over the selected rows, sorted by volume.\<close>

definition volume_map ::
    "chart_env \<Rightarrow> (json \<Rightarrow> string + 'a) \<Rightarrow> (string \<times> json) list \<Rightarrow> json list \<Rightarrow> string + (int \<times> 'a) list" where
  "volume_map ch f wanted rows =
     bind_res (select_rows wanted rows) (\<lambda>selected.
     bind_res (traverse (\<lambda>row.
         bind_res (json_item row ''monthly_requests'') (\<lambda>v.
         bind_res (py_int (ch_data ch) v) (\<lambda>volume.
         bind_res (f row) (\<lambda>x. Inr (volume, x))))) selected) (\<lambda>entries.
     Inr (foldl (\<lambda>d (volume, x). AList.update volume x d) [] entries)))"

definition grid_points ::
    "chart_env \<Rightarrow> json list \<Rightarrow> string \<Rightarrow> (string \<times> json) list \<Rightarrow> string + cost_path" where
  "grid_points ch rows key wanted =
     bind_res (volume_map ch (\<lambda>row. bind_res (json_item row key) py_float) wanted rows) (\<lambda>d.
       Inr (sort d))"

definition managed_series :: "chart_env \<Rightarrow> json list \<Rightarrow> string \<times> string \<Rightarrow> string + chart_series" where
  "managed_series ch rows entry =
     (let (profile, dash) = entry
      in bind_res (grid_points ch rows ''managed_total_usd'' [(''token_profile'', JStr profile)]) (\<lambda>points.
         Inr \<lparr>cv_label = ''Managed, '' @ profile @ '' prompts'', cv_color = managed_color, cv_dash = dash,
              cv_points = points, cv_path = points\<rparr>))"

text \<open>\<open>math.isclose\<close> with its default tolerances\<close>

definition is_close :: "pyfloat \<Rightarrow> pyfloat \<Rightarrow> bool" where
  "is_close a b \<longleftrightarrow> a = b
     \<or> (let tol = flt_round (1 / 10 ^ 9); diff = \<bar>fsub b a\<bar>
        in diff \<le> \<bar>fmul tol b\<bar> \<or> diff \<le> \<bar>fmul tol a\<bar> \<or> diff \<le> 0)"

record tier_inputs =
  tn_points :: cost_path
  tn_capacity :: int
  tn_replica_cost :: pyfloat

definition tier_inputs_of :: "chart_env \<Rightarrow> json list \<Rightarrow> json \<Rightarrow> string \<Rightarrow> string + tier_inputs" where
  "tier_inputs_of ch rows tiers tier =
     bind_res (grid_points ch rows ''private_total_usd''
                 [(''token_profile'', JStr ''short''), (''utilization_tier'', JStr tier)]) (\<lambda>points.
     bind_res (volume_map ch (\<lambda>row. bind_res (json_item row ''replicas'') (py_int (ch_data ch)))
                 [(''utilization_tier'', JStr tier), (''token_profile'', JStr ''short'')] rows) (\<lambda>replicas.
     bind_res (item_path tiers [tier, ''requests_per_replica_month'']) (\<lambda>v.
     bind_res (py_int (ch_data ch) v) (\<lambda>capacity.
     case points of
       [] \<Rightarrow> Inl ''IndexError''
     | (low_volume, low_cost) # _ \<Rightarrow>
         (case map_of replicas low_volume of
            None \<Rightarrow> Inl ''KeyError''
          | Some n \<Rightarrow>
              if n = 0 then Inl ''ZeroDivisionError''
              else (let replica_cost = fdiv low_cost (flt_round (of_int n))
                    in if capacity = 0 then Inl ''ZeroDivisionError''
                       else if list_all (\<lambda>(volume, t). is_close (volume_cost capacity replica_cost volume) t) points
                       then Inr \<lparr>tn_points = points, tn_capacity = capacity, tn_replica_cost = replica_cost\<rparr>
                       else Inl ''replica capacity disagrees with the grid''))))))"

definition private_series ::
    "chart_env \<Rightarrow> json list \<Rightarrow> json \<Rightarrow> string \<times> string \<Rightarrow> (string + chart_series) option" where
  "private_series ch rows tiers entry =
     (let (tier, dash) = entry
      in case tier_inputs_of ch rows tiers tier of
           Inl e \<Rightarrow> Some (Inl e)
         | Inr i \<Rightarrow>
             map_option (\<lambda>steps. bind_res steps (\<lambda>path.
                 Inr \<lparr>cv_label = ''Private, '' @ tier @ '' utilization'', cv_color = private_color,
                      cv_dash = dash, cv_points = tn_points i, cv_path = path\<rparr>))
               (private_steps (tn_capacity i) (tn_replica_cost i) (fst (hd (tn_points i)))
                  (fst (last (tn_points i)))))"

fun private_all ::
    "chart_env \<Rightarrow> json list \<Rightarrow> json \<Rightarrow> (string \<times> string) list \<Rightarrow> (string + chart_series list) option" where
  "private_all ch rows tiers [] = Some (Inr [])"
| "private_all ch rows tiers (entry # entries) =
     (case private_series ch rows tiers entry of
        None \<Rightarrow> None
      | Some (Inl e) \<Rightarrow> Some (Inl e)
      | Some (Inr s) \<Rightarrow>
          map_option (\<lambda>rest. bind_res rest (\<lambda>ss. Inr (s # ss))) (private_all ch rows tiers entries))"

definition grid_inputs ::
    "chart_env \<Rightarrow> file_store \<Rightarrow> string \<Rightarrow> string \<Rightarrow> string + json list \<times> json" where
  "grid_inputs ch files published cost_config =
     bind_res (load_json ch files (run_path (run_path published grid_run) ''cost.json'')) (\<lambda>cost.
     case files cost_config of
       None \<Rightarrow> Inl ''OSError''
     | Some content \<Rightarrow>
         bind_res (json_item cost ''config_sha256'') (\<lambda>digest.
         if \<not> json_eq (JStr (ch_sha256 ch content)) digest then Inl ''the cost config no longer matches''
         else (case ch_yaml ch content of
                 None \<Rightarrow> Inl ''YAMLError''
               | Some raw \<Rightarrow>
                   bind_res (item_path raw [''scenario_grid'', ''utilization_tiers'']) (\<lambda>tiers.
                   bind_res (bind_res (item_path cost [''scenario_grid'', ''rows'']) rows_of) (\<lambda>rows.
                   bind_res (select_rows [(''view'', JStr ''view_a''),
                       (''quality_sensitivity_path'', JStr ''measured''), (''quality_delta_points'', JInt 0)] rows)
                     (\<lambda>measured. Inr (measured, tiers)))))))"

definition monthly_series ::
    "chart_env \<Rightarrow> file_store \<Rightarrow> string \<Rightarrow> string \<Rightarrow> (string + chart_series list) option" where
  "monthly_series ch files published cost_config =
     (case bind_res (grid_inputs ch files published cost_config) (\<lambda>(rows, tiers).
           bind_res (traverse (managed_series ch rows) [(''short'', ''''), (''medium'', ''6 4'')]) (\<lambda>managed.
             Inr (rows, tiers, managed))) of
        Inl e \<Rightarrow> Some (Inl e)
      | Inr (rows, tiers, managed) \<Rightarrow>
          map_option (\<lambda>rest. bind_res rest (\<lambda>ss. Inr (managed @ ss)))
            (private_all ch rows tiers private_tiers))"

section \<open>The step path\<close>

text \<open>The boundaries \<open>k\<close> to \<open>n\<close>, each with the cost below and above it.\<close>

definition steps_between :: "int \<Rightarrow> pyfloat \<Rightarrow> int \<Rightarrow> int \<Rightarrow> cost_path" where
  "steps_between capacity replica_cost k n =
     concat (map (\<lambda>j. [(j * capacity, replicas_cost replica_cost j),
                        (j * capacity, replicas_cost replica_cost (j + 1))]) [k..n])"

lemma steps_between_rec:
  "steps_between capacity replica_cost k n =
     (if k \<le> n then (k * capacity, replicas_cost replica_cost k)
        # (k * capacity, replicas_cost replica_cost (k + 1)) # steps_between capacity replica_cost (k + 1) n
      else [])"
  unfolding steps_between_def by (subst upto.simps) simp

lemma boundary_below: "0 < capacity \<Longrightarrow> k * capacity < high \<longleftrightarrow> k \<le> (high - 1) div capacity" for k :: int
  using zdiv_mono1 [of "k * capacity" "high - 1" capacity]
  by (auto simp: less_le_trans algebra_simps pos_imp_zdiv_nonneg_iff
      intro: order.strict_trans1 [OF _ _ ] dest: mult_right_mono [of _ _ capacity])
    (smt (verit) div_mult_mod_eq mod_int_pos_iff mult_right_mono mult.commute pos_mod_sign)

lemma step_loop_eq:
  assumes "0 < capacity"
  shows "step_loop capacity replica_cost high (k * capacity) path
    = Some (path @ steps_between capacity replica_cost k ((high - 1) div capacity))"
proof (induction "nat (high - k * capacity)" arbitrary: k path rule: less_induct)
  case less
  show ?case
  proof (cases "k * capacity < high")
    case True
    have "nat (high - (k + 1) * capacity) < nat (high - k * capacity)"
      using True assms by (simp add: algebra_simps)
    from less [OF this] True boundary_below [OF assms, of k high] assms show ?thesis
      by (subst step_loop.simps) (simp add: algebra_simps Let_def steps_between_rec [of _ _ k])
  next
    case False
    then show ?thesis
      using boundary_below [OF assms, of k high]
      by (subst step_loop.simps) (simp add: steps_between_rec [of _ _ k])
  qed
qed

text \<open>With a negative capacity the boundary moves away from its end.\<close>

lemma step_loop_stuck:
  assumes "step_loop capacity replica_cost high boundary path = Some y"
  shows "capacity < 0 \<longrightarrow> \<not> boundary < high"
  by (rule step_loop.raw_induct [OF _ assms, where P = "\<lambda>c r h b p y. c < 0 \<longrightarrow> \<not> b < h"])
    (fastforce simp: Let_def split: if_splits)

lemma replicas_for:
  assumes "0 < capacity" "1 \<le> v" "v < 2 ^ 53" "(k - 1) * capacity < v" "v \<le> k * capacity"
  shows "volume_cost capacity replica_cost v = replicas_cost replica_cost k"
proof -
  have "\<lceil>(of_int v :: rat) / of_int capacity\<rceil> = k"
  proof (rule ceiling_unique)
    have "(of_int ((k - 1) * capacity) :: rat) < of_int v" using assms(4) by (simp only: of_int_less_iff)
    then show "(of_int k :: rat) - 1 < of_int v / of_int capacity"
      using assms(1) by (simp add: field_simps)
    have "(of_int v :: rat) \<le> of_int (k * capacity)" using assms(5) by (simp only: of_int_le_iff)
    then show "(of_int v :: rat) / of_int capacity \<le> of_int k"
      using assms(1) by (simp add: field_simps)
  qed
  with replicas_ceiling [of v capacity] assms show ?thesis
    by (simp add: volume_cost_def replicas_cost_def)
qed

text \<open>Between two boundaries the path is level at the cost of the volumes there.\<close>

lemma level_at:
  assumes "0 < capacity" "(k - 1) * capacity \<le> x" "x < v" "v \<le> high" "n * capacity < high"
    and "high \<le> (n + 1) * capacity" "k \<le> n + 1" "1 \<le> v" "v < 2 ^ 53"
  shows "\<exists>before after a b. (x, replicas_cost replica_cost k) # steps_between capacity replica_cost k n
        @ [(high, replicas_cost replica_cost (n + 1))]
      = before @ (a, volume_cost capacity replica_cost v) # (b, volume_cost capacity replica_cost v) # after
    \<and> a < v \<and> v \<le> b"
  using assms(2,3,7)
proof (induction "nat (n + 1 - k)" arbitrary: k x)
  case 0
  then have k: "k = n + 1" by simp
  have "volume_cost capacity replica_cost v = replicas_cost replica_cost (n + 1)"
    using 0 assms by (intro replicas_for) (simp_all add: k)
  then show ?case
    using 0 assms(4) by (intro exI [of _ "[]"] exI [of _ x] exI [of _ high]) (simp add: k steps_between_rec)
next
  case (Suc m)
  then have k: "k \<le> n" by simp
  show ?case
  proof (cases "v \<le> k * capacity")
    case True
    then have "volume_cost capacity replica_cost v = replicas_cost replica_cost k"
      using Suc.prems assms by (intro replicas_for) simp_all
    then show ?thesis
      using Suc.prems True
      by (intro exI [of _ "[]"] exI [of _ "(k * capacity, replicas_cost replica_cost (k + 1))
            # steps_between capacity replica_cost (k + 1) n @ [(high, replicas_cost replica_cost (n + 1))]"]
          exI [of _ x] exI [of _ "k * capacity"]) (simp add: steps_between_rec [of _ _ k] k)
  next
    case False
    have "m = nat (n + 1 - (k + 1))" using Suc.hyps(2) by simp
    from Suc.hyps(1) [OF this, of "k * capacity"] False k obtain before after a b where
      "(k * capacity, replicas_cost replica_cost (k + 1)) # steps_between capacity replica_cost (k + 1) n
        @ [(high, replicas_cost replica_cost (n + 1))]
      = before @ (a, volume_cost capacity replica_cost v) # (b, volume_cost capacity replica_cost v) # after"
      "a < v" "v \<le> b"
      by auto
    then show ?thesis
      by (intro exI [of _ "(x, replicas_cost replica_cost k) # (k * capacity, replicas_cost replica_cost k) # before"]
          exI [of _ after] exI [of _ a] exI [of _ b]) (simp add: steps_between_rec [of _ _ k] k)
  qed
qed

lemma private_steps_eq:
  assumes "0 < capacity"
  shows "private_steps capacity replica_cost low high = Some (Inr
    ((low, volume_cost capacity replica_cost low)
     # steps_between capacity replica_cost (low div capacity + 1) ((high - 1) div capacity)
     @ [(high, volume_cost capacity replica_cost high)]))"
  using step_loop_eq [OF assms, of _ high "low div capacity + 1"] assms by (simp add: private_steps_def)

section \<open>Properties\<close>

text \<open>
  C38. The loop of \<open>private_steps\<close> ends exactly if the capacity of a replica is positive or no boundary
  lies below the end: for a positive capacity the path is returned, and it holds the two end points
  and two points for each multiple of the capacity between them; for a negative one it runs for ever.
\<close>

theorem private_steps_returns:
  assumes "capacity \<noteq> 0"
  shows "(private_steps capacity replica_cost low high = None
      \<longleftrightarrow> capacity < 0 \<and> (low div capacity + 1) * capacity < high)
    \<and> (0 < capacity \<longrightarrow> (\<exists>path. private_steps capacity replica_cost low high = Some (Inr path)
      \<and> length path = 2 + 2 * length [low div capacity + 1 .. (high - 1) div capacity]))"
proof (cases "0 < capacity")
  case True
  then show ?thesis
    by (simp add: private_steps_eq steps_between_def length_concat comp_def sum_list_triv)
next
  case False
  then have neg: "capacity < 0" using assms by simp
  let ?first = "(low div capacity + 1) * capacity" and ?path = "[(low, volume_cost capacity replica_cost low)]"
  have "step_loop capacity replica_cost high ?first ?path = None \<longleftrightarrow> ?first < high"
  proof
    assume "?first < high"
    then show "step_loop capacity replica_cost high ?first ?path = None"
      using step_loop_stuck [of capacity replica_cost high ?first ?path] neg by (metis not_None_eq)
  next
    assume "step_loop capacity replica_cost high ?first ?path = None"
    then show "?first < high" by (subst (asm) step_loop.simps) (simp split: if_splits)
  qed
  with neg show ?thesis by (simp add: private_steps_def)
qed

text \<open>
  C39. The step path tells the cost of a volume: if the least volume is no multiple of the capacity of
  a replica, every volume up to the greatest lies on a level piece of the path, between two neighbouring
  points whose cost is the number of replicas the volume needs times the cost of a replica; for volumes
  below \<open>2 ^ 53\<close>.
\<close>

theorem step_path_reads_cost:
  assumes "0 < capacity" "1 \<le> low" "\<not> capacity dvd low" "low < v" "v \<le> high" "high < 2 ^ 53"
  shows "\<exists>path before after a b. private_steps capacity replica_cost low high = Some (Inr path)
    \<and> path = before @ (a, volume_cost capacity replica_cost v) # (b, volume_cost capacity replica_cost v) # after
    \<and> a < v \<and> v \<le> b"
proof -
  let ?k = "low div capacity + 1" and ?n = "(high - 1) div capacity"
  have "low mod capacity \<noteq> 0" using assms(3) by (simp add: dvd_eq_mod_eq_0)
  then have "0 < low mod capacity" using pos_mod_sign [OF assms(1), of low] by linarith
  moreover have eq: "low = capacity * (low div capacity) + low mod capacity" by simp
  moreover have "(?k - 1) * capacity = capacity * (low div capacity)" by simp
  ultimately have low: "(?k - 1) * capacity < low" by linarith
  have "?k * capacity = capacity + capacity * (low div capacity)" by (simp add: algebra_simps)
  then have low': "low \<le> ?k * capacity"
    using eq pos_mod_bound [OF assms(1), of low] by linarith
  have high: "?n * capacity < high"
    using boundary_below [OF assms(1), of ?n high] by simp
  have high': "high \<le> (?n + 1) * capacity"
    using boundary_below [OF assms(1), of "?n + 1" high] by simp
  have "low div capacity \<le> ?n" using assms by (intro zdiv_mono1) simp_all
  then have "?k \<le> ?n + 1" by simp
  from level_at [OF assms(1) less_imp_le [OF low] assms(4,5) high high' this, of replica_cost]
  have "\<exists>before after a b. (low, replicas_cost replica_cost ?k) # steps_between capacity replica_cost ?k ?n
        @ [(high, replicas_cost replica_cost (?n + 1))]
      = before @ (a, volume_cost capacity replica_cost v) # (b, volume_cost capacity replica_cost v) # after
    \<and> a < v \<and> v \<le> b"
    using assms by simp
  moreover have "volume_cost capacity replica_cost low = replicas_cost replica_cost ?k"
    using low low' assms by (intro replicas_for) simp_all
  moreover have "volume_cost capacity replica_cost high = replicas_cost replica_cost (?n + 1)"
    using high high' assms by (intro replicas_for) simp_all
  ultimately show ?thesis
    unfolding private_steps_eq [OF assms(1)] by simp
qed

text \<open>
  The code as it is: if the least volume is a multiple of the capacity, the path rises with the
  volume from its first point to the first boundary, where it should be level: the second point has
  the cost of one more replica at a greater volume.
\<close>

theorem step_path_slanted:
  assumes "0 < capacity" "1 \<le> low" "capacity dvd low" "low + capacity < high" "high < 2 ^ 53"
  shows "\<exists>rest. private_steps capacity replica_cost low high = Some (Inr
      ((low, replicas_cost replica_cost (low div capacity))
       # (low + capacity, replicas_cost replica_cost (low div capacity + 1)) # rest))
    \<and> (\<forall>v. low < v \<and> v \<le> low + capacity \<longrightarrow>
         volume_cost capacity replica_cost v = replicas_cost replica_cost (low div capacity + 1))"
proof -
  obtain q where q: "low = capacity * q" using assms(3) by blast
  have "volume_cost capacity replica_cost low = replicas_cost replica_cost q"
    using assms q by (intro replicas_for) (simp_all add: algebra_simps)
  moreover have "q + 1 \<le> (high - 1) div capacity"
    using boundary_below [OF assms(1), of "q + 1" high] assms(4) q by (simp add: algebra_simps)
  moreover have "volume_cost capacity replica_cost v = replicas_cost replica_cost (q + 1)"
    if "low < v" "v \<le> low + capacity" for v
    using that assms q by (intro replicas_for) (simp_all add: algebra_simps)
  moreover have "steps_between capacity replica_cost (q + 1) ((high - 1) div capacity)
      = (low + capacity, replicas_cost replica_cost (q + 1)) # (low + capacity, replicas_cost replica_cost (q + 2))
        # steps_between capacity replica_cost (q + 2) ((high - 1) div capacity)"
    if "q + 1 \<le> (high - 1) div capacity"
    using that by (subst steps_between_rec) (simp add: q algebra_simps)
  moreover have "low div capacity = q" using assms(1) q by simp
  ultimately show ?thesis
    using assms(1) by (simp add: private_steps_eq flip: q)
qed

section \<open>The properties at concrete inputs\<close>

theorem private_steps_returns_witness:
  "private_steps (- 5) 1 1 9 = None
   \<and> (\<exists>path. private_steps 500000 579 10000 1000000 = Some (Inr path) \<and> length path = 4)"
  using private_steps_returns [of "- 5" 1 1 9] private_steps_returns [of 500000 579 10000 1000000] by simp

theorem step_path_reads_cost_witness:
  "\<exists>path before after a b. private_steps 100000 579 10000 1000000 = Some (Inr path)
    \<and> path = before @ (a, volume_cost 100000 579 250000) # (b, volume_cost 100000 579 250000) # after
    \<and> a < 250000 \<and> 250000 \<le> b"
  using step_path_reads_cost [of 100000 10000 250000 1000000 579] by simp

theorem step_path_slanted_witness:
  "\<exists>rest. private_steps 10000 2 10000 1000000 = Some (Inr
      ((10000, replicas_cost 2 1) # (20000, replicas_cost 2 2) # rest))"
  using step_path_slanted [of 10000 10000 1000000 2] by auto

end
