(* ===== verification/Decision_Svg.thy ===== *)
theory Decision_Svg
  imports Decision_Charts
begin

text \<open>
  The two SVG documents of \<open>scripts/decision-brief-charts.py\<close>: quality against cost per correct task,
  and monthly cost against request volume, both on logarithmic axes. \<open>math.log10\<close> raises a
  \<open>ValueError\<close> at zero and below.
\<close>

section \<open>Numbers\<close>

definition log_of :: "chart_env \<Rightarrow> pyfloat \<Rightarrow> string + pyfloat" where
  "log_of ch x = (if 0 < x then Inr (ch_log10 ch x) else Inl ''ValueError'')"

definition log_position ::
    "chart_env \<Rightarrow> pyfloat \<Rightarrow> pyfloat \<Rightarrow> pyfloat \<Rightarrow> pyfloat \<Rightarrow> pyfloat \<Rightarrow> string + pyfloat" where
  "log_position ch x low high start extent =
     bind_res (log_of ch x) (\<lambda>lx. bind_res (log_of ch low) (\<lambda>ll. bind_res (log_of ch high) (\<lambda>lh.
       if fsub lh ll = 0 then Inl ''ZeroDivisionError''
       else Inr (fadd start (fmul (fdiv (fsub lx ll) (fsub lh ll)) extent)))))"

text \<open>The thousands separators of \<open>format(n, ",")\<close>, on reversed digits.\<close>

fun group_digits :: "string \<Rightarrow> string" where
  "group_digits (a # b # c # d # rest) = a # b # c # CHR '','' # group_digits (d # rest)"
| "group_digits s = s"

definition thousands :: "string \<Rightarrow> string" where
  "thousands digits = rev (group_digits (rev digits))"

definition thousands_int :: "int \<Rightarrow> string" where
  "thousands_int n = (if n < 0 then CHR ''-'' # thousands (str_int (- n)) else thousands (str_int n))"

definition rstrip_zeros :: "string \<Rightarrow> string" where
  "rstrip_zeros s = rev (dropWhile (\<lambda>c. c = CHR ''0'') (rev s))"

definition chart_money :: "chart_env \<Rightarrow> pyfloat \<Rightarrow> string + string" where
  "chart_money ch x =
     (if 1 \<le> x then Inr (CHR 0x24 # thousands (fixed_text 0 x))
      else bind_res (log_of ch x) (\<lambda>l. Inr (rstrip_zeros (CHR 0x24 # fixed_text (nat (2 - \<lfloor>l\<rfloor>)) x))))"

text \<open>\<open>format(x, ".n%")\<close>\<close>

definition percent_text :: "nat \<Rightarrow> pyfloat \<Rightarrow> string" where
  "percent_text places x = fixed_text places (fmul x 100) @ ''%''"

section \<open>The frame of a chart\<close>

definition text_element :: "(string \<times> string) list \<Rightarrow> string \<Rightarrow> string" where
  "text_element attributes content = element 4 ''text'' attributes @ ''>'' @ content @ ''</text>''"

definition line_element :: "string \<Rightarrow> string \<Rightarrow> string \<Rightarrow> string \<Rightarrow> (string \<times> string) list \<Rightarrow> string" where
  "line_element x1 y1 x2 y2 attributes =
     element 4 ''line'' ([(''x1'', x1), (''y1'', y1), (''x2'', x2), (''y2'', y2)] @ attributes) @ ''/>''"

definition chart_header :: "string \<Rightarrow> string \<Rightarrow> string list" where
  "chart_header title subtitle =
     [element 0 ''svg'' [(''xmlns'', ''http://www.w3.org/2000/svg''), (''width'', ''680''), (''height'', ''380''),
        (''viewBox'', ''0 0 680 380''), (''role'', ''img'')] @ ''>'',
      ''  <title>'' @ html_escape title @ ''</title>'',
      element 2 ''rect'' [(''width'', ''680''), (''height'', ''380''), (''fill'', ''#ffffff'')] @ ''/>'',
      element 2 ''g'' [(''font-family'', ''sans-serif''), (''fill'', ink_color)] @ ''>'',
      text_element [(''x'', ''340''), (''y'', ''24''), (''text-anchor'', ''middle''), (''font-size'', ''17''),
        (''font-weight'', ''600'')] (html_escape title),
      text_element [(''x'', ''340''), (''y'', ''41''), (''text-anchor'', ''middle''), (''font-size'', ''10'')]
        (html_escape subtitle)]"

definition cost_position :: "chart_env \<Rightarrow> pyfloat \<Rightarrow> pyfloat \<Rightarrow> pyfloat \<Rightarrow> string + pyfloat" where
  "cost_position ch low high cost =
     bind_res (log_position ch cost low high 0 260) (\<lambda>p. Inr (fsub 320 p))"

definition cost_tick :: "chart_env \<Rightarrow> pyfloat \<Rightarrow> pyfloat \<Rightarrow> pyfloat \<Rightarrow> string + string list" where
  "cost_tick ch low high cost =
     bind_res (cost_position ch low high cost) (\<lambda>y.
     bind_res (chart_money ch cost) (\<lambda>money.
     Inr [line_element ''80'' (fixed_text 2 y) ''480'' (fixed_text 2 y) [(''stroke'', grid_color)],
          text_element [(''x'', ''74''), (''y'', fixed_text 2 (fadd y 3)), (''text-anchor'', ''end''),
            (''font-size'', ''9'')] money]))"

text \<open>The axes with the captions below and left of them.\<close>

definition chart_axes :: "string \<Rightarrow> string \<Rightarrow> string list" where
  "chart_axes below beside =
     [line_element ''80'' ''60'' ''80'' ''320'' [(''stroke'', axis_color)],
      line_element ''80'' ''320'' ''480'' ''320'' [(''stroke'', axis_color)],
      text_element [(''x'', ''280.0''), (''y'', ''352''), (''text-anchor'', ''middle''), (''font-size'', ''10'')] below,
      text_element [(''x'', ''18''), (''y'', ''190.0''), (''text-anchor'', ''middle''), (''font-size'', ''10''),
        (''transform'', ''rotate(-90 18 190.0)'')] beside]"

definition looked_up :: "(string \<times> 'a) list \<Rightarrow> string \<Rightarrow> string + 'a" where
  "looked_up d k = (case map_of d k of None \<Rightarrow> Inl ''KeyError'' | Some v \<Rightarrow> Inr v)"

section \<open>Quality and cost\<close>

definition quality_low :: pyfloat where "quality_low = flt_round (3 / 10)"
definition point_low :: pyfloat where "point_low = flt_round (1 / 10 ^ 5)"
definition point_high :: pyfloat where "point_high = flt_round (1 / 10 ^ 2)"

definition quality_position :: "pyfloat \<Rightarrow> pyfloat" where
  "quality_position rate = fadd 80 (fmul (fdiv (fsub rate quality_low) (fsub 1 quality_low)) 400)"

definition quality_tick :: "nat \<Rightarrow> string" where
  "quality_tick tenths =
     (let rate = flt_round (of_nat tenths / 10)
      in text_element [(''x'', fixed_text 2 (quality_position rate)), (''y'', ''334''),
           (''text-anchor'', ''middle''), (''font-size'', ''9'')] (percent_text 0 rate))"

definition floor_lines :: "nat \<Rightarrow> string \<times> pyfloat \<Rightarrow> string + string list" where
  "floor_lines index entry =
     (let (workload, least) = entry; x = quality_position least
      in bind_res (looked_up workload_labels workload) (\<lambda>name.
         Inr [line_element (fixed_text 2 x) ''60'' (fixed_text 2 x) ''320''
                [(''stroke'', axis_color), (''stroke-dasharray'', ''3 3'')],
              text_element [(''x'', fixed_text 2 (fsub x 4)), (''y'', str_int (320 - 6 - int index * 12)),
                (''text-anchor'', ''end''), (''font-size'', ''9''), (''fill'', axis_color)]
                (name @ '' floor '' @ percent_text 0 least)]))"

definition point_marker :: "chart_point \<Rightarrow> string \<Rightarrow> pyfloat \<Rightarrow> pyfloat \<Rightarrow> string \<times> string" where
  "point_marker p color x y =
     (if ct_workload p = ''classification''
      then (element 4 ''circle'' [(''cx'', fixed_text 2 x), (''cy'', fixed_text 2 y), (''r'', ''6''),
              (''fill'', color), (''stroke'', color), (''stroke-width'', ''2'')] @ ''>'', ''    </circle>'')
      else (element 4 ''rect'' [(''x'', fixed_text 2 (fsub x 6)), (''y'', fixed_text 2 (fsub y 6)),
              (''width'', ''12''), (''height'', ''12''), (''fill'', color), (''stroke'', color),
              (''stroke-width'', ''2'')] @ ''>'', ''    </rect>''))"

definition point_lines :: "chart_env \<Rightarrow> chart_point \<Rightarrow> string + string list" where
  "point_lines ch p =
     bind_res (looked_up treatments (ct_treatment p)) (\<lambda>(name, color).
     bind_res (cost_position ch point_low point_high (ct_cost p)) (\<lambda>y.
     bind_res (looked_up workload_labels (ct_workload p)) (\<lambda>workload.
     bind_res (chart_money ch (ct_cost p)) (\<lambda>money.
     let x = quality_position (ct_quality p);
         caption = name @ '', '' @ workload;
         detail = percent_text 1 (ct_quality p) @ '' at '' @ money;
         (marker, closing) = point_marker p color x y;
         (anchor, offset) = (if flt_round (9 / 10) < ct_quality p then (''end'', -10) else (''start'', 10))
     in Inr [marker, ''      <title>'' @ html_escape caption @ '': '' @ html_escape detail @ ''</title>'', closing,
             text_element [(''x'', fixed_text 2 (fadd x offset)), (''y'', fixed_text 2 (fsub y 3)),
               (''text-anchor'', anchor), (''font-size'', ''10''), (''fill'', color)] (html_escape caption),
             text_element [(''x'', fixed_text 2 (fadd x offset)), (''y'', fixed_text 2 (fadd y 9)),
               (''text-anchor'', anchor), (''font-size'', ''9'')] (html_escape detail)]))))"

definition legend_entry :: "nat \<Rightarrow> string \<times> string \<Rightarrow> string list" where
  "legend_entry index entry =
     (let (name, color) = entry; y = 60 + 52 + int index * 18
      in [element 4 ''rect'' [(''x'', ''508''), (''y'', str_int (y - 8)), (''width'', ''12''), (''height'', ''12''),
            (''fill'', color)] @ ''/>'',
          text_element [(''x'', ''526''), (''y'', str_int (y + 2)), (''font-size'', ''10'')] name])"

definition point_legend :: "string list" where
  "point_legend =
     [element 4 ''circle'' [(''cx'', ''514''), (''cy'', ''66''), (''r'', ''5''), (''fill'', axis_color)] @ ''/>'',
      text_element [(''x'', ''526''), (''y'', ''69''), (''font-size'', ''10'')] ''Classification'',
      element 4 ''rect'' [(''x'', ''509''), (''y'', ''79''), (''width'', ''10''), (''height'', ''10''),
        (''fill'', axis_color)] @ ''/>'',
      text_element [(''x'', ''526''), (''y'', ''88''), (''font-size'', ''10'')] ''Extraction'']
     @ concat (map (\<lambda>(i, e). legend_entry i e) (List.enumerate 0 (map snd treatments)))"

text \<open>The floors of the baseline runs, each once and in order.\<close>

definition baseline_floors :: "chart_point list \<Rightarrow> (string \<times> pyfloat) list" where
  "baseline_floors points =
     sort (remdups (map (\<lambda>p. (ct_workload p, ct_floor p)) (filter (\<lambda>p. ct_treatment p \<noteq> ''t3'') points)))"

definition quality_cost_svg :: "chart_env \<Rightarrow> chart_point list \<Rightarrow> string + string" where
  "quality_cost_svg ch points =
     bind_res (traverse (\<lambda>k. cost_tick ch point_low point_high (flt_round (1 / 10 ^ k))) [5, 4, 3, 2]) (\<lambda>ticks.
     bind_res (traverse (\<lambda>(i, e). floor_lines i e) (List.enumerate 0 (baseline_floors points))) (\<lambda>floors.
     bind_res (traverse (point_lines ch) points) (\<lambda>markers.
     Inr (join_lines
       (chart_header ''Measured quality and cost per correct task''
          ''View A, 900 requests per arm, 2026-08-17; dashed lines are the baseline quality floors''
        @ concat ticks @ map quality_tick [3, 4, 5, 6, 7, 8, 9, 10]
        @ chart_axes ''Share of tasks answered correctly'' ''Cost per correct task (log scale)''
        @ concat floors @ concat markers @ point_legend @ [''  </g>'', ''</svg>'', '''']))))) "

section \<open>Monthly cost\<close>

definition request_position :: "chart_env \<Rightarrow> int \<Rightarrow> string + pyfloat" where
  "request_position ch requests =
     log_position ch (flt_round (of_int requests)) 10000 1000000 80 400"

definition monthly_position :: "chart_env \<Rightarrow> pyfloat \<Rightarrow> string + pyfloat" where
  "monthly_position ch cost = cost_position ch 10 20000 cost"

definition volume_label :: "int \<Rightarrow> string" where
  "volume_label requests =
     (if requests < 1000000 then thousands_int (requests div 1000) @ ''k''
      else str_int (requests div 1000000) @ ''M'')"

definition volume_tick :: "chart_env \<Rightarrow> int \<Rightarrow> string + string list" where
  "volume_tick ch requests =
     bind_res (request_position ch requests) (\<lambda>x.
     Inr [line_element (fixed_text 2 x) ''60'' (fixed_text 2 x) ''320'' [(''stroke'', grid_color)],
          text_element [(''x'', fixed_text 2 x), (''y'', ''334''), (''text-anchor'', ''middle''),
            (''font-size'', ''9'')] (volume_label requests)])"

definition path_coordinate :: "chart_env \<Rightarrow> int \<times> pyfloat \<Rightarrow> string + string" where
  "path_coordinate ch entry =
     bind_res (request_position ch (fst entry)) (\<lambda>x.
     bind_res (monthly_position ch (snd entry)) (\<lambda>y.
       Inr (fixed_text 2 x @ '','' @ fixed_text 2 y)))"

definition dash_attribute :: "chart_series \<Rightarrow> (string \<times> string) list" where
  "dash_attribute s = (if cv_dash s = '''' then [] else [(''stroke-dasharray'', cv_dash s)])"

definition series_point :: "chart_env \<Rightarrow> chart_series \<Rightarrow> int \<times> pyfloat \<Rightarrow> string + string list" where
  "series_point ch s entry =
     bind_res (request_position ch (fst entry)) (\<lambda>x.
     bind_res (monthly_position ch (snd entry)) (\<lambda>y.
     bind_res (chart_money ch (snd entry)) (\<lambda>money.
     Inr [element 4 ''circle'' [(''cx'', fixed_text 2 x), (''cy'', fixed_text 2 y), (''r'', ''3''),
            (''fill'', cv_color s)] @ ''>'',
          ''      <title>'' @ html_escape (cv_label s) @ '': '' @ thousands_int (fst entry) @ '' requests, ''
            @ money @ ''</title>'',
          ''    </circle>''])))"

definition series_lines :: "chart_env \<Rightarrow> chart_series \<Rightarrow> string + string list" where
  "series_lines ch s =
     bind_res (traverse (path_coordinate ch) (cv_path s)) (\<lambda>coordinates.
     bind_res (traverse (series_point ch s) (cv_points s)) (\<lambda>points.
     Inr ((element 4 ''polyline'' ([(''points'', joined_by '' '' coordinates), (''fill'', ''none''),
             (''stroke'', cv_color s), (''stroke-width'', ''2'')] @ dash_attribute s) @ ''/>'')
          # concat points)))"

definition series_legend :: "nat \<Rightarrow> chart_series \<Rightarrow> string list" where
  "series_legend index s =
     (let y = 60 + 6 + int index * 18
      in [line_element ''500'' (str_int y) ''524'' (str_int y)
            ([(''stroke'', cv_color s), (''stroke-width'', ''2'')] @ dash_attribute s),
          text_element [(''x'', ''530''), (''y'', str_int (y + 3)), (''font-size'', ''10'')]
            (html_escape (cv_label s))])"

definition monthly_cost_svg :: "chart_env \<Rightarrow> chart_series list \<Rightarrow> string + string" where
  "monthly_cost_svg ch series =
     bind_res (traverse (cost_tick ch 10 20000) [10, 100, 1000, 10000]) (\<lambda>costs.
     bind_res (traverse (volume_tick ch) (sort (remdups (concat (map (map fst \<circ> cv_points) series))))) (\<lambda>volumes.
     bind_res (traverse (series_lines ch) series) (\<lambda>drawn.
     Inr (join_lines
       (chart_header ''Modelled monthly cost by request volume''
          ''View A monthly totals, one NVIDIA L4 per private replica, August 2026 prices''
        @ concat costs @ concat volumes
        @ chart_axes ''Requests per month (log scale)'' ''USD per month (log scale)''
        @ concat drawn
        @ concat (map (\<lambda>(i, s). series_legend i s) (List.enumerate 0 series))
        @ [''  </g>'', ''</svg>'', ''''])))))"

text \<open>Both documents, or the failure of one; \<open>None\<close> if the step path is never finished.\<close>

definition render_charts ::
    "chart_env \<Rightarrow> file_store \<Rightarrow> string \<Rightarrow> string \<Rightarrow> (string + (string \<times> string) list) option" where
  "render_charts ch files published cost_config =
     (case bind_res (measured_points ch files published) (quality_cost_svg ch) of
        Inl e \<Rightarrow> Some (Inl e)
      | Inr first \<Rightarrow>
          map_option (\<lambda>found. bind_res (bind_res found (monthly_cost_svg ch)) (\<lambda>second.
              Inr [(''quality-cost.svg'', first), (''monthly-cost.svg'', second)]))
            (monthly_series ch files published cost_config))"


section \<open>Positions\<close>

lemma log_position_range:
  assumes "log_position ch x low high start extent = Inr p" "low \<le> x" "x \<le> high"
    and "\<And>u v. 0 < u \<Longrightarrow> u \<le> v \<Longrightarrow> ch_log10 ch u \<le> ch_log10 ch v"
    and "flt_round start = start" "flt_round extent = extent" "flt_round (start + extent) = start + extent"
    and "0 \<le> extent"
  shows "start \<le> p \<and> p \<le> start + extent"
proof -
  obtain a d where p: "p = fadd start (fmul (fdiv a d) extent)" "d \<noteq> 0"
    and a: "a = fsub (ch_log10 ch x) (ch_log10 ch low)" and d: "d = fsub (ch_log10 ch high) (ch_log10 ch low)"
    and pos: "0 < x" "0 < low"
    using assms(1) by (auto simp: log_position_def log_of_def bind_res_Inr split: if_splits)
  have "ch_log10 ch low \<le> ch_log10 ch x" "ch_log10 ch x \<le> ch_log10 ch high"
    using assms(2,3,4) pos by auto
  then have "0 \<le> a" "a \<le> d"
    unfolding a d fsub_def by (auto intro: flt.rnd_nonneg flt.rnd_mono)
  then have d_pos: "0 < d" using p(2) by linarith
  have "0 \<le> fdiv a d" unfolding fdiv_def using \<open>0 \<le> a\<close> d_pos by (intro flt.rnd_nonneg) simp
  moreover have "fdiv a d \<le> 1"
    unfolding fdiv_def using \<open>a \<le> d\<close> d_pos flt_round_int [of 1] by (intro flt.rnd_below) simp_all
  ultimately have q: "0 \<le> fmul (fdiv a d) extent" "fmul (fdiv a d) extent \<le> extent"
    unfolding fmul_def using assms(6,8) by (auto intro: flt.rnd_nonneg flt.rnd_below mult_left_le_one_le)
  have "start \<le> p" unfolding p(1) fadd_def using assms(5) q(1) by (intro flt.rnd_above) simp_all
  moreover have "p \<le> start + extent" unfolding p(1) fadd_def using assms(7) q(2) by (intro flt.rnd_below) simp_all
  ultimately show ?thesis ..
qed

text \<open>
  Costs and volumes between the ends of their axes are drawn inside the plot, wherever \<open>log10\<close> puts
  them, as long as it does not reverse their order.
\<close>

theorem plotted_inside:
  assumes "\<And>u v. 0 < u \<Longrightarrow> u \<le> v \<Longrightarrow> ch_log10 ch u \<le> ch_log10 ch v"
  shows "cost_position ch low high cost = Inr y \<and> low \<le> cost \<and> cost \<le> high \<longrightarrow> 60 \<le> y \<and> y \<le> 320"
    and "request_position ch requests = Inr x \<and> 10000 \<le> requests \<and> requests \<le> 1000000 \<longrightarrow> 80 \<le> x \<and> x \<le> 480"
proof -
  show "cost_position ch low high cost = Inr y \<and> low \<le> cost \<and> cost \<le> high \<longrightarrow> 60 \<le> y \<and> y \<le> 320"
  proof
    assume y: "cost_position ch low high cost = Inr y \<and> low \<le> cost \<and> cost \<le> high"
    then obtain p where p: "log_position ch cost low high 0 260 = Inr p" "y = fsub 320 p"
      by (auto simp: cost_position_def bind_res_Inr)
    have "0 \<le> p" "p \<le> 260"
      using log_position_range [OF p(1) _ _ assms] y flt_round_int [of 260] flt_round_int [of 0] by auto
    then show "60 \<le> y \<and> y \<le> 320"
      unfolding p(2) fsub_def using flt_round_int [of 60] flt_round_int [of 320]
      by (auto intro: flt.rnd_above flt.rnd_below)
  qed
  show "request_position ch requests = Inr x \<and> 10000 \<le> requests \<and> requests \<le> 1000000 \<longrightarrow> 80 \<le> x \<and> x \<le> 480"
  proof
    assume x: "request_position ch requests = Inr x \<and> 10000 \<le> requests \<and> requests \<le> 1000000"
    then have whole: "flt_round (of_int requests) = (of_int requests :: rat)" by (intro flt_round_int) simp
    have p: "log_position ch (of_int requests) 10000 1000000 80 400 = Inr x"
      using x unfolding request_position_def whole by blast
    have "(10000 :: rat) = of_int 10000" "(1000000 :: rat) = of_int 1000000" by simp_all
    then have "(10000 :: rat) \<le> of_int requests" "of_int requests \<le> (1000000 :: rat)"
      using x by (simp_all only: of_int_le_iff)
    from log_position_range [OF p this assms] show "80 \<le> x \<and> x \<le> 480"
      using flt_round_int [of 80] flt_round_int [of 400] flt_round_int [of 480] by simp
  qed
qed

end
