(* ===== verification/Report_Costs.thy ===== *)
theory Report_Costs
  imports Report
begin

text \<open>
  The rest of the report (\<open>benchmark/report.py\<close>): the repeats and their dispersion, the breakdown
  by provider, the billed hours, the costs of the managed, private and combined routes with their
  views, and the confidence intervals over the repeats. The environment variable of the billed
  hours and the generator are parameters.
\<close>

section \<open>Repeats\<close>

record repeat_row =
  ry_index :: int
  ry_requests :: nat
  ry_errors :: nat
  ry_quality_rate :: "pyfloat option"
  ry_e2e_p95 :: "pyfloat option"
  ry_ttft_p95 :: "pyfloat option"
  ry_throughput :: "pyfloat option"

definition rate_if_measured :: "benchmark_record list \<Rightarrow> pyfloat option" where
  "rate_if_measured g =
     (if br_task_correct (hd g) = None then None
      else Some (count_ratio (count_where correct g) (length g)))"

definition repeat_row_of :: "benchmark_record list \<Rightarrow> int \<Rightarrow> repeat_row" where
  "repeat_row_of records index =
     (let g = group_of br_repeat_index records index;
          span = float_of_decimal (span_seconds g)
      in \<lparr>ry_index = index, ry_requests = length g, ry_errors = count_where failed g,
          ry_quality_rate = rate_if_measured g,
          ry_e2e_p95 = lt_p95 (latency (e2e_values g)), ry_ttft_p95 = lt_p95 (latency (ttft_values g)),
          ry_throughput = (if span = 0 then None else Some (fdiv (of_nat (length g)) span))\<rparr>)"

definition repeat_summary :: "benchmark_record list \<Rightarrow> repeat_row list" where
  "repeat_summary records =
     map (repeat_row_of records) (sorted_set (map br_repeat_index records))"

record dispersion =
  ds_min :: pyfloat
  ds_median :: pyfloat
  ds_max :: pyfloat

text \<open>\<open>statistics.median\<close> of a non-empty list of floats.\<close>

definition median :: "pyfloat list \<Rightarrow> pyfloat" where
  "median values =
     (let data = sort values; n = length data
      in if odd n then data ! (n div 2)
         else fdiv (fadd (data ! (n div 2 - 1)) (data ! (n div 2))) 2)"

definition dispersion_of :: "('a \<Rightarrow> pyfloat option) \<Rightarrow> 'a list \<Rightarrow> dispersion option" where
  "dispersion_of field rows =
     (let values = List.map_filter field rows
      in if values = [] then None
         else Some \<lparr>ds_min = Min (set values), ds_median = median values, ds_max = Max (set values)\<rparr>)"

section \<open>Providers\<close>

record provider_row =
  pw_requests :: nat
  pw_correct :: nat
  pw_quality_rate :: "pyfloat option"
  pw_total :: decimal
  pw_per_request :: "decimal option"
  pw_per_correct :: "decimal option"
  pw_cost_basis :: string

definition provider_name_of :: "benchmark_record \<Rightarrow> string" where
  "provider_name_of r = or_str (br_provider r) ''unknown''"

definition cost_or_zero :: "benchmark_record \<Rightarrow> decimal" where
  "cost_or_zero r = (case br_managed_cost r of None \<Rightarrow> 0 | Some d \<Rightarrow> d)"

definition provider_total :: "decimal \<Rightarrow> string \<Rightarrow> benchmark_record list \<Rightarrow> decimal \<times> string" where
  "provider_total private_total name g =
     (if starts_with name ''managed''
      then (dsum (map cost_or_zero g), ''provider-reported usage and date-stamped local mock pricing'')
      else if starts_with name ''private''
      then (private_total, ''local billed private service time allocated to the private route'')
      else (0, ''no priced route''))"

definition provider_row_of :: "benchmark_record list \<Rightarrow> decimal \<Rightarrow> string \<Rightarrow> provider_row" where
  "provider_row_of records private_total name =
     (let g = group_of provider_name_of records name;
          (cost, basis) = provider_total private_total name g
      in \<lparr>pw_requests = length g, pw_correct = count_where correct g,
          pw_quality_rate = rate_if_measured g, pw_total = cost,
          pw_per_request = ratio_if cost (int (length g)),
          pw_per_correct = ratio_if cost (int (count_where correct g)), pw_cost_basis = basis\<rparr>)"

definition provider_breakdown ::
    "benchmark_record list \<Rightarrow> decimal \<Rightarrow> (string \<times> provider_row) list" where
  "provider_breakdown records private_total =
     map (\<lambda>name. (name, provider_row_of records private_total name))
       (sorted_set (map provider_name_of records))"

fun mode_prefix :: "provider_mode \<Rightarrow> string option" where
  "mode_prefix ManagedMode = Some ''managed''"
| "mode_prefix PrivateMode = Some ''private''"
| "mode_prefix HybridMode = None"
| "mode_prefix LocalMockMode = None"

definition provider_mode_mismatches :: "benchmark_record list \<Rightarrow> scenario \<Rightarrow> nat" where
  "provider_mode_mismatches records s =
     (case mode_prefix (sc_provider_mode s) of
        None \<Rightarrow> 0
      | Some mode \<Rightarrow> count_where (\<lambda>r. \<not> starts_with (or_str (br_provider r) '''') mode) records)"

section \<open>Billed hours\<close>

definition private_billed_hours :: "string option \<Rightarrow> decimal \<Rightarrow> string + (decimal \<times> string)" where
  "private_billed_hours configured span_estimate =
     (case configured of
        None \<Rightarrow> Inr (span_estimate, ''request-span-estimate'')
      | Some c \<Rightarrow>
          (case parse_decimal c of
             None \<Rightarrow> Inl ''BENCHMARK_PRIVATE_BILLED_HOURS must be a decimal greater than zero''
           | Some d \<Rightarrow>
               if d \<le> 0 then Inl ''BENCHMARK_PRIVATE_BILLED_HOURS must be a decimal greater than zero''
               else Inr (d, ''operator-measured'')))"

definition repeat_hours :: "cost_config \<Rightarrow> scenario \<Rightarrow> benchmark_record list \<Rightarrow> (int \<times> decimal) list" where
  "repeat_hours c s records =
     map (\<lambda>i. (i, ddiv (max (span_seconds (group_of br_repeat_index records i))
                          (of_int (pv_minimum_billing_seconds (cc_private c)))) 3600))
       [1 .. sc_repeats s]"

text \<open>The recorded number of GPUs, one if it is missing or no positive integer.\<close>

definition gpu_nodes :: "json option \<Rightarrow> int" where
  "gpu_nodes recorded =
     (case Option.bind recorded json_int of Some n \<Rightarrow> if 0 < n then n else 1 | None \<Rightarrow> 1)"

definition private_inputs_of :: "decimal \<Rightarrow> int \<Rightarrow> string + private_run_inputs" where
  "private_inputs_of hours nodes =
     (let i = \<lparr>pi_gpu_node_hours = dmul hours (of_int nodes), pi_cpu_node_hours = hours,
               pi_model_storage_hours = dmul hours (of_int nodes), pi_model_transfer_gb = 0,
               pi_node_lifecycle_hours = 0, pi_shared_platform_hours = hours\<rparr>
      in if private_run_inputs_ok i then Inr i else Inl ''ValidationError'')"

section \<open>The combined route\<close>

definition uses :: "string \<Rightarrow> benchmark_record list \<Rightarrow> bool" where
  "uses route records = list_ex (\<lambda>r. starts_with (or_str (br_provider r) '''') route) records"

text \<open>The sum of the token counts that apply, \<open>None\<close> as soon as one is missing, and its definition.\<close>

definition add_tokens ::
    "bool \<Rightarrow> int option \<Rightarrow> string \<Rightarrow> int option \<times> string list \<Rightarrow> int option \<times> string list" where
  "add_tokens applicable tokens defn acc =
     (if \<not> applicable then acc
      else (case (tokens, acc) of
              (None, (_, defs)) \<Rightarrow> (None, defs)
            | (Some t, (Some n, defs)) \<Rightarrow> (Some (n + t), defs @ [defn])
            | (Some t, (None, defs)) \<Rightarrow> (None, defs)))"

definition hybrid_tokens :: "benchmark_record list \<Rightarrow> int option \<times> string list" where
  "hybrid_tokens records =
     add_tokens (uses ''private'' records) (private_normalized_tokens records)
       ''normalized private input + visible output tokens''
       (add_tokens (uses ''managed'' records) (managed_provider_billed_tokens records)
          ''provider-billed managed input + output tokens'' (Some 0, []))"

definition token_definition_text :: "string list \<Rightarrow> string option" where
  "token_definition_text defs =
     (case defs of [] \<Rightarrow> None | d # ds \<Rightarrow> Some (concat (d # map ((@) '' plus '') ds)))"

record hybrid_sensitivity =
  hv_combined :: view_cost
  hv_components :: "(string \<times> decimal) list"
  hv_operations :: decimal
  hv_monthly :: decimal

definition hybrid_sensitivity_of ::
    "cost_config \<Rightarrow> private_run_inputs \<Rightarrow> decimal \<Rightarrow> int \<Rightarrow> int option \<Rightarrow> int option \<times> string list
      \<Rightarrow> string \<Rightarrow> string + (string \<times> hybrid_sensitivity)" where
  "hybrid_sensitivity_of c i cost requests correct_count tokens name =
     (let hours = pi_shared_platform_hours i; components = shared_platform_components c hours
      in bind_res (operations_cost c hours name) (\<lambda>operations.
           let additions = dadd (dsum (map snd components)) operations
           in case map_of (cc_operations c) name of
                None \<Rightarrow> Inl name
              | Some a \<Rightarrow> Inr (name,
                  \<lparr>hv_combined = view (dadd cost additions) requests correct_count (fst tokens)
                                  (token_definition_text (snd tokens)),
                   hv_components = components, hv_operations = operations,
                   hv_monthly = monthly_cost a\<rparr>)))"

section \<open>Costs per repeat\<close>

definition private_numerators ::
    "cost_config \<Rightarrow> int \<Rightarrow> (int \<times> decimal) list \<Rightarrow> (int \<times> pyfloat) list" where
  "private_numerators c nodes hours =
     map (\<lambda>(i, h). (i, float_of_decimal (dmul h
       (dadd (dadd (dmul (pv_gpu_node (cc_private c)) (of_int nodes)) (pv_cpu_node (cc_private c)))
             (dmul (pv_model_storage (cc_private c)) (of_int nodes)))))) hours"

definition managed_numerators ::
    "benchmark_record list \<Rightarrow> (int \<times> decimal) list \<Rightarrow> (int \<times> pyfloat) list" where
  "managed_numerators records hours =
     map (\<lambda>(i, h). (i, float_of_decimal (dsum (map cost_or_zero
       (filter (\<lambda>r. starts_with (or_str (br_provider r) '''') ''managed'')
          (group_of br_repeat_index records i)))))) hours"

definition correct_by_repeat ::
    "benchmark_record list \<Rightarrow> (int \<times> decimal) list \<Rightarrow> (int \<times> int) list" where
  "correct_by_repeat records hours =
     map (\<lambda>(i, h). (i, int (count_where correct (group_of br_repeat_index records i)))) hours"

definition hybrid_numerators :: "(int \<times> pyfloat) list \<Rightarrow> (int \<times> pyfloat) list \<Rightarrow> (int \<times> pyfloat) list" where
  "hybrid_numerators privates manageds = map2 (\<lambda>(i, p) (j, m). (i, fadd p m)) privates manageds"

section \<open>The costs of a report\<close>

record cost_report =
  cr_gpu_nodes :: int
  cr_hours_source :: string
  cr_span_estimate :: decimal
  cr_inputs :: private_run_inputs
  cr_managed :: managed_aggregate
  cr_managed_applicable :: bool
  cr_private_applicable :: bool
  cr_views :: run_views_result
  cr_hybrid_view_a :: view_cost
  cr_hybrid_view_b :: "(string \<times> hybrid_sensitivity) list"
  cr_breakdown :: "(string \<times> provider_row) list"

definition cost_report_of ::
    "cost_config \<Rightarrow> string option \<Rightarrow> json option \<Rightarrow> scenario \<Rightarrow> nat option \<Rightarrow> benchmark_record list
      \<Rightarrow> string + cost_report" where
  "cost_report_of c configured recorded_gpus s correct_count records =
     (let span_estimate = dsum (map snd (repeat_hours c s records));
          nodes = gpu_nodes recorded_gpus;
          requests = int (length records);
          corrects = map_option int correct_count
      in bind_res (private_billed_hours configured span_estimate) (\<lambda>(hours, source).
         bind_res (private_inputs_of hours nodes) (\<lambda>inputs.
         let managed = aggregate_managed records;
             private_total = private_view_a c inputs;
             hybrid_total = dadd private_total (ma_total managed);
             tokens = hybrid_tokens records
         in bind_res (run_views c (ma_total managed) inputs requests corrects
                        (managed_provider_billed_tokens records) (private_normalized_tokens records)) (\<lambda>views.
            bind_res (traverse (hybrid_sensitivity_of c inputs hybrid_total requests corrects tokens)
                        sensitivity_names) (\<lambda>hybrid_b.
            Inr \<lparr>cr_gpu_nodes = nodes, cr_hours_source = source, cr_span_estimate = span_estimate,
                 cr_inputs = inputs, cr_managed = managed,
                 cr_managed_applicable = uses ''managed'' records,
                 cr_private_applicable = uses ''private'' records, cr_views = views,
                 cr_hybrid_view_a = view hybrid_total requests corrects (fst tokens)
                                      (token_definition_text (snd tokens)),
                 cr_hybrid_view_b = hybrid_b,
                 cr_breakdown = provider_breakdown records private_total\<rparr>)))))"

section \<open>Intervals\<close>

record report_statistics =
  rt_e2e :: confidence_interval
  rt_ttft :: "confidence_interval option"
  rt_note :: bool
  rt_private :: "confidence_interval option"
  rt_managed :: "confidence_interval option"
  rt_hybrid :: "confidence_interval option"

definition clusters_of ::
    "(benchmark_record list \<Rightarrow> pyfloat list) \<Rightarrow> scenario \<Rightarrow> benchmark_record list \<Rightarrow> (int \<times> pyfloat list) list"
where
  "clusters_of f s records =
     map (\<lambda>i. (i, f (group_of br_repeat_index records i))) [1 .. sc_repeats s]"

text \<open>An interval that is only computed under a condition.\<close>

fun optional_ci :: "bool \<Rightarrow> 'e + 'a \<Rightarrow> 'e + 'a option" where
  "optional_ci False r = Inr None"
| "optional_ci True r = bind_res r (\<lambda>x. Inr (Some x))"

definition p95_metric :: "pyfloat list \<Rightarrow> string + pyfloat" where
  "p95_metric values = percentile values (flt_round (95 / 100))"

definition statistics_of ::
    "report_env \<Rightarrow> cost_config \<Rightarrow> int \<Rightarrow> scenario \<Rightarrow> nat option \<Rightarrow> benchmark_record list
      \<Rightarrow> string + report_statistics" where
  "statistics_of re c nodes s correct_count records =
     (let n = sc_bootstrap_iterations s; seed = sc_seed s;
          hours = repeat_hours c s records;
          privates = private_numerators c nodes hours;
          manageds = managed_numerators records hours;
          corrects = correct_by_repeat records hours;
          ttft = clusters_of ttft_values s records;
          positive = (corrects \<noteq> [] \<and> list_all (\<lambda>(i, k). 0 < k) corrects);
          measured = (positive \<and> (case correct_count of None \<Rightarrow> False | Some k \<Rightarrow> k \<noteq> 0));
          ratio_ci = (\<lambda>numerators offset. repeat_ratio_ci (rp_random re) numerators corrects n (seed + offset))
      in bind_res (clustered_metric_ci (rp_random re) (clusters_of e2e_values s records) p95_metric n seed) (\<lambda>e2e.
         bind_res (optional_ci (sc_stream s \<and> list_all (\<lambda>(i, vs). vs \<noteq> []) ttft)
           (clustered_metric_ci (rp_random re) ttft p95_metric n (seed + 1))) (\<lambda>ttft_ci.
         bind_res (optional_ci measured (ratio_ci privates 2)) (\<lambda>private_ci.
         bind_res (optional_ci (measured \<and> uses ''managed'' records) (ratio_ci manageds 3)) (\<lambda>managed_ci.
         bind_res (optional_ci (measured \<and> uses ''private'' records \<and> uses ''managed'' records)
           (ratio_ci (hybrid_numerators privates manageds) 4)) (\<lambda>hybrid_ci.
         Inr \<lparr>rt_e2e = e2e, rt_ttft = ttft_ci, rt_note = (\<not> positive), rt_private = private_ci,
              rt_managed = managed_ci, rt_hybrid = hybrid_ci\<rparr>))))))"

section \<open>Lemmas\<close>

lemma length_as_count: "length xs = count_where (\<lambda>x. True) xs"
  by (simp add: count_where_def)

lemma breakdown_keys: "map fst (provider_breakdown records t) = sorted_set (map provider_name_of records)"
  by (simp add: provider_breakdown_def comp_def)

lemma row_requests: "pw_requests (provider_row_of records t n) = length (group_of provider_name_of records n)"
  and row_correct: "pw_correct (provider_row_of records t n) = count_where correct (group_of provider_name_of records n)"
  and row_total: "pw_total (provider_row_of records t n)
    = fst (provider_total t n (group_of provider_name_of records n))"
  by (simp_all add: provider_row_of_def Let_def split: prod.split)

lemma managed_name: "starts_with (provider_name_of r) ''managed'' \<longleftrightarrow> is_managed r"
  by (auto simp: provider_name_of_def is_managed_def or_str_def starts_with_code split: option.splits)

lemma dadd_0: "dec_round t = t \<Longrightarrow> dadd t 0 = t"
  by (simp add: dadd_def)

lemma aggregate_loop_total:
  "dec_round (fst acc) = fst acc \<Longrightarrow>
   fst (aggregate_loop rs acc) = foldl dadd (fst acc) (map cost_or_zero (filter is_managed rs))"
proof (induction rs arbitrary: acc)
  case (Cons r rs)
  obtain t p m where acc: "acc = (t, p, m)" by (cases acc)
  have "dec_round (dadd t d) = dadd t d" for d by (simp add: dadd_def dec.rnd_idem)
  with Cons acc show ?case
    by (auto simp: cost_or_zero_def dadd_0 split: option.splits)
qed simp

section \<open>Properties\<close>

text \<open>
  The breakdown by provider accounts for every record once: its rows are the distinct provider
  names in order, their requests and correct tasks add up to those of the run, and with a single
  managed provider its row has exactly the total of the managed cost aggregate.
\<close>

theorem breakdown_accounts:
  assumes "breakdown = provider_breakdown records private_total"
  shows "map fst breakdown = sorted_set (map provider_name_of records)
    \<and> (\<Sum>(n, row) \<leftarrow> breakdown. pw_requests row) = length records
    \<and> (\<Sum>(n, row) \<leftarrow> breakdown. pw_correct row) = count_where correct records
    \<and> (set (filter (\<lambda>n. starts_with n ''managed'') (map provider_name_of records)) = {name} \<longrightarrow>
         (\<exists>row. map_of breakdown name = Some row \<and> pw_total row = ma_total (aggregate_managed records)))"
proof -
  let ?names = "sorted_set (map provider_name_of records)"
  have "(\<Sum>(n, row) \<leftarrow> breakdown. pw_requests row) = length records"
    using sum_of_groups [of ?names provider_name_of records] assms
    by (simp add: provider_breakdown_def comp_def row_requests)
  moreover have "(\<Sum>(n, row) \<leftarrow> breakdown. pw_correct row) = count_where correct records"
    using count_in_groups [of ?names provider_name_of records correct] assms
    by (simp add: provider_breakdown_def comp_def row_correct)
  moreover have "\<exists>row. map_of breakdown name = Some row \<and> pw_total row = ma_total (aggregate_managed records)"
    if one: "set (filter (\<lambda>n. starts_with n ''managed'') (map provider_name_of records)) = {name}"
  proof -
    have name: "name \<in> set ?names" "starts_with name ''managed''" using one by auto
    have "group_of provider_name_of records name = filter is_managed records"
      unfolding group_of_def using one managed_name by (intro filter_cong) (auto simp: set_eq_iff)
    then have "pw_total (provider_row_of records private_total name) = ma_total (aggregate_managed records)"
      using name(2) aggregate_loop_total [of "(0, 0, 0)" records]
      by (cases "aggregate_loop records (0, 0, 0)")
        (simp add: row_total provider_total_def aggregate_managed_def dsum_def dec_round_def)
    moreover have "map_of breakdown name = Some (provider_row_of records private_total name)"
      using name(1) assms by (simp add: provider_breakdown_def map_of_map_restrict)
    ultimately show ?thesis by blast
  qed
  ultimately show ?thesis using assms breakdown_keys by blast
qed

text \<open>
  The private total is counted once per private provider (the code as it is): every private
  row carries the whole cost of the private route, so with several private providers the rows add
  up to a multiple of it.
\<close>

theorem private_total_repeated:
  "(\<Sum>(n, row) \<leftarrow> filter (\<lambda>(n, row). starts_with n ''private'') (provider_breakdown records private_total).
      pw_total row)
   = of_nat (card {n \<in> set (map provider_name_of records). starts_with n ''private''}) * private_total"
proof -
  let ?names = "filter (\<lambda>n. starts_with n ''private'') (sorted_set (map provider_name_of records))"
  have "pw_total (provider_row_of records private_total n) = private_total" if "starts_with n ''private''" for n
    using that by (auto simp: row_total provider_total_def starts_with_def elim!: prefixE)
  then have same: "(\<Sum>n \<leftarrow> ?names. pw_total (provider_row_of records private_total n)) = (\<Sum>n \<leftarrow> ?names. private_total)"
    by (intro arg_cong [where f = sum_list] map_cong) auto
  have "(\<Sum>(n, row) \<leftarrow> filter (\<lambda>(n, row). starts_with n ''private'') (provider_breakdown records private_total).
      pw_total row) = (\<Sum>n \<leftarrow> ?names. private_total)"
    by (simp add: provider_breakdown_def filter_map comp_def same)
  also have "\<dots> = of_nat (length ?names) * private_total" by (simp add: sum_list_triv)
  also have "length ?names = card {n \<in> set (map provider_name_of records). starts_with n ''private''}"
    using distinct_card [of ?names, symmetric] by simp
  finally show ?thesis .
qed

theorem breakdown_accounts_witness:
  "\<exists>row. map_of (provider_breakdown
        [(lab_evidence ''managed-economy'' 1 None)\<lparr>br_managed_cost := Some (3 / 2)\<rparr>,
         lab_evidence ''private-vllm'' 1 None,
         (lab_evidence ''managed-economy'' 2 None)\<lparr>br_managed_cost := Some (1 / 2)\<rparr>] 7) ''managed-economy'' = Some row
     \<and> pw_total row = 2"
proof -
  let ?rs = "[(lab_evidence ''managed-economy'' 1 None)\<lparr>br_managed_cost := Some (3 / 2)\<rparr>,
    lab_evidence ''private-vllm'' 1 None,
    (lab_evidence ''managed-economy'' 2 None)\<lparr>br_managed_cost := Some (1 / 2)\<rparr>]"
  have e: "set (filter (\<lambda>n. starts_with n ''managed'') (map provider_name_of ?rs)) = {''managed-economy''}"
    "ma_total (aggregate_managed ?rs) = 2"
    by code_simp+
  have "\<exists>row. map_of (provider_breakdown ?rs 7) ''managed-economy'' = Some row
      \<and> pw_total row = ma_total (aggregate_managed ?rs)"
    using breakdown_accounts [OF refl, of ?rs 7 "''managed-economy''"] e(1) by blast
  then show ?thesis unfolding e(2) .
qed

text \<open>
  The repeats partition the run: there is one row per repeat that occurs, in increasing order,
  and the requests and errors of the rows add up to those of the run; and a run is free of
  provider mode mismatches exactly if its mode has no prefix or every record's provider has it.
\<close>

theorem repeats_account:
  "map ry_index (repeat_summary records) = sorted_set (map br_repeat_index records)
   \<and> (\<Sum>row \<leftarrow> repeat_summary records. ry_requests row) = length records
   \<and> (\<Sum>row \<leftarrow> repeat_summary records. ry_errors row) = count_where failed records
   \<and> (provider_mode_mismatches records s = 0 \<longleftrightarrow> (case mode_prefix (sc_provider_mode s) of
        None \<Rightarrow> True
      | Some mode \<Rightarrow> list_all (\<lambda>r. starts_with (or_str (br_provider r) '''') mode) records))"
proof -
  let ?ks = "sorted_set (map br_repeat_index records)"
  have rows: "ry_index (repeat_row_of records k) = k"
    "ry_requests (repeat_row_of records k) = length (group_of br_repeat_index records k)"
    "ry_errors (repeat_row_of records k) = count_where failed (group_of br_repeat_index records k)" for k
    by (simp_all add: repeat_row_of_def Let_def)
  show ?thesis
    using sum_of_groups [of ?ks br_repeat_index records] count_in_groups [of ?ks br_repeat_index records failed]
    by (auto simp: repeat_summary_def comp_def rows provider_mode_mismatches_def count_where_def
        filter_empty_conv list_all_iff split: option.split)
qed

section \<open>Dispersion\<close>

lemma float_double: "flt_round x = x \<Longrightarrow> flt_round (x + x) = x + x"
proof -
  assume x: "flt_round x = x"
  obtain c k where c: "\<bar>c\<bar> \<le> int 2 ^ 53" "round_to 2 53 x = of_int c * of_nat 2 powi k"
    using round_to_representable [of 2 53 x] by auto
  then have "x + x = of_int c * of_nat 2 powi (k + 1)"
    using x by (simp add: flt_round_def power_int_add)
  then show ?thesis using round_to_exact [of 2 53 c "k + 1"] c(1) by (simp add: flt_round_def)
qed

lemma float_mean_between:
  assumes "flt_round a = a" "flt_round b = b" "a \<le> b"
  shows "a \<le> fdiv (fadd a b) 2 \<and> fdiv (fadd a b) 2 \<le> b"
proof -
  have "a + a \<le> fadd a b" "fadd a b \<le> b + b"
    using flt.rnd_above [OF float_double [OF assms(1)], of "a + b"]
      flt.rnd_below [OF float_double [OF assms(2)], of "a + b"] assms(3)
    by (simp_all add: fadd_def)
  then have "a \<le> fadd a b / 2" "fadd a b / 2 \<le> b" by simp_all
  then show ?thesis
    using flt.rnd_above [OF assms(1)] flt.rnd_below [OF assms(2)] by (simp add: fdiv_def)
qed

text \<open>
  The dispersion of a measure over the repeats is ordered: it exists exactly if some repeat has
  the measure, and then the median lies between the smallest and the largest value, the rounding
  of the mean of the two middle values included.
\<close>

theorem dispersion_ordered:
  assumes "values = List.map_filter field rows" "list_all (\<lambda>v. flt_round v = v) values"
  shows "case dispersion_of field rows of
      None \<Rightarrow> values = []
    | Some d \<Rightarrow> ds_min d \<le> ds_median d \<and> ds_median d \<le> ds_max d
        \<and> ds_min d \<in> set values \<and> ds_max d \<in> set values"
proof (cases "values = []")
  case True
  then show ?thesis using assms(1) by (simp add: dispersion_of_def)
next
  case False
  let ?data = "sort values" and ?n = "length values"
  have n: "0 < ?n" using False by simp
  have mem: "?data ! i \<in> set values" if "i < ?n" for i
    using that nth_mem [of i ?data] by simp
  have range: "Min (set values) \<le> ?data ! i" "?data ! i \<le> Max (set values)" if "i < ?n" for i
    using mem [OF that] by simp_all
  have float: "flt_round (?data ! i) = ?data ! i" if "i < ?n" for i
    using mem [OF that] assms(2) by (simp add: list_all_iff)
  have "Min (set values) \<le> median values \<and> median values \<le> Max (set values)"
  proof (cases "odd ?n")
    case True
    then show ?thesis using range [of "?n div 2"] n by (simp add: median_def Let_def)
  next
    case even: False
    have i: "?n div 2 - 1 < ?n" "?n div 2 < ?n" using n by (simp_all add: less_imp_diff_less)
    have "?data ! (?n div 2 - 1) \<le> ?data ! (?n div 2)" by (intro sorted_nth_mono) (use i in simp_all)
    from float_mean_between [OF float [OF i(1)] float [OF i(2)] this] range(1) [OF i(1)] range(2) [OF i(2)]
    show ?thesis using even by (simp add: median_def Let_def)
  qed
  moreover have "Min (set values) \<in> set values" "Max (set values) \<in> set values" using False by simp_all
  ultimately show ?thesis
    using False by (simp add: dispersion_of_def assms(1) [symmetric])
qed

theorem dispersion_ordered_witness:
  "(case dispersion_of ry_quality_rate (map (\<lambda>q. (repeat_row_of [lab_evidence ''p'' 1 None] 1)\<lparr>ry_quality_rate := q\<rparr>)
      [Some (3 / 4), None, Some (1 / 2)]) of
     None \<Rightarrow> False | Some d \<Rightarrow> ds_min d = 1 / 2 \<and> 1 / 2 \<le> ds_median d \<and> ds_max d = 3 / 4)"
proof -
  let ?rows = "map (\<lambda>q. (repeat_row_of [lab_evidence ''p'' 1 None] 1)\<lparr>ry_quality_rate := q\<rparr>) [Some (3 / 4), None, Some (1 / 2)]"
  have v: "[3 / 4, 1 / 2] = List.map_filter ry_quality_rate ?rows" by (simp add: map_filter_simps)
  have f: "list_all (\<lambda>v. flt_round v = v) [3 / 4, 1 / 2 :: rat]" by code_simp
  from dispersion_ordered [OF v f] show ?thesis
    unfolding dispersion_of_def v [symmetric] Let_def by simp
qed

end
