(* ===== verification/Run_Summary.thy ===== *)
theory Run_Summary
  imports Report_Costs Manifest Scenario_Grid
begin

text \<open>
  The summary of a run (\<open>build_report\<close> of \<open>benchmark/report.py\<close>): reading the run, the costs per
  correct task of its repeats, the comparison that mentions it, the limitations it must state, and
  the composition of the quality, cost, SLO and statistics parts. The pydantic validation of the
  manifest's scenario and objectives, the cost configuration, YAML, JSON and the shortest decimal of
  a float are parameters; a folder is the list of its files with their modification times. The
  output files other than the summary are renderings of its parts.
\<close>

record summary_env =
  su_report :: report_env
  su_compare :: comparison_env
  su_scenario :: "json \<Rightarrow> scenario option"
  su_slo :: "json \<Rightarrow> manifest_slo option"
  su_cost :: "string \<Rightarrow> cost_config option"
  su_decimal :: "pyfloat \<Rightarrow> decimal"
  su_hours :: "string option"

section \<open>Counting\<close>

text \<open>\<open>Counter(xs)\<close>, in the order of first occurrence.\<close>

definition first_occurrences :: "'a list \<Rightarrow> 'a list" where
  "first_occurrences xs = rev (remdups (rev xs))"

definition counter_of :: "'a list \<Rightarrow> ('a \<times> nat) list" where
  "counter_of xs = map (\<lambda>x. (x, count_where (\<lambda>y. y = x) xs)) (first_occurrences xs)"

record cost_row_of_repeat =
  cq_row :: repeat_row
  cq_private :: "pyfloat option"
  cq_managed :: "pyfloat option"

definition repeat_cost_row ::
    "bool \<Rightarrow> (int \<times> pyfloat) list \<Rightarrow> (int \<times> pyfloat) list \<Rightarrow> (int \<times> int) list \<Rightarrow> repeat_row
      \<Rightarrow> string + cost_row_of_repeat" where
  "repeat_cost_row managed_applicable privates manageds corrects row =
     (case (map_of corrects (ry_index row), map_of privates (ry_index row), map_of manageds (ry_index row)) of
        (Some n, Some p, Some m) \<Rightarrow>
          Inr \<lparr>cq_row = row, cq_private = (if n = 0 then None else Some (fdiv p (of_int n))),
               cq_managed = (if n = 0 \<or> \<not> managed_applicable then None else Some (fdiv m (of_int n)))\<rparr>
      | _ \<Rightarrow> Inl ''KeyError'')"

section \<open>The comparison of a run\<close>

record folder_entry =
  fe_path :: string
  fe_modified :: rat

definition ends_with :: "string \<Rightarrow> string \<Rightarrow> bool" where
  "ends_with s e \<longleftrightarrow> starts_with (rev s) (rev e)"

text \<open>The glob patterns \<open>comparison-ID-vs-*.json\<close> and \<open>comparison-*-vs-ID.json\<close>.\<close>

definition names_pair :: "string \<Rightarrow> string \<Rightarrow> bool" where
  "names_pair run_id name \<longleftrightarrow>
     (let first = ''comparison-'' @ run_id @ ''-vs-'' in
        starts_with name first \<and> ends_with name ''.json'' \<and> length first + 5 \<le> length name)
     \<or> (let second = ''-vs-'' @ run_id @ ''.json'' in
        starts_with name ''comparison-'' \<and> ends_with name second \<and> 11 + length second \<le> length name)"

text \<open>Newest first, and by descending name among equal times.\<close>

definition later :: "folder_entry \<Rightarrow> folder_entry \<Rightarrow> bool" where
  "later x y \<longleftrightarrow> fe_modified y < fe_modified x
     \<or> fe_modified y = fe_modified x \<and> fe_path y \<le> fe_path x"

fun insert_later :: "folder_entry \<Rightarrow> folder_entry list \<Rightarrow> folder_entry list" where
  "insert_later x [] = [x]"
| "insert_later x (y # ys) = (if later x y then x # y # ys else y # insert_later x ys)"

definition pair_paths :: "string \<Rightarrow> folder_entry list \<Rightarrow> string list" where
  "pair_paths run_id entries =
     map fe_path (foldr insert_later (filter (\<lambda>e. names_pair run_id (path_name (fe_path e))) entries) [])"

definition mentions_run :: "text_env \<Rightarrow> string \<Rightarrow> json \<Rightarrow> string + bool" where
  "mentions_run te run_id comparison =
     bind_res (json_get comparison ''treatments'') (\<lambda>_.
       case (case map_of (object_or_empty comparison) ''treatments'' of None \<Rightarrow> JArr [] | Some v \<Rightarrow> v) of
         JArr items \<Rightarrow>
           Inr (list_ex (\<lambda>i. case i of JObj o1 \<Rightarrow> py_str te (dict_get o1 ''run_id'') = run_id | _ \<Rightarrow> False) items)
       | JObj kvs \<Rightarrow> Inr False
       | JStr s \<Rightarrow> Inr False
       | _ \<Rightarrow> Inl ''TypeError'')"

fun first_mention ::
    "text_env \<Rightarrow> file_store \<Rightarrow> string \<Rightarrow> string list \<Rightarrow> string + json option" where
  "first_mention te files run_id [] = Inr None"
| "first_mention te files run_id (path # paths) =
     (case files path of
        None \<Rightarrow> first_mention te files run_id paths
      | Some content \<Rightarrow>
          (case te_loads te content of
             None \<Rightarrow> Inl ''cannot load comparison file''
           | Some comparison \<Rightarrow>
               bind_res (mentions_run te run_id comparison) (\<lambda>b.
                 if b then Inr (Some comparison) else first_mention te files run_id paths)))"

definition comparison_for_run ::
    "text_env \<Rightarrow> file_store \<Rightarrow> folder_entry list \<Rightarrow> string \<Rightarrow> string \<Rightarrow> string \<Rightarrow> string option
      \<Rightarrow> string + json option" where
  "comparison_for_run te files entries parent run_dir run_id preferred =
     first_mention te files run_id (first_occurrences
       ((case preferred of None \<Rightarrow> [] | Some p \<Rightarrow> [p]) @ [run_path run_dir ''comparison.json'']
        @ pair_paths run_id entries @ [run_path parent ''comparison.json'']))"

section \<open>Prices and limitations\<close>

definition price_value :: "text_env \<Rightarrow> json \<Rightarrow> string \<Rightarrow> string + decimal" where
  "price_value te rates k =
     bind_res (json_item rates k) (\<lambda>v.
       case parse_decimal (py_str te v) of None \<Rightarrow> Inl ''InvalidOperation'' | Some d \<Rightarrow> Inr d)"

definition pricing_of :: "text_env \<Rightarrow> scenario \<Rightarrow> json \<Rightarrow> string + decimal \<times> decimal" where
  "pricing_of te s raw =
     bind_res (json_item raw ''pricing'') (\<lambda>providers.
     bind_res (json_item providers ''managed-primary'') (\<lambda>models.
     bind_res (json_item models (if sc_quality_tier s = Economy then ''lab-economy'' else ''lab-premium'')) (\<lambda>rates.
     bind_res (price_value te rates ''input_per_1m'') (\<lambda>i.
     bind_res (price_value te rates ''output_per_1m'') (\<lambda>out. Inr (i, out))))))"

text \<open>\<open>str(v or "not recorded")\<close>\<close>

definition recorded_text :: "text_env \<Rightarrow> json \<Rightarrow> string" where
  "recorded_text te v = (if json_truthy v then py_str te v else ''not recorded'')"

definition report_limitations :: "text_env \<Rightarrow> json \<Rightarrow> bool \<Rightarrow> scenario \<Rightarrow> string + string list" where
  "report_limitations te harness compared s =
     bind_res (json_get harness ''location'') (\<lambda>place.
     bind_res (json_get harness ''node_group'') (\<lambda>group.
     let location = recorded_text te place; is_local = (location = ''local-mock'')
     in Inr ((if is_local
              then ''Local deterministic adapter run; timings and costs are plumbing evidence only.''
              else ''Benchmark placement was location '' @ location @ '', node group ''
                @ recorded_text te group @ ''.'')
           # gate compared ''No treatment comparison was run, so no directional claim is available.''
           @ gate (\<not> (sc_publishable s \<and> \<not> is_local)) ''GPU telemetry was not captured for this run.'')))"

section \<open>The summary\<close>

record run_summary =
  sm_run_id :: json
  sm_requests :: nat
  sm_completions :: nat
  sm_errors :: "(error_class \<times> nat) list"
  sm_latency :: latency_row
  sm_ttft :: latency_row
  sm_request_rate :: "pyfloat option"
  sm_token_rate :: "pyfloat option"
  sm_quality :: quality_report
  sm_costs :: cost_report
  sm_slo :: slo_report
  sm_routing_mix :: "(string \<times> nat) list"
  sm_mismatches :: nat
  sm_data_classes :: "(string \<times> nat) list"
  sm_quality_tiers :: "(string \<times> nat) list"
  sm_fallbacks :: int
  sm_repeats :: "cost_row_of_repeat list"
  sm_dispersions :: "(string \<times> dispersion option) list"
  sm_statistics :: report_statistics
  sm_claimability :: json
  sm_comparison :: "json option"
  sm_limitations :: "string list"
  sm_grid :: "grid_row list"

definition dispersions_of :: "cost_row_of_repeat list \<Rightarrow> (string \<times> dispersion option) list" where
  "dispersions_of rows =
     [(''e2e_p95_ms_dispersion'', dispersion_of (ry_e2e_p95 \<circ> cq_row) rows),
      (''ttft_p95_ms_dispersion'', dispersion_of (ry_ttft_p95 \<circ> cq_row) rows),
      (''quality_rate_dispersion'', dispersion_of (ry_quality_rate \<circ> cq_row) rows),
      (''throughput_requests_per_second_dispersion'', dispersion_of (ry_throughput \<circ> cq_row) rows),
      (''view_a_private_cost_per_correct_task_usd_dispersion'', dispersion_of cq_private rows),
      (''view_a_managed_cost_per_correct_task_usd_dispersion'', dispersion_of cq_managed rows)]"

definition per_second :: "int \<Rightarrow> pyfloat \<Rightarrow> pyfloat option" where
  "per_second n seconds = (if seconds = 0 then None else Some (fdiv (flt_round (of_int n)) seconds))"

definition class_name :: "('a \<Rightarrow> string) \<Rightarrow> 'a option \<Rightarrow> string" where
  "class_name f v = (case v of None \<Rightarrow> ''unknown'' | Some x \<Rightarrow> f x)"

text \<open>The part of the summary that only depends on the records.\<close>

definition summary_of_records ::
    "scenario \<Rightarrow> benchmark_record list \<Rightarrow> json \<Rightarrow> quality_report \<Rightarrow> cost_report \<Rightarrow> slo_report
      \<Rightarrow> cost_row_of_repeat list \<Rightarrow> report_statistics \<Rightarrow> json \<Rightarrow> json option \<Rightarrow> string list \<Rightarrow> grid_row list
      \<Rightarrow> run_summary" where
  "summary_of_records s records run_id q costs slo rows stats claim comparison limitations grid =
     (let seconds = float_of_decimal (span_seconds records)
      in \<lparr>sm_run_id = run_id, sm_requests = length records,
          sm_completions = count_where (\<lambda>r. \<not> failed r) records,
          sm_errors = counter_of (List.map_filter br_error_class records),
          sm_latency = latency (e2e_values records), sm_ttft = latency (ttft_values records),
          sm_request_rate = per_second (int (length records)) seconds,
          sm_token_rate = per_second (sum_list (map (\<lambda>r. case tu_visible (br_usage r) of
            None \<Rightarrow> 0 | Some n \<Rightarrow> n) records)) seconds,
          sm_quality = q, sm_costs = costs, sm_slo = slo,
          sm_routing_mix = counter_of (map provider_name_of records),
          sm_mismatches = provider_mode_mismatches records s,
          sm_data_classes = counter_of (map (class_name data_class_value \<circ> br_data_class) records),
          sm_quality_tiers = counter_of (map (class_name quality_tier_value \<circ> br_quality_tier) records),
          sm_fallbacks = sum_list (map br_fallback_count records), sm_repeats = rows,
          sm_dispersions = dispersions_of rows, sm_statistics = stats, sm_claimability = claim,
          sm_comparison = comparison, sm_limitations = limitations, sm_grid = grid\<rparr>)"


definition read_records :: "comparison_env \<Rightarrow> string \<Rightarrow> string + benchmark_record list" where
  "read_records ce content =
     traverse (\<lambda>l. case ce_record ce l of None \<Rightarrow> Inl ''ValidationError'' | Some r \<Rightarrow> Inr r) (splitlines content)"

definition required_file :: "file_store \<Rightarrow> string \<Rightarrow> string + string" where
  "required_file files path = (case files path of None \<Rightarrow> Inl ''OSError'' | Some c \<Rightarrow> Inr c)"

definition accepted :: "string \<Rightarrow> 'a option \<Rightarrow> string + 'a" where
  "accepted e v = (case v of None \<Rightarrow> Inl e | Some x \<Rightarrow> Inr x)"

definition repeat_costs ::
    "cost_config \<Rightarrow> int \<Rightarrow> scenario \<Rightarrow> benchmark_record list \<Rightarrow> string + cost_row_of_repeat list" where
  "repeat_costs c nodes s records =
     (let hours = repeat_hours c s records
      in traverse (repeat_cost_row (uses ''managed'' records) (private_numerators c nodes hours)
           (managed_numerators records hours) (correct_by_repeat records hours)) (repeat_summary records))"

definition run_grid ::
    "summary_env \<Rightarrow> file_store \<Rightarrow> string \<Rightarrow> scenario \<Rightarrow> cost_config \<Rightarrow> quality_report
      \<Rightarrow> string + grid_row list" where
  "run_grid su files root_folder s c q =
     (let te = de_text (ce_data (su_compare su)) in
      bind_res (required_file files (join_path root_folder (sc_pricing_config s))) (\<lambda>pricing_text.
      bind_res (accepted ''YAMLError'' (ce_yaml (su_compare su) pricing_text)) (\<lambda>raw.
      bind_res (pricing_of te s raw) (\<lambda>(input_rate, output_rate).
      let measured = (case qr_quality_rate q of None \<Rightarrow> 1 | Some x \<Rightarrow> su_decimal su x)
      in build_scenario_grid c input_rate output_rate measured measured))))"

text \<open>
  What is left when everything is computed: an empty grid cannot be written, and a publishable report
  with a request that went to the wrong kind of provider is refused, after it was written.
\<close>

definition release_report ::
    "scenario \<Rightarrow> benchmark_record list \<Rightarrow> grid_row list \<Rightarrow> run_summary \<Rightarrow> string + run_summary" where
  "release_report s records grid sm =
     (if grid = [] then Inl ''scenario grid is empty''
      else if sc_publishable s \<and> provider_mode_mismatches records s \<noteq> 0
      then Inl ''publishable report has provider_mode mismatches''
      else Inr sm)"

definition assemble_report ::
    "summary_env \<Rightarrow> file_store \<Rightarrow> folder_entry list \<Rightarrow> string \<Rightarrow> string \<Rightarrow> string \<Rightarrow> string option
      \<Rightarrow> json \<Rightarrow> scenario \<Rightarrow> benchmark_record list \<Rightarrow> string + run_summary" where
  "assemble_report su files entries parent run_dir root_folder preferred manifest s records =
     (let te = de_text (ce_data (su_compare su)); re = su_report su in
      bind_res (quality_payload re s records) (\<lambda>q.
      bind_res (required_file files (join_path root_folder (sc_cost_config s))) (\<lambda>ctext.
      bind_res (accepted ''ValidationError'' (su_cost su ctext)) (\<lambda>c.
      bind_res (json_get manifest ''compute'') (\<lambda>_.
      bind_res (json_get (case map_of (object_or_empty manifest) ''compute'' of None \<Rightarrow> JObj [] | Some v \<Rightarrow> v)
                  ''gpu_count'') (\<lambda>_.
      let gpus = map_of (object_or_empty (sub_get manifest ''compute'')) ''gpu_count'' in
      bind_res (cost_report_of c (su_hours su) gpus s (qr_task_correct q) records) (\<lambda>costs.
      bind_res (repeat_costs c (cr_gpu_nodes costs) s records) (\<lambda>rows.
      bind_res (statistics_of re c (cr_gpu_nodes costs) s (qr_task_correct q) records) (\<lambda>stats.
      bind_res (run_grid su files root_folder s c q) (\<lambda>grid.
      bind_res (json_item manifest ''slo'') (\<lambda>raw_slo.
      bind_res (accepted ''ValidationError'' (su_slo su raw_slo)) (\<lambda>targets.
      bind_res (slo_payload re s targets records) (\<lambda>slo.
      bind_res (json_item manifest ''run_id'') (\<lambda>run_id.
      bind_res (json_item manifest ''statistics'') (\<lambda>manifest_statistics.
      bind_res (json_item manifest_statistics ''repeat_group_id'') (\<lambda>_.
      bind_res (json_item manifest ''harness'') (\<lambda>harness.
      bind_res (comparison_for_run te files entries parent run_dir (py_str te run_id) preferred) (\<lambda>found.
      let comparison = (case found of None \<Rightarrow> map_of (object_or_empty manifest) ''comparison'' | Some x \<Rightarrow> Some x);
          compared = (comparison \<noteq> None \<and> comparison \<noteq> Some JNull) in
      bind_res (case comparison of Some x \<Rightarrow> if compared then json_get x ''claimability'' else Inr JNull
                 | None \<Rightarrow> Inr JNull) (\<lambda>claim.
      bind_res (report_limitations te harness compared s) (\<lambda>limitations.
      release_report s records grid
        (summary_of_records s records run_id q costs slo rows stats
           (case claim of JObj kvs \<Rightarrow> JObj kvs | _ \<Rightarrow> JNull)
           (if compared then comparison else None) limitations grid)))))))))))))))))))))"

text \<open>\<open>build_report\<close>: the files it writes are renderings of the summary.\<close>

definition build_report ::
    "summary_env \<Rightarrow> file_store \<Rightarrow> folder_entry list \<Rightarrow> string \<Rightarrow> string \<Rightarrow> string \<Rightarrow> string option
      \<Rightarrow> string + run_summary" where
  "build_report su files entries parent run_dir root_folder preferred =
     (let ce = su_compare su in
      bind_res (required_file files (run_path run_dir ''manifest.yaml'')) (\<lambda>mtext.
      bind_res (accepted ''YAMLError'' (ce_yaml ce mtext)) (\<lambda>manifest.
      bind_res (json_item manifest ''scenario'') (\<lambda>raw_scenario.
      bind_res (accepted ''ValidationError'' (su_scenario su raw_scenario)) (\<lambda>s.
      bind_res (required_file files (run_path run_dir ''records.jsonl'')) (\<lambda>rtext.
      bind_res (read_records ce rtext) (\<lambda>records.
      if records = [] then Inl ''cannot report an empty run''
      else assemble_report su files entries parent run_dir root_folder preferred manifest s records)))))))"

section \<open>Lemmas\<close>

lemma first_occurrences_set [simp]: "set (first_occurrences xs) = set xs"
  and first_occurrences_distinct: "distinct (first_occurrences xs)"
  by (simp_all add: first_occurrences_def)

text \<open>A counter accounts for every element once.\<close>

lemma counter_total: "(\<Sum>(x, n) \<leftarrow> counter_of xs. n) = length xs"
proof -
  have "(\<Sum>(x, n) \<leftarrow> counter_of xs. n) = (\<Sum>x \<leftarrow> first_occurrences xs. length (filter (\<lambda>y. y = x) xs))"
    by (simp add: counter_of_def count_where_def comp_def)
  also have "\<dots> = (\<Sum>x \<in> set xs. length (filter (\<lambda>y. y = x) xs))"
    by (simp add: sum_list_distinct_conv_sum_set first_occurrences_distinct)
  also have "\<dots> = (\<Sum>x \<in> set xs. count_list xs x)"
    by (simp add: count_list_eq_length_filter eq_commute)
  also have "\<dots> = length xs" by (rule sum_count_set) simp_all
  finally show ?thesis .
qed

lemma filter_none: "length (List.map_filter f xs) = count_where (\<lambda>x. f x \<noteq> None) xs"
  by (induction xs) (auto simp: count_where_def map_filter_simps split: option.split)

lemma failures_total:
  "count_where (\<lambda>r. \<not> failed r) records + (\<Sum>(x, n) \<leftarrow> counter_of (List.map_filter br_error_class records). n)
   = length records"
  unfolding counter_total filter_none failed_def count_where_def
  using sum_length_filter_compl [of "\<lambda>r. br_error_class r \<noteq> None" records] by simp

lemma accepted_Inr [simp]: "accepted e v = Inr x \<longleftrightarrow> v = Some x"
  by (simp add: accepted_def split: option.split)

lemma required_file_Inr [simp]: "required_file files path = Inr c \<longleftrightarrow> files path = Some c"
  by (simp add: required_file_def split: option.split)

lemma release_report_Inr [simp]:
  "release_report s records grid sm = Inr sm' \<longleftrightarrow>
   grid \<noteq> [] \<and> (sc_publishable s \<longrightarrow> provider_mode_mismatches records s = 0) \<and> sm = sm'"
  by (simp add: release_report_def)

lemma assemble_report_Inr:
  assumes "assemble_report su files entries parent run_dir root_folder preferred manifest s records = Inr sm"
  shows "(sc_publishable s \<longrightarrow> provider_mode_mismatches records s = 0)
    \<and> (\<exists>run_id q costs slo rows stats claim comparison limitations grid.
         sm = summary_of_records s records run_id q costs slo rows stats claim comparison limitations grid)"
  using assms unfolding assemble_report_def Let_def bind_res_Inr release_report_Inr by blast

lemma build_report_Inr:
  assumes "build_report su files entries parent run_dir root_folder preferred = Inr sm"
  obtains mtext manifest raw s rtext records run_id q costs slo rows stats claim comparison limitations grid where
    "files (run_path run_dir ''manifest.yaml'') = Some mtext" "ce_yaml (su_compare su) mtext = Some manifest"
    "json_item manifest ''scenario'' = Inr raw" "su_scenario su raw = Some s"
    "files (run_path run_dir ''records.jsonl'') = Some rtext" "read_records (su_compare su) rtext = Inr records"
    "records \<noteq> []" "sc_publishable s \<longrightarrow> provider_mode_mismatches records s = 0"
    "sm = summary_of_records s records run_id q costs slo rows stats claim comparison limitations grid"
proof -
  obtain mtext manifest raw s rtext records where run:
    "files (run_path run_dir ''manifest.yaml'') = Some mtext" "ce_yaml (su_compare su) mtext = Some manifest"
    "json_item manifest ''scenario'' = Inr raw" "su_scenario su raw = Some s"
    "files (run_path run_dir ''records.jsonl'') = Some rtext" "read_records (su_compare su) rtext = Inr records"
    "records \<noteq> []"
    "assemble_report su files entries parent run_dir root_folder preferred manifest s records = Inr sm"
    using assms unfolding build_report_def Let_def by (auto simp: bind_res_Inr split: if_splits)
  from assemble_report_Inr [OF run(8)] run(1-7) show thesis by (elim exE conjE) (rule that)
qed

lemma first_mention_Some:
  "first_mention te files run_id paths = Inr (Some c) \<Longrightarrow>
   \<exists>path content. path \<in> set paths \<and> files path = Some content \<and> te_loads te content = Some c
     \<and> mentions_run te run_id c = Inr True"
proof (induction paths)
  case (Cons p ps)
  then show ?case by (fastforce simp: bind_res_Inr split: option.splits if_splits)
qed simp

text \<open>The comparison a report takes over mentions the run, and stands in a file the search looks at.\<close>

lemma comparison_for_run_mentions:
  "comparison_for_run te files entries parent run_dir run_id preferred = Inr (Some c) \<Longrightarrow>
   mentions_run te run_id c = Inr True"
  using first_mention_Some by (fastforce simp: comparison_for_run_def)

section \<open>Properties\<close>

text \<open>
  C34. The summary of a run accounts for its evidence: it has as many requests as the evidence file
  has lines; completions and errors, the routing mix and the mixes of data classes and quality tiers
  each add up to them.
\<close>

theorem summary_accounts:
  assumes "build_report su files entries parent run_dir root_folder preferred = Inr sm"
  shows "0 < sm_requests sm
    \<and> (\<exists>content. files (run_path run_dir ''records.jsonl'') = Some content
         \<and> sm_requests sm = length (splitlines content))
    \<and> sm_completions sm + (\<Sum>(e, n) \<leftarrow> sm_errors sm. n) = sm_requests sm
    \<and> (\<Sum>(p, n) \<leftarrow> sm_routing_mix sm. n) = sm_requests sm
    \<and> (\<Sum>(d, n) \<leftarrow> sm_data_classes sm. n) = sm_requests sm
    \<and> (\<Sum>(t, n) \<leftarrow> sm_quality_tiers sm. n) = sm_requests sm"
proof -
  obtain s rtext records run_id q costs slo rows stats claim comparison limitations grid where
    run: "files (run_path run_dir ''records.jsonl'') = Some rtext"
      "read_records (su_compare su) rtext = Inr records" "records \<noteq> []"
    and sm: "sm = summary_of_records s records run_id q costs slo rows stats claim comparison limitations grid"
    by (rule build_report_Inr [OF assms])
  have "length records = length (splitlines rtext)"
    using run(2) traverse_length by (fastforce simp: read_records_def)
  moreover have "0 < length records" using run(3) by simp
  ultimately show ?thesis
    unfolding sm summary_of_records_def Let_def run_summary.simps
    using run(1) failures_total [of records] counter_total [of "map provider_name_of records"]
      counter_total [of "map (class_name data_class_value \<circ> br_data_class) records"]
      counter_total [of "map (class_name quality_tier_value \<circ> br_quality_tier) records"]
    by simp
qed

text \<open>
  C35. A publishable report says what was run: every request of a run declared managed or private went
  to a provider of that kind, or no report is returned.
\<close>

theorem publishable_report_pure:
  assumes "build_report su files entries parent run_dir root_folder preferred = Inr sm"
    and "files (run_path run_dir ''manifest.yaml'') = Some mtext" "ce_yaml (su_compare su) mtext = Some manifest"
    and "json_item manifest ''scenario'' = Inr raw" "su_scenario su raw = Some s"
    and "sc_publishable s" "mode_prefix (sc_provider_mode s) = Some mode"
  shows "sm_mismatches sm = 0
    \<and> (\<exists>content records. files (run_path run_dir ''records.jsonl'') = Some content
        \<and> read_records (su_compare su) content = Inr records
        \<and> (\<forall>r \<in> set records. starts_with (or_str (br_provider r) '''') mode))"
proof -
  obtain rtext records run_id q costs slo rows stats claim comparison limitations grid where
    run: "files (run_path run_dir ''records.jsonl'') = Some rtext"
      "read_records (su_compare su) rtext = Inr records" "provider_mode_mismatches records s = 0"
    and sm: "sm = summary_of_records s records run_id q costs slo rows stats claim comparison limitations grid"
    using build_report_Inr [OF assms(1)] assms(2-6) by (metis option.inject sum.inject(2))
  have "\<forall>r \<in> set records. starts_with (or_str (br_provider r) '''') mode"
    using run(3) assms(7) by (auto simp: provider_mode_mismatches_def count_where_def filter_empty_conv)
  with run sm show ?thesis by (simp add: summary_of_records_def Let_def)
qed


section \<open>A concrete report\<close>

definition lab_report_scenario :: scenario where
  "lab_report_scenario = lab_generation
     \<lparr>sc_publishable := True, sc_repeats := 1, sc_bootstrap_iterations := 1\<rparr>"

definition lab_report_manifest :: json where
  "lab_report_manifest = JObj
     [(''scenario'', JObj []), (''compute'', JObj []), (''slo'', JObj []), (''run_id'', JStr ''run''),
      (''statistics'', JObj [(''repeat_group_id'', JStr ''g'')]), (''harness'', JObj [(''location'', JStr ''eu'')])]"

definition lab_pricing :: json where
  "lab_pricing = JObj [(''pricing'', JObj [(''managed-primary'', JObj [(''lab-economy'',
     JObj [(''input_per_1m'', JStr ''1''), (''output_per_1m'', JStr ''5'')])])])]"

definition lab_summary_env :: summary_env where
  "lab_summary_env =
     \<lparr>su_report = lab_report_env,
      su_compare = \<lparr>ce_data = lab_data_env, ce_float = (\<lambda>s. None), ce_random = (\<lambda>s k n. 0),
        ce_yaml = map_of [(''M'', lab_report_manifest), (''P'', lab_pricing)],
        ce_record = map_of [(''R'', slow_evidence)]\<rparr>,
      su_scenario = (\<lambda>v. Some lab_report_scenario),
      su_slo = (\<lambda>v. Some \<lparr>ms_cells = sd_cells lab_slo, ms_target = None\<rparr>),
      su_cost = map_of [(''C'', lab_cost)], su_decimal = (\<lambda>x. x), su_hours = None\<rparr>"

definition lab_report_files :: file_store where
  "lab_report_files = map_of
     [(''d/manifest.yaml'', ''M''), (''d/records.jsonl'', ''R''), (''/r/p'', ''P''), (''/r/c'', ''C'')]"

lemma lab_parts:
  "\<exists>q. quality_payload lab_report_env lab_report_scenario [slow_evidence] = Inr q
     \<and> qr_task_correct q = None \<and> qr_quality_rate q = None"
  "\<exists>costs. cost_report_of lab_cost None None lab_report_scenario None [slow_evidence] = Inr costs
     \<and> cr_gpu_nodes costs = 1"
  "\<exists>slo. slo_payload lab_report_env lab_report_scenario \<lparr>ms_cells = sd_cells lab_slo, ms_target = None\<rparr>
      [slow_evidence] = Inr slo"
proof -
  show "\<exists>q. quality_payload lab_report_env lab_report_scenario [slow_evidence] = Inr q
     \<and> qr_task_correct q = None \<and> qr_quality_rate q = None"
    by (simp add: quality_payload_def lab_report_scenario_def lab_generation_def)
  have hours: "0 \<le> dsum (map snd (repeat_hours lab_cost lab_report_scenario [slow_evidence]))"
    by (intro dsum_nonneg) (auto simp: repeat_hours_def lab_cost_def intro!: ddiv_nonneg)
  obtain inputs where inputs: "private_inputs_of
      (dsum (map snd (repeat_hours lab_cost lab_report_scenario [slow_evidence]))) 1 = Inr inputs"
    using hours dmul_nonneg [OF hours] by (simp add: private_inputs_of_def private_run_inputs_ok_def Let_def)
  have operations: "\<exists>a. map_of (cc_operations lab_cost) name = Some a" if "name \<in> set sensitivity_names" for name
    using that by (auto simp: sensitivity_names_def lab_cost_def)
  have views: "\<exists>v. run_views lab_cost m inputs n cn mt pt = Inr v" for m n cn mt pt
  proof -
    have "\<forall>name \<in> set sensitivity_names. \<exists>row. sensitivity_row_of lab_cost m inputs n cn mt pt name = Inr row"
      using operations by (fastforce simp: sensitivity_row_of_def operations_cost_def Let_def)
    from traverse_Inr_iff [THEN iffD2, OF this] show ?thesis by (auto simp: run_views_def)
  qed
  have "\<forall>name \<in> set sensitivity_names. \<exists>row. hybrid_sensitivity_of lab_cost inputs m n cn tk name = Inr row"
    for m n cn tk
    using operations by (fastforce simp: hybrid_sensitivity_of_def operations_cost_def Let_def)
  then have hybrid: "\<exists>rows. traverse (hybrid_sensitivity_of lab_cost inputs m n cn tk) sensitivity_names = Inr rows"
    for m n cn tk
    by (rule traverse_Inr_iff [THEN iffD2])
  have nodes: "gpu_nodes None = 1" by code_simp
  obtain v where v: "run_views lab_cost (ma_total (aggregate_managed [slow_evidence])) inputs
      (int (length [slow_evidence])) (map_option int None) (managed_provider_billed_tokens [slow_evidence])
      (private_normalized_tokens [slow_evidence]) = Inr v"
    using views by blast
  obtain rows where rows: "traverse (hybrid_sensitivity_of lab_cost inputs
      (dadd (private_view_a lab_cost inputs) (ma_total (aggregate_managed [slow_evidence])))
      (int (length [slow_evidence])) (map_option int None) (hybrid_tokens [slow_evidence])) sensitivity_names = Inr rows"
    using hybrid by blast
  show "\<exists>costs. cost_report_of lab_cost None None lab_report_scenario None [slow_evidence] = Inr costs
      \<and> cr_gpu_nodes costs = 1"
    unfolding cost_report_of_def Let_def private_billed_hours_def option.case bind_res.simps prod.case nodes
      inputs v rows
    by simp
  have "case slo_payload lab_report_env lab_report_scenario \<lparr>ms_cells = sd_cells lab_slo, ms_target = None\<rparr>
      [slow_evidence] of Inl e \<Rightarrow> False | Inr x \<Rightarrow> True"
    by code_simp
  then show "\<exists>slo. slo_payload lab_report_env lab_report_scenario \<lparr>ms_cells = sd_cells lab_slo, ms_target = None\<rparr>
      [slow_evidence] = Inr slo"
    by (auto split: sum.splits)
qed

lemma lab_repeats: "\<exists>rows. repeat_costs lab_cost nodes lab_report_scenario [slow_evidence] = Inr rows"
proof -
  have "map ry_index (repeat_summary [slow_evidence]) = [1]" and "[1 .. sc_repeats lab_report_scenario] = [1]"
    by code_simp+
  then show ?thesis
    by (auto simp: repeat_costs_def repeat_hours_def private_numerators_def managed_numerators_def
        correct_by_repeat_def repeat_cost_row_def Let_def map_eq_Cons_conv)
qed

lemma lab_statistics:
  "\<exists>stats. statistics_of lab_report_env lab_cost nodes lab_report_scenario None [slow_evidence] = Inr stats"
proof -
  have e2e: "case clustered_metric_ci (rp_random lab_report_env)
      (clusters_of e2e_values lab_report_scenario [slow_evidence]) p95_metric 1 1 of Inl e \<Rightarrow> False | Inr x \<Rightarrow> True"
    and fields: "sc_bootstrap_iterations lab_report_scenario = 1" "sc_seed lab_report_scenario = 1"
      "sc_stream lab_report_scenario = False"
    by code_simp+
  from e2e obtain ci where "clustered_metric_ci (rp_random lab_report_env)
      (clusters_of e2e_values lab_report_scenario [slow_evidence]) p95_metric 1 1 = Inr ci"
    by (auto split: sum.splits)
  then show ?thesis by (simp add: statistics_of_def Let_def fields)
qed

lemma lab_run_grid:
  assumes "qr_quality_rate q = None"
  shows "\<exists>grid. run_grid lab_summary_env lab_report_files ''/r'' lab_report_scenario lab_cost q = Inr grid \<and> grid \<noteq> []"
proof -
  obtain rows where rows: "build_scenario_grid lab_cost 1 5 1 1 = Inr rows" "length rows = 600"
    using grid_built [OF lab_cost_valid, of 1 5 1 1] by (auto simp: lab_cost_def lab_grid_def)
  have "lab_report_files (join_path ''/r'' (sc_pricing_config lab_report_scenario)) = Some ''P''"
    "ce_yaml (su_compare lab_summary_env) ''P'' = Some lab_pricing"
    "pricing_of (de_text (ce_data (su_compare lab_summary_env))) lab_report_scenario lab_pricing = Inr (1, 5)"
    by code_simp+
  with rows assms show ?thesis by (auto simp: run_grid_def accepted_def required_file_def)
qed


lemma lab_report:
  "\<exists>sm. build_report lab_summary_env lab_report_files [] ''.'' ''d'' ''/r'' None = Inr sm"
proof -
  obtain q costs slo rows stats grid where parts:
    "quality_payload lab_report_env lab_report_scenario [slow_evidence] = Inr q" "qr_task_correct q = None"
    "cost_report_of lab_cost None None lab_report_scenario None [slow_evidence] = Inr costs"
    "cr_gpu_nodes costs = 1"
    "repeat_costs lab_cost 1 lab_report_scenario [slow_evidence] = Inr rows"
    "statistics_of lab_report_env lab_cost 1 lab_report_scenario None [slow_evidence] = Inr stats"
    "run_grid lab_summary_env lab_report_files ''/r'' lab_report_scenario lab_cost q = Inr grid" "grid \<noteq> []"
    "slo_payload lab_report_env lab_report_scenario \<lparr>ms_cells = sd_cells lab_slo, ms_target = None\<rparr>
       [slow_evidence] = Inr slo"
    using lab_parts lab_repeats [of 1] lab_statistics [of 1] lab_run_grid by metis
  have files: "required_file lab_report_files (run_path ''d'' ''manifest.yaml'') = Inr ''M''"
    "required_file lab_report_files (run_path ''d'' ''records.jsonl'') = Inr ''R''"
    "required_file lab_report_files (join_path ''/r'' (sc_cost_config lab_report_scenario)) = Inr ''C''"
    "read_records (su_compare lab_summary_env) ''R'' = Inr [slow_evidence]"
    by code_simp+
  have env: "ce_yaml (su_compare lab_summary_env) ''M'' = Some lab_report_manifest"
    "su_report lab_summary_env = lab_report_env" "su_hours lab_summary_env = None"
    "su_cost lab_summary_env ''C'' = Some lab_cost" "su_scenario lab_summary_env v = Some lab_report_scenario"
    "su_slo lab_summary_env v = Some \<lparr>ms_cells = sd_cells lab_slo, ms_target = None\<rparr>" for v
    by (simp_all add: lab_summary_env_def)
  have manifest: "json_item lab_report_manifest ''scenario'' = Inr (JObj [])"
    "json_get lab_report_manifest ''compute'' = Inr (JObj [])"
    "map_of (object_or_empty lab_report_manifest) ''compute'' = Some (JObj [])"
    "map_of (object_or_empty (sub_get lab_report_manifest ''compute'')) ''gpu_count'' = None"
    "json_item lab_report_manifest ''slo'' = Inr (JObj [])"
    "json_item lab_report_manifest ''run_id'' = Inr (JStr ''run'')"
    "json_item lab_report_manifest ''statistics'' = Inr (JObj [(''repeat_group_id'', JStr ''g'')])"
    "json_item lab_report_manifest ''harness'' = Inr (JObj [(''location'', JStr ''eu'')])"
    "map_of (object_or_empty lab_report_manifest) ''comparison'' = None"
    by code_simp+
  have found: "comparison_for_run te lab_report_files [] ''.'' ''d'' run_id None = Inr None" for te run_id
    by (simp add: comparison_for_run_def pair_paths_def first_occurrences_def run_path_def lab_report_files_def)
  have limits: "\<exists>l. report_limitations te (JObj [(''location'', JStr ''eu'')]) False lab_report_scenario = Inr l"
    for te
    by (simp add: report_limitations_def Let_def)
  have pure: "provider_mode_mismatches [slow_evidence] lab_report_scenario = 0" by code_simp
  show ?thesis
    using limits
    by (simp add: build_report_def assemble_report_def files env manifest parts found Let_def accepted_def
        release_report_def pure bind_res_Inr)
qed

theorem summary_accounts_witness:
  "\<exists>sm. build_report lab_summary_env lab_report_files [] ''.'' ''d'' ''/r'' None = Inr sm \<and> sm_requests sm = 1"
proof -
  obtain sm where sm: "build_report lab_summary_env lab_report_files [] ''.'' ''d'' ''/r'' None = Inr sm"
    using lab_report by blast
  have "lab_report_files (run_path ''d'' ''records.jsonl'') = Some ''R''" and "length (splitlines ''R'') = 1"
    by code_simp+
  with summary_accounts [OF sm] sm show ?thesis by auto
qed

theorem publishable_report_pure_witness:
  "\<exists>sm. build_report lab_summary_env lab_report_files [] ''.'' ''d'' ''/r'' None = Inr sm \<and> sm_mismatches sm = 0"
proof -
  obtain sm where sm: "build_report lab_summary_env lab_report_files [] ''.'' ''d'' ''/r'' None = Inr sm"
    using lab_report by blast
  have "lab_report_files (run_path ''d'' ''manifest.yaml'') = Some ''M''"
    and "ce_yaml (su_compare lab_summary_env) ''M'' = Some lab_report_manifest"
    and "json_item lab_report_manifest ''scenario'' = Inr (JObj [])"
    and "sc_publishable lab_report_scenario"
    and "mode_prefix (sc_provider_mode lab_report_scenario) = Some ''private''"
    by code_simp+
  then show ?thesis
    using publishable_report_pure [OF sm, of "''M''" lab_report_manifest "JObj []" lab_report_scenario "''private''"] sm
    by (simp add: lab_summary_env_def)
qed

end
