(* ===== verification/Json_Text.thy ===== *)
theory Json_Text
  imports Datasets Manifest
begin

text \<open>
  \<open>json.dumps(value, sort_keys=True)\<close> in the two layouts the benchmark writes: compact, with
  \<open>separators=(",", ":")\<close>, one value to a line, and with \<open>indent=2\<close>. Strings are escaped to
  printable ASCII as \<open>ensure_ascii\<close> does; the text of a float is the parameter \<open>fl\<close>. A reader
  for the documents without floats inverts both layouts.
\<close>

section \<open>Writing\<close>

definition hex_char :: "nat \<Rightarrow> char" where
  "hex_char n = char_of (if n < 10 then 48 + n else 87 + n)"

definition escape_char :: "char \<Rightarrow> string" where
  "escape_char c =
     (let n = of_char c :: nat
      in if n = 34 \<or> n = 92 then [CHR 0x5C, c]
         else if n = 10 then [CHR 0x5C, CHR ''n'']
         else if n = 13 then [CHR 0x5C, CHR ''r'']
         else if n = 9 then [CHR 0x5C, CHR ''t'']
         else if n = 8 then [CHR 0x5C, CHR ''b'']
         else if n = 12 then [CHR 0x5C, CHR ''f'']
         else if 32 \<le> n \<and> n \<le> 126 then [c]
         else CHR 0x5C # ''u00'' @ [hex_char (n div 16), hex_char (n mod 16)])"

definition dump_string :: "string \<Rightarrow> string" where
  "dump_string s = CHR 0x22 # concat (map escape_char s) @ [CHR 0x22]"

text \<open>What stands between the parts of a container at nesting depth \<open>k\<close>.\<close>

definition layout_gap :: "bool \<Rightarrow> nat \<Rightarrow> string" where
  "layout_gap indented k = (if indented then CHR 0x0A # replicate (2 * k) (CHR '' '') else [])"

definition layout_colon :: "bool \<Rightarrow> string" where
  "layout_colon indented = (if indented then '': '' else '':'')"

fun dump_value :: "(rat \<Rightarrow> string) \<Rightarrow> bool \<Rightarrow> nat \<Rightarrow> json \<Rightarrow> string"
  and dump_items :: "(rat \<Rightarrow> string) \<Rightarrow> bool \<Rightarrow> nat \<Rightarrow> json list \<Rightarrow> string"
  and dump_members :: "(rat \<Rightarrow> string) \<Rightarrow> bool \<Rightarrow> nat \<Rightarrow> (string \<times> json) list \<Rightarrow> string" where
  "dump_value fl ind k JNull = ''null''"
| "dump_value fl ind k (JBool b) = (if b then ''true'' else ''false'')"
| "dump_value fl ind k (JInt i) = str_int i"
| "dump_value fl ind k (JFloat x) = fl x"
| "dump_value fl ind k (JStr s) = dump_string s"
| "dump_value fl ind k (JArr []) = ''[]''"
| "dump_value fl ind k (JArr (v # vs)) =
     CHR ''['' # layout_gap ind (k + 1) @ dump_items fl ind (k + 1) (v # vs) @ layout_gap ind k @ '']''"
| "dump_value fl ind k (JObj []) = ''{}''"
| "dump_value fl ind k (JObj (m # ms)) =
     CHR ''{'' # layout_gap ind (k + 1) @ dump_members fl ind (k + 1) (m # ms) @ layout_gap ind k @ ''}''"
| "dump_items fl ind k [] = []"
| "dump_items fl ind k (v # vs) =
     dump_value fl ind k v
     @ (if vs = [] then [] else CHR '','' # layout_gap ind k @ dump_items fl ind k vs)"
| "dump_members fl ind k [] = []"
| "dump_members fl ind k ((key, v) # ms) =
     dump_string key @ layout_colon ind @ dump_value fl ind k v
     @ (if ms = [] then [] else CHR '','' # layout_gap ind k @ dump_members fl ind k ms)"

text \<open>\<open>sort_keys\<close>, at every depth.\<close>

fun sort_json :: "json \<Rightarrow> json" where
  "sort_json (JArr vs) = JArr (map sort_json vs)"
| "sort_json (JObj kvs) = JObj (sort_key fst (map (\<lambda>(k, v). (k, sort_json v)) kvs))"
| "sort_json v = v"

definition dumps_compact :: "(rat \<Rightarrow> string) \<Rightarrow> json \<Rightarrow> string" where
  "dumps_compact fl v = dump_value fl False 0 (sort_json v)"

definition dumps_indented :: "(rat \<Rightarrow> string) \<Rightarrow> json \<Rightarrow> string" where
  "dumps_indented fl v = dump_value fl True 0 (sort_json v)"

fun float_free :: "json \<Rightarrow> bool" where
  "float_free (JFloat x) = False"
| "float_free (JArr vs) = list_all float_free vs"
| "float_free (JObj kvs) = list_all (\<lambda>(k, v). float_free v) kvs"
| "float_free v = True"

section \<open>Reading\<close>

definition json_white :: "char \<Rightarrow> bool" where
  "json_white c \<longleftrightarrow> c \<in> {CHR '' '', CHR 0x09, CHR 0x0A, CHR 0x0D}"

definition hex_code :: "char \<Rightarrow> nat" where
  "hex_code c = (let n = of_char c in if n < 58 then n - 48 else n - 87)"

definition unescape :: "char \<Rightarrow> char option" where
  "unescape e =
     map_of [(CHR 0x22, CHR 0x22), (CHR 0x5C, CHR 0x5C), (CHR ''n'', CHR 0x0A), (CHR ''r'', CHR 0x0D),
             (CHR ''t'', CHR 0x09), (CHR ''b'', CHR 0x08), (CHR ''f'', CHR 0x0C)] e"

text \<open>The text after the opening quote, up to the closing one.\<close>

fun read_string :: "string \<Rightarrow> (string \<times> string) option" where
  "read_string [] = None"
| "read_string (c # s) =
     (if c = CHR 0x22 then Some ([], s)
      else if c \<noteq> CHR 0x5C then map_option (map_prod ((#) c) id) (read_string s)
      else (case s of
              [] \<Rightarrow> None
            | e # t \<Rightarrow>
                if e = CHR ''u''
                then (case t of
                        a # b # x # y # r \<Rightarrow>
                          map_option (map_prod ((#) (char_of (16 * hex_code x + hex_code y))) id)
                            (read_string r)
                      | _ \<Rightarrow> None)
                else (case unescape e of
                        None \<Rightarrow> None
                      | Some d \<Rightarrow> map_option (map_prod ((#) d) id) (read_string t))))"

definition read_int :: "string \<Rightarrow> (json \<times> string) option" where
  "read_int s =
     (let (sign, body) = (if take 1 s = ''-'' then (-1, drop 1 s) else (1, s));
          ds = takeWhile is_digit body
      in if ds = [] then None else Some (JInt (sign * digits_value ds), dropWhile is_digit body))"

fun read_value :: "nat \<Rightarrow> string \<Rightarrow> (json \<times> string) option"
  and read_items :: "nat \<Rightarrow> string \<Rightarrow> (json list \<times> string) option"
  and read_members :: "nat \<Rightarrow> string \<Rightarrow> ((string \<times> json) list \<times> string) option" where
  "read_value 0 s = None"
| "read_value (Suc n) s =
     (case dropWhile json_white s of
        [] \<Rightarrow> None
      | c # t \<Rightarrow>
          if c = CHR 0x22 then map_option (map_prod JStr id) (read_string t)
          else if c = CHR ''[''
          then (case dropWhile json_white t of
                  [] \<Rightarrow> None
                | d # r \<Rightarrow> if d = CHR '']'' then Some (JArr [], r)
                          else map_option (map_prod JArr id) (read_items n t))
          else if c = CHR ''{''
          then (case dropWhile json_white t of
                  [] \<Rightarrow> None
                | d # r \<Rightarrow> if d = CHR ''}'' then Some (JObj [], r)
                          else map_option (map_prod JObj id) (read_members n t))
          else if c = CHR ''n'' then (if take 3 t = ''ull'' then Some (JNull, drop 3 t) else None)
          else if c = CHR ''t'' then (if take 3 t = ''rue'' then Some (JBool True, drop 3 t) else None)
          else if c = CHR ''f'' then (if take 4 t = ''alse'' then Some (JBool False, drop 4 t) else None)
          else read_int (c # t))"
| "read_items 0 s = None"
| "read_items (Suc n) s =
     (case read_value n s of
        None \<Rightarrow> None
      | Some (v, r) \<Rightarrow>
          (case dropWhile json_white r of
             [] \<Rightarrow> None
           | c # t \<Rightarrow>
               if c = CHR '','' then map_option (map_prod ((#) v) id) (read_items n t)
               else if c = CHR '']'' then Some ([v], t) else None))"
| "read_members 0 s = None"
| "read_members (Suc n) s =
     (case dropWhile json_white s of
        [] \<Rightarrow> None
      | q # s' \<Rightarrow>
          if q \<noteq> CHR 0x22 then None
          else (case read_string s' of
                  None \<Rightarrow> None
                | Some (key, r) \<Rightarrow>
                    (case dropWhile json_white r of
                       [] \<Rightarrow> None
                     | c # t \<Rightarrow>
                         if c \<noteq> CHR '':'' then None
                         else (case read_value n t of
                                 None \<Rightarrow> None
                               | Some (v, r') \<Rightarrow>
                                   (case dropWhile json_white r' of
                                      [] \<Rightarrow> None
                                    | d # t' \<Rightarrow>
                                        if d = CHR '','' then map_option (map_prod ((#) (key, v)) id) (read_members n t')
                                        else if d = CHR ''}'' then Some ([(key, v)], t') else None)))))"

definition read_json :: "string \<Rightarrow> json option" where
  "read_json s =
     (case read_value (Suc (length s)) s of
        None \<Rightarrow> None
      | Some (v, r) \<Rightarrow> if list_all json_white r then Some v else None)"

section \<open>Reading what was written\<close>

lemma hex_code_char: "n < 16 \<Longrightarrow> hex_code (hex_char n) = n"
  by (simp add: hex_code_def hex_char_def Let_def)

lemma read_escaped:
  "read_string (escape_char c @ s) = map_option (map_prod ((#) c) id) (read_string s)"
proof -
  let ?n = "of_char c :: nat"
  have whole: "char_of (16 * hex_code (hex_char (?n div 16)) + hex_code (hex_char (?n mod 16))) = c"
    using nat_of_char_less_256 [of c] by (simp add: hex_code_char less_mult_imp_div_less)
  have named: "?n \<in> {34, 92, 10, 13, 9, 8, 12} \<Longrightarrow>
      c \<in> {CHR 0x22, CHR 0x5C, CHR 0x0A, CHR 0x0D, CHR 0x09, CHR 0x08, CHR 0x0C}"
    using of_char_eq_iff [where 'a = nat, of c "CHR 0x22"] of_char_eq_iff [where 'a = nat, of c "CHR 0x5C"]
      of_char_eq_iff [where 'a = nat, of c "CHR 0x0A"] of_char_eq_iff [where 'a = nat, of c "CHR 0x0D"]
      of_char_eq_iff [where 'a = nat, of c "CHR 0x09"] of_char_eq_iff [where 'a = nat, of c "CHR 0x08"]
      of_char_eq_iff [where 'a = nat, of c "CHR 0x0C"] by auto
  consider "?n \<in> {34, 92, 10, 13, 9, 8, 12}"
    | "?n \<notin> {34, 92, 10, 13, 9, 8, 12}" "32 \<le> ?n \<and> ?n \<le> 126"
    | "?n \<notin> {34, 92, 10, 13, 9, 8, 12}" "\<not> (32 \<le> ?n \<and> ?n \<le> 126)" by blast
  then show ?thesis
  proof cases
    case 1
    from named [OF this] show ?thesis by (auto simp: escape_char_def unescape_def)
  next
    case 2
    then have "c \<noteq> CHR 0x22" "c \<noteq> CHR 0x5C" by auto
    with 2 show ?thesis by (simp add: escape_char_def Let_def)
  next
    case 3
    then have "escape_char c = CHR 0x5C # ''u00'' @ [hex_char (?n div 16), hex_char (?n mod 16)]"
      by (auto simp: escape_char_def Let_def)
    then show ?thesis using whole by simp
  qed
qed

lemma read_escapes: "read_string (concat (map escape_char s) @ CHR 0x22 # rest) = Some (s, rest)"
  by (induction s) (simp_all add: read_escaped)

lemma digit_char_digit: "n < 10 \<Longrightarrow> is_digit (digit_char n) \<and> digit_value (digit_char n) = int n"
proof -
  assume n: "n < 10"
  have "(of_char (digit_char n) :: nat) = 48 + n" using n by simp
  moreover have "(of_char (digit_char n) :: int) = of_nat (of_char (digit_char n))"
    by (simp only: of_nat_of_char)
  ultimately show ?thesis
    using n by (simp add: is_digit_def digit_value_def less_eq_char_def)
qed

lemma str_nat_digits: "str_nat n \<noteq> [] \<and> list_all is_digit (str_nat n) \<and> digits_value (str_nat n) = int n"
proof (induction n rule: less_induct)
  case (less n)
  show ?case
  proof (cases "n < 10")
    case True
    then show ?thesis
      using digit_char_digit [OF True] by (simp add: str_nat.simps [of n] digits_value_def)
  next
    case False
    have "n mod 10 < 10" by simp
    note last = digit_char_digit [OF this]
    have "10 * int (n div 10) + int (n mod 10) = int n" by presburger
    then show ?thesis
      using last less [of "n div 10"] False by (simp add: str_nat.simps [of n] digits_value_def)
  qed
qed

definition stops :: "string \<Rightarrow> bool" where
  "stops rest \<longleftrightarrow> rest = [] \<or> \<not> is_digit (hd rest)"

lemma digits_until_stop:
  "list_all is_digit ds \<Longrightarrow> stops rest \<Longrightarrow>
   takeWhile is_digit (ds @ rest) = ds \<and> dropWhile is_digit (ds @ rest) = rest"
  by (cases rest) (auto simp: stops_def list_all_iff takeWhile_append dropWhile_append)

lemma read_written_int: "stops rest \<Longrightarrow> read_int (str_int i @ rest) = Some (JInt i, rest)"
proof -
  assume stop: "stops rest"
  have digits: "takeWhile is_digit (str_nat n @ rest) = str_nat n"
    "dropWhile is_digit (str_nat n @ rest) = rest" for n
    using digits_until_stop [OF _ stop] str_nat_digits [of n] by auto
  have "\<not> is_digit (CHR ''-'')" by (simp add: is_digit_def less_eq_char_def)
  then have "take 1 (str_nat n @ rest) \<noteq> ''-''" for n
    using str_nat_digits [of n] by (cases "str_nat n") auto
  then show ?thesis
    using digits str_nat_digits by (simp add: read_int_def str_int_def)
qed

lemma white_prefix: "list_all json_white g \<Longrightarrow> \<not> json_white c \<Longrightarrow> dropWhile json_white (g @ c # t) = c # t"
  by (induction g) auto

lemma layout_gap_white [simp]: "list_all json_white (layout_gap ind k)"
  by (auto simp: layout_gap_def json_white_def list_all_iff)

lemma white_stops: "list_all json_white g \<Longrightarrow> stops rest \<Longrightarrow> stops (g @ rest)"
  by (cases g) (auto simp: stops_def json_white_def is_digit_def less_eq_char_def)

lemma str_int_head: "\<exists>c t. str_int i = c # t \<and> (c = CHR ''-'' \<or> is_digit c)"
  using str_nat_digits [of "nat i"] by (cases "str_nat (nat i)") (auto simp: str_int_def)

text \<open>A written value begins with a character that ends no container and is no white space.\<close>

lemma dump_value_head:
  "float_free v \<Longrightarrow> \<exists>c t. dump_value fl ind k v = c # t \<and> \<not> json_white c \<and> c \<noteq> CHR '']'' \<and> c \<noteq> CHR ''}''"
proof (cases v)
  case (JInt i)
  then show ?thesis
    using str_int_head [of i] by (auto simp: json_white_def is_digit_def less_eq_char_def)
next
  case (JArr vs)
  then show ?thesis by (cases vs) (auto simp: json_white_def)
next
  case (JObj ms)
  then show ?thesis by (cases ms) (auto simp: json_white_def)
qed (auto simp: json_white_def dump_string_def)

definition reads_value :: "string \<Rightarrow> json \<Rightarrow> bool" where
  "reads_value dump v \<longleftrightarrow>
     (\<forall>n g rest. list_all json_white g \<and> length dump < n \<and> stops rest
        \<longrightarrow> read_value n (g @ dump @ rest) = Some (v, rest))"

lemma reads_valueI:
  assumes "\<And>n rest. length (c # t) \<le> n \<Longrightarrow> stops rest \<Longrightarrow> read_value (Suc n) (c # t @ rest) = Some (v, rest)"
    and "\<not> json_white c"
  shows "reads_value (c # t) v"
  unfolding reads_value_def
proof (intro allI impI, elim conjE)
  fix n g and rest :: string
  assume g: "list_all json_white g" and n: "length (c # t) < n" and stop: "stops rest"
  then obtain m where m: "n = Suc m" "length (c # t) \<le> m" by (cases n) auto
  have "read_value n (g @ (c # t) @ rest) = read_value (Suc m) (c # t @ rest)"
    using assms(2) white_prefix [OF g assms(2)] by (simp add: m)
  then show "read_value n (g @ (c # t) @ rest) = Some (v, rest)" using assms(1) [OF m(2) stop] by simp
qed

lemma reads_valueD:
  "reads_value dump v \<Longrightarrow> list_all json_white g \<Longrightarrow> length dump < n \<Longrightarrow> stops rest \<Longrightarrow>
   read_value n (g @ dump @ rest) = Some (v, rest)"
  by (simp add: reads_value_def)

lemma stops_simps [simp]: "stops []" "stops (CHR '','' # s)" "stops (CHR '']'' # s)" "stops (CHR ''}'' # s)"
  by (simp_all add: stops_def is_digit_def less_eq_char_def)

lemma reads_scalars:
  "reads_value ''null'' JNull" "reads_value ''true'' (JBool True)" "reads_value ''false'' (JBool False)"
  "reads_value (dump_string s) (JStr s)"
  unfolding dump_string_def by (rule reads_valueI; simp add: json_white_def read_escapes)+

lemma reads_int: "reads_value (str_int i) (JInt i)"
proof -
  obtain c t where ct: "str_int i = c # t" "c = CHR ''-'' \<or> is_digit c" using str_int_head by blast
  have "\<not> json_white c" "c \<notin> {CHR 0x22, CHR ''['', CHR ''{'', CHR ''n'', CHR ''t'', CHR ''f''}"
    using ct(2) by (auto simp: json_white_def is_digit_def less_eq_char_def)
  then show ?thesis
    unfolding ct(1) using read_written_int [of _ i] by (intro reads_valueI) (auto simp: ct(1))
qed

text \<open>The items of a list, up to the closing bracket, and the members of an object.\<close>

definition reads_items :: "string \<Rightarrow> json list \<Rightarrow> bool" where
  "reads_items dump vs \<longleftrightarrow>
     (\<forall>n g g' rest. list_all json_white g \<and> list_all json_white g' \<and> length dump + 1 < n
        \<longrightarrow> read_items n (g @ dump @ g' @ CHR '']'' # rest) = Some (vs, rest))"

definition reads_members :: "string \<Rightarrow> (string \<times> json) list \<Rightarrow> bool" where
  "reads_members dump ms \<longleftrightarrow>
     (\<forall>n g g' rest. list_all json_white g \<and> list_all json_white g' \<and> length dump + 1 < n
        \<longrightarrow> read_members n (g @ dump @ g' @ CHR ''}'' # rest) = Some (ms, rest))"

lemma white_brackets [simp]:
  "\<not> json_white (CHR '']'')" "\<not> json_white (CHR ''}'')" "\<not> json_white (CHR '','')"
  "\<not> json_white (CHR 0x22)" "\<not> json_white (CHR '':'')" "\<not> json_white (CHR ''['')" "\<not> json_white (CHR ''{'')"
  by (simp_all add: json_white_def)

lemma reads_items_one: "reads_value dump v \<Longrightarrow> reads_items dump [v]"
  unfolding reads_items_def
proof (intro allI impI, elim conjE)
  fix n g g' and rest :: string
  assume v: "reads_value dump v" and g: "list_all json_white g" "list_all json_white g'"
    and n: "length dump + 1 < n"
  then obtain m where m: "n = Suc m" "length dump < m" by (cases n) auto
  have "stops (g' @ CHR '']'' # rest)" using g(2) by (intro white_stops) simp_all
  from reads_valueD [OF v g(1) m(2) this] show "read_items n (g @ dump @ g' @ CHR '']'' # rest) = Some ([v], rest)"
    using white_prefix [OF g(2)] by (simp add: m(1))
qed

lemma reads_items_Cons:
  "reads_value dump v \<Longrightarrow> reads_items tail vs \<Longrightarrow> list_all json_white gap \<Longrightarrow> dump \<noteq> [] \<Longrightarrow>
   reads_items (dump @ CHR '','' # gap @ tail) (v # vs)"
  unfolding reads_items_def [of _ "v # vs"]
proof (intro allI impI, elim conjE)
  fix n g g' and rest :: string
  assume v: "reads_value dump v" and vs: "reads_items tail vs" and gap: "list_all json_white gap"
    and ne: "dump \<noteq> []" and g: "list_all json_white g" "list_all json_white g'"
    and n: "length (dump @ CHR '','' # gap @ tail) + 1 < n"
  then obtain m where m: "n = Suc m" "length dump < m" "length tail + 1 < m" by (cases n) auto
  have stop: "stops (CHR '','' # s)" for s by simp
  have "read_items m (gap @ tail @ g' @ CHR '']'' # rest) = Some (vs, rest)"
    using vs gap g(2) m(3) by (simp add: reads_items_def)
  then show "read_items n (g @ (dump @ CHR '','' # gap @ tail) @ g' @ CHR '']'' # rest) = Some (v # vs, rest)"
    using reads_valueD [OF v g(1) m(2) stop] by (simp add: m(1))
qed

lemma reads_member:
  assumes v: "reads_value dump v" and g: "list_all json_white g" and n: "length dump < n" and stop: "stops rest"
  shows "read_members (Suc n) (g @ dump_string key @ layout_colon ind @ dump @ rest) =
    (case dropWhile json_white rest of
       [] \<Rightarrow> None
     | d # t' \<Rightarrow>
         if d = CHR '','' then map_option (map_prod ((#) (key, v)) id) (read_members n t')
         else if d = CHR ''}'' then Some ([(key, v)], t') else None)"
proof -
  define blank where "blank = (if ind then '' '' else [])"
  have colon: "layout_colon ind = CHR '':'' # blank" by (simp add: layout_colon_def blank_def)
  have "list_all json_white blank" by (simp add: blank_def json_white_def)
  from reads_valueD [OF v this n stop] show ?thesis
    using white_prefix [OF g, of "CHR 0x22"] by (simp add: dump_string_def read_escapes colon)
qed

lemma reads_members_one: "reads_value dump v \<Longrightarrow> reads_members (dump_string key @ layout_colon ind @ dump) [(key, v)]"
  unfolding reads_members_def
proof (intro allI impI, elim conjE)
  fix n g g' and rest :: string
  assume v: "reads_value dump v" and g: "list_all json_white g" "list_all json_white g'"
    and n: "length (dump_string key @ layout_colon ind @ dump) + 1 < n"
  then obtain m where m: "n = Suc m" "length dump < m" by (cases n) auto
  have "stops (g' @ CHR ''}'' # rest)" using g(2) by (intro white_stops) simp_all
  from reads_member [OF v g(1) m(2) this]
  show "read_members n (g @ (dump_string key @ layout_colon ind @ dump) @ g' @ CHR ''}'' # rest) = Some ([(key, v)], rest)"
    using white_prefix [OF g(2)] by (simp add: m(1))
qed

lemma reads_members_Cons:
  "reads_value dump v \<Longrightarrow> reads_members tail ms \<Longrightarrow> list_all json_white gap \<Longrightarrow>
   reads_members (dump_string key @ layout_colon ind @ dump @ CHR '','' # gap @ tail) ((key, v) # ms)"
  unfolding reads_members_def [of _ "(key, v) # ms"]
proof (intro allI impI, elim conjE)
  fix n g g' and rest :: string
  assume v: "reads_value dump v" and ms: "reads_members tail ms" and gap: "list_all json_white gap"
    and g: "list_all json_white g" "list_all json_white g'"
    and n: "length (dump_string key @ layout_colon ind @ dump @ CHR '','' # gap @ tail) + 1 < n"
  then obtain m where m: "n = Suc m" "length dump < m" "length tail + 1 < m" by (cases n) auto
  have stop: "stops (CHR '','' # s)" for s by simp
  have "read_members m (gap @ tail @ g' @ CHR ''}'' # rest) = Some (ms, rest)"
    using ms gap g(2) m(3) by (simp add: reads_members_def)
  then show "read_members n (g @ (dump_string key @ layout_colon ind @ dump @ CHR '','' # gap @ tail) @ g'
      @ CHR ''}'' # rest) = Some ((key, v) # ms, rest)"
    using reads_member [OF v g(1) m(2) stop, of key ind] by (simp add: m(1))
qed

lemma reads_array:
  assumes "reads_items dump vs" "list_all json_white g" "list_all json_white g'"
    and "dump = c # t" "\<not> json_white c" "c \<noteq> CHR '']''"
  shows "reads_value (CHR ''['' # g @ dump @ g' @ '']'') (JArr vs)"
proof (rule reads_valueI)
  fix n and rest :: string
  assume n: "length (CHR ''['' # g @ dump @ g' @ '']'') \<le> n" and "stops rest"
  have "length dump + 1 < n" using n by simp
  then have "read_items n (g @ dump @ g' @ CHR '']'' # rest) = Some (vs, rest)"
    using assms(1-3) unfolding reads_items_def by blast
  then show "read_value (Suc n) (CHR ''['' # (g @ dump @ g' @ '']'') @ rest) = Some (JArr vs, rest)"
    using white_prefix [OF assms(2) assms(5), of "t @ g' @ CHR '']'' # rest"] assms(4,6) by simp
qed simp

lemma reads_object:
  assumes "reads_members dump ms" "list_all json_white g" "list_all json_white g'"
    and "dump = CHR 0x22 # t"
  shows "reads_value (CHR ''{'' # g @ dump @ g' @ ''}'') (JObj ms)"
proof (rule reads_valueI)
  fix n and rest :: string
  assume n: "length (CHR ''{'' # g @ dump @ g' @ ''}'') \<le> n" and "stops rest"
  have "length dump + 1 < n" using n by simp
  then have "read_members n (g @ dump @ g' @ CHR ''}'' # rest) = Some (ms, rest)"
    using assms(1-3) unfolding reads_members_def by blast
  then show "read_value (Suc n) (CHR ''{'' # (g @ dump @ g' @ ''}'') @ rest) = Some (JObj ms, rest)"
    using white_prefix [OF assms(2), of "CHR 0x22" "t @ g' @ CHR ''}'' # rest"] assms(4) by simp
qed simp

theorem written_reads_back:
  "float_free v \<Longrightarrow> reads_value (dump_value fl ind k v) v"
  "list_all float_free vs \<Longrightarrow> vs \<noteq> [] \<Longrightarrow> reads_items (dump_items fl ind k vs) vs"
  "list_all (\<lambda>(key, v). float_free v) ms \<Longrightarrow> ms \<noteq> [] \<Longrightarrow> reads_members (dump_members fl ind k ms) ms"
proof (induction fl ind k v and fl ind k vs and fl ind k ms
    rule: dump_value_dump_items_dump_members.induct)
  case (6 fl ind k)
  show ?case using reads_valueI [of "CHR ''[''" "'']''"] by simp
next
  case (7 fl ind k v vs)
  obtain c t where ct: "dump_value fl ind (k + 1) v = c # t" "\<not> json_white c" "c \<noteq> CHR '']''"
    using dump_value_head 7(2) by fastforce
  then have "\<exists>t. dump_items fl ind (k + 1) (v # vs) = c # t" by simp
  then obtain t' where "dump_items fl ind (k + 1) (v # vs) = c # t'" by blast
  from reads_array [OF _ layout_gap_white layout_gap_white this ct(2,3)] 7 show ?case
    by (simp del: dump_items.simps)
next
  case (8 fl ind k)
  show ?case using reads_valueI [of "CHR ''{''" "''}''"] by simp
next
  case (9 fl ind k m ms)
  have "\<exists>t. dump_members fl ind (k + 1) (m # ms) = CHR 0x22 # t"
    by (cases m) (simp add: dump_string_def)
  then show ?case using 9 reads_object by (auto simp del: dump_members.simps)
next
  case (11 fl ind k v vs)
  have "dump_value fl ind k v \<noteq> []" using dump_value_head [of v fl ind k] 11 by auto
  then show ?case
    using 11 reads_items_one reads_items_Cons by (cases "vs = []") simp_all
next
  case (13 fl ind k key v ms)
  then show ?case
    using reads_members_one reads_members_Cons by (cases "ms = []") simp_all
qed (auto simp: reads_scalars reads_int)

lemma float_free_sort [simp]: "float_free (sort_json v) = float_free v"
  by (induction v rule: sort_json.induct) (auto simp: list_all_iff)

lemma read_json_written:
  assumes "float_free v" "list_all json_white tail"
  shows "read_json (dump_value fl ind k v @ tail) = Some v"
proof -
  have "stops tail" using white_stops [OF assms(2), of "[]"] by simp
  from reads_valueD [OF written_reads_back(1) [OF assms(1)], of "[]", OF _ _ this]
  show ?thesis using assms(2) by (simp add: read_json_def del: read_value.simps)
qed

lemma read_dumps:
  "float_free v \<Longrightarrow> read_json (dumps_compact fl v) = Some (sort_json v)"
  "float_free v \<Longrightarrow> read_json (dumps_indented fl v @ [CHR 0x0A]) = Some (sort_json v)"
  using read_json_written [of "sort_json v" "[]" fl False 0]
    read_json_written [of "sort_json v" "[CHR 0x0A]" fl True 0]
  by (simp_all add: dumps_compact_def dumps_indented_def json_white_def)

section \<open>Sorted objects\<close>

lemma map_of_sorted: "distinct (map fst kvs) \<Longrightarrow> map_of (sort_key fst kvs) = map_of kvs"
  for kvs :: "(string \<times> 'v) list"
proof -
  assume d: "distinct (map fst kvs)"
  have "mset (map fst (sort_key fst kvs)) = mset (map fst kvs)" by simp
  then have "distinct (map fst (sort_key fst kvs))" using d mset_eq_imp_distinct_iff by blast
  then show ?thesis using d by (intro map_of_inject_set [THEN iffD2]) simp_all
qed

lemma dict_get_sorted:
  assumes "distinct (map fst kvs)"
  shows "dict_get (sort_key fst (map (\<lambda>(k, v). (k, sort_json v)) kvs)) k = sort_json (dict_get kvs k)"
proof -
  have keys: "map fst (map (\<lambda>(k, v). (k, sort_json v)) kvs) = map fst kvs" by (induction kvs) auto
  then have "map_of (sort_key fst (map (\<lambda>(k, v). (k, sort_json v)) kvs)) = map_of (map (\<lambda>(k, v). (k, sort_json v)) kvs)"
    by (intro map_of_sorted) (simp only: keys assms)
  moreover have "map_of (map (\<lambda>(k, v). (k, sort_json v)) kvs) k = map_option sort_json (map_of kvs k)"
    by (induction kvs) auto
  ultimately show ?thesis by (simp add: dict_get_def split: option.split)
qed

section \<open>One line\<close>

definition printable :: "char \<Rightarrow> bool" where
  "printable c \<longleftrightarrow> (let n = of_char c :: nat in 32 \<le> n \<and> n \<le> 126)"

lemma printable_unbroken: "printable c \<Longrightarrow> \<not> line_break c"
  by (auto simp: printable_def line_break_def Let_def)

lemma digit_printable: "is_digit c \<Longrightarrow> printable c"
  by (auto simp: printable_def is_digit_def less_eq_char_def Let_def)

lemma hex_char_printable: "n < 16 \<Longrightarrow> printable (hex_char n)"
  by (simp add: hex_char_def printable_def Let_def)

lemma escape_printable: "list_all printable (escape_char c)"
proof -
  have "printable (hex_char (of_char c div 16))" "printable (hex_char (of_char c mod 16))"
    using nat_of_char_less_256 [of c] by (auto intro!: hex_char_printable simp: less_mult_imp_div_less)
  then show ?thesis by (auto simp: escape_char_def Let_def printable_def)
qed

lemma dump_string_printable: "list_all printable (dump_string s)"
  using escape_printable by (auto simp: dump_string_def list_all_iff printable_def)

lemma str_int_printable: "list_all printable (str_int i)"
  using str_nat_digits by (auto simp: str_int_def list_all_iff digit_printable) (simp add: printable_def)

lemma compact_printable:
  "float_free v \<Longrightarrow> \<not> ind \<Longrightarrow> list_all printable (dump_value fl ind k v)"
  "list_all float_free vs \<Longrightarrow> \<not> ind \<Longrightarrow> list_all printable (dump_items fl ind k vs)"
  "list_all (\<lambda>(key, v). float_free v) ms \<Longrightarrow> \<not> ind \<Longrightarrow> list_all printable (dump_members fl ind k ms)"
proof (induction fl ind k v and fl ind k vs and fl ind k ms
    rule: dump_value_dump_items_dump_members.induct)
qed (auto simp: layout_gap_def layout_colon_def dump_string_printable str_int_printable,
     auto simp: printable_def)

lemma compact_one_line:
  "float_free v \<Longrightarrow> list_all (\<lambda>c. \<not> line_break c) (dumps_compact fl v) \<and> dumps_compact fl v \<noteq> []"
  using compact_printable(1) [of "sort_json v" False fl 0] dump_value_head [of "sort_json v" fl False 0]
  by (auto simp: dumps_compact_def list_all_iff printable_unbroken)

end
