(* ===== verification/Generators.thy ===== *)
theory Generators
  imports Json_Text Security
begin

text \<open>
  The seeded generators of the three synthetic data sets (\<open>benchmark/generators.py\<close>), up to
  the files they leave: prompts, targets, schema, metadata and checksums. The generator
  \<open>random.Random\<close> is a source of draws below a bound, threaded as a state of unknown type;
  \<open>choice\<close>, \<open>randrange\<close> and \<open>shuffle\<close> are written over it as the standard library writes
  them. Rows are dictionaries in insertion order. Making the folder has no effect on the map
  of files, and a write never fails.
\<close>

record 'g draws =
  dr_seeded :: "int \<Rightarrow> 'g"
  dr_below :: "nat \<Rightarrow> 'g \<Rightarrow> nat \<times> 'g"

record 'g generator_env =
  gn_draws :: "'g draws"
  gn_sha256 :: "string \<Rightarrow> string"
  gn_float_text :: "rat \<Rightarrow> string"

datatype generator_error = BadCount string | GenUncaught string

section \<open>Random draws\<close>

definition choice :: "'g draws \<Rightarrow> 'a list \<Rightarrow> 'g \<Rightarrow> 'a \<times> 'g" where
  "choice rg xs g = (let (i, g') = dr_below rg (length xs) g in (xs ! i, g'))"

definition randrange :: "'g draws \<Rightarrow> int \<Rightarrow> int \<Rightarrow> 'g \<Rightarrow> int \<times> 'g" where
  "randrange rg low high g = (let (i, g') = dr_below rg (nat (high - low)) g in (low + int i, g'))"

text \<open>\<open>shuffle\<close>: from the last position down, each is swapped with one drawn up to it.\<close>

fun shuffle_down :: "'g draws \<Rightarrow> nat \<Rightarrow> 'a list \<Rightarrow> 'g \<Rightarrow> 'a list \<times> 'g" where
  "shuffle_down rg 0 xs g = (xs, g)"
| "shuffle_down rg (Suc i) xs g =
     (let (j, g') = dr_below rg (i + 2) g
      in shuffle_down rg i (xs[Suc i := xs ! j, j := xs ! Suc i]) g')"

definition shuffle :: "'g draws \<Rightarrow> 'a list \<Rightarrow> 'g \<Rightarrow> 'a list \<times> 'g" where
  "shuffle rg xs g = shuffle_down rg (length xs - 1) xs g"

text \<open>A loop whose body draws: the results in order and the state after it.\<close>

fun thread :: "('a \<Rightarrow> 'g \<Rightarrow> 'r \<times> 'g) \<Rightarrow> 'a list \<Rightarrow> 'g \<Rightarrow> 'r list \<times> 'g" where
  "thread f [] g = ([], g)"
| "thread f (x # xs) g =
     (let (r, g') = f x g; (rs, g'') = thread f xs g' in (r # rs, g''))"

section \<open>Output\<close>

definition dataset_version :: string where
  "dataset_version = ''1.0.0''"

definition dataset_categories :: "string list" where
  "dataset_categories =
     [''access'', ''billing'', ''delivery'', ''hardware'', ''network'', ''security'', ''software'', ''storage'']"

definition dataset_difficulties :: "string list" where
  "dataset_difficulties = [''easy'', ''medium'', ''hard'']"

definition stable_lines :: "(rat \<Rightarrow> string) \<Rightarrow> json_object list \<Rightarrow> string" where
  "stable_lines fl rows = concat (map (\<lambda>row. dumps_compact fl (JObj row) @ [CHR 0x0A]) rows)"

definition checksum_line ::
    "'g generator_env \<Rightarrow> file_store \<Rightarrow> string \<Rightarrow> generator_error + string" where
  "checksum_line env files path =
     (case files path of
        None \<Rightarrow> Inl (GenUncaught ''OSError'')
      | Some content \<Rightarrow> Inr (gn_sha256 env content @ ''  '' @ snd (split_name path) @ [CHR 0x0A]))"

definition finish_dataset ::
    "'g generator_env \<Rightarrow> string \<Rightarrow> json_object \<Rightarrow> string list \<Rightarrow> file_store
      \<Rightarrow> generator_error + file_store" where
  "finish_dataset env base metadata paths files =
     (let metadata_path = with_suffix base ''.metadata.json'';
          files' = files(metadata_path \<mapsto>
            dumps_indented (gn_float_text env) (JObj metadata) @ [CHR 0x0A])
      in bind_res
           (traverse (checksum_line env files')
              (sort_key (\<lambda>path. snd (split_name path)) (paths @ [metadata_path])))
           (\<lambda>lines. Inr (files'(with_suffix base ''.sha256'' \<mapsto> concat lines))))"

text \<open>
  \<open>order = list(range(count)); rng.shuffle(order)\<close>, the prompts in that order and the targets
  looked up by identifier. Every row has a string under \<open>id\<close>, on which \<open>str\<close> is the identity.
\<close>

definition row_id :: "json_object \<Rightarrow> string" where
  "row_id row = (case map_of row ''id'' of Some (JStr s) \<Rightarrow> s | _ \<Rightarrow> [])"

definition shuffled_rows ::
    "'g draws \<Rightarrow> (json_object \<times> json_object) list \<Rightarrow> 'g
      \<Rightarrow> generator_error + json_object list \<times> json_object list" where
  "shuffled_rows rg rows g =
     (let order = fst (shuffle rg [0..<length rows] g);
          prompts = map (\<lambda>i. map fst rows ! i) order;
          targets_by_id = map (\<lambda>row. (row_id row, row)) (map snd rows)
      in bind_res
           (traverse (\<lambda>row. case map_of (rev targets_by_id) (row_id row) of
                              None \<Rightarrow> Inl (GenUncaught ''KeyError'')
                            | Some target \<Rightarrow> Inr target) prompts)
           (\<lambda>targets. Inr (prompts, targets)))"

text \<open>\<open>xs.index(x)\<close> of a member, and an item of a tuple by a computed position.\<close>

definition position_of :: "'a list \<Rightarrow> 'a \<Rightarrow> nat" where
  "position_of xs x = length (takeWhile (\<lambda>y. y \<noteq> x) xs)"

section \<open>Classification\<close>

definition support_verbs :: "string list" where
  "support_verbs = [''cannot'', ''needs help to'', ''reports failure to'', ''asks how to'']"

definition category_cues :: "(string \<times> string) list" where
  "category_cues =
     [(''access'', ''sign in after a credential reset''),
      (''billing'', ''correct a duplicate subscription charge''),
      (''delivery'', ''locate a delayed equipment shipment''),
      (''hardware'', ''replace a laptop with a failed keyboard''),
      (''network'', ''restore connectivity on the office network''),
      (''security'', ''report a suspicious authentication notice''),
      (''software'', ''resolve an application crash after an update''),
      (''storage'', ''recover space from a full shared volume'')]"

definition category_distractors :: "(string \<times> string) list" where
  "category_distractors =
     [(''access'', ''The invoice number is mentioned only as an account reference.''),
      (''billing'', ''The user can sign in; access is not the issue.''),
      (''delivery'', ''The tracking portal loads normally over the network.''),
      (''hardware'', ''A security scan passed before the physical fault appeared.''),
      (''network'', ''Local storage has ample capacity.''),
      (''security'', ''The application itself did not crash.''),
      (''software'', ''The device hardware diagnostic passed.''),
      (''storage'', ''Network access and credentials both work.'')]"

definition category_at :: "nat \<Rightarrow> string" where
  "category_at index = dataset_categories ! (index mod length dataset_categories)"

definition classification_difficulty :: "nat \<Rightarrow> string" where
  "classification_difficulty index =
     dataset_difficulties ! (index div length dataset_categories mod 3)"

definition ticket_body :: "int \<Rightarrow> nat \<Rightarrow> string \<Rightarrow> string" where
  "ticket_body seed index verb =
     (let category = category_at index;
          difficulty = classification_difficulty index;
          ticket = ''TKT-'' @ padded 4 (seed mod 10000) @ ''-'' @ padded 4 (int index);
          distractor = the (map_of category_distractors category);
          body = ''Ticket '' @ ticket @ '': The requester '' @ verb @ '' ''
            @ the (map_of category_cues category) @ ''.''
      in if difficulty = ''medium'' then body @ '' '' @ distractor
         else if difficulty = ''hard''
         then (let other = dataset_categories !
                     ((position_of dataset_categories category + 3) mod length dataset_categories)
               in body @ '' The subject line says '' @ other
                  @ '', but that earlier issue was resolved. '' @ distractor
                  @ '' Classify the unresolved request only.'')
         else body)"

definition classification_id :: "nat \<Rightarrow> string" where
  "classification_id index = ''wl01-'' @ padded 4 (int index)"

definition classification_row ::
    "'g draws \<Rightarrow> int \<Rightarrow> nat \<Rightarrow> 'g \<Rightarrow> (json_object \<times> json_object) \<times> 'g" where
  "classification_row rg seed index g =
     (let (verb, g') = choice rg support_verbs g;
          prompt = ''Return exactly one category from: '' @ joined_by '', '' dataset_categories
            @ ''.'' @ [CHR 0x0A] @ ticket_body seed index verb;
          item_id = classification_id index
      in (([(''id'', JStr item_id), (''difficulty'', JStr (classification_difficulty index)),
            (''prompt'', JStr prompt)],
           [(''id'', JStr item_id), (''target'', JStr (category_at index))]), g'))"

definition generate_classification ::
    "'g generator_env \<Rightarrow> string \<Rightarrow> int \<Rightarrow> int \<Rightarrow> file_store
      \<Rightarrow> generator_error + file_store \<times> string" where
  "generate_classification env folder seed n_rows files =
     (if n_rows < 300 \<or> n_rows mod int (length dataset_categories) \<noteq> 0
      then Inl (BadCount ''classification count must be >=300 and divisible by 8'')
      else
        (let rg = gn_draws env;
             (rows, g) = thread (classification_row rg seed) [0..<nat n_rows] (dr_seeded rg seed);
             base = run_path folder ''classification-v1'';
             prompt_path = with_suffix base ''.prompts.jsonl'';
             target_path = with_suffix base ''.targets.jsonl''
         in bind_res (shuffled_rows rg rows g) (\<lambda>(prompts, targets).
            bind_res
              (finish_dataset env base
                 [(''name'', JStr ''classification-v1''), (''version'', JStr dataset_version),
                  (''workload'', JStr ''classification''), (''seed'', JInt seed), (''count'', JInt n_rows),
                  (''categories'', JArr (map JStr dataset_categories))]
                 [prompt_path, target_path]
                 (files(prompt_path \<mapsto> stable_lines (gn_float_text env) prompts,
                        target_path \<mapsto> stable_lines (gn_float_text env) targets)))
              (\<lambda>files'. Inr (files', base)))))"

section \<open>Extraction\<close>

definition severity_names :: "string list" where
  "severity_names = [''low'', ''medium'', ''high'', ''critical'']"

definition service_names :: "string list" where
  "service_names = [''accounts'', ''catalog'', ''checkout'', ''notifications'', ''reporting'']"

definition severity_at :: "nat \<Rightarrow> string" where
  "severity_at index = severity_names ! (index mod length severity_names)"

definition service_at :: "nat \<Rightarrow> string" where
  "service_at index = service_names ! (index * 3 mod length service_names)"

definition owner_at :: "nat \<Rightarrow> string option" where
  "owner_at index =
     (if index mod 5 = 0 then None
      else Some (''team-'' @ service_names ! (index mod length service_names)))"

definition incident_id_at :: "int \<Rightarrow> nat \<Rightarrow> string" where
  "incident_id_at seed index = ''INC-'' @ padded 5 ((seed + int index) mod 100000)"

definition opened_at :: "nat \<Rightarrow> string" where
  "opened_at index =
     ''2026-08-'' @ padded 2 (int (index mod 28) + 1) @ ''T'' @ padded 2 (int (index mod 24)) @ '':''
       @ padded 2 (int (index mod 60)) @ '':00Z''"

definition extraction_difficulty :: "nat \<Rightarrow> string" where
  "extraction_difficulty index = dataset_difficulties ! (index mod 3)"

definition incident_text :: "'g draws \<Rightarrow> int \<Rightarrow> nat \<Rightarrow> 'g \<Rightarrow> string \<times> 'g" where
  "incident_text rg seed index g =
     (let difficulty = extraction_difficulty index;
          incident_id = incident_id_at seed index;
          severity = severity_at index; service = service_at index;
          owner = owner_at index; opened = opened_at index
      in if difficulty = ''easy''
         then (''Incident '' @ incident_id @ [CHR 0x0A] @ ''Severity: '' @ severity @ [CHR 0x0A]
               @ ''Service: '' @ service @ [CHR 0x0A] @ ''Opened: '' @ opened @ [CHR 0x0A]
               @ ''Owner: '' @ or_str owner ''unassigned'', g)
         else if difficulty = ''medium''
         then (let (invoice, g') = randrange rg 10000 99999 g
               in (''At '' @ opened @ '', '' @ service @ '' opened '' @ incident_id
                   @ '' with severity '' @ severity @ ''. Owner is '' @ or_str owner ''not assigned''
                   @ ''. Reference invoice INV-'' @ str_int invoice
                   @ '' has amount 418.00 and is unrelated.'', g'))
         else (let previous = severity_names !
                     ((position_of severity_names severity + 1) mod length severity_names);
                   (order_number, g') = randrange rg 100000 999999 g
               in (''Draft header: severity '' @ previous @ ''; superseded. Final record [''
                   @ incident_id @ ''] service='' @ service @ ''; final_severity='' @ severity
                   @ ''; opened_at='' @ opened @ ''; owner='' @ or_str owner ''NULL''
                   @ ''. Ignore order number '' @ str_int order_number @ '' and the draft header.'', g')))"

definition extraction_id :: "nat \<Rightarrow> string" where
  "extraction_id index = ''wl02-'' @ padded 4 (int index)"

definition extraction_target :: "int \<Rightarrow> nat \<Rightarrow> json_object" where
  "extraction_target seed index =
     [(''incident_id'', JStr (incident_id_at seed index)), (''severity'', JStr (severity_at index)),
      (''service'', JStr (service_at index)), (''opened_at'', JStr (opened_at index)),
      (''owner'', case owner_at index of None \<Rightarrow> JNull | Some s \<Rightarrow> JStr s)]"

definition extraction_row ::
    "'g draws \<Rightarrow> int \<Rightarrow> nat \<Rightarrow> 'g \<Rightarrow> (json_object \<times> json_object) \<times> 'g" where
  "extraction_row rg seed index g =
     (let (incident, g') = incident_text rg seed index g;
          prompt = ''Return one JSON object with keys incident_id, severity, service, opened_at, owner. ''
            @ ''Use null for an unassigned owner and no extra keys.'' @ [CHR 0x0A] @ incident;
          item_id = extraction_id index
      in (([(''id'', JStr item_id), (''difficulty'', JStr (extraction_difficulty index)),
            (''prompt'', JStr prompt)],
           [(''id'', JStr item_id), (''target'', JObj (extraction_target seed index))]), g'))"

definition extraction_schema :: json where
  "extraction_schema =
     JObj [(''$schema'', JStr ''https://json-schema.org/draft/2020-12/schema''),
       (''type'', JStr ''object''), (''additionalProperties'', JBool False),
       (''required'', JArr (map JStr
          [''incident_id'', ''severity'', ''service'', ''opened_at'', ''owner''])),
       (''properties'', JObj
         [(''incident_id'', JObj [(''type'', JStr ''string'')]),
          (''severity'', JObj [(''enum'', JArr (map JStr severity_names))]),
          (''service'', JObj [(''type'', JStr ''string'')]),
          (''opened_at'', JObj [(''type'', JStr ''string'')]),
          (''owner'', JObj [(''type'', JArr [JStr ''string'', JStr ''null''])])])]"

definition generate_extraction ::
    "'g generator_env \<Rightarrow> string \<Rightarrow> int \<Rightarrow> int \<Rightarrow> file_store
      \<Rightarrow> generator_error + file_store \<times> string" where
  "generate_extraction env folder seed n_rows files =
     (if n_rows < 300 then Inl (BadCount ''extraction count must be >=300'')
      else
        (let rg = gn_draws env;
             (rows, g) = thread (extraction_row rg seed) [0..<nat n_rows] (dr_seeded rg (seed + 1));
             base = run_path folder ''extraction-v1'';
             prompt_path = with_suffix base ''.prompts.jsonl'';
             target_path = with_suffix base ''.targets.jsonl'';
             schema_path = with_suffix base ''.schema.json''
         in bind_res (shuffled_rows rg rows g) (\<lambda>(prompts, targets).
            bind_res
              (finish_dataset env base
                 [(''name'', JStr ''extraction-v1''), (''version'', JStr dataset_version),
                  (''workload'', JStr ''structured-extraction''), (''seed'', JInt seed),
                  (''count'', JInt n_rows),
                  (''target_schema'', JStr (snd (split_name schema_path)))]
                 [prompt_path, target_path, schema_path]
                 (files(prompt_path \<mapsto> stable_lines (gn_float_text env) prompts,
                        target_path \<mapsto> stable_lines (gn_float_text env) targets,
                        schema_path \<mapsto>
                          dumps_indented (gn_float_text env) extraction_schema @ [CHR 0x0A])))
              (\<lambda>files'. Inr (files', base)))))"

section \<open>Load\<close>

definition load_profiles :: "(int \<times> int) list" where
  "load_profiles = [(64, 32), (256, 64), (512, 128)]"

definition load_id :: "nat \<Rightarrow> string" where
  "load_id index = ''wl03-'' @ padded 4 (int index)"

definition load_word :: "'g draws \<Rightarrow> nat \<Rightarrow> 'g \<Rightarrow> string \<times> 'g" where
  "load_word rg k g = (let (n, g') = randrange rg 0 1000 g in (''term'' @ padded 3 n, g'))"

definition load_row :: "'g draws \<Rightarrow> nat \<Rightarrow> 'g \<Rightarrow> json_object \<times> 'g" where
  "load_row rg index g =
     (let (input_target, output_target) = load_profiles ! (index mod length load_profiles);
          (words, g') = thread (load_word rg) [0..<nat (max 8 (input_target - 20))] g;
          prompt = ''Summarize the following synthetic terms in about '' @ str_int output_target
            @ '' tokens.'' @ [CHR 0x0A] @ joined_by '' '' words
      in ([(''id'', JStr (load_id index)), (''difficulty'', JStr (extraction_difficulty index)),
           (''prompt'', JStr prompt), (''input_token_target'', JInt input_target),
           (''output_token_target'', JInt output_target)], g'))"

definition generate_load ::
    "'g generator_env \<Rightarrow> string \<Rightarrow> int \<Rightarrow> int \<Rightarrow> file_store
      \<Rightarrow> generator_error + file_store \<times> string" where
  "generate_load env folder seed n_rows files =
     (if n_rows < 1 then Inl (BadCount ''load count must be positive'')
      else
        (let rg = gn_draws env;
             prompts = fst (thread (load_row rg) [0..<nat n_rows] (dr_seeded rg (seed + 2)));
             base = run_path folder ''generation-v1'';
             prompt_path = with_suffix base ''.prompts.jsonl''
         in bind_res
              (finish_dataset env base
                 [(''name'', JStr ''generation-v1''), (''version'', JStr dataset_version),
                  (''workload'', JStr ''generation''), (''seed'', JInt seed), (''count'', JInt n_rows),
                  (''token_target_note'',
                   JStr ''whitespace-token approximation for controlled local load'')]
                 [prompt_path]
                 (files(prompt_path \<mapsto> stable_lines (gn_float_text env) prompts)))
              (\<lambda>files'. Inr (files', base))))"

text \<open>The three generators with their default counts, one after the other.\<close>

definition generate_all ::
    "'g generator_env \<Rightarrow> string \<Rightarrow> int \<Rightarrow> file_store
      \<Rightarrow> generator_error + file_store \<times> (string \<times> string \<times> string)" where
  "generate_all env folder seed files =
     bind_res (generate_classification env folder seed 320 files) (\<lambda>(files1, base1).
     bind_res (generate_extraction env folder seed 320 files1) (\<lambda>(files2, base2).
     bind_res (generate_load env folder seed 120 files2) (\<lambda>(files3, base3).
       Inr (files3, (base1, base2, base3)))))"

end
