(* ===== verification/Generated_Data.thy ===== *)
theory Generated_Data
  imports Generators
begin

text \<open>
  What the generators leave: the draws permute, the written lines and checksums are read
  back, each of the three families loads with the items that were drawn, and the families do
  not disturb one another in one folder.
\<close>

section \<open>Lemmas on draws\<close>

definition draws_below :: "'g draws \<Rightarrow> bool" where
  "draws_below rg \<longleftrightarrow> (\<forall>n g. 0 < n \<longrightarrow> fst (dr_below rg n g) < n)"

lemma shuffle_down_mset:
  "draws_below rg \<Longrightarrow> i < length xs \<or> xs = [] \<and> i = 0 \<Longrightarrow> mset (fst (shuffle_down rg i xs g)) = mset xs"
proof (induction i arbitrary: xs g)
  case (Suc i)
  obtain j g' where draw: "dr_below rg (i + 2) g = (j, g')" by (cases "dr_below rg (i + 2) g")
  have "0 < n \<Longrightarrow> fst (dr_below rg n g) < n" for n using Suc.prems(1) by (simp add: draws_below_def)
  from this [of "i + 2"] have j: "j < length xs" using Suc.prems(2) by (simp only: draw) auto
  have "mset (fst (shuffle_down rg i (xs[Suc i := xs ! j, j := xs ! Suc i]) g'))
      = mset (xs[Suc i := xs ! j, j := xs ! Suc i])"
    using Suc.prems by (intro Suc.IH) simp_all
  also have "\<dots> = mset xs" using j Suc.prems by (intro mset_swap) auto
  finally show ?case by (simp only: shuffle_down.simps draw Let_def prod.case)
qed simp

lemma shuffle_mset: "draws_below rg \<Longrightarrow> mset (fst (shuffle rg xs g)) = mset xs"
  unfolding shuffle_def by (rule shuffle_down_mset, assumption) (cases xs; simp)

lemma thread_map:
  assumes "\<And>x g. h (fst (f x g)) = k x"
  shows "map h (fst (thread f xs g)) = map k xs"
proof (induction xs arbitrary: g)
  case (Cons x xs)
  then show ?case using assms [of x g] by (simp add: split_beta Let_def)
qed simp

lemma thread_length: "length (fst (thread f xs g)) = length xs"
  using thread_map [of "\<lambda>_. ()" f "\<lambda>_. ()" xs g] map_eq_imp_length_eq by fastforce

lemma thread_all: "(\<And>x g. P (fst (f x g))) \<Longrightarrow> list_all P (fst (thread f xs g))"
proof (induction xs arbitrary: g)
  case (Cons x xs)
  then show ?case by (simp add: split_beta Let_def)
qed simp

section \<open>Lemmas on names and lines\<close>

definition simple_name :: "string \<Rightarrow> bool" where
  "simple_name s \<longleftrightarrow> list_all (\<lambda>c. printable c \<and> c \<noteq> CHR ''/'') s \<and> s \<noteq> []"

lemma split_name_run_path:
  assumes "list_all (\<lambda>c. c \<noteq> CHR ''/'') name"
  shows "split_name (run_path folder name) = (folder @ ''/'', name)"
proof -
  have "takeWhile (\<lambda>c. c \<noteq> CHR ''/'') (rev name @ CHR ''/'' # rev folder) = rev name"
    using assms by (simp add: takeWhile_append list_all_iff)
  then show ?thesis by (simp add: split_name_def run_path_def)
qed

lemma stem_no_dot: "list_all (\<lambda>c. c \<noteq> CHR ''.'') name \<Longrightarrow> stem name = name"
proof -
  assume "list_all (\<lambda>c. c \<noteq> CHR ''.'') name"
  then have whole: "takeWhile (\<lambda>c. c \<noteq> CHR ''.'') (rev name) = rev name"
    by (simp add: list_all_iff)
  show ?thesis by (simp add: stem_def Let_def whole del: takeWhile_eq_all_conv)
qed

lemma with_suffix_run_path:
  "list_all (\<lambda>c. c \<noteq> CHR ''/'' \<and> c \<noteq> CHR ''.'') name \<Longrightarrow>
   with_suffix (run_path folder name) ext = run_path folder (name @ ext)"
  using split_name_run_path [of name folder] stem_no_dot [of name]
  by (simp add: with_suffix_def run_path_def list_all_iff)

lemma parent_join_run_path:
  "list_all (\<lambda>c. c \<noteq> CHR ''/'') name \<Longrightarrow> simple_name other \<Longrightarrow>
   parent_join (run_path folder name) other = run_path folder other"
  using split_name_run_path [of name folder]
  by (cases other) (auto simp: parent_join_def run_path_def simple_name_def starts_with_def)

lemma run_path_inject [simp]: "run_path folder a = run_path folder b \<longleftrightarrow> a = b"
  by (simp add: run_path_def)

lemma splitlines_written:
  "list_all (\<lambda>d. list_all (\<lambda>c. \<not> line_break c) d) ds \<Longrightarrow>
   splitlines (concat (map (\<lambda>d. d @ [CHR 0x0A]) ds)) = ds"
proof (induction ds)
  case (Cons d ds)
  then show ?case by (simp add: splitlines_def splitlines_line)
qed (simp add: splitlines_def)

lemma partition_gap_at_gap:
  "list_all (\<lambda>c. c \<noteq> CHR '' '') d \<Longrightarrow> partition_gap (d @ ''  '' @ name) = Some (d, name)"
proof (induction d)
  case (Cons a d)
  then show ?case by (cases d) simp_all
qed simp

lemma digits_value_zeros: "digits_value (replicate k (CHR ''0'') @ s) = digits_value s"
proof -
  have "digit_value (CHR ''0'') = 0" by (simp add: digit_value_def)
  then have "foldl (\<lambda>n c. 10 * n + digit_value c) 0 (replicate k (CHR ''0'')) = 0" by (induction k) simp_all
  then show ?thesis by (simp add: digits_value_def)
qed

lemma padded_inject [simp]: "padded w (int m) = padded w (int n) \<longleftrightarrow> m = n"
proof -
  have "digits_value (padded w (int k)) = int k" for k
    using str_nat_digits [of k] by (simp add: padded_def Let_def str_int_def digits_value_zeros)
  then show ?thesis by (metis of_nat_eq_iff)
qed

section \<open>Lemmas on a finished data set\<close>

text \<open>The loader reads what \<open>json.dumps\<close> wrote, and both sides use one hexadecimal digest.\<close>

definition json_exchanged :: "'g generator_env \<Rightarrow> data_env \<Rightarrow> bool" where
  "json_exchanged env de \<longleftrightarrow>
     (\<forall>v. float_free v \<longrightarrow>
        te_loads (de_text de) (dumps_compact (gn_float_text env) v) = Some (sort_json v)
        \<and> te_loads (de_text de) (dumps_indented (gn_float_text env) v @ [CHR 0x0A]) = Some (sort_json v))"

definition digests_shared :: "'g generator_env \<Rightarrow> data_env \<Rightarrow> bool" where
  "digests_shared env de \<longleftrightarrow>
     (\<forall>s. gn_sha256 env s = de_sha256 de s \<and> length (de_sha256 de s) = 64
        \<and> list_all hex_digit (de_sha256 de s))"

definition rows_float_free :: "json_object list \<Rightarrow> bool" where
  "rows_float_free rows \<longleftrightarrow> list_all (\<lambda>r. float_free (JObj r)) rows"

lemma traverse_of_map: "(\<And>x. x \<in> set xs \<Longrightarrow> f x = Inr (h x)) \<Longrightarrow> traverse f xs = Inr (map h xs)"
  by (induction xs) auto

lemma traverse_map_arg: "traverse f (map g xs) = traverse (\<lambda>x. f (g x)) xs"
  by (induction xs) simp_all

lemma written_lines_load:
  assumes "json_exchanged env de" "rows_float_free rows"
    and "files path = Some (stable_lines (gn_float_text env) rows)"
  shows "json_lines de files path = Inr (map (\<lambda>r. sort_json (JObj r)) rows)"
proof -
  let ?dump = "\<lambda>r. dumps_compact (gn_float_text env) (JObj r)"
  have free: "r \<in> set rows \<Longrightarrow> float_free (JObj r)" for r
    using assms(2) by (simp add: rows_float_free_def list_all_iff)
  have "r \<in> set rows \<Longrightarrow> list_all (\<lambda>c. \<not> line_break c) (?dump r)" for r
    using free compact_one_line by blast
  then have "list_all (\<lambda>d. list_all (\<lambda>c. \<not> line_break c) d) (map ?dump rows)"
    by (simp only: list_all_iff) auto
  from splitlines_written [OF this]
  have lines: "splitlines (stable_lines (gn_float_text env) rows) = map ?dump rows"
    by (simp add: stable_lines_def comp_def)
  have loads: "r \<in> set rows \<Longrightarrow> te_loads (de_text de) (?dump r) = Some (sort_json (JObj r))" for r
    using assms(1) free unfolding json_exchanged_def by blast
  then have "traverse (\<lambda>line. case te_loads (de_text de) line of
        None \<Rightarrow> Inl (Integrity ''cannot load dataset file'') | Some v \<Rightarrow> Inr v) (map ?dump rows)
      = Inr (map (\<lambda>d. the (te_loads (de_text de) d)) (map ?dump rows))"
    by (intro traverse_of_map) auto
  also have "map (\<lambda>d. the (te_loads (de_text de) d)) (map ?dump rows) = map (\<lambda>r. sort_json (JObj r)) rows"
    using loads by simp
  finally show ?thesis unfolding json_lines_def assms(3) by (simp add: lines)
qed

lemma hex_digit_printable: "hex_digit c \<Longrightarrow> printable c \<and> c \<noteq> CHR '' ''"
  by (auto simp: hex_digit_def printable_def less_eq_char_def Let_def)

definition digest_line :: "data_env \<Rightarrow> file_store \<Rightarrow> string \<Rightarrow> string" where
  "digest_line de files path = de_sha256 de (the (files path)) @ ''  '' @ snd (split_name path)"

definition listed_file :: "string \<Rightarrow> string \<Rightarrow> file_store \<Rightarrow> string \<Rightarrow> bool" where
  "listed_file folder name files path \<longleftrightarrow>
     (\<exists>ext. path = run_path folder (name @ ext) \<and> simple_name (name @ ext)) \<and> files path \<noteq> None"

text \<open>Two stores that hold the same files of one data set.\<close>

definition same_family :: "string \<Rightarrow> string \<Rightarrow> file_store \<Rightarrow> file_store \<Rightarrow> bool" where
  "same_family folder name files files' \<longleftrightarrow>
     (\<forall>ext. files (run_path folder (name @ ext)) = files' (run_path folder (name @ ext)))"

lemma listed_name:
  "listed_file folder name files path \<Longrightarrow>
   simple_name (snd (split_name path)) \<and> run_path folder (snd (split_name path)) = path"
proof -
  assume "listed_file folder name files path"
  then obtain n where n: "path = run_path folder n" "simple_name n" by (auto simp: listed_file_def)
  then have "list_all (\<lambda>c. c \<noteq> CHR ''/'') n" by (simp add: simple_name_def list_all_iff)
  from split_name_run_path [OF this, of folder] n show ?thesis by simp
qed

lemma digest_line_one_line:
  "digests_shared env de \<Longrightarrow> listed_file folder name files path \<Longrightarrow>
   list_all (\<lambda>c. \<not> line_break c) (digest_line de files path)"
proof -
  assume a: "digests_shared env de" "listed_file folder name files path"
  have "list_all printable (de_sha256 de (the (files path)))"
    using a(1) hex_digit_printable by (simp add: digests_shared_def list_all_iff)
  moreover have "list_all printable (snd (split_name path))"
    using listed_name [OF a(2)] by (simp add: simple_name_def list_all_iff)
  moreover have "list_all printable ''  ''" by (simp add: printable_def)
  ultimately have "list_all printable (digest_line de files path)" by (simp add: digest_line_def)
  then show ?thesis using printable_unbroken by (simp add: list_all_iff)
qed

lemma check_digest_line:
  assumes "digests_shared env de" "listed_file folder name files path"
    and "list_all (\<lambda>c. c \<noteq> CHR ''/'') listing"
  shows "check_line de files (run_path folder listing) (digest_line de files path)
    = Inr (digest_line de files path @ [CHR 0x0A])"
proof -
  let ?d = "de_sha256 de (the (files path))" and ?n = "snd (split_name path)"
  have hex: "list_all (\<lambda>c. c \<noteq> CHR '' '') ?d" "length ?d = 64"
    using assms(1) hex_digit_printable by (auto simp: digests_shared_def list_all_iff)
  have "parent_join (run_path folder listing) ?n = path" "?n \<noteq> []"
    using listed_name [OF assms(2)] parent_join_run_path [OF assms(3)] by (auto simp: simple_name_def)
  moreover obtain content where "files path = Some content" using assms(2) by (auto simp: listed_file_def)
  ultimately show ?thesis
    using partition_gap_at_gap [OF hex(1), of ?n] hex(2) by (simp add: check_line_def digest_line_def)
qed

text \<open>What \<open>_finish\<close> leaves, and that its checksum file passes in every store with these files.\<close>

lemma listing_verifies:
  assumes "digests_shared env de" "list_all (\<lambda>c. c \<noteq> CHR ''/'') name"
    and listed: "\<And>p. p \<in> set ps \<Longrightarrow> listed_file folder name files p"
    and "files (run_path folder (name @ ''.sha256''))
      = Some (concat (map (\<lambda>p. digest_line de files p @ [CHR 0x0A]) ps))"
  shows "\<exists>c. verify_checksum de files (run_path folder (name @ ''.sha256'')) = Inr c"
proof -
  have "list_all (\<lambda>d. list_all (\<lambda>c. \<not> line_break c) d) (map (digest_line de files) ps)"
    using digest_line_one_line [OF assms(1) listed] by (auto simp: list_all_iff)
  from splitlines_written [OF this]
  have lines: "splitlines (concat (map (\<lambda>p. digest_line de files p @ [CHR 0x0A]) ps)) = map (digest_line de files) ps"
    by (simp add: comp_def)
  have "list_all (\<lambda>c. c \<noteq> CHR ''/'') (name @ ''.sha256'')" using assms(2) by (auto simp: list_all_iff)
  then have "\<exists>ys. traverse (check_line de files (run_path folder (name @ ''.sha256'')))
      (map (digest_line de files) ps) = Inr ys"
    using check_digest_line [OF assms(1) listed] by (auto intro!: traverse_Inr_iff [THEN iffD2])
  then show ?thesis by (auto simp: verify_checksum_def assms(4) lines)
qed

lemma finish_dataset_checks:
  assumes "digests_shared env de" "list_all (\<lambda>c. c \<noteq> CHR ''/'' \<and> c \<noteq> CHR ''.'') name" "simple_name name"
    and paths: "list_all (listed_file folder name files) paths" "run_path folder (name @ ''.sha256'') \<notin> set paths"
  shows "\<exists>listing files'.
    finish_dataset env (run_path folder name) metadata paths files = Inr files'
    \<and> files' = files(run_path folder (name @ ''.metadata.json'') \<mapsto>
               dumps_indented (gn_float_text env) (JObj metadata) @ [CHR 0x0A],
             run_path folder (name @ ''.sha256'') \<mapsto> listing)
    \<and> (\<forall>F. same_family folder name F files'
         \<longrightarrow> (\<exists>c. verify_checksum de F (run_path folder (name @ ''.sha256'')) = Inr c))"
proof -
  let ?meta = "run_path folder (name @ ''.metadata.json'')" and ?cp = "run_path folder (name @ ''.sha256'')"
  define files1 where "files1 = files(?meta \<mapsto> dumps_indented (gn_float_text env) (JObj metadata) @ [CHR 0x0A])"
  define ps where "ps = sort_key (\<lambda>path. snd (split_name path)) (paths @ [?meta])"
  define listing where "listing = concat (map (\<lambda>p. digest_line de files1 p @ [CHR 0x0A]) ps)"
  define files2 where "files2 = files1(?cp \<mapsto> listing)"
  have suffix: "with_suffix (run_path folder name) ext = run_path folder (name @ ext)" for ext
    using with_suffix_run_path [OF assms(2)] .
  have "simple_name (name @ ''.metadata.json'')"
    using assms(3) by (simp add: simple_name_def printable_def)
  then have listed: "p \<in> set ps \<Longrightarrow> listed_file folder name files1 p" for p
    using paths(1) by (auto simp: ps_def files1_def listed_file_def list_all_iff)
  have cp: "?cp \<notin> set ps" using paths(2) by (auto simp: ps_def)
  have "checksum_line env files1 p = Inr (digest_line de files1 p @ [CHR 0x0A])" if "p \<in> set ps" for p
    using listed [OF that] assms(1)
    by (auto simp: checksum_line_def digest_line_def listed_file_def digests_shared_def)
  then have "traverse (checksum_line env files1) ps = Inr (map (\<lambda>p. digest_line de files1 p @ [CHR 0x0A]) ps)"
    by (rule traverse_of_map)
  then have finish: "finish_dataset env (run_path folder name) metadata paths files = Inr files2"
    by (simp add: finish_dataset_def suffix Let_def files1_def [symmetric] ps_def [symmetric] files2_def listing_def)
  have "\<exists>c. verify_checksum de F ?cp = Inr c" if family: "same_family folder name F files2" for F
  proof -
    have same: "F p = files1 p" if "p \<in> set ps" for p
      using family listed [OF that] cp that by (auto simp: same_family_def listed_file_def files2_def)
    then have here: "p \<in> set ps \<Longrightarrow> listed_file folder name F p" for p
      using listed [of p] by (simp add: listed_file_def)
    have "F ?cp = Some listing" using family by (simp add: same_family_def files2_def)
    also have "listing = concat (map (\<lambda>p. digest_line de F p @ [CHR 0x0A]) ps)"
      unfolding listing_def using same by (intro arg_cong [where f = concat] map_cong) (simp_all add: digest_line_def)
    finally show ?thesis
      using listing_verifies [OF assms(1) _ here, of ps] assms(2) by (simp add: list_all_iff)
  qed
  then show ?thesis using finish unfolding files2_def files1_def by blast
qed

section \<open>Lemmas on loading what was written\<close>

lemma load_dataset_steps:
  assumes "list_all (\<lambda>c. c \<noteq> CHR ''/'' \<and> c \<noteq> CHR ''.'') name" "name \<noteq> []"
    and "verify_checksum de files (run_path folder (name @ ''.sha256'')) = Inr c"
    and "files (run_path folder (name @ ''.metadata.json'')) = Some content"
    and "te_loads (de_text de) content = Some metadata"
    and "json_lines de files (run_path folder (name @ ''.prompts.jsonl'')) = Inr prompts"
    and "load_targets de files (run_path folder (name @ ''.targets.jsonl'')) = Inr targets"
    and "traverse (item_of_row de targets) prompts = Inr items"
  shows "load_dataset de files folder name = bundle_of de c metadata items"
proof -
  have "\<not> starts_with name ''/''"
    using assms(1,2) by (cases name) (auto simp: starts_with_def)
  then have base: "(if starts_with name ''/'' then name else folder @ ''/'' @ name) = run_path folder name"
    by (simp add: run_path_def)
  show ?thesis
    unfolding load_dataset_def base Let_def with_suffix_run_path [OF assms(1)]
    using assms(3-) by simp
qed

definition prompt_row :: "string \<Rightarrow> string \<Rightarrow> string \<Rightarrow> json_object" where
  "prompt_row i d p = [(''id'', JStr i), (''difficulty'', JStr d), (''prompt'', JStr p)]"

definition answer_row :: "string \<Rightarrow> json \<Rightarrow> json_object" where
  "answer_row i t = [(''id'', JStr i), (''target'', t)]"

lemma sorted_object:
  assumes "distinct (map fst kvs)"
  obtains skvs where "sort_json (JObj kvs) = JObj skvs"
    and "\<And>key. map_of skvs key = map_option sort_json (map_of kvs key)"
proof -
  let ?kvs = "map (\<lambda>(k, v). (k, sort_json v)) kvs"
  have "map fst ?kvs = map fst kvs" by (induction kvs) auto
  then have "distinct (map fst ?kvs)" using assms by (simp only:)
  then have "map_of (sort_key fst ?kvs) = map_of ?kvs" by (rule map_of_sorted)
  then show ?thesis using that [of "sort_key fst ?kvs"] by (simp add: map_of_map)
qed

lemma item_of_prompt_row:
  "item_of_row de targets (sort_json (JObj (prompt_row i d p))) =
   Inr \<lparr>di_item_id = i, di_difficulty = d, di_prompt = p, di_target = target_of (dict_get (rev targets) i),
        di_input_token_target = None, di_output_token_target = None\<rparr>"
proof -
  have "distinct (map fst (prompt_row i d p))" by (simp add: prompt_row_def)
  then obtain skvs where "sort_json (JObj (prompt_row i d p)) = JObj skvs"
    "\<And>key. map_of skvs key = map_option sort_json (map_of (prompt_row i d p) key)"
    using sorted_object by metis
  then show ?thesis by (simp add: item_of_row_def token_target_def prompt_row_def del: sort_json.simps(2))
qed

lemma target_of_answer_row:
  "target_row de (sort_json (JObj (answer_row i t))) = Inr (i, sort_json t)"
proof -
  have "distinct (map fst (answer_row i t))" by (simp add: answer_row_def)
  then obtain skvs where "sort_json (JObj (answer_row i t)) = JObj skvs"
    "\<And>key. map_of skvs key = map_option sort_json (map_of (answer_row i t) key)"
    using sorted_object by metis
  then show ?thesis by (simp add: target_row_def answer_row_def dict_get_def del: sort_json.simps(2))
qed

lemma dict_get_of_order:
  assumes "distinct order" "inj idf" "i \<in> set order"
  shows "dict_get (rev (map (\<lambda>i. (idf i, t i)) order)) (idf i) = t i"
proof -
  let ?ts = "map (\<lambda>i. (idf i, t i)) order"
  have "distinct (map fst ?ts)" using assms(1,2) by (simp add: comp_def distinct_map inj_def inj_on_def)
  then have "distinct (map fst (rev ?ts))" by (simp add: rev_map [symmetric])
  then have "map_of (rev ?ts) (idf i) = Some (t i)" using assms(3) by (intro map_of_is_SomeI) auto
  then show ?thesis by (simp add: dict_get_def)
qed

text \<open>The metadata of a data set: the four entries the loader reads, and the count.\<close>

definition metadata_of :: "json_object \<Rightarrow> string \<Rightarrow> string \<Rightarrow> int \<Rightarrow> nat \<Rightarrow> bool" where
  "metadata_of m name workload seed n \<longleftrightarrow>
     distinct (map fst m) \<and> float_free (JObj m)
     \<and> map_of m ''name'' = Some (JStr name) \<and> map_of m ''version'' = Some (JStr dataset_version)
     \<and> map_of m ''workload'' = Some (JStr workload) \<and> map_of m ''seed'' = Some (JInt seed)
     \<and> map_of m ''count'' = Some (JInt (int n))"

lemma bundle_of_metadata:
  assumes "metadata_of m name workload seed (length items)" "distinct (map di_item_id items)"
  shows "bundle_of de c (sort_json (JObj m)) items =
    Inr \<lparr>db_name = name, db_version = dataset_version, db_workload = workload, db_seed = seed,
         db_checksum = c, db_items = items\<rparr>"
proof -
  obtain sm where sm: "sort_json (JObj m) = JObj sm"
    "\<And>key. map_of sm key = map_option sort_json (map_of m key)"
    using assms(1) sorted_object [of m] by (auto simp: metadata_of_def simp del: sort_json.simps(2))
  have "card (set (map di_item_id items)) = length items"
    using distinct_card [OF assms(2)] by simp
  then show ?thesis
    using assms(1) by (simp add: sm bundle_of_def metadata_of_def guard_that_def del: sort_json.simps(2))
qed

definition written_item :: "(nat \<Rightarrow> string) \<Rightarrow> (nat \<Rightarrow> string) \<Rightarrow> (nat \<Rightarrow> string) \<Rightarrow> (nat \<Rightarrow> json) \<Rightarrow> nat \<Rightarrow> dataset_item" where
  "written_item idf df pf tf i =
     \<lparr>di_item_id = idf i, di_difficulty = df i, di_prompt = pf i, di_target = target_of (sort_json (tf i)),
      di_input_token_target = None, di_output_token_target = None\<rparr>"

lemma written_dataset_loads:
  assumes "json_exchanged env de" "list_all (\<lambda>c. c \<noteq> CHR ''/'' \<and> c \<noteq> CHR ''.'') name" "name \<noteq> []"
    and "verify_checksum de files (run_path folder (name @ ''.sha256'')) = Inr c"
    and "files (run_path folder (name @ ''.metadata.json''))
      = Some (dumps_indented (gn_float_text env) (JObj m) @ [CHR 0x0A])"
    and "files (run_path folder (name @ ''.prompts.jsonl''))
      = Some (stable_lines (gn_float_text env) (map (\<lambda>i. prompt_row (idf i) (df i) (pf i)) order))"
    and "files (run_path folder (name @ ''.targets.jsonl''))
      = Some (stable_lines (gn_float_text env) (map (\<lambda>i. answer_row (idf i) (tf i)) order))"
    and "metadata_of m name workload seed (length order)"
    and "distinct order" "inj idf" "\<And>i. float_free (tf i)"
  shows "load_dataset de files folder name =
    Inr \<lparr>db_name = name, db_version = dataset_version, db_workload = workload, db_seed = seed,
         db_checksum = c, db_items = map (written_item idf df pf tf) order\<rparr>"
proof -
  let ?prompts = "map (\<lambda>i. prompt_row (idf i) (df i) (pf i)) order"
  let ?targets = "map (\<lambda>i. answer_row (idf i) (tf i)) order"
  let ?ts = "map (\<lambda>i. (idf i, sort_json (tf i))) order"
  have free: "rows_float_free ?prompts" "rows_float_free ?targets"
    using assms(11) by (simp_all add: rows_float_free_def list_all_iff prompt_row_def answer_row_def)
  have meta: "te_loads (de_text de) (dumps_indented (gn_float_text env) (JObj m) @ [CHR 0x0A])
      = Some (sort_json (JObj m))"
    using assms(1,8) unfolding json_exchanged_def metadata_of_def by blast
  note ps = written_lines_load [where files = files and path = "run_path folder (name @ ''.prompts.jsonl'')", OF assms(1) free(1) assms(6)]
  have "traverse (\<lambda>i. target_row de (sort_json (JObj (answer_row (idf i) (tf i))))) order = Inr ?ts"
    by (rule traverse_of_map) (rule target_of_answer_row)
  then have "traverse (target_row de) (map (\<lambda>r. sort_json (JObj r)) ?targets) = Inr ?ts"
    by (simp add: traverse_map_arg comp_def del: sort_json.simps(2))
  then have ts: "load_targets de files (run_path folder (name @ ''.targets.jsonl'')) = Inr ?ts"
    using written_lines_load [where files = files and path = "run_path folder (name @ ''.targets.jsonl'')",
        OF assms(1) free(2) assms(7)] assms(7) by (simp add: load_targets_def)
  have "item_of_row de ?ts (sort_json (JObj (prompt_row (idf i) (df i) (pf i)))) = Inr (written_item idf df pf tf i)"
    if "i \<in> set order" for i
    using dict_get_of_order [OF assms(9,10) that] by (simp add: item_of_prompt_row written_item_def del: sort_json.simps(2))
  then have "traverse (\<lambda>i. item_of_row de ?ts (sort_json (JObj (prompt_row (idf i) (df i) (pf i))))) order
      = Inr (map (written_item idf df pf tf) order)" by (rule traverse_of_map)
  then have items: "traverse (item_of_row de ?ts) (map (\<lambda>r. sort_json (JObj r)) ?prompts)
      = Inr (map (written_item idf df pf tf) order)" by (simp add: traverse_map_arg comp_def del: sort_json.simps(2))
  have "distinct (map di_item_id (map (written_item idf df pf tf) order))"
    using assms(9,10) by (simp add: comp_def written_item_def distinct_map inj_def inj_on_def)
  then show ?thesis
    using load_dataset_steps [OF assms(2-5) meta ps ts items] bundle_of_metadata assms(8) by simp
qed

section \<open>Lemmas on the three families\<close>

text \<open>
  A family is written: every store that agrees with the result on the files of the family
  loads the data set \<open>bundle\<close>, whatever its checksum, and no other file has changed.
\<close>

definition family_written ::
    "data_env \<Rightarrow> string \<Rightarrow> string \<Rightarrow> file_store \<Rightarrow> file_store \<Rightarrow> (string \<Rightarrow> dataset_bundle) \<Rightarrow> bool" where
  "family_written de folder name files files' bundle \<longleftrightarrow>
     (\<forall>F. same_family folder name F files' \<longrightarrow> (\<exists>c. load_dataset de F folder name = Inr (bundle c)))
     \<and> (\<forall>path. (\<forall>ext. path \<noteq> run_path folder (name @ ext)) \<longrightarrow> files' path = files path)"

lemma thread_nth:
  "(\<And>x g. P x (fst (f x g))) \<Longrightarrow> i < length xs \<Longrightarrow> P (xs ! i) (fst (thread f xs g) ! i)"
proof (induction xs arbitrary: i g)
  case (Cons x xs)
  then show ?case by (cases i) (simp_all add: split_beta Let_def)
qed simp

lemma row_id_rows [simp]: "row_id (prompt_row i d p) = i" "row_id (answer_row i t) = i"
  by (simp_all add: row_id_def prompt_row_def answer_row_def)

lemma shuffled_rows_shape:
  assumes "draws_below rg" "inj idf"
    and rows: "\<And>i. i < length rows \<Longrightarrow> rows ! i = (prompt_row (idf i) (df i) (pf i), answer_row (idf i) (tf i))"
  shows "\<exists>order. mset order = mset [0..<length rows]
    \<and> shuffled_rows rg rows g = Inr (map (\<lambda>i. prompt_row (idf i) (df i) (pf i)) order,
        map (\<lambda>i. answer_row (idf i) (tf i)) order)"
proof -
  let ?n = "length rows"
  define order where "order = fst (shuffle rg [0..<?n] g)"
  have m: "mset order = mset [0..<?n]" unfolding order_def by (rule shuffle_mset [OF assms(1)])
  then have range: "i \<in> set order \<longleftrightarrow> i < ?n" for i
    using mset_eq_setD [OF m] by simp
  define ts where "ts = map (\<lambda>row. (row_id row, row)) (map snd rows)"
  have "map snd rows = map (\<lambda>i. answer_row (idf i) (tf i)) [0..<?n]"
    by (rule nth_equalityI) (simp_all add: rows)
  then have ts: "ts = map (\<lambda>i. (idf i, answer_row (idf i) (tf i))) [0..<?n]"
    by (simp add: ts_def comp_def)
  have "distinct (map fst (rev ts))"
    using assms(2) by (simp add: ts rev_map [symmetric] comp_def distinct_map inj_def inj_on_def)
  then have found: "map_of (rev ts) (idf i) = Some (answer_row (idf i) (tf i))" if "i \<in> set order" for i
    using that range by (intro map_of_is_SomeI) (auto simp: ts)
  have prompts: "map (\<lambda>i. map fst rows ! i) order = map (\<lambda>i. prompt_row (idf i) (df i) (pf i)) order"
    using range rows by simp
  have "traverse (\<lambda>row. case map_of (rev ts) (row_id row) of None \<Rightarrow> Inl (GenUncaught ''KeyError'')
          | Some target \<Rightarrow> Inr target) (map (\<lambda>i. prompt_row (idf i) (df i) (pf i)) order)
      = Inr (map (\<lambda>i. answer_row (idf i) (tf i)) order)"
    unfolding traverse_map_arg using found by (intro traverse_of_map) simp
  then have "shuffled_rows rg rows g = Inr (map (\<lambda>i. prompt_row (idf i) (df i) (pf i)) order,
        map (\<lambda>i. answer_row (idf i) (tf i)) order)"
    by (simp only: shuffled_rows_def Let_def order_def [symmetric] ts_def [symmetric] prompts bind_res.simps)
  with m show ?thesis by blast
qed

definition plain_name :: "string \<Rightarrow> bool" where
  "plain_name name \<longleftrightarrow> simple_name name \<and> list_all (\<lambda>c. c \<noteq> CHR ''.'') name"

lemma plain_name_parts:
  "plain_name name \<Longrightarrow> simple_name name \<and> name \<noteq> [] \<and> list_all (\<lambda>c. c \<noteq> CHR ''/'' \<and> c \<noteq> CHR ''.'') name"
  by (auto simp: plain_name_def simple_name_def list_all_iff)

text \<open>The items of a family, in the shuffled order, with the prompts that were drawn.\<close>

definition family_bundle ::
    "string \<Rightarrow> string \<Rightarrow> int \<Rightarrow> (nat \<Rightarrow> dataset_item) \<Rightarrow> nat list \<Rightarrow> string \<Rightarrow> dataset_bundle" where
  "family_bundle name workload seed item order c =
     \<lparr>db_name = name, db_version = dataset_version, db_workload = workload, db_seed = seed,
      db_checksum = c, db_items = map item order\<rparr>"

lemma target_family_written:
  assumes env: "json_exchanged env de" "digests_shared env de" and name: "plain_name name"
    and rows: "distinct order" "inj idf" "\<And>i. float_free (tf i)"
    and meta: "metadata_of m name workload seed (length order)"
    and start: "start (run_path folder (name @ ''.prompts.jsonl''))
        = Some (stable_lines (gn_float_text env) (map (\<lambda>i. prompt_row (idf i) (df i) (pf i)) order))"
      "start (run_path folder (name @ ''.targets.jsonl''))
        = Some (stable_lines (gn_float_text env) (map (\<lambda>i. answer_row (idf i) (tf i)) order))"
      "\<And>path. (\<forall>ext. path \<noteq> run_path folder (name @ ext)) \<Longrightarrow> start path = files path"
    and paths: "list_all (listed_file folder name start) paths" "run_path folder (name @ ''.sha256'') \<notin> set paths"
  shows "\<exists>files'. finish_dataset env (run_path folder name) m paths start = Inr files'
    \<and> family_written de folder name files files'
        (family_bundle name workload seed (written_item idf df pf tf) order)"
proof -
  note n = plain_name_parts [OF name]
  obtain listing files' where fin: "finish_dataset env (run_path folder name) m paths start = Inr files'"
    and files': "files' = start(run_path folder (name @ ''.metadata.json'') \<mapsto>
               dumps_indented (gn_float_text env) (JObj m) @ [CHR 0x0A],
             run_path folder (name @ ''.sha256'') \<mapsto> listing)"
    and sums_ok: "\<And>F. same_family folder name F files' \<Longrightarrow>
        \<exists>c. verify_checksum de F (run_path folder (name @ ''.sha256'')) = Inr c"
    using finish_dataset_checks [OF env(2) _ _ paths, of m] n by blast
  have "\<exists>c. load_dataset de F folder name
      = Inr (family_bundle name workload seed (written_item idf df pf tf) order c)"
    if family: "same_family folder name F files'" for F
  proof -
    have F: "F (run_path folder (name @ ''.metadata.json'')) = Some (dumps_indented (gn_float_text env) (JObj m) @ [CHR 0x0A])"
      "F (run_path folder (name @ ''.prompts.jsonl''))
        = Some (stable_lines (gn_float_text env) (map (\<lambda>i. prompt_row (idf i) (df i) (pf i)) order))"
      "F (run_path folder (name @ ''.targets.jsonl''))
        = Some (stable_lines (gn_float_text env) (map (\<lambda>i. answer_row (idf i) (tf i)) order))"
      using family start by (simp_all add: same_family_def files')
    obtain c where c: "verify_checksum de F (run_path folder (name @ ''.sha256'')) = Inr c"
      using sums_ok [OF family] by blast
    from written_dataset_loads [where df = df and pf = pf, OF env(1) _ _ c F meta rows(1,2) rows(3)] n
    show ?thesis unfolding family_bundle_def by blast
  qed
  moreover have "files' path = files path" if "\<forall>ext. path \<noteq> run_path folder (name @ ext)" for path
    using start(3) [OF that] that by (simp add: files')
  ultimately show ?thesis using fin unfolding family_written_def by blast
qed

text \<open>The prompt of a drawn row.\<close>

definition row_prompt :: "json_object \<Rightarrow> string" where
  "row_prompt row = (case map_of row ''prompt'' of Some (JStr s) \<Rightarrow> s | _ \<Rightarrow> [])"

lemma row_prompt_row [simp]: "row_prompt (prompt_row i d p) = p"
  by (simp add: row_prompt_def prompt_row_def)

lemma classification_row_shape:
  "fst (classification_row rg seed i g) =
    (prompt_row (classification_id i) (classification_difficulty i)
       (row_prompt (fst (fst (classification_row rg seed i g)))),
     answer_row (classification_id i) (JStr (category_at i)))"
  by (simp add: classification_row_def split_beta Let_def prompt_row_def answer_row_def row_prompt_def)

lemma extraction_row_shape:
  "fst (extraction_row rg seed i g) =
    (prompt_row (extraction_id i) (extraction_difficulty i)
       (row_prompt (fst (fst (extraction_row rg seed i g)))),
     answer_row (extraction_id i) (JObj (extraction_target seed i)))"
  by (simp add: extraction_row_def split_beta Let_def prompt_row_def answer_row_def row_prompt_def)

lemma id_inject: "inj classification_id" "inj extraction_id" "inj load_id"
  by (simp_all add: inj_def classification_id_def extraction_id_def load_id_def)

lemma thread_rows:
  assumes "\<And>i g. fst (f i g) = (prompt_row (idf i) (df i) (row_prompt (fst (fst (f i g)))), answer_row (idf i) (tf i))"
    and "i < n"
  shows "fst (thread f [0..<n] g) ! i =
    (prompt_row (idf i) (df i) (row_prompt (fst (fst (thread f [0..<n] g) ! i))), answer_row (idf i) (tf i))"
  using thread_nth [of "\<lambda>i r. r = (prompt_row (idf i) (df i) (row_prompt (fst r)), answer_row (idf i) (tf i))" f i "[0..<n]" g]
    assms by simp

lemma names_plain:
  "plain_name ''classification-v1''" "plain_name ''extraction-v1''" "plain_name ''generation-v1''"
  by (simp_all add: plain_name_def simple_name_def printable_def)

lemma listed_simple:
  "list_all printable ext \<Longrightarrow> list_all (\<lambda>c. c \<noteq> CHR ''/'') ext \<Longrightarrow> plain_name name \<Longrightarrow>
   files (run_path folder (name @ ext)) \<noteq> None \<Longrightarrow> listed_file folder name files (run_path folder (name @ ext))"
  unfolding listed_file_def by (auto simp: plain_name_def simple_name_def list_all_iff)

lemma suffix_run_path: "plain_name name \<Longrightarrow> with_suffix (run_path folder name) ext = run_path folder (name @ ext)"
  using plain_name_parts with_suffix_run_path by blast

text \<open>Once prompts and targets are on their paths, finishing leaves a written family.\<close>

definition finishes ::
    "'g generator_env \<Rightarrow> data_env \<Rightarrow> string \<Rightarrow> string \<Rightarrow> json_object \<Rightarrow> file_store
      \<Rightarrow> json_object list \<Rightarrow> json_object list \<Rightarrow> (string \<Rightarrow> dataset_bundle) \<Rightarrow> bool" where
  "finishes env de folder name m files prompts targets bundle \<longleftrightarrow>
     (\<forall>start paths.
        start (run_path folder (name @ ''.prompts.jsonl'')) = Some (stable_lines (gn_float_text env) prompts)
        \<and> start (run_path folder (name @ ''.targets.jsonl'')) = Some (stable_lines (gn_float_text env) targets)
        \<and> (\<forall>path. (\<forall>ext. path \<noteq> run_path folder (name @ ext)) \<longrightarrow> start path = files path)
        \<and> list_all (listed_file folder name start) paths \<and> run_path folder (name @ ''.sha256'') \<notin> set paths
        \<longrightarrow> (\<exists>files'. finish_dataset env (run_path folder name) m paths start = Inr files'
              \<and> family_written de folder name files files' bundle))"

lemma finishesD:
  assumes "finishes env de folder name m files prompts targets bundle"
    and "start (run_path folder (name @ ''.prompts.jsonl'')) = Some (stable_lines (gn_float_text env) prompts)"
    and "start (run_path folder (name @ ''.targets.jsonl'')) = Some (stable_lines (gn_float_text env) targets)"
    and "\<And>path. (\<forall>ext. path \<noteq> run_path folder (name @ ext)) \<Longrightarrow> start path = files path"
    and "list_all (listed_file folder name start) paths" "run_path folder (name @ ''.sha256'') \<notin> set paths"
  obtains files' where "finish_dataset env (run_path folder name) m paths start = Inr files'"
    and "family_written de folder name files files' bundle"
  using assms unfolding finishes_def by blast

text \<open>
  A family with targets, from the draws on: the rows are shuffled without a \<open>KeyError\<close>, and
  whatever else is written beside them, finishing leaves a family that loads.
\<close>

lemma drawn_family:
  assumes env: "json_exchanged env de" "digests_shared env de" "draws_below (gn_draws env)"
    and name: "plain_name name"
    and shape: "\<And>i g. fst (f i g) = (prompt_row (idf i) (df i) (row_prompt (fst (fst (f i g)))), answer_row (idf i) (tf i))"
    and idf: "inj idf" and free: "\<And>i. float_free (tf i)"
    and meta: "metadata_of m name workload seed n"
  shows "\<exists>prompts targets order pf.
    shuffled_rows (gn_draws env) (fst (thread f [0..<n] g0)) g = Inr (prompts, targets)
    \<and> mset order = mset [0..<n]
    \<and> finishes env de folder name m files prompts targets
        (family_bundle name workload seed (written_item idf df pf tf) order)"
proof -
  define rows where "rows = fst (thread f [0..<n] g0)"
  define pf where "pf = (\<lambda>i. row_prompt (fst (rows ! i)))"
  have len: "length rows = n" by (simp add: rows_def thread_length)
  have rows: "rows ! i = (prompt_row (idf i) (df i) (pf i), answer_row (idf i) (tf i))" if "i < length rows" for i
    using thread_rows [OF shape] that len unfolding pf_def rows_def by simp
  obtain order where order: "mset order = mset [0..<length rows]"
    and shuffled: "shuffled_rows (gn_draws env) rows g = Inr (map (\<lambda>i. prompt_row (idf i) (df i) (pf i)) order,
        map (\<lambda>i. answer_row (idf i) (tf i)) order)"
    using shuffled_rows_shape [OF env(3) idf rows] by blast
  have perm: "distinct order" "length order = n"
    using mset_eq_imp_distinct_iff [OF order] mset_eq_length [OF order] len by simp_all
  have fin: "\<exists>files'. finish_dataset env (run_path folder name) m paths start = Inr files'
      \<and> family_written de folder name files files'
          (family_bundle name workload seed (written_item idf df pf tf) order)"
    if "start (run_path folder (name @ ''.prompts.jsonl''))
        = Some (stable_lines (gn_float_text env) (map (\<lambda>i. prompt_row (idf i) (df i) (pf i)) order))"
      "start (run_path folder (name @ ''.targets.jsonl''))
        = Some (stable_lines (gn_float_text env) (map (\<lambda>i. answer_row (idf i) (tf i)) order))"
      "\<forall>path. (\<forall>ext. path \<noteq> run_path folder (name @ ext)) \<longrightarrow> start path = files path"
      "list_all (listed_file folder name start) paths" "run_path folder (name @ ''.sha256'') \<notin> set paths"
    for start paths
    using target_family_written [where df = df and pf = pf and tf = tf and start = start and files = files and paths = paths,
        OF env(1,2) name perm(1) idf free _ that(1,2) _ that(4,5)] meta that(3) by (simp add: perm(2))
  have "finishes env de folder name m files (map (\<lambda>i. prompt_row (idf i) (df i) (pf i)) order)
      (map (\<lambda>i. answer_row (idf i) (tf i)) order) (family_bundle name workload seed (written_item idf df pf tf) order)"
    unfolding finishes_def by (intro allI impI fin) simp_all
  then show ?thesis using shuffled order unfolding rows_def [symmetric] len by blast
qed

lemma generate_classification_written:
  assumes env: "json_exchanged env de" "digests_shared env de" "draws_below (gn_draws env)"
    and n: "300 \<le> n_rows" "n_rows mod 8 = 0"
  shows "\<exists>files' order pf. generate_classification env folder seed n_rows files
      = Inr (files', run_path folder ''classification-v1'')
    \<and> mset order = mset [0..<nat n_rows]
    \<and> family_written de folder ''classification-v1'' files files'
        (family_bundle ''classification-v1'' ''classification'' seed
           (written_item classification_id classification_difficulty pf (\<lambda>i. JStr (category_at i))) order)"
proof -
  let ?name = "''classification-v1''" and ?rg = "gn_draws env"
  let ?thread = "thread (classification_row ?rg seed) [0..<nat n_rows] (dr_seeded ?rg seed)"
  define m where "m = [(''name'', JStr ?name), (''version'', JStr dataset_version),
      (''workload'', JStr ''classification''), (''seed'', JInt seed), (''count'', JInt n_rows),
      (''categories'', JArr (map JStr dataset_categories))]"
  have meta: "metadata_of m ?name ''classification'' seed (nat n_rows)"
    using n by (simp add: metadata_of_def m_def list_all_iff)
  obtain prompts targets order pf where
    shuffled: "shuffled_rows ?rg (fst ?thread) (snd ?thread) = Inr (prompts, targets)"
    and order: "mset order = mset [0..<nat n_rows]"
    and finish: "finishes env de folder ?name m files prompts targets (family_bundle ?name ''classification'' seed
        (written_item classification_id classification_difficulty pf (\<lambda>i. JStr (category_at i))) order)"
    using drawn_family [where tf = "\<lambda>i. JStr (category_at i)" and f = "classification_row ?rg seed",
        OF env names_plain(1) classification_row_shape id_inject(1) _ meta]
    by (simp only: float_free.simps) blast
  let ?start = "files(run_path folder (?name @ ''.prompts.jsonl'') \<mapsto> stable_lines (gn_float_text env) prompts,
      run_path folder (?name @ ''.targets.jsonl'') \<mapsto> stable_lines (gn_float_text env) targets)"
  let ?paths = "[run_path folder (?name @ ''.prompts.jsonl''), run_path folder (?name @ ''.targets.jsonl'')]"
  have listed: "list_all (listed_file folder ?name ?start) ?paths"
    by (simp add: listed_simple [OF _ _ names_plain(1)] printable_def del: append_Cons append_Nil)
  obtain files' where "finish_dataset env (run_path folder ?name) m ?paths ?start = Inr files'"
    and written: "family_written de folder ?name files files' (family_bundle ?name ''classification'' seed
        (written_item classification_id classification_difficulty pf (\<lambda>i. JStr (category_at i))) order)"
    by (rule finishesD [OF finish, of ?start ?paths]) (use listed in auto)
  then have "generate_classification env folder seed n_rows files = Inr (files', run_path folder ?name)"
    using n shuffled
    by (simp add: generate_classification_def suffix_run_path [OF names_plain(1)] m_def
        dataset_categories_def Let_def split_beta del: append_Cons append_Nil)
  with order written show ?thesis by blast
qed

lemma generate_extraction_written:
  assumes env: "json_exchanged env de" "digests_shared env de" "draws_below (gn_draws env)"
    and n: "300 \<le> n_rows"
  shows "\<exists>files' order pf. generate_extraction env folder seed n_rows files
      = Inr (files', run_path folder ''extraction-v1'')
    \<and> mset order = mset [0..<nat n_rows]
    \<and> family_written de folder ''extraction-v1'' files files'
        (family_bundle ''extraction-v1'' ''structured-extraction'' seed
           (written_item extraction_id extraction_difficulty pf (\<lambda>i. JObj (extraction_target seed i))) order)"
proof -
  let ?name = "''extraction-v1''" and ?rg = "gn_draws env"
  let ?thread = "thread (extraction_row ?rg seed) [0..<nat n_rows] (dr_seeded ?rg (seed + 1))"
  define m where "m = [(''name'', JStr ?name), (''version'', JStr dataset_version),
      (''workload'', JStr ''structured-extraction''), (''seed'', JInt seed), (''count'', JInt n_rows),
      (''target_schema'', JStr (?name @ ''.schema.json''))]"
  have meta: "metadata_of m ?name ''structured-extraction'' seed (nat n_rows)"
    using n by (simp add: metadata_of_def m_def list_all_iff)
  have free: "float_free (JObj (extraction_target seed i))" for i
    by (simp add: extraction_target_def split: option.split)
  obtain prompts targets order pf where
    shuffled: "shuffled_rows ?rg (fst ?thread) (snd ?thread) = Inr (prompts, targets)"
    and order: "mset order = mset [0..<nat n_rows]"
    and finish: "finishes env de folder ?name m files prompts targets (family_bundle ?name ''structured-extraction'' seed
        (written_item extraction_id extraction_difficulty pf (\<lambda>i. JObj (extraction_target seed i))) order)"
    using drawn_family [where tf = "\<lambda>i. JObj (extraction_target seed i)" and f = "extraction_row ?rg seed",
        OF env names_plain(2) extraction_row_shape id_inject(2) free meta] by blast
  let ?start = "files(run_path folder (?name @ ''.prompts.jsonl'') \<mapsto> stable_lines (gn_float_text env) prompts,
      run_path folder (?name @ ''.targets.jsonl'') \<mapsto> stable_lines (gn_float_text env) targets,
      run_path folder (?name @ ''.schema.json'') \<mapsto> dumps_indented (gn_float_text env) extraction_schema @ [CHR 0x0A])"
  let ?paths = "[run_path folder (?name @ ''.prompts.jsonl''), run_path folder (?name @ ''.targets.jsonl''),
      run_path folder (?name @ ''.schema.json'')]"
  have listed: "list_all (listed_file folder ?name ?start) ?paths"
    by (simp add: listed_simple [OF _ _ names_plain(2)] printable_def del: append_Cons append_Nil)
  have "split_name (run_path folder (?name @ ''.schema.json'')) = (folder @ ''/'', ?name @ ''.schema.json'')"
    by (rule split_name_run_path) simp
  moreover obtain files' where "finish_dataset env (run_path folder ?name) m ?paths ?start = Inr files'"
    and written: "family_written de folder ?name files files' (family_bundle ?name ''structured-extraction'' seed
        (written_item extraction_id extraction_difficulty pf (\<lambda>i. JObj (extraction_target seed i))) order)"
    by (rule finishesD [OF finish, of ?start ?paths]) (use listed in auto)
  ultimately have "generate_extraction env folder seed n_rows files = Inr (files', run_path folder ?name)"
    using n shuffled
    by (simp add: generate_extraction_def suffix_run_path [OF names_plain(2)] m_def Let_def split_beta
        del: append_Cons append_Nil)
  with order written show ?thesis by blast
qed

text \<open>The rows of the load data set carry token targets, and there are no answers.\<close>

definition ints_read :: "data_env \<Rightarrow> bool" where
  "ints_read de \<longleftrightarrow> (\<forall>i. de_int de (str_int i) = Some i)"

definition load_profile :: "nat \<Rightarrow> int \<times> int" where
  "load_profile i = load_profiles ! (i mod length load_profiles)"

definition load_prompt :: "nat \<Rightarrow> string \<Rightarrow> json_object" where
  "load_prompt i p =
     [(''id'', JStr (load_id i)), (''difficulty'', JStr (extraction_difficulty i)), (''prompt'', JStr p),
      (''input_token_target'', JInt (fst (load_profile i))),
      (''output_token_target'', JInt (snd (load_profile i)))]"

definition load_item :: "(nat \<Rightarrow> string) \<Rightarrow> nat \<Rightarrow> dataset_item" where
  "load_item pf i =
     \<lparr>di_item_id = load_id i, di_difficulty = extraction_difficulty i, di_prompt = pf i, di_target = None,
      di_input_token_target = Some (fst (load_profile i)),
      di_output_token_target = Some (snd (load_profile i))\<rparr>"

lemma load_row_shape:
  "fst (load_row rg i g) = load_prompt i (row_prompt (fst (load_row rg i g)))"
  by (simp add: load_row_def split_beta Let_def load_prompt_def row_prompt_def load_profile_def)

lemma item_of_load_row:
  assumes "ints_read de"
  shows "item_of_row de [] (sort_json (JObj (load_prompt i (pf i)))) = Inr (load_item pf i)"
proof -
  have "distinct (map fst (load_prompt i (pf i)))" by (simp add: load_prompt_def)
  then obtain skvs where "sort_json (JObj (load_prompt i (pf i))) = JObj skvs"
    "\<And>key. map_of skvs key = map_option sort_json (map_of (load_prompt i (pf i)) key)"
    using sorted_object by metis
  then show ?thesis
    using assms
    by (simp add: item_of_row_def token_target_def load_prompt_def load_item_def ints_read_def
        del: sort_json.simps(2))
qed

lemma generate_load_written:
  assumes env: "json_exchanged env de" "digests_shared env de" "ints_read de" and n: "1 \<le> n_rows"
    and absent: "files (run_path folder (''generation-v1'' @ ''.targets.jsonl'')) = None"
  shows "\<exists>files' pf. generate_load env folder seed n_rows files
      = Inr (files', run_path folder ''generation-v1'')
    \<and> family_written de folder ''generation-v1'' files files'
        (family_bundle ''generation-v1'' ''generation'' seed (load_item pf) [0..<nat n_rows])"
proof -
  let ?name = "''generation-v1''" and ?rg = "gn_draws env" and ?order = "[0..<nat n_rows]"
  define rows where "rows = fst (thread (load_row ?rg) ?order (dr_seeded ?rg (seed + 2)))"
  define pf where "pf = (\<lambda>i. row_prompt (rows ! i))"
  define m where "m = [(''name'', JStr ?name), (''version'', JStr dataset_version),
      (''workload'', JStr ''generation''), (''seed'', JInt seed), (''count'', JInt n_rows),
      (''token_target_note'', JStr ''whitespace-token approximation for controlled local load'')]"
  have rows: "rows = map (\<lambda>i. load_prompt i (pf i)) ?order"
  proof (rule nth_equalityI)
    show "length rows = length (map (\<lambda>i. load_prompt i (pf i)) ?order)" by (simp add: rows_def thread_length)
    fix i assume i: "i < length rows"
    then have "i < length ?order" by (simp add: rows_def thread_length)
    then have "rows ! i = load_prompt (?order ! i) (row_prompt (rows ! i))"
      unfolding rows_def
      by (rule thread_nth [of "\<lambda>i r. r = load_prompt i (row_prompt r)" "load_row ?rg" i ?order, OF load_row_shape])
    then show "rows ! i = map (\<lambda>i. load_prompt i (pf i)) ?order ! i"
      using \<open>i < length ?order\<close> by (simp add: pf_def)
  qed
  have free: "rows_float_free rows" by (simp add: rows rows_float_free_def list_all_iff load_prompt_def)
  have meta: "metadata_of m ?name ''generation'' seed (length (map (load_item pf) ?order))"
    using n by (simp add: metadata_of_def m_def list_all_iff)
  have ids: "distinct (map di_item_id (map (load_item pf) ?order))"
    using id_inject(3) by (simp add: comp_def load_item_def distinct_map inj_def inj_on_def)
  let ?start = "files(run_path folder (?name @ ''.prompts.jsonl'') \<mapsto> stable_lines (gn_float_text env) rows)"
  let ?paths = "[run_path folder (?name @ ''.prompts.jsonl'')]"
  have listed: "list_all (listed_file folder ?name ?start) ?paths" "run_path folder (?name @ ''.sha256'') \<notin> set ?paths"
    by (simp_all add: listed_simple [OF _ _ names_plain(3)] printable_def del: append_Cons append_Nil)
  note parts = plain_name_parts [OF names_plain(3)]
  obtain listing files' where fin: "finish_dataset env (run_path folder ?name) m ?paths ?start = Inr files'"
    and files': "files' = ?start(run_path folder (?name @ ''.metadata.json'') \<mapsto>
          dumps_indented (gn_float_text env) (JObj m) @ [CHR 0x0A],
        run_path folder (?name @ ''.sha256'') \<mapsto> listing)"
    and verifies: "\<And>F. same_family folder ?name F files' \<Longrightarrow>
        \<exists>c. verify_checksum de F (run_path folder (?name @ ''.sha256'')) = Inr c"
    using finish_dataset_checks [OF env(2) _ _ listed, of m] parts by blast
  have "\<exists>c. load_dataset de F folder ?name
      = Inr (family_bundle ?name ''generation'' seed (load_item pf) ?order c)"
    if family: "same_family folder ?name F files'" for F
  proof -
    have F: "F (run_path folder (?name @ ''.metadata.json'')) = Some (dumps_indented (gn_float_text env) (JObj m) @ [CHR 0x0A])"
      "F (run_path folder (?name @ ''.prompts.jsonl'')) = Some (stable_lines (gn_float_text env) rows)"
      "F (run_path folder (?name @ ''.targets.jsonl'')) = None"
      using family absent by (simp_all add: same_family_def files' del: append_Cons append_Nil)
    obtain c where c: "verify_checksum de F (run_path folder (?name @ ''.sha256'')) = Inr c"
      using verifies [OF family] by blast
    have loads: "te_loads (de_text de) (dumps_indented (gn_float_text env) (JObj m) @ [CHR 0x0A]) = Some (sort_json (JObj m))"
      using env(1) meta unfolding json_exchanged_def metadata_of_def by blast
    have lines: "json_lines de F (run_path folder (?name @ ''.prompts.jsonl'')) = Inr (map (\<lambda>r. sort_json (JObj r)) rows)"
      by (rule written_lines_load [where files = F, OF env(1) free F(2)])
    have none: "load_targets de F (run_path folder (?name @ ''.targets.jsonl'')) = Inr []"
      by (simp add: load_targets_def F(3) del: append_Cons append_Nil)
    have "traverse (\<lambda>i. item_of_row de [] (sort_json (JObj (load_prompt i (pf i))))) ?order = Inr (map (load_item pf) ?order)"
      by (rule traverse_of_map) (rule item_of_load_row [OF env(3)])
    then have items: "traverse (item_of_row de []) (map (\<lambda>r. sort_json (JObj r)) rows) = Inr (map (load_item pf) ?order)"
      by (simp add: rows traverse_map_arg comp_def del: sort_json.simps(2))
    show ?thesis
      using load_dataset_steps [OF _ _ c F(1) loads lines none items] parts bundle_of_metadata [OF meta ids]
      by (auto simp: family_bundle_def)
  qed
  moreover have "files' path = files path" if "\<forall>ext. path \<noteq> run_path folder (?name @ ext)" for path
    using that by (simp add: files' del: append_Cons append_Nil)
  ultimately have "family_written de folder ?name files files'
      (family_bundle ?name ''generation'' seed (load_item pf) ?order)"
    unfolding family_written_def by blast
  moreover have "generate_load env folder seed n_rows files = Inr (files', run_path folder ?name)"
    using n fin
    by (simp add: generate_load_def suffix_run_path [OF names_plain(3)] m_def rows_def Let_def
        del: append_Cons append_Nil)
  ultimately show ?thesis by blast
qed

lemma residue_count:
  "j < k \<Longrightarrow> length (filter (\<lambda>i. i mod k = j) [0..<k * m]) = m"
proof (induction m)
  case (Suc m)
  have "[0..<k * Suc m] = [0..<k * m] @ [k * m..<k * m + k]"
    using upt_add_eq_append [of 0 "k * m" k] by (simp add: add.commute)
  moreover have "filter (\<lambda>i. i mod k = j) [k * m..<k * m + k] = [k * m + j]"
  proof -
    have "[k * m..<k * m + k] = map (\<lambda>i. k * m + i) [0..<k]"
      by (rule nth_equalityI) simp_all
    then have "filter (\<lambda>i. i mod k = j) [k * m..<k * m + k] = map (\<lambda>i. k * m + i) (filter (\<lambda>i. i mod k = j) [0..<k])"
      by (simp add: filter_map comp_def)
    also have "filter (\<lambda>i. i mod k = j) [0..<k] = filter (\<lambda>i. i = j) [0..<k]" by (rule filter_cong) simp_all
    also have "\<dots> = [j]"
      using Suc.prems distinct_upt [of 0 k] by (induction k) auto
    finally show ?thesis by simp
  qed
  ultimately show ?case using Suc by simp
qed simp

lemma category_at_iff: "j < 8 \<Longrightarrow> category_at i = dataset_categories ! j \<longleftrightarrow> i mod 8 = j"
proof -
  assume j: "j < 8"
  have "distinct dataset_categories" "length dataset_categories = 8" by (simp_all add: dataset_categories_def)
  then show ?thesis using j by (simp add: category_at_def nth_eq_iff_index_eq)
qed

text \<open>Every category is the target of one item in eight.\<close>

lemma categories_balanced:
  assumes "mset order = mset [0..<8 * m]" "j < 8"
  shows "length (filter (\<lambda>item. di_target item = Some (TextTarget (dataset_categories ! j)))
      (map (written_item idf df pf (\<lambda>i. JStr (category_at i))) order)) = m"
proof -
  have "length (filter (\<lambda>item. di_target item = Some (TextTarget (dataset_categories ! j)))
      (map (written_item idf df pf (\<lambda>i. JStr (category_at i))) order))
    = length (filter (\<lambda>i. i mod 8 = j) order)"
    using category_at_iff [OF assms(2)] by (simp add: filter_map comp_def written_item_def)
  also have "\<dots> = length (filter (\<lambda>i. i mod 8 = j) [0..<8 * m])"
    by (rule mset_eq_length) (simp only: mset_filter assms(1))
  finally show ?thesis using residue_count [OF assms(2)] by simp
qed

text \<open>The record an item expects holds the fields of the incident, whatever their order.\<close>

definition expects_incident :: "int \<Rightarrow> dataset_item \<Rightarrow> bool" where
  "expects_incident seed item \<longleftrightarrow>
     (\<exists>index r. index < 320 \<and> di_item_id item = extraction_id index \<and> di_target item = Some (RecordTarget r)
        \<and> map_of r = map_of (extraction_target seed index))"

lemma written_incident:
  assumes "i < 320"
  shows "expects_incident seed (written_item extraction_id df pf (\<lambda>i. JObj (extraction_target seed i)) i)"
proof -
  have "distinct (map fst (extraction_target seed i))" by (simp add: extraction_target_def)
  then obtain r where r: "sort_json (JObj (extraction_target seed i)) = JObj r"
    "\<And>key. map_of r key = map_option sort_json (map_of (extraction_target seed i) key)"
    using sorted_object by metis
  have "map_of r key = map_of (extraction_target seed i) key" for key
    unfolding r(2) by (simp add: extraction_target_def split: option.split)
  then have "map_of r = map_of (extraction_target seed i)" by (rule ext)
  then show ?thesis using assms r(1) unfolding expects_incident_def written_item_def by auto
qed

lemma bad_counts:
  "n_rows < 300 \<or> n_rows mod 8 \<noteq> 0 \<Longrightarrow> \<exists>e. generate_classification env folder seed n_rows files = Inl (BadCount e)"
  "n_rows < 300 \<Longrightarrow> \<exists>e. generate_extraction env folder seed n_rows files = Inl (BadCount e)"
  "n_rows < 1 \<Longrightarrow> \<exists>e. generate_load env folder seed n_rows files = Inl (BadCount e)"
  by (auto simp: generate_classification_def generate_extraction_def generate_load_def dataset_categories_def)

lemma family_frame:
  "family_written de folder name files files' b \<Longrightarrow> (\<And>e. ext \<noteq> name @ e) \<Longrightarrow>
   files' (run_path folder ext) = files (run_path folder ext)"
  by (simp add: family_written_def)

lemma family_loads:
  "family_written de folder name files files' b \<Longrightarrow> same_family folder name F files' \<Longrightarrow>
   \<exists>c. load_dataset de F folder name = Inr (b c)"
  by (simp add: family_written_def)

text \<open>What the three data sets are once loaded.\<close>

definition balanced_labels :: "int \<Rightarrow> dataset_bundle \<Rightarrow> bool" where
  "balanced_labels seed b \<longleftrightarrow>
     db_seed b = seed \<and> db_workload b = ''classification'' \<and> length (db_items b) = 320
     \<and> list_all (\<lambda>category. length (filter (\<lambda>item. di_target item = Some (TextTarget category)) (db_items b)) = 40)
         dataset_categories"

definition incident_records :: "int \<Rightarrow> dataset_bundle \<Rightarrow> bool" where
  "incident_records seed b \<longleftrightarrow>
     db_seed b = seed \<and> db_workload b = ''structured-extraction'' \<and> length (db_items b) = 320
     \<and> distinct (map di_item_id (db_items b)) \<and> list_all (expects_incident seed) (db_items b)"

definition load_prompts :: "int \<Rightarrow> dataset_bundle \<Rightarrow> bool" where
  "load_prompts seed b \<longleftrightarrow>
     db_seed b = seed \<and> db_workload b = ''generation''
     \<and> map di_item_id (db_items b) = map load_id [0..<120]
     \<and> list_all (\<lambda>item. di_target item = None \<and> di_input_token_target item \<noteq> None
           \<and> di_output_token_target item \<noteq> None) (db_items b)"

lemma category_count: "length dataset_categories = 8"
  by (simp add: dataset_categories_def)

lemma labels_of_family:
  assumes "mset order = mset [0..<320]"
  shows "balanced_labels seed (family_bundle n ''classification'' seed
    (written_item idf df pf (\<lambda>i. JStr (category_at i))) order c)"
proof -
  have m: "mset order = mset [0..<8 * 40]" using assms by simp
  have "length order = 320" using mset_eq_length [OF assms] by simp
  moreover have "length (filter (\<lambda>item. di_target item = Some (TextTarget category))
      (map (written_item idf df pf (\<lambda>i. JStr (category_at i))) order)) = 40"
    if member: "category \<in> set dataset_categories" for category
  proof -
    obtain j where "j < 8" "category = dataset_categories ! j"
      using member unfolding in_set_conv_nth category_count by blast
    then show ?thesis using categories_balanced [OF m] by blast
  qed
  ultimately show ?thesis by (simp add: balanced_labels_def family_bundle_def list_all_iff)
qed

lemma incidents_of_family:
  assumes "mset order = mset [0..<320]"
  shows "incident_records seed (family_bundle n ''structured-extraction'' seed
    (written_item extraction_id df pf (\<lambda>i. JObj (extraction_target seed i))) order c)"
proof -
  have "set order = {0..<320}" using mset_eq_setD [OF assms] by simp
  then have "list_all (expects_incident seed) (map (written_item extraction_id df pf (\<lambda>i. JObj (extraction_target seed i))) order)"
    using written_incident by (simp add: list_all_iff)
  moreover have "distinct order" "length order = 320"
    using mset_eq_imp_distinct_iff [OF assms] mset_eq_length [OF assms] by simp_all
  ultimately show ?thesis
    using id_inject(2)
    by (simp add: incident_records_def family_bundle_def comp_def written_item_def distinct_map inj_def inj_on_def)
qed

section \<open>Properties\<close>

text \<open>
  C27. The generated data sets load: for any seed, source of draws and folder without stale
  targets of the load data set, \<open>generate_all\<close> succeeds, and the three data sets it leaves
  pass their checksums and load, each unharmed by the others: 320 classification items with
  every category the target of exactly 40, 320 extraction items with distinct identifiers whose
  targets are the incidents drawn for them, and 120 load items without targets.
\<close>

theorem generated_datasets_load:
  assumes "json_exchanged env de" "digests_shared env de" "ints_read de" "draws_below (gn_draws env)"
    and "files (run_path folder ''generation-v1.targets.jsonl'') = None"
  shows "\<exists>files' labels incidents load.
    generate_all env folder seed files = Inr (files', (run_path folder ''classification-v1'',
      run_path folder ''extraction-v1'', run_path folder ''generation-v1''))
    \<and> load_dataset de files' folder ''classification-v1'' = Inr labels \<and> balanced_labels seed labels
    \<and> load_dataset de files' folder ''extraction-v1'' = Inr incidents \<and> incident_records seed incidents
    \<and> load_dataset de files' folder ''generation-v1'' = Inr load \<and> load_prompts seed load"
proof -
  obtain f1 o1 p1 where g1: "generate_classification env folder seed 320 files = Inr (f1, run_path folder ''classification-v1'')"
    and m1: "mset o1 = mset [0..<320]"
    and w1: "family_written de folder ''classification-v1'' files f1 (family_bundle ''classification-v1'' ''classification'' seed
        (written_item classification_id classification_difficulty p1 (\<lambda>i. JStr (category_at i))) o1)"
    using generate_classification_written [OF assms(1,2,4), of 320 folder seed files] by auto
  obtain f2 o2 p2 where g2: "generate_extraction env folder seed 320 f1 = Inr (f2, run_path folder ''extraction-v1'')"
    and m2: "mset o2 = mset [0..<320]"
    and w2: "family_written de folder ''extraction-v1'' f1 f2 (family_bundle ''extraction-v1'' ''structured-extraction'' seed
        (written_item extraction_id extraction_difficulty p2 (\<lambda>i. JObj (extraction_target seed i))) o2)"
    using generate_extraction_written [OF assms(1,2,4), of 320 folder seed f1] by auto
  have "f2 (run_path folder (''generation-v1'' @ ''.targets.jsonl'')) = None"
    using assms(5) family_frame [OF w2] family_frame [OF w1] by simp
  then obtain f3 p3 where g3: "generate_load env folder seed 120 f2 = Inr (f3, run_path folder ''generation-v1'')"
    and w3: "family_written de folder ''generation-v1'' f2 f3 (family_bundle ''generation-v1'' ''generation'' seed
        (load_item p3) [0..<120])"
    using generate_load_written [OF assms(1-3), of 120 f2 folder seed] by auto
  have "same_family folder ''classification-v1'' f3 f1"
    using family_frame [OF w3] family_frame [OF w2] by (simp add: same_family_def)
  moreover have "same_family folder ''extraction-v1'' f3 f2"
    using family_frame [OF w3] by (simp add: same_family_def)
  moreover have "same_family folder ''generation-v1'' f3 f3" by (simp add: same_family_def)
  moreover have "load_prompts seed (family_bundle ''generation-v1'' ''generation'' seed (load_item p3) [0..<120] c)" for c
    by (simp add: load_prompts_def family_bundle_def load_item_def list_all_iff comp_def)
  moreover have "generate_all env folder seed files = Inr (f3, (run_path folder ''classification-v1'',
      run_path folder ''extraction-v1'', run_path folder ''generation-v1''))"
    by (simp add: generate_all_def g1 g2 g3)
  ultimately show ?thesis
    using family_loads [OF w1] family_loads [OF w2] family_loads [OF w3] labels_of_family [OF m1]
      incidents_of_family [OF m2] by metis
qed

text \<open>A source that counts up, an empty store, and the reader of written documents.\<close>

definition counting_env :: "nat generator_env" where
  "counting_env =
     \<lparr>gn_draws = \<lparr>dr_seeded = (\<lambda>s. nat \<bar>s\<bar>), dr_below = (\<lambda>n g. (g mod n, g + 1))\<rparr>,
      gn_sha256 = (\<lambda>s. replicate 64 (CHR ''a'')), gn_float_text = (\<lambda>x. ''0'')\<rparr>"

definition reading_env :: data_env where
  "reading_env =
     \<lparr>de_text = lab_text\<lparr>te_loads := read_json\<rparr>,
      de_int = (\<lambda>s. case read_int s of Some (JInt i, []) \<Rightarrow> Some i | _ \<Rightarrow> None),
      de_sha256 = (\<lambda>s. replicate 64 (CHR ''a''))\<rparr>"

theorem generated_datasets_load_witness:
  "\<exists>files' labels incidents load.
    generate_all counting_env ''data'' 20260815 (\<lambda>_. None) = Inr (files', (''data/classification-v1'',
      ''data/extraction-v1'', ''data/generation-v1''))
    \<and> load_dataset reading_env files' ''data'' ''classification-v1'' = Inr labels
    \<and> balanced_labels 20260815 labels
    \<and> load_dataset reading_env files' ''data'' ''extraction-v1'' = Inr incidents
    \<and> incident_records 20260815 incidents
    \<and> load_dataset reading_env files' ''data'' ''generation-v1'' = Inr load \<and> load_prompts 20260815 load"
proof -
  have "json_exchanged counting_env reading_env"
    by (simp add: json_exchanged_def reading_env_def read_dumps)
  moreover have "digests_shared counting_env reading_env"
    by (simp add: digests_shared_def counting_env_def reading_env_def list_all_iff hex_digit_def less_eq_char_def)
  moreover have "read_int (str_int i @ []) = Some (JInt i, [])" for i by (rule read_written_int) simp
  then have "ints_read reading_env" by (simp add: ints_read_def reading_env_def)
  moreover have "draws_below (gn_draws counting_env)" by (simp add: draws_below_def counting_env_def)
  ultimately show ?thesis
    using generated_datasets_load [of counting_env reading_env "\<lambda>_. None" "''data''" 20260815]
    by (simp add: run_path_def)
qed

end
