(* ===== verification/Loading.thy ===== *)
theory Loading
  imports App_Wiring Datasets
begin

text \<open>
  Reading the configuration files (\<open>config/loader.py\<close>, and \<open>load_auth_config\<close> of
  \<open>security/auth.py\<close>). A file is text under a path; PyYAML, given the table of implicit
  resolvers the loader class carries, turns text into a tree of \<open>yaml\<close> values or fails; both
  are parameters. The schemas of \<open>config/schema.py\<close> are read off such a tree field by field,
  extra keys forbidden, and then validated. Pydantic's conversions of a scalar to a boolean, a
  number or a date are the parameters of \<open>scalars\<close>.
\<close>

section \<open>Documents\<close>

datatype yaml =
    YNull
  | YBool bool
  | YInt int
  | YFloat rat
  | YStr string
  | YDate "int \<times> int \<times> int"
  | YSeq "yaml list"
  | YMap "(yaml \<times> yaml) list"

text \<open>An implicit resolver is a tag and a pattern, listed under the first character of a word.\<close>

type_synonym resolver_table = "char \<Rightarrow> (string \<times> (string \<Rightarrow> bool)) list"

definition bool_tag :: string where
  "bool_tag = ''tag:yaml.org,2002:bool''"

definition yaml12_bool :: "string \<Rightarrow> bool" where
  "yaml12_bool s \<longleftrightarrow> s \<in> {''true'', ''True'', ''TRUE'', ''false'', ''False'', ''FALSE''}"

definition config_resolvers :: "resolver_table \<Rightarrow> resolver_table" where
  "config_resolvers base c =
     (let kept = (if c \<in> set ''OoYyNnTtFf'' then filter (\<lambda>r. fst r \<noteq> bool_tag) (base c) else base c)
      in if c \<in> set ''tTfF'' then kept @ [(bool_tag, yaml12_bool)] else kept)"

text \<open>
  \<open>yaml.load\<close> raises \<open>YAMLError\<close> or, as when the bytes of the file are no UTF-8 or a date
  does not exist, some other exception.
\<close>

datatype yaml_failure = YamlError | YamlOther string

record load_env =
  le_files :: file_store
  le_base :: resolver_table
  le_yaml :: "resolver_table \<Rightarrow> string \<Rightarrow> yaml_failure + yaml"
  le_bool :: "yaml \<Rightarrow> bool option"
  le_int :: "yaml \<Rightarrow> int option"
  le_float :: "yaml \<Rightarrow> pyfloat option"
  le_date :: "yaml \<Rightarrow> (int \<times> int \<times> int) option"

datatype load_error =
    CannotLoad string
  | NoMapping string
  | InvalidProviders string
  | InvalidRouting string
  | ConfigMismatch
  | InvalidAuth string
  | LoadUncaught string

definition read_yaml :: "load_env \<Rightarrow> string \<Rightarrow> load_error + (yaml \<times> yaml) list" where
  "read_yaml le path =
     (case le_files le path of
        None \<Rightarrow> Inl (CannotLoad path)
      | Some content \<Rightarrow>
          (case le_yaml le (config_resolvers (le_base le)) content of
             Inl YamlError \<Rightarrow> Inl (CannotLoad path)
           | Inl (YamlOther e) \<Rightarrow> Inl (LoadUncaught e)
           | Inr (YMap kvs) \<Rightarrow> Inr kvs
           | Inr v \<Rightarrow> Inl (NoMapping path)))"

section \<open>Reading a schema off a document\<close>

text \<open>\<open>None\<close> stands for a \<open>ValidationError\<close>.\<close>

definition only_keys :: "string list \<Rightarrow> (yaml \<times> yaml) list \<Rightarrow> bool" where
  "only_keys allowed kvs \<longleftrightarrow> set (map fst kvs) \<subseteq> YStr ` set allowed"

definition object_fields :: "string list \<Rightarrow> yaml \<Rightarrow> (yaml \<times> yaml) list option" where
  "object_fields allowed v =
     (case v of YMap kvs \<Rightarrow> if only_keys allowed kvs then Some kvs else None | _ \<Rightarrow> None)"

definition required :: "(yaml \<Rightarrow> 'a option) \<Rightarrow> (yaml \<times> yaml) list \<Rightarrow> string \<Rightarrow> 'a option" where
  "required f kvs k = (case map_of kvs (YStr k) of None \<Rightarrow> None | Some v \<Rightarrow> f v)"

definition defaulted :: "(yaml \<Rightarrow> 'a option) \<Rightarrow> 'a \<Rightarrow> (yaml \<times> yaml) list \<Rightarrow> string \<Rightarrow> 'a option" where
  "defaulted f d kvs k = (case map_of kvs (YStr k) of None \<Rightarrow> Some d | Some v \<Rightarrow> f v)"

definition nullable :: "(yaml \<Rightarrow> 'a option) \<Rightarrow> yaml \<Rightarrow> 'a option option" where
  "nullable f v = (if v = YNull then Some None else map_option Some (f v))"

fun yaml_str :: "yaml \<Rightarrow> string option" where
  "yaml_str (YStr s) = Some s"
| "yaml_str _ = None"

fun yaml_list :: "(yaml \<Rightarrow> 'a option) \<Rightarrow> yaml \<Rightarrow> 'a list option" where
  "yaml_list f (YSeq vs) = those (map f vs)"
| "yaml_list f _ = None"

definition yaml_entry :: "(yaml \<Rightarrow> 'a option) \<Rightarrow> yaml \<times> yaml \<Rightarrow> (string \<times> 'a) option" where
  "yaml_entry f e = (case yaml_str (fst e) of None \<Rightarrow> None | Some k \<Rightarrow> map_option (Pair k) (f (snd e)))"

fun yaml_dict :: "(yaml \<Rightarrow> 'a option) \<Rightarrow> yaml \<Rightarrow> (string \<times> 'a) list option" where
  "yaml_dict f (YMap kvs) = those (map (yaml_entry f) kvs)"
| "yaml_dict f _ = None"

text \<open>What \<open>_exact_decimal\<close> is given: the Python value of a scalar.\<close>

fun scalar_json :: "yaml \<Rightarrow> json" where
  "scalar_json (YStr s) = JStr s"
| "scalar_json (YInt i) = JInt i"
| "scalar_json (YFloat x) = JFloat x"
| "scalar_json (YBool b) = JBool b"
| "scalar_json YNull = JNull"
| "scalar_json _ = JArr []"

definition yaml_price :: "yaml \<Rightarrow> decimal option" where
  "yaml_price v = (case price_decimal (scalar_json v) of Inl _ \<Rightarrow> None | Inr d \<Rightarrow> Some d)"

definition provider_model_schema :: "load_env \<Rightarrow> yaml \<Rightarrow> provider_model_config option" where
  "provider_model_schema le v =
     Option.bind (object_fields [''upstream_model'', ''supports_sampling''] v) (\<lambda>kvs.
     Option.bind (required yaml_str kvs ''upstream_model'') (\<lambda>m.
     Option.bind (defaulted (le_bool le) False kvs ''supports_sampling'') (\<lambda>s.
       Some \<lparr>pmc_upstream_model = m, pmc_supports_sampling = s\<rparr>)))"

fun provider_kind_schema :: "yaml \<Rightarrow> provider_kind option" where
  "provider_kind_schema (YStr s) =
     (if s = ''openai_compatible'' then Some OpenAICompatible
      else if s = ''managed'' then Some Managed else None)"
| "provider_kind_schema _ = None"

definition provider_schema :: "load_env \<Rightarrow> yaml \<Rightarrow> provider_config option" where
  "provider_schema le v =
     Option.bind (object_fields
       [''kind'', ''external'', ''models'', ''base_url_env'', ''adapter'', ''api_key_env''] v) (\<lambda>kvs.
     Option.bind (required provider_kind_schema kvs ''kind'') (\<lambda>k.
     Option.bind (required (le_bool le) kvs ''external'') (\<lambda>e.
     Option.bind (required (yaml_dict (provider_model_schema le)) kvs ''models'') (\<lambda>ms.
     Option.bind (defaulted (nullable yaml_str) None kvs ''base_url_env'') (\<lambda>b.
     Option.bind (defaulted (nullable yaml_str) None kvs ''adapter'') (\<lambda>a.
     Option.bind (defaulted (nullable yaml_str) None kvs ''api_key_env'') (\<lambda>key.
       Some \<lparr>pcf_kind = k, pcf_external = e, pcf_models = ms, pcf_base_url_env = b, pcf_adapter = a,
             pcf_api_key_env = key\<rparr>)))))))"

definition route_alias_schema :: "yaml \<Rightarrow> route_alias_config option" where
  "route_alias_schema v =
     Option.bind (object_fields [''provider'', ''model''] v) (\<lambda>kvs.
     Option.bind (required yaml_str kvs ''provider'') (\<lambda>p.
     Option.bind (required yaml_str kvs ''model'') (\<lambda>m.
       Some \<lparr>rac_provider = p, rac_model = m\<rparr>)))"

definition pricing_schema :: "load_env \<Rightarrow> yaml \<Rightarrow> pricing_config option" where
  "pricing_schema le v =
     Option.bind (object_fields
       [''currency'', ''effective_date'', ''input_per_1m'', ''output_per_1m'',
        ''cached_input_per_1m'', ''source_url''] v) (\<lambda>kvs.
     Option.bind (required yaml_str kvs ''currency'') (\<lambda>cur.
     Option.bind (required (le_date le) kvs ''effective_date'') (\<lambda>date.
     Option.bind (required yaml_price kvs ''input_per_1m'') (\<lambda>i.
     Option.bind (required yaml_price kvs ''output_per_1m'') (\<lambda>out.
     Option.bind (required (nullable yaml_price) kvs ''cached_input_per_1m'') (\<lambda>cached.
     Option.bind (required yaml_str kvs ''source_url'') (\<lambda>url.
       Some \<lparr>prc_currency = cur, prc_effective_date = date, prc_input_per_1m = i,
             prc_output_per_1m = out, prc_cached_input_per_1m = cached, prc_source_url = url\<rparr>)))))))"

definition providers_schema :: "load_env \<Rightarrow> yaml \<Rightarrow> providers_document option" where
  "providers_schema le v =
     Option.bind (object_fields [''providers'', ''route_aliases'', ''pricing''] v) (\<lambda>kvs.
     Option.bind (required (yaml_dict (provider_schema le)) kvs ''providers'') (\<lambda>ps.
     Option.bind (defaulted (yaml_dict route_alias_schema) [] kvs ''route_aliases'') (\<lambda>as.
     Option.bind (defaulted (yaml_dict (yaml_dict (pricing_schema le))) [] kvs ''pricing'') (\<lambda>prices.
       Some \<lparr>pd_providers = ps, pd_route_aliases = as, pd_pricing = prices\<rparr>))))"

definition routing_kind_schema :: "yaml \<Rightarrow> bool option" where
  "routing_kind_schema v =
     (if v = YStr ''managed'' then Some True
      else if v = YStr ''openai-compatible'' then Some False else None)"

definition routing_provider_schema :: "load_env \<Rightarrow> yaml \<Rightarrow> routing_provider_config option" where
  "routing_provider_schema le v =
     Option.bind (object_fields [''type'', ''external'', ''provider'', ''model_alias''] v) (\<lambda>kvs.
     Option.bind (required routing_kind_schema kvs ''type'') (\<lambda>m.
     Option.bind (required (le_bool le) kvs ''external'') (\<lambda>e.
     Option.bind (defaulted (nullable yaml_str) None kvs ''provider'') (\<lambda>p.
     Option.bind (defaulted (nullable yaml_str) None kvs ''model_alias'') (\<lambda>a.
       Some \<lparr>rpc_managed = m, rpc_external = e, rpc_provider = p, rpc_model_alias = a\<rparr>)))))"

definition yaml_enum :: "(string \<Rightarrow> 'a option) \<Rightarrow> yaml \<Rightarrow> 'a option" where
  "yaml_enum parse v = Option.bind (yaml_str v) parse"

definition rule_match_schema :: "yaml \<Rightarrow> rule_match option" where
  "rule_match_schema v =
     Option.bind (object_fields [''data_class'', ''workload'', ''quality_tier''] v) (\<lambda>kvs.
     Option.bind (defaulted (nullable (yaml_list (yaml_enum parse_data_class))) None kvs ''data_class'') (\<lambda>d.
     Option.bind (defaulted (nullable (yaml_list yaml_str)) None kvs ''workload'') (\<lambda>w.
     Option.bind (defaulted (nullable (yaml_list (yaml_enum parse_quality_tier))) None kvs ''quality_tier'') (\<lambda>q.
       Some \<lparr>wm_data_class = d, wm_workload = w, wm_quality_tier = q\<rparr>))))"

definition rule_schema :: "yaml \<Rightarrow> routing_rule option" where
  "rule_schema v =
     Option.bind (object_fields [''name'', ''when'', ''route''] v) (\<lambda>kvs.
     Option.bind (required yaml_str kvs ''name'') (\<lambda>n.
     Option.bind (required rule_match_schema kvs ''when'') (\<lambda>w.
     Option.bind (required (yaml_list yaml_str) kvs ''route'') (\<lambda>r.
       Some \<lparr>rr_name = n, rr_when = w, rr_route = r\<rparr>))))"

definition fallback_schema :: "load_env \<Rightarrow> yaml \<Rightarrow> fallback_config option" where
  "fallback_schema le v =
     Option.bind (object_fields [''on'', ''max_attempts'', ''never_cross_data_policy''] v) (\<lambda>kvs.
     Option.bind (required (yaml_list (yaml_enum parse_error_class)) kvs ''on'') (\<lambda>cs.
     Option.bind (required (le_int le) kvs ''max_attempts'') (\<lambda>m.
     Option.bind (required (le_bool le) kvs ''never_cross_data_policy'') (\<lambda>n.
       Some \<lparr>fb_on = cs, fb_max_attempts = m, fb_never_cross = n\<rparr>))))"

definition timeout_schema :: "load_env \<Rightarrow> yaml \<Rightarrow> timeout_config option" where
  "timeout_schema le v =
     (let t = defaulted (le_float le) in
     Option.bind (object_fields
       [''connect_timeout'', ''response_header_timeout'', ''stream_idle_timeout'',
        ''per_attempt_timeout'', ''global_request_deadline''] v) (\<lambda>kvs.
     Option.bind (t (to_connect default_timeouts) kvs ''connect_timeout'') (\<lambda>c.
     Option.bind (t (to_response_header default_timeouts) kvs ''response_header_timeout'') (\<lambda>h.
     Option.bind (t (to_stream_idle default_timeouts) kvs ''stream_idle_timeout'') (\<lambda>i.
     Option.bind (t (to_per_attempt default_timeouts) kvs ''per_attempt_timeout'') (\<lambda>a.
     Option.bind (t (to_global_deadline default_timeouts) kvs ''global_request_deadline'') (\<lambda>g.
       Some \<lparr>to_connect = c, to_response_header = h, to_stream_idle = i, to_per_attempt = a,
             to_global_deadline = g\<rparr>)))))))"

definition policy_schema :: "load_env \<Rightarrow> yaml \<Rightarrow> routing_policy option" where
  "policy_schema le v =
     Option.bind (object_fields
       [''version'', ''providers'', ''rules'', ''fallback'', ''timeouts'', ''workloads''] v) (\<lambda>kvs.
     Option.bind (required (le_int le) kvs ''version'') (\<lambda>n.
     Option.bind (required (yaml_dict (routing_provider_schema le)) kvs ''providers'') (\<lambda>ps.
     Option.bind (required (yaml_list rule_schema) kvs ''rules'') (\<lambda>rs.
     Option.bind (required (fallback_schema le) kvs ''fallback'') (\<lambda>f.
     Option.bind (defaulted (timeout_schema le) default_timeouts kvs ''timeouts'') (\<lambda>t.
     Option.bind (defaulted (yaml_list yaml_str) default_workloads kvs ''workloads'') (\<lambda>w.
       Some \<lparr>rp_version = n, rp_providers = ps, rp_rules = rs, rp_fallback = f, rp_timeouts = t,
             rp_workloads = w\<rparr>)))))))"

definition api_key_schema :: "yaml \<Rightarrow> api_key_entry option" where
  "api_key_schema v =
     Option.bind (object_fields [''sha256'', ''team''] v) (\<lambda>kvs.
     Option.bind (required yaml_str kvs ''sha256'') (\<lambda>d.
     Option.bind (required yaml_str kvs ''team'') (\<lambda>t.
       Some \<lparr>ak_sha256 = d, ak_team = t\<rparr>)))"

definition auth_schema :: "yaml \<Rightarrow> auth_config option" where
  "auth_schema v =
     Option.bind (object_fields [''keys''] v) (\<lambda>kvs.
     Option.bind (required (yaml_list api_key_schema) kvs ''keys'') (\<lambda>ks.
       Some \<lparr>ac_keys = ks\<rparr>))"

section \<open>The loaders\<close>

text \<open>\<open>model_validate\<close>: the fields, then the validators of the model.\<close>

definition validated_value :: "'a option \<Rightarrow> ('a \<Rightarrow> bool) \<Rightarrow> 'e \<Rightarrow> 'e + 'a" where
  "validated_value x ok e = (case x of None \<Rightarrow> Inl e | Some a \<Rightarrow> if ok a then Inr a else Inl e)"

definition load_providers :: "load_env \<Rightarrow> string \<Rightarrow> load_error + providers_document" where
  "load_providers le path =
     bind_res (read_yaml le path) (\<lambda>kvs.
       validated_value (providers_schema le (YMap kvs)) (\<lambda>d. validate_document d = Inr ()) (InvalidProviders path))"

definition load_routing_policy :: "load_env \<Rightarrow> string \<Rightarrow> load_error + routing_policy" where
  "load_routing_policy le path =
     bind_res (read_yaml le path) (\<lambda>kvs.
       validated_value (policy_schema le (YMap kvs)) (\<lambda>p. validate_policy p = Inr ()) (InvalidRouting path))"

definition load_gateway_config :: "load_env \<Rightarrow> string \<Rightarrow> string \<Rightarrow> load_error + gateway_config" where
  "load_gateway_config le providers_path routing_path =
     bind_res (load_providers le providers_path) (\<lambda>d.
     bind_res (load_routing_policy le routing_path) (\<lambda>p.
       validated_value (Some \<lparr>gc_providers = d, gc_routing = p\<rparr>)
         (\<lambda>c. routing_matches_provider_document c = Inr ()) ConfigMismatch))"

text \<open>\<open>load_auth_config\<close> uses the plain safe loader and accepts no other top-level value.\<close>

definition load_auth_config :: "load_env \<Rightarrow> string \<Rightarrow> load_error + auth_config" where
  "load_auth_config le path =
     (case le_files le path of
        None \<Rightarrow> Inl (CannotLoad path)
      | Some content \<Rightarrow>
          (case le_yaml le (le_base le) content of
             Inl YamlError \<Rightarrow> Inl (CannotLoad path)
           | Inl (YamlOther e) \<Rightarrow> Inl (LoadUncaught e)
           | Inr v \<Rightarrow> validated_value (auth_schema v) auth_config_ok (InvalidAuth path)))"

text \<open>\<open>_KEY_PREFIX + secrets.token_urlsafe(32)\<close>; the random token is a parameter.\<close>

definition generate_api_key :: "string \<Rightarrow> string" where
  "generate_api_key token = ''plab_'' @ token"

section \<open>Lemmas\<close>

lemma validated_value_Inr [simp]: "validated_value x ok e = Inr a \<longleftrightarrow> x = Some a \<and> ok a"
  by (auto simp: validated_value_def split: option.splits)

lemma load_gateway_config_Inr:
  assumes "load_gateway_config le pp rp = Inr c"
  shows "validate_document (gc_providers c) = Inr ()" "validate_policy (gc_routing c) = Inr ()"
    "routing_matches_provider_document c = Inr ()"
  using assms
  by (auto simp: load_gateway_config_def load_providers_def load_routing_policy_def bind_res_Inr)

lemma load_auth_config_ok: "load_auth_config le path = Inr c \<Longrightarrow> auth_config_ok c"
  by (auto simp: load_auth_config_def split: option.splits sum.splits yaml_failure.splits)

text \<open>
  The loader's words: if the table has boolean patterns for the letters of the YAML 1.1 words
  only, the one boolean pattern left is that of YAML 1.2, so \<open>on\<close> and \<open>off\<close> stay text.
\<close>

lemma config_bool_pattern:
  assumes "\<And>c. c \<notin> set ''OoYyNnTtFf'' \<Longrightarrow> bool_tag \<notin> fst ` set (base c)"
    and "(bool_tag, m) \<in> set (config_resolvers base c)"
  shows "m = yaml12_bool"
  using assms by (force simp: config_resolvers_def Let_def split: if_splits)

lemma other_resolvers_kept:
  "filter (\<lambda>r. fst r \<noteq> bool_tag) (config_resolvers base c) = filter (\<lambda>r. fst r \<noteq> bool_tag) (base c)"
  by (simp add: config_resolvers_def)

end
