(* ===== verification/Mock_Adapter.thy ===== *)
theory Mock_Adapter
  imports Adapter_Contract Cost_Engine
begin

text \<open>
  The deterministic in-process provider (\<open>adapters/mock.py\<close>): behaviours chosen per call from
  a script that is consumed front to back and then from a default. The adapter object is the
  record \<open>mock_provider\<close>; an operation returns it updated. A sleep is the time the call takes.
\<close>

section \<open>Behaviours\<close>

datatype mock_behavior_kind =
    MockOk | MockRateLimited | MockServerError | MockTimeout | MockMalformed | MockDelayed
  | MockStreamOk | MockStreamFail

definition mock_behavior_kinds :: "mock_behavior_kind list" where
  "mock_behavior_kinds =
     [MockOk, MockRateLimited, MockServerError, MockTimeout, MockMalformed, MockDelayed,
      MockStreamOk, MockStreamFail]"

fun mock_behavior_kind_value :: "mock_behavior_kind \<Rightarrow> string" where
  "mock_behavior_kind_value MockOk = ''ok''"
| "mock_behavior_kind_value MockRateLimited = ''rate_limited_429''"
| "mock_behavior_kind_value MockServerError = ''server_500''"
| "mock_behavior_kind_value MockTimeout = ''timeout''"
| "mock_behavior_kind_value MockMalformed = ''malformed_response''"
| "mock_behavior_kind_value MockDelayed = ''delayed''"
| "mock_behavior_kind_value MockStreamOk = ''stream_ok''"
| "mock_behavior_kind_value MockStreamFail = ''stream_fail_after_first_chunk''"

interpretation mock_behavior_enum: str_enum mock_behavior_kinds mock_behavior_kind_value
proof
  show "m \<in> set mock_behavior_kinds" for m by (cases m) (simp_all add: mock_behavior_kinds_def)
  show "mock_behavior_kind_value m = mock_behavior_kind_value m' \<Longrightarrow> m = m'" for m m'
    by (cases m; cases m') simp_all
qed

record mock_behavior =
  mb_kind :: mock_behavior_kind
  mb_delay_ms :: int
  mb_retry_after :: pyfloat

text \<open>\<open>MockBehavior(kind, delay_ms, retry_after_seconds)\<close> with \<open>__post_init__\<close>.\<close>

definition post_init :: "mock_behavior \<Rightarrow> string + unit" where
  "post_init b =
     seq_checks
       [guard_that (0 \<le> mb_delay_ms b) ''delay_ms must be non-negative'',
        guard_that (0 \<le> mb_retry_after b) ''retry_after_seconds must be non-negative'',
        guard_that (mb_kind b = MockDelayed \<or> mb_delay_ms b = 0)
          ''delay_ms is only valid for delayed behavior'']"

definition make_behavior :: "mock_behavior_kind \<Rightarrow> int \<Rightarrow> pyfloat \<Rightarrow> string + mock_behavior" where
  "make_behavior kind delay_ms retry_after =
     (let b = \<lparr>mb_kind = kind, mb_delay_ms = delay_ms, mb_retry_after = retry_after\<rparr>
      in bind_res (post_init b) (\<lambda>_. Inr b))"

definition delayed_behavior :: "int \<Rightarrow> string + mock_behavior" where
  "delayed_behavior milliseconds = make_behavior MockDelayed milliseconds 1"

definition rate_limited_behavior :: "pyfloat \<Rightarrow> string + mock_behavior" where
  "rate_limited_behavior retry_after = make_behavior MockRateLimited 0 retry_after"

text \<open>A constructor argument is a behaviour (valid by its own construction) or a bare kind.\<close>

datatype behavior_arg = GivenBehavior mock_behavior | GivenKind mock_behavior_kind

fun coerce_behavior :: "behavior_arg \<Rightarrow> string + mock_behavior" where
  "coerce_behavior (GivenBehavior b) = Inr b"
| "coerce_behavior (GivenKind k) = make_behavior k 0 1"

section \<open>The provider\<close>

record mock_provider =
  mk_default :: mock_behavior
  mk_script :: "mock_behavior list"
  mk_include_usage :: bool
  mk_timeout_seconds :: pyfloat
  mk_input_price :: decimal
  mk_output_price :: decimal
  mk_capabilities :: provider_capabilities

definition mock_name :: string where
  "mock_name = ''managed-fault-mock''"

definition make_mock ::
    "behavior_arg \<Rightarrow> behavior_arg list \<Rightarrow> bool \<Rightarrow> pyfloat \<Rightarrow> decimal \<Rightarrow> decimal \<Rightarrow> string + mock_provider"
where
  "make_mock behavior script include_usage timeout_seconds input_price output_price =
     bind_res (coerce_behavior behavior) (\<lambda>default.
     bind_res (traverse coerce_behavior script) (\<lambda>items.
       Inr \<lparr>mk_default = default, mk_script = items, mk_include_usage = include_usage,
            mk_timeout_seconds = timeout_seconds, mk_input_price = input_price,
            mk_output_price = output_price,
            mk_capabilities = \<lparr>cap_streaming = True, cap_reports_usage = include_usage,
              cap_reports_streaming_usage = include_usage, cap_tool_calls = False\<rparr>\<rparr>))"

definition next_behavior :: "mock_provider \<Rightarrow> mock_behavior \<times> mock_provider" where
  "next_behavior m =
     (case mk_script m of
        [] \<Rightarrow> (mk_default m, m)
      | b # rest \<Rightarrow> (b, m\<lparr>mk_script := rest\<rparr>))"

text \<open>The time slept and the exception raised, if any; a time-out only sleeps.\<close>

definition before_response :: "mock_provider \<Rightarrow> mock_behavior \<Rightarrow> rat \<times> adapter_failure option" where
  "before_response m b =
     (case mb_kind b of
        MockDelayed \<Rightarrow> (int_truediv (mb_delay_ms b) 1000, None)
      | MockTimeout \<Rightarrow> (mk_timeout_seconds m, None)
      | MockRateLimited \<Rightarrow>
          (0, Some (raise_http 429 ''mock provider rate limit'' (Some (mb_retry_after b))))
      | MockServerError \<Rightarrow> (0, Some (raise_http 500 ''mock provider server error'' None))
      | MockMalformed \<Rightarrow>
          (0, Some (raise_class MalformedResponse ''mock provider returned a malformed response''
                      (Some 502) None))
      | _ \<Rightarrow> (0, None))"

definition mock_usage :: "mock_provider \<Rightarrow> normalized_usage" where
  "mock_usage m =
     (if \<not> mk_include_usage m then usage_unavailable
      else \<lparr>nu_visible = Some 2, nu_visible_source = ProviderReported,
            nu_input = Some 4, nu_input_source = ProviderReported,
            nu_output = Some 2, nu_output_source = ProviderReported,
            nu_special = Some 0, nu_special_source = ProviderReported\<rparr>)"

definition mock_chat ::
    "mock_provider \<Rightarrow> chat_request \<Rightarrow> mock_provider \<times> rat \<times> (adapter_failure + provider_result)" where
  "mock_chat m request =
     (let (b, m') = next_behavior m;
          (slept, failure) = before_response m' b
      in (m', slept,
          case failure of
            Some f \<Rightarrow> Inl f
          | None \<Rightarrow>
              if mb_kind b = MockStreamFail
              then Inl (raise_class MalformedResponse
                     ''stream-only mock behavior used for a non-streaming call'' None None)
              else validated validate_result
                \<lparr>pr_provider = mock_name, pr_model = cr_model request,
                 pr_output = [text_part ''mock response''], pr_finish_reason = Some ''stop'',
                 pr_usage = mock_usage m', pr_extensions = []\<rparr>))"

definition mock_stream ::
    "mock_provider \<Rightarrow> chat_request \<Rightarrow> mock_provider \<times> stream_script" where
  "mock_stream m request =
     (let (b, m') = next_behavior m;
          (slept, failure) = before_response m' b;
          model = cr_model request
      in (m',
          case failure of
            Some f \<Rightarrow> [(slept, failure_event f)]
          | None \<Rightarrow>
              yield_chunk slept (text_chunk mock_name model 0 ''mock '')
                (if mb_kind b = MockStreamFail
                 then [(0, failure_event (raise_class StreamStartedFailure
                              ''mock provider failed after streaming began'' None None))]
                 else yield_chunk 0 (text_chunk mock_name model 1 ''response'')
                   (yield_chunk 0 (final_chunk mock_name model 2 ''stop'' (mock_usage m')) []))))"

definition mock_health :: "rat \<Rightarrow> provider_health" where
  "mock_health now = \<lparr>ph_healthy = True, ph_checked_at = utc now, ph_detail = Some ''mock''\<rparr>"

definition mock_price :: "mock_provider \<Rightarrow> normalized_usage \<Rightarrow> string + money option" where
  "mock_price m u =
     (case (nu_input u, nu_output u) of
        (Some i, Some out) \<Rightarrow>
          bind_res (make_money (ExactAmount
              (ddiv (dadd (dmul (of_int i) (mk_input_price m)) (dmul (of_int out) (mk_output_price m)))
                 1000000)) ''USD'') (\<lambda>x. Inr (Some x))
      | _ \<Rightarrow> Inr None)"

text \<open>The adapter as the executor sees it: one call of the provider in a given state.\<close>

definition mock_chat_adapter :: "mock_provider \<Rightarrow> chat_adapter" where
  "mock_chat_adapter m = (\<lambda>i now request ctx.
     let (m', slept, reply) = mock_chat m request in (slept, reply_of reply))"

definition mock_stream_adapter :: "mock_provider \<Rightarrow> stream_adapter" where
  "mock_stream_adapter m = (\<lambda>i now request ctx. snd (mock_stream m request))"

interpretation mock_contract: provider_stream mock_name "mock_stream_adapter m" for m
proof
  fix request i now ctx
  show "well_formed_from mock_name (cr_model request) 0 (mock_stream_adapter m i now request ctx)"
    by (auto simp: mock_stream_adapter_def mock_stream_def split_beta Let_def
        intro!: well_formed_yield well_formed_final split: option.splits)
qed

text \<open>
  The mock among the executor's providers. It keeps the contract of a timed provider if none of
  its sleeps is negative, which the validation of a behaviour gives for the delays.
\<close>

definition sleeps_forward :: "mock_provider \<Rightarrow> bool" where
  "sleeps_forward m \<longleftrightarrow>
     0 \<le> mk_timeout_seconds m \<and> list_all (\<lambda>b. 0 \<le> mb_delay_ms b) (mk_default m # mk_script m)"

lemma made_behavior_delay: "make_behavior k d r = Inr b \<Longrightarrow> 0 \<le> mb_delay_ms b"
  by (auto simp: make_behavior_def post_init_def Let_def bind_res_Inr)

lemma before_response_time:
  assumes "sleeps_forward m"
  shows "0 \<le> fst (before_response (snd (next_behavior m)) (fst (next_behavior m)))"
proof -
  have "0 \<le> int_truediv d 1000" if "0 \<le> d" for d
    using that by (auto simp: int_truediv_def intro: flt.rnd_nonneg)
  with assms show ?thesis
    by (auto simp: sleeps_forward_def next_behavior_def before_response_def
        split: list.splits mock_behavior_kind.split)
qed

definition mock_chats :: "mock_provider \<Rightarrow> string \<Rightarrow> chat_adapter option" where
  "mock_chats m n = (if n = mock_name \<and> sleeps_forward m then Some (mock_chat_adapter m) else None)"

definition mock_streams :: "mock_provider \<Rightarrow> string \<Rightarrow> stream_adapter option" where
  "mock_streams m n = (if n = mock_name \<and> sleeps_forward m then Some (mock_stream_adapter m) else None)"

interpretation mock_timed: timed_adapters "mock_chats m" for m
  using before_response_time [of m]
  by unfold_locales
    (auto simp: mock_chats_def mock_chat_adapter_def mock_chat_def split_beta split: if_splits)

interpretation mock_timed_stream: timed_streams "mock_streams m" for m
  using before_response_time [of m]
  by unfold_locales
    (auto simp: mock_streams_def mock_stream_adapter_def mock_stream_def split_beta Let_def yield_chunk_def
      split: if_splits option.splits sum.splits)

interpretation mock_pool: provider_pool "mock_streams m" for m
  by unfold_locales (auto simp: mock_streams_def mock_contract.well_formed split: if_splits)

end
