(* ===== verification/Local_Adapter.thy ===== *)
theory Local_Adapter
  imports Mock_Adapter Harness
begin

text \<open>
  The in-process adapter of local benchmark runs (\<open>benchmark/local.py\<close>): it answers a request with
  the frozen target of the data set item its prompt names. \<open>json.dumps\<close> of a record target is a
  parameter. Its lemmas connect it to the harness, which names the item, and to the evaluators,
  which grade the answer.
\<close>

section \<open>Finding the item\<close>

definition item_marker :: string where
  "item_marker = ''[dataset_item_id=''"

text \<open>\<open>_ITEM_PATTERN.search(prompt)\<close>: the first place where the marker is followed by at least one
  character and a closing bracket; the group is what stands between.\<close>

fun find_item :: "string \<Rightarrow> string option" where
  "find_item [] = None"
| "find_item (c # s) =
     (let body = drop (length item_marker) (c # s);
          item = takeWhile (\<lambda>x. x \<noteq> CHR '']'') body
      in if starts_with (c # s) item_marker \<and> item \<noteq> [] \<and> CHR '']'' \<in> set body then Some item
         else find_item s)"

text \<open>\<open>len(text.split())\<close>: the flag says that a word has begun.\<close>

fun word_count_from :: "bool \<Rightarrow> string \<Rightarrow> int" where
  "word_count_from inside [] = 0"
| "word_count_from inside (c # s) =
     (if py_space c then word_count_from False s
      else (if inside then 0 else 1) + word_count_from True s)"

definition word_count :: "string \<Rightarrow> int" where
  "word_count s = word_count_from False s"

section \<open>The adapter\<close>

record dataset_mock =
  dm_name :: string
  dm_answers :: "string \<Rightarrow> item_target option option"
  dm_dumps :: "json_object \<Rightarrow> string"

definition dataset_adapter :: "(json_object \<Rightarrow> string) \<Rightarrow> dataset_bundle \<Rightarrow> string \<Rightarrow> dataset_mock" where
  "dataset_adapter dumps dataset name =
     \<lparr>dm_name = name, dm_answers = map_of (rev (map (\<lambda>i. (di_item_id i, di_target i)) (db_items dataset))),
      dm_dumps = dumps\<rparr>"

definition local_answer :: "dataset_mock \<Rightarrow> chat_request \<Rightarrow> string" where
  "local_answer m request =
     (let prompt = concat (map (\<lambda>msg. flatten_text (cm_content msg)) (cr_messages request))
      in case find_item prompt of
           None \<Rightarrow> ''local mock completion''
         | Some item \<Rightarrow>
             (case dm_answers m item of
                Some (Some (RecordTarget r)) \<Rightarrow> dm_dumps m r
              | Some (Some (TextTarget t)) \<Rightarrow> t
              | _ \<Rightarrow> ''local mock completion''))"

definition local_usage :: "chat_request \<Rightarrow> string \<Rightarrow> normalized_usage" where
  "local_usage request answer =
     \<lparr>nu_visible = Some (word_count answer), nu_visible_source = ProviderReported,
      nu_input = Some (sum_list (map (\<lambda>msg. sum_list (map (\<lambda>p. word_count (or_str (cp_text p) ''''))
                   (cm_content msg))) (cr_messages request))),
      nu_input_source = ProviderReported,
      nu_output = Some (word_count answer), nu_output_source = ProviderReported,
      nu_special = Some 0, nu_special_source = ProviderReported\<rparr>"

definition local_chat :: "dataset_mock \<Rightarrow> chat_request \<Rightarrow> adapter_failure + provider_result" where
  "local_chat m request =
     (let answer = local_answer m request
      in validated validate_result
        \<lparr>pr_provider = dm_name m, pr_model = cr_model request, pr_output = [text_part answer],
         pr_finish_reason = Some ''stop'', pr_usage = local_usage request answer, pr_extensions = []\<rparr>)"

definition local_stream :: "dataset_mock \<Rightarrow> chat_request \<Rightarrow> stream_script" where
  "local_stream m request =
     (let answer = local_answer m request;
          cut = max 1 (length answer div 2);
          part = (\<lambda>(k, t) rest. if t = '''' then rest
                    else yield_chunk 0 (text_chunk (dm_name m) (cr_model request) k t) rest)
      in part (0, take cut answer) (part (1, drop cut answer)
           (yield_chunk 0 (final_chunk (dm_name m) (cr_model request) 2 ''stop'' (local_usage request answer)) [])))"

definition local_health :: "rat \<Rightarrow> provider_health" where
  "local_health now = \<lparr>ph_healthy = True, ph_checked_at = utc now, ph_detail = Some ''local mock''\<rparr>"

definition local_price :: "normalized_usage \<Rightarrow> string \<Rightarrow> money option" where
  "local_price u model = None"

definition local_adapters ::
    "(json_object \<Rightarrow> string) \<Rightarrow> dataset_bundle \<Rightarrow> string \<Rightarrow> dataset_mock option" where
  "local_adapters dumps dataset name =
     (if name \<in> {''private-vllm'', ''managed-economy'', ''managed-premium''}
      then Some (dataset_adapter dumps dataset name) else None)"

section \<open>Lemmas\<close>

lemma word_count_nonneg: "0 \<le> word_count_from b s"
  by (induction b s rule: word_count_from.induct) auto

lemma local_usage_valid: "validate_usage (local_usage request answer) = Inr ()"
proof -
  have "0 \<le> sum_list (map (\<lambda>msg. sum_list (map (\<lambda>p. word_count (or_str (cp_text p) '''')) (cm_content msg)))
      (cr_messages request))"
    by (intro sum_list_nonneg) (auto intro!: sum_list_nonneg simp: word_count_nonneg word_count_def)
  then show ?thesis
    by (simp add: validate_usage_iff usage_pairs_def token_count_ok_def local_usage_def word_count_nonneg
        word_count_def)
qed

lemma find_item_marked:
  assumes "item \<noteq> ''''" "CHR '']'' \<notin> set item"
  shows "find_item (item_marker @ item @ CHR '']'' # rest) = Some item"
proof -
  have "takeWhile (\<lambda>x. x \<noteq> CHR '']'') (item @ CHR '']'' # rest) = item"
    using assms(2) by (simp add: takeWhile_append)
  then show ?thesis
    using assms(1) by (simp add: item_marker_def starts_with_code)
qed

text \<open>The request the harness makes for an item, as the wire reads it and the gateway translates it.\<close>

definition message_json :: "wire_message \<Rightarrow> json" where
  "message_json m = JObj [(''role'', JStr (wr_role m)), (''content'', JStr (wr_content m))]"

definition carries :: "scenario \<Rightarrow> dataset_item \<Rightarrow> wire_request \<Rightarrow> bool" where
  "carries s item w \<longleftrightarrow>
     dict_get (call_body s item) ''messages'' = JArr (map message_json (wq_messages w))"

definition asks_for :: "dataset_item \<Rightarrow> chat_request \<Rightarrow> bool" where
  "asks_for item request \<longleftrightarrow>
     map cm_content (cr_messages request)
       = [[text_part (item_marker @ di_item_id item @ CHR '']'' # CHR 0x0A # di_prompt item)]]"

lemma harness_asks_for:
  assumes "carries s item w" "to_canonical w workload d q request_id = Inr canonical"
    and "cr_messages request = cr_messages canonical"
  shows "asks_for item request"
proof -
  obtain m where "wq_messages w = [m]" "wr_role m = ''user''"
      "wr_content m = item_marker @ di_item_id item @ CHR '']'' # CHR 0x0A # di_prompt item"
    using assms(1)
    by (cases "wq_messages w") (auto simp: carries_def call_body_def message_json_def item_marker_def dict_get_def)
  then show ?thesis
    using assms(2,3) by (auto simp: to_canonical_def wire_to_message_def wire_role_def asks_for_def bind_res_Inr Let_def)
qed

lemma answer_for:
  assumes "item \<in> set (db_items dataset)" "distinct (map di_item_id (db_items dataset))"
    and "di_item_id item \<noteq> ''''" "CHR '']'' \<notin> set (di_item_id item)" "asks_for item request"
  shows "local_answer (dataset_adapter dumps dataset name) request =
    (case di_target item of
       Some (RecordTarget r) \<Rightarrow> dumps r | Some (TextTarget t) \<Rightarrow> t | _ \<Rightarrow> ''local mock completion'')"
proof -
  let ?pairs = "map (\<lambda>i. (di_item_id i, di_target i)) (db_items dataset)"
  have "distinct (map fst (rev ?pairs))" using assms(2) by (simp add: comp_def rev_map [symmetric])
  moreover have "(di_item_id item, di_target item) \<in> set (rev ?pairs)" using assms(1) by auto
  ultimately have found: "map_of (rev ?pairs) (di_item_id item) = Some (di_target item)" by (rule map_of_is_SomeI)
  obtain msg where "cr_messages request = [msg]"
    "cm_content msg = [text_part (item_marker @ di_item_id item @ CHR '']'' # CHR 0x0A # di_prompt item)]"
    using assms(5) by (auto simp: asks_for_def)
  then have "concat (map (\<lambda>msg. flatten_text (cm_content msg)) (cr_messages request))
      = item_marker @ di_item_id item @ CHR '']'' # CHR 0x0A # di_prompt item"
    by (simp add: flatten_text_def text_part_def or_str_def)
  then show ?thesis
    using found find_item_marked [OF assms(3,4)]
    by (simp add: local_answer_def dataset_adapter_def Let_def split: option.split item_target.split)
qed

lemma own_record_matches: "well_keyed r \<Longrightarrow> ev_task_correct (score_record te r r)"
  by (force simp: score_record_def Let_def field_matches_def list_all_iff dict_keys_def dict_get_def
      well_keyed_def image_iff split: option.split)

text \<open>A target the evaluators recognise: a label that is its own normal form, or a record that survives
  its text.\<close>

definition gradable ::
    "text_env \<Rightarrow> (json_object \<Rightarrow> string) \<Rightarrow> workload_kind \<Rightarrow> string list option \<Rightarrow> item_target option \<Rightarrow> bool" where
  "gradable te dumps w labels target =
     (case target of
        Some (TextTarget t) \<Rightarrow> w = Classification \<and> (case labels of None \<Rightarrow> False | Some ls \<Rightarrow> t \<in> set ls)
          \<and> strip_chars token_strip_chars (normalize_text te t) = normalize_text te t
      | Some (RecordTarget r) \<Rightarrow> w = StructuredExtraction \<and> distinct (dict_keys r)
          \<and> te_loads te (strip_code_fence te (dumps r)) = Some (JObj r)
      | _ \<Rightarrow> False)"

lemma local_answer_graded:
  assumes "item \<in> set (db_items dataset)" "distinct (map di_item_id (db_items dataset))"
    and "di_item_id item \<noteq> ''''" "CHR '']'' \<notin> set (di_item_id item)" "asks_for item request"
    and "gradable te dumps w labels (di_target item)"
  shows "\<exists>score. quality te w (local_answer (dataset_adapter dumps dataset name) request)
      (di_target item) labels = Inr (Some True, Some score)"
proof -
  note answer = answer_for [OF assms(1-5), of dumps name]
  show ?thesis
  proof (cases "di_target item")
    case (Some target)
    show ?thesis
    proof (cases target)
      case (TextTarget t)
      then show ?thesis
        using Some assms(6) answer
        by (auto simp: quality_def evaluate_classification_def Let_def gradable_def split: option.splits list.splits)
    next
      case (RecordTarget r)
      then show ?thesis
        using Some assms(6) answer own_record_matches [of r te]
        by (simp add: quality_def evaluate_extraction_def gradable_def well_keyed_def dict_keys_def Let_def)
    qed (use Some assms(6) in \<open>simp add: gradable_def\<close>)
  qed (use assms(6) in \<open>simp add: gradable_def\<close>)
qed

lemma local_chat_answers:
  assumes "dm_name m \<noteq> ''''" "cr_model request \<noteq> ''''"
  shows "local_chat m request = Inr \<lparr>pr_provider = dm_name m, pr_model = cr_model request,
    pr_output = [text_part (local_answer m request)], pr_finish_reason = Some ''stop'',
    pr_usage = local_usage request (local_answer m request), pr_extensions = []\<rparr>"
  using assms local_usage_valid [of request "local_answer m request"]
  by (simp add: local_chat_def Let_def validate_result_def text_part_def validate_content_part_def)

section \<open>Properties\<close>

text \<open>
  C36. A local run is graded correct throughout: a request that carries the harness's message for an
  item of the data set, once the gateway has translated it, is answered by the in-process adapter
  with the item's target, and the harness scores the answer as correct, whatever the rest of the
  request, for a label that is its own normal form and for a record that survives its text.
\<close>

theorem local_answers_score:
  assumes "local_adapters dumps dataset name = Some m"
    and "item \<in> set (db_items dataset)" "distinct (map di_item_id (db_items dataset))"
    and "di_item_id item \<noteq> ''''" "CHR '']'' \<notin> set (di_item_id item)"
    and "gradable te dumps w labels (di_target item)"
    and "carries s item wire" "to_canonical wire workload d q request_id = Inr canonical"
    and "cr_messages request = cr_messages canonical" "cr_model request \<noteq> ''''"
  shows "\<exists>r score. local_chat m request = Inr r
    \<and> quality te w (flatten_text (pr_output r)) (di_target item) labels = Inr (Some True, Some score)"
proof -
  have m: "m = dataset_adapter dumps dataset name" "dm_name m \<noteq> ''''"
    using assms(1) by (auto simp: local_adapters_def dataset_adapter_def split: if_splits)
  show ?thesis
    using local_answer_graded [OF assms(2-5) harness_asks_for [OF assms(7-9)] assms(6), of name]
      local_chat_answers [OF m(2) assms(10)]
    by (simp add: m(1) flatten_text_def text_part_def or_str_def)
qed

text \<open>
  The local stream is the local answer: on a named adapter and model its chunks carry the text
  that \<open>chat\<close> returns, with rising sequence numbers, and the last of them, the only final one, has
  the same finish reason and usage.
\<close>

theorem local_stream_is_chat:
  assumes "dm_name m \<noteq> ''''" "cr_model request \<noteq> ''''"
  shows "\<exists>r. local_chat m request = Inr r
    \<and> flatten_text (concat (map pc_delta (script_chunks (local_stream m request)))) = flatten_text (pr_output r)
    \<and> script_end (local_stream m request) = EndEvent
    \<and> sorted_wrt (\<lambda>c c'. pc_sequence c < pc_sequence c') (script_chunks (local_stream m request))
    \<and> unfinished (butlast (script_chunks (local_stream m request)))
    \<and> (let c = last (script_chunks (local_stream m request))
       in pc_is_final c \<and> pc_finish_reason c = pr_finish_reason r \<and> pc_usage c = Some (pr_usage r))"
proof -
  let ?a = "local_answer m request" and ?cut = "max 1 (length (local_answer m request) div 2)"
  let ?u = "local_usage request ?a" and ?text = "text_chunk (dm_name m) (cr_model request)"
  let ?final = "final_chunk (dm_name m) (cr_model request) 2 ''stop'' ?u"
  have stream: "local_stream m request =
      (if take ?cut ?a = '''' then [] else [(0, ChunkEvent (?text 0 (take ?cut ?a)))])
      @ (if drop ?cut ?a = '''' then [] else [(0, ChunkEvent (?text 1 (drop ?cut ?a)))])
      @ [(0, ChunkEvent ?final)]"
    using text_chunk_valid [OF assms] final_chunk_valid [OF assms _ local_usage_valid]
    by (simp add: local_stream_def Let_def yield_chunk_def validated_def)
  have whole: "take ?cut ?a @ drop ?cut ?a = ?a" by simp
  have "local_chat m request = Inr \<lparr>pr_provider = dm_name m, pr_model = cr_model request, pr_output = [text_part ?a],
      pr_finish_reason = Some ''stop'', pr_usage = ?u, pr_extensions = []\<rparr>"
    by (rule local_chat_answers [OF assms])
  then show ?thesis
    using whole unfolding stream
    by (auto simp: flatten_text_def text_part_def or_str_def final_chunk_def text_chunk_def simp del: append_take_drop_id)
qed

section \<open>The properties at concrete inputs\<close>

definition local_data :: dataset_bundle where
  "local_data = \<lparr>db_name = ''n'', db_version = ''1'', db_workload = ''classification'', db_seed = 1,
     db_checksum = ''c'', db_items = [lab_item]\<rparr>"

definition local_wire :: wire_request where
  "local_wire = \<lparr>wq_model = ''m'', wq_messages = [\<lparr>wr_role = ''user'',
       wr_content = item_marker @ ''c-1]'' @ [CHR 0x0A] @ ''p'', wr_name = None\<rparr>],
     wq_temperature = 0, wq_max_tokens = 8, wq_stream = False\<rparr>"

definition local_request :: chat_request where
  "local_request = (case to_canonical local_wire ''generic'' Public Economy ''r-1'' of Inr c \<Rightarrow> c | Inl _ \<Rightarrow> undefined)"

lemma local_request_parsed: "to_canonical local_wire ''generic'' Public Economy ''r-1'' = Inr local_request"
proof -
  have "case to_canonical local_wire ''generic'' Public Economy ''r-1'' of Inl _ \<Rightarrow> False | Inr _ \<Rightarrow> True" by code_simp
  then show ?thesis by (auto simp: local_request_def split: sum.splits)
qed

lemma canonical_model:
  assumes "to_canonical w workload d q request_id = Inr r"
  shows "cr_model r = wq_model w"
  using assms by (auto simp: to_canonical_def bind_res_Inr Let_def)

lemma local_request_model: "cr_model local_request = ''m''"
  using canonical_model [OF local_request_parsed] by (simp add: local_wire_def)

theorem local_answers_score_witness:
  "\<exists>r score. local_chat (dataset_adapter (\<lambda>r. ''{}'') local_data ''private-vllm'') local_request = Inr r
    \<and> quality lab_text Classification (flatten_text (pr_output r)) (Some (TextTarget ''spam''))
        (Some [''ham'', ''spam'']) = Inr (Some True, Some score)"
proof -
  have adapter: "local_adapters (\<lambda>r. ''{}'') local_data ''private-vllm''
      = Some (dataset_adapter (\<lambda>r. ''{}'') local_data ''private-vllm'')" by (simp add: local_adapters_def)
  have target: "di_target lab_item = Some (TextTarget ''spam'')" by (simp add: lab_item_def)
  have "gradable lab_text (\<lambda>r. ''{}'') Classification (Some [''ham'', ''spam'']) (Some (TextTarget ''spam''))"
    by code_simp
  then show ?thesis
    using local_answers_score [OF adapter, of lab_item lab_text Classification "Some [''ham'', ''spam'']"
        "lab_scenario HybridMode lab_mix" local_wire, OF _ _ _ _ _ _ local_request_parsed refl]
    by (simp add: target local_data_def local_request_model carries_def call_body_def message_json_def local_wire_def
        lab_item_def item_marker_def dict_get_def)
qed

theorem local_stream_is_chat_witness:
  "\<exists>r. local_chat (dataset_adapter (\<lambda>r. ''{}'') local_data ''private-vllm'') local_request = Inr r
    \<and> pr_finish_reason r
      = pc_finish_reason (last (script_chunks (local_stream (dataset_adapter (\<lambda>r. ''{}'') local_data ''private-vllm'')
          local_request)))"
  using local_stream_is_chat [of "dataset_adapter (\<lambda>r. ''{}'') local_data ''private-vllm''" local_request]
  by (auto simp: local_request_model dataset_adapter_def Let_def)

end
