(* ===== verification/Service.thy ===== *)
theory Service
  imports Loading Local_Adapter
begin

text \<open>
  The gateway as a process: the entry point \<open>build_app\<close> with its log formatter (\<open>main.py\<close>),
  the health endpoints (\<open>api/routes.py\<close>), the in-process gateway of a local benchmark
  (\<open>benchmark/__main__.py\<close>) and the smoke check over a running stack (\<open>local_smoke.py\<close>).
\<close>

section \<open>Entry point\<close>

datatype startup_error = StartLoad load_error | StartWiring wiring_error

definition on_error :: "('e \<Rightarrow> 'f) \<Rightarrow> 'e + 'a \<Rightarrow> 'f + 'a" where
  "on_error f r = (case r of Inl e \<Rightarrow> Inl (f e) | Inr x \<Rightarrow> Inr x)"

definition env_or :: "(string \<Rightarrow> string option) \<Rightarrow> string \<Rightarrow> string \<Rightarrow> string" where
  "env_or vars name d = (case vars name of None \<Rightarrow> d | Some v \<Rightarrow> v)"

definition build_app ::
    "load_env \<Rightarrow> (string \<Rightarrow> string option) \<Rightarrow> upstreams \<Rightarrow> startup_error + gateway_state" where
  "build_app le vars up =
     (let providers_path = env_or vars ''GATEWAY_PROVIDERS_CONFIG'' ''config/providers.yaml'';
          routing_path = env_or vars ''GATEWAY_ROUTING_CONFIG'' ''policy/routing.yaml'';
          auth_path = env_or vars ''GATEWAY_AUTH_CONFIG'' ''config/auth.yaml''
      in bind_res (on_error StartLoad (load_gateway_config le providers_path routing_path)) (\<lambda>config.
         bind_res (on_error StartLoad (load_auth_config le auth_path)) (\<lambda>auth.
           on_error StartWiring (create_app config auth vars up None))))"

section \<open>Log lines\<close>

text \<open>A log record: what every record has, and \<open>getattr(record, field, None)\<close>.\<close>

record log_record =
  lr_time :: string
  lr_level :: string
  lr_logger :: string
  lr_message :: string
  lr_attribute :: "string \<Rightarrow> json"

definition log_fields :: "string list" where
  "log_fields =
     [''request_id'', ''team'', ''workload'', ''outcome'', ''provider'', ''rule'', ''latency_seconds'',
      ''fallback_count'']"

definition log_payload :: "log_record \<Rightarrow> json_object" where
  "log_payload r =
     [(''ts'', JStr (lr_time r)), (''level'', JStr (lr_level r)), (''logger'', JStr (lr_logger r)),
      (''event'', JStr (lr_message r))]
     @ filter (\<lambda>e. snd e \<noteq> JNull) (map (\<lambda>f. (f, lr_attribute r f)) log_fields)"

text \<open>The access log's \<open>extra\<close>, with the rounded latency beside the entry.\<close>

definition nullable_str :: "string option \<Rightarrow> json" where
  "nullable_str x = (case x of None \<Rightarrow> JNull | Some s \<Rightarrow> JStr s)"

definition access_attribute :: "access_entry \<Rightarrow> pyfloat \<Rightarrow> string \<Rightarrow> json" where
  "access_attribute e latency f =
     (case map_of
        [(''request_id'', JStr (al_request_id e)), (''team'', JStr (al_team e)),
         (''workload'', JStr (al_workload e)), (''outcome'', JStr (al_outcome e)),
         (''provider'', nullable_str (al_provider e)), (''rule'', nullable_str (al_rule e)),
         (''latency_seconds'', JFloat latency), (''fallback_count'', JInt (int (al_fallback_count e)))] f
      of None \<Rightarrow> JNull | Some v \<Rightarrow> v)"

section \<open>Health endpoints\<close>

text \<open>
  The adapters in the order of the state's dictionary. A check that raised is reported by the
  name of the exception's class.
\<close>

definition live_report :: json_object where
  "live_report = [(''status'', JStr ''live'')]"

definition ready_report :: "string list \<Rightarrow> json_object" where
  "ready_report names = [(''status'', JStr ''ready''), (''providers'', JArr (map JStr (sort names)))]"

definition health_entry :: "string + provider_health \<Rightarrow> json" where
  "health_entry check =
     (case check of
        Inl exception_class \<Rightarrow> JObj [(''healthy'', JBool False), (''detail'', JStr exception_class)]
      | Inr h \<Rightarrow> JObj [(''healthy'', JBool (ph_healthy h)), (''detail'', nullable_str (ph_detail h))])"

definition health_report :: "(string \<times> (string + provider_health)) list \<Rightarrow> json_object" where
  "health_report checks = [(''providers'', JObj (map (\<lambda>(n, c). (n, health_entry c)) checks))]"

section \<open>The in-process gateway of a local benchmark\<close>

text \<open>One key, of one team, and the adapters of the data set, for the loaded configuration.\<close>

definition local_key :: string where
  "local_key = ''local-benchmark-key''"

definition local_auth :: "(string \<Rightarrow> string) \<Rightarrow> auth_config" where
  "local_auth hash_api_key =
     \<lparr>ac_keys = [\<lparr>ak_sha256 = hash_api_key local_key, ak_team = ''local-benchmark''\<rparr>]\<rparr>"

definition local_gateway ::
    "load_env \<Rightarrow> (string \<Rightarrow> string) \<Rightarrow> upstreams \<Rightarrow> (string \<times> provider_adapter) list \<Rightarrow> string \<Rightarrow> string
      \<Rightarrow> startup_error + gateway_state" where
  "local_gateway le hash_api_key up adapters pricing_path timeout_path =
     bind_res (on_error StartLoad (load_gateway_config le pricing_path timeout_path)) (\<lambda>config.
       on_error StartWiring (create_app config (local_auth hash_api_key) (\<lambda>_. None) up (Some adapters)))"

section \<open>The smoke check\<close>

record smoke_response =
  sr_status :: int
  sr_headers :: "(string \<times> string) list"
  sr_text :: string
  sr_json :: "json option"

definition smoke_headers :: "string \<Rightarrow> string \<Rightarrow> string \<Rightarrow> (string \<times> string) list" where
  "smoke_headers api_key data_class quality_tier =
     [(''Authorization'', ''Bearer '' @ api_key), (''X-Gateway-Workload'', ''generic''),
      (''X-Gateway-Data-Class'', data_class), (''X-Gateway-Quality-Tier'', quality_tier)]"

definition smoke_body :: json_object where
  "smoke_body =
     [(''model'', JStr ''lab-default''),
      (''messages'', JArr [JObj [(''role'', JStr ''user''), (''content'', JStr ''local smoke'')]]),
      (''max_tokens'', JInt 32)]"

fun contains_text :: "string \<Rightarrow> string \<Rightarrow> bool" where
  "contains_text w [] = (w = [])"
| "contains_text w (c # s) = (starts_with (c # s) w \<or> contains_text w s)"

record smoke_checks =
  sk_auth :: int
  sk_non_stream :: int
  sk_stream :: int
  sk_restricted :: int
  sk_restricted_provider :: "string option"
  sk_metrics :: bool

definition expected_checks :: smoke_checks where
  "expected_checks =
     \<lparr>sk_auth = 401, sk_non_stream = 200, sk_stream = 200, sk_restricted = 200,
      sk_restricted_provider = Some ''private-vllm'', sk_metrics = True\<rparr>"

text \<open>The text of the plain answer: \<open>happy.json()["choices"][0]["message"]["content"]\<close>.\<close>

definition answer_content :: "json option \<Rightarrow> string + json" where
  "answer_content v =
     (case v of
        None \<Rightarrow> Inl ''JSONDecodeError''
      | Some j \<Rightarrow> bind_res (json_item j ''choices'') (\<lambda>cs. bind_res (json_first cs) (\<lambda>c.
                  bind_res (json_item c ''message'') (\<lambda>m. json_item m ''content''))))"

text \<open>
  The requests are numbered in the order they are sent; \<open>post i headers body\<close> is what the
  gateway answers to the i-th, given everything before it.
\<close>

definition exercise ::
    "(nat \<Rightarrow> (string \<times> string) list \<Rightarrow> json_object \<Rightarrow> smoke_response) \<Rightarrow> string \<Rightarrow> string
      \<Rightarrow> string + smoke_checks" where
  "exercise post metrics_text api_key =
     (let auth_failure = post 0 (smoke_headers ''wrong-key'' ''internal'' ''economy'') smoke_body;
          happy = post 1 (smoke_headers api_key ''internal'' ''economy'') smoke_body;
          stream = post 2 (smoke_headers api_key ''internal'' ''economy'')
            (smoke_body @ [(''stream'', JBool True)]);
          restricted = post 3 (smoke_headers api_key ''restricted'' ''premium'') smoke_body;
          checks =
            \<lparr>sk_auth = sr_status auth_failure, sk_non_stream = sr_status happy,
             sk_stream = sr_status stream, sk_restricted = sr_status restricted,
             sk_restricted_provider = map_of (sr_headers restricted) ''X-Gateway-Provider'',
             sk_metrics = contains_text ''gateway_requests_total'' metrics_text\<rparr>
      in if checks \<noteq> expected_checks then Inl ''local smoke failed''
         else bind_res (answer_content (sr_json happy)) (\<lambda>content.
           if content \<noteq> JStr ''fault mock completion''
           then Inl ''local smoke non-stream payload mismatch''
           else if \<not> contains_text ''fault mock'' (sr_text stream)
                   \<or> \<not> contains_text ''data: [DONE]'' (sr_text stream)
           then Inl ''local smoke stream payload mismatch''
           else Inr checks))"

text \<open>Waiting for both processes: at most \<open>n\<close> polls, given up when one has exited.\<close>

datatype poll_result = ProcessExited | ProbeFailed | Probed int int

fun await_ready :: "nat \<Rightarrow> (nat \<Rightarrow> poll_result) \<Rightarrow> nat \<Rightarrow> bool" where
  "await_ready 0 poll i = False"
| "await_ready (Suc n) poll i =
     (case poll i of
        ProcessExited \<Rightarrow> False
      | ProbeFailed \<Rightarrow> await_ready n poll (Suc i)
      | Probed gateway fault \<Rightarrow>
          if gateway = 200 \<and> fault = 200 then True else await_ready n poll (Suc i))"

definition smoke_ports :: "nat \<Rightarrow> nat \<times> nat" where
  "smoke_ports seed = (20000 + seed mod 10000, 30000 + seed mod 10000)"

section \<open>Lemmas\<close>

lemma on_error_Inr [simp]: "on_error f r = Inr x \<longleftrightarrow> r = Inr x"
  by (simp add: on_error_def split: sum.split)

lemma build_app_Inr:
  assumes "build_app le vars up = Inr st"
  shows "validate_document (gc_providers (gs_config st)) = Inr ()"
    and "validate_policy (gc_routing (gs_config st)) = Inr ()"
    and "routing_matches_provider_document (gs_config st) = Inr ()"
    and "auth_config_ok (gs_auth st)"
    and "create_app (gs_config st) (gs_auth st) vars up None = Inr st"
proof -
  obtain config auth pp rp ap where load: "load_gateway_config le pp rp = Inr config"
      "load_auth_config le ap = Inr auth" and create: "create_app config auth vars up None = Inr st"
    using assms by (auto simp: build_app_def Let_def bind_res_Inr)
  have same: "gs_config st = config" "gs_auth st = auth"
    using create by (auto simp: create_app_def Let_def bind_res_Inr split: if_splits)
  show "validate_document (gc_providers (gs_config st)) = Inr ()"
    "validate_policy (gc_routing (gs_config st)) = Inr ()"
    "routing_matches_provider_document (gs_config st) = Inr ()"
    using load_gateway_config_Inr [OF load(1)] by (simp_all add: same)
  show "auth_config_ok (gs_auth st)" using load_auth_config_ok [OF load(2)] by (simp add: same)
  show "create_app (gs_config st) (gs_auth st) vars up None = Inr st" using create by (simp add: same)
qed

text \<open>A log line has the four fixed keys and identifiers and labels, and no other.\<close>

lemma log_payload_keys:
  "set (map fst (log_payload r)) \<subseteq> set ([''ts'', ''level'', ''logger'', ''event''] @ log_fields)"
  by (auto simp: log_payload_def)

lemma access_line:
  assumes "lr_attribute r = access_attribute e latency"
  shows "map_of (log_payload r) ''request_id'' = Some (JStr (al_request_id e))"
    and "map_of (log_payload r) ''outcome'' = Some (JStr (al_outcome e))"
    and "map_of (log_payload r) ''provider'' = map_option JStr (al_provider e)"
  using assms
  by (simp_all add: log_payload_def log_fields_def access_attribute_def nullable_str_def split: option.split)

text \<open>A failed check never hides the others: every adapter is reported once, in order.\<close>

lemma health_report_names:
  "\<exists>entries. health_report checks = [(''providers'', JObj entries)] \<and> map fst entries = map fst checks"
  by (auto simp: health_report_def)

text \<open>The loop is ready exactly if, before an exit, some poll within the bound saw both answer.\<close>

lemma await_ready_iff:
  "await_ready n poll i \<longleftrightarrow>
     (\<exists>k < n. poll (i + k) = Probed 200 200 \<and> (\<forall>j < k. poll (i + j) \<noteq> ProcessExited))"
proof (induction n arbitrary: i)
  case (Suc n)
  have split: "(\<exists>k < Suc n. poll (i + k) = Probed 200 200 \<and> (\<forall>j < k. poll (i + j) \<noteq> ProcessExited)) \<longleftrightarrow>
      poll i = Probed 200 200
      \<or> poll i \<noteq> ProcessExited \<and> (\<exists>k < n. poll (Suc i + k) = Probed 200 200 \<and> (\<forall>j < k. poll (Suc i + j) \<noteq> ProcessExited))"
    by (simp only: Ex_less_Suc2 All_less_Suc2 add_0_right add_Suc_right add_Suc) auto
  show ?case
    unfolding split by (cases "poll i") (use Suc [of "Suc i"] in auto)
qed simp

lemma smoke_ports_apart: "fst (smoke_ports s) < 30000 \<and> 30000 \<le> snd (smoke_ports t)"
  by (simp add: smoke_ports_def)

section \<open>Properties\<close>

text \<open>A provider that is private in the policy's provider document.\<close>

definition private_provider :: "gateway_state \<Rightarrow> string \<Rightarrow> bool" where
  "private_provider st n \<longleftrightarrow>
     (\<exists>entry p. map_of (rp_providers (gc_routing (gs_config st))) n = Some entry
        \<and> map_of (pd_providers (gc_providers (gs_config st))) (or_str (rpc_provider entry) n) = Some p
        \<and> \<not> pcf_external p)"

text \<open>
  C2. A gateway that starts is sound, from its files on: if \<open>build_app\<close> succeeds, whatever the
  files, the environment and the upstreams, then every routing provider has its adapter, every
  caller that authenticates belongs to a team with a name of 1 to 64 characters, and a request
  whose header says restricted makes the endpoint call private providers only.
\<close>

theorem started_gateway_sound:
  assumes "build_app le vars up = Inr st" "hr_data_class r = Some ''restricted''"
  shows "list_all (\<lambda>n. gs_adapters st n \<noteq> None) (dict_keys (rp_providers (gc_routing (gs_config st))))
    \<and> (case authenticate h (gs_auth st) bearer asserted of
          Inl e \<Rightarrow> True | Inr team \<Rightarrow> 1 \<le> length team \<and> length team \<le> 64)
    \<and> list_all (\<lambda>c. private_provider st (fst c)) (hd_calls (chat_completions env st r now w))"
proof -
  note b = build_app_Inr [OF assms(1)]
  have "list_all (\<lambda>n. gs_adapters st n \<noteq> None) (dict_keys (rp_providers (gc_routing (gs_config st))))"
    using create_app_covers [OF b(5)] by (fastforce simp: list_all_iff)
  moreover have "1 \<le> length team \<and> length team \<le> 64" if known: "authenticate h (gs_auth st) bearer asserted = Inr team" for team
    using authenticate_Inr [OF known] b(4) by (auto simp: auth_config_ok_def api_key_entry_ok_def list_all_iff)
  moreover have "private_provider st (fst c)" if call: "c \<in> set (hd_calls (chat_completions env st r now w))" for c
  proof -
    obtain ad dec where ad: "admission env st r = Inr ad" and dec:
      "select_route (gc_routing (gs_config st)) (ad_data_class ad) (ad_workload ad) (ad_quality_tier ad) = Inr dec"
      "fst c \<in> set (decision_providers dec)"
      by (rule chat_completions_calls [OF call])
    have "ad_data_class ad = Restricted"
      using admission_Inr(4) [OF ad] assms(2) data_class_enum.parse_iff [of "''restricted''" "ad_data_class ad"]
      by (cases "ad_data_class ad") (auto simp: parse_data_class_def)
    with dec restricted_route_private [OF b(2,3)] show ?thesis unfolding private_provider_def by metis
  qed
  ultimately show ?thesis by (auto simp: list_all_iff split: sum.split)
qed

text \<open>The documents of \<open>Lab_Config\<close> as the YAML loader returns them.\<close>

definition yaml_object :: "(string \<times> yaml) list \<Rightarrow> yaml" where
  "yaml_object kvs = YMap (map (\<lambda>(k, v). (YStr k, v)) kvs)"

definition lab_price_yaml :: "string \<Rightarrow> string \<Rightarrow> yaml" where
  "lab_price_yaml inp out =
     yaml_object [(''currency'', YStr ''USD''), (''effective_date'', YDate (2026, 8, 15)),
       (''input_per_1m'', YStr inp), (''output_per_1m'', YStr out), (''cached_input_per_1m'', YNull),
       (''source_url'', YStr ''https://platform.claude.com/docs/en/pricing.md'')]"

definition lab_model_yaml :: "string \<Rightarrow> bool \<Rightarrow> yaml" where
  "lab_model_yaml m b = yaml_object [(''upstream_model'', YStr m), (''supports_sampling'', YBool b)]"

definition lab_providers_yaml :: yaml where
  "lab_providers_yaml = yaml_object
     [(''providers'', yaml_object
        [(''private-vllm'', yaml_object
            [(''kind'', YStr ''openai_compatible''), (''external'', YBool False),
             (''models'', yaml_object [(''lab-private'', lab_model_yaml ''lab-private'' True)]),
             (''base_url_env'', YStr ''PRIVATE_VLLM_BASE_URL''), (''api_key_env'', YStr ''PRIVATE_VLLM_API_KEY'')]),
         (''managed-primary'', yaml_object
            [(''kind'', YStr ''managed''), (''external'', YBool True), (''adapter'', YStr ''anthropic''),
             (''models'', yaml_object
                [(''lab-economy'', lab_model_yaml ''claude-haiku-4-5-20251001'' True),
                 (''lab-premium'', yaml_object [(''upstream_model'', YStr ''claude-opus-5'')])]),
             (''api_key_env'', YStr ''MANAGED_PRIMARY_API_KEY'')])]),
      (''route_aliases'', yaml_object
        [(''lab-default'', yaml_object [(''provider'', YStr ''private-vllm''), (''model'', YStr ''lab-private'')]),
         (''managed-economy'', yaml_object [(''provider'', YStr ''managed-primary''), (''model'', YStr ''lab-economy'')]),
         (''managed-premium'', yaml_object [(''provider'', YStr ''managed-primary''), (''model'', YStr ''lab-premium'')])]),
      (''pricing'', yaml_object
        [(''managed-primary'', yaml_object
            [(''lab-economy'', lab_price_yaml ''1.00'' ''5.00''), (''lab-premium'', lab_price_yaml ''5.00'' ''25.00'')])])]"

definition lab_rule_yaml :: "string \<Rightarrow> string list \<Rightarrow> string list \<Rightarrow> string list \<Rightarrow> yaml" where
  "lab_rule_yaml name classes tiers route =
     yaml_object [(''name'', YStr name),
       (''when'', yaml_object ([(''data_class'', YSeq (map YStr classes))]
          @ (if tiers = [] then [] else [(''quality_tier'', YSeq (map YStr tiers))]))),
       (''route'', YSeq (map YStr route))]"

definition lab_routing_yaml :: yaml where
  "lab_routing_yaml = yaml_object
     [(''version'', YInt 1),
      (''providers'', yaml_object
        [(''private-vllm'', yaml_object [(''type'', YStr ''openai-compatible''), (''external'', YBool False)]),
         (''managed-economy'', yaml_object [(''type'', YStr ''managed''), (''provider'', YStr ''managed-primary''),
             (''model_alias'', YStr ''lab-economy''), (''external'', YBool True)]),
         (''managed-premium'', yaml_object [(''type'', YStr ''managed''), (''provider'', YStr ''managed-primary''),
             (''model_alias'', YStr ''lab-premium''), (''external'', YBool True)])]),
      (''rules'', YSeq
        [lab_rule_yaml ''restricted-private-only'' [''restricted''] [] [''private-vllm''],
         lab_rule_yaml ''economy-default'' [''public'', ''internal''] [''economy''] [''private-vllm'', ''managed-economy''],
         lab_rule_yaml ''confidential-default'' [''confidential''] [''economy'', ''balanced''] [''private-vllm''],
         lab_rule_yaml ''premium-default'' [''public'', ''internal'', ''confidential''] [''premium'']
           [''managed-premium'', ''private-vllm''],
         lab_rule_yaml ''balanced-default'' [''public'', ''internal''] [''balanced''] [''private-vllm'', ''managed-premium'']]),
      (''fallback'', yaml_object
        [(''on'', YSeq (map YStr [''timeout'', ''rate_limited'', ''provider_5xx''])), (''max_attempts'', YInt 2),
         (''never_cross_data_policy'', YBool True)]),
      (''timeouts'', yaml_object
        [(''connect_timeout'', YInt 1), (''response_header_timeout'', YInt 2), (''stream_idle_timeout'', YInt 2),
         (''per_attempt_timeout'', YInt 3), (''global_request_deadline'', YInt 5)])]"

definition lab_auth_yaml :: yaml where
  "lab_auth_yaml = yaml_object
     [(''keys'', YSeq [yaml_object [(''sha256'', YStr (replicate 64 (CHR ''a''))), (''team'', YStr ''platform-lab'')]])]"

definition lab_load :: load_env where
  "lab_load =
     \<lparr>le_files = map_of [(''config/providers.yaml'', ''P''), (''policy/routing.yaml'', ''R''), (''config/auth.yaml'', ''A'')],
      le_base = (\<lambda>c. []),
      le_yaml = (\<lambda>table s. if s = ''P'' then Inr lab_providers_yaml else if s = ''R'' then Inr lab_routing_yaml
                  else if s = ''A'' then Inr lab_auth_yaml else Inl YamlError),
      le_bool = (\<lambda>v. case v of YBool b \<Rightarrow> Some b | _ \<Rightarrow> None),
      le_int = (\<lambda>v. case v of YInt i \<Rightarrow> Some i | _ \<Rightarrow> None),
      le_float = (\<lambda>v. case v of YInt i \<Rightarrow> Some (of_int i) | YFloat x \<Rightarrow> Some x | _ \<Rightarrow> None),
      le_date = (\<lambda>v. case v of YDate d \<Rightarrow> Some d | _ \<Rightarrow> None)\<rparr>"

lemma lab_load_providers: "load_providers lab_load ''config/providers.yaml'' = Inr lab_providers"
  by code_simp

lemma lab_load_routing: "load_routing_policy lab_load ''policy/routing.yaml'' = Inr lab_policy"
  by code_simp

text \<open>The first permitted provider is called if there is time for it.\<close>

lemma executor_first_call:
  assumes "permitted_providers p dec (rm_data_class (cr_metadata request)) = Inr (n # ns)"
    and "0 < remaining_seconds ctx now" "adapters n \<noteq> None"
  shows "(n, now) \<in> set (ex_calls (executor_chat adapters p request ctx dec now))"
  using assms
  by (auto simp: executor_chat_def Let_def split: option.splits attempt_result.splits prod.splits)

definition lab_key :: string where
  "lab_key = replicate 64 (CHR ''a'')"

definition lab_keys :: auth_config where
  "lab_keys = \<lparr>ac_keys = [\<lparr>ak_sha256 = lab_key, ak_team = ''platform-lab''\<rparr>]\<rparr>"

lemma lab_load_auth: "load_auth_config lab_load ''config/auth.yaml'' = Inr lab_keys"
  by code_simp

lemma lab_build_app:
  "\<exists>st. build_app lab_load lab_environment lab_upstreams = Inr st \<and> gs_config st = lab_gateway
    \<and> gs_auth st = lab_keys"
proof -
  obtain st where st: "create_app lab_gateway lab_keys lab_environment lab_upstreams None = Inr st"
    using lab_create by blast
  have config: "load_gateway_config lab_load ''config/providers.yaml'' ''policy/routing.yaml'' = Inr lab_gateway"
    using lab_gateway_valid
    by (simp add: load_gateway_config_def lab_load_providers lab_load_routing lab_gateway_def)
  have "env_or lab_environment ''GATEWAY_PROVIDERS_CONFIG'' d = d" "env_or lab_environment ''GATEWAY_ROUTING_CONFIG'' d = d"
    "env_or lab_environment ''GATEWAY_AUTH_CONFIG'' d = d" for d
    by (simp_all add: env_or_def lab_environment_def)
  then have "build_app lab_load lab_environment lab_upstreams = Inr st"
    using st by (simp add: build_app_def config lab_load_auth on_error_def)
  moreover have "gs_config st = lab_gateway" "gs_auth st = lab_keys"
    using st by (auto simp: create_app_def Let_def bind_res_Inr split: if_splits)
  ultimately show ?thesis by blast
qed

lemma lab_key_admitted:
  assumes "gs_config st = lab_gateway" "gs_auth st = lab_keys"
  shows "admission (lab_env (lab_wire False)) st (lab_http ''restricted'' (Some lab_key)) = Inr (lab_admitted Restricted)"
proof -
  have "bearer_key (Some (''Bearer '' @ lab_key)) = Some lab_key" "truthy_str (Some lab_key)" by code_simp+
  then have "authenticate (ge_hash (lab_env (lab_wire False))) (gs_auth st)
      (bearer_key (hr_authorization (lab_http ''restricted'' (Some lab_key)))) None = Inr ''platform-lab''"
    by (simp add: assms(2) authenticate_def lab_env_def lab_http_def lab_keys_def)
  then show ?thesis
    by (simp add: admission_def Let_def assms(1) lab_parse lab_canonical lab_wire_valid lab_admitted_def or_str_def)
qed

text \<open>The restricted request reaches the private provider, and the call is one the theorem is about.\<close>

theorem started_gateway_sound_witness:
  "\<exists>st. build_app lab_load lab_environment lab_upstreams = Inr st
    \<and> (''private-vllm'', 0) \<in> set (hd_calls
        (chat_completions (lab_env (lab_wire False)) st (lab_http ''restricted'' (Some lab_key)) 0 lab_world))
    \<and> private_provider st ''private-vllm''
    \<and> authenticate (\<lambda>k. k) (gs_auth st) (Some lab_key) None = Inr ''platform-lab''"
proof -
  obtain st where st: "build_app lab_load lab_environment lab_upstreams = Inr st"
    "gs_config st = lab_gateway" "gs_auth st = lab_keys" using lab_build_app by blast
  let ?r = "lab_http ''restricted'' (Some lab_key)" and ?env = "lab_env (lab_wire False)"
  let ?dec = "\<lparr>rd_rule_name = ''restricted-private-only'', rd_primary = ''private-vllm'', rd_fallbacks = []\<rparr>"
  have "hr_data_class ?r = Some ''restricted''" by simp
  note sound = started_gateway_sound [OF st(1) this]
  have adapter: "gs_chat st ''private-vllm'' \<noteq> None"
    using sound st(2) by (auto simp: lab_policy_def dict_keys_def gs_chat_def)
  have "permitted_providers lab_policy ?dec (rm_data_class (cr_metadata (lab_request Restricted Economy))) = Inr [''private-vllm'']"
    "0 < remaining_seconds (context_of st ''req-1'' 0) 0"
    unfolding context_of_def st(2) by code_simp+
  from executor_first_call [where adapters = "gs_chat st", OF this(1,2) adapter] have call: "(''private-vllm'', 0) \<in> set (hd_calls (chat_completions ?env st ?r 0 lab_world))"
    by (simp add: chat_completions_def lab_key_admitted [OF st(2,3)] st(2) lab_route non_streamed_calls)
  moreover have "list_all (\<lambda>c. private_provider st (fst c)) (hd_calls (chat_completions ?env st ?r 0 lab_world))"
    using sound by blast
  ultimately have "private_provider st ''private-vllm''" by (auto simp: list_all_iff)
  moreover have "authenticate (\<lambda>k. k) lab_keys (Some lab_key) None = Inr ''platform-lab''" by code_simp
  ultimately show ?thesis using st(1,3) call by auto
qed

end
