(* ===== verification/Benchmark_Run.thy ===== *)
theory Benchmark_Run
  imports Run_Summary Generated_Data Service
begin

text \<open>
  A whole run (\<open>BenchmarkHarness\<close> of \<open>benchmark/harness.py\<close>, with the loaders of scenarios and
  objectives and \<open>_run\<close> of \<open>benchmark/__main__.py\<close>): plan, manifest, requests, evidence, completion.
  The file system is a state, the list of folders and the store of texts, and a run returns the one it
  leaves behind whether it ends well or not. PyYAML, pydantic's conversion of fields and the text of a
  record are parameters, with the two readings of the clock.
\<close>

section \<open>Parts\<close>

datatype bench_error =
    DatasetFailed dataset_error
  | ManifestFailed manifest_error
  | StartFailed startup_error
  | BenchFailed string

record bench_env =
  be_harness :: harness_env
  be_manifest :: manifest_env
  be_config :: gateway_config
  be_scenario :: "json \<Rightarrow> scenario option"
  be_slo :: "json \<Rightarrow> slo_document option"
  be_line :: "benchmark_record \<Rightarrow> string"
  be_started :: timestamp
  be_completed :: timestamp

type_synonym disk = "string list \<times> file_store"

definition at_files :: "bench_env \<Rightarrow> file_store \<Rightarrow> manifest_env" where
  "at_files be files = (be_manifest be)\<lparr>me_files := files\<rparr>"

section \<open>Loading the scenario and the objectives\<close>

definition read_document :: "bench_env \<Rightarrow> file_store \<Rightarrow> string \<Rightarrow> bench_error + string \<times> json" where
  "read_document be files path =
     (case files path of
        None \<Rightarrow> Inl (BenchFailed ''ValueError'')
      | Some content \<Rightarrow>
          (case me_yaml (be_manifest be) content of
             None \<Rightarrow> Inl (BenchFailed ''ValueError'') | Some v \<Rightarrow> Inr (content, v)))"

definition load_scenario :: "bench_env \<Rightarrow> file_store \<Rightarrow> string \<Rightarrow> bench_error + scenario" where
  "load_scenario be files path =
     bind_res (read_document be files path) (\<lambda>(content, raw).
       case be_scenario be raw of
         None \<Rightarrow> Inl (BenchFailed ''ValidationError'')
       | Some s \<Rightarrow>
           if validate_scenario s = Inr () then Inr s else Inl (BenchFailed ''ValidationError''))"

definition load_slo :: "bench_env \<Rightarrow> file_store \<Rightarrow> string \<Rightarrow> bench_error + slo_document \<times> string" where
  "load_slo be files path =
     bind_res (read_document be files path) (\<lambda>(content, raw).
       case be_slo be raw of
         None \<Rightarrow> Inl (BenchFailed ''ValueError'')
       | Some d \<Rightarrow>
           if validate_slo d = Inr () then Inr (d, de_sha256 (me_data (be_manifest be)) content)
           else Inl (BenchFailed ''ValueError''))"

section \<open>The run\<close>

record bench_setup =
  bs_root :: string
  bs_scenario_path :: string
  bs_results_root :: string
  bs_repository :: repository_state
  bs_allow_dirty :: bool

definition make_harness ::
    "bench_env \<Rightarrow> file_store \<Rightarrow> string \<Rightarrow> string \<Rightarrow> string option \<Rightarrow> repository_state option \<Rightarrow> bool
      \<Rightarrow> bench_error + bench_setup" where
  "make_harness be files repo_root scenario_path results_root repository allow_dirty =
     bind_res (case repository of
                 Some r \<Rightarrow> Inr r
               | None \<Rightarrow> on_error ManifestFailed (detect (at_files be files) repo_root)) (\<lambda>repo.
       Inr \<lparr>bs_root = repo_root, bs_scenario_path = scenario_path,
            bs_results_root = (case results_root of
              Some r \<Rightarrow> r | None \<Rightarrow> run_path (run_path repo_root ''results'') ''local''),
            bs_repository = repo, bs_allow_dirty = allow_dirty\<rparr>)"

text \<open>Everything before the first write: the data set and the manifest.\<close>

definition planned_run ::
    "bench_env \<Rightarrow> bench_setup \<Rightarrow> scenario \<Rightarrow> file_store \<Rightarrow> bench_error + dataset_bundle \<times> json_object" where
  "planned_run be st s files =
     bind_res (on_error DatasetFailed
                 (load_dataset (me_data (be_manifest be)) files (bs_root st) (sc_dataset s))) (\<lambda>bundle.
     bind_res (load_slo be files (join_path (bs_root st) (sc_slo_config s))) (\<lambda>(slo, slo_hash).
     bind_res (on_error ManifestFailed
                 (build_manifest (at_files be files) (bs_root st) (bs_scenario_path st) s bundle slo slo_hash
                    (bs_repository st) (bs_allow_dirty st) (be_started be) None)) (\<lambda>m.
       Inr (bundle, m))))"

definition run_id_of :: "bench_env \<Rightarrow> json_object \<Rightarrow> string" where
  "run_id_of be m = py_str (de_text (me_data (be_manifest be))) (dict_get m ''run_id'')"

definition run_folder :: "bench_env \<Rightarrow> bench_setup \<Rightarrow> json_object \<Rightarrow> string" where
  "run_folder be st m = run_path (bs_results_root st) (run_id_of be m)"

definition run_records ::
    "bench_env \<Rightarrow> scenario \<Rightarrow> dataset_bundle \<Rightarrow> json_object \<Rightarrow> string + benchmark_record list" where
  "run_records be s bundle m = harness_run (be_harness be) (be_config be) s bundle (run_id_of be m)"

definition evidence_text :: "bench_env \<Rightarrow> benchmark_record list \<Rightarrow> string" where
  "evidence_text be records = concat (map (\<lambda>r. be_line be r @ [CHR 0x0A]) records)"

definition bench_run ::
    "bench_env \<Rightarrow> bench_setup \<Rightarrow> scenario \<Rightarrow> disk \<Rightarrow> disk \<times> (bench_error + string)" where
  "bench_run be st s disk =
     (let (folders, files) = disk in
      case planned_run be st s files of
        Inl e \<Rightarrow> (disk, Inl e)
      | Inr (bundle, m) \<Rightarrow>
          (let run_dir = run_folder be st m; manifest_path = run_path run_dir ''manifest.yaml'' in
           case write_manifest (at_files be files) folders run_dir m of
             Inl e \<Rightarrow> (disk, Inl (BenchFailed e))
           | Inr (folders', planned) \<Rightarrow>
               (case run_records be s bundle m of
                  Inl e \<Rightarrow> ((folders', planned), Inl (BenchFailed e))
                | Inr records \<Rightarrow>
                    (let recorded = planned(run_path run_dir ''records.jsonl'' \<mapsto> evidence_text be records) in
                     case complete_manifest (at_files be recorded) manifest_path (be_completed be)
                            (int (length records)) of
                       Inl e \<Rightarrow> ((folders', recorded), Inl (BenchFailed e))
                     | Inr completed \<Rightarrow> ((folders', completed), Inr run_dir)))))"


section \<open>The command\<close>

text \<open>
  \<open>python -m inference_gateway.benchmark run\<close>: a gateway in the process, with the adapters of the data
  set and its one key, or a key for the gateway under the base address. \<open>rc_bench key app\<close> is the
  environment of a run with that key, whose client calls the application \<open>app\<close> if there is one.
  The paths are resolved.
\<close>

record run_env =
  rc_bench :: "string \<Rightarrow> gateway_state option \<Rightarrow> bench_env"
  rc_load :: load_env
  rc_hash :: "string \<Rightarrow> string"
  rc_upstreams :: upstreams
  rc_dumps :: "json_object \<Rightarrow> string"
  rc_key :: "string option"
  rc_summary :: summary_env

definition provider_of_mock :: "dataset_mock \<Rightarrow> provider_adapter" where
  "provider_of_mock m =
     \<lparr>pa_chat = (\<lambda>i now request ctx. (0, reply_of (local_chat m request))),
      pa_stream = (\<lambda>i now request ctx. local_stream m request), pa_price = local_price\<rparr>"

definition local_providers :: "(json_object \<Rightarrow> string) \<Rightarrow> dataset_bundle \<Rightarrow> (string \<times> provider_adapter) list" where
  "local_providers dumps dataset =
     map (\<lambda>n. (n, provider_of_mock (dataset_adapter dumps dataset n)))
       [''private-vllm'', ''managed-economy'', ''managed-premium'']"

definition in_process :: string where
  "in_process = ''local-mock://in-process''"

definition run_client ::
    "run_env \<Rightarrow> file_store \<Rightarrow> string \<Rightarrow> scenario \<Rightarrow> string \<Rightarrow> string option \<Rightarrow> bench_error + bench_env" where
  "run_client rc files repo_root s base_url arg_key =
     (let api_key = (if truthy_str arg_key then the arg_key else or_str (rc_key rc) '''')
      in if base_url = in_process
         then bind_res (on_error DatasetFailed
                (load_dataset (me_data (be_manifest (rc_bench rc local_key None))) files repo_root (sc_dataset s)))
                (\<lambda>dataset.
              bind_res (on_error StartFailed
                (local_gateway (rc_load rc) (rc_hash rc) (rc_upstreams rc) (local_providers (rc_dumps rc) dataset)
                   (join_path repo_root (sc_pricing_config s)) (join_path repo_root (sc_timeout_config s))))
                (\<lambda>app. Inr (rc_bench rc local_key (Some app))))
         else if api_key = '''' then Inl (BenchFailed ''SystemExit'')
         else Inr (rc_bench rc api_key None))"

record headline =
  hl_run_id :: json
  hl_run_dir :: string
  hl_requests :: nat
  hl_correct_rate :: "pyfloat option"
  hl_routing_mix :: "(string \<times> nat) list"
  hl_cost :: "decimal option"

definition selected_cost :: "scenario \<Rightarrow> cost_report \<Rightarrow> view_cost" where
  "selected_cost s c =
     (if sc_provider_mode s = HybridMode then cr_hybrid_view_a c
      else if sc_provider_mode s = ManagedMode then vp_managed (rv_view_a (cr_views c))
      else vp_private (rv_view_a (cr_views c)))"

definition headline_of :: "scenario \<Rightarrow> string \<Rightarrow> run_summary \<Rightarrow> headline" where
  "headline_of s run_dir sm =
     \<lparr>hl_run_id = sm_run_id sm, hl_run_dir = run_dir, hl_requests = sm_requests sm,
      hl_correct_rate = qr_quality_rate (sm_quality sm), hl_routing_mix = sm_routing_mix sm,
      hl_cost = vc_per_correct (selected_cost s (sm_costs sm))\<rparr>"

definition prepare_run ::
    "run_env \<Rightarrow> file_store \<Rightarrow> string \<Rightarrow> string \<Rightarrow> string \<Rightarrow> string option \<Rightarrow> bool
      \<Rightarrow> bench_error + scenario \<times> bench_env \<times> bench_setup" where
  "prepare_run rc files repo_root scenario_path base_url arg_key allow_dirty =
     bind_res (load_scenario (rc_bench rc '''' None) files scenario_path) (\<lambda>s.
     bind_res (run_client rc files repo_root s base_url arg_key) (\<lambda>be.
     bind_res (make_harness be files repo_root scenario_path None None allow_dirty) (\<lambda>st.
       Inr (s, be, st))))"

definition run_command ::
    "run_env \<Rightarrow> folder_entry list \<Rightarrow> string \<Rightarrow> string \<Rightarrow> string \<Rightarrow> string option \<Rightarrow> bool \<Rightarrow> disk
      \<Rightarrow> disk \<times> (bench_error + headline)" where
  "run_command rc entries repo_root scenario_path base_url arg_key allow_dirty disk =
     (case prepare_run rc (snd disk) repo_root scenario_path base_url arg_key allow_dirty of
        Inl e \<Rightarrow> (disk, Inl e)
      | Inr (s, be, st) \<Rightarrow>
          (case bench_run be st s disk of
             (disk', Inl e) \<Rightarrow> (disk', Inl e)
           | (disk', Inr run_dir) \<Rightarrow>
               (disk', bind_res (on_error BenchFailed
                         (build_report (rc_summary rc) (snd disk') entries (bs_results_root st) run_dir repo_root None))
                       (\<lambda>sm. Inr (headline_of s run_dir sm)))))"

text \<open>\<open>report\<close>: the run's identifier, its requests and whether it met its objectives.\<close>

definition report_command ::
    "run_env \<Rightarrow> folder_entry list \<Rightarrow> string \<Rightarrow> string \<Rightarrow> string \<Rightarrow> file_store \<Rightarrow> string + json \<times> nat \<times> bool" where
  "report_command rc entries parent run_dir repo_root files =
     bind_res (build_report (rc_summary rc) files entries parent run_dir repo_root None) (\<lambda>sm.
       Inr (sm_run_id sm, sm_requests sm, so_eligible (sm_slo sm)))"

section \<open>Lemmas\<close>

lemma planned_run_Inr:
  assumes "planned_run be st s files = Inr (data, m)"
  obtains slo slo_hash i where
    "load_dataset (me_data (be_manifest be)) files (bs_root st) (sc_dataset s) = Inr data"
    "capture_deployment (at_files be files) (bs_root st) s
       (base_manifest s data slo (bs_repository st) i) = Inr m"
proof -
  obtain slo slo_hash where parts:
    "load_dataset (me_data (be_manifest be)) files (bs_root st) (sc_dataset s) = Inr data"
    "build_manifest (at_files be files) (bs_root st) (bs_scenario_path st) s data slo slo_hash
       (bs_repository st) (bs_allow_dirty st) (be_started be) None = Inr m"
    using assms by (auto simp: planned_run_def bind_res_Inr)
  show thesis
    by (rule build_manifest_Inr [OF parts(2)]) (rule that [OF parts(1)])
qed

lemma planned_manifest_open:
  assumes "planned_run be st s files = Inr (data, m)"
  shows "dict_get m ''completed_at'' = JNull"
proof -
  obtain slo i where c: "capture_deployment (at_files be files) (bs_root st) s
      (base_manifest s data slo (bs_repository st) i) = Inr m"
    by (rule planned_run_Inr [OF assms])
  have keep: "dict_get m k = dict_get (base_manifest s data slo (bs_repository st) i) k"
    if "k \<notin> set deployed_sections" for k
    by (rule capture_deployment_Inr(1) [OF c that])
  show ?thesis
    using keep [of "''completed_at''"] by (simp add: deployed_sections_def base_manifest_def Let_def)
qed

lemma write_manifest_Inr [simp]:
  "write_manifest me folders folder m = Inr (folders', files') \<longleftrightarrow>
   folder \<notin> set folders \<and> folders' = folder # folders
   \<and> files' = (me_files me)(run_path folder ''manifest.yaml'' \<mapsto> me_dump me m)"
  by (auto simp: write_manifest_def)

lemma at_files_simps [simp]:
  "me_files (at_files be files) = files" "me_yaml (at_files be files) = me_yaml (be_manifest be)"
  "me_dump (at_files be files) = me_dump (be_manifest be)"
  "me_data (at_files be files) = me_data (be_manifest be)"
  "me_environ (at_files be files) = me_environ (be_manifest be)"
  "me_target (at_files be files) = me_target (be_manifest be)"
  "me_fromiso (at_files be files) = me_fromiso (be_manifest be)"
  by (simp_all add: at_files_def)

text \<open>Completion only adds to the manifest it reads back.\<close>

lemma complete_manifest_Inr:
  assumes "complete_manifest me path completed n = Inr files'"
    and "me_files me path = Some content" "me_yaml me content = Some (JObj m)"
  obtains d where "files' = (me_files me)(path \<mapsto> me_dump me d)"
    and "dict_get d ''completed_at'' = JStr (utc_text completed)"
    and "sub_get (dict_get d ''measurement'') ''actual_sample_count'' = JInt n"
  using assms
  by (auto simp: complete_manifest_def bind_res_Inr sub_get_def split: option.splits json.splits intro!: that)

lemma complete_manifest_other:
  "complete_manifest me path completed n = Inr files' \<Longrightarrow> p \<noteq> path \<Longrightarrow> files' p = me_files me p"
  by (auto simp: complete_manifest_def bind_res_Inr split: option.splits json.splits)

lemma run_paths_apart [simp]:
  "run_path d ''records.jsonl'' \<noteq> run_path d ''manifest.yaml''"
  "run_path d ''manifest.yaml'' \<noteq> run_path d ''records.jsonl''"
  by (simp_all add: run_path_def)

lemma read_written_records:
  assumes "list_all (\<lambda>r. ce_record ce (line r) = Some r \<and> list_all (\<lambda>c. \<not> line_break c) (line r)) records"
  shows "read_records ce (concat (map (\<lambda>r. line r @ [CHR 0x0A]) records)) = Inr records"
proof -
  have "splitlines (concat (map (\<lambda>d. d @ [CHR 0x0A]) (map line records))) = map line records"
    using assms by (intro splitlines_written) (auto simp: list_all_iff)
  then have lines: "splitlines (concat (map (\<lambda>r. line r @ [CHR 0x0A]) records)) = map line records"
    by (simp add: comp_def)
  have "traverse (\<lambda>l. case ce_record ce l of None \<Rightarrow> Inl ''ValidationError'' | Some r \<Rightarrow> Inr r) (map line rs) = Inr rs"
    if "\<forall>r \<in> set rs. ce_record ce (line r) = Some r" for rs
    using that by (induction rs) auto
  with assms show ?thesis by (simp add: read_records_def lines list_all_iff)
qed

text \<open>
  A line with a break inside it is two lines to the reader. Of the characters \<open>splitlines\<close> breaks
  at, the carriage return is left aside: before the line feed it is no break of its own, and
  JSON escapes it.
\<close>

definition breaks_inside :: "string \<Rightarrow> bool" where
  "breaks_inside l \<longleftrightarrow> list_ex (\<lambda>c. line_break c \<and> c \<noteq> CHR 0x0D) l"

lemma lines_counted:
  "Suc (length (splitlines_from [] rest) + (if breaks_inside d then 1 else 0))
     \<le> length (splitlines_from cur (d @ CHR 0x0A # rest))"
proof (induction d arbitrary: cur rule: length_induct)
  case (1 d)
  have ih: "Suc (length (splitlines_from [] rest) + (if breaks_inside e then 1 else 0))
      \<le> length (splitlines_from cur' (e @ CHR 0x0A # rest))" if "length e < length d" for e cur'
    using 1 that by blast
  have lf: "line_break (CHR 0x0A)" "line_break (CHR 0x0D)" by (simp_all add: line_break_def)
  show ?case
  proof (cases d)
    case Nil
    then show ?thesis by (simp add: breaks_inside_def lf)
  next
    case (Cons c e)
    show ?thesis
    proof (cases e)
      case Nil
      then show ?thesis using Cons lf by (auto simp: breaks_inside_def)
    next
      case e: (Cons c' e')
      have "breaks_inside d \<longleftrightarrow> line_break c \<and> c \<noteq> CHR 0x0D \<or> breaks_inside e"
        "breaks_inside e \<longleftrightarrow> line_break c' \<and> c' \<noteq> CHR 0x0D \<or> breaks_inside e'"
        by (simp_all add: breaks_inside_def Cons e)
      then show ?thesis
        using ih [of e "[]"] ih [of e "cur @ [c]"] ih [of e' "[]"] Cons lf
        by (auto simp: e split: if_splits)
    qed
  qed
qed

lemma written_lines_counted:
  "length ds \<le> length (splitlines (concat (map (\<lambda>d. d @ [CHR 0x0A]) ds)))
   \<and> (list_ex breaks_inside ds \<longrightarrow> length ds < length (splitlines (concat (map (\<lambda>d. d @ [CHR 0x0A]) ds))))"
proof (induction ds)
  case (Cons d ds)
  let ?t = "concat (map (\<lambda>d. d @ [CHR 0x0A]) ds)"
  have "Suc (length (splitlines ?t) + (if breaks_inside d then 1 else 0))
      \<le> length (splitlines (d @ CHR 0x0A # ?t))"
    unfolding splitlines_def by (rule lines_counted)
  with Cons.IH show ?case by (auto split: if_splits)
qed simp

lemma broken_records_unreadable:
  assumes "list_ex (\<lambda>r. breaks_inside (line r)) records"
  shows "read_records ce (concat (map (\<lambda>r. line r @ [CHR 0x0A]) records)) \<noteq> Inr records"
proof
  assume read: "read_records ce (concat (map (\<lambda>r. line r @ [CHR 0x0A]) records)) = Inr records"
  then have "length records = length (splitlines (concat (map (\<lambda>d. d @ [CHR 0x0A]) (map line records))))"
    using traverse_length by (fastforce simp: read_records_def comp_def)
  moreover have "list_ex breaks_inside (map line records)"
    using assms by (induction records) auto
  ultimately show False using written_lines_counted [of "map line records"] by simp
qed

text \<open>The stages of a run and what each leaves.\<close>

lemma bench_run_cases:
  assumes "bench_run be st s (folders, files) = ((folders', files'), result)"
  obtains (unplanned) e where "planned_run be st s files = Inl e" "result = Inl e" "folders' = folders" "files' = files"
  | (occupied) data m e where "planned_run be st s files = Inr (data, m)" "result = Inl e"
      "folders' = folders" "files' = files"
  | (aborted) data m e where "planned_run be st s files = Inr (data, m)" "result = Inl e"
      "run_folder be st m \<notin> set folders"
      "files' = files(run_path (run_folder be st m) ''manifest.yaml'' \<mapsto> me_dump (be_manifest be) m)"
  | (recorded) data m records recorded_files where "planned_run be st s files = Inr (data, m)"
      "run_records be s data m = Inr records" "run_folder be st m \<notin> set folders"
      "recorded_files = files(run_path (run_folder be st m) ''manifest.yaml'' \<mapsto> me_dump (be_manifest be) m,
         run_path (run_folder be st m) ''records.jsonl'' \<mapsto> evidence_text be records)"
      "case complete_manifest (at_files be recorded_files) (run_path (run_folder be st m) ''manifest.yaml'')
           (be_completed be) (int (length records)) of
         Inl e \<Rightarrow> files' = recorded_files \<and> (\<exists>e'. result = Inl e')
       | Inr completed \<Rightarrow> files' = completed \<and> result = Inr (run_folder be st m)"
proof (cases "planned_run be st s files")
  case (Inl e)
  with assms show thesis by (intro unplanned) (auto simp: bench_run_def)
next
  case (Inr plan)
  obtain data m where plan: "plan = (data, m)" by fastforce
  note p = Inr [unfolded plan]
  show thesis
  proof (cases "write_manifest (at_files be files) folders (run_folder be st m) m")
    case (Inl e)
    with assms p show thesis by (intro occupied [OF p]) (auto simp: bench_run_def Let_def)
  next
    case (Inr written)
    then have w: "run_folder be st m \<notin> set folders"
      "written = (run_folder be st m # folders,
         files(run_path (run_folder be st m) ''manifest.yaml'' \<mapsto> me_dump (be_manifest be) m))"
      by (cases written; simp)+
    show thesis
    proof (cases "run_records be s data m")
      case (Inl e)
      with assms p Inr w show thesis by (intro aborted [OF p _ w(1)]) (auto simp: bench_run_def Let_def)
    next
      case records: (Inr records)
      from assms p Inr w records show thesis
        by (intro recorded [OF p records w(1) refl])
          (auto simp: bench_run_def Let_def split: sum.splits)
    qed
  qed
qed

text \<open>Outside its own two files a run changes nothing, however it ends.\<close>

lemma bench_run_frame:
  assumes "bench_run be st s (folders, files) = ((folders', files'), result)"
    and "planned_run be st s files = Inr (data, m)"
    and "p \<noteq> run_path (run_folder be st m) ''manifest.yaml''" "p \<noteq> run_path (run_folder be st m) ''records.jsonl''"
  shows "files' p = files p"
  using assms(1)
proof (cases rule: bench_run_cases)
  case (recorded data' m' records recorded_files)
  then have m: "m' = m" using assms(2) by simp
  have before: "recorded_files p = files p" using recorded(4) assms(3,4) by (simp add: m)
  show ?thesis
  proof (cases "complete_manifest (at_files be recorded_files) (run_path (run_folder be st m) ''manifest.yaml'')
      (be_completed be) (int (length records))")
    case (Inl e)
    with recorded(5) before show ?thesis by (simp add: m)
  next
    case (Inr completed)
    with recorded(5) complete_manifest_other [OF Inr assms(3)] before show ?thesis by (simp add: m)
  qed
qed (use assms(2-) in auto)

text \<open>
  The command only prints a headline for a run that completed, and its number of requests is the number
  of lines of the evidence that run left.
\<close>

lemma headline_counts_evidence:
  assumes "run_command rc entries repo_root path base_url key dirty disk = (disk', Inr h)"
  obtains s be st content where
    "bench_run be st s disk = (disk', Inr (hl_run_dir h))"
    and "snd disk' (run_path (hl_run_dir h) ''records.jsonl'') = Some content"
    and "hl_requests h = length (splitlines content)"
proof -
  obtain s be st run_dir sm where run: "bench_run be st s disk = (disk', Inr run_dir)"
    and report: "build_report (rc_summary rc) (snd disk') entries (bs_results_root st) run_dir repo_root None = Inr sm"
    and h: "h = headline_of s run_dir sm"
    using assms
    by (auto simp: run_command_def bind_res_Inr split: sum.splits prod.splits)
  obtain s' rtext records run_id q costs slo rows stats claim comparison limitations grid where
    "snd disk' (run_path run_dir ''records.jsonl'') = Some rtext" "read_records (su_compare (rc_summary rc)) rtext = Inr records"
    "sm = summary_of_records s' records run_id q costs slo rows stats claim comparison limitations grid"
    by (rule build_report_Inr [OF report])
  moreover from this(2) have "length records = length (splitlines rtext)"
    using traverse_length by (fastforce simp: read_records_def)
  ultimately show thesis
    using run by (intro that [of be st s rtext]) (simp_all add: h headline_of_def summary_of_records_def Let_def)
qed

text \<open>A local run always calls with the one key of its gateway; a remote run never without a key.\<close>

lemma run_client_key:
  assumes "run_client rc files repo_root s base_url arg_key = Inr be"
  shows "\<exists>key app. be = rc_bench rc key app \<and> key \<noteq> '''' \<and> (app = None \<longleftrightarrow> base_url \<noteq> in_process)"
  using assms
  by (auto simp: run_client_def Let_def bind_res_Inr local_key_def split: if_splits)

section \<open>Properties\<close>

text \<open>
  C24. A completed run leaves the evidence of exactly what it planned: its folder is new and no file
  outside its manifest and its evidence changes; the manifest is closed with the number of
  samples planned; the evidence file is one printed line per record of the calls, one record per
  repeat and selected item, in this order. The reader of the report gets these records back from it
  if the printed lines parse back and hold no line break, and never if a line holds one, which
  the JSON printer does not exclude: it leaves the next-line character of an answer's text as it is.
\<close>

theorem completed_run_leaves_evidence:
  assumes "bench_run be st s (folders, files) = ((folders', files'), Inr run_dir)"
    and "planned_run be st s files = Inr (data, m)" "run_records be s data m = Inr records"
    and "me_yaml (be_manifest be) (me_dump (be_manifest be) m) = Some (JObj m)"
    and "selected = he_sample (be_harness be) (sc_seed s) (db_items data) (sc_requests s)"
    and "int (length selected) = sc_requests s" "1 \<le> sc_repeats s"
  shows "run_dir = run_folder be st m \<and> run_dir \<notin> set folders
    \<and> (\<forall>p. p \<notin> {run_path run_dir ''manifest.yaml'', run_path run_dir ''records.jsonl''} \<longrightarrow> files' p = files p)
    \<and> (\<exists>d. files' (run_path run_dir ''manifest.yaml'') = Some (me_dump (be_manifest be) d)
         \<and> dict_get d ''completed_at'' = JStr (utc_text (be_completed be))
         \<and> sub_get (dict_get d ''measurement'') ''actual_sample_count'' = JInt (sc_repeats s * sc_requests s))
    \<and> files' (run_path run_dir ''records.jsonl'') = Some (concat (map (\<lambda>r. be_line be r @ [CHR 0x0A]) records))
    \<and> map call_key records = List.product [1 .. sc_repeats s] (map di_item_id selected)
    \<and> (\<forall>ce. (list_all (\<lambda>r. ce_record ce (be_line be r) = Some r
               \<and> list_all (\<lambda>c. \<not> line_break c) (be_line be r)) records
             \<longrightarrow> read_records ce (evidence_text be records) = Inr records)
         \<and> (list_ex (\<lambda>r. breaks_inside (be_line be r)) records
             \<longrightarrow> read_records ce (evidence_text be records) \<noteq> Inr records))"
  using assms(1)
proof (cases rule: bench_run_cases)
  case (recorded data' m' records' recorded_files)
  let ?mp = "run_path (run_folder be st m) ''manifest.yaml''" and ?rp = "run_path (run_folder be st m) ''records.jsonl''"
  have same: "data' = data" "m' = m" using recorded(1) assms(2) by simp_all
  with recorded(2) assms(3) have rs: "records' = records" by simp
  note recorded_files = recorded(4) [unfolded same rs]
  obtain completed where c: "complete_manifest (at_files be recorded_files) ?mp (be_completed be)
      (int (length records)) = Inr completed" "files' = completed" "run_dir = run_folder be st m"
    using recorded(5) by (auto simp: same rs split: sum.splits)
  have complete: "map call_key records = List.product [1 .. sc_repeats s] (map di_item_id selected)"
    "int (length records) = sc_repeats s * sc_requests s"
    using run_is_complete [OF assms(3) [unfolded run_records_def] assms(5-7)] by simp_all
  have on_disk: "me_files (at_files be recorded_files) ?mp = Some (me_dump (be_manifest be) m)"
    by (simp add: recorded_files)
  obtain d where "completed = recorded_files(?mp \<mapsto> me_dump (be_manifest be) d)"
    and d: "dict_get d ''completed_at'' = JStr (utc_text (be_completed be))"
      "sub_get (dict_get d ''measurement'') ''actual_sample_count'' = JInt (int (length records))"
    by (rule complete_manifest_Inr [OF c(1) on_disk]) (simp_all add: assms(4))
  then have written: "files' ?mp = Some (me_dump (be_manifest be) d)" "files' ?rp = Some (evidence_text be records)"
    by (simp_all add: c(2) recorded_files)
  have closed: "\<exists>d. files' ?mp = Some (me_dump (be_manifest be) d)
         \<and> dict_get d ''completed_at'' = JStr (utc_text (be_completed be))
         \<and> sub_get (dict_get d ''measurement'') ''actual_sample_count'' = JInt (sc_repeats s * sc_requests s)"
    using written(1) d complete(2) by auto
  have frame: "files' p = files p"
    if "p \<notin> {run_path run_dir ''manifest.yaml'', run_path run_dir ''records.jsonl''}" for p
    using bench_run_frame [OF assms(1,2)] that by (auto simp: c(3) same)
  have "read_records ce (evidence_text be records) = Inr records"
    if "list_all (\<lambda>r. ce_record ce (be_line be r) = Some r
          \<and> list_all (\<lambda>c. \<not> line_break c) (be_line be r)) records" for ce
    unfolding evidence_text_def by (rule read_written_records [OF that])
  moreover have "read_records ce (evidence_text be records) \<noteq> Inr records"
    if "list_ex (\<lambda>r. breaks_inside (be_line be r)) records" for ce
    unfolding evidence_text_def by (rule broken_records_unreadable [OF that])
  ultimately show ?thesis
    using closed written(2) complete(1) frame recorded(3) by (simp add: c(3) same evidence_text_def)
qed simp_all

text \<open>
  C25. A failed run is never taken for evidence: either it changed nothing, or its planned manifest is on
  disk in a new folder, without the time of completion, nothing but its two files changed, and the
  reader of the comparison refuses that folder.
\<close>

theorem failed_run_is_no_evidence:
  assumes "bench_run be st s (folders, files) = ((folders', files'), Inl e)"
    and "case planned_run be st s files of
           Inl _ \<Rightarrow> True
         | Inr (_, m) \<Rightarrow> ce_yaml ce (me_dump (be_manifest be) m) = Some (JObj m)"
  shows "folders' = folders \<and> files' = files
    \<or> (\<exists>data m. planned_run be st s files = Inr (data, m) \<and> run_folder be st m \<notin> set folders
        \<and> dict_get m ''completed_at'' = JNull
        \<and> files' (run_path (run_folder be st m) ''manifest.yaml'') = Some (me_dump (be_manifest be) m)
        \<and> (\<forall>p. p \<notin> {run_path (run_folder be st m) ''manifest.yaml'', run_path (run_folder be st m) ''records.jsonl''}
             \<longrightarrow> files' p = files p)
        \<and> (\<exists>refusal. read_run ce files' (run_folder be st m) = Inl refusal))"
proof -
  have refused: "\<exists>refusal. read_run ce files' (run_folder be st m) = Inl refusal"
    if plan: "planned_run be st s files = Inr (data, m)"
      and open_manifest: "files' (run_path (run_folder be st m) ''manifest.yaml'') = Some (me_dump (be_manifest be) m)"
    for data m
  proof -
    have "ce_yaml ce (me_dump (be_manifest be) m) = Some (JObj m)" using assms(2) by (simp add: plan)
    then have "read_run ce files' (run_folder be st m) \<noteq> Inr evidence" for evidence
      using planned_manifest_open [OF plan] open_manifest
      by (auto simp: read_run_def bind_res_Inr split: option.splits json.splits if_splits)
    then show ?thesis by (cases "read_run ce files' (run_folder be st m)") auto
  qed
  have left: ?thesis
    if plan: "planned_run be st s files = Inr (data, m)" and new: "run_folder be st m \<notin> set folders"
      and kept: "files' (run_path (run_folder be st m) ''manifest.yaml'') = Some (me_dump (be_manifest be) m)"
    for data m
    using plan new kept refused [OF plan kept] planned_manifest_open [OF plan] bench_run_frame [OF assms(1) plan]
    by blast
  from assms(1) show ?thesis
  proof (cases rule: bench_run_cases)
    case (aborted data m e)
    then show ?thesis by (intro left) auto
  next
    case (recorded data m records recorded_files)
    then show ?thesis by (intro left) (auto split: sum.splits)
  qed simp_all
qed


section \<open>Concrete runs\<close>

definition lab_bench_scenario :: scenario where
  "lab_bench_scenario = (lab_scenario PrivateMode [])
     \<lparr>sc_workload := Generation, sc_slo_cell := ''WL-03/economy'', sc_requests := 1, sc_repeats := 1,
      sc_dataset := ''wl'', sc_slo_config := ''slo''\<rparr>"

definition lab_disk_files :: file_store where
  "lab_disk_files = lab_files
     (''r/wl.sha256'' \<mapsto> replicate 64 (CHR ''b'') @ ''  wl.prompts.jsonl'',
      ''r/slo'' \<mapsto> ''S'', ''r/p'' \<mapsto> ''Y'', ''r/c'' \<mapsto> ''C'', ''r/t'' \<mapsto> ''T'')"

definition lab_run_data :: dataset_bundle where
  "lab_run_data =
     \<lparr>db_name = ''wl'', db_version = ''1'', db_workload = ''generation'', db_seed = 7,
      db_checksum = replicate 64 (CHR ''f''),
      db_items =
        [\<lparr>di_item_id = ''g-1'', di_difficulty = ''easy'', di_prompt = ''Go'', di_target = None,
          di_input_token_target = None, di_output_token_target = None\<rparr>]\<rparr>"

lemma lab_run_data_loads: "load_dataset lab_data_env lab_disk_files ''r'' ''wl'' = Inr lab_run_data"
  by code_simp

definition lab_setup :: bench_setup where
  "lab_setup =
     \<lparr>bs_root = ''r'', bs_scenario_path = ''r/s'', bs_results_root = ''o'', bs_repository = lab_repository,
      bs_allow_dirty = False\<rparr>"

definition lab_placement :: json_object where
  "lab_placement = map (\<lambda>(n, d). (n, optional_text d)) placement_defaults
     @ [(''BENCHMARK_FAILURE_INJECTION'', JBool False)]"

definition lab_planned :: json_object where
  "lab_planned = base_manifest lab_bench_scenario lab_run_data lab_slo lab_repository
     \<lparr>mi_run_id = make_run_id (utc 0) (rs_sha lab_repository) (sc_treatment lab_bench_scenario),
      mi_started = utc_text (utc 0), mi_scenario_path = ''s'', mi_placement = lab_placement,
      mi_pricing_hash = lab_digest ''Y'', mi_dates = [],
      mi_providers = provider_execution_conditions JNull (sc_temperature lab_bench_scenario),
      mi_cost_hash = lab_digest ''C'', mi_timeout_hash = lab_digest ''T'', mi_slo_hash = lab_digest ''S'',
      mi_target = JNull, mi_cells = [(''WL-03/economy'', JNull)],
      mi_dirty_override = False, mi_notes = []\<rparr>"

definition lab_bench :: "harness_env \<Rightarrow> bench_env" where
  "lab_bench he =
     \<lparr>be_harness = he,
      be_manifest =
        \<lparr>me_data = lab_data_env, me_environ = (\<lambda>n. None), me_files = (\<lambda>p. None),
         me_yaml = (\<lambda>t. if t = ''M'' then Some (JObj lab_planned)
                      else if t \<in> {''S'', ''Y''} then Some (JObj []) else None),
         me_dump = (\<lambda>m. ''M''), me_fromiso = (\<lambda>t. Some 0), me_target = (\<lambda>t. JNull)\<rparr>,
      be_config = lab_gateway, be_scenario = (\<lambda>v. Some lab_bench_scenario), be_slo = (\<lambda>v. Some lab_slo),
      be_line = (\<lambda>r. ''R''), be_started = utc 0, be_completed = utc 1\<rparr>"

lemma lab_digest_of: "de_sha256 lab_data_env = lab_digest"
  by (simp add: lab_data_env_def)

lemma lab_bench_plan:
  "planned_run (lab_bench he) lab_setup lab_bench_scenario lab_disk_files = Inr (lab_run_data, lab_planned)"
proof -
  let ?me = "at_files (lab_bench he) lab_disk_files"
  have env: "me_data (be_manifest (lab_bench he)) = lab_data_env" "me_environ (be_manifest (lab_bench he)) = (\<lambda>n. None)"
    "me_yaml (be_manifest (lab_bench he)) ''Y'' = Some (JObj [])" "me_yaml (be_manifest (lab_bench he)) ''S'' = Some (JObj [])"
    "me_target (be_manifest (lab_bench he)) = (\<lambda>t. JNull)" "be_started (lab_bench he) = utc 0"
    by (simp_all add: lab_bench_def)
  have places: "bs_root lab_setup = ''r''" "bs_scenario_path lab_setup = ''r/s''" "bs_repository lab_setup = lab_repository"
    "bs_allow_dirty lab_setup = False" by (simp_all add: lab_setup_def)
  have fields: "sc_pricing_config lab_bench_scenario = ''p''" "sc_cost_config lab_bench_scenario = ''c''"
    "sc_timeout_config lab_bench_scenario = ''t''" "sc_slo_config lab_bench_scenario = ''slo''"
    "sc_dataset lab_bench_scenario = ''wl''" "sc_publishable lab_bench_scenario = False" "sc_notes lab_bench_scenario = ''''"
    by (simp_all add: lab_bench_scenario_def lab_scenario_def)
  have gates: "validate_publishability lab_bench_scenario lab_repository lab_run_data lab_slo False = Inr (lab_target None)"
    and targets: "traverse (required_target lab_bench_scenario lab_slo) (slo_cells_used lab_bench_scenario)
      = Inr [(''WL-03/economy'', lab_target None)]"
    and dates: "effective_dates (de_text lab_data_env) [] = Inr []"
    and relative: "relative_to ''r'' ''r/s'' = Some ''s''"
    by code_simp+
  have paths: "join_path ''r'' ''p'' = ''r/p''" "join_path ''r'' ''c'' = ''r/c''" "join_path ''r'' ''t'' = ''r/t''"
    "join_path ''r'' ''slo'' = ''r/slo''"
    "lab_disk_files ''r/p'' = Some ''Y''" "lab_disk_files ''r/c'' = Some ''C''" "lab_disk_files ''r/t'' = Some ''T''"
    "lab_disk_files ''r/slo'' = Some ''S''"
    by code_simp+
  have placement: "placement_from_environment ?me = Inr lab_placement"
    by (simp add: placement_from_environment_def env lab_placement_def placement_defaults_def strict_boolean_environment_def)
  have deployment: "load_deploy_manifest ?me ''r'' = Inr None"
    by (simp add: load_deploy_manifest_def env)
  have captured: "capture_deployment ?me ''r'' lab_bench_scenario m = Inr m" for m
    by (simp add: capture_deployment_def deployment fields)
  have digests: "sha256_file ?me ''r/p'' = Inr (lab_digest ''Y'')" "sha256_file ?me ''r/c'' = Inr (lab_digest ''C'')"
    "sha256_file ?me ''r/t'' = Inr (lab_digest ''T'')"
    and pricing: "read_pricing ?me ''r/p'' = Inr []"
    by (simp_all add: sha256_file_def read_pricing_def env paths lab_digest_of)
  have slo: "load_slo (lab_bench he) lab_disk_files ''r/slo'' = Inr (lab_slo, lab_digest ''S'')"
    using lab_slo_valid by (simp add: load_slo_def read_document_def paths lab_bench_def lab_digest_of)
  have built: "build_manifest ?me ''r'' ''r/s'' lab_bench_scenario lab_run_data lab_slo (lab_digest ''S'') lab_repository
      False (utc 0) None = Inr lab_planned"
    unfolding build_manifest_def lab_planned_def
    by (simp add: gates targets placement validate_publishable_placement_def fields paths pricing dates env
        relative digests captured dict_get_def)
  show ?thesis
    by (simp add: planned_run_def env places fields paths lab_run_data_loads slo built on_error_def)
qed

lemma lab_run_id: "run_id_of (lab_bench he) lab_planned = ''19700101T000000Z-aaaaaaaa-hybrid''"
proof -
  have "make_run_id (utc 0) (rs_sha lab_repository) (sc_treatment lab_bench_scenario) = ''19700101T000000Z-aaaaaaaa-hybrid''"
    by code_simp
  then show ?thesis by (simp add: run_id_of_def lab_planned_def base_manifest_def Let_def)
qed

lemma lab_selected: "select_items failing_harness lab_bench_scenario (db_items lab_run_data) = Inr (db_items lab_run_data)"
  and lab_count: "length (db_items lab_run_data) = 1" and lab_named: "map di_item_id (db_items lab_run_data) = [''g-1'']"
  by code_simp+

lemma lab_run_records:
  "\<exists>r. run_records (lab_bench failing_harness) lab_bench_scenario lab_run_data lab_planned = Inr [r]"
proof -
  have "case harness_run failing_harness lab_gateway lab_bench_scenario lab_run_data ''19700101T000000Z-aaaaaaaa-hybrid'' of
      Inl e \<Rightarrow> False | Inr records \<Rightarrow> length records = 1"
    by code_simp
  moreover have "be_harness (lab_bench failing_harness) = failing_harness" "be_config (lab_bench failing_harness) = lab_gateway"
    by (simp_all add: lab_bench_def)
  ultimately show ?thesis
    by (auto simp: run_records_def lab_run_id length_Suc_conv split: sum.splits)
qed

lemma lab_completion:
  assumes "files path = Some ''M''"
  shows "\<exists>files'. complete_manifest (at_files (lab_bench he) files) path t n = Inr files'"
proof -
  have "dict_get lab_planned ''started_at'' = JStr (utc_text (utc 0))" "\<exists>ms. dict_get lab_planned ''measurement'' = JObj ms"
    "map_of lab_planned ''started_at'' \<noteq> None" "map_of lab_planned ''measurement'' \<noteq> None"
    by (simp_all add: lab_planned_def base_manifest_def Let_def)
  then show ?thesis
    using assms by (auto simp: complete_manifest_def lab_bench_def at_files_def dict_get_def)
qed

definition lab_run_dir :: string where
  "lab_run_dir = ''o/19700101T000000Z-aaaaaaaa-hybrid''"

lemma lab_run_folder: "run_folder (lab_bench he) lab_setup lab_planned = lab_run_dir"
  by (simp add: run_folder_def lab_run_id run_path_def lab_setup_def lab_run_dir_def)

lemma lab_dump: "me_dump (be_manifest (lab_bench he)) = (\<lambda>m. ''M'')"
  by (simp add: lab_bench_def)

lemma lab_bench_runs:
  assumes "run_records (lab_bench he) lab_bench_scenario lab_run_data lab_planned = Inr records"
  shows "\<exists>folders files. bench_run (lab_bench he) lab_setup lab_bench_scenario ([], lab_disk_files)
     = ((folders, files), Inr lab_run_dir)"
proof -
  let ?files = "lab_disk_files(run_path lab_run_dir ''manifest.yaml'' \<mapsto> ''M'',
        run_path lab_run_dir ''records.jsonl'' \<mapsto> evidence_text (lab_bench he) records)"
  obtain completed where "complete_manifest (at_files (lab_bench he) ?files) (run_path lab_run_dir ''manifest.yaml'')
      (be_completed (lab_bench he)) (int (length records)) = Inr completed"
    using lab_completion [of ?files "run_path lab_run_dir ''manifest.yaml''"] by fastforce
  then show ?thesis
    by (simp add: bench_run_def lab_bench_plan assms lab_run_folder write_manifest_def lab_dump Let_def)
qed

theorem completed_run_leaves_evidence_witness:
  "\<exists>files r content ce. bench_run (lab_bench failing_harness) lab_setup lab_bench_scenario ([], lab_disk_files)
       = (([lab_run_dir], files), Inr lab_run_dir)
     \<and> files (run_path lab_run_dir ''records.jsonl'') = Some content \<and> read_records ce content = Inr [r]
     \<and> call_key r = (1, ''g-1'') \<and> files ''r/p'' = Some ''Y''"
proof -
  obtain r where r: "run_records (lab_bench failing_harness) lab_bench_scenario lab_run_data lab_planned = Inr [r]"
    using lab_run_records by blast
  obtain folders files where run: "bench_run (lab_bench failing_harness) lab_setup lab_bench_scenario ([], lab_disk_files)
      = ((folders, files), Inr lab_run_dir)"
    using lab_bench_runs [OF r] by blast
  then have folders: "folders = [lab_run_dir]"
    by (auto simp: bench_run_def lab_bench_plan r lab_run_folder write_manifest_def Let_def split: sum.splits)
  let ?ce = "lab_comparison_env\<lparr>ce_record := (\<lambda>l. Some r)\<rparr>"
  have yaml: "me_yaml (be_manifest (lab_bench failing_harness)) (me_dump (be_manifest (lab_bench failing_harness)) lab_planned)
      = Some (JObj lab_planned)"
    and lines: "list_all (\<lambda>r. ce_record ?ce (be_line (lab_bench failing_harness) r) = Some r
      \<and> list_all (\<lambda>c. \<not> line_break c) (be_line (lab_bench failing_harness) r)) [r]"
    by (simp_all add: lab_bench_def line_break_def)
  have sample: "db_items lab_run_data = he_sample (be_harness (lab_bench failing_harness)) (sc_seed lab_bench_scenario)
      (db_items lab_run_data) (sc_requests lab_bench_scenario)"
    using lab_selected by (simp add: select_items_def lab_bench_def split: if_splits)
  have sizes: "int (length (db_items lab_run_data)) = sc_requests lab_bench_scenario" "sc_repeats lab_bench_scenario = 1"
    by (simp_all add: lab_count lab_bench_scenario_def)
  have "''r/p'' \<notin> {run_path lab_run_dir ''manifest.yaml'', run_path lab_run_dir ''records.jsonl''}"
    "lab_disk_files ''r/p'' = Some ''Y''"
    by (simp_all add: run_path_def lab_run_dir_def lab_disk_files_def)
  moreover note left = completed_run_leaves_evidence [OF run lab_bench_plan r yaml sample sizes(1)]
  have "read_records ?ce (evidence_text (lab_bench failing_harness) [r]) = Inr [r]"
    using left lines by (simp add: sizes(2))
  moreover have "files (run_path lab_run_dir ''records.jsonl'') = Some (evidence_text (lab_bench failing_harness) [r])"
    "map call_key [r] = List.product [1..1] (map di_item_id (db_items lab_run_data))"
    using left by (simp_all add: sizes(2) evidence_text_def)
  moreover have "files p = lab_disk_files p"
    if "p \<notin> {run_path lab_run_dir ''manifest.yaml'', run_path lab_run_dir ''records.jsonl''}" for p
    using left that by (simp add: sizes(2))
  ultimately show ?thesis
    using run lab_named by (simp add: folders upto_rec1) blast
qed

theorem failed_run_is_no_evidence_witness:
  "\<exists>folders files refusal. bench_run (lab_bench lab_harness) lab_setup lab_bench_scenario ([], lab_disk_files)
       = ((folders, files), Inl (BenchFailed ''ConnectError''))
     \<and> files (run_path lab_run_dir ''manifest.yaml'') = Some ''M''
     \<and> read_run (lab_comparison_env\<lparr>ce_yaml := (\<lambda>t. Some (JObj lab_planned))\<rparr>) files lab_run_dir = Inl refusal"
proof -
  let ?ce = "lab_comparison_env\<lparr>ce_yaml := (\<lambda>t. Some (JObj lab_planned))\<rparr>"
  have "case harness_run lab_harness lab_gateway lab_bench_scenario lab_run_data ''19700101T000000Z-aaaaaaaa-hybrid'' of
      Inl e \<Rightarrow> e = ''ConnectError'' | Inr records \<Rightarrow> False"
    by code_simp
  moreover have "be_harness (lab_bench lab_harness) = lab_harness" "be_config (lab_bench lab_harness) = lab_gateway"
    by (simp_all add: lab_bench_def)
  ultimately have "run_records (lab_bench lab_harness) lab_bench_scenario lab_run_data lab_planned = Inl ''ConnectError''"
    by (simp add: run_records_def lab_run_id split: sum.splits)
  then have run: "bench_run (lab_bench lab_harness) lab_setup lab_bench_scenario ([], lab_disk_files)
      = (([lab_run_dir], lab_disk_files(run_path lab_run_dir ''manifest.yaml'' \<mapsto> ''M'')),
         Inl (BenchFailed ''ConnectError''))"
    by (simp add: bench_run_def lab_bench_plan lab_run_folder write_manifest_def lab_dump Let_def)
  have "case planned_run (lab_bench lab_harness) lab_setup lab_bench_scenario lab_disk_files of
      Inl _ \<Rightarrow> True | Inr (_, m) \<Rightarrow> ce_yaml ?ce (me_dump (be_manifest (lab_bench lab_harness)) m) = Some (JObj m)"
    by (simp add: lab_bench_plan)
  from failed_run_is_no_evidence [OF run this] run show ?thesis
    by (auto simp: lab_bench_plan lab_run_folder)
qed

end
