(* ===== verification/Comparison_Output.thy ===== *)
theory Comparison_Output
  imports Run_Summary Json_Text
begin

text \<open>
  What a comparison writes: its JSON document and its markdown table (\<open>benchmark/comparison.py\<close>), and the
  \<open>compare\<close> command that writes both and reports on both runs again (\<open>benchmark/__main__.py\<close>). A
  resolved path of a run is its parent and its name. The texts of a float, of a decimal and of a float
  with six significant digits are parameters.
\<close>

record number_texts =
  nt_float :: "pyfloat \<Rightarrow> string"
  nt_decimal :: "decimal \<Rightarrow> string"
  nt_six :: "pyfloat \<Rightarrow> string"

section \<open>The document\<close>

definition nullable_decimal :: "number_texts \<Rightarrow> decimal option \<Rightarrow> json" where
  "nullable_decimal nt x = (case x of None \<Rightarrow> JNull | Some d \<Rightarrow> JStr (nt_decimal nt d))"

definition shown_dir :: "string \<Rightarrow> string \<Rightarrow> string" where
  "shown_dir repo_root run_dir =
     (if run_dir = repo_root then ''.''
      else case relative_to repo_root run_dir of Some p \<Rightarrow> p | None \<Rightarrow> run_dir)"

definition treatment_json :: "string \<Rightarrow> run_metadata \<Rightarrow> json" where
  "treatment_json run_dir m = JObj
     [(''label'', JStr (mt_run_label m)), (''run_id'', mt_run_id m), (''run_dir'', JStr run_dir),
      (''treatment'', mt_treatment m), (''sample_size'', JInt (int (mt_sample_size m))),
      (''successful_responses'', JInt (int (mt_successes m))), (''repeat_count'', JInt (int (mt_repeats m))),
      (''declared_repeat_count'', mt_declared m)]"

definition interval_json :: "confidence_interval \<Rightarrow> json" where
  "interval_json ci = JObj
     [(''low'', JFloat (ci_low ci)), (''high'', JFloat (ci_high ci)), (''confidence'', JFloat (ci_confidence ci)),
      (''iterations'', JInt (ci_iterations ci)), (''seed'', JInt (ci_seed ci)), (''method'', JStr (ci_method ci)),
      (''resampling_unit'', JStr (ci_unit ci))]"

definition quality_json :: "quality_effect \<Rightarrow> json" where
  "quality_json q = JObj
     [(''definition'', JStr ''treatment B quality rate minus treatment A quality rate''),
      (''estimate'', JFloat (qe_estimate q)), (''paired_observations'', JInt (int (qe_paired q))),
      (''unique_dataset_items'', JInt (int (qe_items q))),
      (''pairing_key'', JArr [JStr ''dataset_item_id'', JStr ''repeat_index'']),
      (''confidence_interval'', interval_json (qe_interval q))]"

definition cost_row_json :: "number_texts \<Rightarrow> cost_row \<Rightarrow> json_object" where
  "cost_row_json nt r =
     [(''treatment_a'', nullable_decimal nt (co_a r)), (''treatment_b'', nullable_decimal nt (co_b r)),
      (''delta_b_minus_a'', nullable_decimal nt (co_delta r))]"

definition costs_json :: "number_texts \<Rightarrow> cost_delta \<Rightarrow> json" where
  "costs_json nt c = JObj
     [(''definition'', JStr ''treatment B cost_per_correct_task minus treatment A''),
      (''view_a'', JObj (cost_row_json nt (cd_view_a c) @
         [(''delta_95_ci'',
             (case cd_interval c of
                None \<Rightarrow> JNull
              | Some (lo, hi) \<Rightarrow> JObj [(''low'', JStr (nt_decimal nt lo)), (''high'', JStr (nt_decimal nt hi))])),
          (''ci_method'', JStr ''conservative difference of independent run bootstrap bounds'')])),
      (''view_b_typical'', JObj (cost_row_json nt (cd_view_b c) @
         [(''operations_sensitivity'', JStr ''typical'')]))]"

definition nullable_float :: "pyfloat option \<Rightarrow> json" where
  "nullable_float x = (case x of None \<Rightarrow> JNull | Some v \<Rightarrow> JFloat v)"

definition latency_row_json :: "latency_delta_row \<Rightarrow> json" where
  "latency_row_json r = JObj
     [(''treatment_a'', ld_a r), (''treatment_b'', ld_b r), (''delta_b_minus_a'', nullable_float (ld_delta r))]"

definition latency_json :: "((string \<times> string) \<times> latency_delta_row) list \<Rightarrow> json" where
  "latency_json rows = JObj
     (map (\<lambda>out. (out, JObj (map (\<lambda>((x, p), r). (p, latency_row_json r)) (filter (\<lambda>((x, p), r). x = out) rows))))
        [''e2e_ms'', ''ttft_ms''])"

definition claim_status :: "claimability_result \<Rightarrow> string" where
  "claim_status c = (if cl_supported c then ''supported'' else ''inconclusive'')"

definition claim_reason :: "claimability_result \<Rightarrow> string" where
  "claim_reason c =
     (if cl_supported c
      then ''Supported direction: '' @ (case cl_direction c of None \<Rightarrow> ''None'' | Some d \<Rightarrow> d) @ ''.''
      else joined_by ''; '' (cl_failed c))"

definition claim_rule :: string where
  "claim_rule =
     ''Support requires every evidence gate plus a View A cost delta interval that ''
     @ ''excludes zero and a paired quality interval showing the cheaper treatment is ''
     @ ''not worse. Delta signs are treatment B minus treatment A.''"

definition claim_json :: "claimability_result \<Rightarrow> json" where
  "claim_json c = JObj
     [(''status'', JStr (claim_status c)),
      (''direction'', (case cl_direction c of None \<Rightarrow> JNull | Some d \<Rightarrow> JStr d)),
      (''rule'', JStr claim_rule), (''failed_conditions'', JArr (map JStr (cl_failed c))),
      (''reason'', JStr (claim_reason c))]"

definition comparison_json :: "number_texts \<Rightarrow> string \<times> string \<Rightarrow> comparison \<Rightarrow> json" where
  "comparison_json nt dirs c = JObj
     [(''schema_version'', JStr ''benchmark-comparison-v1''),
      (''treatments'', JArr [treatment_json (fst dirs) (fst (cm_metadata c)),
                           treatment_json (snd dirs) (snd (cm_metadata c))]),
      (''quality_effect'', quality_json (cm_quality c)),
      (''cost_per_correct_task_delta'', costs_json nt (cm_costs c)),
      (''latency_delta'', latency_json (cm_latency c)), (''claimability'', claim_json (cm_claim c))]"

definition comparison_text :: "number_texts \<Rightarrow> string \<times> string \<Rightarrow> comparison \<Rightarrow> string" where
  "comparison_text nt dirs c = dumps_indented (nt_float nt) (comparison_json nt dirs c) @ [CHR 0x0A]"

section \<open>The table\<close>

definition decimal_cell :: "number_texts \<Rightarrow> decimal option \<Rightarrow> string" where
  "decimal_cell nt x = (case x of None \<Rightarrow> ''None'' | Some d \<Rightarrow> nt_decimal nt d)"

definition cost_cells :: "number_texts \<Rightarrow> string \<Rightarrow> cost_row \<Rightarrow> string list" where
  "cost_cells nt name r =
     [name, decimal_cell nt (co_a r), decimal_cell nt (co_b r), decimal_cell nt (co_delta r)]"

definition latency_cells ::
    "text_env \<Rightarrow> string \<Rightarrow> ((string \<times> string) \<times> latency_delta_row) list \<Rightarrow> string \<Rightarrow> string list" where
  "latency_cells te name rows out =
     (case map_of rows (out, ''p95'') of
        None \<Rightarrow> []
      | Some r \<Rightarrow> [name, py_str te (ld_a r), py_str te (ld_b r), py_str te (nullable_float (ld_delta r))])"

definition count_cells :: "string \<Rightarrow> (run_metadata \<Rightarrow> nat) \<Rightarrow> run_metadata \<times> run_metadata \<Rightarrow> string list" where
  "count_cells name f m = [name, str_int (int (f (fst m))), str_int (int (f (snd m))), '''']"

definition table_rows :: "text_env \<Rightarrow> number_texts \<Rightarrow> comparison \<Rightarrow> string list list" where
  "table_rows te nt c =
     (let m = cm_metadata c
      in [[''Treatment'', py_str te (mt_treatment (fst m)), py_str te (mt_treatment (snd m)), ''''],
          count_cells ''Samples'' mt_sample_size m, count_cells ''Successful responses'' mt_successes m,
          count_cells ''Repeats'' mt_repeats m,
          [''Quality rate effect'', '''', '''', nt_six nt (qe_estimate (cm_quality c)) @ '' (B minus A)''],
          cost_cells nt ''View A cost per correct task'' (cd_view_a (cm_costs c)),
          cost_cells nt ''View B typical cost per correct task'' (cd_view_b (cm_costs c)),
          latency_cells te ''p95 E2E ms'' (cm_latency c) ''e2e_ms'',
          latency_cells te ''p95 TTFT ms'' (cm_latency c) ''ttft_ms''])"

definition table_line :: "string list \<Rightarrow> string" where
  "table_line cells = ''| '' @ joined_by '' | '' cells @ '' |''"

definition comparison_markdown :: "text_env \<Rightarrow> number_texts \<Rightarrow> comparison \<Rightarrow> string" where
  "comparison_markdown te nt c = joined_by [CHR 0x0A]
     ([''# Treatment comparison'', '''', ''| Metric | Treatment A | Treatment B | Delta or effect |'',
       ''|:--|--:|--:|--:|''] @ map table_line (table_rows te nt c)
      @ ['''', ''Claimability: **'' @ claim_status (cm_claim c) @ ''**'', '''', claim_reason (cm_claim c), ''''])"

section \<open>The command\<close>

record compare_env =
  pe_summary :: summary_env
  pe_texts :: number_texts
  pe_root :: string

record run_place =
  pl_parent :: string
  pl_name :: string
  pl_entries :: "folder_entry list"

definition place_dir :: "run_place \<Rightarrow> string" where
  "place_dir p = run_path (pl_parent p) (pl_name p)"

definition place_report :: "compare_env \<Rightarrow> file_store \<Rightarrow> run_place \<Rightarrow> string \<Rightarrow> string + run_summary" where
  "place_report pe files p json_path =
     build_report (pe_summary pe) files (pl_entries p) (pl_parent p) (place_dir p) (pe_root pe) (Some json_path)"

record compared =
  cp_status :: string
  cp_json :: string
  cp_markdown :: string
  cp_reports :: "run_summary list"

definition write_comparison ::
    "compare_env \<Rightarrow> run_place \<Rightarrow> run_place \<Rightarrow> comparison \<Rightarrow> file_store \<Rightarrow> file_store" where
  "write_comparison pe a b c files =
     files(cm_path c \<mapsto> comparison_text (pe_texts pe)
             (shown_dir (pe_root pe) (place_dir a), shown_dir (pe_root pe) (place_dir b)) c)"

text \<open>The files left behind, and the line printed with the reports made.\<close>

definition compare_command ::
    "compare_env \<Rightarrow> run_place \<Rightarrow> run_place \<Rightarrow> file_store \<Rightarrow> file_store \<times> (string + compared)" where
  "compare_command pe a b files =
     (let ce = su_compare (pe_summary pe); te = de_text (ce_data ce) in
      case build_comparison ce files (pl_parent a) (place_dir a) (place_dir b) of
        Inl e \<Rightarrow> (files, Inl e)
      | Inr c \<Rightarrow>
          (let written = write_comparison pe a b c files in
           case comparison_output_paths (pl_parent a)
                  [py_str te (mt_run_id (fst (cm_metadata c))), py_str te (mt_run_id (snd (cm_metadata c)))] of
             Inl e \<Rightarrow> (written, Inl e)
           | Inr (json_path, markdown_path) \<Rightarrow>
               (let left = written(markdown_path \<mapsto> comparison_markdown te (pe_texts pe) c) in
                (left,
                 bind_res (place_report pe left a json_path) (\<lambda>ra.
                 bind_res (if pl_parent b = pl_parent a
                           then bind_res (place_report pe left b json_path) (\<lambda>rb. Inr [rb]) else Inr [])
                   (\<lambda>rest.
                 Inr \<lparr>cp_status = claim_status (cm_claim c), cp_json = json_path, cp_markdown = markdown_path,
                      cp_reports = ra # rest\<rparr>))))))"

section \<open>Lemmas\<close>

lemma first_occurrences_head: "\<exists>rest. first_occurrences (x # xs) = x # rest"
proof -
  have "remdups (ys @ [x]) = filter (\<lambda>y. y \<noteq> x) (remdups ys) @ [x]" for ys
    by (induction ys) auto
  then show ?thesis by (simp add: first_occurrences_def)
qed

lemma treatment_run_id:
  "\<exists>fields. sort_json (treatment_json d m) = JObj fields \<and> dict_get fields ''run_id'' = sort_json (mt_run_id m)"
  unfolding treatment_json_def sort_json.simps
  by (rule exI, rule conjI, rule refl, subst dict_get_sorted) simp_all

lemma document_treatments:
  obtains kvs where "sort_json (comparison_json nt dirs c) = JObj kvs"
    and "map_of kvs ''treatments'' = Some (JArr
           [sort_json (treatment_json (fst dirs) (fst (cm_metadata c))),
            sort_json (treatment_json (snd dirs) (snd (cm_metadata c)))])"
proof -
  obtain kvs where doc: "comparison_json nt dirs c = JObj kvs" and d: "distinct (map fst kvs)"
    and t: "dict_get kvs ''treatments'' = JArr [treatment_json (fst dirs) (fst (cm_metadata c)),
        treatment_json (snd dirs) (snd (cm_metadata c))]"
    by (simp add: comparison_json_def)
  show thesis
    using dict_get_sorted [OF d, of "''treatments''"]
    by (intro that [of "sort_key fst (map (\<lambda>(k, v). (k, sort_json v)) kvs)"])
      (simp_all only: doc t sort_json.simps list.map, simp add: dict_get_def split: option.splits)
qed

lemma document_mentions:
  assumes "mt_run_id (fst (cm_metadata c)) = JStr run_id \<or> mt_run_id (snd (cm_metadata c)) = JStr run_id"
  shows "mentions_run te run_id (sort_json (comparison_json nt dirs c)) = Inr True"
proof -
  obtain kvs where doc: "sort_json (comparison_json nt dirs c) = JObj kvs"
    "map_of kvs ''treatments'' = Some (JArr [sort_json (treatment_json (fst dirs) (fst (cm_metadata c))),
        sort_json (treatment_json (snd dirs) (snd (cm_metadata c)))])"
    by (rule document_treatments)
  with assms show ?thesis
    using treatment_run_id [of "fst dirs" "fst (cm_metadata c)"] treatment_run_id [of "snd dirs" "snd (cm_metadata c)"]
    by (auto simp: mentions_run_def object_or_empty_def simp del: sort_json.simps(2))
qed

lemma build_comparison_Inr:
  assumes "build_comparison ce files parent dir_a dir_b = Inr c"
  obtains a b markdown_path where "read_run ce files dir_a = Inr a" "read_run ce files dir_b = Inr b"
    and "mt_run_id (fst (cm_metadata c)) = dict_get (rd_manifest a) ''run_id''"
    and "mt_run_id (snd (cm_metadata c)) = dict_get (rd_manifest b) ''run_id''"
    and "comparison_output_paths parent
           [py_str (de_text (ce_data ce)) (mt_run_id (fst (cm_metadata c))),
            py_str (de_text (ce_data ce)) (mt_run_id (snd (cm_metadata c)))] = Inr (cm_path c, markdown_path)"
  using assms
  by (auto simp: build_comparison_def bind_res_Inr Let_def run_metadata_of_def intro!: that)

text \<open>Neither output is a manifest, nor are they the same file.\<close>

lemma output_paths_apart:
  assumes "comparison_output_paths folder ids = Inr (j, m)"
  shows "j \<noteq> run_path d ''manifest.yaml''" "m \<noteq> run_path d ''manifest.yaml''" "j \<noteq> m"
proof -
  have "last j = CHR ''n'' \<and> last m = CHR ''d''"
    using assms by (auto simp: comparison_output_paths_def run_path_def Let_def split: list.splits if_splits)
  moreover have "last (run_path d ''manifest.yaml'') = CHR ''l''" by (simp add: run_path_def)
  ultimately show "j \<noteq> run_path d ''manifest.yaml''" "m \<noteq> run_path d ''manifest.yaml''" "j \<noteq> m" by auto
qed

lemma read_run_manifest:
  assumes "read_run ce files d = Inr a"
  shows "\<exists>t. files (run_path d ''manifest.yaml'') = Some t \<and> ce_yaml ce t = Some (JObj (rd_manifest a))"
  using assms unfolding read_run_def
  by (auto simp: bind_res_Inr split: option.split_asm) (auto split: json.split_asm if_split_asm)

text \<open>The comparison a report takes over.\<close>

lemma assemble_report_comparison:
  assumes "assemble_report su files entries parent run_dir root_folder preferred manifest s records = Inr sm"
  obtains run_id found where "json_item manifest ''run_id'' = Inr run_id"
    and "comparison_for_run (de_text (ce_data (su_compare su))) files entries parent run_dir
           (py_str (de_text (ce_data (su_compare su))) run_id) preferred = Inr found"
    and "\<And>x. found = Some x \<Longrightarrow> x \<noteq> JNull \<Longrightarrow> sm_comparison sm = Some x"
  using assms unfolding assemble_report_def Let_def bind_res_Inr release_report_Inr
  by (elim exE conjE) (rule that, assumption+, auto simp: summary_of_records_def Let_def)

lemma build_report_comparison:
  assumes "build_report su files entries parent run_dir root_folder preferred = Inr sm"
    and "files (run_path run_dir ''manifest.yaml'') = Some mtext"
    and "ce_yaml (su_compare su) mtext = Some (JObj manifest)" "dict_get manifest ''run_id'' = JStr run_id"
  obtains found where
    "comparison_for_run (de_text (ce_data (su_compare su))) files entries parent run_dir run_id preferred = Inr found"
    and "\<And>x. found = Some x \<Longrightarrow> x \<noteq> JNull \<Longrightarrow> sm_comparison sm = Some x"
proof -
  obtain s records where a: "assemble_report su files entries parent run_dir root_folder preferred (JObj manifest) s records = Inr sm"
    using assms(1-3) unfolding build_report_def Let_def by (auto simp: bind_res_Inr split: if_splits)
  obtain v found where v: "json_item (JObj manifest) ''run_id'' = Inr v"
    "comparison_for_run (de_text (ce_data (su_compare su))) files entries parent run_dir
       (py_str (de_text (ce_data (su_compare su))) v) preferred = Inr found"
    "\<And>x. found = Some x \<Longrightarrow> x \<noteq> JNull \<Longrightarrow> sm_comparison sm = Some x"
    by (rule assemble_report_comparison [OF a]) (rule that)
  have "v = JStr run_id" using v(1) assms(4) by (auto simp: dict_get_def split: option.splits)
  with v(2) have "comparison_for_run (de_text (ce_data (su_compare su))) files entries parent run_dir run_id preferred = Inr found"
    by simp
  then show thesis by (rule that) (rule v(3))
qed

text \<open>A report that is told of a comparison which names its run takes it over.\<close>

lemma report_takes_comparison:
  assumes "place_report pe files p json_path = Inr sm"
    and "files (run_path (place_dir p) ''manifest.yaml'') = Some mtext"
    and "ce_yaml (su_compare (pe_summary pe)) mtext = Some (JObj manifest)" "dict_get manifest ''run_id'' = JStr run_id"
    and "files json_path = Some content" "te_loads (de_text (ce_data (su_compare (pe_summary pe)))) content = Some doc"
    and "mentions_run (de_text (ce_data (su_compare (pe_summary pe)))) run_id doc = Inr True" "doc \<noteq> JNull"
  shows "sm_comparison sm = Some doc"
proof -
  obtain found where found:
    "comparison_for_run (de_text (ce_data (su_compare (pe_summary pe)))) files (pl_entries p) (pl_parent p) (place_dir p)
       run_id (Some json_path) = Inr found"
    "\<And>x. found = Some x \<Longrightarrow> x \<noteq> JNull \<Longrightarrow> sm_comparison sm = Some x"
    by (rule build_report_comparison [OF assms(1) [unfolded place_report_def] assms(2-4)]) (rule that)
  have "found = Some doc"
    using found(1) assms(5-7)
      first_occurrences_head [of json_path "[run_path (place_dir p) ''comparison.json'']
        @ pair_paths run_id (pl_entries p) @ [run_path (pl_parent p) ''comparison.json'']"]
    by (auto simp: comparison_for_run_def)
  with found(2) assms(8) show ?thesis by blast
qed

section \<open>The command and its reports\<close>

text \<open>
  If both runs can be compared, the command leaves two new texts and nothing else; what it writes as
  JSON is the comparison that the report of either run, made of the files left, takes over.
\<close>

theorem compared_runs_report_it:
  assumes "build_comparison ce files (pl_parent a) (place_dir a) (place_dir b) = Inr c"
    and "ce = su_compare (pe_summary pe)" "te = de_text (ce_data ce)"
    and "dirs = (shown_dir (pe_root pe) (place_dir a), shown_dir (pe_root pe) (place_dir b))"
    and "te_loads te (comparison_text (pe_texts pe) dirs c) = Some (sort_json (comparison_json (pe_texts pe) dirs c))"
    and "mt_run_id (fst (cm_metadata c)) = JStr id_a" "mt_run_id (snd (cm_metadata c)) = JStr id_b"
    and "compare_command pe a b files = (files', result)"
  shows "\<exists>markdown_path.
      files' = files(cm_path c \<mapsto> comparison_text (pe_texts pe) dirs c, markdown_path \<mapsto> comparison_markdown te (pe_texts pe) c)
    \<and> (\<forall>p sm. p \<in> {a, b} \<longrightarrow> place_report pe files' p (cm_path c) = Inr sm \<longrightarrow>
         sm_comparison sm = Some (sort_json (comparison_json (pe_texts pe) dirs c)))"
proof -
  obtain ra rb markdown_path where runs: "read_run ce files (place_dir a) = Inr ra" "read_run ce files (place_dir b) = Inr rb"
    and ids: "mt_run_id (fst (cm_metadata c)) = dict_get (rd_manifest ra) ''run_id''"
      "mt_run_id (snd (cm_metadata c)) = dict_get (rd_manifest rb) ''run_id''"
    and paths: "comparison_output_paths (pl_parent a)
        [py_str te (mt_run_id (fst (cm_metadata c))), py_str te (mt_run_id (snd (cm_metadata c)))] = Inr (cm_path c, markdown_path)"
    unfolding assms(3) by (rule build_comparison_Inr [OF assms(1)])
  let ?doc = "sort_json (comparison_json (pe_texts pe) dirs c)"
  let ?left = "files(cm_path c \<mapsto> comparison_text (pe_texts pe) dirs c, markdown_path \<mapsto> comparison_markdown te (pe_texts pe) c)"
  note apart = output_paths_apart [OF paths]
  have left: "files' = ?left"
    using assms(8) assms(1)
    by (simp add: compare_command_def Let_def assms(2) [symmetric] assms(3) [symmetric] paths write_comparison_def
        assms(4) [symmetric])
  have told: "sm_comparison sm = Some ?doc"
    if report: "place_report pe files' p (cm_path c) = Inr sm" and run: "read_run ce files (place_dir p) = Inr r"
      and named: "dict_get (rd_manifest r) ''run_id'' = JStr run_id" "run_id \<in> {id_a, id_b}" for p sm r run_id
  proof -
    obtain t where t: "files (run_path (place_dir p) ''manifest.yaml'') = Some t" "ce_yaml ce t = Some (JObj (rd_manifest r))"
      using read_run_manifest [OF run] by blast
    have kept: "files' (run_path (place_dir p) ''manifest.yaml'') = Some t"
      and written: "files' (cm_path c) = Some (comparison_text (pe_texts pe) dirs c)"
      using t(1) apart apart(1,2) [symmetric] by (simp_all add: left)
    have mentioned: "mentions_run te run_id ?doc = Inr True"
      using assms(6,7) named(2) by (intro document_mentions) auto
    have "?doc \<noteq> JNull" by (simp add: comparison_json_def)
    with report_takes_comparison [OF report kept, folded assms(2), OF t(2) named(1) written, folded assms(3),
        OF assms(5) mentioned] show ?thesis by blast
  qed
  have "sm_comparison sm = Some ?doc" if "p \<in> {a, b}" "place_report pe files' p (cm_path c) = Inr sm" for p sm
    using that told [OF that(2), of ra id_a] told [OF that(2), of rb id_b] runs ids assms(6,7) by auto
  with left show ?thesis by blast
qed

end
