(* ===== verification/Spec2Isabelle.thy ===== *)
theory Spec2Isabelle
  imports Fault_Evidence Decision_Svg Benchmark_Run Comparison_Output
begin

text \<open>
  Verification of the inference gateway and of the benchmark that measures what it costs. File names
  are those under \<open>src/inference_gateway/\<close> of the repository, unless they start with \<open>scripts/\<close>.

  \<^bold>\<open>The program.\<close> A client posts a chat request to the gateway (\<open>api/routes.py\<close>), which
  authenticates it (\<open>security/auth.py\<close>), reads its metadata headers and its body (\<open>api/schemas.py\<close>),
  selects a route from the policy (\<open>routing/policy.py\<close>) and lets the executor call the providers of
  the route in turn under one deadline (\<open>routing/fallback.py\<close>). A provider is an adapter to an upstream
  (\<open>adapters/\<close>); the application factory (\<open>api/app.py\<close>) builds one for each routing provider of the
  accepted configuration (\<open>config/\<close>). Every answer is counted (\<open>telemetry/metrics.py\<close>) and logged.
  The benchmark (\<open>benchmark/\<close>) generates frozen data sets, drives the gateway through a scenario,
  keeps one record for each call, prices them (\<open>costing/\<close>, \<open>config/pricing.py\<close>), reports on a run and
  compares two. A fault service (\<open>faultmock/\<close>) and the fault evidence command (\<open>fault_evidence.py\<close>)
  exercise the error paths; \<open>scripts/publish-run.py\<close> and \<open>scripts/decision-brief-charts.py\<close> turn
  reviewed runs into public documents.

  \<^bold>\<open>Theories.\<close>
  \<^item> \<open>Gateway_Prelude\<close>, \<open>Rounding\<close>, \<open>Py_Numbers\<close>, \<open>Json_Values\<close>, \<open>Json_Text\<close>: Python's strings,
    slices, dictionaries and decoded JSON; \<open>Decimal\<close> and \<open>float\<close> as rationals with the rounding of every
    operation written out; \<open>json.dumps\<close> and a reader of what it writes. Errors are values of a sum
    type, composed by \<open>bind_res\<close>, \<open>seq_checks\<close> and \<open>traverse\<close>.
  \<^item> \<open>Enums_Errors\<close> (\<open>models/enums.py\<close>, \<open>models/errors.py\<close>), \<open>Domain\<close> (\<open>models/domain.py\<close>),
    \<open>Wire_Schemas\<close> (\<open>api/schemas.py\<close>): the vocabulary and the data, each class a record with its
    validator.
  \<^item> \<open>Config_Schema\<close> (\<open>config/schema.py\<close>), \<open>Lab_Config\<close> (the documents the repository ships), \<open>Loading\<close>
    (\<open>config/loader.py\<close>, \<open>load_auth_config\<close>), \<open>Security\<close> (\<open>security/auth.py\<close>).
  \<^item> \<open>Policy_Router\<close>, \<open>Fallback\<close>, \<open>Fallback_Liveness\<close> (\<open>routing/\<close>): time is explicit, an adapter maps the
    time of a call to its duration and answer, a stream is a script of waits and events, and the
    \<open>aclose\<close> awaited after an attempt takes a time of its own and may fail.
  \<^item> \<open>Adapter_Contract\<close>, \<open>Mock_Adapter\<close>, \<open>OpenAI_Adapter\<close>, \<open>Anthropic_Adapter\<close>, \<open>Local_Adapter\<close>
    (\<open>adapters/\<close>, \<open>benchmark/local.py\<close>): the contract of a stream as a locale, and the adapters that keep it.
  \<^item> \<open>Metrics\<close>, \<open>Gateway_Routes\<close>, \<open>App_Wiring\<close>, \<open>Service\<close> (\<open>telemetry/metrics.py\<close>, \<open>api/\<close>, \<open>main.py\<close>,
    \<open>local_smoke.py\<close>): the state of the gateway, its endpoints, its construction and its start.
  \<^item> \<open>Fault_Mock\<close>, \<open>Fault_Evidence\<close> (\<open>faultmock/app.py\<close>, \<open>fault_evidence.py\<close>).
  \<^item> \<open>Bench_Models\<close>, \<open>Evaluators\<close>, \<open>Datasets\<close>, \<open>Generators\<close>, \<open>Generated_Data\<close>, \<open>Harness\<close>, \<open>Manifest\<close>,
    \<open>Benchmark_Run\<close> (\<open>benchmark/\<close>): from the generated data set to the evidence of a run on disk.
  \<^item> \<open>Cost_Models\<close>, \<open>Cost_Engine\<close>, \<open>Scenario_Grid\<close>, \<open>Statistics\<close>, \<open>Report\<close>, \<open>Report_Costs\<close>, \<open>Run_Summary\<close>,
    \<open>Comparison\<close>, \<open>Comparison_Output\<close> (\<open>costing/\<close>, \<open>benchmark/statistics.py\<close>, \<open>report.py\<close>,
    \<open>comparison.py\<close>): what a run means.
  \<^item> \<open>Publication\<close>, \<open>Decision_Charts\<close>, \<open>Decision_Svg\<close> (\<open>scripts/\<close>).

  \<^bold>\<open>What is shown.\<close>
  \<^item> \<^emph>\<open>Data policy.\<close> Restricted requests reach private providers only: in the router, in the executor,
    through the whole endpoint, and from the files a gateway starts from (\<open>restricted_routes_are_private\<close>,
    \<open>executor_never_crosses\<close>, \<open>restricted_end_to_end\<close>, \<open>started_gateway_sound\<close>).
  \<^item> \<^emph>\<open>Fallback.\<close> History, deadline and progress of the executor, no replay of a started stream, and
    that a stream without end is cut. The deadline of a stream holds up to what no timeout of the
    code covers: the consumer's hold of a chunk and the closing of an iterator.
  \<^item> \<^emph>\<open>The endpoint.\<close> Nothing happens before admission, every admitted answer is counted once, the team
    comes from the key.
  \<^item> \<^emph>\<open>Adapters.\<close> Their streams are well-formed for all upstream behaviour, their errors normalised, and
    where they are not the exact exceptions; the fault service refines an abstract trace and, over
    any HTTP client with a read timeout, drives the adapter to the specified outcome of each scenario.
  \<^item> \<^emph>\<open>Evidence.\<close> Generated data sets pass their checksums and load; the harness reads the
    gateway's streams back; a completed run leaves exactly the planned evidence, which the report can read
    unless a line of it holds a line break, and a failed one leaves none that is accepted; reports
    account for every record and decide each traffic cell by its own records; claims have passed
    every gate; a publication is exactly the reviewed files and the generated ones.
  \<^item> \<^emph>\<open>Money.\<close> Prices are exact within the precision of \<open>Decimal\<close>; the step path of the chart shows the
    cost of the replicas a volume needs unless the least volume is a multiple of the capacity, and the
    loop that draws it ends exactly if the capacity is positive or there is no step to draw.
  A property whose text says \<open>the code as it is\<close> records a behaviour that departs from what the
  documentation of the code promises.

  \<^bold>\<open>Interfaces.\<close> \<open>str_enum\<close> (wire values of an enumeration), \<open>rounding\<close> (\<open>Decimal\<close> and \<open>float\<close>),
  \<open>route_filter\<close> (router and executor), \<open>counter_store\<close> (metric series), \<open>timed_adapters\<close> and \<open>timed_streams\<close>
  (calls take no negative time), \<open>provider_stream\<close> (one adapter) and \<open>provider_pool\<close> (those of a
  gateway) are locales, interpreted on the definitions of the program in the theories that provide them.

  \<^bold>\<open>Bounds and fuel.\<close>
  \<^item> An endless source of stream events is run on its first \<open>n\<close>: with at least \<open>d\<close> seconds per event, \<open>n\<close>
    is enough when the time limit of an attempt is at most \<open>n * d\<close>, as more events do not fit before it.
  \<^item> The loop of \<open>private_steps\<close> may not end and is a \<open>partial_function\<close> into \<open>option\<close>; its ending is
    characterised.
  \<^item> The reader of JSON texts recurs on fuel; one more than the length of the text is enough, as each
    value read consumes a character.
  \<^item> \<open>await_ready\<close> polls at most as often as the code does.
  \<^item> \<open>Decimal\<close> has 28 significant digits and rounds half to even, \<open>float\<close> has 53 bits; exponents are not
    bounded, so overflow to infinity and underflow are outside the model, as are NaN and infinities.
  \<^item> Characters are 8-bit; Unicode beyond that is a parameter where the code folds case.

  \<^bold>\<open>Parameters.\<close> What is not in the repository is an argument: the HTTP client, the vendor SDK, PyYAML,
  \<open>json.loads\<close>, SHA-256, \<open>random.Random\<close>, \<open>uuid5\<close>, \<open>log10\<close>, the clock, the environment and the file
  system. Pydantic's conversion of single fields is an argument where documents are read; validators
  of the repository are definitions.

  \<^bold>\<open>Not modelled.\<close>
  \<^item> The JSON and CSV renderings \<open>build_report\<close> writes beside the summary it returns: output of values
    that are modelled.
  \<^item> Starting and stopping of processes in \<open>local_smoke.py\<close> and \<open>fault_evidence.py\<close>, \<open>faultmock/__main__.py\<close>,
    argument parsing, printing and the installation of the log handler.
  \<^item> The text of \<open>/metrics\<close>, which \<open>prometheus_client\<close> renders, and \<open>load_cost_config\<close> and
    \<open>load_faultmock_config\<close>, which hand a parsed file to pydantic.
  \<^item> A \<open>ProviderError\<close> raised by the closing of a stream's iterator: the adapters are generators, which
    raise theirs while they are iterated; any other exception of the closing is in the model.
  \<^item> \<open>adapters/base.py\<close>, a protocol without code, and the package initialisers, which export names.
  \<^item> Concurrency inside one process: a request is a function of the times its calls take, so no
    two requests share state but the metrics, which are only added to, and the scripts of the mock and
    the fault service, whose operations are sequences of steps.
\<close>

end
